(* ===== verification/Prelude.thy ===== *)
theory Prelude
  imports
    "HOL-Library.Finite_Map"
    "HOL-Library.Word"
    "HOL-Library.List_Lexorder"
    "HOL-Library.Char_ord"
    "HOL-Library.Sublist"
begin

text \<open>
  Shared vocabulary of the development: the Rust result type with the \<open>?\<close> operator, the machine
  integers, hash maps as finite maps, and the byte-string functions of the Rust standard library
  that the code under \<^verbatim>\<open>src/domain\<close> calls (\<open>trim\<close>, \<open>strip_prefix\<close>, \<open>split\<close>, \<open>split_once\<close>, the
  IP address parsers).  A Rust \<open>String\<close> is its sequence of UTF-8 bytes, so \<open>length\<close> is
  \<open>str::len\<close> and the order on strings is the bytewise lexicographic order of \<open>str::cmp\<close>.
\<close>

section \<open>Collections of simplification rules\<close>

named_theorems result_simps "when a Rust result is Ok or Err"
named_theorems view_simps "unfolding of the record builders of the model"

section \<open>Machine integers\<close>

type_synonym u8 = "8 word"
type_synonym u32 = "32 word"
type_synonym u64 = "64 word"
type_synonym i64 = int \<comment> \<open>timestamps: stored and copied, never computed with\<close>
type_synonym bytes = "u8 list"

text \<open>\<open>u32::saturating_add\<close> and \<open>u32::try_from(usize).unwrap_or(u32::MAX)\<close>.\<close>

definition saturating_add :: "'a::len word \<Rightarrow> 'a word \<Rightarrow> 'a word" where
  "saturating_add a b = (if unat a + unat b < 2 ^ LENGTH('a) then a + b else - 1)"

definition saturate_u32 :: "nat \<Rightarrow> u32" where
  "saturate_u32 n = (if n < 2 ^ 32 then of_nat n else - 1)"

section \<open>Results\<close>

text \<open>
  \<open>Result<T, E>\<close> is \<open>'e + 'a\<close> with \<open>Inl\<close> for \<open>Err\<close>.  \<open>bind_res r k\<close> is \<open>let x = r?; k(x)\<close>,
  \<open>then_res r s\<close> is \<open>r?; s\<close> and \<open>first_err [r1, \<dots>, rn]\<close> is \<open>r1?; \<dots>; rn\<close> (or a
  \<open>for\<close> loop of such checks).
\<close>

definition bind_res :: "'e + 'a \<Rightarrow> ('a \<Rightarrow> 'e + 'b) \<Rightarrow> 'e + 'b" where
  "bind_res r k = (case r of Inl e \<Rightarrow> Inl e | Inr x \<Rightarrow> k x)"

definition then_res :: "'e + 'a \<Rightarrow> 'e + 'b \<Rightarrow> 'e + 'b" where
  "then_res r s = bind_res r (\<lambda>_. s)"

primrec first_err :: "('e + unit) list \<Rightarrow> 'e + unit" where
  "first_err [] = Inr ()"
| "first_err (r # rs) = then_res r (first_err rs)"

text \<open>\<open>if !cond { return Err(e) }\<close>, \<open>Option::ok_or\<close> and \<open>Result::map_err\<close>.\<close>

definition ensure :: "bool \<Rightarrow> 'e \<Rightarrow> 'e + unit" where
  "ensure b e = (if b then Inr () else Inl e)"

definition ok_or :: "'a option \<Rightarrow> 'e \<Rightarrow> 'e + 'a" where
  "ok_or x e = (case x of None \<Rightarrow> Inl e | Some v \<Rightarrow> Inr v)"

definition map_err :: "('e \<Rightarrow> 'f) \<Rightarrow> 'e + 'a \<Rightarrow> 'f + 'a" where
  "map_err f r = (case r of Inl e \<Rightarrow> Inl (f e) | Inr x \<Rightarrow> Inr x)"

section \<open>Strings\<close>

text \<open>
  The UTF-8 encodings of the characters with the Unicode property \<open>White_Space\<close>, which
  \<open>str::trim\<close> strips: U+0009 to U+000D, U+0020, U+0085, U+00A0, U+1680, U+2000 to U+200A, U+2028,
  U+2029, U+202F, U+205F and U+3000.
\<close>

definition whitespace_encodings :: "string list" where
  "whitespace_encodings =
     map (map char_of)
      ([[9], [10], [11], [12], [13], [32], [194, 133], [194, 160], [225, 154, 128]]
       @ map (\<lambda>b. [226, 128, b]) ([128..138] @ [168, 169, 175])
       @ [[226, 129, 159], [227, 128, 128 :: int]])"

function strip_encoded :: "string list \<Rightarrow> string \<Rightarrow> string" where
  "strip_encoded ws s =
     (case find (\<lambda>w. w \<noteq> [] \<and> prefix w s) ws of
        None \<Rightarrow> s
      | Some w \<Rightarrow> strip_encoded ws (drop (length w) s))"
  by pat_completeness auto
termination
  by (relation "measure (\<lambda>(ws, s). length s)")
    (auto simp: find_Some_iff prefix_def)

declare strip_encoded.simps [simp del]

definition trim_start :: "string \<Rightarrow> string" where
  "trim_start s = strip_encoded whitespace_encodings s"

definition trim_end :: "string \<Rightarrow> string" where
  "trim_end s = rev (strip_encoded (map rev whitespace_encodings) (rev s))"

definition trim :: "string \<Rightarrow> string" where
  "trim s = trim_end (trim_start s)"

text \<open>\<open>str::strip_prefix\<close>, \<open>split_once\<close>, \<open>rsplit_once\<close>, \<open>split\<close> and \<open>contains\<close>.\<close>

definition strip_prefix :: "string \<Rightarrow> string \<Rightarrow> string option" where
  "strip_prefix p s = (if prefix p s then Some (drop (length p) s) else None)"

fun split_once_str :: "string \<Rightarrow> string \<Rightarrow> (string \<times> string) option" where
  "split_once_str p [] = (if p = [] then Some ([], []) else None)"
| "split_once_str p (c # s) =
     (if prefix p (c # s) then Some ([], drop (length p) (c # s))
      else map_option (\<lambda>(a, b). (c # a, b)) (split_once_str p s))"

definition split_once :: "char \<Rightarrow> string \<Rightarrow> (string \<times> string) option" where
  "split_once c s = split_once_str [c] s"

definition rsplit_once :: "char \<Rightarrow> string \<Rightarrow> (string \<times> string) option" where
  "rsplit_once c s = map_option (\<lambda>(b, a). (rev a, rev b)) (split_once c (rev s))"

fun split_char :: "char \<Rightarrow> string \<Rightarrow> string list" where
  "split_char c [] = [[]]"
| "split_char c (d # s) =
     (if d = c then [] # split_char c s
      else (case split_char c s of [] \<Rightarrow> [[d]] | w # ws \<Rightarrow> (d # w) # ws))"

definition contains_str :: "string \<Rightarrow> string \<Rightarrow> bool" where
  "contains_str p s \<longleftrightarrow> split_once_str p s \<noteq> None"

text \<open>The byte classes of \<open>u8\<close>.\<close>

definition byte_between :: "int \<Rightarrow> int \<Rightarrow> char \<Rightarrow> bool" where
  "byte_between lo hi c \<longleftrightarrow> lo \<le> of_char c \<and> of_char c \<le> hi"

definition is_ascii_digit :: "char \<Rightarrow> bool" where
  "is_ascii_digit c \<longleftrightarrow> byte_between 48 57 c"

definition is_ascii_lower :: "char \<Rightarrow> bool" where
  "is_ascii_lower c \<longleftrightarrow> byte_between 97 122 c"

definition is_ascii_alphabetic :: "char \<Rightarrow> bool" where
  "is_ascii_alphabetic c \<longleftrightarrow> byte_between 65 90 c \<or> is_ascii_lower c"

definition is_ascii_alphanumeric :: "char \<Rightarrow> bool" where
  "is_ascii_alphanumeric c \<longleftrightarrow> is_ascii_alphabetic c \<or> is_ascii_digit c"

definition is_ascii_whitespace :: "char \<Rightarrow> bool" where
  "is_ascii_whitespace c \<longleftrightarrow> of_char c \<in> {9, 10, 12, 13, 32 :: int}"

section \<open>Number and address parsers of the standard library\<close>

text \<open>\<open>char::to_digit\<close> for a radix up to 16.\<close>

definition to_digit :: "int \<Rightarrow> char \<Rightarrow> int option" where
  "to_digit radix c =
     (let d = (if is_ascii_digit c then of_char c - 48
               else if byte_between 97 102 c then of_char c - 87
               else if byte_between 65 70 c then of_char c - 55 else 16)
      in if d < radix then Some d else None)"

text \<open>
  \<open>core::net::parser\<close>: a parser consumes a prefix of its input.  \<open>read_number\<close> reads a maximal
  run of digits; a limit on the number of digits fails when the run is longer, and the value must
  fit the target integer (\<open>bound\<close> is its first value out of range).
\<close>

type_synonym 'a parser = "string \<Rightarrow> ('a \<times> string) option"

fun digits_value :: "int \<Rightarrow> int \<Rightarrow> string \<Rightarrow> int" where
  "digits_value radix acc [] = acc"
| "digits_value radix acc (c # s) =
     (case to_digit radix c of None \<Rightarrow> acc | Some d \<Rightarrow> digits_value radix (acc * radix + d) s)"

definition read_number :: "int \<Rightarrow> nat option \<Rightarrow> bool \<Rightarrow> int \<Rightarrow> int parser" where
  "read_number radix max_digits allow_zero_prefix bound s =
     (let ds = takeWhile (\<lambda>c. to_digit radix c \<noteq> None) s;
          rest = dropWhile (\<lambda>c. to_digit radix c \<noteq> None) s;
          n = digits_value radix 0 ds
      in if ds = [] \<or> (case max_digits of None \<Rightarrow> False | Some m \<Rightarrow> m < length ds)
            \<or> (\<not> allow_zero_prefix \<and> take 1 s = ''0'' \<and> 1 < length ds) \<or> bound \<le> n
         then None else Some (n, rest))"

definition read_given_char :: "char \<Rightarrow> unit parser" where
  "read_given_char c s = (case s of [] \<Rightarrow> None | d # r \<Rightarrow> if d = c then Some ((), r) else None)"

definition read_separator :: "char \<Rightarrow> nat \<Rightarrow> 'a parser \<Rightarrow> 'a parser" where
  "read_separator sep i p s =
     (if 0 < i then Option.bind (read_given_char sep s) (\<lambda>(_, r). p r) else p s)"

definition read_ipv4_addr :: "unit parser" where
  "read_ipv4_addr s0 =
     (let octet = (\<lambda>i. read_separator CHR ''.'' i (read_number 10 (Some 3) False 256))
      in Option.bind (octet 0 s0) (\<lambda>(_, s1).
         Option.bind (octet 1 s1) (\<lambda>(_, s2).
         Option.bind (octet 2 s2) (\<lambda>(_, s3).
         Option.bind (octet 3 s3) (\<lambda>(_, s4). Some ((), s4))))))"

text \<open>\<open>read_groups\<close>: the number of 16-bit groups read, and whether the last was an IPv4 address.\<close>

function read_groups :: "nat \<Rightarrow> nat \<Rightarrow> string \<Rightarrow> (nat \<times> bool) \<times> string" where
  "read_groups limit i s =
     (if i < limit then
        (case (if i < limit - 1 then read_separator CHR '':'' i read_ipv4_addr s else None) of
           Some (_, r) \<Rightarrow> ((i + 2, True), r)
         | None \<Rightarrow>
             (case read_separator CHR '':'' i (read_number 16 (Some 4) True 65536) s of
                None \<Rightarrow> ((i, False), s)
              | Some (_, r) \<Rightarrow> read_groups limit (Suc i) r))
      else ((limit, False), s))"
  by pat_completeness auto
termination
  by (relation "measure (\<lambda>(limit, i, s). limit - i)") auto

declare read_groups.simps [simp del]

definition read_ipv6_addr :: "unit parser" where
  "read_ipv6_addr s =
     (case read_groups 8 0 s of ((head_size, head_ipv4), r) \<Rightarrow>
        if head_size = 8 then Some ((), r)
        else if head_ipv4 then None
        else Option.bind (read_given_char CHR '':'' r) (\<lambda>(_, r1).
             Option.bind (read_given_char CHR '':'' r1) (\<lambda>(_, r2).
               Some ((), snd (read_groups (8 - (head_size + 1)) 0 r2)))))"

definition read_port :: "int parser" where
  "read_port s =
     Option.bind (read_given_char CHR '':'' s) (\<lambda>(_, r). read_number 10 None True 65536 r)"

definition read_scope_id :: "int parser" where
  "read_scope_id s =
     Option.bind (read_given_char CHR ''%'' s) (\<lambda>(_, r). read_number 10 None True 4294967296 r)"

definition read_socket_addr_v4 :: "int parser" where
  "read_socket_addr_v4 s = Option.bind (read_ipv4_addr s) (\<lambda>(_, r). read_port r)"

definition read_socket_addr_v6 :: "int parser" where
  "read_socket_addr_v6 s0 =
     Option.bind (read_given_char CHR ''['' s0) (\<lambda>(_, s1).
     Option.bind (read_ipv6_addr s1) (\<lambda>(_, s2).
       let s3 = (case read_scope_id s2 of None \<Rightarrow> s2 | Some (_, r) \<Rightarrow> r)
       in Option.bind (read_given_char CHR '']'' s3) (\<lambda>(_, s4). read_port s4)))"

text \<open>\<open>parse::<Ipv6Addr>()\<close> and \<open>parse::<SocketAddr>()\<close>; the latter is modelled by its port.\<close>

definition parse_ipv6_ok :: "string \<Rightarrow> bool" where
  "parse_ipv6_ok s \<longleftrightarrow> read_ipv6_addr s = Some ((), [])"

definition parse_socket_addr :: "string \<Rightarrow> int option" where
  "parse_socket_addr s =
     (let r = (case read_socket_addr_v4 s of Some x \<Rightarrow> Some x | None \<Rightarrow> read_socket_addr_v6 s)
      in case r of Some (port, []) \<Rightarrow> Some port | _ \<Rightarrow> None)"

text \<open>\<open>str::parse::<u16>\<close> on a string of ASCII digits.\<close>

definition parse_u16 :: "string \<Rightarrow> int option" where
  "parse_u16 s =
     (case read_number 10 None True 65536 s of Some (n, []) \<Rightarrow> Some n | _ \<Rightarrow> None)"

section \<open>Operations with a state\<close>

text \<open>
  An operation that changes a state returns the state next to its result, because what it changed before an
  error stays changed.  \<open>attempt\<close> is the \<open>?\<close> operator on a result that leaves the state alone, \<open>and_then\<close> the
  one on the result of such an operation.
\<close>

definition attempt :: "'s \<Rightarrow> 'e + 'a \<Rightarrow> ('a \<Rightarrow> 's \<times> ('e + 'b)) \<Rightarrow> 's \<times> ('e + 'b)" where
  "attempt s r k = (case r of Inl e \<Rightarrow> (s, Inl e) | Inr x \<Rightarrow> k x)"

definition and_then :: "'s \<times> ('e + 'a) \<Rightarrow> ('s \<Rightarrow> 'a \<Rightarrow> 's \<times> ('e + 'b)) \<Rightarrow> 's \<times> ('e + 'b)" where
  "and_then p k = (case p of (s, Inl e) \<Rightarrow> (s, Inl e) | (s, Inr x) \<Rightarrow> k s x)"

section \<open>Hash maps\<close>

text \<open>
  \<open>HashMap<K, V>\<close> is \<open>('k, 'v) fmap\<close>: \<open>get\<close> is \<open>fmlookup\<close>, \<open>insert\<close> is \<open>fmupd\<close>, \<open>remove\<close> is
  \<open>fmdrop\<close> and a loop over \<open>values_mut()\<close> is \<open>fmmap\<close>.  \<open>fm_modify\<close> is
  \<open>if let Some(v) = m.get_mut(k) { .. }\<close>.
\<close>

definition fm_modify :: "'k \<Rightarrow> ('v \<Rightarrow> 'v) \<Rightarrow> ('k, 'v) fmap \<Rightarrow> ('k, 'v) fmap" where
  "fm_modify k f m = (case fmlookup m k of None \<Rightarrow> m | Some v \<Rightarrow> fmupd k (f v) m)"

definition contains_key :: "('k, 'v) fmap \<Rightarrow> 'k \<Rightarrow> bool" where
  "contains_key m k \<longleftrightarrow> fmlookup m k \<noteq> None"

section \<open>Lemmas on results\<close>

lemma bind_res_simps [simp]:
  "bind_res (Inr x) k = k x"
  "bind_res (Inl e) k = Inl e"
  by (simp_all add: bind_res_def)

lemma bind_res_Inr [result_simps]:
  "bind_res r k = Inr y \<longleftrightarrow> (\<exists>x. r = Inr x \<and> k x = Inr y)"
  by (cases r) auto

lemma then_res_simps [simp]:
  "then_res (Inr x) s = s"
  "then_res (Inl e) s = Inl e"
  by (simp_all add: then_res_def)

lemma then_res_Inr [result_simps]:
  "then_res r s = Inr y \<longleftrightarrow> (\<exists>x. r = Inr x) \<and> s = Inr y"
  by (cases r) auto

lemma unit_Inr_iff [result_simps]: "(\<exists>x. r = Inr (x :: unit)) \<longleftrightarrow> r = Inr ()"
  by auto

lemma ensure_Inr [result_simps]: "ensure b e = Inr u \<longleftrightarrow> b"
  by (simp add: ensure_def)

lemma ensure_Inl [result_simps]: "ensure b e = Inl d \<longleftrightarrow> \<not> b \<and> d = e"
  by (auto simp: ensure_def)

lemma ok_or_Inr [result_simps]: "ok_or x e = Inr v \<longleftrightarrow> x = Some v"
  by (cases x) (auto simp: ok_or_def)

lemma map_err_Inr [result_simps]: "map_err f r = Inr v \<longleftrightarrow> r = Inr v"
  by (cases r) (auto simp: map_err_def)

lemma map_err_Inl [result_simps]: "map_err f r = Inl e \<longleftrightarrow> (\<exists>d. r = Inl d \<and> e = f d)"
  by (cases r) (auto simp: map_err_def)

lemma first_err_Inr [result_simps]: "first_err rs = Inr u \<longleftrightarrow> (\<forall>r \<in> set rs. r = Inr ())"
  by (induction rs) (auto simp: result_simps)

lemma attempt_Inr [result_simps]: "attempt s r k = (s', Inr y) \<longleftrightarrow> (\<exists>x. r = Inr x \<and> k x = (s', Inr y))"
  by (auto simp: attempt_def split: sum.splits)

lemma attempt_Inl: "attempt s r k = (s', Inl e) \<longleftrightarrow> r = Inl e \<and> s' = s \<or> (\<exists>x. r = Inr x \<and> k x = (s', Inl e))"
  by (auto simp: attempt_def split: sum.splits)

lemma and_then_Inr [result_simps]:
  "and_then p k = (s', Inr y) \<longleftrightarrow> (\<exists>s x. p = (s, Inr x) \<and> k s x = (s', Inr y))"
  by (auto simp: and_then_def split: prod.splits sum.splits)

lemma bind_res_Inl: "bind_res r k = Inl e \<longleftrightarrow> r = Inl e \<or> (\<exists>x. r = Inr x \<and> k x = Inl e)"
  by (cases r) auto

lemma then_res_Inl: "then_res r s = Inl e \<longleftrightarrow> r = Inl e \<or> ((\<exists>x. r = Inr x) \<and> s = Inl e)"
  by (cases r) auto

text \<open>The error of a sequence of checks is the error of one of them.\<close>

lemma first_err_Inl: "first_err rs = Inl e \<Longrightarrow> Inl e \<in> set rs"
  by (induction rs) (auto simp: then_res_Inl)

lemma unit_result_cases: "r = Inr () \<or> (\<exists>e. r = Inl e)" for r :: "'e + unit"
  by (cases r) auto

section \<open>Lemmas on saturating arithmetic\<close>

lemma unat_max_u32: "unat (- 1 :: u32) = 2 ^ 32 - 1"
  by (simp add: unsigned_minus_1_eq_mask mask_eq_exp_minus_1)

lemma saturating_add_one:
  "unat (saturating_add a 1 :: u32) = min (unat a + 1) (2 ^ 32 - 1)"
proof (cases "unat a + 1 < 2 ^ 32")
  case True
  then show ?thesis by (simp add: saturating_add_def unat_word_ariths)
next
  case False
  moreover have "unat a < 2 ^ 32" using unsigned_less [of a] by simp
  ultimately have "unat a = 2 ^ 32 - 1" by simp
  then show ?thesis by (simp add: saturating_add_def unat_max_u32)
qed

lemma unat_saturate_u32: "unat (saturate_u32 n) = min n (2 ^ 32 - 1)"
  by (auto simp: saturate_u32_def unat_of_nat min_def unat_max_u32)

section \<open>Lemmas on hash maps\<close>

text \<open>\<open>HashMap::contains_key\<close> and \<open>HashMap::values\<close>.\<close>

lemma fmdom'_iff: "k \<in> fmdom' m \<longleftrightarrow> fmlookup m k \<noteq> None"
  by (auto simp: fmlookup_dom'_iff)

lemma fmlookup_Some_dom' [intro]: "fmlookup m k = Some v \<Longrightarrow> k \<in> fmdom' m"
  by (simp add: fmlookup_dom'_iff)

lemma fmlookup_fm_modify [simp]:
  "fmlookup (fm_modify k f m) k' = (if k' = k then map_option f (fmlookup m k) else fmlookup m k')"
  by (auto simp: fm_modify_def split: option.splits)

lemma fmdom'_fm_modify [simp]: "fmdom' (fm_modify k f m) = fmdom' m"
  by (auto simp: fmlookup_dom'_iff split: if_splits)

lemma contains_key_iff: "contains_key m k \<longleftrightarrow> k \<in> fmdom' m"
  by (simp add: contains_key_def fmdom'_iff)

lemma set_sorted_list_of_fmap: "set (sorted_list_of_fmap m) = {(k, v). fmlookup m k = Some v}"
  by (auto simp: sorted_list_of_fmap_def fmlookup_dom_iff)

lemma find_SomeD: "find P xs = Some x \<Longrightarrow> x \<in> set xs \<and> P x"
  by (auto simp: find_Some_iff)

lemma fmlookup_update_if:
  "fmlookup (fmupd k v m) k' = (if k' = k then Some v else fmlookup m k')"
  by auto

end
