(* ===== verification/Domain_Types.thy ===== *)
theory Domain_Types
  imports Prelude
begin

text \<open>
  \<^verbatim>\<open>src/domain/types/src/lib.rs\<close>: the size limits, the identifier newtypes, the event bodies, the
  signed event and the trust snapshot.  A Rust newtype over \<open>String\<close> is a datatype with one
  constructor; the records carry a prefix on their field names because HOL has one name space for
  the fields of all records.
\<close>

section \<open>Limits\<close>

abbreviation WORKSPACE_ID_MAX_BYTES :: nat where "WORKSPACE_ID_MAX_BYTES \<equiv> 128"
abbreviation CHANNEL_ID_MAX_BYTES :: nat where "CHANNEL_ID_MAX_BYTES \<equiv> 128"
abbreviation MESSAGE_ID_MAX_BYTES :: nat where "MESSAGE_ID_MAX_BYTES \<equiv> 128"
abbreviation DEVICE_KEY_PACKAGE_ID_MAX_BYTES :: nat where "DEVICE_KEY_PACKAGE_ID_MAX_BYTES \<equiv> 128"
abbreviation EVENT_ID_MAX_BYTES :: nat where "EVENT_ID_MAX_BYTES \<equiv> 68"
abbreviation EVENT_ID_PREFIX :: string where "EVENT_ID_PREFIX \<equiv> ''evt_''"
abbreviation EVENT_ID_HASH_HEX_BYTES :: nat where "EVENT_ID_HASH_HEX_BYTES \<equiv> 64"
abbreviation DEVICE_ID_MAX_BYTES :: nat where "DEVICE_ID_MAX_BYTES \<equiv> 512"
abbreviation EVENT_AUTHOR_PUBLIC_KEY_MAX_BYTES :: nat where "EVENT_AUTHOR_PUBLIC_KEY_MAX_BYTES \<equiv> 32"
abbreviation EVENT_SIGNATURE_MAX_BYTES :: nat where "EVENT_SIGNATURE_MAX_BYTES \<equiv> 64"
abbreviation WORKSPACE_NAME_MAX_BYTES :: nat where "WORKSPACE_NAME_MAX_BYTES \<equiv> 128"
abbreviation CHANNEL_NAME_MAX_BYTES :: nat where "CHANNEL_NAME_MAX_BYTES \<equiv> 128"
abbreviation CHANNEL_TOPIC_MAX_BYTES :: nat where "CHANNEL_TOPIC_MAX_BYTES \<equiv> 512"
abbreviation DEVICE_DISPLAY_NAME_MAX_BYTES :: nat where "DEVICE_DISPLAY_NAME_MAX_BYTES \<equiv> 128"
abbreviation AVATAR_ID_MAX_BYTES :: nat where "AVATAR_ID_MAX_BYTES \<equiv> 64"
abbreviation RELAY_AVATAR_GROUP_COUNT :: u8 where "RELAY_AVATAR_GROUP_COUNT \<equiv> 16"
abbreviation RELAY_AVATAR_PATTERN_COUNT :: u8 where "RELAY_AVATAR_PATTERN_COUNT \<equiv> 8"
abbreviation RELAY_AVATAR_COLOR_COUNT :: u8 where "RELAY_AVATAR_COLOR_COUNT \<equiv> 12"
abbreviation PERSON_ID_MAX_BYTES :: nat where "PERSON_ID_MAX_BYTES \<equiv> 128"
abbreviation WORKSPACE_INVITE_ID_MAX_BYTES :: nat where "WORKSPACE_INVITE_ID_MAX_BYTES \<equiv> 128"
abbreviation WORKSPACE_INVITE_LABEL_MAX_BYTES :: nat where "WORKSPACE_INVITE_LABEL_MAX_BYTES \<equiv> 128"
abbreviation WORKSPACE_INVITE_EXPIRES_AT_MAX_BYTES :: nat where "WORKSPACE_INVITE_EXPIRES_AT_MAX_BYTES \<equiv> 64"
abbreviation WORKSPACE_INVITE_APPROVAL_POLICY_MAX_BYTES :: nat where "WORKSPACE_INVITE_APPROVAL_POLICY_MAX_BYTES \<equiv> 32"
abbreviation WORKSPACE_INVITE_SYNC_EXPECTATION_MAX_BYTES :: nat where "WORKSPACE_INVITE_SYNC_EXPECTATION_MAX_BYTES \<equiv> 64"
abbreviation WORKSPACE_INVITE_CAPABILITY_PUBLIC_KEY_MAX_BYTES :: nat where "WORKSPACE_INVITE_CAPABILITY_PUBLIC_KEY_MAX_BYTES \<equiv> 64"
abbreviation WORKSPACE_INVITE_MAX_CLAIMS :: u32 where "WORKSPACE_INVITE_MAX_CLAIMS \<equiv> 100"
abbreviation WORKSPACE_ACCESS_POLICY_MAX_BYTES :: nat where "WORKSPACE_ACCESS_POLICY_MAX_BYTES \<equiv> 32"
abbreviation WORKSPACE_JOIN_REQUEST_ID_MAX_BYTES :: nat where "WORKSPACE_JOIN_REQUEST_ID_MAX_BYTES \<equiv> 128"
abbreviation WORKSPACE_JOIN_REQUEST_NOTE_MAX_BYTES :: nat where "WORKSPACE_JOIN_REQUEST_NOTE_MAX_BYTES \<equiv> 512"
abbreviation DEVICE_KEY_PACKAGE_PROTOCOL_MAX_BYTES :: nat where "DEVICE_KEY_PACKAGE_PROTOCOL_MAX_BYTES \<equiv> 128"
abbreviation PEER_ENDPOINT_ID_MAX_BYTES :: nat where "PEER_ENDPOINT_ID_MAX_BYTES \<equiv> 2304"
abbreviation PEER_ENDPOINT_MAX_BYTES :: nat where "PEER_ENDPOINT_MAX_BYTES \<equiv> 2048"
abbreviation PEER_ENDPOINT_TRANSPORT_MAX_BYTES :: nat where "PEER_ENDPOINT_TRANSPORT_MAX_BYTES \<equiv> 64"
abbreviation REPLICA_RETENTION_HINT_MAX_BYTES :: nat where "REPLICA_RETENTION_HINT_MAX_BYTES \<equiv> 128"
abbreviation IROH_ENDPOINT_ID_HEX_BYTES :: nat where "IROH_ENDPOINT_ID_HEX_BYTES \<equiv> 64"
abbreviation IROH_ENDPOINT_ID_BASE32_BYTES :: nat where "IROH_ENDPOINT_ID_BASE32_BYTES \<equiv> 52"
abbreviation REACTION_TEXT_MAX_BYTES :: nat where "REACTION_TEXT_MAX_BYTES \<equiv> 64"
abbreviation CONTENT_KEY_ID_MAX_BYTES :: nat where "CONTENT_KEY_ID_MAX_BYTES \<equiv> 512"
abbreviation CONTENT_KEY_ALGORITHM_MAX_BYTES :: nat where "CONTENT_KEY_ALGORITHM_MAX_BYTES \<equiv> 128"
abbreviation MESSAGE_MARKDOWN_MAX_BYTES :: nat where "MESSAGE_MARKDOWN_MAX_BYTES \<equiv> 64 * 1024"
abbreviation SEALED_MESSAGE_MARKDOWN_MAX_BYTES :: nat where "SEALED_MESSAGE_MARKDOWN_MAX_BYTES \<equiv> MESSAGE_MARKDOWN_MAX_BYTES + 16"
abbreviation SEALED_PAYLOAD_KEY_ID_MAX_BYTES :: nat where "SEALED_PAYLOAD_KEY_ID_MAX_BYTES \<equiv> CONTENT_KEY_ID_MAX_BYTES"
abbreviation SEALED_PAYLOAD_NONCE_MAX_BYTES :: nat where "SEALED_PAYLOAD_NONCE_MAX_BYTES \<equiv> 12"
abbreviation SEALED_PAYLOAD_AAD_MAX_BYTES :: nat where "SEALED_PAYLOAD_AAD_MAX_BYTES \<equiv> 512"
abbreviation MESSAGE_ATTACHMENT_MAX_COUNT :: nat where "MESSAGE_ATTACHMENT_MAX_COUNT \<equiv> 16"
abbreviation ATTACHMENT_BLOB_HASH_MAX_BYTES :: nat where "ATTACHMENT_BLOB_HASH_MAX_BYTES \<equiv> 128"
abbreviation ATTACHMENT_MEDIA_TYPE_MAX_BYTES :: nat where "ATTACHMENT_MEDIA_TYPE_MAX_BYTES \<equiv> 128"
abbreviation ATTACHMENT_DISPLAY_NAME_MAX_BYTES :: nat where "ATTACHMENT_DISPLAY_NAME_MAX_BYTES \<equiv> 256"
abbreviation ATTACHMENT_ID_MAX_BYTES :: nat where "ATTACHMENT_ID_MAX_BYTES \<equiv> 256"
abbreviation ATTACHMENT_KEY_ID_MAX_BYTES :: nat where "ATTACHMENT_KEY_ID_MAX_BYTES \<equiv> 512"
abbreviation ATTACHMENT_PLAINTEXT_MAX_BYTES :: u64 where "ATTACHMENT_PLAINTEXT_MAX_BYTES \<equiv> 128 * 1024 * 1024"
abbreviation ATTACHMENT_CIPHERTEXT_MAX_BYTES :: u64 where "ATTACHMENT_CIPHERTEXT_MAX_BYTES \<equiv> ATTACHMENT_PLAINTEXT_MAX_BYTES + 16"
abbreviation OPENMLS_KEY_PACKAGE_MAX_BYTES :: nat where "OPENMLS_KEY_PACKAGE_MAX_BYTES \<equiv> 64 * 1024"
abbreviation OPENMLS_WELCOME_MAX_BYTES :: nat where "OPENMLS_WELCOME_MAX_BYTES \<equiv> 1024 * 1024"
abbreviation OPENMLS_COMMIT_MAX_BYTES :: nat where "OPENMLS_COMMIT_MAX_BYTES \<equiv> 1024 * 1024"
abbreviation OPENMLS_RATCHET_TREE_MAX_BYTES :: nat where "OPENMLS_RATCHET_TREE_MAX_BYTES \<equiv> 4 * 1024 * 1024"
abbreviation OPENMLS_PROTOCOL_MAX_BYTES :: nat where "OPENMLS_PROTOCOL_MAX_BYTES \<equiv> 128"
abbreviation OPENMLS_CIPHERSUITE_MAX_BYTES :: nat where "OPENMLS_CIPHERSUITE_MAX_BYTES \<equiv> 128"
abbreviation OPENMLS_GROUP_ID_MAX_BYTES :: nat where "OPENMLS_GROUP_ID_MAX_BYTES \<equiv> 512"
abbreviation OPENMLS_KEY_PACKAGE_REF_MAX_BYTES :: nat where "OPENMLS_KEY_PACKAGE_REF_MAX_BYTES \<equiv> 256"

section \<open>Identifiers\<close>

datatype EventId = EventId (event_str: string)
datatype WorkspaceId = WorkspaceId (workspace_str: string)
datatype ChannelId = ChannelId (channel_str: string)
datatype MessageId = MessageId (message_str: string)
datatype DeviceKeyPackageId = DeviceKeyPackageId (key_package_str: string)
datatype DeviceId = DeviceId (device_str: string)
datatype PersonId = PersonId (person_str: string)

text \<open>
  \<open>EventId\<close> derives \<open>Ord\<close>; device, channel and message lists are sorted by their inner string
  (\<open>sort_by(|l, r| l.0.cmp(&r.0))\<close>), which is the same order.
\<close>

instantiation EventId :: linorder
begin
definition less_eq_EventId :: "EventId \<Rightarrow> EventId \<Rightarrow> bool" where
  "less_eq_EventId a b \<longleftrightarrow> event_str a \<le> event_str b"
definition less_EventId :: "EventId \<Rightarrow> EventId \<Rightarrow> bool" where
  "less_EventId a b \<longleftrightarrow> event_str a < event_str b"
instance
  by standard (auto simp: less_eq_EventId_def less_EventId_def intro: EventId.expand)
end

instantiation ChannelId :: linorder
begin
definition less_eq_ChannelId :: "ChannelId \<Rightarrow> ChannelId \<Rightarrow> bool" where
  "less_eq_ChannelId a b \<longleftrightarrow> channel_str a \<le> channel_str b"
definition less_ChannelId :: "ChannelId \<Rightarrow> ChannelId \<Rightarrow> bool" where
  "less_ChannelId a b \<longleftrightarrow> channel_str a < channel_str b"
instance
  by standard (auto simp: less_eq_ChannelId_def less_ChannelId_def intro: ChannelId.expand)
end

instantiation MessageId :: linorder
begin
definition less_eq_MessageId :: "MessageId \<Rightarrow> MessageId \<Rightarrow> bool" where
  "less_eq_MessageId a b \<longleftrightarrow> message_str a \<le> message_str b"
definition less_MessageId :: "MessageId \<Rightarrow> MessageId \<Rightarrow> bool" where
  "less_MessageId a b \<longleftrightarrow> message_str a < message_str b"
instance
  by standard (auto simp: less_eq_MessageId_def less_MessageId_def intro: MessageId.expand)
end

instantiation DeviceId :: linorder
begin
definition less_eq_DeviceId :: "DeviceId \<Rightarrow> DeviceId \<Rightarrow> bool" where
  "less_eq_DeviceId a b \<longleftrightarrow> device_str a \<le> device_str b"
definition less_DeviceId :: "DeviceId \<Rightarrow> DeviceId \<Rightarrow> bool" where
  "less_DeviceId a b \<longleftrightarrow> device_str a < device_str b"
instance
  by standard (auto simp: less_eq_DeviceId_def less_DeviceId_def intro: DeviceId.expand)
end

section \<open>Event data\<close>

datatype ContentKeyScope = ScopeWorkspace | ScopeChannel ChannelId

record HybridTimestamp =
  physical_ms :: i64
  logical :: u32

datatype PayloadEncryption = DevelopmentPlaintext | Aes256GcmSiv | OpenMlsPending

record EncryptedBlobRef =
  ebr_mode :: PayloadEncryption
  ebr_key_id :: string
  ebr_nonce :: bytes
  ebr_aad :: bytes
  ebr_plaintext_byte_len :: u64

record AttachmentRef =
  att_blob_hash :: string
  att_media_type :: string
  att_byte_len :: u64
  att_display_name :: string
  att_attachment_id :: string
  att_encryption :: "EncryptedBlobRef option"

record SealedPayload =
  sp_mode :: PayloadEncryption
  sp_key_id :: string
  sp_nonce :: bytes
  sp_aad :: bytes
  sp_bytes :: bytes

datatype ReplicaStorageClass =
  EphemeralPeer | MetadataIndex | PartialHistory | FullHistory | FullHistoryWithBlobs

datatype WorkspaceRole = Owner | Admin | Member | Guest

datatype WorkspaceAccessPolicy = InviteOnly | RequestAccess | Discoverable

datatype WorkspaceInviteResolution = InviteResolutionRevoked

datatype WorkspaceJoinRequestResolution =
  JoinResolutionApproved | JoinResolutionDeclined | JoinResolutionRevoked

text \<open>The fields of a constructor stand in the order of the source.\<close>

datatype (plugins only: code) EventBody =
    WorkspaceCreated string
  | MemberInvited DeviceId WorkspaceRole
  | MemberRoleUpdated DeviceId WorkspaceRole
  | WorkspaceAccessPolicyUpdated WorkspaceAccessPolicy
  | WorkspaceInviteRecorded string DeviceId string WorkspaceRole "string option" string string string
  | WorkspaceInviteCapabilityCreated string string WorkspaceRole string string string "u32 option"
  | WorkspaceInviteClaimed string DeviceId string
  | WorkspaceInviteResolved string WorkspaceInviteResolution
  | WorkspaceJoinRequestRecorded string DeviceId string string string string string string string
  | WorkspaceJoinRequestResolved string WorkspaceJoinRequestResolution
  | MemberRemoved DeviceId
  | ChannelCreated ChannelId string bool
  | DirectMessageChannelCreated ChannelId string "DeviceId list"
  | ChannelDetailsUpdated ChannelId "string option" "string option" "bool option"
  | ChannelMemberAdded ChannelId DeviceId
  | ChannelMemberRemoved ChannelId DeviceId
  | DeviceProfileUpdated string string
  | PersonDeviceLinked PersonId DeviceId
  | PersonProfileUpdated PersonId string string
  | DeviceKeyPackagePublished DeviceKeyPackageId string bytes
  | PeerEndpointPublished string string string bool "i64 option" "ReplicaStorageClass option"
      "string option"
  | OpenMlsWorkspaceGroupMemberAdded DeviceId DeviceKeyPackageId string string string string u64
      bytes bytes bytes
  | OpenMlsWorkspaceGroupMemberRemoved DeviceId string string string u64 bytes bytes
  | OpenMlsChannelGroupMemberAdded ChannelId DeviceId DeviceKeyPackageId string string string
      string u64 bytes bytes bytes
  | OpenMlsChannelGroupMemberRemoved ChannelId DeviceId string string string u64 bytes bytes
  | OpenMlsWorkspaceGroupSelfUpdated string string string u64 bytes bytes
  | OpenMlsChannelGroupSelfUpdated ChannelId string string string u64 bytes bytes
  | ContentKeyEpochPublished ContentKeyScope u64 string "string option" string
  | MessageCreated MessageId string "AttachmentRef list"
  | MessageReplyCreated MessageId MessageId string "AttachmentRef list"
  | MessageCreatedEncrypted MessageId SealedPayload "AttachmentRef list"
  | MessageReplyCreatedEncrypted MessageId MessageId SealedPayload "AttachmentRef list"
  | MessageEdited MessageId string
  | MessageEditedEncrypted MessageId SealedPayload
  | MessageDeleted MessageId
  | ReactionAdded MessageId string
  | ReactionRemoved MessageId string
  | ReadMarkerUpdated ChannelId EventId

record SignableEvent =
  se_schema_version :: u32
  se_workspace_id :: WorkspaceId
  se_channel_id :: "ChannelId option"
  se_author_device_id :: DeviceId
  se_timestamp :: HybridTimestamp
  se_parents :: "EventId list"
  se_body :: EventBody

record SignedEvent =
  sg_event_id :: EventId
  sg_event :: SignableEvent
  sg_author_public_key :: bytes
  sg_signature :: bytes

record TrustSnapshotRole =
  tsr_device_id :: DeviceId
  tsr_role :: WorkspaceRole

record TrustSnapshotChannel =
  tsc_channel_id :: ChannelId
  tsc_is_private :: bool
  tsc_creator_device_id :: DeviceId
  tsc_member_device_ids :: "DeviceId list"

record TrustSnapshotMessage =
  tsm_message_id :: MessageId
  tsm_channel_id :: ChannelId
  tsm_author_device_id :: "DeviceId option"

record TrustSnapshotEventChannel =
  tse_event_id :: EventId
  tse_channel_id :: ChannelId

record TrustSnapshotPersonDeviceLink =
  tsl_person_id :: PersonId
  tsl_device_id :: DeviceId

record TrustSnapshot =
  ts_schema_version :: u32
  ts_workspace_id :: WorkspaceId
  ts_root_event_id :: EventId
  ts_root_author_device_id :: DeviceId
  ts_roles :: "TrustSnapshotRole list"
  ts_channels :: "TrustSnapshotChannel list"
  ts_messages :: "TrustSnapshotMessage list"
  ts_event_channels :: "TrustSnapshotEventChannel list"
  ts_person_device_links :: "TrustSnapshotPersonDeviceLink list"

text \<open>Shorthands for the paths \<open>signed.event.author_device_id\<close> and the like.\<close>

abbreviation ev_author :: "SignedEvent \<Rightarrow> DeviceId" where
  "ev_author e \<equiv> se_author_device_id (sg_event e)"
abbreviation ev_body :: "SignedEvent \<Rightarrow> EventBody" where
  "ev_body e \<equiv> se_body (sg_event e)"
abbreviation ev_channel :: "SignedEvent \<Rightarrow> ChannelId option" where
  "ev_channel e \<equiv> se_channel_id (sg_event e)"
abbreviation ev_workspace :: "SignedEvent \<Rightarrow> WorkspaceId" where
  "ev_workspace e \<equiv> se_workspace_id (sg_event e)"
abbreviation ev_parents :: "SignedEvent \<Rightarrow> EventId list" where
  "ev_parents e \<equiv> se_parents (sg_event e)"
abbreviation ev_physical_ms :: "SignedEvent \<Rightarrow> i64" where
  "ev_physical_ms e \<equiv> physical_ms (se_timestamp (sg_event e))"

end
