(* ===== verification/Domain_Checks.thy ===== *)
theory Domain_Checks
  imports Domain_Types
begin

text \<open>
  The functions of \<^verbatim>\<open>src/domain/types/src/lib.rs\<close>: normalisation of invite capacities, identifier
  and avatar validation, canonical event identifiers, classification of peer endpoint hints, the
  wire names of replica storage classes and the construction of signed events.
\<close>

section \<open>Invite capacity\<close>

definition default_workspace_invite_max_claims :: u32 where
  "default_workspace_invite_max_claims = 1"

definition normalize_workspace_invite_max_claims :: "u32 \<Rightarrow> u32" where
  "normalize_workspace_invite_max_claims max_claims =
     (if max_claims = 0 then default_workspace_invite_max_claims else max_claims)"

definition effective_workspace_invite_max_claims :: "u32 option \<Rightarrow> u32" where
  "effective_workspace_invite_max_claims max_claims =
     (case max_claims of
        Some m \<Rightarrow> normalize_workspace_invite_max_claims m
      | None \<Rightarrow> default_workspace_invite_max_claims)"

section \<open>Identifier sizes\<close>

record IdValidationError =
  ive_field :: string
  ive_actual_bytes :: nat
  ive_max_bytes :: nat

definition validate_id_bytes :: "string \<Rightarrow> string \<Rightarrow> nat \<Rightarrow> IdValidationError + unit" where
  "validate_id_bytes field val max_bytes =
     ensure (length val \<le> max_bytes)
       \<lparr>ive_field = field, ive_actual_bytes = length val, ive_max_bytes = max_bytes\<rparr>"

definition validate_workspace_id_str :: "string \<Rightarrow> IdValidationError + unit" where
  "validate_workspace_id_str val = validate_id_bytes ''workspace ID'' val WORKSPACE_ID_MAX_BYTES"

definition validate_channel_id_str :: "string \<Rightarrow> IdValidationError + unit" where
  "validate_channel_id_str val = validate_id_bytes ''channel ID'' val CHANNEL_ID_MAX_BYTES"

definition validate_message_id_str :: "string \<Rightarrow> IdValidationError + unit" where
  "validate_message_id_str val = validate_id_bytes ''message ID'' val MESSAGE_ID_MAX_BYTES"

definition validate_device_key_package_id_str :: "string \<Rightarrow> IdValidationError + unit" where
  "validate_device_key_package_id_str val =
     validate_id_bytes ''device key package ID'' val DEVICE_KEY_PACKAGE_ID_MAX_BYTES"

definition validate_event_id_str :: "string \<Rightarrow> IdValidationError + unit" where
  "validate_event_id_str val = validate_id_bytes ''event ID'' val EVENT_ID_MAX_BYTES"

definition validate_device_id_str :: "string \<Rightarrow> IdValidationError + unit" where
  "validate_device_id_str val = validate_id_bytes ''device ID'' val DEVICE_ID_MAX_BYTES"

definition validate_person_id_str :: "string \<Rightarrow> IdValidationError + unit" where
  "validate_person_id_str val = validate_id_bytes ''person ID'' val PERSON_ID_MAX_BYTES"

definition validate_workspace_id :: "WorkspaceId \<Rightarrow> IdValidationError + unit" where
  "validate_workspace_id val = validate_workspace_id_str (workspace_str val)"

definition validate_channel_id :: "ChannelId \<Rightarrow> IdValidationError + unit" where
  "validate_channel_id val = validate_channel_id_str (channel_str val)"

definition validate_message_id :: "MessageId \<Rightarrow> IdValidationError + unit" where
  "validate_message_id val = validate_message_id_str (message_str val)"

definition validate_device_key_package_id :: "DeviceKeyPackageId \<Rightarrow> IdValidationError + unit" where
  "validate_device_key_package_id val = validate_device_key_package_id_str (key_package_str val)"

definition validate_event_id :: "EventId \<Rightarrow> IdValidationError + unit" where
  "validate_event_id val = validate_event_id_str (event_str val)"

definition validate_device_id :: "DeviceId \<Rightarrow> IdValidationError + unit" where
  "validate_device_id val = validate_device_id_str (device_str val)"

section \<open>Avatars\<close>

datatype AvatarIdValidationError =
    AvatarTooLarge nat nat
  | AvatarInvalidCharacters
  | AvatarInvalidRelayV1

text \<open>\<open>format!("{n:02}")\<close> of a \<open>u8\<close>.\<close>

definition digit_char :: "nat \<Rightarrow> char" where
  "digit_char n = char_of (48 + n)"

definition fmt02 :: "u8 \<Rightarrow> string" where
  "fmt02 n =
     (let k = unat n in
      (if 100 \<le> k then [digit_char (k div 100)] else [])
        @ [digit_char (k div 10 mod 10), digit_char (k mod 10)])"

definition relay_avatar_id :: "u8 \<Rightarrow> u8 \<Rightarrow> u8 \<Rightarrow> string option" where
  "relay_avatar_id grp pattern color =
     (if grp \<ge> RELAY_AVATAR_GROUP_COUNT \<or> pattern \<ge> RELAY_AVATAR_PATTERN_COUNT
         \<or> color \<ge> RELAY_AVATAR_COLOR_COUNT
      then None
      else Some (''relay-v1:g'' @ fmt02 grp @ '':p'' @ fmt02 pattern @ '':c'' @ fmt02 color))"

text \<open>The byte arithmetic of the parser is kept at eight bits.\<close>

definition byte_val :: "char \<Rightarrow> u8" where
  "byte_val c = of_nat (of_char c)"

definition parse_relay_avatar_component :: "string \<Rightarrow> char \<Rightarrow> u8 option" where
  "parse_relay_avatar_component val pre =
     (case val of
        [b0, b1, b2] \<Rightarrow>
          if b0 \<noteq> pre \<or> \<not> is_ascii_digit b1 \<or> \<not> is_ascii_digit b2 then None
          else Some ((byte_val b1 - 48) * 10 + byte_val b2 - 48)
      | _ \<Rightarrow> None)"

definition parse_relay_avatar_id :: "string \<Rightarrow> (u8 \<times> u8 \<times> u8) option" where
  "parse_relay_avatar_id val =
     Option.bind (strip_prefix ''relay-v1:'' val) (\<lambda>rest.
       case split_char CHR '':'' rest of
         g # p # c # extra \<Rightarrow>
           Option.bind (parse_relay_avatar_component g CHR ''g'') (\<lambda>grp.
           Option.bind (parse_relay_avatar_component p CHR ''p'') (\<lambda>pattern.
           Option.bind (parse_relay_avatar_component c CHR ''c'') (\<lambda>color.
             if extra \<noteq> [] \<or> grp \<ge> RELAY_AVATAR_GROUP_COUNT
                \<or> pattern \<ge> RELAY_AVATAR_PATTERN_COUNT \<or> color \<ge> RELAY_AVATAR_COLOR_COUNT
             then None else Some (grp, pattern, color))))
       | _ \<Rightarrow> None)"

definition avatar_char_ok :: "char \<Rightarrow> bool" where
  "avatar_char_ok c \<longleftrightarrow>
     is_ascii_lower c \<or> is_ascii_digit c \<or> c = CHR '':'' \<or> c = CHR ''_'' \<or> c = CHR ''-''"

definition validate_avatar_id_str :: "string \<Rightarrow> AvatarIdValidationError + unit" where
  "validate_avatar_id_str val =
     (if length val > AVATAR_ID_MAX_BYTES then Inl (AvatarTooLarge (length val) AVATAR_ID_MAX_BYTES)
      else if \<not> list_all avatar_char_ok val then Inl AvatarInvalidCharacters
      else if prefix ''relay-v1:'' val \<and> parse_relay_avatar_id val = None
        then Inl AvatarInvalidRelayV1
      else Inr ())"

section \<open>Canonical event identifiers\<close>

definition is_lower_hex :: "char \<Rightarrow> bool" where
  "is_lower_hex c \<longleftrightarrow> is_ascii_digit c \<or> byte_between 97 102 c"

definition is_canonical_event_id_str :: "string \<Rightarrow> bool" where
  "is_canonical_event_id_str val =
     (case strip_prefix EVENT_ID_PREFIX val of
        None \<Rightarrow> False
      | Some hash \<Rightarrow> length hash = EVENT_ID_HASH_HEX_BYTES \<and> list_all is_lower_hex hash)"

section \<open>Peer endpoint hints\<close>

datatype SupportedPeerEndpointHintRoute =
  DirectTcp | NativeIrohDirect | NativeIrohRelay | NativeIrohDiscovery

fun primary_transport_label :: "SupportedPeerEndpointHintRoute \<Rightarrow> string" where
  "primary_transport_label DirectTcp = ''direct-tcp''"
| "primary_transport_label NativeIrohDirect = ''iroh-direct''"
| "primary_transport_label NativeIrohRelay = ''iroh-relay''"
| "primary_transport_label NativeIrohDiscovery = ''iroh-discovery''"

definition allows_transport_label :: "SupportedPeerEndpointHintRoute \<Rightarrow> string \<Rightarrow> bool" where
  "allows_transport_label route transport0 =
     (let transport = trim transport0 in
      case route of
        DirectTcp \<Rightarrow> transport = ''direct-tcp''
      | NativeIrohDirect \<Rightarrow> transport = ''iroh'' \<or> transport = ''iroh-direct''
      | NativeIrohRelay \<Rightarrow> transport = ''iroh'' \<or> transport = ''iroh-relay''
      | NativeIrohDiscovery \<Rightarrow> transport = ''iroh'' \<or> transport = ''iroh-discovery'')"

definition direct_tcp_host_is_valid :: "string \<Rightarrow> bool" where
  "direct_tcp_host_is_valid host \<longleftrightarrow>
     host \<noteq> [] \<and> list_all (\<lambda>c. is_ascii_alphanumeric c \<or> c = CHR ''.'' \<or> c = CHR ''-'' \<or> c = CHR ''_'') host"

definition valid_tcp_port :: "string \<Rightarrow> bool \<Rightarrow> bool" where
  "valid_tcp_port port allow_zero_port \<longleftrightarrow>
     port \<noteq> [] \<and> list_all is_ascii_digit port
     \<and> (case parse_u16 port of None \<Rightarrow> False | Some n \<Rightarrow> allow_zero_port \<or> 0 < n)"

definition direct_tcp_address_is_valid :: "string \<Rightarrow> bool \<Rightarrow> bool" where
  "direct_tcp_address_is_valid address0 allow_zero_port =
     (let address = trim address0 in
      if address = [] \<or> list_ex is_ascii_whitespace address then False
      else case (case strip_prefix ''['' address of
                   Some rest \<Rightarrow>
                     map_option (\<lambda>(host, port). (host, port, True)) (split_once_str '']:'' rest)
                 | None \<Rightarrow>
                     (case rsplit_once CHR '':'' address of
                        None \<Rightarrow> None
                      | Some (host, port) \<Rightarrow>
                          if CHR '':'' \<in> set host then None else Some (host, port, False))) of
             None \<Rightarrow> False
           | Some (host, port, bracketed_ipv6) \<Rightarrow>
               (if bracketed_ipv6 then parse_ipv6_ok host else direct_tcp_host_is_valid host)
               \<and> valid_tcp_port port allow_zero_port)"

definition direct_tcp_peer_endpoint_address_is_valid :: "string \<Rightarrow> bool" where
  "direct_tcp_peer_endpoint_address_is_valid address = direct_tcp_address_is_valid address False"

definition direct_tcp_peer_listen_address_is_valid :: "string \<Rightarrow> bool" where
  "direct_tcp_peer_listen_address_is_valid address = direct_tcp_address_is_valid address True"

definition supported_direct_tcp_hint_route ::
  "string \<Rightarrow> SupportedPeerEndpointHintRoute option" where
  "supported_direct_tcp_hint_route address =
     (if \<not> direct_tcp_peer_endpoint_address_is_valid address then None else Some DirectTcp)"

definition native_iroh_relay_url_is_valid :: "string \<Rightarrow> bool" where
  "native_iroh_relay_url_is_valid val =
     (case strip_prefix ''https://'' val of
        None \<Rightarrow> False
      | Some authority_and_path \<Rightarrow>
          (let authority = (case split_char CHR ''/'' authority_and_path of [] \<Rightarrow> [] | a # _ \<Rightarrow> a)
           in authority \<noteq> [] \<and> CHR ''@'' \<notin> set authority \<and> \<not> list_ex is_ascii_whitespace val))"

definition native_iroh_direct_addr_is_valid :: "string \<Rightarrow> bool" where
  "native_iroh_direct_addr_is_valid address =
     (case parse_socket_addr address of None \<Rightarrow> False | Some port \<Rightarrow> 0 < port)"

definition native_iroh_endpoint_id_syntax_is_valid :: "string \<Rightarrow> bool" where
  "native_iroh_endpoint_id_syntax_is_valid endpoint_id =
     (if length endpoint_id = IROH_ENDPOINT_ID_HEX_BYTES then list_all is_lower_hex endpoint_id
      else length endpoint_id = IROH_ENDPOINT_ID_BASE32_BYTES
        \<and> list_all (\<lambda>c. is_ascii_alphabetic c \<or> byte_between 50 55 c) endpoint_id)"

text \<open>The loop over the query parameters: \<open>None\<close> is its early \<open>return None\<close>.\<close>

fun iroh_query_flags :: "string list \<Rightarrow> bool \<Rightarrow> bool \<Rightarrow> (bool \<times> bool) option" where
  "iroh_query_flags [] has_direct_addr has_relay = Some (has_direct_addr, has_relay)"
| "iroh_query_flags (parameter # ps) has_direct_addr has_relay =
     (let (key, val) = (case split_once CHR ''='' parameter of
                          Some (k, v) \<Rightarrow> (trim k, trim v)
                        | None \<Rightarrow> (trim parameter, []))
      in if key = ''addr'' then
           (if native_iroh_direct_addr_is_valid val then iroh_query_flags ps True has_relay else None)
         else if key = ''relay'' then
           (if native_iroh_relay_url_is_valid val then iroh_query_flags ps has_direct_addr True
            else None)
         else None)"

definition supported_native_iroh_hint_route ::
  "string \<Rightarrow> SupportedPeerEndpointHintRoute option" where
  "supported_native_iroh_hint_route endpoint0 =
     Option.bind (strip_prefix ''iroh://'' endpoint0) (\<lambda>endpoint.
       let (endpoint_id, query_and_fragment) =
             (case split_once CHR ''?'' endpoint of
                Some (i, q) \<Rightarrow> (i, Some q) | None \<Rightarrow> (endpoint, None))
       in if \<not> native_iroh_endpoint_id_syntax_is_valid endpoint_id then None
          else case query_and_fragment of
                 None \<Rightarrow> Some NativeIrohDiscovery
               | Some qf \<Rightarrow>
                   (let query = (case split_once CHR ''#'' qf of Some (q, _) \<Rightarrow> q | None \<Rightarrow> qf)
                    in Option.bind (iroh_query_flags (split_char CHR ''&'' query) False False)
                         (\<lambda>(has_direct_addr, has_relay).
                            if has_relay then Some NativeIrohRelay
                            else if has_direct_addr then Some NativeIrohDirect else None)))"

definition supported_peer_endpoint_hint_route ::
  "string \<Rightarrow> SupportedPeerEndpointHintRoute option" where
  "supported_peer_endpoint_hint_route endpoint0 =
     (let endpoint = trim endpoint0 in
      if endpoint = [] then None
      else case strip_prefix ''direct+tcp://'' endpoint of
        Some address \<Rightarrow> supported_direct_tcp_hint_route address
      | None \<Rightarrow>
          (case strip_prefix ''tcp://'' endpoint of
             Some address \<Rightarrow> supported_direct_tcp_hint_route address
           | None \<Rightarrow>
               if prefix ''iroh://'' endpoint then supported_native_iroh_hint_route endpoint
               else if contains_str ''://'' endpoint then None
               else supported_direct_tcp_hint_route endpoint))"

definition peer_endpoint_hint_is_supported :: "string \<Rightarrow> bool" where
  "peer_endpoint_hint_is_supported endpoint \<longleftrightarrow> supported_peer_endpoint_hint_route endpoint \<noteq> None"

definition peer_endpoint_hint_transport_is_consistent :: "string \<Rightarrow> string \<Rightarrow> bool" where
  "peer_endpoint_hint_transport_is_consistent endpoint transport =
     (case supported_peer_endpoint_hint_route endpoint of
        None \<Rightarrow> False | Some route \<Rightarrow> allows_transport_label route transport)"

section \<open>Replica storage classes on the wire\<close>

fun storage_class_as_str :: "ReplicaStorageClass \<Rightarrow> string" where
  "storage_class_as_str EphemeralPeer = ''ephemeral_peer''"
| "storage_class_as_str MetadataIndex = ''metadata_index''"
| "storage_class_as_str PartialHistory = ''partial_history''"
| "storage_class_as_str FullHistory = ''full_history''"
| "storage_class_as_str FullHistoryWithBlobs = ''full_history_with_blobs''"

definition storage_class_from_wire :: "string \<Rightarrow> ReplicaStorageClass option" where
  "storage_class_from_wire val =
     (if val = ''ephemeral_peer'' then Some EphemeralPeer
      else if val = ''metadata_index'' then Some MetadataIndex
      else if val = ''partial_history'' then Some PartialHistory
      else if val = ''full_history'' then Some FullHistory
      else if val = ''full_history_with_blobs'' then Some FullHistoryWithBlobs
      else None)"

definition supported_wire_values :: "string list" where
  "supported_wire_values =
     [''ephemeral_peer'', ''metadata_index'', ''partial_history'', ''full_history'',
      ''full_history_with_blobs'']"

section \<open>Signed events\<close>

text \<open>
  The JSON serialiser (\<open>serde_json::to_vec\<close>) and the hash (\<open>blake3\<close>, in hexadecimal) are
  parameters.  The hasher is fed the signing bytes and then the signature, which is the hash of
  their concatenation.
\<close>

definition device_id_from_public_key_bytes :: "(bytes \<Rightarrow> string) \<Rightarrow> bytes \<Rightarrow> DeviceId" where
  "device_id_from_public_key_bytes blake3_hex pk = DeviceId (''dev_'' @ blake3_hex pk)"

definition from_author_signature ::
  "(bytes \<Rightarrow> string) \<Rightarrow> (SignableEvent \<Rightarrow> bytes) \<Rightarrow> SignableEvent \<Rightarrow> bytes \<Rightarrow> bytes \<Rightarrow> SignedEvent"
  where
  "from_author_signature blake3_hex signing_bytes event pk sig =
     \<lparr>sg_event_id = EventId (''evt_'' @ blake3_hex (signing_bytes event @ sig)),
      sg_event = event, sg_author_public_key = pk, sg_signature = sig\<rparr>"

definition from_signed_bytes ::
  "(bytes \<Rightarrow> string) \<Rightarrow> (SignableEvent \<Rightarrow> bytes) \<Rightarrow> SignableEvent \<Rightarrow> bytes \<Rightarrow> SignedEvent" where
  "from_signed_bytes blake3_hex signing_bytes event sig =
     from_author_signature blake3_hex signing_bytes event [] sig"

definition signable_event_new ::
  "HybridTimestamp \<Rightarrow> WorkspaceId \<Rightarrow> ChannelId option \<Rightarrow> DeviceId \<Rightarrow> EventBody \<Rightarrow> SignableEvent" where
  "signable_event_new now workspace_id channel_id author_device_id body =
     \<lparr>se_schema_version = 1, se_workspace_id = workspace_id, se_channel_id = channel_id,
      se_author_device_id = author_device_id, se_timestamp = now, se_parents = [],
      se_body = body\<rparr>"

end
