(* ===== verification/Event_Validation.thy ===== *)
theory Event_Validation
  imports Domain_Checks
begin

text \<open>
  The size and shape checks of \<^verbatim>\<open>src/domain/core/src/lib.rs\<close> that every event passes before it is
  authorised: identifier sizes (\<open>validate_signed_event_ids\<close>), payload sizes
  (\<open>validate_event_body_payload_sizes\<close>, one definition per large arm of its \<open>match\<close>) and the
  identifier sizes of a trust snapshot.
\<close>

section \<open>Errors\<close>

datatype (plugins only: code) AuthorizationError =
    WrongWorkspace
  | MissingWorkspaceRoot
  | WorkspaceAlreadyCreated
  | MissingChannelContext
  | ChannelNotFound ChannelId
  | ChannelAlreadyCreated ChannelId
  | PrivateChannelAccessDenied ChannelId DeviceId
  | ChannelMemberGrantDenied ChannelId DeviceId
  | WorkspaceOpenMlsCommitterDenied DeviceId DeviceId
  | ChannelOpenMlsCommitterDenied ChannelId DeviceId DeviceId
  | MessageNotFound MessageId
  | MessageMutationDenied MessageId DeviceId DeviceId
  | MessageAuthorUnknown MessageId
  | ChannelMismatch ChannelId ChannelId
  | ReadMarkerTargetNotFound EventId
  | JoinRequestNotFound string
  | InviteNotFound string
  | InviteRevoked string
  | InviteExhausted string
  | NotAMember DeviceId
  | PersonProfileUpdateDenied PersonId DeviceId
  | PersonDeviceLinkDenied DeviceId DeviceId
  | PersonDeviceAlreadyLinked DeviceId PersonId PersonId
  | PersonAlreadyLinked PersonId DeviceId DeviceId
  | WorkspaceRootCannotBeRemoved DeviceId
  | WorkspaceRootRoleCannotBeChanged DeviceId
  | InsufficientRole WorkspaceRole string
  | InvalidTrustSnapshot
  | EventPayloadTooLarge string nat nat
  | EventPayloadRequired string
  | InvalidAvatarId
  | UnsupportedPeerEndpoint
  | PeerEndpointTransportMismatch
  | ReplicaCapabilityRequiresBackupPeer
  | EventItemCountTooLarge string nat nat

type_synonym auth_result = "AuthorizationError + unit"

datatype CoreError =
    CoreWrongWorkspace
  | CoreMissingChannel
  | CoreAuthorization AuthorizationError
  | CoreMissingParents EventId "EventId list"

section \<open>Elementary checks\<close>

definition validate_event_text_size :: "string \<Rightarrow> string \<Rightarrow> nat \<Rightarrow> auth_result" where
  "validate_event_text_size label val max_bytes =
     ensure (length val \<le> max_bytes) (EventPayloadTooLarge label (length val) max_bytes)"

definition validate_event_text_required :: "string \<Rightarrow> string \<Rightarrow> auth_result" where
  "validate_event_text_required label val = ensure (trim val \<noteq> []) (EventPayloadRequired label)"

definition validate_event_payload_size :: "string \<Rightarrow> bytes \<Rightarrow> nat \<Rightarrow> auth_result" where
  "validate_event_payload_size label bs max_bytes =
     ensure (length bs \<le> max_bytes) (EventPayloadTooLarge label (length bs) max_bytes)"

text \<open>\<open>usize::try_from(u64)\<close> cannot fail on the 64-bit targets the project builds for.\<close>

definition validate_event_u64_size :: "string \<Rightarrow> u64 \<Rightarrow> u64 \<Rightarrow> auth_result" where
  "validate_event_u64_size label actual_bytes max_bytes =
     ensure (actual_bytes \<le> max_bytes) (EventPayloadTooLarge label (unat actual_bytes) (unat max_bytes))"

text \<open>The checks of an \<open>Option\<close> field, run only when it is present.\<close>

definition check_opt :: "('a \<Rightarrow> auth_result) \<Rightarrow> 'a option \<Rightarrow> auth_result" where
  "check_opt f x = (case x of None \<Rightarrow> Inr () | Some v \<Rightarrow> f v)"

section \<open>Identifier sizes\<close>

definition validate_workspace_id_size :: "string \<Rightarrow> WorkspaceId \<Rightarrow> auth_result" where
  "validate_workspace_id_size label v =
     validate_event_text_size label (workspace_str v) WORKSPACE_ID_MAX_BYTES"

definition validate_channel_id_size :: "string \<Rightarrow> ChannelId \<Rightarrow> auth_result" where
  "validate_channel_id_size label v =
     validate_event_text_size label (channel_str v) CHANNEL_ID_MAX_BYTES"

definition validate_message_id_size :: "string \<Rightarrow> MessageId \<Rightarrow> auth_result" where
  "validate_message_id_size label v =
     validate_event_text_size label (message_str v) MESSAGE_ID_MAX_BYTES"

definition validate_device_key_package_id_size :: "string \<Rightarrow> DeviceKeyPackageId \<Rightarrow> auth_result" where
  "validate_device_key_package_id_size label v =
     validate_event_text_size label (key_package_str v) DEVICE_KEY_PACKAGE_ID_MAX_BYTES"

definition validate_event_id_size :: "string \<Rightarrow> EventId \<Rightarrow> auth_result" where
  "validate_event_id_size label v = validate_event_text_size label (event_str v) EVENT_ID_MAX_BYTES"

definition validate_device_id_size :: "string \<Rightarrow> DeviceId \<Rightarrow> auth_result" where
  "validate_device_id_size label v = validate_event_text_size label (device_str v) DEVICE_ID_MAX_BYTES"

definition validate_person_id_size :: "string \<Rightarrow> PersonId \<Rightarrow> auth_result" where
  "validate_person_id_size label v = validate_event_text_size label (person_str v) PERSON_ID_MAX_BYTES"

definition validate_content_key_scope_ids :: "ContentKeyScope \<Rightarrow> auth_result" where
  "validate_content_key_scope_ids scope =
     (case scope of
        ScopeWorkspace \<Rightarrow> Inr ()
      | ScopeChannel channel_id \<Rightarrow> validate_channel_id_size ''channel ID'' channel_id)"

definition validate_event_body_ids :: "EventBody \<Rightarrow> auth_result" where
  "validate_event_body_ids body =
     (case body of
        PersonDeviceLinked person_id device_id \<Rightarrow>
          first_err [validate_person_id_size ''person ID'' person_id,
                     validate_device_id_size ''linked device ID'' device_id]
      | PersonProfileUpdated person_id _ _ \<Rightarrow> validate_person_id_size ''person ID'' person_id
      | MemberInvited invitee _ \<Rightarrow> validate_device_id_size ''invitee device ID'' invitee
      | MemberRoleUpdated member _ \<Rightarrow> validate_device_id_size ''member device ID'' member
      | WorkspaceInviteRecorded _ invitee _ _ _ _ _ _ \<Rightarrow>
          validate_device_id_size ''invitee device ID'' invitee
      | WorkspaceInviteClaimed _ invitee _ \<Rightarrow> validate_device_id_size ''invitee device ID'' invitee
      | WorkspaceJoinRequestRecorded _ requester _ _ _ _ _ _ _ \<Rightarrow>
          validate_device_id_size ''requester device ID'' requester
      | MemberRemoved removed \<Rightarrow> validate_device_id_size ''removed device ID'' removed
      | ChannelCreated channel_id _ _ \<Rightarrow> validate_channel_id_size ''channel ID'' channel_id
      | DirectMessageChannelCreated channel_id _ participants \<Rightarrow>
          first_err (validate_channel_id_size ''channel ID'' channel_id
            # map (validate_device_id_size ''direct message participant device ID'') participants)
      | ChannelDetailsUpdated channel_id _ _ _ \<Rightarrow> validate_channel_id_size ''channel ID'' channel_id
      | ChannelMemberAdded channel_id member \<Rightarrow>
          first_err [validate_channel_id_size ''channel ID'' channel_id,
                     validate_device_id_size ''member device ID'' member]
      | ChannelMemberRemoved channel_id member \<Rightarrow>
          first_err [validate_channel_id_size ''channel ID'' channel_id,
                     validate_device_id_size ''member device ID'' member]
      | DeviceKeyPackagePublished key_package_id _ _ \<Rightarrow>
          validate_device_key_package_id_size ''device key package ID'' key_package_id
      | OpenMlsWorkspaceGroupMemberAdded invitee key_package_id _ _ _ _ _ _ _ _ \<Rightarrow>
          first_err [validate_device_id_size ''invitee device ID'' invitee,
                     validate_device_key_package_id_size ''invitee device key package ID'' key_package_id]
      | OpenMlsWorkspaceGroupMemberRemoved removed _ _ _ _ _ _ \<Rightarrow>
          validate_device_id_size ''removed device ID'' removed
      | OpenMlsChannelGroupMemberAdded channel_id invitee key_package_id _ _ _ _ _ _ _ _ \<Rightarrow>
          first_err [validate_channel_id_size ''channel ID'' channel_id,
                     validate_device_id_size ''invitee device ID'' invitee,
                     validate_device_key_package_id_size ''invitee device key package ID'' key_package_id]
      | OpenMlsChannelGroupMemberRemoved channel_id removed _ _ _ _ _ _ \<Rightarrow>
          first_err [validate_channel_id_size ''channel ID'' channel_id,
                     validate_device_id_size ''removed device ID'' removed]
      | OpenMlsChannelGroupSelfUpdated channel_id _ _ _ _ _ _ \<Rightarrow>
          validate_channel_id_size ''channel ID'' channel_id
      | ContentKeyEpochPublished scope _ _ _ _ \<Rightarrow> validate_content_key_scope_ids scope
      | MessageCreated message_id _ _ \<Rightarrow> validate_message_id_size ''message ID'' message_id
      | MessageCreatedEncrypted message_id _ _ \<Rightarrow> validate_message_id_size ''message ID'' message_id
      | MessageReplyCreated message_id reply_to _ _ \<Rightarrow>
          first_err [validate_message_id_size ''message ID'' message_id,
                     validate_message_id_size ''reply target message ID'' reply_to]
      | MessageReplyCreatedEncrypted message_id reply_to _ _ \<Rightarrow>
          first_err [validate_message_id_size ''message ID'' message_id,
                     validate_message_id_size ''reply target message ID'' reply_to]
      | MessageEdited message_id _ \<Rightarrow> validate_message_id_size ''message ID'' message_id
      | MessageEditedEncrypted message_id _ \<Rightarrow> validate_message_id_size ''message ID'' message_id
      | MessageDeleted message_id \<Rightarrow> validate_message_id_size ''message ID'' message_id
      | ReactionAdded message_id _ \<Rightarrow> validate_message_id_size ''message ID'' message_id
      | ReactionRemoved message_id _ \<Rightarrow> validate_message_id_size ''message ID'' message_id
      | ReadMarkerUpdated channel_id event_id \<Rightarrow>
          first_err [validate_channel_id_size ''channel ID'' channel_id,
                     validate_event_id_size ''read marker target event ID'' event_id]
      | _ \<Rightarrow> Inr ())"

definition validate_signed_event_ids :: "SignedEvent \<Rightarrow> auth_result" where
  "validate_signed_event_ids event =
     first_err
      ([validate_workspace_id_size ''workspace ID'' (ev_workspace event),
        check_opt (validate_channel_id_size ''event channel ID'') (ev_channel event),
        validate_device_id_size ''author device ID'' (ev_author event),
        validate_event_id_size ''event ID'' (sg_event_id event),
        validate_event_payload_size ''author public key'' (sg_author_public_key event)
          EVENT_AUTHOR_PUBLIC_KEY_MAX_BYTES,
        validate_event_payload_size ''event signature'' (sg_signature event)
          EVENT_SIGNATURE_MAX_BYTES]
       @ map (validate_event_id_size ''parent event ID'') (ev_parents event)
       @ [validate_event_body_ids (ev_body event)])"

definition validate_trust_snapshot_channel_ids :: "TrustSnapshotChannel \<Rightarrow> auth_result" where
  "validate_trust_snapshot_channel_ids channel =
     first_err
      ([validate_channel_id_size ''trust snapshot channel ID'' (tsc_channel_id channel),
        validate_device_id_size ''trust snapshot channel creator device ID''
          (tsc_creator_device_id channel)]
       @ map (validate_device_id_size ''trust snapshot channel member device ID'')
           (tsc_member_device_ids channel))"

definition validate_trust_snapshot_message_ids :: "TrustSnapshotMessage \<Rightarrow> auth_result" where
  "validate_trust_snapshot_message_ids message =
     first_err
       [validate_message_id_size ''trust snapshot message ID'' (tsm_message_id message),
        validate_channel_id_size ''trust snapshot message channel ID'' (tsm_channel_id message),
        check_opt (validate_device_id_size ''trust snapshot message author device ID'')
          (tsm_author_device_id message)]"

definition validate_trust_snapshot_ids :: "TrustSnapshot \<Rightarrow> auth_result" where
  "validate_trust_snapshot_ids snapshot =
     first_err
      ([validate_workspace_id_size ''trust snapshot workspace ID'' (ts_workspace_id snapshot),
        validate_event_id_size ''trust snapshot root event ID'' (ts_root_event_id snapshot),
        validate_device_id_size ''trust snapshot root author device ID''
          (ts_root_author_device_id snapshot)]
       @ map (\<lambda>r. validate_device_id_size ''trust snapshot role device ID'' (tsr_device_id r))
           (ts_roles snapshot)
       @ map validate_trust_snapshot_channel_ids (ts_channels snapshot)
       @ map validate_trust_snapshot_message_ids (ts_messages snapshot)
       @ map (\<lambda>ec. first_err
                [validate_event_id_size ''trust snapshot event ID'' (tse_event_id ec),
                 validate_channel_id_size ''trust snapshot event channel ID'' (tse_channel_id ec)])
           (ts_event_channels snapshot)
       @ map (\<lambda>link. first_err
                [validate_person_id_size ''trust snapshot person ID'' (tsl_person_id link),
                 validate_device_id_size ''trust snapshot person device ID'' (tsl_device_id link)])
           (ts_person_device_links snapshot))"

section \<open>Payload sizes\<close>

definition check_direct_message_created :: "string \<Rightarrow> DeviceId list \<Rightarrow> auth_result" where
  "check_direct_message_created name participants =
     first_err
       [validate_event_text_size ''direct message name'' name CHANNEL_NAME_MAX_BYTES,
        ensure (length participants = 2)
          (EventItemCountTooLarge ''direct message participants'' (length participants) 2),
        ensure (card (set participants) = 2)
          (EventPayloadRequired ''direct message distinct participants'')]"

definition check_channel_details ::
  "string option \<Rightarrow> string option \<Rightarrow> bool option \<Rightarrow> auth_result" where
  "check_channel_details name topic archived =
     first_err
       [ensure (\<not> (name = None \<and> topic = None \<and> archived = None))
          (EventPayloadRequired ''channel details''),
        check_opt (\<lambda>n. validate_event_text_size ''channel name'' n CHANNEL_NAME_MAX_BYTES) name,
        check_opt (\<lambda>t. validate_event_text_size ''channel topic'' t CHANNEL_TOPIC_MAX_BYTES) topic]"

definition check_profile :: "string \<Rightarrow> string \<Rightarrow> auth_result" where
  "check_profile display_name avatar_id =
     first_err
       [validate_event_text_size ''display name'' display_name DEVICE_DISPLAY_NAME_MAX_BYTES,
        validate_event_text_size ''avatar ID'' avatar_id AVATAR_ID_MAX_BYTES,
        map_err (\<lambda>_. InvalidAvatarId) (validate_avatar_id_str avatar_id)]"

definition check_invite_recorded ::
  "string \<Rightarrow> string \<Rightarrow> string option \<Rightarrow> string \<Rightarrow> string \<Rightarrow> string \<Rightarrow> auth_result" where
  "check_invite_recorded invite_id display_name request_id expires_at approval_policy sync_expectation =
     first_err
       [validate_event_text_required ''invite ID'' invite_id,
        validate_event_text_size ''invite ID'' invite_id WORKSPACE_INVITE_ID_MAX_BYTES,
        validate_event_text_size ''display name'' display_name DEVICE_DISPLAY_NAME_MAX_BYTES,
        check_opt (\<lambda>r. validate_event_text_size ''join request ID'' r
          WORKSPACE_JOIN_REQUEST_ID_MAX_BYTES) request_id,
        validate_event_text_size ''invite expiry'' expires_at WORKSPACE_INVITE_EXPIRES_AT_MAX_BYTES,
        validate_event_text_size ''invite approval policy'' approval_policy
          WORKSPACE_INVITE_APPROVAL_POLICY_MAX_BYTES,
        validate_event_text_size ''invite sync expectation'' sync_expectation
          WORKSPACE_INVITE_SYNC_EXPECTATION_MAX_BYTES]"

definition check_invite_capability_created ::
  "string \<Rightarrow> string \<Rightarrow> string \<Rightarrow> string \<Rightarrow> string \<Rightarrow> u32 option \<Rightarrow> auth_result" where
  "check_invite_capability_created invite_id display_name expires_at capability_public_key
       sync_expectation max_claims0 =
     (let max_claims = effective_workspace_invite_max_claims max_claims0 in
      first_err
       [ensure (max_claims \<le> WORKSPACE_INVITE_MAX_CLAIMS)
          (EventItemCountTooLarge ''invite claims'' (unat max_claims)
            (unat WORKSPACE_INVITE_MAX_CLAIMS)),
        validate_event_text_required ''invite ID'' invite_id,
        validate_event_text_size ''invite ID'' invite_id WORKSPACE_INVITE_ID_MAX_BYTES,
        validate_event_text_size ''invite label'' display_name WORKSPACE_INVITE_LABEL_MAX_BYTES,
        validate_event_text_size ''invite expiry'' expires_at WORKSPACE_INVITE_EXPIRES_AT_MAX_BYTES,
        validate_event_text_required ''invite capability public key'' capability_public_key,
        validate_event_text_size ''invite capability public key'' capability_public_key
          WORKSPACE_INVITE_CAPABILITY_PUBLIC_KEY_MAX_BYTES,
        validate_event_text_size ''invite sync expectation'' sync_expectation
          WORKSPACE_INVITE_SYNC_EXPECTATION_MAX_BYTES])"

definition check_invite_claimed :: "string \<Rightarrow> string \<Rightarrow> auth_result" where
  "check_invite_claimed invite_id request_id =
     first_err
       [validate_event_text_required ''invite ID'' invite_id,
        validate_event_text_size ''invite ID'' invite_id WORKSPACE_INVITE_ID_MAX_BYTES,
        validate_event_text_required ''join request ID'' request_id,
        validate_event_text_size ''join request ID'' request_id WORKSPACE_JOIN_REQUEST_ID_MAX_BYTES]"

definition check_invite_resolved :: "string \<Rightarrow> auth_result" where
  "check_invite_resolved invite_id =
     first_err
       [validate_event_text_required ''invite ID'' invite_id,
        validate_event_text_size ''invite ID'' invite_id WORKSPACE_INVITE_ID_MAX_BYTES]"

definition check_join_request_recorded ::
  "string \<Rightarrow> string \<Rightarrow> string \<Rightarrow> string \<Rightarrow> string \<Rightarrow> string \<Rightarrow> string \<Rightarrow> string \<Rightarrow> auth_result" where
  "check_join_request_recorded request_id display_name note_text source_type source_invite_id
       source_display_name source_approval_policy response_peer_endpoint =
     first_err
       [validate_event_text_required ''join request ID'' request_id,
        validate_event_text_size ''join request ID'' request_id WORKSPACE_JOIN_REQUEST_ID_MAX_BYTES,
        validate_event_text_size ''display name'' display_name DEVICE_DISPLAY_NAME_MAX_BYTES,
        validate_event_text_size ''join request note'' note_text
          WORKSPACE_JOIN_REQUEST_NOTE_MAX_BYTES,
        validate_event_text_size ''join request source'' source_type
          WORKSPACE_ACCESS_POLICY_MAX_BYTES,
        validate_event_text_size ''source invite ID'' source_invite_id WORKSPACE_INVITE_ID_MAX_BYTES,
        validate_event_text_size ''source display name'' source_display_name
          DEVICE_DISPLAY_NAME_MAX_BYTES,
        validate_event_text_size ''source approval policy'' source_approval_policy
          WORKSPACE_INVITE_APPROVAL_POLICY_MAX_BYTES,
        validate_event_text_size ''join request response peer endpoint'' response_peer_endpoint
          PEER_ENDPOINT_MAX_BYTES]"

definition check_join_request_resolved :: "string \<Rightarrow> auth_result" where
  "check_join_request_resolved request_id =
     first_err
       [validate_event_text_required ''join request ID'' request_id,
        validate_event_text_size ''join request ID'' request_id WORKSPACE_JOIN_REQUEST_ID_MAX_BYTES]"

definition check_peer_endpoint_published ::
  "string \<Rightarrow> string \<Rightarrow> string \<Rightarrow> bool \<Rightarrow> ReplicaStorageClass option \<Rightarrow> string option \<Rightarrow> auth_result" where
  "check_peer_endpoint_published endpoint_id endpoint transport is_backup_peer
       replica_storage_class replica_retention_hint =
     first_err
       [validate_event_text_required ''peer endpoint ID'' endpoint_id,
        validate_event_text_required ''peer endpoint'' endpoint,
        validate_event_text_required ''peer endpoint transport'' transport,
        validate_event_text_size ''peer endpoint ID'' endpoint_id PEER_ENDPOINT_ID_MAX_BYTES,
        validate_event_text_size ''peer endpoint'' endpoint PEER_ENDPOINT_MAX_BYTES,
        validate_event_text_size ''peer endpoint transport'' transport
          PEER_ENDPOINT_TRANSPORT_MAX_BYTES,
        check_opt (\<lambda>h. first_err
            [validate_event_text_required ''replica retention hint'' h,
             validate_event_text_size ''replica retention hint'' h
               REPLICA_RETENTION_HINT_MAX_BYTES]) replica_retention_hint,
        ensure (peer_endpoint_hint_is_supported endpoint) UnsupportedPeerEndpoint,
        ensure (peer_endpoint_hint_transport_is_consistent endpoint transport)
          PeerEndpointTransportMismatch,
        ensure (\<not> (\<not> is_backup_peer
                   \<and> (replica_storage_class \<noteq> None \<or> replica_retention_hint \<noteq> None)))
          ReplicaCapabilityRequiresBackupPeer]"

definition check_content_key_epoch :: "string \<Rightarrow> string option \<Rightarrow> string \<Rightarrow> auth_result" where
  "check_content_key_epoch key_id previous_key_id algorithm =
     first_err
       [validate_event_text_size ''content key ID'' key_id CONTENT_KEY_ID_MAX_BYTES,
        check_opt (\<lambda>k. validate_event_text_size ''previous content key ID'' k
          CONTENT_KEY_ID_MAX_BYTES) previous_key_id,
        validate_event_text_size ''content key algorithm'' algorithm CONTENT_KEY_ALGORITHM_MAX_BYTES]"

definition validate_openmls_group_metadata ::
  "string option \<Rightarrow> string \<Rightarrow> string \<Rightarrow> string \<Rightarrow> auth_result" where
  "validate_openmls_group_metadata key_package_ref protocol ciphersuite group_id =
     first_err
       [check_opt (\<lambda>k. validate_event_text_size ''OpenMLS key package ref'' k
          OPENMLS_KEY_PACKAGE_REF_MAX_BYTES) key_package_ref,
        validate_event_text_size ''OpenMLS protocol'' protocol OPENMLS_PROTOCOL_MAX_BYTES,
        validate_event_text_size ''OpenMLS ciphersuite'' ciphersuite OPENMLS_CIPHERSUITE_MAX_BYTES,
        validate_event_text_size ''OpenMLS group ID'' group_id OPENMLS_GROUP_ID_MAX_BYTES]"

definition check_openmls_member_added ::
  "string \<Rightarrow> string \<Rightarrow> string \<Rightarrow> string \<Rightarrow> bytes \<Rightarrow> bytes \<Rightarrow> bytes \<Rightarrow> auth_result" where
  "check_openmls_member_added key_package_ref protocol ciphersuite group_id commit welcome ratchet_tree =
     first_err
       [validate_openmls_group_metadata (Some key_package_ref) protocol ciphersuite group_id,
        validate_event_payload_size ''OpenMLS commit'' commit OPENMLS_COMMIT_MAX_BYTES,
        validate_event_payload_size ''OpenMLS welcome'' welcome OPENMLS_WELCOME_MAX_BYTES,
        validate_event_payload_size ''OpenMLS ratchet tree'' ratchet_tree
          OPENMLS_RATCHET_TREE_MAX_BYTES]"

definition check_openmls_commit ::
  "string \<Rightarrow> string \<Rightarrow> string \<Rightarrow> bytes \<Rightarrow> bytes \<Rightarrow> auth_result" where
  "check_openmls_commit protocol ciphersuite group_id commit ratchet_tree =
     first_err
       [validate_openmls_group_metadata None protocol ciphersuite group_id,
        validate_event_payload_size ''OpenMLS commit'' commit OPENMLS_COMMIT_MAX_BYTES,
        validate_event_payload_size ''OpenMLS ratchet tree'' ratchet_tree
          OPENMLS_RATCHET_TREE_MAX_BYTES]"

definition validate_attachment_encryption :: "EncryptedBlobRef \<Rightarrow> auth_result" where
  "validate_attachment_encryption encryption =
     first_err
       [validate_event_text_size ''attachment encryption key id'' (ebr_key_id encryption)
          ATTACHMENT_KEY_ID_MAX_BYTES,
        validate_event_payload_size ''attachment encryption nonce'' (ebr_nonce encryption)
          SEALED_PAYLOAD_NONCE_MAX_BYTES,
        validate_event_payload_size ''attachment encryption aad'' (ebr_aad encryption)
          SEALED_PAYLOAD_AAD_MAX_BYTES,
        validate_event_u64_size ''attachment plaintext length'' (ebr_plaintext_byte_len encryption)
          ATTACHMENT_PLAINTEXT_MAX_BYTES]"

definition validate_message_attachment :: "AttachmentRef \<Rightarrow> auth_result" where
  "validate_message_attachment attachment =
     first_err
       [validate_event_text_size ''attachment blob hash'' (att_blob_hash attachment)
          ATTACHMENT_BLOB_HASH_MAX_BYTES,
        validate_event_text_size ''attachment media type'' (att_media_type attachment)
          ATTACHMENT_MEDIA_TYPE_MAX_BYTES,
        validate_event_text_size ''attachment display name'' (att_display_name attachment)
          ATTACHMENT_DISPLAY_NAME_MAX_BYTES,
        validate_event_text_size ''attachment id'' (att_attachment_id attachment)
          ATTACHMENT_ID_MAX_BYTES,
        validate_event_u64_size ''attachment ciphertext length'' (att_byte_len attachment)
          ATTACHMENT_CIPHERTEXT_MAX_BYTES,
        check_opt validate_attachment_encryption (att_encryption attachment)]"

definition validate_message_attachments :: "AttachmentRef list \<Rightarrow> auth_result" where
  "validate_message_attachments attachments =
     first_err
       (ensure (length attachments \<le> MESSAGE_ATTACHMENT_MAX_COUNT)
          (EventItemCountTooLarge ''message attachments'' (length attachments)
            MESSAGE_ATTACHMENT_MAX_COUNT)
        # map validate_message_attachment attachments)"

definition validate_sealed_markdown_payload :: "SealedPayload \<Rightarrow> auth_result" where
  "validate_sealed_markdown_payload payload =
     first_err
       [validate_event_text_size ''sealed message key ID'' (sp_key_id payload)
          SEALED_PAYLOAD_KEY_ID_MAX_BYTES,
        validate_event_payload_size ''sealed message ciphertext'' (sp_bytes payload)
          SEALED_MESSAGE_MARKDOWN_MAX_BYTES,
        validate_event_payload_size ''sealed message nonce'' (sp_nonce payload)
          SEALED_PAYLOAD_NONCE_MAX_BYTES,
        validate_event_payload_size ''sealed message aad'' (sp_aad payload)
          SEALED_PAYLOAD_AAD_MAX_BYTES]"

definition check_plain_message :: "string \<Rightarrow> AttachmentRef list \<Rightarrow> auth_result" where
  "check_plain_message markdown attachments =
     first_err
       [validate_event_text_size ''message markdown'' markdown MESSAGE_MARKDOWN_MAX_BYTES,
        validate_message_attachments attachments]"

definition check_sealed_message :: "SealedPayload \<Rightarrow> AttachmentRef list \<Rightarrow> auth_result" where
  "check_sealed_message sealed attachments =
     first_err [validate_sealed_markdown_payload sealed, validate_message_attachments attachments]"

definition check_device_key_package :: "string \<Rightarrow> bytes \<Rightarrow> auth_result" where
  "check_device_key_package protocol key_package =
     first_err
       [validate_event_text_size ''device key package protocol'' protocol
          DEVICE_KEY_PACKAGE_PROTOCOL_MAX_BYTES,
        validate_event_payload_size ''OpenMLS key package'' key_package
          OPENMLS_KEY_PACKAGE_MAX_BYTES]"

definition validate_event_body_payload_sizes :: "EventBody \<Rightarrow> auth_result" where
  "validate_event_body_payload_sizes body =
     (case body of
        WorkspaceCreated name \<Rightarrow>
          validate_event_text_size ''workspace name'' name WORKSPACE_NAME_MAX_BYTES
      | ChannelCreated _ name _ \<Rightarrow>
          validate_event_text_size ''channel name'' name CHANNEL_NAME_MAX_BYTES
      | DirectMessageChannelCreated _ name participants \<Rightarrow>
          check_direct_message_created name participants
      | ChannelDetailsUpdated _ name topic archived \<Rightarrow> check_channel_details name topic archived
      | DeviceProfileUpdated display_name avatar_id \<Rightarrow> check_profile display_name avatar_id
      | PersonProfileUpdated _ display_name avatar_id \<Rightarrow> check_profile display_name avatar_id
      | WorkspaceInviteRecorded invite_id _ display_name _ request_id expires_at approval_policy
          sync_expectation \<Rightarrow>
          check_invite_recorded invite_id display_name request_id expires_at approval_policy
            sync_expectation
      | WorkspaceInviteCapabilityCreated invite_id display_name _ expires_at capability_public_key
          sync_expectation max_claims \<Rightarrow>
          check_invite_capability_created invite_id display_name expires_at capability_public_key
            sync_expectation max_claims
      | WorkspaceInviteClaimed invite_id _ request_id \<Rightarrow> check_invite_claimed invite_id request_id
      | WorkspaceInviteResolved invite_id _ \<Rightarrow> check_invite_resolved invite_id
      | WorkspaceJoinRequestRecorded request_id _ display_name note_text source_type
          source_invite_id source_display_name source_approval_policy response_peer_endpoint \<Rightarrow>
          check_join_request_recorded request_id display_name note_text source_type
            source_invite_id source_display_name source_approval_policy response_peer_endpoint
      | WorkspaceJoinRequestResolved request_id _ \<Rightarrow> check_join_request_resolved request_id
      | PeerEndpointPublished endpoint_id endpoint transport is_backup_peer _
          replica_storage_class replica_retention_hint \<Rightarrow>
          check_peer_endpoint_published endpoint_id endpoint transport is_backup_peer
            replica_storage_class replica_retention_hint
      | ContentKeyEpochPublished _ _ key_id previous_key_id algorithm \<Rightarrow>
          check_content_key_epoch key_id previous_key_id algorithm
      | MessageCreated _ markdown attachments \<Rightarrow> check_plain_message markdown attachments
      | MessageReplyCreated _ _ markdown attachments \<Rightarrow> check_plain_message markdown attachments
      | MessageEdited _ markdown \<Rightarrow>
          validate_event_text_size ''message markdown'' markdown MESSAGE_MARKDOWN_MAX_BYTES
      | MessageCreatedEncrypted _ sealed attachments \<Rightarrow> check_sealed_message sealed attachments
      | MessageReplyCreatedEncrypted _ _ sealed attachments \<Rightarrow>
          check_sealed_message sealed attachments
      | MessageEditedEncrypted _ sealed \<Rightarrow> validate_sealed_markdown_payload sealed
      | ReactionAdded _ reaction \<Rightarrow>
          validate_event_text_size ''reaction'' reaction REACTION_TEXT_MAX_BYTES
      | ReactionRemoved _ reaction \<Rightarrow>
          validate_event_text_size ''reaction'' reaction REACTION_TEXT_MAX_BYTES
      | DeviceKeyPackagePublished _ protocol key_package \<Rightarrow>
          check_device_key_package protocol key_package
      | OpenMlsWorkspaceGroupMemberAdded _ _ key_package_ref protocol ciphersuite group_id _ commit
          welcome ratchet_tree \<Rightarrow>
          check_openmls_member_added key_package_ref protocol ciphersuite group_id commit welcome
            ratchet_tree
      | OpenMlsChannelGroupMemberAdded _ _ _ key_package_ref protocol ciphersuite group_id _ commit
          welcome ratchet_tree \<Rightarrow>
          check_openmls_member_added key_package_ref protocol ciphersuite group_id commit welcome
            ratchet_tree
      | OpenMlsWorkspaceGroupMemberRemoved _ protocol ciphersuite group_id _ commit ratchet_tree \<Rightarrow>
          check_openmls_commit protocol ciphersuite group_id commit ratchet_tree
      | OpenMlsChannelGroupMemberRemoved _ _ protocol ciphersuite group_id _ commit ratchet_tree \<Rightarrow>
          check_openmls_commit protocol ciphersuite group_id commit ratchet_tree
      | OpenMlsWorkspaceGroupSelfUpdated protocol ciphersuite group_id _ commit ratchet_tree \<Rightarrow>
          check_openmls_commit protocol ciphersuite group_id commit ratchet_tree
      | OpenMlsChannelGroupSelfUpdated _ protocol ciphersuite group_id _ commit ratchet_tree \<Rightarrow>
          check_openmls_commit protocol ciphersuite group_id commit ratchet_tree
      | _ \<Rightarrow> Inr ())"

section \<open>Facts the access index relies on\<close>

lemma check_opt_Inr [result_simps]:
  "check_opt f x = Inr () \<longleftrightarrow> (\<forall>v. x = Some v \<longrightarrow> f v = Inr ())"
  by (cases x) (auto simp: check_opt_def)

text \<open>The capacity of a valid capability invite lies between one and the documented maximum.\<close>

lemma effective_max_claims_pos: "0 < effective_workspace_invite_max_claims m"
  by (cases m) (auto simp: effective_workspace_invite_max_claims_def word_gt_0
      normalize_workspace_invite_max_claims_def default_workspace_invite_max_claims_def)

lemma capability_checked:
  assumes "check_invite_capability_created i n x k s m = Inr ()"
  shows "effective_workspace_invite_max_claims m \<le> WORKSPACE_INVITE_MAX_CLAIMS" "trim k \<noteq> []"
  using assms by (auto simp: check_invite_capability_created_def Let_def result_simps
      validate_event_text_required_def)

lemma direct_message_checked:
  assumes "check_direct_message_created name ps = Inr ()"
  shows "length ps = 2" "distinct ps"
  using assms by (auto simp: check_direct_message_created_def result_simps card_distinct)

end
