(* ===== verification/Event_Machine.thy ===== *)
theory Event_Machine
  imports Prelude
begin

text \<open>
  The interface between a component that accepts or rejects events one at a time and the loops
  that replay histories through it.  A machine is a step function into results; an accepted run is
  a sequence of events each of which the machine accepts.  The two locales state what a provider
  promises of single steps and give the clients the same promise of whole runs.
\<close>

inductive accepted_run :: "('s \<Rightarrow> 'e \<Rightarrow> 'x + 's) \<Rightarrow> 's \<Rightarrow> 'e list \<Rightarrow> 's \<Rightarrow> bool"
  for step :: "'s \<Rightarrow> 'e \<Rightarrow> 'x + 's" where
  run_nil: "accepted_run step s [] s"
| run_cons: "step s e = Inr t \<Longrightarrow> accepted_run step t es u \<Longrightarrow> accepted_run step s (e # es) u"

inductive_simps accepted_run_nil [simp]: "accepted_run step s [] t"
inductive_simps accepted_run_cons [simp]: "accepted_run step s (e # es) t"

lemma accepted_run_append:
  "accepted_run step s (xs @ ys) u \<longleftrightarrow> (\<exists>t. accepted_run step s xs t \<and> accepted_run step t ys u)"
  by (induction xs arbitrary: s) auto

lemma accepted_run_snoc:
  "accepted_run step s xs t \<Longrightarrow> step t e = Inr u \<Longrightarrow> accepted_run step s (xs @ [e]) u"
  by (auto simp: accepted_run_append)

lemma accepted_run_deterministic:
  "accepted_run step s es t \<Longrightarrow> accepted_run step s es u \<Longrightarrow> t = u"
proof (induction rule: accepted_run.induct)
  case (run_cons s e t es v)
  then show ?case by auto
qed simp

text \<open>An invariant of the machine.\<close>

locale event_machine =
  fixes step :: "'s \<Rightarrow> 'e \<Rightarrow> 'x + 's" and inv :: "'s \<Rightarrow> bool"
  assumes step_inv: "inv s \<Longrightarrow> step s e = Inr t \<Longrightarrow> inv t"
begin

lemma run_inv: "accepted_run step s es t \<Longrightarrow> inv s \<Longrightarrow> inv t"
  by (induction rule: accepted_run.induct) (auto intro: step_inv)

lemma run_inv_intermediate:
  assumes "accepted_run step s (xs @ ys) u" "inv s"
  obtains t where "accepted_run step s xs t" "inv t" "accepted_run step t ys u"
  using assms run_inv by (auto simp: accepted_run_append)

end

text \<open>A relation that every step keeps between the state before and after it.\<close>

locale event_machine_order = event_machine +
  fixes rel :: "'s \<Rightarrow> 's \<Rightarrow> bool"
  assumes rel_refl: "rel s s"
    and rel_trans: "rel s t \<Longrightarrow> rel t u \<Longrightarrow> rel s u"
    and step_rel: "inv s \<Longrightarrow> step s e = Inr t \<Longrightarrow> rel s t"
begin

lemma run_rel: "accepted_run step s es t \<Longrightarrow> inv s \<Longrightarrow> rel s t"
proof (induction rule: accepted_run.induct)
  case (run_nil s)
  show ?case by (rule rel_refl)
next
  case (run_cons s e t es u)
  then show ?case by (blast intro: rel_trans step_rel step_inv)
qed

end

end
