(* ===== verification/Access_Index.thy ===== *)
theory Access_Index
  imports Event_Validation Event_Machine
begin

text \<open>
  \<open>WorkspaceAccessIndex\<close> of \<^verbatim>\<open>src/domain/core/src/lib.rs\<close>: what a replica remembers of the accepted
  history to decide whether the next event is authorised, the decision (\<open>authorize\<close>) and the
  update (\<open>apply_authorized\<close>).  The large \<open>match\<close> of both functions is one definition per group of
  arms.
\<close>

section \<open>State\<close>

record ChannelAccess =
  ca_is_private :: bool
  ca_creator_device_id :: DeviceId
  ca_members :: "DeviceId set"

record MessageAccess =
  ma_channel_id :: ChannelId
  ma_author_device_id :: "DeviceId option"

record WorkspaceInviteAccess =
  ia_max_claims :: u32
  ia_claim_count :: u32
  ia_revoked :: bool
  ia_invitee_device_id :: "DeviceId option"

record WorkspaceAccessIndex =
  ix_workspace_id :: WorkspaceId
  ix_roles :: "(DeviceId, WorkspaceRole) fmap"
  ix_channels :: "(ChannelId, ChannelAccess) fmap"
  ix_messages :: "(MessageId, MessageAccess) fmap"
  ix_event_channels :: "(EventId, ChannelId) fmap"
  ix_invites :: "(string, WorkspaceInviteAccess) fmap"
  ix_join_requests :: "string set"
  ix_person_links :: "(DeviceId, PersonId) fmap"
  ix_root_device_id :: "DeviceId option"
  ix_root_seen :: bool

definition index_new :: "WorkspaceId \<Rightarrow> WorkspaceAccessIndex" where
  "index_new workspace_id =
     \<lparr>ix_workspace_id = workspace_id, ix_roles = fmempty, ix_channels = fmempty,
      ix_messages = fmempty, ix_event_channels = fmempty, ix_invites = fmempty,
      ix_join_requests = {}, ix_person_links = fmempty, ix_root_device_id = None,
      ix_root_seen = False\<rparr>"

definition role_for :: "WorkspaceAccessIndex \<Rightarrow> DeviceId \<Rightarrow> WorkspaceRole option" where
  "role_for ix device_id = fmlookup (ix_roles ix) device_id"

definition index_channel_accessible_to :: "WorkspaceAccessIndex \<Rightarrow> ChannelId \<Rightarrow> DeviceId \<Rightarrow> bool" where
  "index_channel_accessible_to ix channel_id device_id =
     (if \<not> ix_root_seen ix \<or> \<not> contains_key (ix_roles ix) device_id then False
      else case fmlookup (ix_channels ix) channel_id of
             None \<Rightarrow> False
           | Some channel \<Rightarrow> \<not> ca_is_private channel \<or> device_id \<in> ca_members channel)"

section \<open>Roles and actions\<close>

datatype Action =
    ManagePrivilegedRoles
  | InviteMember
  | ManageWorkspaceSettings
  | ManageJoinRequests
  | UpdateMemberRole
  | RemoveMember
  | CreateChannel
  | RotateContentKey
  | ManageOpenMlsGroup

fun action_label :: "Action \<Rightarrow> string" where
  "action_label ManagePrivilegedRoles = ''manage_privileged_roles''"
| "action_label InviteMember = ''invite_member''"
| "action_label ManageWorkspaceSettings = ''manage_workspace_settings''"
| "action_label ManageJoinRequests = ''manage_join_requests''"
| "action_label UpdateMemberRole = ''update_member_role''"
| "action_label RemoveMember = ''remove_member''"
| "action_label CreateChannel = ''create_channel''"
| "action_label RotateContentKey = ''rotate_content_key''"
| "action_label ManageOpenMlsGroup = ''manage_openmls_group''"

text \<open>\<open>matches!(role, WorkspaceRole::Owner | WorkspaceRole::Admin)\<close>.\<close>

definition privileged :: "WorkspaceRole \<Rightarrow> bool" where
  "privileged role \<longleftrightarrow> role = Owner \<or> role = Admin"

definition role_allows :: "WorkspaceRole \<Rightarrow> Action \<Rightarrow> bool" where
  "role_allows role action =
     (case action of
        ManagePrivilegedRoles \<Rightarrow> role = Owner
      | InviteMember \<Rightarrow> privileged role
      | ManageWorkspaceSettings \<Rightarrow> privileged role
      | ManageJoinRequests \<Rightarrow> privileged role
      | UpdateMemberRole \<Rightarrow> privileged role
      | RemoveMember \<Rightarrow> privileged role
      | CreateChannel \<Rightarrow> privileged role \<or> role = Member
      | RotateContentKey \<Rightarrow> privileged role
      | ManageOpenMlsGroup \<Rightarrow> privileged role)"

definition require_role :: "WorkspaceRole \<Rightarrow> Action \<Rightarrow> auth_result" where
  "require_role role action =
     ensure (role_allows role action) (InsufficientRole role (action_label action))"

section \<open>Requirements\<close>

definition require_rooted_member ::
  "WorkspaceAccessIndex \<Rightarrow> DeviceId \<Rightarrow> AuthorizationError + WorkspaceRole" where
  "require_rooted_member ix device_id =
     (if \<not> ix_root_seen ix then Inl MissingWorkspaceRoot
      else ok_or (role_for ix device_id) (NotAMember device_id))"

definition require_channel_access ::
  "WorkspaceAccessIndex \<Rightarrow> ChannelId \<Rightarrow> DeviceId \<Rightarrow> auth_result" where
  "require_channel_access ix channel_id device_id =
     bind_res (ok_or (fmlookup (ix_channels ix) channel_id) (ChannelNotFound channel_id)) (\<lambda>channel.
       ensure (\<not> ca_is_private channel \<or> device_id \<in> ca_members channel)
         (PrivateChannelAccessDenied channel_id device_id))"

definition require_channel_member_grant ::
  "WorkspaceAccessIndex \<Rightarrow> ChannelId \<Rightarrow> DeviceId \<Rightarrow> WorkspaceRole \<Rightarrow> auth_result" where
  "require_channel_member_grant ix channel_id device_id role =
     bind_res (ok_or (fmlookup (ix_channels ix) channel_id) (ChannelNotFound channel_id)) (\<lambda>channel.
       ensure (\<not> ca_is_private channel \<or> ca_creator_device_id channel = device_id \<or> privileged role)
         (ChannelMemberGrantDenied channel_id device_id))"

definition require_workspace_openmls_committer ::
  "WorkspaceAccessIndex \<Rightarrow> DeviceId \<Rightarrow> auth_result" where
  "require_workspace_openmls_committer ix device_id =
     bind_res (ok_or (ix_root_device_id ix) MissingWorkspaceRoot) (\<lambda>creator.
       ensure (creator = device_id) (WorkspaceOpenMlsCommitterDenied device_id creator))"

definition require_channel_openmls_committer ::
  "WorkspaceAccessIndex \<Rightarrow> ChannelId \<Rightarrow> DeviceId \<Rightarrow> auth_result" where
  "require_channel_openmls_committer ix channel_id device_id =
     bind_res (ok_or (fmlookup (ix_channels ix) channel_id) (ChannelNotFound channel_id)) (\<lambda>channel.
       ensure (ca_creator_device_id channel = device_id)
         (ChannelOpenMlsCommitterDenied channel_id device_id (ca_creator_device_id channel)))"

definition require_message ::
  "WorkspaceAccessIndex \<Rightarrow> MessageId \<Rightarrow> AuthorizationError + MessageAccess" where
  "require_message ix message_id =
     ok_or (fmlookup (ix_messages ix) message_id) (MessageNotFound message_id)"

definition require_new_channel_id :: "WorkspaceAccessIndex \<Rightarrow> ChannelId \<Rightarrow> auth_result" where
  "require_new_channel_id ix channel_id =
     ensure (\<not> contains_key (ix_channels ix) channel_id) (ChannelAlreadyCreated channel_id)"

definition require_person_profile_update ::
  "WorkspaceAccessIndex \<Rightarrow> PersonId \<Rightarrow> DeviceId \<Rightarrow> auth_result" where
  "require_person_profile_update ix person_id device_id =
     ensure (fmlookup (ix_person_links ix) device_id = Some person_id)
       (PersonProfileUpdateDenied person_id device_id)"

text \<open>
  \<open>find_map\<close> over the link table.  The iteration order of a hash map is unspecified; the model
  visits the devices in ascending order, and \<open>linked_device_any_order\<close> below shows that every
  order finds the same device because no person is ever linked to two devices.
\<close>

definition linked_device_of :: "(DeviceId, PersonId) fmap \<Rightarrow> PersonId \<Rightarrow> DeviceId option" where
  "linked_device_of links person_id =
     map_option fst (find (\<lambda>(_, p). p = person_id) (sorted_list_of_fmap links))"

definition require_person_device_link ::
  "WorkspaceAccessIndex \<Rightarrow> PersonId \<Rightarrow> DeviceId \<Rightarrow> DeviceId \<Rightarrow> auth_result" where
  "require_person_device_link ix person_id device_id author_device_id =
     (if device_id \<noteq> author_device_id then Inl (PersonDeviceLinkDenied author_device_id device_id)
      else case fmlookup (ix_person_links ix) device_id of
             Some existing \<Rightarrow>
               if existing = person_id then Inr ()
               else Inl (PersonDeviceAlreadyLinked device_id existing person_id)
           | None \<Rightarrow>
               (case linked_device_of (ix_person_links ix) person_id of
                  Some existing_device \<Rightarrow>
                    Inl (PersonAlreadyLinked person_id existing_device device_id)
                | None \<Rightarrow> Inr ()))"

definition require_event_channel :: "SignedEvent \<Rightarrow> AuthorizationError + ChannelId" where
  "require_event_channel event = ok_or (ev_channel event) MissingChannelContext"

text \<open>\<open>if actual != expected { return Err(ChannelMismatch { expected, actual }) }\<close>.\<close>

definition require_same_channel :: "ChannelId \<Rightarrow> ChannelId \<Rightarrow> auth_result" where
  "require_same_channel expected actual =
     ensure (actual = expected) (ChannelMismatch expected actual)"

section \<open>The decision\<close>

definition authorize_invite :: "WorkspaceAccessIndex \<Rightarrow> SignedEvent \<Rightarrow> WorkspaceRole \<Rightarrow> auth_result" where
  "authorize_invite ix event role =
     bind_res (require_rooted_member ix (ev_author event)) (\<lambda>author_role.
       if privileged role then require_role author_role ManagePrivilegedRoles
       else require_role author_role InviteMember)"

definition authorize_member_role_updated ::
  "WorkspaceAccessIndex \<Rightarrow> SignedEvent \<Rightarrow> DeviceId \<Rightarrow> WorkspaceRole \<Rightarrow> auth_result" where
  "authorize_member_role_updated ix event member_device_id role =
     bind_res (require_rooted_member ix (ev_author event)) (\<lambda>author_role.
     bind_res (require_rooted_member ix member_device_id) (\<lambda>existing_role.
     if ix_root_device_id ix = Some member_device_id
       then Inl (WorkspaceRootRoleCannotBeChanged member_device_id)
     else if privileged role \<or> privileged existing_role
       then require_role author_role ManagePrivilegedRoles
     else require_role author_role UpdateMemberRole))"

definition authorize_with_role :: "WorkspaceAccessIndex \<Rightarrow> SignedEvent \<Rightarrow> Action \<Rightarrow> auth_result" where
  "authorize_with_role ix event action =
     bind_res (require_rooted_member ix (ev_author event)) (\<lambda>role. require_role role action)"

definition authorize_invite_claimed :: "WorkspaceAccessIndex \<Rightarrow> SignedEvent \<Rightarrow> string \<Rightarrow> auth_result" where
  "authorize_invite_claimed ix event invite_id =
     then_res (authorize_with_role ix event InviteMember)
      (bind_res (ok_or (fmlookup (ix_invites ix) invite_id) (InviteNotFound invite_id)) (\<lambda>invite.
        if ia_revoked invite then Inl (InviteRevoked invite_id)
        else if ia_claim_count invite \<ge> ia_max_claims invite then Inl (InviteExhausted invite_id)
        else Inr ()))"

definition authorize_invite_resolved :: "WorkspaceAccessIndex \<Rightarrow> SignedEvent \<Rightarrow> string \<Rightarrow> auth_result" where
  "authorize_invite_resolved ix event invite_id =
     then_res (authorize_with_role ix event InviteMember)
       (ensure (contains_key (ix_invites ix) invite_id) (InviteNotFound invite_id))"

definition authorize_join_request_resolved ::
  "WorkspaceAccessIndex \<Rightarrow> SignedEvent \<Rightarrow> string \<Rightarrow> auth_result" where
  "authorize_join_request_resolved ix event request_id =
     then_res (authorize_with_role ix event ManageJoinRequests)
       (ensure (request_id \<in> ix_join_requests ix) (JoinRequestNotFound request_id))"

text \<open>The tail shared by the removal of a member and of a workspace group member.\<close>

definition authorize_removal ::
  "WorkspaceAccessIndex \<Rightarrow> SignedEvent \<Rightarrow> DeviceId \<Rightarrow> Action \<Rightarrow> auth_result" where
  "authorize_removal ix event removed_device_id action =
     bind_res (require_rooted_member ix (ev_author event)) (\<lambda>author_role.
     bind_res (require_rooted_member ix removed_device_id) (\<lambda>removed_role.
     if ix_root_device_id ix = Some removed_device_id
       then Inl (WorkspaceRootCannotBeRemoved removed_device_id)
     else if privileged removed_role then require_role author_role ManagePrivilegedRoles
     else require_role author_role action))"

definition authorize_channel_created ::
  "WorkspaceAccessIndex \<Rightarrow> SignedEvent \<Rightarrow> ChannelId \<Rightarrow> auth_result" where
  "authorize_channel_created ix event channel_id =
     then_res (authorize_with_role ix event CreateChannel) (require_new_channel_id ix channel_id)"

definition authorize_direct_message_created ::
  "WorkspaceAccessIndex \<Rightarrow> SignedEvent \<Rightarrow> ChannelId \<Rightarrow> DeviceId list \<Rightarrow> auth_result" where
  "authorize_direct_message_created ix event channel_id participants =
     then_res (authorize_with_role ix event CreateChannel)
      (then_res (require_new_channel_id ix channel_id)
        (if length participants \<noteq> 2 then
           Inl (EventItemCountTooLarge ''direct message participants'' (length participants) 2)
         else if ev_author event \<notin> set participants then
           Inl (EventPayloadRequired ''direct message author participant'')
         else first_err (map (\<lambda>p. then_res (require_rooted_member ix p) (Inr ())) participants)))"

definition authorize_channel_details_updated ::
  "WorkspaceAccessIndex \<Rightarrow> SignedEvent \<Rightarrow> ChannelId \<Rightarrow> auth_result" where
  "authorize_channel_details_updated ix event channel_id =
     then_res (authorize_with_role ix event CreateChannel)
       (require_channel_access ix channel_id (ev_author event))"

definition authorize_member :: "WorkspaceAccessIndex \<Rightarrow> SignedEvent \<Rightarrow> auth_result" where
  "authorize_member ix event = then_res (require_rooted_member ix (ev_author event)) (Inr ())"

definition authorize_openmls_workspace_added ::
  "WorkspaceAccessIndex \<Rightarrow> SignedEvent \<Rightarrow> DeviceId \<Rightarrow> auth_result" where
  "authorize_openmls_workspace_added ix event invitee =
     then_res (require_workspace_openmls_committer ix (ev_author event))
      (bind_res (require_rooted_member ix (ev_author event)) (\<lambda>author_role.
        then_res (require_rooted_member ix invitee) (require_role author_role ManageOpenMlsGroup)))"

definition authorize_openmls_workspace_removed ::
  "WorkspaceAccessIndex \<Rightarrow> SignedEvent \<Rightarrow> DeviceId \<Rightarrow> auth_result" where
  "authorize_openmls_workspace_removed ix event removed =
     then_res (require_workspace_openmls_committer ix (ev_author event))
       (authorize_removal ix event removed ManageOpenMlsGroup)"

text \<open>Adding and removing a device of a channel group run the same checks.\<close>

definition authorize_openmls_channel_member ::
  "WorkspaceAccessIndex \<Rightarrow> SignedEvent \<Rightarrow> ChannelId \<Rightarrow> DeviceId \<Rightarrow> auth_result" where
  "authorize_openmls_channel_member ix event channel_id device_id =
     then_res (require_channel_openmls_committer ix channel_id (ev_author event))
      (bind_res (require_rooted_member ix (ev_author event)) (\<lambda>author_role.
        then_res (require_rooted_member ix device_id)
         (bind_res (require_event_channel event) (\<lambda>actual.
           first_err
             [require_same_channel channel_id actual,
              require_channel_member_grant ix channel_id (ev_author event) author_role,
              require_channel_access ix channel_id device_id]))))"

definition authorize_openmls_workspace_self_updated ::
  "WorkspaceAccessIndex \<Rightarrow> SignedEvent \<Rightarrow> auth_result" where
  "authorize_openmls_workspace_self_updated ix event =
     then_res (require_workspace_openmls_committer ix (ev_author event)) (authorize_member ix event)"

definition authorize_openmls_channel_self_updated ::
  "WorkspaceAccessIndex \<Rightarrow> SignedEvent \<Rightarrow> ChannelId \<Rightarrow> auth_result" where
  "authorize_openmls_channel_self_updated ix event channel_id =
     then_res (require_channel_openmls_committer ix channel_id (ev_author event))
      (then_res (authorize_member ix event)
        (bind_res (require_event_channel event) (\<lambda>actual.
          first_err [require_same_channel channel_id actual,
                     require_channel_access ix channel_id (ev_author event)])))"

definition authorize_content_key_epoch ::
  "WorkspaceAccessIndex \<Rightarrow> SignedEvent \<Rightarrow> ContentKeyScope \<Rightarrow> auth_result" where
  "authorize_content_key_epoch ix event scope =
     bind_res (require_rooted_member ix (ev_author event)) (\<lambda>author_role.
       case scope of
         ScopeWorkspace \<Rightarrow> require_role author_role RotateContentKey
       | ScopeChannel channel_id \<Rightarrow>
           bind_res (require_event_channel event) (\<lambda>actual.
             first_err [require_same_channel channel_id actual,
                        require_channel_member_grant ix channel_id (ev_author event) author_role]))"

definition authorize_channel_member_added ::
  "WorkspaceAccessIndex \<Rightarrow> SignedEvent \<Rightarrow> ChannelId \<Rightarrow> DeviceId \<Rightarrow> auth_result" where
  "authorize_channel_member_added ix event channel_id member_device_id =
     bind_res (require_rooted_member ix (ev_author event)) (\<lambda>author_role.
       then_res (require_rooted_member ix member_device_id)
         (require_channel_member_grant ix channel_id (ev_author event) author_role))"

definition authorize_channel_member_removed ::
  "WorkspaceAccessIndex \<Rightarrow> SignedEvent \<Rightarrow> ChannelId \<Rightarrow> DeviceId \<Rightarrow> auth_result" where
  "authorize_channel_member_removed ix event channel_id member_device_id =
     bind_res (require_rooted_member ix (ev_author event)) (\<lambda>author_role.
       then_res (require_rooted_member ix member_device_id)
        (then_res
          (if ev_author event \<noteq> member_device_id
           then require_channel_member_grant ix channel_id (ev_author event) author_role
           else Inr ())
          (require_channel_access ix channel_id member_device_id)))"

definition authorize_message_created :: "WorkspaceAccessIndex \<Rightarrow> SignedEvent \<Rightarrow> auth_result" where
  "authorize_message_created ix event =
     then_res (authorize_member ix event)
      (bind_res (require_event_channel event) (\<lambda>channel_id.
        require_channel_access ix channel_id (ev_author event)))"

definition authorize_message_reply ::
  "WorkspaceAccessIndex \<Rightarrow> SignedEvent \<Rightarrow> MessageId \<Rightarrow> auth_result" where
  "authorize_message_reply ix event reply_to_message_id =
     then_res (authorize_member ix event)
      (bind_res (require_event_channel event) (\<lambda>channel_id.
        then_res (require_channel_access ix channel_id (ev_author event))
         (bind_res (require_message ix reply_to_message_id) (\<lambda>reply.
           require_same_channel (ma_channel_id reply) channel_id))))"

text \<open>The checks an edit, a deletion and a reaction share.\<close>

definition authorize_message_target ::
  "WorkspaceAccessIndex \<Rightarrow> SignedEvent \<Rightarrow> MessageId \<Rightarrow> AuthorizationError + MessageAccess" where
  "authorize_message_target ix event message_id =
     then_res (require_rooted_member ix (ev_author event))
      (bind_res (require_message ix message_id) (\<lambda>message.
       bind_res (require_event_channel event) (\<lambda>actual.
         then_res (require_same_channel (ma_channel_id message) actual)
          (then_res (require_channel_access ix (ma_channel_id message) (ev_author event))
            (Inr message)))))"

definition authorize_message_mutation ::
  "WorkspaceAccessIndex \<Rightarrow> SignedEvent \<Rightarrow> MessageId \<Rightarrow> auth_result" where
  "authorize_message_mutation ix event message_id =
     bind_res (authorize_message_target ix event message_id) (\<lambda>message.
       case ma_author_device_id message of
         Some author \<Rightarrow>
           ensure (ev_author event = author)
             (MessageMutationDenied message_id (ev_author event) author)
       | None \<Rightarrow> Inl (MessageAuthorUnknown message_id))"

definition authorize_reaction ::
  "WorkspaceAccessIndex \<Rightarrow> SignedEvent \<Rightarrow> MessageId \<Rightarrow> auth_result" where
  "authorize_reaction ix event message_id =
     then_res (authorize_message_target ix event message_id) (Inr ())"

definition authorize_read_marker ::
  "WorkspaceAccessIndex \<Rightarrow> SignedEvent \<Rightarrow> ChannelId \<Rightarrow> EventId \<Rightarrow> auth_result" where
  "authorize_read_marker ix event channel_id event_id =
     then_res (authorize_member ix event)
      (bind_res (require_event_channel event) (\<lambda>actual.
        then_res (require_same_channel channel_id actual)
         (then_res (require_channel_access ix channel_id (ev_author event))
          (bind_res (ok_or (fmlookup (ix_event_channels ix) event_id)
                      (ReadMarkerTargetNotFound event_id)) (\<lambda>target.
            require_same_channel channel_id target)))))"

definition authorize_body :: "WorkspaceAccessIndex \<Rightarrow> SignedEvent \<Rightarrow> auth_result" where
  "authorize_body ix event =
     (case ev_body event of
        WorkspaceCreated _ \<Rightarrow> ensure (\<not> ix_root_seen ix) WorkspaceAlreadyCreated
      | MemberInvited _ role \<Rightarrow> authorize_invite ix event role
      | MemberRoleUpdated member role \<Rightarrow> authorize_member_role_updated ix event member role
      | WorkspaceAccessPolicyUpdated _ \<Rightarrow> authorize_with_role ix event ManageWorkspaceSettings
      | WorkspaceInviteRecorded _ _ _ role _ _ _ _ \<Rightarrow> authorize_invite ix event role
      | WorkspaceInviteCapabilityCreated _ _ role _ _ _ _ \<Rightarrow> authorize_invite ix event role
      | WorkspaceInviteClaimed invite_id _ _ \<Rightarrow> authorize_invite_claimed ix event invite_id
      | WorkspaceInviteResolved invite_id _ \<Rightarrow> authorize_invite_resolved ix event invite_id
      | WorkspaceJoinRequestRecorded _ _ _ _ _ _ _ _ _ \<Rightarrow>
          authorize_with_role ix event ManageJoinRequests
      | WorkspaceJoinRequestResolved request_id _ \<Rightarrow>
          authorize_join_request_resolved ix event request_id
      | MemberRemoved removed \<Rightarrow> authorize_removal ix event removed RemoveMember
      | ChannelCreated channel_id _ _ \<Rightarrow> authorize_channel_created ix event channel_id
      | DirectMessageChannelCreated channel_id _ participants \<Rightarrow>
          authorize_direct_message_created ix event channel_id participants
      | ChannelDetailsUpdated channel_id _ _ _ \<Rightarrow>
          authorize_channel_details_updated ix event channel_id
      | DeviceProfileUpdated _ _ \<Rightarrow> authorize_member ix event
      | PersonDeviceLinked person_id device_id \<Rightarrow>
          then_res (require_rooted_member ix (ev_author event))
            (require_person_device_link ix person_id device_id (ev_author event))
      | PersonProfileUpdated person_id _ _ \<Rightarrow>
          then_res (require_rooted_member ix (ev_author event))
            (require_person_profile_update ix person_id (ev_author event))
      | DeviceKeyPackagePublished _ _ _ \<Rightarrow> authorize_member ix event
      | PeerEndpointPublished _ _ _ _ _ _ _ \<Rightarrow> authorize_member ix event
      | OpenMlsWorkspaceGroupMemberAdded invitee _ _ _ _ _ _ _ _ _ \<Rightarrow>
          authorize_openmls_workspace_added ix event invitee
      | OpenMlsWorkspaceGroupMemberRemoved removed _ _ _ _ _ _ \<Rightarrow>
          authorize_openmls_workspace_removed ix event removed
      | OpenMlsChannelGroupMemberAdded channel_id invitee _ _ _ _ _ _ _ _ _ \<Rightarrow>
          authorize_openmls_channel_member ix event channel_id invitee
      | OpenMlsChannelGroupMemberRemoved channel_id removed _ _ _ _ _ _ \<Rightarrow>
          authorize_openmls_channel_member ix event channel_id removed
      | OpenMlsWorkspaceGroupSelfUpdated _ _ _ _ _ _ \<Rightarrow>
          authorize_openmls_workspace_self_updated ix event
      | OpenMlsChannelGroupSelfUpdated channel_id _ _ _ _ _ _ \<Rightarrow>
          authorize_openmls_channel_self_updated ix event channel_id
      | ContentKeyEpochPublished scope _ _ _ _ \<Rightarrow> authorize_content_key_epoch ix event scope
      | ChannelMemberAdded channel_id member \<Rightarrow>
          authorize_channel_member_added ix event channel_id member
      | ChannelMemberRemoved channel_id member \<Rightarrow>
          authorize_channel_member_removed ix event channel_id member
      | MessageCreated _ _ _ \<Rightarrow> authorize_message_created ix event
      | MessageCreatedEncrypted _ _ _ \<Rightarrow> authorize_message_created ix event
      | MessageReplyCreated _ reply_to _ _ \<Rightarrow> authorize_message_reply ix event reply_to
      | MessageReplyCreatedEncrypted _ reply_to _ _ \<Rightarrow> authorize_message_reply ix event reply_to
      | MessageEdited message_id _ \<Rightarrow> authorize_message_mutation ix event message_id
      | MessageEditedEncrypted message_id _ \<Rightarrow> authorize_message_mutation ix event message_id
      | MessageDeleted message_id \<Rightarrow> authorize_message_mutation ix event message_id
      | ReactionAdded message_id _ \<Rightarrow> authorize_reaction ix event message_id
      | ReactionRemoved message_id _ \<Rightarrow> authorize_reaction ix event message_id
      | ReadMarkerUpdated channel_id event_id \<Rightarrow>
          authorize_read_marker ix event channel_id event_id)"

definition authorize :: "WorkspaceAccessIndex \<Rightarrow> SignedEvent \<Rightarrow> auth_result" where
  "authorize ix event =
     first_err
       [validate_signed_event_ids event,
        ensure (ev_workspace event = ix_workspace_id ix) WrongWorkspace,
        validate_event_body_payload_sizes (ev_body event),
        authorize_body ix event]"

section \<open>The update\<close>

definition record_event_channel ::
  "SignedEvent \<Rightarrow> ChannelId \<Rightarrow> WorkspaceAccessIndex \<Rightarrow> WorkspaceAccessIndex" where
  "record_event_channel event channel_id ix =
     ix\<lparr>ix_event_channels := fmupd (sg_event_id event) channel_id (ix_event_channels ix)\<rparr>"

definition insert_role :: "DeviceId \<Rightarrow> WorkspaceRole \<Rightarrow> WorkspaceAccessIndex \<Rightarrow> WorkspaceAccessIndex" where
  "insert_role device_id role ix = ix\<lparr>ix_roles := fmupd device_id role (ix_roles ix)\<rparr>"

definition insert_invite ::
  "string \<Rightarrow> u32 \<Rightarrow> DeviceId option \<Rightarrow> WorkspaceAccessIndex \<Rightarrow> WorkspaceAccessIndex" where
  "insert_invite invite_id max_claims invitee ix =
     ix\<lparr>ix_invites := fmupd invite_id
          \<lparr>ia_max_claims = max_claims, ia_claim_count = 0, ia_revoked = False,
           ia_invitee_device_id = invitee\<rparr> (ix_invites ix)\<rparr>"

definition index_remove_member :: "DeviceId \<Rightarrow> WorkspaceAccessIndex \<Rightarrow> WorkspaceAccessIndex" where
  "index_remove_member removed ix =
     ix\<lparr>ix_roles := fmdrop removed (ix_roles ix),
        ix_person_links := fmdrop removed (ix_person_links ix),
        ix_channels := fmmap (\<lambda>c. c\<lparr>ca_members := ca_members c - {removed}\<rparr>) (ix_channels ix)\<rparr>"

definition insert_channel ::
  "ChannelId \<Rightarrow> bool \<Rightarrow> DeviceId \<Rightarrow> DeviceId set \<Rightarrow> WorkspaceAccessIndex \<Rightarrow> WorkspaceAccessIndex" where
  "insert_channel channel_id is_private creator members ix =
     ix\<lparr>ix_channels := fmupd channel_id
          \<lparr>ca_is_private = is_private, ca_creator_device_id = creator, ca_members = members\<rparr>
          (ix_channels ix)\<rparr>"

definition modify_channel_members ::
  "ChannelId \<Rightarrow> (DeviceId set \<Rightarrow> DeviceId set) \<Rightarrow> WorkspaceAccessIndex \<Rightarrow> WorkspaceAccessIndex" where
  "modify_channel_members channel_id f ix =
     ix\<lparr>ix_channels := fm_modify channel_id (\<lambda>c. c\<lparr>ca_members := f (ca_members c)\<rparr>) (ix_channels ix)\<rparr>"

definition index_message_created ::
  "SignedEvent \<Rightarrow> MessageId \<Rightarrow> WorkspaceAccessIndex \<Rightarrow> WorkspaceAccessIndex" where
  "index_message_created event message_id ix =
     (case ev_channel event of
        None \<Rightarrow> ix
      | Some channel_id \<Rightarrow>
          record_event_channel event channel_id
            (ix\<lparr>ix_messages := fmupd message_id
                  \<lparr>ma_channel_id = channel_id, ma_author_device_id = Some (ev_author event)\<rparr>
                  (ix_messages ix)\<rparr>))"

definition index_message_touched ::
  "SignedEvent \<Rightarrow> MessageId \<Rightarrow> WorkspaceAccessIndex \<Rightarrow> WorkspaceAccessIndex" where
  "index_message_touched event message_id ix =
     (case fmlookup (ix_messages ix) message_id of
        None \<Rightarrow> ix
      | Some message \<Rightarrow> record_event_channel event (ma_channel_id message) ix)"

definition apply_authorized_body :: "WorkspaceAccessIndex \<Rightarrow> SignedEvent \<Rightarrow> WorkspaceAccessIndex" where
  "apply_authorized_body ix event =
     (case ev_body event of
        WorkspaceCreated _ \<Rightarrow>
          insert_role (ev_author event) Owner
            (ix\<lparr>ix_root_seen := True, ix_root_device_id := Some (ev_author event)\<rparr>)
      | MemberInvited invitee role \<Rightarrow> insert_role invitee role ix
      | MemberRoleUpdated member role \<Rightarrow> insert_role member role ix
      | WorkspaceInviteRecorded invite_id invitee _ _ _ _ _ _ \<Rightarrow>
          insert_invite invite_id 1 (Some invitee) ix
      | WorkspaceInviteCapabilityCreated invite_id _ _ _ _ _ max_claims \<Rightarrow>
          insert_invite invite_id (effective_workspace_invite_max_claims max_claims) None ix
      | WorkspaceInviteClaimed invite_id _ _ \<Rightarrow>
          ix\<lparr>ix_invites := fm_modify invite_id
               (\<lambda>i. i\<lparr>ia_claim_count := saturating_add (ia_claim_count i) 1\<rparr>) (ix_invites ix)\<rparr>
      | WorkspaceInviteResolved invite_id _ \<Rightarrow>
          ix\<lparr>ix_invites := fm_modify invite_id (\<lambda>i. i\<lparr>ia_revoked := True\<rparr>) (ix_invites ix)\<rparr>
      | WorkspaceJoinRequestRecorded request_id _ _ _ _ _ _ _ _ \<Rightarrow>
          ix\<lparr>ix_join_requests := insert request_id (ix_join_requests ix)\<rparr>
      | MemberRemoved removed \<Rightarrow> index_remove_member removed ix
      | ChannelCreated channel_id _ is_private \<Rightarrow>
          record_event_channel event channel_id
            (insert_channel channel_id is_private (ev_author event)
              (if is_private then {ev_author event} else {}) ix)
      | DirectMessageChannelCreated channel_id _ participants \<Rightarrow>
          record_event_channel event channel_id
            (insert_channel channel_id True (ev_author event)
              (insert (ev_author event) (set participants)) ix)
      | ChannelDetailsUpdated channel_id _ _ _ \<Rightarrow> record_event_channel event channel_id ix
      | ChannelMemberAdded channel_id member \<Rightarrow>
          record_event_channel event channel_id
            (modify_channel_members channel_id (insert member) ix)
      | ChannelMemberRemoved channel_id member \<Rightarrow>
          record_event_channel event channel_id
            (modify_channel_members channel_id (\<lambda>ms. ms - {member}) ix)
      | PersonDeviceLinked person_id device_id \<Rightarrow>
          ix\<lparr>ix_person_links := fmupd device_id person_id (ix_person_links ix)\<rparr>
      | OpenMlsChannelGroupMemberAdded channel_id _ _ _ _ _ _ _ _ _ _ \<Rightarrow>
          record_event_channel event channel_id ix
      | OpenMlsChannelGroupMemberRemoved channel_id _ _ _ _ _ _ _ \<Rightarrow>
          record_event_channel event channel_id ix
      | OpenMlsChannelGroupSelfUpdated channel_id _ _ _ _ _ _ \<Rightarrow>
          record_event_channel event channel_id ix
      | ContentKeyEpochPublished scope _ _ _ _ \<Rightarrow>
          (case scope of
             ScopeWorkspace \<Rightarrow> ix
           | ScopeChannel channel_id \<Rightarrow> record_event_channel event channel_id ix)
      | MessageCreated message_id _ _ \<Rightarrow> index_message_created event message_id ix
      | MessageCreatedEncrypted message_id _ _ \<Rightarrow> index_message_created event message_id ix
      | MessageReplyCreated message_id _ _ _ \<Rightarrow> index_message_created event message_id ix
      | MessageReplyCreatedEncrypted message_id _ _ _ \<Rightarrow> index_message_created event message_id ix
      | MessageEdited message_id _ \<Rightarrow> index_message_touched event message_id ix
      | MessageEditedEncrypted message_id _ \<Rightarrow> index_message_touched event message_id ix
      | MessageDeleted message_id \<Rightarrow> index_message_touched event message_id ix
      | ReactionAdded message_id _ \<Rightarrow> index_message_touched event message_id ix
      | ReactionRemoved message_id _ \<Rightarrow> index_message_touched event message_id ix
      | ReadMarkerUpdated channel_id _ \<Rightarrow> record_event_channel event channel_id ix
      | _ \<Rightarrow> ix)"

text \<open>\<open>matches!(body, WorkspaceInviteRecorded | .. CapabilityCreated | .. Claimed | .. Resolved)\<close>.\<close>

definition is_invite_lifecycle :: "EventBody \<Rightarrow> bool" where
  "is_invite_lifecycle body =
     (case body of
        WorkspaceInviteRecorded _ _ _ _ _ _ _ _ \<Rightarrow> True
      | WorkspaceInviteCapabilityCreated _ _ _ _ _ _ _ \<Rightarrow> True
      | WorkspaceInviteClaimed _ _ _ \<Rightarrow> True
      | WorkspaceInviteResolved _ _ \<Rightarrow> True
      | _ \<Rightarrow> False)"

definition settle_invites :: "WorkspaceAccessIndex \<Rightarrow> SignedEvent \<Rightarrow> WorkspaceAccessIndex" where
  "settle_invites ix event =
     (if is_invite_lifecycle (ev_body event) then ix
      else ix\<lparr>ix_invites := fmmap
                (\<lambda>i. if ia_invitee_device_id i = Some (ev_author event)
                     then i\<lparr>ia_claim_count := ia_max_claims i\<rparr> else i) (ix_invites ix)\<rparr>)"

definition apply_authorized :: "WorkspaceAccessIndex \<Rightarrow> SignedEvent \<Rightarrow> WorkspaceAccessIndex" where
  "apply_authorized ix event = settle_invites (apply_authorized_body ix event) event"

definition authorize_and_apply ::
  "WorkspaceAccessIndex \<Rightarrow> SignedEvent \<Rightarrow> AuthorizationError + WorkspaceAccessIndex" where
  "authorize_and_apply ix event = then_res (authorize ix event) (Inr (apply_authorized ix event))"

end
