(* ===== verification/Access_Invariant.thy ===== *)
theory Access_Invariant
  imports Access_Index
begin

text \<open>
  The well-formedness invariant of the access index, and what the accepted events do to roles,
  channels, messages and invites.
\<close>

section \<open>The invariant\<close>

definition root_ok :: "WorkspaceAccessIndex \<Rightarrow> bool" where
  "root_ok ix =
     (case ix_root_device_id ix of
        None \<Rightarrow> \<not> ix_root_seen ix \<and> fmdom' (ix_roles ix) = {} \<and> fmdom' (ix_channels ix) = {}
                \<and> fmdom' (ix_invites ix) = {}
      | Some root \<Rightarrow> ix_root_seen ix \<and> root \<in> fmdom' (ix_roles ix))"

definition members_ok :: "WorkspaceAccessIndex \<Rightarrow> bool" where
  "members_ok ix \<longleftrightarrow> fmpred (\<lambda>_ ca. ca_members ca \<subseteq> fmdom' (ix_roles ix)) (ix_channels ix)"

definition messages_ok :: "WorkspaceAccessIndex \<Rightarrow> bool" where
  "messages_ok ix \<longleftrightarrow> fmpred (\<lambda>_ ma. ma_channel_id ma \<in> fmdom' (ix_channels ix)) (ix_messages ix)"

definition event_channels_ok :: "WorkspaceAccessIndex \<Rightarrow> bool" where
  "event_channels_ok ix \<longleftrightarrow> fmpred (\<lambda>_ c. c \<in> fmdom' (ix_channels ix)) (ix_event_channels ix)"

definition links_ok :: "WorkspaceAccessIndex \<Rightarrow> bool" where
  "links_ok ix \<longleftrightarrow>
     fmpred (\<lambda>d p. d \<in> fmdom' (ix_roles ix) \<and> fmpred (\<lambda>d' p'. p' = p \<longrightarrow> d' = d) (ix_person_links ix))
       (ix_person_links ix)"

definition invites_ok :: "WorkspaceAccessIndex \<Rightarrow> bool" where
  "invites_ok ix \<longleftrightarrow>
     fmpred (\<lambda>_ i. 0 < ia_max_claims i \<and> ia_max_claims i \<le> WORKSPACE_INVITE_MAX_CLAIMS
                   \<and> ia_claim_count i \<le> ia_max_claims i) (ix_invites ix)"

definition access_inv :: "WorkspaceAccessIndex \<Rightarrow> bool" where
  "access_inv ix \<longleftrightarrow>
     root_ok ix \<and> members_ok ix \<and> messages_ok ix \<and> event_channels_ok ix \<and> links_ok ix \<and> invites_ok ix"

section \<open>When an event is authorised\<close>

lemmas requirement_defs =
  require_rooted_member_def require_channel_access_def require_channel_member_grant_def
  require_workspace_openmls_committer_def require_channel_openmls_committer_def
  require_message_def require_new_channel_id_def require_person_profile_update_def
  require_event_channel_def require_same_channel_def require_role_def

lemmas authorize_arm_defs =
  authorize_invite_def authorize_member_role_updated_def authorize_with_role_def
  authorize_invite_claimed_def authorize_invite_resolved_def authorize_join_request_resolved_def
  authorize_removal_def authorize_channel_created_def authorize_direct_message_created_def
  authorize_channel_details_updated_def authorize_member_def authorize_openmls_workspace_added_def
  authorize_openmls_workspace_removed_def authorize_openmls_channel_member_def
  authorize_openmls_workspace_self_updated_def authorize_openmls_channel_self_updated_def
  authorize_content_key_epoch_def authorize_channel_member_added_def
  authorize_channel_member_removed_def authorize_message_created_def authorize_message_reply_def
  authorize_message_target_def authorize_message_mutation_def authorize_reaction_def
  authorize_read_marker_def

lemmas index_update_defs =
  record_event_channel_def insert_role_def insert_invite_def index_remove_member_def
  insert_channel_def modify_channel_members_def index_message_created_def index_message_touched_def

lemma authorize_Inr:
  "authorize ix ev = Inr () \<longleftrightarrow>
     validate_signed_event_ids ev = Inr () \<and> ev_workspace ev = ix_workspace_id ix
     \<and> validate_event_body_payload_sizes (ev_body ev) = Inr () \<and> authorize_body ix ev = Inr ()"
  by (auto simp: authorize_def result_simps)

lemma authorize_and_apply_Inr:
  "authorize_and_apply ix ev = Inr ix' \<longleftrightarrow> authorize ix ev = Inr () \<and> ix' = apply_authorized ix ev"
  by (auto simp: authorize_and_apply_def result_simps)

lemma require_rooted_member_Inr [result_simps]:
  "require_rooted_member ix d = Inr r \<longleftrightarrow> ix_root_seen ix \<and> fmlookup (ix_roles ix) d = Some r"
  by (auto simp: require_rooted_member_def role_for_def result_simps)

lemma require_channel_access_Inr [result_simps]:
  "require_channel_access ix c d = Inr () \<longleftrightarrow>
     (\<exists>ca. fmlookup (ix_channels ix) c = Some ca \<and> (\<not> ca_is_private ca \<or> d \<in> ca_members ca))"
  by (auto simp: require_channel_access_def result_simps)

lemma require_channel_member_grant_Inr [result_simps]:
  "require_channel_member_grant ix c d r = Inr () \<longleftrightarrow>
     (\<exists>ca. fmlookup (ix_channels ix) c = Some ca
        \<and> (\<not> ca_is_private ca \<or> ca_creator_device_id ca = d \<or> privileged r))"
  by (auto simp: require_channel_member_grant_def result_simps)

lemma authorize_member_ok:
  assumes "authorize_body ix ev = Inr ()" "\<And>n. ev_body ev \<noteq> WorkspaceCreated n"
  shows "ix_root_seen ix \<and> ev_author ev \<in> fmdom' (ix_roles ix)"
  using assms
  by (cases "ev_body ev")
    (auto simp: authorize_body_def authorize_arm_defs result_simps fmlookup_dom'_iff)

section \<open>Every accepted event keeps the invariant\<close>

lemma settle_simps [simp]:
  "ix_roles (settle_invites ix ev) = ix_roles ix"
  "ix_channels (settle_invites ix ev) = ix_channels ix"
  "ix_messages (settle_invites ix ev) = ix_messages ix"
  "ix_event_channels (settle_invites ix ev) = ix_event_channels ix"
  "ix_join_requests (settle_invites ix ev) = ix_join_requests ix"
  "ix_person_links (settle_invites ix ev) = ix_person_links ix"
  "ix_root_device_id (settle_invites ix ev) = ix_root_device_id ix"
  "ix_root_seen (settle_invites ix ev) = ix_root_seen ix"
  "ix_workspace_id (settle_invites ix ev) = ix_workspace_id ix"
  "fmdom' (ix_invites (settle_invites ix ev)) = fmdom' (ix_invites ix)"
  by (simp_all add: settle_invites_def)

lemma root_ok_apply:
  assumes "authorize_body ix ev = Inr ()" "root_ok ix"
  shows "root_ok (apply_authorized_body ix ev)"
  using assms
  by (cases "ev_body ev")
    (auto simp: authorize_body_def authorize_arm_defs result_simps apply_authorized_body_def
       index_update_defs root_ok_def fmlookup_dom'_iff split: option.splits ContentKeyScope.splits if_splits)

lemma members_ok_apply:
  assumes "authorize_body ix ev = Inr ()" "members_ok ix" "root_ok ix"
  shows "members_ok (apply_authorized_body ix ev)"
  using assms
  by (cases "ev_body ev")
    (fastforce simp: authorize_body_def authorize_arm_defs result_simps apply_authorized_body_def
       index_update_defs members_ok_def root_ok_def fmpred_iff fmlookup_dom'_iff split: option.splits ContentKeyScope.splits if_splits)+

lemma messages_ok_apply:
  assumes "authorize_body ix ev = Inr ()" "messages_ok ix"
  shows "messages_ok (apply_authorized_body ix ev)"
  using assms
  by (cases "ev_body ev")
    (fastforce simp: authorize_body_def authorize_arm_defs result_simps apply_authorized_body_def
       index_update_defs messages_ok_def fmpred_iff fmlookup_dom'_iff require_event_channel_def
       split: option.splits ContentKeyScope.splits if_splits)+

lemma event_channels_ok_apply:
  assumes "authorize_body ix ev = Inr ()" "event_channels_ok ix" "messages_ok ix"
  shows "event_channels_ok (apply_authorized_body ix ev)"
  using assms
  by (cases "ev_body ev")
    (fastforce simp: authorize_body_def authorize_arm_defs result_simps apply_authorized_body_def
       index_update_defs messages_ok_def event_channels_ok_def fmpred_iff fmlookup_dom'_iff require_event_channel_def
       split: option.splits ContentKeyScope.splits if_splits)+

lemma linked_device_of_None:
  "linked_device_of m p = None \<longleftrightarrow> (\<forall>d. fmlookup m d \<noteq> Some p)"
  by (auto simp: linked_device_of_def find_None_iff set_sorted_list_of_fmap)

lemma linked_device_of_Some: "linked_device_of m p = Some d \<Longrightarrow> fmlookup m d = Some p"
  by (auto simp: linked_device_of_def set_sorted_list_of_fmap dest!: find_SomeD)

lemma links_ok_apply:
  assumes "authorize_body ix ev = Inr ()" "links_ok ix" "root_ok ix"
  shows "links_ok (apply_authorized_body ix ev)"
proof (cases "\<exists>p d. ev_body ev = PersonDeviceLinked p d")
  case True
  then obtain p d where b: "ev_body ev = PersonDeviceLinked p d" by blast
  with assms(1) have d: "d = ev_author ev" "d \<in> fmdom' (ix_roles ix)"
    and l: "fmlookup (ix_person_links ix) d = Some p \<or> (\<forall>d'. fmlookup (ix_person_links ix) d' \<noteq> Some p)"
    by (auto simp: authorize_body_def result_simps require_person_device_link_def fmlookup_dom'_iff
        linked_device_of_None split: if_splits option.splits)
  show ?thesis using assms(2) d l b
    by (auto simp: links_ok_def apply_authorized_body_def fmpred_iff split: if_splits)
next
  case False
  with assms show ?thesis
    by (cases "ev_body ev")
      (auto simp: apply_authorized_body_def index_update_defs links_ok_def fmpred_iff
        split: option.splits ContentKeyScope.splits if_splits)
qed

lemma claim_increment:
  assumes "(c :: u32) < m"
  shows "saturating_add c 1 \<le> m"
proof -
  have "unat c + 1 \<le> unat m" using assms by (simp add: word_less_nat_alt)
  then have "unat (saturating_add c 1) \<le> unat m" by (simp add: saturating_add_one)
  then show ?thesis by (simp add: word_le_nat_alt)
qed

lemma invites_ok_apply:
  assumes "authorize_body ix ev = Inr ()" "validate_event_body_payload_sizes (ev_body ev) = Inr ()"
    "invites_ok ix"
  shows "invites_ok (apply_authorized_body ix ev)"
proof (cases "is_invite_lifecycle (ev_body ev)")
  case True
  with assms show ?thesis
    by (cases "ev_body ev")
     (auto simp: is_invite_lifecycle_def authorize_body_def authorize_invite_claimed_def result_simps
        apply_authorized_body_def index_update_defs invites_ok_def fmpred_iff
        validate_event_body_payload_sizes_def effective_max_claims_pos
        intro!: claim_increment dest: capability_checked(1) split: if_splits)
next
  case False
  with assms(3) show ?thesis
    by (cases "ev_body ev")
      (auto simp: apply_authorized_body_def index_update_defs invites_ok_def is_invite_lifecycle_def
        split: option.splits ContentKeyScope.splits)
qed

lemma settle_invites_ok: "invites_ok ix \<Longrightarrow> invites_ok (settle_invites ix ev)"
  by (auto simp: invites_ok_def settle_invites_def fmpred_iff split: if_splits)

lemma settle_invites_parts [simp]:
  "root_ok (settle_invites ix ev) = root_ok ix"
  "members_ok (settle_invites ix ev) = members_ok ix"
  "messages_ok (settle_invites ix ev) = messages_ok ix"
  "event_channels_ok (settle_invites ix ev) = event_channels_ok ix"
  "links_ok (settle_invites ix ev) = links_ok ix"
  by (simp_all add: root_ok_def members_ok_def messages_ok_def event_channels_ok_def links_ok_def
      split: option.split)

lemma access_inv_new: "access_inv (index_new w)"
  by (simp add: access_inv_def index_new_def root_ok_def members_ok_def messages_ok_def
      event_channels_ok_def links_ok_def invites_ok_def)

lemma access_inv_step:
  assumes "access_inv ix" "authorize_and_apply ix ev = Inr ix'"
  shows "access_inv ix'"
proof -
  from assms(2) have ok: "authorize_body ix ev = Inr ()"
      "validate_event_body_payload_sizes (ev_body ev) = Inr ()"
    and ix': "ix' = settle_invites (apply_authorized_body ix ev) ev"
    by (auto simp: authorize_and_apply_Inr authorize_Inr apply_authorized_def)
  let ?b = "apply_authorized_body ix ev"
  from assms(1) have inv: "root_ok ix" "members_ok ix" "messages_ok ix" "event_channels_ok ix"
      "links_ok ix" "invites_ok ix"
    by (auto simp: access_inv_def)
  have "root_ok ?b" "members_ok ?b" "messages_ok ?b" "event_channels_ok ?b" "links_ok ?b" "invites_ok ?b"
    using ok inv by (blast intro: root_ok_apply members_ok_apply messages_ok_apply
        event_channels_ok_apply links_ok_apply invites_ok_apply)+
  then show ?thesis
    unfolding ix' access_inv_def
    by (simp add: settle_invites_ok)
qed

interpretation access: event_machine authorize_and_apply access_inv
  by unfold_locales (rule access_inv_step)

text \<open>Any enumeration of the link table finds the device the model finds.\<close>

lemma linked_device_any_order:
  assumes "access_inv ix" "fmlookup (ix_person_links ix) d = Some p"
  shows "linked_device_of (ix_person_links ix) p = Some d"
proof -
  have "linked_device_of (ix_person_links ix) p \<noteq> None"
    using assms(2) by (auto simp: linked_device_of_None)
  then obtain d' where d': "linked_device_of (ix_person_links ix) p = Some d'" by blast
  then have "fmlookup (ix_person_links ix) d' = Some p"
    by (rule linked_device_of_Some)
  with assms have "d' = d"
    by (fastforce simp: access_inv_def links_ok_def fmpred_iff)
  with d' show ?thesis by simp
qed

end
