(* ===== verification/Scenario.thy ===== *)
theory Scenario
  imports Access_Invariant
begin

text \<open>
  A small concrete workspace on which the properties are instantiated: Alice creates it, invites
  Bob as an administrator and Carol as a member; Carol opens a private channel and posts in it.
\<close>

definition alice :: DeviceId where "alice = DeviceId ''alice''"
definition bob :: DeviceId where "bob = DeviceId ''bob''"
definition carol :: DeviceId where "carol = DeviceId ''carol''"
definition team :: WorkspaceId where "team = WorkspaceId ''team''"
definition general :: ChannelId where "general = ChannelId ''general''"
definition secret :: ChannelId where "secret = ChannelId ''secret''"
definition hello :: MessageId where "hello = MessageId ''hello''"

definition sample_event ::
  "string \<Rightarrow> DeviceId \<Rightarrow> ChannelId option \<Rightarrow> EventId list \<Rightarrow> EventBody \<Rightarrow> SignedEvent" where
  "sample_event event_id author channel parents body =
     \<lparr>sg_event_id = EventId event_id,
      sg_event = \<lparr>se_schema_version = 1, se_workspace_id = team, se_channel_id = channel,
        se_author_device_id = author, se_timestamp = \<lparr>physical_ms = 0, logical = 0\<rparr>,
        se_parents = parents, se_body = body\<rparr>,
      sg_author_public_key = [], sg_signature = []\<rparr>"

lemmas scenario_names =
  alice_def bob_def carol_def team_def general_def secret_def hello_def

lemma sample_event_simps [simp]:
  "sg_event_id (sample_event i a c ps b) = EventId i"
  "ev_author (sample_event i a c ps b) = a"
  "ev_channel (sample_event i a c ps b) = c"
  "ev_parents (sample_event i a c ps b) = ps"
  "ev_body (sample_event i a c ps b) = b"
  "ev_workspace (sample_event i a c ps b) = team"
  "ev_physical_ms (sample_event i a c ps b) = 0"
  "sg_author_public_key (sample_event i a c ps b) = []"
  "sg_signature (sample_event i a c ps b) = []"
  by (simp_all add: sample_event_def)

lemmas id_check_defs =
  validate_signed_event_ids_def validate_event_body_ids_def validate_workspace_id_size_def
  validate_channel_id_size_def validate_message_id_size_def validate_device_key_package_id_size_def
  validate_event_id_size_def validate_device_id_size_def validate_person_id_size_def
  validate_event_text_size_def validate_event_payload_size_def validate_event_u64_size_def
  check_opt_def ensure_def

lemmas payload_check_defs =
  validate_event_body_payload_sizes_def check_direct_message_created_def check_channel_details_def
  check_plain_message_def validate_message_attachments_def

lemmas authorize_eval =
  authorize_def authorize_body_def authorize_arm_defs requirement_defs role_for_def ok_or_def
  role_allows_def privileged_def id_check_defs payload_check_defs contains_key_def

lemmas apply_eval =
  apply_authorized_def apply_authorized_body_def settle_invites_def is_invite_lifecycle_def
  index_update_defs authorize_and_apply_def

definition create_team :: SignedEvent where
  "create_team = sample_event ''e1'' alice None [] (WorkspaceCreated ''Team'')"
definition invite_bob :: SignedEvent where
  "invite_bob = sample_event ''e2'' alice None [EventId ''e1''] (MemberInvited bob Admin)"
definition invite_carol :: SignedEvent where
  "invite_carol = sample_event ''e3'' alice None [EventId ''e2''] (MemberInvited carol Member)"
definition open_secret :: SignedEvent where
  "open_secret = sample_event ''e4'' carol None [EventId ''e3''] (ChannelCreated secret ''Secret'' True)"
definition post_hello :: SignedEvent where
  "post_hello = sample_event ''e5'' carol (Some secret) [EventId ''e4''] (MessageCreated hello ''hi'' [])"

lemmas scenario_events =
  create_team_def invite_bob_def invite_carol_def open_secret_def post_hello_def

definition team_history :: "SignedEvent list" where
  "team_history = [create_team, invite_bob, invite_carol, open_secret, post_hello]"

definition team_index :: WorkspaceAccessIndex where
  "team_index = fold (\<lambda>e ix. apply_authorized ix e) team_history (index_new team)"

lemmas team_index_eval =
  team_index_def team_history_def scenario_events scenario_names index_new_def

lemma team_run: "accepted_run authorize_and_apply (index_new team) team_history team_index"
  by (simp add: authorize_eval apply_eval team_index_eval)

lemma team_inv: "access_inv team_index"
  using access.run_inv [OF team_run access_inv_new] .

lemma team_roles:
  "role_for team_index alice = Some Owner" "role_for team_index bob = Some Admin"
  "role_for team_index carol = Some Member" "ix_root_device_id team_index = Some alice"
  "ix_root_seen team_index" "ix_workspace_id team_index = team"
  by (simp_all add: apply_eval team_index_eval role_for_def)

lemma team_channel:
  "fmlookup (ix_channels team_index) secret =
     Some \<lparr>ca_is_private = True, ca_creator_device_id = carol, ca_members = {carol}\<rparr>"
  by (simp add: apply_eval team_index_eval)

lemma team_message:
  "fmlookup (ix_messages team_index) hello =
     Some \<lparr>ma_channel_id = secret, ma_author_device_id = Some carol\<rparr>"
  by (simp add: apply_eval team_index_eval)

end
