(* ===== verification/Access_Policy.thy ===== *)
theory Access_Policy
  imports Scenario
begin

text \<open>
  What the access index promises of the events it accepts: who may change roles, who may enter a
  private channel, who may change a message, how often an invite may be claimed and what a removal
  takes away.
\<close>

section \<open>Channel identity and the workspace root never change\<close>

definition index_extends :: "WorkspaceAccessIndex \<Rightarrow> WorkspaceAccessIndex \<Rightarrow> bool" where
  "index_extends ix ix' \<longleftrightarrow>
     ix_workspace_id ix' = ix_workspace_id ix
     \<and> (ix_root_device_id ix \<noteq> None \<longrightarrow> ix_root_device_id ix' = ix_root_device_id ix)
     \<and> (\<forall>c ca. fmlookup (ix_channels ix) c = Some ca \<longrightarrow>
          (\<exists>ca'. fmlookup (ix_channels ix') c = Some ca'
             \<and> ca_is_private ca' = ca_is_private ca
             \<and> ca_creator_device_id ca' = ca_creator_device_id ca))"

lemma index_extends_refl: "index_extends ix ix"
  by (simp add: index_extends_def)

lemma index_extends_trans: "index_extends a b \<Longrightarrow> index_extends b c \<Longrightarrow> index_extends a c"
  unfolding index_extends_def by metis

lemma index_extends_channel:
  assumes "index_extends ix ix'" "fmlookup (ix_channels ix) c = Some ca"
  obtains ca' where "fmlookup (ix_channels ix') c = Some ca'" "ca_is_private ca' = ca_is_private ca"
    "ca_creator_device_id ca' = ca_creator_device_id ca"
  using assms unfolding index_extends_def by blast

lemma index_extends_step:
  assumes "access_inv ix" "authorize_and_apply ix ev = Inr ix'"
  shows "index_extends ix ix'"
proof -
  from assms(2) have ok: "authorize_body ix ev = Inr ()"
    and ix': "ix' = settle_invites (apply_authorized_body ix ev) ev"
    by (auto simp: authorize_and_apply_Inr authorize_Inr apply_authorized_def)
  have r: "root_ok ix" using assms(1) by (simp add: access_inv_def)
  show ?thesis using ok r
    by (cases "ev_body ev")
      (auto simp: ix' index_extends_def apply_authorized_body_def index_update_defs
        authorize_body_def authorize_arm_defs require_new_channel_id_def contains_key_def root_ok_def
        result_simps split: option.splits ContentKeyScope.splits)
qed

interpretation access_order: event_machine_order authorize_and_apply access_inv index_extends
  by unfold_locales (blast intro: index_extends_refl index_extends_trans index_extends_step)+

section \<open>Roles\<close>

lemma role_change:
  assumes "authorize_and_apply ix ev = Inr ix'" "role_for ix' d \<noteq> role_for ix d"
  shows "(\<exists>n. ev_body ev = WorkspaceCreated n \<and> d = ev_author ev \<and> role_for ix' d = Some Owner)
    \<or> (\<exists>r. ev_body ev = MemberInvited d r \<and> role_for ix' d = Some r)
    \<or> (\<exists>r. ev_body ev = MemberRoleUpdated d r \<and> role_for ix' d = Some r)
    \<or> (ev_body ev = MemberRemoved d \<and> role_for ix' d = None)"
  using assms
  by (cases "ev_body ev")
    (auto simp: authorize_and_apply_Inr apply_authorized_def apply_authorized_body_def
      index_update_defs role_for_def split: option.splits ContentKeyScope.splits if_splits)

lemma require_role_Inr [result_simps]: "require_role r a = Inr () \<longleftrightarrow> role_allows r a"
  by (simp add: require_role_def result_simps)

lemma role_change_authority:
  assumes "authorize_and_apply ix ev = Inr ix'" "role_for ix' d \<noteq> role_for ix d"
    "\<And>n. ev_body ev \<noteq> WorkspaceCreated n"
  shows "\<exists>r. role_for ix (ev_author ev) = Some r \<and> privileged r
    \<and> (\<forall>r'. role_for ix' d = Some r' \<and> privileged r' \<longrightarrow> r = Owner)"
proof -
  from assms(1) have ok: "authorize_body ix ev = Inr ()"
    by (auto simp: authorize_and_apply_Inr authorize_Inr)
  from role_change [OF assms(1,2)] assms(3) ok show ?thesis
    by (auto simp: authorize_body_def authorize_arm_defs result_simps role_allows_def role_for_def
        privileged_def split: if_splits)
qed

section \<open>Access to private channels\<close>

lemma private_access_iff:
  assumes "access_inv ix" "fmlookup (ix_channels ix) c = Some ca" "ca_is_private ca"
  shows "index_channel_accessible_to ix c d \<longleftrightarrow> d \<in> ca_members ca"
proof -
  have "ca_members ca \<subseteq> fmdom' (ix_roles ix)"
    using assms by (auto simp: access_inv_def members_ok_def fmpred_iff)
  moreover have "ix_root_seen ix"
    using assms(1,2) by (auto simp: access_inv_def root_ok_def fmdom'_iff split: option.splits)
  ultimately show ?thesis using assms(2,3)
    by (auto simp: index_channel_accessible_to_def contains_key_iff)
qed

lemma private_grant:
  assumes "access_inv ix" "authorize_and_apply ix ev = Inr ix'"
    "fmlookup (ix_channels ix) c = Some ca" "fmlookup (ix_channels ix') c = Some ca'"
    "d \<in> ca_members ca'" "d \<notin> ca_members ca" "ca_is_private ca"
  shows "ev_body ev = ChannelMemberAdded c d
    \<and> (\<exists>r. role_for ix (ev_author ev) = Some r \<and> (ca_creator_device_id ca = ev_author ev \<or> privileged r))"
proof -
  from assms(2) have ok: "authorize_body ix ev = Inr ()"
    and ix': "ix' = settle_invites (apply_authorized_body ix ev) ev"
    by (auto simp: authorize_and_apply_Inr authorize_Inr apply_authorized_def)
  show ?thesis using ok assms(3-)
    by (cases "ev_body ev")
      (auto simp: ix' apply_authorized_body_def index_update_defs authorize_body_def
        authorize_arm_defs require_new_channel_id_def contains_key_def result_simps role_for_def
        split: option.splits ContentKeyScope.splits if_splits)
qed

section \<open>Message targets\<close>

lemma accessible_intro:
  assumes "require_rooted_member ix d = Inr r" "require_channel_access ix c d = Inr ()"
  shows "index_channel_accessible_to ix c d"
  using assms by (auto simp: result_simps index_channel_accessible_to_def contains_key_def)

lemma authorize_message_target_Inr:
  assumes "authorize_message_target ix ev m = Inr ma"
  shows "fmlookup (ix_messages ix) m = Some ma \<and> ev_channel ev = Some (ma_channel_id ma)
    \<and> index_channel_accessible_to ix (ma_channel_id ma) (ev_author ev)"
proof -
  from assms obtain r where r: "require_rooted_member ix (ev_author ev) = Inr r"
    and m: "fmlookup (ix_messages ix) m = Some ma" "ev_channel ev = Some (ma_channel_id ma)"
    and a: "require_channel_access ix (ma_channel_id ma) (ev_author ev) = Inr ()"
    by (cases "require_rooted_member ix (ev_author ev)")
      (auto simp: authorize_message_target_def then_res_Inr bind_res_Inr unit_Inr_iff
        require_message_def require_event_channel_def require_same_channel_def ok_or_Inr ensure_Inr)
  from accessible_intro [OF r a] m show ?thesis by simp
qed

section \<open>Removal\<close>

lemma non_member_rejected:
  assumes "ix_root_seen ix" "role_for ix (ev_author ev) = None"
  shows "authorize ix ev \<noteq> Inr ()"
proof
  assume "authorize ix ev = Inr ()"
  then have ok: "authorize_body ix ev = Inr ()" by (simp add: authorize_Inr)
  have "\<And>n. ev_body ev \<noteq> WorkspaceCreated n"
    using ok assms(1) by (auto simp: authorize_body_def result_simps)
  from authorize_member_ok [OF ok this] assms(2) show False
    by (simp add: role_for_def fmdom'_iff)
qed

lemma stays_out:
  assumes "accepted_run authorize_and_apply ix es ix'" "ix_root_seen ix" "role_for ix d = None"
    "\<forall>e \<in> set es. \<forall>r. ev_body e \<noteq> MemberInvited d r"
  shows "role_for ix' d = None \<and> (\<forall>e \<in> set es. ev_author e \<noteq> d)"
  using assms
proof (induction rule: accepted_run.induct)
  case (run_nil ix)
  then show ?case by simp
next
  case (run_cons ix e ix1 es ix')
  have a: "ev_author e \<noteq> d"
    using non_member_rejected [of ix e] run_cons by (auto simp: authorize_and_apply_Inr)
  have ok: "authorize_body ix e = Inr ()" using run_cons
    by (auto simp: authorize_and_apply_Inr authorize_Inr)
  have nr: "\<And>n. ev_body e \<noteq> WorkspaceCreated n"
    using ok run_cons.prems(1) by (auto simp: authorize_body_def result_simps)
  have "role_for ix1 d = None"
  proof (rule ccontr)
    assume "role_for ix1 d \<noteq> None"
    with run_cons.prems have "role_for ix1 d \<noteq> role_for ix d" by simp
    from role_change [OF run_cons.hyps(1) this] nr run_cons.prems ok show False
      by (auto simp: authorize_body_def authorize_arm_defs result_simps role_for_def)
  qed
  moreover have "ix_root_seen ix1"
    using run_cons.hyps(1) run_cons.prems(1) nr
    by (cases "ev_body e") (auto simp: authorize_and_apply_Inr apply_authorized_def
        apply_authorized_body_def index_update_defs split: option.splits ContentKeyScope.splits)
  ultimately show ?case using run_cons a by simp
qed

section \<open>Invite capacity\<close>

text \<open>The claims an invite still admits.\<close>

definition invite_budget :: "WorkspaceAccessIndex \<Rightarrow> string \<Rightarrow> nat" where
  "invite_budget ix i =
     (case fmlookup (ix_invites ix) i of
        None \<Rightarrow> 0
      | Some a \<Rightarrow> if ia_revoked a then 0 else unat (ia_max_claims a) - unat (ia_claim_count a))"

definition reissues_invite :: "string \<Rightarrow> SignedEvent \<Rightarrow> bool" where
  "reissues_invite i ev =
     (case ev_body ev of
        WorkspaceInviteRecorded j _ _ _ _ _ _ _ \<Rightarrow> j = i
      | WorkspaceInviteCapabilityCreated j _ _ _ _ _ _ \<Rightarrow> j = i
      | _ \<Rightarrow> False)"

definition claims_invite :: "string \<Rightarrow> SignedEvent \<Rightarrow> bool" where
  "claims_invite i ev = (case ev_body ev of WorkspaceInviteClaimed j _ _ \<Rightarrow> j = i | _ \<Rightarrow> False)"

lemma budget_settle: "invite_budget (settle_invites ix ev) i \<le> invite_budget ix i"
  by (auto simp: invite_budget_def settle_invites_def split: option.splits)

lemma budget_body:
  assumes "authorize_body ix ev = Inr ()" "\<not> reissues_invite i ev" "\<not> claims_invite i ev"
  shows "invite_budget (apply_authorized_body ix ev) i \<le> invite_budget ix i"
  using assms
  by (cases "ev_body ev")
    (auto simp: apply_authorized_body_def index_update_defs invite_budget_def reissues_invite_def
      claims_invite_def split: option.splits ContentKeyScope.splits)

lemma budget_claim:
  assumes "authorize_body ix ev = Inr ()" "claims_invite i ev"
  shows "Suc (invite_budget (apply_authorized_body ix ev) i) = invite_budget ix i"
proof -
  from assms(2) obtain d r where b: "ev_body ev = WorkspaceInviteClaimed i d r"
    by (auto simp: claims_invite_def split: EventBody.splits)
  with assms(1) obtain a where a: "fmlookup (ix_invites ix) i = Some a" "\<not> ia_revoked a"
      "ia_claim_count a < ia_max_claims a"
    by (auto simp: authorize_body_def authorize_invite_claimed_def result_simps not_le split: if_splits)
  then have lt: "unat (ia_claim_count a) < unat (ia_max_claims a)" by (simp add: word_less_nat_alt)
  moreover have "unat (ia_max_claims a) < 2 ^ 32" using unsigned_less [of "ia_max_claims a"] by simp
  ultimately have "unat (saturating_add (ia_claim_count a) 1) = Suc (unat (ia_claim_count a))"
    by (simp add: saturating_add_one)
  with a lt b show ?thesis
    by (simp add: apply_authorized_body_def invite_budget_def Suc_diff_Suc)
qed

lemma budget_step:
  assumes "authorize_and_apply ix ev = Inr ix'" "\<not> reissues_invite i ev"
  shows "invite_budget ix' i + (if claims_invite i ev then 1 else 0) \<le> invite_budget ix i"
proof -
  from assms(1) have ok: "authorize_body ix ev = Inr ()"
    and ix': "ix' = settle_invites (apply_authorized_body ix ev) ev"
    by (auto simp: authorize_and_apply_Inr authorize_Inr apply_authorized_def)
  show ?thesis
    using budget_body [OF ok assms(2)] budget_claim [OF ok]
      budget_settle [of "apply_authorized_body ix ev" ev i] unfolding ix'
    by (cases "claims_invite i ev") fastforce+
qed

lemma claims_within_budget:
  assumes "accepted_run authorize_and_apply ix es ix'" "\<forall>e \<in> set es. \<not> reissues_invite i e"
  shows "length (filter (claims_invite i) es) + invite_budget ix' i \<le> invite_budget ix i"
  using assms
proof (induction rule: accepted_run.induct)
  case (run_cons ix e ix1 es ix')
  then have "invite_budget ix1 i + (if claims_invite i e then 1 else 0) \<le> invite_budget ix i"
    by (intro budget_step) auto
  with run_cons show ?case by auto
qed simp

section \<open>Properties\<close>

text \<open>
  Every index a replica can reach by accepting events from the empty index is well formed:
  channel members and linked devices are workspace members, messages and recorded events lie in
  existing channels, no person is linked to two devices, the workspace root is a member, and the
  claim counters stay within capacities between one and one hundred.
\<close>

theorem reachable_index_well_formed:
  assumes "accepted_run authorize_and_apply (index_new w) es ix"
  shows "access_inv ix"
  using assms access_inv_new by (rule access.run_inv)

theorem reachable_index_well_formed_witness: "access_inv team_index"
  using reachable_index_well_formed [OF team_run] .

text \<open>
  Once a channel exists, no accepted history changes its privacy or its creator, and once the
  workspace has a root, no accepted history changes the root device.
\<close>

theorem channel_identity_immutable:
  assumes "accepted_run authorize_and_apply (index_new w) xs ix"
    and "accepted_run authorize_and_apply ix ys ix'"
    and "fmlookup (ix_channels ix) c = Some ca"
  shows "ix_root_device_id ix' = ix_root_device_id ix
    \<and> (\<exists>ca'. fmlookup (ix_channels ix') c = Some ca' \<and> ca_is_private ca' = ca_is_private ca
         \<and> ca_creator_device_id ca' = ca_creator_device_id ca)"
proof -
  have inv: "access_inv ix" using access.run_inv [OF assms(1) access_inv_new] .
  have "index_extends ix ix'" using access_order.run_rel [OF assms(2) inv] .
  moreover have "ix_root_device_id ix \<noteq> None"
    using inv assms(3) by (auto simp: access_inv_def root_ok_def fmdom'_iff split: option.splits)
  ultimately show ?thesis using assms(3) by (auto simp: index_extends_def)
qed

theorem channel_identity_immutable_witness:
  "ix_root_device_id team_index = Some alice
    \<and> (\<exists>ca'. fmlookup (ix_channels team_index) secret = Some ca' \<and> ca_is_private ca'
         \<and> ca_creator_device_id ca' = carol)"
  using channel_identity_immutable [OF team_run accepted_run.run_nil team_channel] team_roles by simp

text \<open>
  C32: a device that could not read an existing private channel can read it after an accepted event
  only if that event is the grant of this channel to this device, issued by the channel's creator
  or by an owner or administrator of the workspace.
\<close>

theorem private_access_requires_grant:
  assumes "access_inv ix" "authorize_and_apply ix ev = Inr ix'"
    and "fmlookup (ix_channels ix) c = Some ca" "ca_is_private ca"
    and "\<not> index_channel_accessible_to ix c d" "index_channel_accessible_to ix' c d"
  shows "ev_body ev = ChannelMemberAdded c d
    \<and> (\<exists>r. role_for ix (ev_author ev) = Some r
          \<and> (ca_creator_device_id ca = ev_author ev \<or> privileged r))"
proof -
  obtain ca' where ca': "fmlookup (ix_channels ix') c = Some ca'" "ca_is_private ca'"
    using index_extends_channel [OF index_extends_step [OF assms(1,2)] assms(3)] assms(4) by metis
  have "d \<in> ca_members ca'"
    using private_access_iff [OF access_inv_step [OF assms(1,2)] ca'] assms(6) by simp
  moreover have "d \<notin> ca_members ca"
    using private_access_iff [OF assms(1,3,4)] assms(5) by simp
  ultimately show ?thesis using private_grant [OF assms(1,2,3) ca'(1)] assms(4) by blast
qed

definition grant_bob :: SignedEvent where
  "grant_bob = sample_event ''e6'' carol None [] (ChannelMemberAdded secret bob)"

lemma grant_bob_accepted:
  "authorize_and_apply team_index grant_bob = Inr (apply_authorized team_index grant_bob)"
  "index_channel_accessible_to (apply_authorized team_index grant_bob) secret bob"
  "\<not> index_channel_accessible_to team_index secret bob"
  by (simp_all add: authorize_eval apply_eval team_index_eval grant_bob_def
      index_channel_accessible_to_def)

theorem private_access_requires_grant_witness:
  "ev_body grant_bob = ChannelMemberAdded secret bob
    \<and> (\<exists>r. role_for team_index (ev_author grant_bob) = Some r \<and> (carol = ev_author grant_bob \<or> privileged r))"
  using private_access_requires_grant
    [OF team_inv grant_bob_accepted(1) team_channel _ grant_bob_accepted(3,2)] by simp

text \<open>
  After the workspace exists, a device's role changes only by an event of an owner or
  administrator, and only an owner can make a device an owner or an administrator.
\<close>

theorem role_changes_are_authorised:
  assumes "authorize_and_apply ix ev = Inr ix'" "ix_root_seen ix" "role_for ix' d \<noteq> role_for ix d"
  shows "\<exists>r. role_for ix (ev_author ev) = Some r \<and> privileged r
    \<and> (\<forall>r'. role_for ix' d = Some r' \<and> privileged r' \<longrightarrow> r = Owner)"
proof (rule role_change_authority [OF assms(1,3)])
  fix n
  show "ev_body ev \<noteq> WorkspaceCreated n"
    using assms(1,2) by (auto simp: authorize_and_apply_Inr authorize_Inr authorize_body_def result_simps)
qed

definition promote_carol :: SignedEvent where
  "promote_carol = sample_event ''e6'' alice None [] (MemberRoleUpdated carol Admin)"

theorem role_changes_are_authorised_witness:
  "\<exists>r. role_for team_index alice = Some r \<and> privileged r
    \<and> (\<forall>r'. role_for (apply_authorized team_index promote_carol) carol = Some r' \<and> privileged r'
          \<longrightarrow> r = Owner)"
proof -
  have acc: "authorize_and_apply team_index promote_carol = Inr (apply_authorized team_index promote_carol)"
    and ch: "role_for (apply_authorized team_index promote_carol) carol \<noteq> role_for team_index carol"
    by (simp_all add: authorize_eval apply_eval team_index_eval promote_carol_def)
  show ?thesis
    using role_changes_are_authorised [OF acc team_roles(5) ch] by (simp add: promote_carol_def)
qed

text \<open>
  C33: removing a member takes everything away at once: the device loses its role, its link to a
  person, its place in the member set of every channel and the access to every channel, and from then on,
  until it is invited again, no event it authors is accepted and it has neither role nor channel access.
\<close>

theorem removed_member_is_locked_out:
  assumes "access_inv ix" "ev_body ev = MemberRemoved d" "authorize_and_apply ix ev = Inr ix'"
    and "accepted_run authorize_and_apply ix' es ix''"
    and "\<forall>e \<in> set es. \<forall>r. ev_body e \<noteq> MemberInvited d r"
  shows "role_for ix' d = None \<and> fmlookup (ix_person_links ix') d = None
    \<and> fmpred (\<lambda>_ channel. d \<notin> ca_members channel) (ix_channels ix')
    \<and> (\<forall>e \<in> set es. ev_author e \<noteq> d)
    \<and> role_for ix'' d = None \<and> (\<forall>c. \<not> index_channel_accessible_to ix' c d \<and> \<not> index_channel_accessible_to ix'' c d)"
proof -
  have gone: "role_for ix' d = None" "fmlookup (ix_person_links ix') d = None"
    "fmpred (\<lambda>_ channel. d \<notin> ca_members channel) (ix_channels ix')"
    using assms(2,3) by (auto simp: authorize_and_apply_Inr apply_authorized_def
        apply_authorized_body_def index_update_defs role_for_def settle_invites_def fmpred_iff)
  have "\<And>n. ev_body ev \<noteq> WorkspaceCreated n" using assms(2) by simp
  then have "ix_root_seen ix'"
    using authorize_member_ok [of ix ev] assms(2,3)
    by (auto simp: authorize_and_apply_Inr authorize_Inr apply_authorized_def
        apply_authorized_body_def index_update_defs)
  then show ?thesis
    using stays_out [OF assms(4) _ gone(1) assms(5)] gone
    by (auto simp: index_channel_accessible_to_def contains_key_def role_for_def)
qed

definition remove_carol :: SignedEvent where
  "remove_carol = sample_event ''e6'' bob None [] (MemberRemoved carol)"

theorem removed_member_is_locked_out_witness:
  "role_for (apply_authorized team_index remove_carol) carol = None
    \<and> fmpred (\<lambda>_ channel. carol \<notin> ca_members channel) (ix_channels (apply_authorized team_index remove_carol))
    \<and> \<not> index_channel_accessible_to (apply_authorized team_index remove_carol) secret carol"
proof -
  have acc: "authorize_and_apply team_index remove_carol = Inr (apply_authorized team_index remove_carol)"
    by (simp add: authorize_eval apply_eval team_index_eval remove_carol_def)
  have body: "ev_body remove_carol = MemberRemoved carol" by (simp add: remove_carol_def)
  show ?thesis
    using removed_member_is_locked_out [OF team_inv body acc accepted_run.run_nil] by simp
qed

text \<open>
  An invite is claimed at most as often as its remaining capacity allows, and never after it
  was revoked: over any accepted history that does not issue the invite anew, the claims of the
  invite and the capacity left at the end stay within the capacity left at the start.
\<close>

theorem invite_claims_bounded:
  assumes "accepted_run authorize_and_apply ix es ix'" "fmlookup (ix_invites ix) i = Some a"
    and "\<forall>e \<in> set es. \<not> reissues_invite i e"
  shows "length (filter (claims_invite i) es)
    \<le> (if ia_revoked a then 0 else unat (ia_max_claims a) - unat (ia_claim_count a))"
  using claims_within_budget [OF assms(1,3)] assms(2) by (simp add: invite_budget_def split: if_splits)

definition team_invite :: SignedEvent where
  "team_invite = sample_event ''e6'' alice None []
     (WorkspaceInviteCapabilityCreated ''inv'' ''Guests'' Guest [] ''key'' [] (Some 1))"
definition claim_invite :: SignedEvent where
  "claim_invite = sample_event ''e7'' alice None [] (WorkspaceInviteClaimed ''inv'' (DeviceId ''dave'') ''req'')"

lemma trim_plain:
  "trim ''inv'' = ''inv''" "trim ''key'' = ''key''" "trim ''req'' = ''req''"
  by code_simp+

lemmas invite_eval =
  check_invite_capability_created_def check_invite_claimed_def validate_event_text_required_def
  trim_plain effective_workspace_invite_max_claims_def normalize_workspace_invite_max_claims_def
  saturating_add_def

lemma claim_invite_accepted:
  "accepted_run authorize_and_apply (apply_authorized team_index team_invite) [claim_invite]
     (apply_authorized (apply_authorized team_index team_invite) claim_invite)"
  "fmlookup (ix_invites (apply_authorized team_index team_invite)) ''inv'' =
     Some \<lparr>ia_max_claims = 1, ia_claim_count = 0, ia_revoked = False, ia_invitee_device_id = None\<rparr>"
  by (simp_all add: authorize_eval apply_eval team_index_eval team_invite_def claim_invite_def
      invite_eval)

theorem invite_claims_bounded_witness: "length (filter (claims_invite ''inv'') [claim_invite]) \<le> 1"
  using invite_claims_bounded [OF claim_invite_accepted]
  by (simp add: reissues_invite_def claim_invite_def)

text \<open>
  An accepted edit, sealed edit or deletion of a message comes from the device recorded as the
  message's author, names the message's channel and comes from a device with access to it.
\<close>

theorem message_mutation_only_by_author:
  assumes "authorize ix ev = Inr ()"
    and "(\<exists>t. ev_body ev = MessageEdited m t) \<or> (\<exists>s. ev_body ev = MessageEditedEncrypted m s)
      \<or> ev_body ev = MessageDeleted m"
  shows "\<exists>ma. fmlookup (ix_messages ix) m = Some ma \<and> ma_author_device_id ma = Some (ev_author ev)
    \<and> ev_channel ev = Some (ma_channel_id ma)
    \<and> index_channel_accessible_to ix (ma_channel_id ma) (ev_author ev)"
proof -
  have "authorize_message_mutation ix ev m = Inr ()"
    using assms by (auto simp: authorize_Inr authorize_body_def)
  then obtain ma where ma: "authorize_message_target ix ev m = Inr ma"
      "ma_author_device_id ma = Some (ev_author ev)"
    by (auto simp: authorize_message_mutation_def result_simps split: option.splits)
  then show ?thesis
    using authorize_message_target_Inr [of ix ev m ma] by blast
qed

definition edit_hello :: SignedEvent where
  "edit_hello = sample_event ''e6'' carol (Some secret) [] (MessageEdited hello ''hi all'')"

theorem message_mutation_only_by_author_witness:
  "\<exists>ma. fmlookup (ix_messages team_index) hello = Some ma \<and> ma_author_device_id ma = Some carol
    \<and> index_channel_accessible_to team_index (ma_channel_id ma) carol"
proof -
  have ok: "authorize team_index edit_hello = Inr ()"
    by (simp add: authorize_eval apply_eval team_index_eval edit_hello_def)
  show ?thesis
    using message_mutation_only_by_author [OF ok, of hello] by (auto simp: edit_hello_def)
qed

text \<open>
  The creation of a message does not look at the message identifier: an accepted creation with
  the identifier of an existing message replaces its recorded author and channel by those of the
  new event, whoever the author was, so that the new device passes the check of later edits.
\<close>

theorem message_creation_replaces_author:
  assumes "authorize_and_apply ix ev = Inr ix'" "ev_body ev = MessageCreated m t atts"
  shows "\<exists>c. ev_channel ev = Some c
    \<and> fmlookup (ix_messages ix') m
        = Some \<lparr>ma_channel_id = c, ma_author_device_id = Some (ev_author ev)\<rparr>"
  using assms
  by (auto simp: authorize_and_apply_Inr authorize_Inr authorize_body_def authorize_message_created_def
      require_event_channel_def result_simps apply_authorized_def apply_authorized_body_def
      index_update_defs split: option.splits)

definition take_over_hello :: SignedEvent where
  "take_over_hello = sample_event ''e7'' bob (Some secret) [] (MessageCreated hello ''bye'' [])"

theorem message_creation_replaces_author_witness:
  "fmlookup (ix_messages team_index) hello
     = Some \<lparr>ma_channel_id = secret, ma_author_device_id = Some carol\<rparr>
   \<and> fmlookup (ix_messages (apply_authorized (apply_authorized team_index grant_bob) take_over_hello)) hello
     = Some \<lparr>ma_channel_id = secret, ma_author_device_id = Some bob\<rparr>"
proof -
  let ?ix = "apply_authorized team_index grant_bob"
  have acc: "authorize_and_apply ?ix take_over_hello = Inr (apply_authorized ?ix take_over_hello)"
    by (simp add: authorize_eval apply_eval team_index_eval grant_bob_def take_over_hello_def)
  have body: "ev_body take_over_hello = MessageCreated hello ''bye'' []"
    by (simp add: take_over_hello_def)
  show ?thesis
    using message_creation_replaces_author [OF acc body] team_message by (simp add: take_over_hello_def)
qed

text \<open>
  The protection of the workspace root against a change of role holds for role updates, which
  are always rejected for the root, but not for invitations: an owner or administrator who invites
  the root device again as an ordinary member or guest takes its ownership away.
\<close>

theorem root_role_protection_and_bypass:
  assumes "validate_signed_event_ids ev = Inr ()" "ev_workspace ev = ix_workspace_id ix"
    and "ix_root_seen ix" "ix_root_device_id ix = Some root"
    and "role_for ix (ev_author ev) = Some r" "privileged r" "\<not> privileged r'"
    and "ev_body ev = MemberInvited root r'"
  shows "(\<exists>ix'. authorize_and_apply ix ev = Inr ix' \<and> role_for ix' root = Some r')
    \<and> (\<forall>ev2 r2. ev_body ev2 = MemberRoleUpdated root r2 \<longrightarrow> authorize ix ev2 \<noteq> Inr ())"
proof
  show "\<exists>ix'. authorize_and_apply ix ev = Inr ix' \<and> role_for ix' root = Some r'"
    using assms by (auto simp: authorize_and_apply_def authorize_def validate_event_body_payload_sizes_def
        ensure_def authorize_body_def authorize_invite_def require_rooted_member_def ok_or_def
        require_role_def role_allows_def apply_authorized_def apply_authorized_body_def
        index_update_defs role_for_def)
  show "\<forall>ev2 r2. ev_body ev2 = MemberRoleUpdated root r2 \<longrightarrow> authorize ix ev2 \<noteq> Inr ()"
    using assms(4) by (auto simp: authorize_Inr authorize_body_def authorize_member_role_updated_def
        result_simps)
qed

definition demote_alice :: SignedEvent where
  "demote_alice = sample_event ''e6'' bob None [] (MemberInvited alice Guest)"

theorem root_role_protection_and_bypass_witness:
  "role_for team_index bob = Some Admin \<and> ix_root_device_id team_index = Some alice
   \<and> (\<exists>ix'. authorize_and_apply team_index demote_alice = Inr ix' \<and> role_for ix' alice = Some Guest)"
proof -
  have ids: "validate_signed_event_ids demote_alice = Inr ()"
    by (simp add: demote_alice_def id_check_defs scenario_names)
  show ?thesis
    using root_role_protection_and_bypass [OF ids, of team_index alice Admin Guest] team_roles
    by (simp add: demote_alice_def privileged_def)
qed

end
