(* ===== verification/Workspace_State.thy ===== *)
theory Workspace_State
  imports Access_Policy
begin

text \<open>
  \<open>WorkspaceState\<close> of \<^verbatim>\<open>src/domain/core/src/lib.rs\<close>: the materialised views of a workspace
  (members, channels, messages, profiles, invites, join requests, read markers) and
  \<open>apply_ready_event\<close>, which authorises an event against the access index and then updates the
  views.  The \<open>match\<close> over the event body is one definition per arm of some size.
\<close>

section \<open>Views\<close>

record ChannelView =
  cv_channel_id :: ChannelId
  cv_name :: string
  cv_topic :: string
  cv_archived :: bool
  cv_is_private :: bool
  cv_member_device_ids :: "DeviceId list"
  cv_direct_message :: bool
  cv_direct_message_participant_device_ids :: "DeviceId list"

record MessageView =
  mv_message_id :: MessageId
  mv_channel_id :: ChannelId
  mv_author_event_id :: EventId
  mv_reply_to_message_id :: "MessageId option"
  mv_markdown :: string
  mv_sealed_markdown :: "SealedPayload option"
  mv_attachments :: "AttachmentRef list"
  mv_reactions :: "(string, u32) fmap"
  mv_reaction_authors :: "(string, DeviceId set) fmap"
  mv_deleted :: bool

record DeviceProfileView =
  dp_device_id :: DeviceId
  dp_display_name :: string
  dp_avatar_id :: string
  dp_updated_event_id :: EventId

record PersonProfileView =
  pp_person_id :: PersonId
  pp_display_name :: string
  pp_avatar_id :: string
  pp_updated_event_id :: EventId
  pp_updated_by_device_id :: DeviceId

record PersonDeviceLinkView =
  pl_person_id :: PersonId
  pl_device_id :: DeviceId
  pl_linked_event_id :: EventId

record DeviceKeyPackageView =
  kp_device_id :: DeviceId
  kp_key_package_id :: DeviceKeyPackageId
  kp_protocol :: string
  kp_key_package :: bytes
  kp_published_event_id :: EventId
  kp_physical_ms :: i64

record PeerEndpointView =
  pe_device_id :: DeviceId
  pe_endpoint_id :: string
  pe_endpoint :: string
  pe_transport :: string
  pe_is_backup_peer :: bool
  pe_expires_at_ms :: "i64 option"
  pe_replica_storage_class :: "ReplicaStorageClass option"
  pe_replica_retention_hint :: "string option"
  pe_published_event_id :: EventId
  pe_physical_ms :: i64

record WorkspaceMemberView =
  wm_device_id :: DeviceId
  wm_role :: WorkspaceRole
  wm_membership_event_id :: EventId

datatype WorkspaceInviteStatus = InviteInvited | InviteAccepted | InviteStatusRevoked

record WorkspaceInviteView =
  iv_invite_id :: string
  iv_invitee_device_id :: DeviceId
  iv_display_name :: string
  iv_invitee_display_name :: "string option"
  iv_invite_label :: string
  iv_role :: WorkspaceRole
  iv_request_id :: "string option"
  iv_expires_at :: string
  iv_approval_policy :: string
  iv_sync_expectation :: string
  iv_capability_public_key :: string
  iv_max_claims :: u32
  iv_claim_count :: u32
  iv_created_event_id :: EventId
  iv_created_by_device_id :: DeviceId
  iv_created_physical_ms :: i64
  iv_status :: WorkspaceInviteStatus
  iv_accepted_event_id :: "EventId option"
  iv_accepted_physical_ms :: "i64 option"
  iv_resolved_event_id :: "EventId option"
  iv_resolved_by_device_id :: "DeviceId option"
  iv_resolved_physical_ms :: "i64 option"

datatype WorkspaceJoinRequestStatus =
  RequestWaiting | RequestApproved | RequestDeclined | RequestRevoked

record WorkspaceJoinRequestView =
  jr_request_id :: string
  jr_requester_device_id :: DeviceId
  jr_display_name :: string
  jr_note :: string
  jr_source_type :: string
  jr_source_invite_id :: string
  jr_source_display_name :: string
  jr_source_approval_policy :: string
  jr_response_peer_endpoint :: string
  jr_requested_event_id :: EventId
  jr_requested_by_device_id :: DeviceId
  jr_requested_physical_ms :: i64
  jr_status :: WorkspaceJoinRequestStatus
  jr_resolved_event_id :: "EventId option"
  jr_resolved_by_device_id :: "DeviceId option"
  jr_resolved_physical_ms :: "i64 option"

fun join_request_status_for_resolution ::
  "WorkspaceJoinRequestResolution \<Rightarrow> WorkspaceJoinRequestStatus" where
  "join_request_status_for_resolution JoinResolutionApproved = RequestApproved"
| "join_request_status_for_resolution JoinResolutionDeclined = RequestDeclined"
| "join_request_status_for_resolution JoinResolutionRevoked = RequestRevoked"

section \<open>Messages and their reactions\<close>

definition message_view_new ::
  "MessageId \<Rightarrow> ChannelId \<Rightarrow> EventId \<Rightarrow> MessageId option \<Rightarrow> string \<Rightarrow> SealedPayload option
    \<Rightarrow> AttachmentRef list \<Rightarrow> MessageView" where
  "message_view_new message_id channel_id author_event_id reply_to markdown sealed attachments =
     \<lparr>mv_message_id = message_id, mv_channel_id = channel_id, mv_author_event_id = author_event_id,
      mv_reply_to_message_id = reply_to, mv_markdown = markdown, mv_sealed_markdown = sealed,
      mv_attachments = attachments, mv_reactions = fmempty, mv_reaction_authors = fmempty,
      mv_deleted = False\<rparr>"

definition set_reaction_count :: "(string, u32) fmap \<Rightarrow> string \<Rightarrow> nat \<Rightarrow> (string, u32) fmap" where
  "set_reaction_count reactions reaction n = fmupd reaction (saturate_u32 n) reactions"

definition add_reaction :: "MessageView \<Rightarrow> string \<Rightarrow> DeviceId \<Rightarrow> MessageView" where
  "add_reaction msg reaction author =
     (let authors = (case fmlookup (mv_reaction_authors msg) reaction of None \<Rightarrow> {} | Some s \<Rightarrow> s);
          authors' = insert author authors
      in msg\<lparr>mv_reaction_authors := fmupd reaction authors' (mv_reaction_authors msg),
             mv_reactions := (if author \<notin> authors
                              then set_reaction_count (mv_reactions msg) reaction (card authors')
                              else mv_reactions msg)\<rparr>)"

definition remove_reaction :: "MessageView \<Rightarrow> string \<Rightarrow> DeviceId \<Rightarrow> MessageView" where
  "remove_reaction msg reaction author =
     (case fmlookup (mv_reaction_authors msg) reaction of
        None \<Rightarrow> msg
      | Some authors \<Rightarrow>
          if author \<notin> authors then msg
          else let authors' = authors - {author} in
               if authors' = {} then
                 msg\<lparr>mv_reaction_authors := fmdrop reaction (mv_reaction_authors msg),
                     mv_reactions := fmdrop reaction (mv_reactions msg)\<rparr>
               else
                 msg\<lparr>mv_reaction_authors := fmupd reaction authors' (mv_reaction_authors msg),
                     mv_reactions := set_reaction_count (mv_reactions msg) reaction (card authors')\<rparr>)"

text \<open>The keys of the \<open>BTreeMap\<close> come in ascending order.\<close>

definition reactions_for_device :: "MessageView \<Rightarrow> DeviceId \<Rightarrow> string list" where
  "reactions_for_device msg device_id =
     filter (\<lambda>r. case fmlookup (mv_reaction_authors msg) r of
                   None \<Rightarrow> False | Some authors \<Rightarrow> device_id \<in> authors)
       (sorted_list_of_fset (fmdom (mv_reactions msg)))"

definition reaction_author_device_ids :: "MessageView \<Rightarrow> string \<Rightarrow> DeviceId list" where
  "reaction_author_device_ids msg reaction =
     (case fmlookup (mv_reaction_authors msg) reaction of
        None \<Rightarrow> [] | Some authors \<Rightarrow> sorted_list_of_set authors)"

section \<open>The state\<close>

record WorkspaceState =
  ws_workspace_id :: WorkspaceId
  ws_name :: "string option"
  ws_access_policy :: WorkspaceAccessPolicy
  ws_channels :: "(ChannelId, ChannelView) fmap"
  ws_messages :: "(MessageId, MessageView) fmap"
  ws_members :: "(DeviceId, WorkspaceMemberView) fmap"
  ws_profiles :: "(DeviceId, DeviceProfileView) fmap"
  ws_person_profiles :: "(PersonId, PersonProfileView) fmap"
  ws_person_device_links :: "(DeviceId, PersonDeviceLinkView) fmap"
  ws_key_packages :: "(DeviceKeyPackageId, DeviceKeyPackageView) fmap"
  ws_peer_endpoints :: "(DeviceId \<times> string, PeerEndpointView) fmap"
  ws_invites :: "(string, WorkspaceInviteView) fmap"
  ws_join_requests :: "(string, WorkspaceJoinRequestView) fmap"
  ws_read_markers :: "(DeviceId, (ChannelId, EventId) fmap) fmap"
  ws_applied_events :: "EventId list"
  ws_applied_event_ids :: "EventId set"
  ws_access_index :: WorkspaceAccessIndex

definition state_new :: "WorkspaceId \<Rightarrow> WorkspaceState" where
  "state_new workspace_id =
     \<lparr>ws_workspace_id = workspace_id, ws_name = None, ws_access_policy = InviteOnly,
      ws_channels = fmempty, ws_messages = fmempty, ws_members = fmempty, ws_profiles = fmempty,
      ws_person_profiles = fmempty, ws_person_device_links = fmempty, ws_key_packages = fmempty,
      ws_peer_endpoints = fmempty, ws_invites = fmempty, ws_join_requests = fmempty,
      ws_read_markers = fmempty, ws_applied_events = [], ws_applied_event_ids = {},
      ws_access_index = index_new workspace_id\<rparr>"

definition has_applied_event :: "WorkspaceState \<Rightarrow> EventId \<Rightarrow> bool" where
  "has_applied_event st event_id \<longleftrightarrow> event_id \<in> ws_applied_event_ids st"

definition missing_parent_ids :: "WorkspaceState \<Rightarrow> SignedEvent \<Rightarrow> CoreError + EventId list" where
  "missing_parent_ids st sev =
     then_res (map_err CoreAuthorization (validate_signed_event_ids sev))
      (if ev_workspace sev \<noteq> ws_workspace_id st then Inl CoreWrongWorkspace
       else Inr (filter (\<lambda>p. \<not> has_applied_event st p) (ev_parents sev)))"

definition channel_accessible_to :: "WorkspaceState \<Rightarrow> ChannelId \<Rightarrow> DeviceId \<Rightarrow> bool" where
  "channel_accessible_to st channel_id device_id =
     index_channel_accessible_to (ws_access_index st) channel_id device_id"

section \<open>Arms of apply_ready_event\<close>

definition mark_invite_accepted :: "SignedEvent \<Rightarrow> WorkspaceInviteView \<Rightarrow> WorkspaceInviteView" where
  "mark_invite_accepted sev invite =
     (if iv_invitee_device_id invite = ev_author sev \<and> iv_status invite = InviteInvited
         \<and> iv_capability_public_key invite = []
      then invite\<lparr>iv_status := InviteAccepted, iv_claim_count := iv_max_claims invite,
                  iv_accepted_event_id := Some (sg_event_id sev),
                  iv_accepted_physical_ms := Some (ev_physical_ms sev)\<rparr>
      else invite)"

definition mark_invites_accepted_by_event :: "WorkspaceState \<Rightarrow> SignedEvent \<Rightarrow> WorkspaceState" where
  "mark_invites_accepted_by_event st sev =
     (if is_invite_lifecycle (ev_body sev) then st
      else st\<lparr>ws_invites := fmmap (mark_invite_accepted sev) (ws_invites st)\<rparr>)"

definition resolve_request ::
  "WorkspaceJoinRequestStatus \<Rightarrow> SignedEvent \<Rightarrow> WorkspaceJoinRequestView \<Rightarrow> WorkspaceJoinRequestView" where
  "resolve_request status sev request =
     request\<lparr>jr_status := status, jr_resolved_event_id := Some (sg_event_id sev),
             jr_resolved_by_device_id := Some (ev_author sev),
             jr_resolved_physical_ms := Some (ev_physical_ms sev)\<rparr>"

text \<open>The guard \<open>requester == invitee && status == Waiting\<close> and the approval behind it.\<close>

definition approve_waiting ::
  "DeviceId \<Rightarrow> SignedEvent \<Rightarrow> WorkspaceJoinRequestView \<Rightarrow> WorkspaceJoinRequestView" where
  "approve_waiting invitee sev request =
     (if jr_requester_device_id request = invitee \<and> jr_status request = RequestWaiting
      then resolve_request RequestApproved sev request else request)"

definition approve_join_request_from_invite ::
  "WorkspaceState \<Rightarrow> string \<Rightarrow> DeviceId \<Rightarrow> SignedEvent \<Rightarrow> WorkspaceState" where
  "approve_join_request_from_invite st request_id invitee sev =
     st\<lparr>ws_join_requests := fm_modify request_id (approve_waiting invitee sev) (ws_join_requests st)\<rparr>"

definition insert_member ::
  "WorkspaceState \<Rightarrow> DeviceId \<Rightarrow> WorkspaceRole \<Rightarrow> SignedEvent \<Rightarrow> WorkspaceState" where
  "insert_member st device_id role sev =
     st\<lparr>ws_members := fmupd device_id
          \<lparr>wm_device_id = device_id, wm_role = role, wm_membership_event_id = sg_event_id sev\<rparr>
          (ws_members st)\<rparr>"

definition materialize_workspace_created :: "WorkspaceState \<Rightarrow> SignedEvent \<Rightarrow> string \<Rightarrow> WorkspaceState" where
  "materialize_workspace_created st sev name =
     insert_member (st\<lparr>ws_name := Some name\<rparr>) (ev_author sev) Owner sev"

definition materialize_member_invited ::
  "WorkspaceState \<Rightarrow> SignedEvent \<Rightarrow> DeviceId \<Rightarrow> WorkspaceRole \<Rightarrow> WorkspaceState" where
  "materialize_member_invited st sev invitee role =
     (let st' = insert_member st invitee role sev
      in st'\<lparr>ws_join_requests := fmmap (approve_waiting invitee sev) (ws_join_requests st')\<rparr>)"

definition materialize_member_role_updated ::
  "WorkspaceState \<Rightarrow> SignedEvent \<Rightarrow> DeviceId \<Rightarrow> WorkspaceRole \<Rightarrow> WorkspaceState" where
  "materialize_member_role_updated st sev member role =
     st\<lparr>ws_members := fm_modify member
          (\<lambda>m. m\<lparr>wm_role := role, wm_membership_event_id := sg_event_id sev\<rparr>) (ws_members st)\<rparr>"

definition recorded_invite_view ::
  "SignedEvent \<Rightarrow> string \<Rightarrow> DeviceId \<Rightarrow> string \<Rightarrow> WorkspaceRole \<Rightarrow> string option \<Rightarrow> string \<Rightarrow> string
    \<Rightarrow> string \<Rightarrow> WorkspaceInviteView" where
  "recorded_invite_view sev invite_id invitee display_name role request_id expires_at
       approval_policy sync_expectation =
     \<lparr>iv_invite_id = invite_id, iv_invitee_device_id = invitee, iv_display_name = display_name,
      iv_invitee_display_name = (if trim display_name \<noteq> [] then Some display_name else None),
      iv_invite_label = [], iv_role = role, iv_request_id = request_id, iv_expires_at = expires_at,
      iv_approval_policy = approval_policy, iv_sync_expectation = sync_expectation,
      iv_capability_public_key = [], iv_max_claims = 1, iv_claim_count = 0,
      iv_created_event_id = sg_event_id sev, iv_created_by_device_id = ev_author sev,
      iv_created_physical_ms = ev_physical_ms sev, iv_status = InviteInvited,
      iv_accepted_event_id = None, iv_accepted_physical_ms = None, iv_resolved_event_id = None,
      iv_resolved_by_device_id = None, iv_resolved_physical_ms = None\<rparr>"

definition materialize_invite_recorded ::
  "WorkspaceState \<Rightarrow> SignedEvent \<Rightarrow> string \<Rightarrow> DeviceId \<Rightarrow> string \<Rightarrow> WorkspaceRole \<Rightarrow> string option
    \<Rightarrow> string \<Rightarrow> string \<Rightarrow> string \<Rightarrow> WorkspaceState" where
  "materialize_invite_recorded st sev invite_id invitee display_name role request_id expires_at
       approval_policy sync_expectation =
     (let st' = st\<lparr>ws_invites := fmupd invite_id
            (recorded_invite_view sev invite_id invitee display_name role request_id expires_at
              approval_policy sync_expectation) (ws_invites st)\<rparr>
      in case request_id of
           None \<Rightarrow> st'
         | Some r \<Rightarrow> approve_join_request_from_invite st' r invitee sev)"

definition capability_invite_view ::
  "SignedEvent \<Rightarrow> string \<Rightarrow> string \<Rightarrow> WorkspaceRole \<Rightarrow> string \<Rightarrow> string \<Rightarrow> string \<Rightarrow> u32
    \<Rightarrow> WorkspaceInviteView" where
  "capability_invite_view sev invite_id display_name role expires_at capability_public_key
       sync_expectation max_claims =
     \<lparr>iv_invite_id = invite_id, iv_invitee_device_id = DeviceId [], iv_display_name = display_name,
      iv_invitee_display_name = None, iv_invite_label = display_name, iv_role = role,
      iv_request_id = None, iv_expires_at = expires_at, iv_approval_policy = ''preapproved'',
      iv_sync_expectation = sync_expectation, iv_capability_public_key = capability_public_key,
      iv_max_claims = max_claims, iv_claim_count = 0,
      iv_created_event_id = sg_event_id sev, iv_created_by_device_id = ev_author sev,
      iv_created_physical_ms = ev_physical_ms sev, iv_status = InviteInvited,
      iv_accepted_event_id = None, iv_accepted_physical_ms = None, iv_resolved_event_id = None,
      iv_resolved_by_device_id = None, iv_resolved_physical_ms = None\<rparr>"

definition claim_invite_view ::
  "SignedEvent \<Rightarrow> DeviceId \<Rightarrow> string \<Rightarrow> WorkspaceInviteView \<Rightarrow> WorkspaceInviteView" where
  "claim_invite_view sev invitee request_id invite0 =
     (let invite = invite0\<lparr>iv_invitee_device_id := invitee, iv_request_id := Some request_id,
                           iv_claim_count := saturating_add (iv_claim_count invite0) 1\<rparr>
      in if iv_claim_count invite \<ge> iv_max_claims invite then
           invite\<lparr>iv_status := InviteAccepted,
                  iv_accepted_event_id := Some (sg_event_id sev),
                  iv_accepted_physical_ms := Some (ev_physical_ms sev),
                  iv_resolved_event_id := Some (sg_event_id sev),
                  iv_resolved_by_device_id := Some (ev_author sev),
                  iv_resolved_physical_ms := Some (ev_physical_ms sev)\<rparr>
         else invite)"

definition materialize_invite_claimed ::
  "WorkspaceState \<Rightarrow> SignedEvent \<Rightarrow> string \<Rightarrow> DeviceId \<Rightarrow> string \<Rightarrow> WorkspaceState" where
  "materialize_invite_claimed st sev invite_id invitee request_id =
     approve_join_request_from_invite
       (st\<lparr>ws_invites := fm_modify invite_id (claim_invite_view sev invitee request_id)
             (ws_invites st)\<rparr>)
       request_id invitee sev"

definition resolve_invite_view ::
  "SignedEvent \<Rightarrow> WorkspaceInviteResolution \<Rightarrow> WorkspaceInviteView \<Rightarrow> WorkspaceInviteView" where
  "resolve_invite_view sev resolution invite =
     (case resolution of InviteResolutionRevoked \<Rightarrow> invite\<lparr>iv_status := InviteStatusRevoked\<rparr>)
       \<lparr>iv_resolved_event_id := Some (sg_event_id sev),
        iv_resolved_by_device_id := Some (ev_author sev),
        iv_resolved_physical_ms := Some (ev_physical_ms sev)\<rparr>"

text \<open>
  \<open>self.invites.values().find(..)\<close>: the order in which \<open>HashMap::values\<close> visits the invites is
  unspecified, so it is the parameter \<open>vals\<close>, which lists the values of a map.
\<close>

type_synonym invite_iteration = "(string, WorkspaceInviteView) fmap \<Rightarrow> WorkspaceInviteView list"

definition existing_invite_for ::
  "invite_iteration \<Rightarrow> WorkspaceState \<Rightarrow> string \<Rightarrow> DeviceId \<Rightarrow> WorkspaceInviteView option" where
  "existing_invite_for vals st request_id requester =
     find (\<lambda>invite. iv_request_id invite = Some request_id \<and> iv_invitee_device_id invite = requester)
       (vals (ws_invites st))"

definition materialize_join_request_recorded ::
  "invite_iteration \<Rightarrow> WorkspaceState \<Rightarrow> SignedEvent \<Rightarrow> string \<Rightarrow> DeviceId \<Rightarrow> string \<Rightarrow> string \<Rightarrow> string
    \<Rightarrow> string \<Rightarrow> string \<Rightarrow> string \<Rightarrow> string \<Rightarrow> WorkspaceState" where
  "materialize_join_request_recorded vals st sev request_id requester display_name note_text
       source_type source_invite_id source_display_name source_approval_policy
       response_peer_endpoint =
     (let existing_member = fmlookup (ws_members st) requester;
          existing_invite = existing_invite_for vals st request_id requester;
          status = (if existing_member \<noteq> None \<or> existing_invite \<noteq> None then RequestApproved
                    else RequestWaiting)
      in st\<lparr>ws_join_requests := fmupd request_id
             \<lparr>jr_request_id = request_id, jr_requester_device_id = requester,
              jr_display_name = display_name, jr_note = note_text, jr_source_type = source_type,
              jr_source_invite_id = source_invite_id, jr_source_display_name = source_display_name,
              jr_source_approval_policy = source_approval_policy,
              jr_response_peer_endpoint = response_peer_endpoint,
              jr_requested_event_id = sg_event_id sev,
              jr_requested_by_device_id = ev_author sev,
              jr_requested_physical_ms = ev_physical_ms sev, jr_status = status,
              jr_resolved_event_id =
                (case existing_member of
                   Some member \<Rightarrow> Some (wm_membership_event_id member)
                 | None \<Rightarrow> map_option iv_created_event_id existing_invite),
              jr_resolved_by_device_id = map_option iv_created_by_device_id existing_invite,
              jr_resolved_physical_ms = map_option iv_created_physical_ms existing_invite\<rparr>
             (ws_join_requests st)\<rparr>)"

definition view_remove_device :: "DeviceId \<Rightarrow> ChannelView \<Rightarrow> ChannelView" where
  "view_remove_device device_id channel =
     channel\<lparr>cv_member_device_ids := filter (\<lambda>d. d \<noteq> device_id) (cv_member_device_ids channel)\<rparr>"

definition materialize_member_removed :: "WorkspaceState \<Rightarrow> DeviceId \<Rightarrow> WorkspaceState" where
  "materialize_member_removed st removed =
     st\<lparr>ws_members := fmdrop removed (ws_members st),
        ws_person_device_links := fmdrop removed (ws_person_device_links st),
        ws_channels := fmmap (view_remove_device removed) (ws_channels st)\<rparr>"

definition materialize_channel_created ::
  "WorkspaceState \<Rightarrow> SignedEvent \<Rightarrow> ChannelId \<Rightarrow> string \<Rightarrow> bool \<Rightarrow> WorkspaceState" where
  "materialize_channel_created st sev channel_id name is_private =
     st\<lparr>ws_channels := fmupd channel_id
          \<lparr>cv_channel_id = channel_id, cv_name = name, cv_topic = [], cv_archived = False,
           cv_is_private = is_private,
           cv_member_device_ids = (if is_private then [ev_author sev] else []),
           cv_direct_message = False, cv_direct_message_participant_device_ids = []\<rparr>
          (ws_channels st)\<rparr>"

text \<open>Sorting by the inner string followed by \<open>dedup\<close>.\<close>

definition direct_message_members :: "DeviceId list \<Rightarrow> DeviceId \<Rightarrow> DeviceId list" where
  "direct_message_members participants author =
     remdups_adj (sort (if author \<in> set participants then participants else participants @ [author]))"

definition materialize_direct_message_created ::
  "WorkspaceState \<Rightarrow> SignedEvent \<Rightarrow> ChannelId \<Rightarrow> string \<Rightarrow> DeviceId list \<Rightarrow> WorkspaceState" where
  "materialize_direct_message_created st sev channel_id name participants =
     st\<lparr>ws_channels := fmupd channel_id
          \<lparr>cv_channel_id = channel_id, cv_name = name, cv_topic = [], cv_archived = False,
           cv_is_private = True,
           cv_member_device_ids = direct_message_members participants (ev_author sev),
           cv_direct_message = True, cv_direct_message_participant_device_ids = participants\<rparr>
          (ws_channels st)\<rparr>"

definition materialize_channel_details ::
  "WorkspaceState \<Rightarrow> ChannelId \<Rightarrow> string option \<Rightarrow> string option \<Rightarrow> bool option \<Rightarrow> WorkspaceState" where
  "materialize_channel_details st channel_id name topic archived =
     st\<lparr>ws_channels := fm_modify channel_id
          (\<lambda>c. c\<lparr>cv_name := (case name of None \<Rightarrow> cv_name c | Some n \<Rightarrow> n),
                 cv_topic := (case topic of None \<Rightarrow> cv_topic c | Some t \<Rightarrow> t),
                 cv_archived := (case archived of None \<Rightarrow> cv_archived c | Some a \<Rightarrow> a)\<rparr>)
          (ws_channels st)\<rparr>"

definition materialize_device_profile ::
  "WorkspaceState \<Rightarrow> SignedEvent \<Rightarrow> string \<Rightarrow> string \<Rightarrow> WorkspaceState" where
  "materialize_device_profile st sev display_name avatar_id =
     (let device_id = ev_author sev;
          avatar = (if trim avatar_id = []
                    then (case fmlookup (ws_profiles st) device_id of
                            None \<Rightarrow> [] | Some p \<Rightarrow> dp_avatar_id p)
                    else avatar_id)
      in st\<lparr>ws_profiles := fmupd device_id
              \<lparr>dp_device_id = device_id, dp_display_name = display_name, dp_avatar_id = avatar,
               dp_updated_event_id = sg_event_id sev\<rparr> (ws_profiles st)\<rparr>)"

definition materialize_person_linked ::
  "WorkspaceState \<Rightarrow> SignedEvent \<Rightarrow> PersonId \<Rightarrow> DeviceId \<Rightarrow> WorkspaceState" where
  "materialize_person_linked st sev person_id device_id =
     st\<lparr>ws_person_device_links := fmupd device_id
          \<lparr>pl_person_id = person_id, pl_device_id = device_id,
           pl_linked_event_id = sg_event_id sev\<rparr> (ws_person_device_links st)\<rparr>"

definition materialize_person_profile ::
  "WorkspaceState \<Rightarrow> SignedEvent \<Rightarrow> PersonId \<Rightarrow> string \<Rightarrow> string \<Rightarrow> WorkspaceState" where
  "materialize_person_profile st sev person_id display_name avatar_id =
     (let avatar = (if trim avatar_id = []
                    then (case fmlookup (ws_person_profiles st) person_id of
                            None \<Rightarrow> [] | Some p \<Rightarrow> pp_avatar_id p)
                    else avatar_id)
      in st\<lparr>ws_person_profiles := fmupd person_id
              \<lparr>pp_person_id = person_id, pp_display_name = display_name, pp_avatar_id = avatar,
               pp_updated_event_id = sg_event_id sev,
               pp_updated_by_device_id = ev_author sev\<rparr> (ws_person_profiles st)\<rparr>)"

definition materialize_key_package ::
  "WorkspaceState \<Rightarrow> SignedEvent \<Rightarrow> DeviceKeyPackageId \<Rightarrow> string \<Rightarrow> bytes \<Rightarrow> WorkspaceState" where
  "materialize_key_package st sev key_package_id protocol key_package =
     st\<lparr>ws_key_packages := fmupd key_package_id
          \<lparr>kp_device_id = ev_author sev, kp_key_package_id = key_package_id,
           kp_protocol = protocol, kp_key_package = key_package,
           kp_published_event_id = sg_event_id sev, kp_physical_ms = ev_physical_ms sev\<rparr>
          (ws_key_packages st)\<rparr>"

definition materialize_peer_endpoint ::
  "WorkspaceState \<Rightarrow> SignedEvent \<Rightarrow> string \<Rightarrow> string \<Rightarrow> string \<Rightarrow> bool \<Rightarrow> i64 option
    \<Rightarrow> ReplicaStorageClass option \<Rightarrow> string option \<Rightarrow> WorkspaceState" where
  "materialize_peer_endpoint st sev endpoint_id endpoint transport is_backup_peer expires_at_ms
       replica_storage_class replica_retention_hint =
     (let device_id = ev_author sev
      in st\<lparr>ws_peer_endpoints := fmupd (device_id, endpoint_id)
             \<lparr>pe_device_id = device_id, pe_endpoint_id = endpoint_id, pe_endpoint = endpoint,
              pe_transport = transport, pe_is_backup_peer = is_backup_peer,
              pe_expires_at_ms = expires_at_ms, pe_replica_storage_class = replica_storage_class,
              pe_replica_retention_hint = replica_retention_hint,
              pe_published_event_id = sg_event_id sev,
              pe_physical_ms = ev_physical_ms sev\<rparr> (ws_peer_endpoints st)\<rparr>)"

text \<open>The four message-creating arms differ only in the reply target and the payload.\<close>

definition materialize_message ::
  "WorkspaceState \<Rightarrow> SignedEvent \<Rightarrow> MessageId \<Rightarrow> MessageId option \<Rightarrow> string \<Rightarrow> SealedPayload option
    \<Rightarrow> AttachmentRef list \<Rightarrow> CoreError + WorkspaceState" where
  "materialize_message st sev message_id reply_to markdown sealed attachments =
     bind_res (ok_or (ev_channel sev) CoreMissingChannel) (\<lambda>channel_id.
       Inr (st\<lparr>ws_messages := fmupd message_id
              (message_view_new message_id channel_id (sg_event_id sev) reply_to markdown sealed
                attachments) (ws_messages st)\<rparr>))"

definition modify_message ::
  "WorkspaceState \<Rightarrow> MessageId \<Rightarrow> (MessageView \<Rightarrow> MessageView) \<Rightarrow> WorkspaceState" where
  "modify_message st message_id f = st\<lparr>ws_messages := fm_modify message_id f (ws_messages st)\<rparr>"

definition materialize_read_marker ::
  "WorkspaceState \<Rightarrow> SignedEvent \<Rightarrow> ChannelId \<Rightarrow> EventId \<Rightarrow> WorkspaceState" where
  "materialize_read_marker st sev channel_id event_id =
     (let device_id = ev_author sev;
          markers = (case fmlookup (ws_read_markers st) device_id of None \<Rightarrow> fmempty | Some m \<Rightarrow> m)
      in st\<lparr>ws_read_markers :=
              fmupd device_id (fmupd channel_id event_id markers) (ws_read_markers st)\<rparr>)"

definition view_add_member :: "DeviceId \<Rightarrow> ChannelView \<Rightarrow> ChannelView" where
  "view_add_member member channel =
     (if member \<notin> set (cv_member_device_ids channel)
      then channel\<lparr>cv_member_device_ids := sort (cv_member_device_ids channel @ [member])\<rparr>
      else channel)"

definition modify_channel_view ::
  "WorkspaceState \<Rightarrow> ChannelId \<Rightarrow> (ChannelView \<Rightarrow> ChannelView) \<Rightarrow> WorkspaceState" where
  "modify_channel_view st channel_id f = st\<lparr>ws_channels := fm_modify channel_id f (ws_channels st)\<rparr>"

section \<open>apply_ready_event\<close>

definition materialize ::
  "invite_iteration \<Rightarrow> WorkspaceState \<Rightarrow> SignedEvent \<Rightarrow> CoreError + WorkspaceState" where
  "materialize vals st sev =
     (case ev_body sev of
        WorkspaceCreated name \<Rightarrow> Inr (materialize_workspace_created st sev name)
      | MemberInvited invitee role \<Rightarrow> Inr (materialize_member_invited st sev invitee role)
      | MemberRoleUpdated member role \<Rightarrow> Inr (materialize_member_role_updated st sev member role)
      | WorkspaceAccessPolicyUpdated policy \<Rightarrow> Inr (st\<lparr>ws_access_policy := policy\<rparr>)
      | WorkspaceInviteRecorded invite_id invitee display_name role request_id expires_at
          approval_policy sync_expectation \<Rightarrow>
          Inr (materialize_invite_recorded st sev invite_id invitee display_name role request_id
                 expires_at approval_policy sync_expectation)
      | WorkspaceInviteCapabilityCreated invite_id display_name role expires_at
          capability_public_key sync_expectation max_claims \<Rightarrow>
          Inr (st\<lparr>ws_invites := fmupd invite_id
                 (capability_invite_view sev invite_id display_name role expires_at
                   capability_public_key sync_expectation
                   (effective_workspace_invite_max_claims max_claims)) (ws_invites st)\<rparr>)
      | WorkspaceInviteClaimed invite_id invitee request_id \<Rightarrow>
          Inr (materialize_invite_claimed st sev invite_id invitee request_id)
      | WorkspaceInviteResolved invite_id resolution \<Rightarrow>
          Inr (st\<lparr>ws_invites := fm_modify invite_id (resolve_invite_view sev resolution)
                 (ws_invites st)\<rparr>)
      | WorkspaceJoinRequestRecorded request_id requester display_name note_text source_type
          source_invite_id source_display_name source_approval_policy response_peer_endpoint \<Rightarrow>
          Inr (materialize_join_request_recorded vals st sev request_id requester display_name
                 note_text source_type source_invite_id source_display_name source_approval_policy
                 response_peer_endpoint)
      | WorkspaceJoinRequestResolved request_id resolution \<Rightarrow>
          Inr (st\<lparr>ws_join_requests := fm_modify request_id
                 (resolve_request (join_request_status_for_resolution resolution) sev)
                 (ws_join_requests st)\<rparr>)
      | MemberRemoved removed \<Rightarrow> Inr (materialize_member_removed st removed)
      | ChannelCreated channel_id name is_private \<Rightarrow>
          Inr (materialize_channel_created st sev channel_id name is_private)
      | DirectMessageChannelCreated channel_id name participants \<Rightarrow>
          Inr (materialize_direct_message_created st sev channel_id name participants)
      | ChannelDetailsUpdated channel_id name topic archived \<Rightarrow>
          Inr (materialize_channel_details st channel_id name topic archived)
      | DeviceProfileUpdated display_name avatar_id \<Rightarrow>
          Inr (materialize_device_profile st sev display_name avatar_id)
      | PersonDeviceLinked person_id device_id \<Rightarrow>
          Inr (materialize_person_linked st sev person_id device_id)
      | PersonProfileUpdated person_id display_name avatar_id \<Rightarrow>
          Inr (materialize_person_profile st sev person_id display_name avatar_id)
      | DeviceKeyPackagePublished key_package_id protocol key_package \<Rightarrow>
          Inr (materialize_key_package st sev key_package_id protocol key_package)
      | PeerEndpointPublished endpoint_id endpoint transport is_backup_peer expires_at_ms
          replica_storage_class replica_retention_hint \<Rightarrow>
          Inr (materialize_peer_endpoint st sev endpoint_id endpoint transport is_backup_peer
                 expires_at_ms replica_storage_class replica_retention_hint)
      | MessageCreated message_id markdown attachments \<Rightarrow>
          materialize_message st sev message_id None markdown None attachments
      | MessageReplyCreated message_id reply_to markdown attachments \<Rightarrow>
          materialize_message st sev message_id (Some reply_to) markdown None attachments
      | MessageCreatedEncrypted message_id sealed attachments \<Rightarrow>
          materialize_message st sev message_id None [] (Some sealed) attachments
      | MessageReplyCreatedEncrypted message_id reply_to sealed attachments \<Rightarrow>
          materialize_message st sev message_id (Some reply_to) [] (Some sealed) attachments
      | MessageEdited message_id markdown \<Rightarrow>
          Inr (modify_message st message_id
                 (\<lambda>m. m\<lparr>mv_markdown := markdown, mv_sealed_markdown := None\<rparr>))
      | MessageEditedEncrypted message_id sealed \<Rightarrow>
          Inr (modify_message st message_id
                 (\<lambda>m. m\<lparr>mv_markdown := [], mv_sealed_markdown := Some sealed\<rparr>))
      | MessageDeleted message_id \<Rightarrow>
          Inr (modify_message st message_id (\<lambda>m. m\<lparr>mv_deleted := True\<rparr>))
      | ReactionAdded message_id reaction \<Rightarrow>
          Inr (modify_message st message_id (\<lambda>m. add_reaction m reaction (ev_author sev)))
      | ReactionRemoved message_id reaction \<Rightarrow>
          Inr (modify_message st message_id (\<lambda>m. remove_reaction m reaction (ev_author sev)))
      | ReadMarkerUpdated channel_id event_id \<Rightarrow>
          Inr (materialize_read_marker st sev channel_id event_id)
      | ChannelMemberAdded channel_id member \<Rightarrow>
          Inr (modify_channel_view st channel_id (view_add_member member))
      | ChannelMemberRemoved channel_id member \<Rightarrow>
          Inr (modify_channel_view st channel_id (view_remove_device member))
      | _ \<Rightarrow> Inr st)"

definition record_applied :: "SignedEvent \<Rightarrow> WorkspaceState \<Rightarrow> WorkspaceState" where
  "record_applied sev st =
     st\<lparr>ws_applied_events := ws_applied_events st @ [sg_event_id sev],
        ws_applied_event_ids := insert (sg_event_id sev) (ws_applied_event_ids st)\<rparr>"

definition apply_ready_event ::
  "invite_iteration \<Rightarrow> WorkspaceState \<Rightarrow> SignedEvent \<Rightarrow> CoreError + WorkspaceState" where
  "apply_ready_event vals st sev =
     (if ev_workspace sev \<noteq> ws_workspace_id st then Inl CoreWrongWorkspace
      else
        bind_res (map_err CoreAuthorization (authorize_and_apply (ws_access_index st) sev)) (\<lambda>ix.
        bind_res (materialize vals
                   (mark_invites_accepted_by_event (st\<lparr>ws_access_index := ix\<rparr>) sev) sev)
          (\<lambda>st'. Inr (record_applied sev st'))))"

definition apply_event ::
  "invite_iteration \<Rightarrow> WorkspaceState \<Rightarrow> SignedEvent \<Rightarrow> CoreError + WorkspaceState" where
  "apply_event vals st sev =
     then_res (map_err CoreAuthorization (validate_signed_event_ids sev))
      (if ev_workspace sev \<noteq> ws_workspace_id st then Inl CoreWrongWorkspace
       else bind_res (missing_parent_ids st sev) (\<lambda>missing.
         if missing \<noteq> [] then Inl (CoreMissingParents (sg_event_id sev) missing)
         else apply_ready_event vals st sev))"

end
