(* ===== verification/State_Refinement.thy ===== *)
theory State_Refinement
  imports Workspace_State
begin

text \<open>
  The materialised views refine the access index: two data structures that
  \<^verbatim>\<open>src/domain/core/src/lib.rs\<close> updates side by side in \<open>apply_ready_event\<close> never disagree about
  members, channels, messages, linked persons, join requests and invites.  The invariant is proved
  field by field and then carried over whole histories by the event machine.
\<close>

section \<open>Agreement of the views with the index\<close>

definition roles_agree :: "WorkspaceAccessIndex \<Rightarrow> WorkspaceState \<Rightarrow> bool" where
  "roles_agree ix st \<longleftrightarrow>
     (\<forall>d. map_option wm_role (fmlookup (ws_members st) d) = fmlookup (ix_roles ix) d)"

definition channel_view_ok :: "ChannelAccess \<Rightarrow> ChannelView \<Rightarrow> bool" where
  "channel_view_ok ca cv \<longleftrightarrow>
     cv_is_private cv = ca_is_private ca \<and> set (cv_member_device_ids cv) = ca_members ca
     \<and> sorted (cv_member_device_ids cv) \<and> distinct (cv_member_device_ids cv)"

definition channels_agree :: "WorkspaceAccessIndex \<Rightarrow> WorkspaceState \<Rightarrow> bool" where
  "channels_agree ix st \<longleftrightarrow>
     (\<forall>c. rel_option channel_view_ok (fmlookup (ix_channels ix) c) (fmlookup (ws_channels st) c))"

definition messages_agree :: "WorkspaceAccessIndex \<Rightarrow> WorkspaceState \<Rightarrow> bool" where
  "messages_agree ix st \<longleftrightarrow>
     (\<forall>m. map_option mv_channel_id (fmlookup (ws_messages st) m)
        = map_option ma_channel_id (fmlookup (ix_messages ix) m))"

definition links_agree :: "WorkspaceAccessIndex \<Rightarrow> WorkspaceState \<Rightarrow> bool" where
  "links_agree ix st \<longleftrightarrow>
     (\<forall>d. map_option pl_person_id (fmlookup (ws_person_device_links st) d)
        = fmlookup (ix_person_links ix) d)"

definition requests_agree :: "WorkspaceAccessIndex \<Rightarrow> WorkspaceState \<Rightarrow> bool" where
  "requests_agree ix st \<longleftrightarrow> fmdom' (ws_join_requests st) = ix_join_requests ix"

text \<open>
  An invite is shown as revoked exactly when the index holds it as revoked, and, unless revoked,
  as still open exactly when it has claims left.
\<close>

definition invite_view_ok :: "WorkspaceInviteAccess \<Rightarrow> WorkspaceInviteView \<Rightarrow> bool" where
  "invite_view_ok ia iv \<longleftrightarrow>
     iv_max_claims iv = ia_max_claims ia \<and> iv_claim_count iv \<le> iv_max_claims iv
     \<and> (iv_status iv = InviteStatusRevoked \<longleftrightarrow> ia_revoked ia)
     \<and> (\<not> ia_revoked ia \<longrightarrow>
          iv_claim_count iv = ia_claim_count ia
          \<and> (iv_status iv = InviteInvited \<longleftrightarrow> ia_claim_count ia < ia_max_claims ia))
     \<and> (iv_status iv = InviteInvited \<longrightarrow>
          ia_invitee_device_id ia =
            (if iv_capability_public_key iv = [] then Some (iv_invitee_device_id iv) else None))
     \<and> (iv_capability_public_key iv = [] \<longrightarrow> ia_max_claims ia = 1)"

definition invites_agree :: "WorkspaceAccessIndex \<Rightarrow> WorkspaceState \<Rightarrow> bool" where
  "invites_agree ix st \<longleftrightarrow>
     (\<forall>i. rel_option invite_view_ok (fmlookup (ix_invites ix) i) (fmlookup (ws_invites st) i))"

definition history_agrees :: "WorkspaceState \<Rightarrow> bool" where
  "history_agrees st \<longleftrightarrow>
     ws_workspace_id st = ix_workspace_id (ws_access_index st)
     \<and> ws_applied_event_ids st = set (ws_applied_events st)"

definition views_agree :: "WorkspaceAccessIndex \<Rightarrow> WorkspaceState \<Rightarrow> bool" where
  "views_agree ix st \<longleftrightarrow>
     roles_agree ix st \<and> channels_agree ix st \<and> messages_agree ix st \<and> links_agree ix st
     \<and> requests_agree ix st \<and> invites_agree ix st"

text \<open>The cached count of a reaction is the size, saturated at 32 bits, of its set of authors.\<close>

definition reactions_ok :: "MessageView \<Rightarrow> bool" where
  "reactions_ok mv \<longleftrightarrow>
     (\<forall>r. fmlookup (mv_reactions mv) r
        = map_option (\<lambda>a. saturate_u32 (card a)) (fmlookup (mv_reaction_authors mv) r))
     \<and> fmpred (\<lambda>_ a. finite a \<and> a \<noteq> {}) (mv_reaction_authors mv)"

definition all_reactions_ok :: "WorkspaceState \<Rightarrow> bool" where
  "all_reactions_ok st \<longleftrightarrow> fmpred (\<lambda>_ mv. reactions_ok mv) (ws_messages st)"

definition state_inv :: "WorkspaceState \<Rightarrow> bool" where
  "state_inv st \<longleftrightarrow>
     access_inv (ws_access_index st) \<and> views_agree (ws_access_index st) st \<and> history_agrees st
     \<and> all_reactions_ok st"

section \<open>One step\<close>

lemmas materialize_arm_defs =
  materialize_workspace_created_def materialize_member_invited_def
  materialize_member_role_updated_def materialize_invite_recorded_def
  materialize_invite_claimed_def materialize_join_request_recorded_def
  materialize_member_removed_def materialize_channel_created_def
  materialize_direct_message_created_def materialize_channel_details_def
  materialize_device_profile_def materialize_person_linked_def materialize_person_profile_def
  materialize_key_package_def materialize_peer_endpoint_def materialize_message_def
  modify_message_def materialize_read_marker_def modify_channel_view_def insert_member_def
  approve_join_request_from_invite_def

lemma mark_invites_simps [simp]:
  "ws_workspace_id (mark_invites_accepted_by_event st ev) = ws_workspace_id st"
  "ws_channels (mark_invites_accepted_by_event st ev) = ws_channels st"
  "ws_messages (mark_invites_accepted_by_event st ev) = ws_messages st"
  "ws_members (mark_invites_accepted_by_event st ev) = ws_members st"
  "ws_person_device_links (mark_invites_accepted_by_event st ev) = ws_person_device_links st"
  "ws_join_requests (mark_invites_accepted_by_event st ev) = ws_join_requests st"
  "ws_applied_events (mark_invites_accepted_by_event st ev) = ws_applied_events st"
  "ws_applied_event_ids (mark_invites_accepted_by_event st ev) = ws_applied_event_ids st"
  "ws_access_index (mark_invites_accepted_by_event st ev) = ws_access_index st"
  by (simp_all add: mark_invites_accepted_by_event_def)

lemma materialize_frame:
  assumes "materialize vals st ev = Inr st'"
  shows "ws_access_index st' = ws_access_index st \<and> ws_workspace_id st' = ws_workspace_id st
    \<and> ws_applied_events st' = ws_applied_events st
    \<and> ws_applied_event_ids st' = ws_applied_event_ids st"
  using assms
  by (cases "ev_body ev")
    (auto simp: materialize_def materialize_arm_defs Let_def result_simps split: option.splits)

lemmas agree_eval =
  materialize_def materialize_arm_defs Let_def result_simps apply_authorized_def
  apply_authorized_body_def index_update_defs

lemma roles_agree_member:
  "roles_agree ix st \<Longrightarrow> fmlookup (ix_roles ix) d = Some r \<Longrightarrow>
     \<exists>m. fmlookup (ws_members st) d = Some m \<and> wm_role m = r"
  by (simp add: roles_agree_def) (metis map_option_eq_Some)

lemma roles_agree_step:
  assumes "authorize_body ix ev = Inr ()" "roles_agree ix st"
    "materialize vals (mark_invites_accepted_by_event st ev) ev = Inr st'"
  shows "roles_agree (apply_authorized ix ev) st'"
proof (cases "\<exists>m r. ev_body ev = MemberRoleUpdated m r")
  case True
  then obtain m r where b: "ev_body ev = MemberRoleUpdated m r" by blast
  with assms(1) have "\<exists>r. fmlookup (ix_roles ix) m = Some r"
    by (auto simp: authorize_body_def authorize_member_role_updated_def result_simps)
  with roles_agree_member [OF assms(2)] obtain v where "fmlookup (ws_members st) m = Some v"
    by blast
  with assms b show ?thesis by (auto simp: agree_eval roles_agree_def)
next
  case False
  with assms show ?thesis
    by (cases "ev_body ev")
      (auto simp: agree_eval roles_agree_def split: option.splits ContentKeyScope.splits)
qed

lemma rel_option_mapI:
  "rel_option R x y \<Longrightarrow> (\<And>a b. R a b \<Longrightarrow> S (f a) (g b)) \<Longrightarrow> rel_option S (map_option f x) (map_option g y)"
  by (auto simp: option.rel_map elim: option.rel_mono_strong)

lemma distinct_remdups_adj_sorted: "sorted xs \<Longrightarrow> distinct (remdups_adj xs)"
  for xs :: "'a::linorder list"
  by (induction xs rule: remdups_adj.induct) auto

lemma channel_view_ok_members:
  assumes "channel_view_ok ca cv"
  shows "channel_view_ok (ca\<lparr>ca_members := insert d (ca_members ca)\<rparr>) (view_add_member d cv)"
    and "channel_view_ok (ca\<lparr>ca_members := ca_members ca - {d}\<rparr>) (view_remove_device d cv)"
  using assms
  by (auto simp: channel_view_ok_def view_add_member_def view_remove_device_def sorted_wrt_filter
      set_insort_key distinct_insort)

lemma direct_message_view:
  "set (direct_message_members ps a) = insert a (set ps)"
  "sorted (direct_message_members ps a)" "distinct (direct_message_members ps a)"
  by (auto simp: direct_message_members_def sorted_remdups_adj distinct_remdups_adj_sorted)

lemma channel_view_ok_details:
  "rel_option channel_view_ok x y \<Longrightarrow> rel_option channel_view_ok x
     (map_option (\<lambda>cv. cv\<lparr>cv_name := f cv, cv_topic := g cv, cv_archived := h cv\<rparr>) y)"
  by (cases x; cases y) (auto simp: channel_view_ok_def)

lemma channels_agree_step:
  assumes "channels_agree ix st"
    "materialize vals (mark_invites_accepted_by_event st ev) ev = Inr st'"
  shows "channels_agree (apply_authorized ix ev) st'"
proof -
  have new: "channel_view_ok \<lparr>ca_is_private = p, ca_creator_device_id = d, ca_members = set ms\<rparr>
      \<lparr>cv_channel_id = c, cv_name = n, cv_topic = t, cv_archived = a, cv_is_private = p,
       cv_member_device_ids = ms, cv_direct_message = dm,
       cv_direct_message_participant_device_ids = ps\<rparr>" if "sorted ms" "distinct ms"
    for p d ms c n t a dm ps using that by (simp add: channel_view_ok_def)
  show ?thesis
    using assms new [where ms="[]"] new [where ms="[ev_author ev]"]
      new [where ms="direct_message_members ps (ev_author ev)" for ps]
    by (cases "ev_body ev")
      (auto simp: agree_eval channels_agree_def direct_message_view
        intro!: rel_option_mapI [where R=channel_view_ok] channel_view_ok_members
          channel_view_ok_details
        split: option.splits ContentKeyScope.splits)
qed

lemma links_agree_step:
  assumes "links_agree ix st"
    "materialize vals (mark_invites_accepted_by_event st ev) ev = Inr st'"
  shows "links_agree (apply_authorized ix ev) st'"
  using assms
  by (cases "ev_body ev")
    (auto simp: agree_eval links_agree_def split: option.splits ContentKeyScope.splits)

lemma requests_agree_step:
  assumes "requests_agree ix st"
    "materialize vals (mark_invites_accepted_by_event st ev) ev = Inr st'"
  shows "requests_agree (apply_authorized ix ev) st'"
  using assms unfolding requests_agree_def
  by (cases "ev_body ev")
    (auto simp: agree_eval simp flip: assms(1) [unfolded requests_agree_def] split: option.splits ContentKeyScope.splits)

lemma reaction_channel [simp]:
  "mv_channel_id (add_reaction mv r d) = mv_channel_id mv"
  "mv_channel_id (remove_reaction mv r d) = mv_channel_id mv"
  by (simp_all add: add_reaction_def remove_reaction_def Let_def split: option.split)

lemma messages_agree_step:
  assumes "messages_agree ix st"
    "materialize vals (mark_invites_accepted_by_event st ev) ev = Inr st'"
  shows "messages_agree (apply_authorized ix ev) st'"
  using assms
  by (cases "ev_body ev")
    (auto simp: agree_eval messages_agree_def message_view_new_def option.map_comp comp_def
      split: option.splits ContentKeyScope.splits)

lemma approve_waiting_id [simp]:
  "fmdom' (fmmap (approve_waiting d ev) m) = fmdom' m"
  by simp

section \<open>Invites\<close>

lemma trim_Nil: "trim [] = []"
proof -
  have "strip_encoded ws [] = []" for ws
    by (subst strip_encoded.simps) (simp add: find_None_iff [THEN iffD2])
  then show ?thesis by (simp add: trim_def trim_start_def trim_end_def)
qed

lemma invite_view_mark:
  assumes "invite_view_ok ia iv" "ia_claim_count ia \<le> ia_max_claims ia"
  shows "invite_view_ok
    (if ia_invitee_device_id ia = Some (ev_author ev) then ia\<lparr>ia_claim_count := ia_max_claims ia\<rparr> else ia)
    (mark_invite_accepted ev iv)"
  using assms by (cases "iv_status iv") (auto simp: invite_view_ok_def mark_invite_accepted_def)

lemma saturating_zero: "saturating_add 0 1 = (1 :: u32)"
  by (simp add: saturating_add_def)

lemma invite_view_claim:
  assumes "invite_view_ok ia iv" "\<not> ia_revoked ia" "ia_claim_count ia < ia_max_claims ia"
  shows "invite_view_ok (ia\<lparr>ia_claim_count := saturating_add (ia_claim_count ia) 1\<rparr>)
    (claim_invite_view ev d r iv)"
  using assms claim_increment [OF assms(3)]
  by (cases "iv_status iv")
    (auto simp: invite_view_ok_def claim_invite_view_def Let_def not_le saturating_zero)

lemma invite_view_revoke:
  "invite_view_ok ia iv \<Longrightarrow> invite_view_ok (ia\<lparr>ia_revoked := True\<rparr>) (resolve_invite_view ev res iv)"
  by (cases res) (auto simp: invite_view_ok_def resolve_invite_view_def)

lemma invites_agree_mark:
  assumes "invites_agree ix st" "invites_ok ix"
  shows "invites_agree (settle_invites ix ev) (mark_invites_accepted_by_event st ev)"
proof -
  have "rel_option invite_view_ok (fmlookup (ix_invites (settle_invites ix ev)) i)
      (fmlookup (ws_invites (mark_invites_accepted_by_event st ev)) i)" for i
  proof -
    have rel: "rel_option invite_view_ok (fmlookup (ix_invites ix) i) (fmlookup (ws_invites st) i)"
      using assms(1) by (simp add: invites_agree_def)
    have cap: "ia_claim_count ia \<le> ia_max_claims ia" if "fmlookup (ix_invites ix) i = Some ia" for ia
      using assms(2) that by (auto simp: invites_ok_def fmpred_iff)
    show ?thesis using rel cap invite_view_mark [where ev=ev]
      by (cases "fmlookup (ix_invites ix) i"; cases "fmlookup (ws_invites st) i")
        (auto simp: settle_invites_def mark_invites_accepted_by_event_def)
  qed
  then show ?thesis by (simp add: invites_agree_def)
qed

lemma apply_non_lifecycle_invites:
  "\<not> is_invite_lifecycle (ev_body ev) \<Longrightarrow> ix_invites (apply_authorized_body ix ev) = ix_invites ix"
  by (cases "ev_body ev")
    (auto simp: is_invite_lifecycle_def apply_authorized_body_def index_update_defs
      split: option.splits ContentKeyScope.splits)

lemma materialize_non_lifecycle_invites:
  "\<not> is_invite_lifecycle (ev_body ev) \<Longrightarrow> materialize vals st ev = Inr st' \<Longrightarrow>
     ws_invites st' = ws_invites st"
  by (cases "ev_body ev")
    (auto simp: is_invite_lifecycle_def materialize_def materialize_arm_defs Let_def result_simps)

lemma invites_agree_step:
  assumes "authorize_body ix ev = Inr ()" "validate_event_body_payload_sizes (ev_body ev) = Inr ()"
    "invites_ok ix" "invites_agree ix st"
    "materialize vals (mark_invites_accepted_by_event st ev) ev = Inr st'"
  shows "invites_agree (apply_authorized ix ev) st'"
proof (cases "is_invite_lifecycle (ev_body ev)")
  case False
  have "ix_invites (apply_authorized ix ev) = ix_invites (settle_invites ix ev)"
    using apply_non_lifecycle_invites [OF False] by (simp add: apply_authorized_def settle_invites_def)
  moreover have "ws_invites st' = ws_invites (mark_invites_accepted_by_event st ev)"
    using materialize_non_lifecycle_invites [OF False assms(5)] .
  ultimately show ?thesis
    using invites_agree_mark [OF assms(4,3), of ev] by (simp add: invites_agree_def)
next
  case True
  then have settle: "apply_authorized ix ev = apply_authorized_body ix ev"
    and mark: "mark_invites_accepted_by_event st ev = st"
    by (simp_all add: apply_authorized_def settle_invites_def mark_invites_accepted_by_event_def)
  have rel: "rel_option invite_view_ok (fmlookup (ix_invites ix) i) (fmlookup (ws_invites st) i)" for i
    using assms(4) by (simp add: invites_agree_def)
  show ?thesis
  proof (cases "ev_body ev")
    case (WorkspaceInviteRecorded i d n r q x a s)
    then show ?thesis using assms(5) rel unfolding settle mark
      by (auto simp: agree_eval invites_agree_def invite_view_ok_def recorded_invite_view_def
          split: option.splits)
  next
    case (WorkspaceInviteCapabilityCreated i n r x k y m)
    then have "k \<noteq> []" using assms(2)
      by (auto simp: validate_event_body_payload_sizes_def trim_Nil dest!: capability_checked(2))
    with WorkspaceInviteCapabilityCreated show ?thesis using assms(5) rel unfolding settle mark
      by (auto simp: agree_eval invites_agree_def invite_view_ok_def capability_invite_view_def
          effective_max_claims_pos)
  next
    case (WorkspaceInviteClaimed i d q)
    then obtain ia where "fmlookup (ix_invites ix) i = Some ia" "\<not> ia_revoked ia"
        "ia_claim_count ia < ia_max_claims ia"
      using assms(1)
      by (auto simp: authorize_body_def authorize_invite_claimed_def result_simps not_le split: if_splits)
    then show ?thesis using WorkspaceInviteClaimed assms(5) rel rel [of i] unfolding settle mark
      by (auto simp: agree_eval invites_agree_def option_rel_Some1 intro!: invite_view_claim)
  next
    case (WorkspaceInviteResolved i res)
    then show ?thesis using assms(5) rel unfolding settle mark
      by (auto simp: agree_eval invites_agree_def
          intro!: rel_option_mapI [where R=invite_view_ok] invite_view_revoke)
  qed (use True in \<open>auto simp: is_invite_lifecycle_def\<close>)
qed

section \<open>Reactions\<close>

lemma reactions_ok_new: "reactions_ok (message_view_new m c e r md s as)"
  by (simp add: reactions_ok_def message_view_new_def)

lemma reactions_ok_add: "reactions_ok mv \<Longrightarrow> reactions_ok (add_reaction mv r d)"
  by (auto simp: reactions_ok_def add_reaction_def Let_def set_reaction_count_def fmpred_iff
      insert_absorb split: option.splits)

lemma reactions_ok_remove: "reactions_ok mv \<Longrightarrow> reactions_ok (remove_reaction mv r d)"
  by (auto simp: reactions_ok_def remove_reaction_def Let_def set_reaction_count_def fmpred_iff
      split: option.splits if_splits)

lemma reactions_ok_frame [simp]:
  "reactions_ok (mv\<lparr>mv_markdown := t, mv_sealed_markdown := p\<rparr>) = reactions_ok mv"
  "reactions_ok (mv\<lparr>mv_deleted := b\<rparr>) = reactions_ok mv"
  by (simp_all add: reactions_ok_def)

lemma fmpred_fm_modify:
  "fmpred (\<lambda>_. P) m \<Longrightarrow> (\<And>v. P v \<Longrightarrow> P (f v)) \<Longrightarrow> fmpred (\<lambda>_. P) (fm_modify k f m)"
  by (auto simp: fmpred_iff split: if_splits)

lemma all_reactions_ok_step:
  assumes "all_reactions_ok st"
    "materialize vals (mark_invites_accepted_by_event st ev) ev = Inr st'"
  shows "all_reactions_ok st'"
  using assms
  by (cases "ev_body ev")
    (auto simp: agree_eval all_reactions_ok_def reactions_ok_new reactions_ok_add
      reactions_ok_remove intro!: fmpred_fm_modify [where P=reactions_ok] fmpred_upd split: option.splits)

section \<open>The invariant over histories\<close>

lemma apply_ready_event_Inr:
  "apply_ready_event vals st ev = Inr st' \<longleftrightarrow>
     ev_workspace ev = ws_workspace_id st \<and> authorize (ws_access_index st) ev = Inr ()
     \<and> (\<exists>st1. materialize vals
           (mark_invites_accepted_by_event
             (st\<lparr>ws_access_index := apply_authorized (ws_access_index st) ev\<rparr>) ev) ev = Inr st1
         \<and> st' = record_applied ev st1)"
  by (auto simp: apply_ready_event_def result_simps authorize_and_apply_Inr)

lemma index_of_apply_ready:
  assumes "apply_ready_event vals st ev = Inr st'"
  shows "authorize_and_apply (ws_access_index st) ev = Inr (ws_access_index st')"
  using assms
  by (auto simp: apply_ready_event_Inr authorize_and_apply_Inr record_applied_def
      dest: materialize_frame)

lemma applied_of_apply_ready:
  assumes "apply_ready_event vals st ev = Inr st'"
  shows "ws_applied_events st' = ws_applied_events st @ [sg_event_id ev]"
    "ws_applied_event_ids st' = insert (sg_event_id ev) (ws_applied_event_ids st)"
    "ws_workspace_id st' = ws_workspace_id st"
  using assms by (auto simp: apply_ready_event_Inr record_applied_def dest: materialize_frame)

lemma views_agree_index_irrelevant [simp]:
  "roles_agree ix (st\<lparr>ws_access_index := i\<rparr>) = roles_agree ix st"
  "channels_agree ix (st\<lparr>ws_access_index := i\<rparr>) = channels_agree ix st"
  "messages_agree ix (st\<lparr>ws_access_index := i\<rparr>) = messages_agree ix st"
  "links_agree ix (st\<lparr>ws_access_index := i\<rparr>) = links_agree ix st"
  "requests_agree ix (st\<lparr>ws_access_index := i\<rparr>) = requests_agree ix st"
  "invites_agree ix (st\<lparr>ws_access_index := i\<rparr>) = invites_agree ix st"
  "all_reactions_ok (st\<lparr>ws_access_index := i\<rparr>) = all_reactions_ok st"
  by (simp_all add: roles_agree_def channels_agree_def messages_agree_def links_agree_def
      requests_agree_def invites_agree_def all_reactions_ok_def)

lemma views_agree_recorded [simp]:
  "views_agree ix (record_applied ev st) = views_agree ix st"
  "all_reactions_ok (record_applied ev st) = all_reactions_ok st"
  by (simp_all add: views_agree_def record_applied_def roles_agree_def channels_agree_def
      messages_agree_def links_agree_def requests_agree_def invites_agree_def all_reactions_ok_def)

lemma views_agree_step:
  assumes "authorize ix ev = Inr ()" "access_inv ix" "views_agree ix st"
    "materialize vals (mark_invites_accepted_by_event (st\<lparr>ws_access_index := i\<rparr>) ev) ev = Inr st'"
  shows "views_agree (apply_authorized ix ev) st'"
proof -
  let ?st = "st\<lparr>ws_access_index := i\<rparr>"
  have ok: "authorize_body ix ev = Inr ()" "validate_event_body_payload_sizes (ev_body ev) = Inr ()"
    using assms(1) by (simp_all add: authorize_Inr)
  have inv: "invites_ok ix" using assms(2) by (simp add: access_inv_def)
  have parts: "roles_agree ix ?st" "channels_agree ix ?st" "messages_agree ix ?st"
      "links_agree ix ?st" "requests_agree ix ?st" "invites_agree ix ?st"
    using assms(3) by (simp_all add: views_agree_def)
  show ?thesis
    unfolding views_agree_def
    using roles_agree_step [OF ok(1) parts(1) assms(4)] channels_agree_step [OF parts(2) assms(4)]
      messages_agree_step [OF parts(3) assms(4)] links_agree_step [OF parts(4) assms(4)]
      requests_agree_step [OF parts(5) assms(4)] invites_agree_step [OF ok inv parts(6) assms(4)]
    by simp
qed

lemma state_inv_new: "state_inv (state_new w)"
  using access_inv_new [of w]
  by (simp add: state_inv_def state_new_def views_agree_def roles_agree_def
      channels_agree_def messages_agree_def links_agree_def requests_agree_def invites_agree_def
      history_agrees_def all_reactions_ok_def index_new_def)

lemma state_inv_step:
  assumes "state_inv st" "apply_ready_event vals st ev = Inr st'"
  shows "state_inv st'"
proof -
  from assms(2) obtain st1 where ok: "authorize (ws_access_index st) ev = Inr ()"
    and m: "materialize vals (mark_invites_accepted_by_event
        (st\<lparr>ws_access_index := apply_authorized (ws_access_index st) ev\<rparr>) ev) ev = Inr st1"
    and st': "st' = record_applied ev st1"
    by (auto simp: apply_ready_event_Inr)
  have ix: "authorize_and_apply (ws_access_index st) ev = Inr (ws_access_index st')"
    using index_of_apply_ready [OF assms(2)] .
  have inv: "access_inv (ws_access_index st)" using assms(1) by (simp add: state_inv_def)
  have "access_inv (ws_access_index st')" using access_inv_step [OF inv ix] .
  moreover have "views_agree (ws_access_index st') st'"
    using views_agree_step [OF ok inv _ m] assms(1) ix unfolding st'
    by (simp add: state_inv_def authorize_and_apply_Inr)
  moreover have "history_agrees st'"
    using assms(1) applied_of_apply_ready [OF assms(2)] index_extends_step [OF inv ix]
    by (simp add: history_agrees_def state_inv_def index_extends_def)
  moreover have "all_reactions_ok st'"
    using all_reactions_ok_step [OF _ m] assms(1) unfolding st' by (simp add: state_inv_def)
  ultimately show ?thesis by (simp add: state_inv_def)
qed

interpretation workspace: event_machine "apply_ready_event vals" state_inv for vals
  by unfold_locales (rule state_inv_step)

lemma apply_event_Inr:
  "apply_event vals st ev = Inr st' \<longleftrightarrow>
     set (ev_parents ev) \<subseteq> ws_applied_event_ids st \<and> apply_ready_event vals st ev = Inr st'"
  by (auto simp: apply_event_def missing_parent_ids_def has_applied_event_def result_simps
      filter_empty_conv apply_ready_event_Inr authorize_Inr)

interpretation causal: event_machine "apply_event vals" state_inv for vals
  by unfold_locales (auto simp: apply_event_Inr intro: state_inv_step)

text \<open>The channel of an accepted message event is present, so materialisation cannot fail.\<close>

lemma materialize_total:
  assumes "authorize_body ix ev = Inr ()"
  shows "\<exists>st'. materialize vals st ev = Inr st'"
  using assms
  by (cases "ev_body ev")
    (auto simp: materialize_def materialize_message_def authorize_body_def authorize_message_created_def
      authorize_message_reply_def require_event_channel_def result_simps)

lemma apply_ready_event_Inl:
  assumes "ev_workspace ev = ws_workspace_id st"
  shows "apply_ready_event vals st ev = Inl e \<longleftrightarrow>
    (\<exists>a. authorize (ws_access_index st) ev = Inl a \<and> e = CoreAuthorization a)"
proof (cases "authorize (ws_access_index st) ev")
  case (Inl a)
  with assms show ?thesis
    by (auto simp: apply_ready_event_def authorize_and_apply_def result_simps then_res_Inl map_err_def)
next
  case (Inr u)
  then have "authorize_body (ws_access_index st) ev = Inr ()" by (simp add: authorize_Inr)
  from materialize_total [OF this, of vals "mark_invites_accepted_by_event
      (st\<lparr>ws_access_index := apply_authorized (ws_access_index st) ev\<rparr>) ev"] Inr assms show ?thesis
    by (auto simp: apply_ready_event_def authorize_and_apply_def result_simps bind_res_Inl map_err_def)
qed

end
