(* ===== verification/State_Properties.thy ===== *)
theory State_Properties
  imports State_Refinement
begin

text \<open>
  What a replica can rely on of its materialised views: causal application, agreement with the
  access index, exact reaction counts, invite status and channel access, and independence of the
  iteration order of hash maps.
\<close>

section \<open>Iteration over a hash map\<close>

text \<open>
  \<open>HashMap::values\<close> promises that every value of the map is visited and nothing else, in an
  unspecified order.
\<close>

locale hash_iteration =
  fixes vals :: invite_iteration
  assumes set_vals: "set (vals m) = {v. \<exists>k. fmlookup m k = Some v}"
begin

lemma existing_invite_None:
  "existing_invite_for vals st q d = None \<longleftrightarrow>
     (\<forall>i iv. fmlookup (ws_invites st) i = Some iv \<longrightarrow>
        \<not> (iv_request_id iv = Some q \<and> iv_invitee_device_id iv = d))"
  unfolding existing_invite_for_def find_None_iff set_vals by auto

end

definition sorted_values :: invite_iteration where
  "sorted_values m = map snd (sorted_list_of_fmap m)"

interpretation sorted_iteration: hash_iteration sorted_values
  by unfold_locales (force simp: sorted_values_def set_sorted_list_of_fmap)

section \<open>Reactions\<close>

lemma reaction_authors_lookup:
  "set (reaction_author_device_ids mv r) =
     (case fmlookup (mv_reaction_authors mv) r of None \<Rightarrow> {} | Some a \<Rightarrow> a)"
  if "reactions_ok mv"
  using that by (auto simp: reaction_author_device_ids_def reactions_ok_def fmpred_iff split: option.splits)

lemma reactions_ok_author:
  assumes "reactions_ok mv" "fmlookup (mv_reaction_authors mv) r = Some a"
  shows "finite a" "a \<noteq> {}" "fmlookup (mv_reactions mv) r = Some (saturate_u32 (card a))"
  using assms by (auto simp: reactions_ok_def fmpred_iff)

lemma reactions_ok_absent:
  "reactions_ok mv \<Longrightarrow> fmlookup (mv_reaction_authors mv) r = None \<Longrightarrow> fmlookup (mv_reactions mv) r = None"
  by (simp add: reactions_ok_def)

lemma fmdrop_upd_absent: "fmlookup m k = None \<Longrightarrow> fmdrop k (fmupd k v m) = m"
  by (rule fmap_ext) auto

lemma fmupd_same: "fmlookup m k = Some v \<Longrightarrow> fmupd k v m = m"
  by (rule fmap_ext) auto

lemma remove_added_reaction:
  assumes "reactions_ok mv" "d \<notin> set (reaction_author_device_ids mv r)"
  shows "remove_reaction (add_reaction mv r d) r d = mv"
proof (cases "fmlookup (mv_reaction_authors mv) r")
  case None
  with reactions_ok_absent [OF assms(1) None] show ?thesis
    by (simp add: add_reaction_def remove_reaction_def Let_def set_reaction_count_def fmdrop_upd_absent)
next
  case (Some a)
  have d: "d \<notin> a" "insert d a - {d} = a"
    using assms(2) reaction_authors_lookup [OF assms(1)] Some by auto
  from reactions_ok_author [OF assms(1) Some] d Some show ?thesis
    by (simp add: add_reaction_def remove_reaction_def Let_def set_reaction_count_def fmupd_same)
qed

lemma reaction_authors_add:
  "reactions_ok mv \<Longrightarrow> set (reaction_author_device_ids (add_reaction mv r d) q) =
     (if q = r then insert d (set (reaction_author_device_ids mv r))
      else set (reaction_author_device_ids mv q))"
  using reactions_ok_add [of mv r d]
  by (auto simp: reaction_authors_lookup add_reaction_def Let_def split: option.splits)

lemma reaction_authors_remove:
  "reactions_ok mv \<Longrightarrow> set (reaction_author_device_ids (remove_reaction mv r d) q) =
     (if q = r then set (reaction_author_device_ids mv r) - {d}
      else set (reaction_author_device_ids mv q))"
  using reactions_ok_remove [of mv r d]
  by (auto simp: reaction_authors_lookup remove_reaction_def Let_def split: option.splits if_splits)

lemma reactions_for_device_iff:
  "reactions_ok mv \<Longrightarrow>
     r \<in> set (reactions_for_device mv d) \<longleftrightarrow> d \<in> set (reaction_author_device_ids mv r)"
  by (auto simp: reaction_authors_lookup reactions_for_device_def reactions_ok_def fmlookup_dom_iff
      split: option.splits)

lemma reaction_count_exact:
  assumes "reactions_ok mv" "fmlookup (mv_reactions mv) r = Some n"
  shows "unat n = min (length (reaction_author_device_ids mv r)) (2 ^ 32 - 1)"
    "reaction_author_device_ids mv r \<noteq> []"
proof -
  obtain a where a: "fmlookup (mv_reaction_authors mv) r = Some a"
    using assms reactions_ok_absent [OF assms(1)] by (cases "fmlookup (mv_reaction_authors mv) r") auto
  from reactions_ok_author [OF assms(1) a] assms(2) a
  show "unat n = min (length (reaction_author_device_ids mv r)) (2 ^ 32 - 1)"
    "reaction_author_device_ids mv r \<noteq> []"
    by (auto simp: reaction_author_device_ids_def unat_saturate_u32)
qed

section \<open>Histories\<close>

lemma applied_of_run:
  "accepted_run (apply_event vals) st es st' \<Longrightarrow>
     ws_applied_events st' = ws_applied_events st @ map sg_event_id es"
  by (induction rule: accepted_run.induct) (auto simp: apply_event_Inr applied_of_apply_ready)

lemma parents_of_run:
  assumes "accepted_run (apply_event vals) st es st'" "state_inv st" "i < length es"
  shows "set (ev_parents (es ! i)) \<subseteq> set (ws_applied_events st) \<union> set (take i (map sg_event_id es))"
  using assms
proof (induction arbitrary: i rule: accepted_run.induct)
  case (run_cons st e st1 es st')
  have ids: "ws_applied_event_ids st = set (ws_applied_events st)"
    using run_cons.prems(1) by (simp add: state_inv_def history_agrees_def)
  show ?case
  proof (cases i)
    case 0
    then show ?thesis using run_cons.hyps(1) ids by (simp add: apply_event_Inr)
  next
    case (Suc j)
    have "state_inv st1" using run_cons by (blast intro: causal.step_inv)
    with run_cons Suc have "set (ev_parents (es ! j)) \<subseteq>
        set (ws_applied_events st1) \<union> set (take j (map sg_event_id es))" by simp
    then show ?thesis using run_cons.hyps(1) Suc
      by (auto simp: apply_event_Inr applied_of_apply_ready)
  qed
qed simp

lemma channel_access_views:
  assumes "state_inv st"
  shows "channel_accessible_to st c d \<longleftrightarrow> d \<in> fmdom' (ws_members st)
    \<and> (\<exists>cv. fmlookup (ws_channels st) c = Some cv
         \<and> (\<not> cv_is_private cv \<or> d \<in> set (cv_member_device_ids cv)))"
proof -
  let ?ix = "ws_access_index st"
  have roles: "d \<in> fmdom' (ix_roles ?ix) \<longleftrightarrow> d \<in> fmdom' (ws_members st)"
  proof -
    have "map_option wm_role (fmlookup (ws_members st) d) = fmlookup (ix_roles ?ix) d"
      using assms by (simp add: state_inv_def views_agree_def roles_agree_def)
    then show ?thesis by (auto simp: fmdom'_iff simp flip: \<open>_ = fmlookup (ix_roles ?ix) d\<close>)
  qed
  have rel: "rel_option channel_view_ok (fmlookup (ix_channels ?ix) c) (fmlookup (ws_channels st) c)"
    using assms by (simp add: state_inv_def views_agree_def channels_agree_def)
  have root: "ix_root_seen ?ix" if "fmlookup (ix_channels ?ix) c \<noteq> None"
    using assms that
    by (auto simp: state_inv_def access_inv_def root_ok_def fmdom'_iff split: option.splits)
  show ?thesis using rel root roles
    by (cases "fmlookup (ix_channels ?ix) c"; cases "fmlookup (ws_channels st) c")
      (auto simp: channel_accessible_to_def index_channel_accessible_to_def contains_key_iff
        channel_view_ok_def)
qed

section \<open>The sample workspace\<close>

definition run_events :: "invite_iteration \<Rightarrow> WorkspaceState \<Rightarrow> SignedEvent list \<Rightarrow> WorkspaceState" where
  "run_events vals = foldl (\<lambda>st e. case apply_event vals st e of Inl _ \<Rightarrow> st | Inr st' \<Rightarrow> st')"

definition team_state :: WorkspaceState where
  "team_state = run_events sorted_values (state_new team) team_history"

lemmas state_eval =
  apply_event_def missing_parent_ids_def apply_ready_event_def has_applied_event_def map_err_def
  materialize_def materialize_arm_defs mark_invites_accepted_by_event_def record_applied_def
  state_new_def Let_def

lemma team_state_run: "accepted_run (apply_event sorted_values) (state_new team) team_history team_state"
  by (simp add: state_eval authorize_eval apply_eval team_index_eval team_state_def run_events_def)

lemma team_state_inv: "state_inv team_state"
  using causal.run_inv [OF team_state_run state_inv_new] .

lemma mark_invite_keeps:
  "iv_request_id (mark_invite_accepted ev iv) = iv_request_id iv"
  "iv_invitee_device_id (mark_invite_accepted ev iv) = iv_invitee_device_id iv"
  by (simp_all add: mark_invite_accepted_def)

section \<open>Properties\<close>

text \<open>
  C1: after any accepted history the materialised views agree with the access index the
  authorisation decisions are taken from (members and roles, channels with their privacy and sorted
  member lists, message channels, person links, join requests, invite capacity and status), the
  index is well formed, the applied-event set is the applied-event list, and every reaction count
  is the size of its author set.
\<close>

theorem views_refine_access_index:
  assumes "accepted_run (apply_event vals) (state_new w) es st"
  shows "state_inv st"
  using assms state_inv_new by (rule causal.run_inv)

theorem views_refine_access_index_witness: "state_inv team_state"
  using views_refine_access_index [OF team_state_run] .

text \<open>
  The events of an accepted history are recorded in the order of application, and each is
  applied only after all its parents.
\<close>

theorem history_is_causal:
  assumes "accepted_run (apply_event vals) (state_new w) es st"
  shows "ws_applied_events st = map sg_event_id es
    \<and> (\<forall>i < length es. set (ev_parents (es ! i)) \<subseteq> set (take i (map sg_event_id es)))"
proof -
  have "ws_applied_events (state_new w) = []" by (simp add: state_new_def)
  with applied_of_run [OF assms] parents_of_run [OF assms state_inv_new] show ?thesis by simp
qed

theorem history_is_causal_witness:
  "ws_applied_events team_state = map sg_event_id team_history"
  using history_is_causal [OF team_state_run] by simp

text \<open>
  \<open>apply\<close> reports, in this order, a malformed identifier, a foreign workspace, the missing
  parents in the order the event lists them, and the authorisation error; otherwise it succeeds and
  records the event.  It never reports a missing channel.
\<close>

theorem apply_event_outcome:
  "case apply_event vals st ev of
     Inl e \<Rightarrow>
       if validate_signed_event_ids ev \<noteq> Inr ()
       then \<exists>a. validate_signed_event_ids ev = Inl a \<and> e = CoreAuthorization a
       else if ev_workspace ev \<noteq> ws_workspace_id st then e = CoreWrongWorkspace
       else if \<not> set (ev_parents ev) \<subseteq> ws_applied_event_ids st
       then e = CoreMissingParents (sg_event_id ev)
                  (filter (\<lambda>p. p \<notin> ws_applied_event_ids st) (ev_parents ev))
       else \<exists>a. authorize (ws_access_index st) ev = Inl a \<and> e = CoreAuthorization a
   | Inr st' \<Rightarrow>
       authorize (ws_access_index st) ev = Inr () \<and> set (ev_parents ev) \<subseteq> ws_applied_event_ids st
       \<and> ws_access_index st' = apply_authorized (ws_access_index st) ev
       \<and> ws_applied_events st' = ws_applied_events st @ [sg_event_id ev]"
proof (cases "apply_event vals st ev")
  case (Inr st')
  then have "apply_ready_event vals st ev = Inr st'" "set (ev_parents ev) \<subseteq> ws_applied_event_ids st"
    by (simp_all add: apply_event_Inr)
  with index_of_apply_ready [OF this(1)] applied_of_apply_ready(1) [OF this(1)] Inr show ?thesis
    by (simp add: authorize_and_apply_Inr)
next
  case (Inl e)
  show ?thesis
  proof (cases "validate_signed_event_ids ev = Inr () \<and> ev_workspace ev = ws_workspace_id st")
    case True
    have "filter (\<lambda>p. p \<notin> ws_applied_event_ids st) (ev_parents ev) = [] \<longleftrightarrow>
        set (ev_parents ev) \<subseteq> ws_applied_event_ids st"
      by (auto simp: filter_empty_conv)
    with True Inl apply_ready_event_Inl [of ev st vals e] show ?thesis
      by (auto simp: apply_event_def missing_parent_ids_def has_applied_event_def map_err_def
          split: if_splits)
  next
    case False
    with Inl show ?thesis
      by (cases "validate_signed_event_ids ev")
        (auto simp: apply_event_def map_err_def split: if_splits)
  qed
qed

text \<open>
  In a reachable state, a device can open a channel exactly when the member view lists the
  device and the channel view shows the channel as public or lists the device among its members.
\<close>

theorem channel_access_is_what_the_views_show:
  assumes "accepted_run (apply_event vals) (state_new w) es st"
  shows "channel_accessible_to st c d \<longleftrightarrow> d \<in> fmdom' (ws_members st)
    \<and> (\<exists>cv. fmlookup (ws_channels st) c = Some cv
         \<and> (\<not> cv_is_private cv \<or> d \<in> set (cv_member_device_ids cv)))"
  using channel_access_views [OF causal.run_inv [OF assms state_inv_new]] .

theorem channel_access_is_what_the_views_show_witness:
  "channel_accessible_to team_state secret carol \<longleftrightarrow> carol \<in> fmdom' (ws_members team_state)
    \<and> (\<exists>cv. fmlookup (ws_channels team_state) secret = Some cv
         \<and> (\<not> cv_is_private cv \<or> carol \<in> set (cv_member_device_ids cv)))"
  using channel_access_is_what_the_views_show [OF team_state_run] .

text \<open>
  In a reachable state, the shown count of a reaction is the number of devices that placed it
  (saturated at the largest 32-bit value), no reaction with no author is shown, and the reactions
  listed for a device are those whose author list contains it.
\<close>

theorem reaction_counts_exact:
  assumes "accepted_run (apply_event vals) (state_new w) es st"
    and "fmlookup (ws_messages st) m = Some mv"
  shows "(\<forall>n. fmlookup (mv_reactions mv) r = Some n \<longrightarrow>
        unat n = min (length (reaction_author_device_ids mv r)) (2 ^ 32 - 1) \<and> 0 < unat n)
    \<and> distinct (reaction_author_device_ids mv r) \<and> sorted (reaction_author_device_ids mv r)
    \<and> (r \<in> set (reactions_for_device mv d) \<longleftrightarrow> d \<in> set (reaction_author_device_ids mv r))"
proof -
  have "reactions_ok mv" using causal.run_inv [OF assms(1) state_inv_new] assms(2)
    by (auto simp: state_inv_def all_reactions_ok_def fmpred_iff)
  with reaction_count_exact [OF this] reactions_for_device_iff [OF this] show ?thesis
    by (fastforce simp: reaction_author_device_ids_def split: option.split)
qed

definition react_hello :: SignedEvent where
  "react_hello = sample_event ''e6'' carol (Some secret) [EventId ''e5''] (ReactionAdded hello ''wave'')"

definition reacted_state :: WorkspaceState where
  "reacted_state = run_events sorted_values (state_new team) (team_history @ [react_hello])"

lemma trim_wave: "trim ''wave'' = ''wave''"
  by code_simp

lemmas reaction_eval =
  reacted_state_def react_hello_def add_reaction_def set_reaction_count_def saturate_u32_def
  message_view_new_def validate_event_text_required_def trim_wave

lemma reacted_state_run:
  "accepted_run (apply_event sorted_values) (state_new team) (team_history @ [react_hello]) reacted_state"
  by (simp add: state_eval authorize_eval apply_eval team_index_eval run_events_def reaction_eval)

lemma reacted_message:
  "fmlookup (ws_messages reacted_state) hello = Some (add_reaction
     (message_view_new hello secret (EventId ''e5'') None ''hi'' None []) ''wave'' carol)"
  by (simp add: state_eval authorize_eval apply_eval team_index_eval run_events_def reaction_eval)

theorem reaction_counts_exact_witness:
  "let mv = add_reaction (message_view_new hello secret (EventId ''e5'') None ''hi'' None [])
              ''wave'' carol
   in reaction_author_device_ids mv ''wave'' = [carol]
      \<and> fmlookup (mv_reactions mv) ''wave'' = Some 1
      \<and> ''wave'' \<in> set (reactions_for_device mv carol)"
  using reaction_counts_exact [OF reacted_state_run reacted_message, of "''wave''" carol]
  by (simp add: Let_def add_reaction_def message_view_new_def set_reaction_count_def
      saturate_u32_def reaction_author_device_ids_def)

text \<open>
  Placing a reaction adds exactly its author, withdrawing removes exactly its author, and
  withdrawing a reaction just placed restores the message, including the disappearance of the
  reaction when nobody else placed it.
\<close>

theorem reaction_toggle:
  assumes "reactions_ok mv"
  shows "set (reaction_author_device_ids (add_reaction mv r d) q) =
      (if q = r then {d} else {}) \<union> set (reaction_author_device_ids mv q)
    \<and> set (reaction_author_device_ids (remove_reaction mv r d) q) =
      set (reaction_author_device_ids mv q) - (if q = r then {d} else {})
    \<and> (if d \<in> set (reaction_author_device_ids mv r) then add_reaction mv r d = mv
       else remove_reaction (add_reaction mv r d) r d = mv \<and> remove_reaction mv r d = mv)"
proof -
  have "add_reaction mv r d = mv" if "d \<in> set (reaction_author_device_ids mv r)"
    using that by (auto simp: reaction_authors_lookup [OF assms] add_reaction_def Let_def fmupd_same
        insert_absorb split: option.splits)
  moreover have "remove_reaction mv r d = mv" if "d \<notin> set (reaction_author_device_ids mv r)"
    using that by (auto simp: reaction_authors_lookup [OF assms] remove_reaction_def split: option.splits)
  ultimately show ?thesis
    using reaction_authors_add [OF assms] reaction_authors_remove [OF assms]
      remove_added_reaction [OF assms] by auto
qed

theorem reaction_toggle_witness:
  "let mv = message_view_new hello secret (EventId ''e5'') None ''hi'' None []
   in remove_reaction (add_reaction mv ''wave'' carol) ''wave'' carol = mv
      \<and> add_reaction (add_reaction mv ''wave'' carol) ''wave'' carol = add_reaction mv ''wave'' carol"
proof -
  let ?mv = "message_view_new hello secret (EventId ''e5'') None ''hi'' None []"
  have ok: "reactions_ok ?mv" "reactions_ok (add_reaction ?mv ''wave'' carol)"
    by (simp_all add: reactions_ok_new reactions_ok_add)
  show ?thesis
    using reaction_toggle [OF ok(1), of "''wave''" carol] reaction_toggle [OF ok(2), of "''wave''" carol]
    by (simp add: reaction_author_device_ids_def message_view_new_def add_reaction_def
        set_reaction_count_def Let_def)
qed

text \<open>
  A removed member is gone from the member view, from every channel's member list and from the
  person links, and can open no channel.
\<close>

theorem removal_clears_views:
  assumes "state_inv st" "apply_event vals st ev = Inr st'" "ev_body ev = MemberRemoved d"
  shows "d \<notin> fmdom' (ws_members st') \<and> d \<notin> fmdom' (ws_person_device_links st')
    \<and> \<not> channel_accessible_to st' c d
    \<and> (\<forall>cv. fmlookup (ws_channels st') c = Some cv \<longrightarrow> d \<notin> set (cv_member_device_ids cv))"
proof -
  have inv: "state_inv st'" using assms(1,2) by (rule causal.step_inv)
  have m: "d \<notin> fmdom' (ws_members st')" "d \<notin> fmdom' (ws_person_device_links st')"
      "\<forall>cv. fmlookup (ws_channels st') c = Some cv \<longrightarrow> d \<notin> set (cv_member_device_ids cv)"
    using assms(2,3)
    by (auto simp: apply_event_Inr apply_ready_event_Inr materialize_def materialize_member_removed_def
        record_applied_def view_remove_device_def)
  then show ?thesis using channel_access_views [OF inv, of c d] by blast
qed

definition drop_carol :: SignedEvent where
  "drop_carol = sample_event ''e6'' alice None [EventId ''e5''] (MemberRemoved carol)"

lemma drop_carol_accepted: "\<exists>st'. apply_event sorted_values team_state drop_carol = Inr st'"
  by (simp add: state_eval authorize_eval apply_eval team_index_eval run_events_def team_state_def
      drop_carol_def)

theorem removal_clears_views_witness:
  "\<exists>st'. apply_event sorted_values team_state drop_carol = Inr st' \<and> \<not> channel_accessible_to st' secret carol"
proof -
  obtain st' where st': "apply_event sorted_values team_state drop_carol = Inr st'"
    using drop_carol_accepted by blast
  then show ?thesis using removal_clears_views [OF team_state_inv st', of carol secret]
    by (simp add: drop_carol_def)
qed

text \<open>
  C36: in a reachable state every shown invite, revoked or not, has a capacity of 1 to 100, and its claim
  counter does not exceed it; it is shown as open exactly while it is not revoked and claims are left.
\<close>

theorem invite_status_matches_capacity:
  assumes "accepted_run (apply_event vals) (state_new w) es st"
    and "fmlookup (ws_invites st) i = Some iv"
  shows "0 < unat (iv_max_claims iv) \<and> unat (iv_max_claims iv) \<le> 100
    \<and> unat (iv_claim_count iv) \<le> unat (iv_max_claims iv)
    \<and> (iv_status iv = InviteInvited \<longleftrightarrow>
        iv_status iv \<noteq> InviteStatusRevoked \<and> unat (iv_claim_count iv) < unat (iv_max_claims iv))"
proof -
  have inv: "state_inv st" using causal.run_inv [OF assms(1) state_inv_new] .
  then have "rel_option invite_view_ok (fmlookup (ix_invites (ws_access_index st)) i)
      (fmlookup (ws_invites st) i)"
    by (simp add: state_inv_def views_agree_def invites_agree_def)
  then obtain ia where ia: "fmlookup (ix_invites (ws_access_index st)) i = Some ia" "invite_view_ok ia iv"
    using assms(2) by (auto simp: option_rel_Some2)
  have "invites_ok (ws_access_index st)" using inv by (simp add: state_inv_def access_inv_def)
  with ia(1) have "0 < ia_max_claims ia" "ia_max_claims ia \<le> 100" "ia_claim_count ia \<le> ia_max_claims ia"
    by (auto simp: invites_ok_def fmpred_iff)
  with ia(2) show ?thesis
    by (auto simp: invite_view_ok_def word_less_nat_alt word_le_nat_alt)
qed

definition invited_state :: WorkspaceState where
  "invited_state = run_events sorted_values (state_new team) (team_history @ [team_invite])"

lemma invited_state_run:
  "accepted_run (apply_event sorted_values) (state_new team) (team_history @ [team_invite]) invited_state"
  by (simp add: state_eval authorize_eval apply_eval team_index_eval run_events_def invited_state_def
      team_invite_def invite_eval)

lemma invited_view:
  "fmlookup (ws_invites invited_state) ''inv'' =
     Some (capability_invite_view team_invite ''inv'' ''Guests'' Guest [] ''key'' [] 1)"
  by (simp add: state_eval authorize_eval apply_eval team_index_eval run_events_def invited_state_def
      team_invite_def invite_eval)

theorem invite_status_matches_capacity_witness:
  "unat (1 :: u32) \<le> 100 \<and> iv_status (capability_invite_view team_invite ''inv'' ''Guests'' Guest [] ''key'' [] 1)
     = InviteInvited"
  using invite_status_matches_capacity [OF invited_state_run invited_view]
  by (simp add: capability_invite_view_def)

text \<open>
  The status of a recorded join request does not depend on the order in which the hash map of
  invites is visited: it is approved exactly when the requester is already a member or some invite
  carries this request and this requester.
\<close>

theorem join_request_status_order_independent:
  assumes "hash_iteration vals" "apply_event vals st ev = Inr st'"
    and "ev_body ev = WorkspaceJoinRequestRecorded q d n t sty sid sn sp rp"
  shows "\<exists>jr. fmlookup (ws_join_requests st') q = Some jr \<and> jr_requester_device_id jr = d
    \<and> jr_status jr =
       (if d \<in> fmdom' (ws_members st)
           \<or> (\<exists>i iv. fmlookup (ws_invites st) i = Some iv
                \<and> iv_request_id iv = Some q \<and> iv_invitee_device_id iv = d)
        then RequestApproved else RequestWaiting)"
proof -
  have nl: "\<not> is_invite_lifecycle (ev_body ev)" using assms(3) by (simp add: is_invite_lifecycle_def)
  let ?st = "mark_invites_accepted_by_event
      (st\<lparr>ws_access_index := apply_authorized (ws_access_index st) ev\<rparr>) ev"
  have keep: "(\<forall>i iv. fmlookup (ws_invites ?st) i = Some iv \<longrightarrow> \<not> (iv_request_id iv = Some q \<and> iv_invitee_device_id iv = d))
      \<longleftrightarrow> (\<forall>i iv. fmlookup (ws_invites st) i = Some iv \<longrightarrow> \<not> (iv_request_id iv = Some q \<and> iv_invitee_device_id iv = d))"
    using nl by (simp add: mark_invites_accepted_by_event_def) (metis mark_invite_keeps)
  show ?thesis using assms(2,3) keep hash_iteration.existing_invite_None [OF assms(1), of ?st q d]
    by (auto simp: apply_event_Inr apply_ready_event_Inr materialize_def Let_def fmdom'_iff
        materialize_join_request_recorded_def record_applied_def)
qed

definition dave :: DeviceId where "dave = DeviceId ''dave''"

definition ask_to_join :: SignedEvent where
  "ask_to_join = sample_event ''e6'' alice None [EventId ''e5'']
     (WorkspaceJoinRequestRecorded ''req'' dave ''Dave'' [] [] [] [] [] [])"

lemma ask_to_join_accepted: "\<exists>st'. apply_event sorted_values team_state ask_to_join = Inr st'"
  by (simp add: state_eval authorize_eval apply_eval team_index_eval run_events_def team_state_def
      ask_to_join_def dave_def check_join_request_recorded_def validate_event_text_required_def
      trim_plain)

theorem join_request_status_order_independent_witness:
  "\<exists>st' jr. apply_event sorted_values team_state ask_to_join = Inr st'
     \<and> fmlookup (ws_join_requests st') ''req'' = Some jr \<and> jr_requester_device_id jr = dave"
proof -
  obtain st' where st': "apply_event sorted_values team_state ask_to_join = Inr st'"
    using ask_to_join_accepted by blast
  then show ?thesis
    using join_request_status_order_independent [OF sorted_iteration.hash_iteration_axioms st']
    by (auto simp: ask_to_join_def)
qed

end
