(* ===== verification/Batch.thy ===== *)
theory Batch
  imports State_Properties "HOL-Library.Multiset"
begin

text \<open>
  \<open>WorkspaceState::apply_batch\<close> of \<^verbatim>\<open>src/domain/core/src/lib.rs\<close>: the scheduler that applies a batch
  of events arriving in any order.  It excludes conflicting channel definitions, counts the missing
  parents of every event, wakes the children of an applied event, keeps the order of repeated
  stable scans with a list and two heaps, and retries in rounds the events that were not yet
  authorised.  An error leaves the state the loop had reached, so a failing outcome carries it.
\<close>

section \<open>Channel definition conflicts\<close>

definition created_channel :: "SignedEvent \<Rightarrow> ChannelId option" where
  "created_channel event =
     (case ev_body event of
        ChannelCreated channel_id _ _ \<Rightarrow> Some channel_id
      | DirectMessageChannelCreated channel_id _ _ \<Rightarrow> Some channel_id
      | _ \<Rightarrow> None)"

definition note_creation ::
  "(ChannelId, EventId) fmap \<times> ChannelId set \<Rightarrow> SignedEvent \<Rightarrow> (ChannelId, EventId) fmap \<times> ChannelId set" where
  "note_creation acc event =
     (case acc of (creation_event_ids, conflicting) \<Rightarrow>
        case created_channel event of
          None \<Rightarrow> acc
        | Some channel_id \<Rightarrow>
            (case fmlookup creation_event_ids channel_id of
               Some existing_event_id \<Rightarrow>
                 (creation_event_ids,
                  if existing_event_id \<noteq> sg_event_id event then insert channel_id conflicting
                  else conflicting)
             | None \<Rightarrow> (fmupd channel_id (sg_event_id event) creation_event_ids, conflicting)))"

definition conflicting_channel_ids :: "SignedEvent list \<Rightarrow> ChannelId set" where
  "conflicting_channel_ids events = snd (foldl note_creation (fmempty, {}) events)"

definition channel_definition_conflicts :: "SignedEvent list \<Rightarrow> bool list" where
  "channel_definition_conflicts events =
     map (\<lambda>event. case created_channel event of
                    None \<Rightarrow> False | Some channel_id \<Rightarrow> channel_id \<in> conflicting_channel_ids events)
       events"

section \<open>The scheduler's state\<close>

text \<open>
  \<open>BinaryHeap<Reverse<usize>>\<close> pops its least element; it is kept as an ascending list.
\<close>

definition heap_push :: "nat \<Rightarrow> nat list \<Rightarrow> nat list" where
  "heap_push i heap = insort i heap"

record BatchState =
  bs_state :: WorkspaceState
  bs_pending :: "bool list"
  bs_missing_parent_counts :: "nat list"
  bs_earliest_ready_rounds :: "nat list"
  bs_waiting_by_parent :: "(EventId, nat list) fmap"
  bs_dynamically_ready :: "nat list"
  bs_next_round_ready :: "nat list"
  bs_authorization_deferred :: "nat list"
  bs_progressed :: bool
  bs_applied :: "EventId list"

section \<open>Indexing the causal dependencies\<close>

definition push_waiting :: "EventId \<Rightarrow> nat \<Rightarrow> (EventId, nat list) fmap \<Rightarrow> (EventId, nat list) fmap" where
  "push_waiting parent_id event_index waiting =
     fmupd parent_id
       ((case fmlookup waiting parent_id of None \<Rightarrow> [] | Some idxs \<Rightarrow> idxs) @ [event_index]) waiting"

text \<open>One parent of an event: (\<open>unique_parent_ids\<close>, missing count, \<open>waiting_by_parent\<close>).\<close>

definition index_parent ::
  "EventId set \<Rightarrow> EventId set \<Rightarrow> nat \<Rightarrow> EventId set \<times> nat \<times> (EventId, nat list) fmap \<Rightarrow> EventId
    \<Rightarrow> EventId set \<times> nat \<times> (EventId, nat list) fmap" where
  "index_parent applied candidates event_index acc parent_id =
     (case acc of (unique, missing, waiting) \<Rightarrow>
        if parent_id \<in> unique \<or> parent_id \<in> applied then (insert parent_id unique, missing, waiting)
        else (insert parent_id unique, missing + 1,
              if parent_id \<in> candidates then push_waiting parent_id event_index waiting else waiting))"

definition index_event ::
  "EventId set \<Rightarrow> EventId set \<Rightarrow> bool list \<Rightarrow> nat list \<times> (EventId, nat list) fmap \<times> nat list
    \<Rightarrow> nat \<times> SignedEvent \<Rightarrow> nat list \<times> (EventId, nat list) fmap \<times> nat list" where
  "index_event applied candidates conflicts acc indexed =
     (case acc of (counts, waiting, ready) \<Rightarrow>
      case indexed of (event_index, event) \<Rightarrow>
      case foldl (index_parent applied candidates event_index) ({}, 0, waiting) (ev_parents event) of
        (_, missing, waiting') \<Rightarrow>
          (counts @ [missing], waiting',
           if missing = 0 \<and> \<not> conflicts ! event_index then ready @ [event_index] else ready))"

definition index_events ::
  "WorkspaceState \<Rightarrow> SignedEvent list \<Rightarrow> nat list \<times> (EventId, nat list) fmap \<times> nat list" where
  "index_events st events =
     foldl (index_event (ws_applied_event_ids st) (sg_event_id ` set events)
             (channel_definition_conflicts events))
       ([], fmempty, []) (enumerate 0 events)"

section \<open>One ready event\<close>

definition wake_waiting :: "bool list \<Rightarrow> nat \<Rightarrow> nat \<Rightarrow> BatchState \<Rightarrow> nat \<Rightarrow> BatchState" where
  "wake_waiting conflicts current_round event_index bs waiting_index =
     (let count = bs_missing_parent_counts bs ! waiting_index - 1;
          ready_round = current_round + (if waiting_index \<le> event_index then 1 else 0);
          earliest = max (bs_earliest_ready_rounds bs ! waiting_index) ready_round;
          bs' = bs\<lparr>bs_missing_parent_counts := (bs_missing_parent_counts bs)[waiting_index := count],
                   bs_earliest_ready_rounds := (bs_earliest_ready_rounds bs)[waiting_index := earliest]\<rparr>
      in if count = 0 \<and> \<not> conflicts ! waiting_index then
           (if earliest = current_round
            then bs'\<lparr>bs_dynamically_ready := heap_push waiting_index (bs_dynamically_ready bs')\<rparr>
            else bs'\<lparr>bs_next_round_ready := heap_push waiting_index (bs_next_round_ready bs')\<rparr>)
         else bs')"

definition accept_event ::
  "bool list \<Rightarrow> nat \<Rightarrow> nat \<Rightarrow> SignedEvent \<Rightarrow> WorkspaceState \<Rightarrow> BatchState \<Rightarrow> BatchState" where
  "accept_event conflicts current_round event_index event st bs =
     (let bs' = bs\<lparr>bs_state := st, bs_pending := (bs_pending bs)[event_index := False],
                   bs_applied := bs_applied bs @ [sg_event_id event], bs_progressed := True\<rparr>
      in case fmlookup (bs_waiting_by_parent bs') (sg_event_id event) of
           None \<Rightarrow> bs'
         | Some waiting_events \<Rightarrow>
             foldl (wake_waiting conflicts current_round event_index)
               (bs'\<lparr>bs_waiting_by_parent := fmdrop (sg_event_id event) (bs_waiting_by_parent bs')\<rparr>)
               waiting_events)"

text \<open>Authorisation errors that end the batch; all others are retried in a later round.\<close>

definition ends_batch :: "AuthorizationError \<Rightarrow> bool" where
  "ends_batch e =
     (case e of
        EventPayloadTooLarge _ _ _ \<Rightarrow> True
      | EventPayloadRequired _ \<Rightarrow> True
      | EventItemCountTooLarge _ _ _ \<Rightarrow> True
      | UnsupportedPeerEndpoint \<Rightarrow> True
      | PeerEndpointTransportMismatch \<Rightarrow> True
      | ReplicaCapabilityRequiresBackupPeer \<Rightarrow> True
      | _ \<Rightarrow> False)"

type_synonym batch_failure = "CoreError \<times> WorkspaceState"

text \<open>
  The body of the inner loop.  Indices are positions of the input, so the bounds checks of
  \<open>pending[event_index]\<close> and \<open>events[event_index]\<close> never fail (lemma \<open>batch_ok_index\<close>).
\<close>

definition is_pending :: "BatchState \<Rightarrow> nat \<Rightarrow> bool" where
  "is_pending bs i \<longleftrightarrow> i < length (bs_pending bs) \<and> bs_pending bs ! i"

definition visit_event ::
  "invite_iteration \<Rightarrow> SignedEvent list \<Rightarrow> bool list \<Rightarrow> nat \<Rightarrow> BatchState \<Rightarrow> nat
    \<Rightarrow> batch_failure + BatchState" where
  "visit_event vals events conflicts current_round bs event_index =
     (if \<not> is_pending bs event_index then Inr bs
      else
        let event = events ! event_index in
        if sg_event_id event \<in> ws_applied_event_ids (bs_state bs)
        then Inr (bs\<lparr>bs_pending := (bs_pending bs)[event_index := False]\<rparr>)
        else case apply_ready_event vals (bs_state bs) event of
               Inr st \<Rightarrow> Inr (accept_event conflicts current_round event_index event st bs)
             | Inl (CoreAuthorization e) \<Rightarrow>
                 if ends_batch e then Inl (CoreAuthorization e, bs_state bs)
                 else Inr (bs\<lparr>bs_authorization_deferred := bs_authorization_deferred bs @ [event_index]\<rparr>)
             | Inl e \<Rightarrow> Inl (e, bs_state bs))"

section \<open>The passes\<close>

text \<open>
  The next index of a pass: the head of the stable list or the least element of the heap, the
  stable one on a tie.
\<close>

definition next_ready :: "nat list \<Rightarrow> BatchState \<Rightarrow> (nat \<times> nat list \<times> BatchState) option" where
  "next_ready stable_ready bs =
     (case (stable_ready, bs_dynamically_ready bs) of
        (s # stable_rest, d # dynamic') \<Rightarrow>
          if s \<le> d then Some (s, stable_rest, bs)
          else Some (d, stable_ready, bs\<lparr>bs_dynamically_ready := dynamic'\<rparr>)
      | ([], d # dynamic') \<Rightarrow> Some (d, [], bs\<lparr>bs_dynamically_ready := dynamic'\<rparr>)
      | (s # stable_rest, []) \<Rightarrow> Some (s, stable_rest, bs)
      | ([], []) \<Rightarrow> None)"

definition pending_count :: "BatchState \<Rightarrow> nat" where
  "pending_count bs = length (filter id (bs_pending bs))"

lemma pending_count_update:
  "i < length ps \<Longrightarrow> ps ! i \<Longrightarrow> length (filter id (ps[i := False])) < length (filter id ps)"
proof (induction ps arbitrary: i)
  case (Cons p ps)
  then show ?case by (cases i) auto
qed simp

lemma wake_waiting_pending [simp]:
  "bs_pending (wake_waiting c r i bs w) = bs_pending bs"
  "bs_state (wake_waiting c r i bs w) = bs_state bs"
  "bs_applied (wake_waiting c r i bs w) = bs_applied bs"
  "bs_progressed (wake_waiting c r i bs w) = bs_progressed bs"
  "bs_authorization_deferred (wake_waiting c r i bs w) = bs_authorization_deferred bs"
  "bs_waiting_by_parent (wake_waiting c r i bs w) = bs_waiting_by_parent bs"
  by (simp_all add: wake_waiting_def Let_def)

lemma foldl_wake_simps [simp]:
  "bs_pending (foldl (wake_waiting c r i) bs ws) = bs_pending bs"
  "bs_state (foldl (wake_waiting c r i) bs ws) = bs_state bs"
  "bs_applied (foldl (wake_waiting c r i) bs ws) = bs_applied bs"
  "bs_progressed (foldl (wake_waiting c r i) bs ws) = bs_progressed bs"
  "bs_authorization_deferred (foldl (wake_waiting c r i) bs ws) = bs_authorization_deferred bs"
  "bs_waiting_by_parent (foldl (wake_waiting c r i) bs ws) = bs_waiting_by_parent bs"
  by (induction ws arbitrary: bs) simp_all

lemma accept_event_simps [simp]:
  "bs_pending (accept_event c r i ev st bs) = (bs_pending bs)[i := False]"
  "bs_state (accept_event c r i ev st bs) = st"
  "bs_applied (accept_event c r i ev st bs) = bs_applied bs @ [sg_event_id ev]"
  "bs_progressed (accept_event c r i ev st bs)"
  "bs_authorization_deferred (accept_event c r i ev st bs) = bs_authorization_deferred bs"
  by (simp_all add: accept_event_def Let_def split: option.split)

text \<open>A visit retires a pending event or leaves the heap as it is.\<close>

lemma visit_event_progress:
  assumes "visit_event vals events c r bs i = Inr bs'"
  shows "pending_count bs' < pending_count bs
    \<or> pending_count bs' = pending_count bs \<and> bs_dynamically_ready bs' = bs_dynamically_ready bs
      \<and> bs_progressed bs' = bs_progressed bs"
  using assms
  by (auto simp: visit_event_def is_pending_def pending_count_def Let_def pending_count_update
      split: if_splits sum.splits CoreError.splits)

function batch_pass ::
  "invite_iteration \<Rightarrow> SignedEvent list \<Rightarrow> bool list \<Rightarrow> nat \<Rightarrow> nat list \<Rightarrow> BatchState
    \<Rightarrow> batch_failure + BatchState" where
  "batch_pass vals events conflicts current_round stable_ready bs =
     (case next_ready stable_ready bs of
        None \<Rightarrow> Inr bs
      | Some (event_index, stable_rest, bs1) \<Rightarrow>
          (case visit_event vals events conflicts current_round bs1 event_index of
             Inl failure \<Rightarrow> Inl failure
           | Inr bs2 \<Rightarrow> batch_pass vals events conflicts current_round stable_rest bs2))"
  by pat_completeness auto
termination
proof (relation "measures [\<lambda>(_, _, _, _, _, bs). pending_count bs,
    \<lambda>(_, _, _, _, stable_ready, bs). length stable_ready + length (bs_dynamically_ready bs)]", goal_cases)
  case (2 vals events conflicts current_round stable_ready bs x event_index y stable_rest bs1 bs2)
  then have n: "next_ready stable_ready bs = Some (event_index, stable_rest, bs1)" by simp
  then have "pending_count bs1 = pending_count bs"
      "length stable_rest + length (bs_dynamically_ready bs1) < length stable_ready + length (bs_dynamically_ready bs)"
    by (auto simp: next_ready_def pending_count_def split: list.splits if_splits)
  with visit_event_progress [OF 2(4)] show ?case by auto
qed simp

declare batch_pass.simps [simp del]

lemma next_ready_Some:
  assumes "next_ready ready bs = Some (i, ready', bs')"
  shows "bs' = bs\<lparr>bs_dynamically_ready := bs_dynamically_ready bs'\<rparr>"
    "mset ready + mset (bs_dynamically_ready bs) = add_mset i (mset ready' + mset (bs_dynamically_ready bs'))"
    "pending_count bs' = pending_count bs" "bs_progressed bs' = bs_progressed bs"
  using assms by (auto simp: next_ready_def pending_count_def split: list.splits if_splits)

text \<open>The invariant rule of a pass.\<close>

lemma batch_pass_rule:
  assumes "I ready bs"
    and "\<And>ready bs i ready' bs1 bs2. I ready bs \<Longrightarrow> next_ready ready bs = Some (i, ready', bs1) \<Longrightarrow>
      visit_event vals events c r bs1 i = Inr bs2 \<Longrightarrow> I ready' bs2"
    and "\<And>ready bs i ready' bs1 f. I ready bs \<Longrightarrow> next_ready ready bs = Some (i, ready', bs1) \<Longrightarrow>
      visit_event vals events c r bs1 i = Inl f \<Longrightarrow> F f"
  shows "case batch_pass vals events c r ready bs of
      Inl f \<Rightarrow> F f | Inr bs' \<Rightarrow> I [] bs' \<and> bs_dynamically_ready bs' = []"
  using assms
proof (induction vals events c r ready bs rule: batch_pass.induct)
  case (1 vals events c r ready bs)
  show ?case
  proof (cases "next_ready ready bs")
    case None
    with 1(2) show ?thesis
      by (subst batch_pass.simps) (auto simp: next_ready_def split: list.splits if_splits)
  next
    case (Some n)
    obtain i ready' bs1 where n: "n = (i, ready', bs1)" by (cases n)
    note nxt = Some [unfolded n]
    show ?thesis
    proof (cases "visit_event vals events c r bs1 i")
      case (Inl f)
      from 1(4) [OF 1(2) nxt Inl] show ?thesis
        by (subst batch_pass.simps) (simp add: nxt Inl)
    next
      case (Inr bs2)
      have "I ready' bs2" using 1(3) [OF 1(2) nxt Inr] .
      from 1(1) [OF Some n [symmetric] refl Inr this 1(3,4)] show ?thesis
        by (subst batch_pass.simps) (simp add: nxt Inr)
    qed
  qed
qed

lemma batch_pass_progress:
  assumes "batch_pass vals events c r ready bs = Inr bs'"
  shows "pending_count bs' < pending_count bs
    \<or> pending_count bs' = pending_count bs \<and> bs_progressed bs' = bs_progressed bs"
  using batch_pass_rule [where I="\<lambda>_ b. pending_count b < pending_count bs
      \<or> pending_count b = pending_count bs \<and> bs_progressed b = bs_progressed bs" and F="\<lambda>_. True"
      and ready=ready and bs=bs and vals=vals and events=events and c=c and r=r]
    assms visit_event_progress next_ready_Some(3,4) by fastforce

function batch_rounds ::
  "invite_iteration \<Rightarrow> SignedEvent list \<Rightarrow> bool list \<Rightarrow> nat \<Rightarrow> nat list \<Rightarrow> BatchState
    \<Rightarrow> batch_failure + BatchState" where
  "batch_rounds vals events conflicts current_round stable_ready bs =
     (case batch_pass vals events conflicts current_round stable_ready
             (bs\<lparr>bs_progressed := False, bs_authorization_deferred := []\<rparr>) of
        Inl failure \<Rightarrow> Inl failure
      | Inr bs1 \<Rightarrow>
          if \<not> bs_progressed bs1 then Inr bs1
          else
            let stable_next = bs_authorization_deferred bs1;
                bs2 = bs1\<lparr>bs_authorization_deferred := [],
                          bs_dynamically_ready := bs_next_round_ready bs1,
                          bs_next_round_ready := bs_dynamically_ready bs1\<rparr>
            in if stable_next = [] \<and> bs_dynamically_ready bs2 = [] then Inr bs2
               else batch_rounds vals events conflicts (current_round + 1) stable_next bs2)"
  by pat_completeness auto
termination
proof (relation "measure (\<lambda>(_, _, _, _, _, bs). pending_count bs)", goal_cases)
  case (2 vals events conflicts current_round stable_ready bs bs1 stable_next bs2)
  from batch_pass_progress [OF 2(1)] 2(2-) show ?case by (auto simp: pending_count_def)
qed simp

declare batch_rounds.simps [simp del]

section \<open>The whole batch\<close>

record MissingHistoryGap =
  gap_event_id :: EventId
  gap_missing_parent_ids :: "EventId list"

record MaterializationReport =
  rep_applied_events :: "EventId list"
  rep_gaps :: "MissingHistoryGap list"

definition check_batch :: "WorkspaceState \<Rightarrow> SignedEvent list \<Rightarrow> CoreError + unit" where
  "check_batch st events =
     first_err (map (\<lambda>event.
       then_res (map_err CoreAuthorization (validate_signed_event_ids event))
         (ensure (ev_workspace event = ws_workspace_id st) CoreWrongWorkspace)) events)"

definition batch_start ::
  "WorkspaceState \<Rightarrow> SignedEvent list \<Rightarrow> nat list \<times> BatchState" where
  "batch_start st events =
     (case index_events st events of (counts, waiting, ready) \<Rightarrow>
        (ready,
         \<lparr>bs_state = st, bs_pending = replicate (length events) True,
          bs_missing_parent_counts = counts,
          bs_earliest_ready_rounds = replicate (length events) 0, bs_waiting_by_parent = waiting,
          bs_dynamically_ready = [], bs_next_round_ready = [], bs_authorization_deferred = [],
          bs_progressed = False, bs_applied = []\<rparr>))"

definition batch_gaps :: "SignedEvent list \<Rightarrow> BatchState \<Rightarrow> MissingHistoryGap list" where
  "batch_gaps events bs =
     map (\<lambda>(_, event). \<lparr>gap_event_id = sg_event_id event,
              gap_missing_parent_ids =
                filter (\<lambda>p. p \<notin> ws_applied_event_ids (bs_state bs)) (ev_parents event)\<rparr>)
       (filter (\<lambda>(event_index, _). is_pending bs event_index) (enumerate 0 events))"

definition apply_batch ::
  "invite_iteration \<Rightarrow> WorkspaceState \<Rightarrow> SignedEvent list
    \<Rightarrow> batch_failure + WorkspaceState \<times> MaterializationReport" where
  "apply_batch vals st events =
     (case check_batch st events of
        Inl e \<Rightarrow> Inl (e, st)
      | Inr _ \<Rightarrow>
          case batch_start st events of (ready, bs) \<Rightarrow>
          case batch_rounds vals events (channel_definition_conflicts events) 0 ready bs of
            Inl failure \<Rightarrow> Inl failure
          | Inr bs' \<Rightarrow>
              Inr (bs_state bs',
                   \<lparr>rep_applied_events = bs_applied bs', rep_gaps = batch_gaps events bs'\<rparr>))"

end
