(* ===== verification/Batch_Correct.thy ===== *)
theory Batch_Correct
  imports Batch
begin

text \<open>
  Correctness of the batch scheduler: its counters and waiting lists mean what they should at every
  visit, so every event it applies is applied after its parents, nothing that could still be applied
  is left over, and conflicting channel definitions stay out.
\<close>

section \<open>Channel definition conflicts\<close>

definition creation_conflict :: "SignedEvent list \<Rightarrow> ChannelId \<Rightarrow> bool" where
  "creation_conflict events c \<longleftrightarrow>
     (\<exists>e1 \<in> set events. \<exists>e2 \<in> set events. created_channel e1 = Some c \<and> created_channel e2 = Some c
        \<and> sg_event_id e1 \<noteq> sg_event_id e2)"

lemma creation_conflict_snoc:
  "creation_conflict (events @ [e]) c \<longleftrightarrow> creation_conflict events c
     \<or> created_channel e = Some c
       \<and> (\<exists>e0 \<in> set events. created_channel e0 = Some c \<and> sg_event_id e0 \<noteq> sg_event_id e)"
  unfolding creation_conflict_def by (simp add: eq_commute [of "sg_event_id e"]) blast

lemma creation_conflictI:
  "e1 \<in> set events \<Longrightarrow> e2 \<in> set events \<Longrightarrow> created_channel e1 = Some c \<Longrightarrow> created_channel e2 = Some c
     \<Longrightarrow> sg_event_id e1 \<noteq> sg_event_id e2 \<Longrightarrow> creation_conflict events c"
  unfolding creation_conflict_def by blast

lemma note_creation_fold:
  assumes "foldl note_creation (fmempty, {}) events = (ids, cs)"
  shows "(fmlookup ids c = None \<longleftrightarrow> (\<forall>e \<in> set events. created_channel e \<noteq> Some c))
    \<and> (\<forall>i. fmlookup ids c = Some i \<longrightarrow> (\<exists>e \<in> set events. created_channel e = Some c \<and> sg_event_id e = i))
    \<and> (c \<in> cs \<longleftrightarrow> creation_conflict events c)"
  using assms
proof (induction events arbitrary: ids cs rule: rev_induct)
  case Nil
  then show ?case by (auto simp: creation_conflict_def)
next
  case (snoc e events)
  obtain ids0 cs0 where f: "foldl note_creation (fmempty, {}) events = (ids0, cs0)"
    by (cases "foldl note_creation (fmempty, {}) events")
  note ih = snoc.IH [OF f]
  from snoc.prems have n: "note_creation (ids0, cs0) e = (ids, cs)" by (simp add: f)
  show ?case
  proof (cases "created_channel e = Some c")
    case False
    then have "fmlookup ids c = fmlookup ids0 c" "c \<in> cs \<longleftrightarrow> c \<in> cs0"
      using n by (auto simp: note_creation_def split: option.splits if_splits)
    with ih False show ?thesis by (auto simp: creation_conflict_snoc)
  next
    case True
    show ?thesis
    proof (cases "fmlookup ids0 c")
      case None
      with True n have "ids = fmupd c (sg_event_id e) ids0" "cs = cs0"
        by (auto simp: note_creation_def)
      with ih True None show ?thesis by (auto simp: creation_conflict_snoc)
    next
      case (Some i)
      with True n have "ids = ids0" "cs = (if i \<noteq> sg_event_id e then insert c cs0 else cs0)"
        by (auto simp: note_creation_def)
      moreover from ih Some obtain e0
        where e0: "e0 \<in> set events" "created_channel e0 = Some c" "sg_event_id e0 = i" by blast
      moreover have "creation_conflict (events @ [e]) c \<longleftrightarrow> creation_conflict events c \<or> i \<noteq> sg_event_id e"
        using True e0 creation_conflictI [of _ events e0 c] by (auto simp: creation_conflict_snoc)
      ultimately show ?thesis using ih Some True by auto
    qed
  qed
qed

lemma conflicting_channel_ids_iff: "c \<in> conflicting_channel_ids events \<longleftrightarrow> creation_conflict events c"
  unfolding conflicting_channel_ids_def
  using note_creation_fold [of events "fst (foldl note_creation (fmempty, {}) events)"
      "snd (foldl note_creation (fmempty, {}) events)" c] by simp

lemma conflict_flag:
  "i < length events \<Longrightarrow> channel_definition_conflicts events ! i \<longleftrightarrow>
     (\<exists>c. created_channel (events ! i) = Some c \<and> creation_conflict events c)"
  by (auto simp: channel_definition_conflicts_def conflicting_channel_ids_iff split: option.splits)

section \<open>The dependency index\<close>

definition waiting_on :: "(EventId, nat list) fmap \<Rightarrow> EventId \<Rightarrow> nat list" where
  "waiting_on waiting p = (case fmlookup waiting p of None \<Rightarrow> [] | Some idxs \<Rightarrow> idxs)"

lemma waiting_on_push:
  "waiting_on (push_waiting p i w) q = waiting_on w q @ (if q = p then [i] else [])"
  by (auto simp: waiting_on_def push_waiting_def split: option.splits)

lemma index_parent_fold:
  "case foldl (index_parent applied cand i) ({}, 0, w) ps of (u, m, w') \<Rightarrow>
     u = set ps \<and> m = card (set ps - applied)
     \<and> (\<forall>q. waiting_on w' q = waiting_on w q @ (if q \<in> (set ps - applied) \<inter> cand then [i] else []))"
proof (induction ps rule: rev_induct)
  case Nil
  then show ?case by simp
next
  case (snoc p ps)
  obtain u m w' where f: "foldl (index_parent applied cand i) ({}, 0, w) ps = (u, m, w')"
    by (cases "foldl (index_parent applied cand i) ({}, 0, w) ps") auto
  from snoc f have ih: "u = set ps" "m = card (set ps - applied)"
    "\<And>q. waiting_on w' q = waiting_on w q @ (if q \<in> (set ps - applied) \<inter> cand then [i] else [])"
    by auto
  have step: "foldl (index_parent applied cand i) ({}, 0, w) (ps @ [p])
      = index_parent applied cand i (u, m, w') p" by (simp add: f)
  show ?case unfolding step
    by (auto simp: index_parent_def waiting_on_push insert_absorb insert_Diff_if ih)
qed

lemma index_events_fold:
  "case foldl (index_event applied cand conflicts) ([], fmempty, []) (enumerate 0 es) of
     (counts, w, ready) \<Rightarrow>
       counts = map (\<lambda>e. card (set (ev_parents e) - applied)) es
       \<and> (\<forall>q \<in> cand - applied. distinct (waiting_on w q)
            \<and> set (waiting_on w q) = {i. i < length es \<and> q \<in> set (ev_parents (es ! i))})
       \<and> set ready = {i. i < length es \<and> set (ev_parents (es ! i)) \<subseteq> applied \<and> \<not> conflicts ! i}"
proof (induction es rule: rev_induct)
  case Nil
  then show ?case by (simp add: waiting_on_def)
next
  case (snoc e es)
  obtain counts w ready where f:
    "foldl (index_event applied cand conflicts) ([], fmempty, []) (enumerate 0 es) = (counts, w, ready)"
    by (cases "foldl (index_event applied cand conflicts) ([], fmempty, []) (enumerate 0 es)") auto
  obtain u m w' where g:
    "foldl (index_parent applied cand (length es)) ({}, 0, w) (ev_parents e) = (u, m, w')"
    by (cases "foldl (index_parent applied cand (length es)) ({}, 0, w) (ev_parents e)") auto
  have ip: "m = card (set (ev_parents e) - applied)"
    "\<And>q. waiting_on w' q = waiting_on w q @
       (if q \<in> (set (ev_parents e) - applied) \<inter> cand then [length es] else [])"
    using index_parent_fold [where applied=applied and cand=cand and i="length es" and w=w and ps="ev_parents e"] g by auto
  have m0: "m = 0 \<longleftrightarrow> set (ev_parents e) \<subseteq> applied" by (auto simp: ip(1))
  from snoc f have ih: "counts = map (\<lambda>e. card (set (ev_parents e) - applied)) es"
    "\<forall>q \<in> cand - applied. distinct (waiting_on w q)
       \<and> set (waiting_on w q) = {i. i < length es \<and> q \<in> set (ev_parents (es ! i))}"
    "set ready = {i. i < length es \<and> set (ev_parents (es ! i)) \<subseteq> applied \<and> \<not> conflicts ! i}"
    by auto
  have step: "foldl (index_event applied cand conflicts) ([], fmempty, []) (enumerate 0 (es @ [e]))
      = (counts @ [m], w', if m = 0 \<and> \<not> conflicts ! length es then ready @ [length es] else ready)"
    by (simp add: enumerate_append_eq f index_event_def g)
  have "distinct (waiting_on w' q) \<and> set (waiting_on w' q) =
      {i. i < length (es @ [e]) \<and> q \<in> set (ev_parents ((es @ [e]) ! i))}" if "q \<in> cand - applied" for q
    using ih(2) that by (auto simp: ip(2) nth_append less_Suc_eq)
  moreover have "set (if m = 0 \<and> \<not> conflicts ! length es then ready @ [length es] else ready) =
      {i. i < length (es @ [e]) \<and> set (ev_parents ((es @ [e]) ! i)) \<subseteq> applied \<and> \<not> conflicts ! i}"
    by (auto simp: ih(3) m0 nth_append less_Suc_eq)
  ultimately show ?case unfolding step by (simp add: ih(1) ip(1))
qed

section \<open>The scheduler's invariant\<close>

definition parents_left :: "SignedEvent list \<Rightarrow> BatchState \<Rightarrow> nat \<Rightarrow> EventId set" where
  "parents_left events bs i = set (ev_parents (events ! i)) - ws_applied_event_ids (bs_state bs)"

text \<open>The counters and waiting lists describe the dependencies on unapplied events.\<close>

definition sched_ok :: "SignedEvent list \<Rightarrow> BatchState \<Rightarrow> bool" where
  "sched_ok events bs \<longleftrightarrow>
     length (bs_pending bs) = length events
     \<and> length (bs_missing_parent_counts bs) = length events
     \<and> (\<forall>i < length events. bs_missing_parent_counts bs ! i = card (parents_left events bs i))
     \<and> (\<forall>p \<in> sg_event_id ` set events - ws_applied_event_ids (bs_state bs).
          distinct (waiting_on (bs_waiting_by_parent bs) p)
          \<and> set (waiting_on (bs_waiting_by_parent bs) p)
            = {i. i < length events \<and> p \<in> set (ev_parents (events ! i))})
     \<and> (\<forall>i < length events. \<not> bs_pending bs ! i \<longrightarrow>
          sg_event_id (events ! i) \<in> ws_applied_event_ids (bs_state bs))"

text \<open>An event is runnable when its parents are applied and its channel definition is unique.\<close>

definition runnable :: "SignedEvent list \<Rightarrow> BatchState \<Rightarrow> nat set" where
  "runnable events bs =
     {i. i < length events \<and> parents_left events bs i = {} \<and> \<not> channel_definition_conflicts events ! i}"

definition queued :: "nat list \<Rightarrow> BatchState \<Rightarrow> nat set" where
  "queued ready bs = set ready \<union> set (bs_dynamically_ready bs) \<union> set (bs_next_round_ready bs)
     \<union> set (bs_authorization_deferred bs)"

text \<open>The queues hold only runnable events, and all of those that are still pending.\<close>

definition queue_ok :: "SignedEvent list \<Rightarrow> nat list \<Rightarrow> BatchState \<Rightarrow> bool" where
  "queue_ok events ready bs \<longleftrightarrow>
     queued ready bs \<subseteq> runnable events bs
     \<and> (\<forall>i \<in> runnable events bs. bs_pending bs ! i \<longrightarrow> i \<in> queued ready bs)"

text \<open>The report lists an accepted causal run of new, non-conflicting events of the batch.\<close>

definition run_ok :: "invite_iteration \<Rightarrow> WorkspaceState \<Rightarrow> SignedEvent list \<Rightarrow> BatchState \<Rightarrow> bool" where
  "run_ok vals st0 events bs \<longleftrightarrow>
     (\<exists>es. accepted_run (apply_event vals) st0 es (bs_state bs)
        \<and> bs_applied bs = map sg_event_id es \<and> distinct (bs_applied bs)
        \<and> set (bs_applied bs) \<inter> ws_applied_event_ids st0 = {}
        \<and> set es \<subseteq> {e \<in> set events. \<forall>c. created_channel e = Some c \<longrightarrow> \<not> creation_conflict events c})
     \<and> ws_applied_event_ids (bs_state bs) = ws_applied_event_ids st0 \<union> set (bs_applied bs)"

text \<open>While nothing was applied in the current pass, the deferred events are rejected as it stands.\<close>

definition retry_ok :: "invite_iteration \<Rightarrow> SignedEvent list \<Rightarrow> BatchState \<Rightarrow> bool" where
  "retry_ok vals events bs \<longleftrightarrow>
     bs_progressed bs \<or>
     bs_next_round_ready bs = []
     \<and> (\<forall>i \<in> set (bs_authorization_deferred bs). \<exists>a. \<not> ends_batch a
          \<and> apply_ready_event vals (bs_state bs) (events ! i) = Inl (CoreAuthorization a))"

definition batch_ok ::
  "invite_iteration \<Rightarrow> WorkspaceState \<Rightarrow> SignedEvent list \<Rightarrow> nat list \<Rightarrow> BatchState \<Rightarrow> bool" where
  "batch_ok vals st0 events ready bs \<longleftrightarrow>
     sched_ok events bs \<and> queue_ok events ready bs \<and> run_ok vals st0 events bs \<and> retry_ok vals events bs"

lemma batch_ok_index:
  "batch_ok vals st0 events ready bs \<Longrightarrow> i \<in> queued ready bs \<Longrightarrow>
     i < length events \<and> i < length (bs_pending bs)"
  by (auto simp: batch_ok_def queue_ok_def sched_ok_def runnable_def)

lemma runnable_frame [simp]:
  "runnable events (bs\<lparr>bs_pending := p\<rparr>) = runnable events bs"
  "runnable events (bs\<lparr>bs_authorization_deferred := q\<rparr>) = runnable events bs"
  "runnable events (bs\<lparr>bs_dynamically_ready := q\<rparr>) = runnable events bs"
  "runnable events (bs\<lparr>bs_next_round_ready := q\<rparr>) = runnable events bs"
  "runnable events (bs\<lparr>bs_progressed := b\<rparr>) = runnable events bs"
  by (simp_all add: runnable_def parents_left_def)

lemma sched_ok_frame [simp]:
  "sched_ok events (bs\<lparr>bs_authorization_deferred := q\<rparr>) = sched_ok events bs"
  "sched_ok events (bs\<lparr>bs_dynamically_ready := q\<rparr>) = sched_ok events bs"
  "sched_ok events (bs\<lparr>bs_next_round_ready := q\<rparr>) = sched_ok events bs"
  "sched_ok events (bs\<lparr>bs_progressed := b\<rparr>) = sched_ok events bs"
  by (simp_all add: sched_ok_def parents_left_def)

lemma run_ok_frame [simp]:
  "run_ok vals st0 events (bs\<lparr>bs_pending := p\<rparr>) = run_ok vals st0 events bs"
  "run_ok vals st0 events (bs\<lparr>bs_authorization_deferred := q\<rparr>) = run_ok vals st0 events bs"
  "run_ok vals st0 events (bs\<lparr>bs_dynamically_ready := q\<rparr>) = run_ok vals st0 events bs"
  "run_ok vals st0 events (bs\<lparr>bs_next_round_ready := q\<rparr>) = run_ok vals st0 events bs"
  "run_ok vals st0 events (bs\<lparr>bs_progressed := b\<rparr>) = run_ok vals st0 events bs"
  by (simp_all add: run_ok_def)

section \<open>Waking the children of an applied event\<close>

lemma wake_waiting_effect:
  assumes "w < length (bs_missing_parent_counts bs)"
  shows "bs_missing_parent_counts (wake_waiting c r i bs w) =
      (bs_missing_parent_counts bs)[w := bs_missing_parent_counts bs ! w - 1]"
    "set (bs_dynamically_ready (wake_waiting c r i bs w)) \<union> set (bs_next_round_ready (wake_waiting c r i bs w)) =
      set (bs_dynamically_ready bs) \<union> set (bs_next_round_ready bs)
      \<union> (if bs_missing_parent_counts bs ! w - 1 = 0 \<and> \<not> c ! w then {w} else {})"
  using assms by (auto simp: wake_waiting_def Let_def heap_push_def set_insort_key)

lemma foldl_wake_effect:
  assumes "distinct ws" "\<forall>w \<in> set ws. w < length (bs_missing_parent_counts bs)"
  shows "length (bs_missing_parent_counts (foldl (wake_waiting c r i) bs ws)) = length (bs_missing_parent_counts bs)
    \<and> (\<forall>w < length (bs_missing_parent_counts bs). bs_missing_parent_counts (foldl (wake_waiting c r i) bs ws) ! w =
        (if w \<in> set ws then bs_missing_parent_counts bs ! w - 1 else bs_missing_parent_counts bs ! w))
    \<and> set (bs_dynamically_ready (foldl (wake_waiting c r i) bs ws))
        \<union> set (bs_next_round_ready (foldl (wake_waiting c r i) bs ws)) =
      set (bs_dynamically_ready bs) \<union> set (bs_next_round_ready bs)
        \<union> {w \<in> set ws. bs_missing_parent_counts bs ! w - 1 = 0 \<and> \<not> c ! w}"
  using assms
proof (induction ws arbitrary: bs)
  case (Cons w ws)
  let ?bs = "wake_waiting c r i bs w"
  have w: "w < length (bs_missing_parent_counts bs)" using Cons.prems by simp
  note eff = wake_waiting_effect [OF w, of c r i]
  have "\<forall>v \<in> set ws. v < length (bs_missing_parent_counts ?bs)" using Cons.prems by (simp add: eff(1))
  note ih = Cons.IH [OF _ this]
  have nw: "w \<notin> set ws" "distinct ws" using Cons.prems by auto
  have keep: "bs_missing_parent_counts ?bs ! v = bs_missing_parent_counts bs ! v" if "v \<in> set ws" for v
    using that nw by (cases "v = w") (auto simp: eff(1))
  then have "{v \<in> set ws. bs_missing_parent_counts ?bs ! v - 1 = 0 \<and> \<not> c ! v}
      = {v \<in> set ws. bs_missing_parent_counts bs ! v - 1 = 0 \<and> \<not> c ! v}" by auto
  then show ?case using ih [OF nw(2)] nw w
    by (auto simp: eff nth_list_update)
qed simp

lemma fmdrop_absent: "fmlookup m k = None \<Longrightarrow> fmdrop k m = m"
  by (rule fmap_ext) auto

lemma accept_event_fold:
  "accept_event c r i ev st bs =
     foldl (wake_waiting c r i)
       (bs\<lparr>bs_state := st, bs_pending := (bs_pending bs)[i := False],
           bs_applied := bs_applied bs @ [sg_event_id ev], bs_progressed := True,
           bs_waiting_by_parent := fmdrop (sg_event_id ev) (bs_waiting_by_parent bs)\<rparr>)
       (waiting_on (bs_waiting_by_parent bs) (sg_event_id ev))"
  by (auto simp: accept_event_def waiting_on_def Let_def fmdrop_absent split: option.split)

lemma accept_event_effect:
  fixes st i r events bs
  defines "bs' \<equiv> accept_event (channel_definition_conflicts events) r i (events ! i) st bs"
  assumes ok: "sched_ok events bs" and i: "i < length events"
    and new: "sg_event_id (events ! i) \<notin> ws_applied_event_ids (bs_state bs)"
    and applied: "ws_applied_event_ids st = insert (sg_event_id (events ! i)) (ws_applied_event_ids (bs_state bs))"
  shows "sched_ok events bs'"
    and "set (bs_dynamically_ready bs') \<union> set (bs_next_round_ready bs') =
      set (bs_dynamically_ready bs) \<union> set (bs_next_round_ready bs) \<union> (runnable events bs' - runnable events bs)"
    and "runnable events bs \<subseteq> runnable events bs'"
proof -
  let ?id = "sg_event_id (events ! i)" and ?W = "waiting_on (bs_waiting_by_parent bs)"
  have W: "distinct (?W ?id)" "set (?W ?id) = {w. w < length events \<and> ?id \<in> set (ev_parents (events ! w))}"
    using ok i new by (auto simp: sched_ok_def)
  have len: "length (bs_missing_parent_counts bs) = length events" "length (bs_pending bs) = length events"
    and counts: "\<And>w. w < length events \<Longrightarrow> bs_missing_parent_counts bs ! w = card (parents_left events bs w)"
    using ok by (auto simp: sched_ok_def)
  have left: "parents_left events bs' w = parents_left events bs w - {?id}" for w
    by (auto simp: parents_left_def bs'_def applied)
  have fin: "finite (parents_left events bs w)" for w by (simp add: parents_left_def)
  have card: "card (parents_left events bs' w) =
      (if w \<in> set (?W ?id) then bs_missing_parent_counts bs ! w - 1 else bs_missing_parent_counts bs ! w)"
    if "w < length events" for w
  proof -
    have "?id \<in> parents_left events bs w \<longleftrightarrow> ?id \<in> set (ev_parents (events ! w))"
      using new by (auto simp: parents_left_def)
    then show ?thesis using that counts by (auto simp: W left card_Diff_singleton)
  qed
  note eff = foldl_wake_effect [OF W(1), where bs="bs\<lparr>bs_state := st, bs_pending := (bs_pending bs)[i := False],
           bs_applied := bs_applied bs @ [?id], bs_progressed := True,
           bs_waiting_by_parent := fmdrop ?id (bs_waiting_by_parent bs)\<rparr>"
      and c="channel_definition_conflicts events" and r=r and i=i, folded accept_event_fold bs'_def]
  have eff': "length (bs_missing_parent_counts bs') = length events"
    "\<And>w. w < length events \<Longrightarrow> bs_missing_parent_counts bs' ! w = card (parents_left events bs' w)"
    "set (bs_dynamically_ready bs') \<union> set (bs_next_round_ready bs') =
      set (bs_dynamically_ready bs) \<union> set (bs_next_round_ready bs)
      \<union> {w \<in> set (?W ?id). card (parents_left events bs' w) = 0 \<and> \<not> channel_definition_conflicts events ! w}"
    using eff card by (auto simp: W len)
  have "{w \<in> set (?W ?id). card (parents_left events bs' w) = 0 \<and> \<not> channel_definition_conflicts events ! w}
      = runnable events bs' - runnable events bs"
    using new by (auto simp: W runnable_def fin parents_left_def bs'_def applied)
  with eff'(3) show "set (bs_dynamically_ready bs') \<union> set (bs_next_round_ready bs') =
      set (bs_dynamically_ready bs) \<union> set (bs_next_round_ready bs) \<union> (runnable events bs' - runnable events bs)"
    by simp
  show "runnable events bs \<subseteq> runnable events bs'" by (auto simp: runnable_def left)
  have wait: "waiting_on (bs_waiting_by_parent bs') p = ?W p" if "p \<noteq> ?id" for p
    using that by (simp add: bs'_def accept_event_fold waiting_on_def)
  show "sched_ok events bs'"
    using ok eff'(1,2) wait i by (auto simp: sched_ok_def bs'_def applied nth_list_update)
qed

section \<open>A visit keeps the invariant\<close>

lemma run_ok_snoc:
  assumes "run_ok vals st0 events bs" "apply_event vals (bs_state bs) e = Inr st" "e \<in> set events"
    "\<And>c. created_channel e = Some c \<Longrightarrow> \<not> creation_conflict events c"
    "sg_event_id e \<notin> ws_applied_event_ids (bs_state bs)"
    "bs_state bs' = st" "bs_applied bs' = bs_applied bs @ [sg_event_id e]"
  shows "run_ok vals st0 events bs'"
proof -
  from assms(1) obtain es where es: "accepted_run (apply_event vals) st0 es (bs_state bs)"
    "bs_applied bs = map sg_event_id es" "distinct (bs_applied bs)"
    "set (bs_applied bs) \<inter> ws_applied_event_ids st0 = {}"
    "set es \<subseteq> {e \<in> set events. \<forall>c. created_channel e = Some c \<longrightarrow> \<not> creation_conflict events c}"
    and ids: "ws_applied_event_ids (bs_state bs) = ws_applied_event_ids st0 \<union> set (bs_applied bs)"
    unfolding run_ok_def by blast
  have "ws_applied_event_ids st = insert (sg_event_id e) (ws_applied_event_ids (bs_state bs))"
    using assms(2) by (auto simp: apply_event_Inr applied_of_apply_ready)
  moreover have "accepted_run (apply_event vals) st0 (es @ [e]) st"
    using es(1) assms(2) by (rule accepted_run_snoc)
  ultimately show ?thesis
    unfolding run_ok_def assms(6,7) using es assms(3-5) ids
    by (intro conjI exI [of _ "es @ [e]"]) auto
qed

lemma visit_accept:
  assumes ok: "sched_ok events bs" "run_ok vals st0 events bs" "queued ready bs \<subseteq> runnable events bs"
    and ex: "\<forall>j \<in> runnable events bs. bs_pending bs ! j \<longrightarrow> j \<in> insert i (queued ready bs)"
    and i: "i \<in> runnable events bs"
    and new: "sg_event_id (events ! i) \<notin> ws_applied_event_ids (bs_state bs)"
    and app: "apply_ready_event vals (bs_state bs) (events ! i) = Inr st"
  shows "batch_ok vals st0 events ready
    (accept_event (channel_definition_conflicts events) r i (events ! i) st bs)"
    (is "batch_ok _ _ _ _ ?bs'")
proof -
  have il: "i < length events" and par: "set (ev_parents (events ! i)) \<subseteq> ws_applied_event_ids (bs_state bs)"
    and nc: "\<not> channel_definition_conflicts events ! i"
    using i by (auto simp: runnable_def parents_left_def)
  have ev: "apply_event vals (bs_state bs) (events ! i) = Inr st"
    using app par by (simp add: apply_event_Inr)
  have ids: "ws_applied_event_ids st = insert (sg_event_id (events ! i)) (ws_applied_event_ids (bs_state bs))"
    using app by (simp add: applied_of_apply_ready)
  note eff = accept_event_effect [OF ok(1) il new ids, of r]
  have q: "queued ready ?bs' = queued ready bs \<union> (runnable events ?bs' - runnable events bs)"
    using eff(2) by (auto simp: queued_def)
  have plen: "length (bs_pending bs) = length events" using ok(1) by (simp add: sched_ok_def)
  have "queue_ok events ready ?bs'"
    unfolding queue_ok_def q using ok(3) eff(3) ex il plen
    by (auto simp: nth_list_update)
  moreover have "run_ok vals st0 events ?bs'"
    using run_ok_snoc [OF ok(2) ev nth_mem [OF il] _ new] nc by (simp add: conflict_flag [OF il])
  ultimately show ?thesis using eff(1) by (simp add: batch_ok_def retry_ok_def)
qed

lemma next_ready_queued:
  assumes "next_ready ready bs = Some (i, ready', bs1)"
  shows "queued ready bs = insert i (queued ready' bs1)"
    "bs1 = bs\<lparr>bs_dynamically_ready := bs_dynamically_ready bs1\<rparr>"
  using assms by (auto simp: next_ready_def queued_def split: list.splits if_splits)

text \<open>The invariant while the index \<open>i\<close> is in the hand of the loop.\<close>

lemma batch_ok_popped:
  assumes "batch_ok vals st0 events ready bs" "next_ready ready bs = Some (i, ready', bs1)"
  shows "sched_ok events bs1" "run_ok vals st0 events bs1" "retry_ok vals events bs1"
    "queued ready' bs1 \<subseteq> runnable events bs1" "i \<in> runnable events bs1"
    "\<forall>j \<in> runnable events bs1. bs_pending bs1 ! j \<longrightarrow> j \<in> insert i (queued ready' bs1)"
proof -
  obtain d where bs1: "bs1 = bs\<lparr>bs_dynamically_ready := d\<rparr>" using next_ready_queued(2) [OF assms(2)] by blast
  have r: "runnable events bs1 = runnable events bs" by (simp add: bs1)
  show "sched_ok events bs1" "run_ok vals st0 events bs1" "retry_ok vals events bs1"
    using assms(1) by (simp_all add: bs1 batch_ok_def retry_ok_def)
  show "queued ready' bs1 \<subseteq> runnable events bs1" "i \<in> runnable events bs1"
    "\<forall>j \<in> runnable events bs1. bs_pending bs1 ! j \<longrightarrow> j \<in> insert i (queued ready' bs1)"
    using assms(1) unfolding batch_ok_def queue_ok_def next_ready_queued(1) [OF assms(2)] r
    by (auto simp: bs1)
qed

lemma visit_event_cases:
  assumes "visit_event vals events c r bs i = Inr bs'"
  obtains (skip) "\<not> is_pending bs i" "bs' = bs"
    | (known) "sg_event_id (events ! i) \<in> ws_applied_event_ids (bs_state bs)"
        "bs' = bs\<lparr>bs_pending := (bs_pending bs)[i := False]\<rparr>"
    | (run) st where "sg_event_id (events ! i) \<notin> ws_applied_event_ids (bs_state bs)"
        "apply_ready_event vals (bs_state bs) (events ! i) = Inr st"
        "bs' = accept_event c r i (events ! i) st bs"
    | (later) a where "apply_ready_event vals (bs_state bs) (events ! i) = Inl (CoreAuthorization a)"
        "\<not> ends_batch a" "bs' = bs\<lparr>bs_authorization_deferred := bs_authorization_deferred bs @ [i]\<rparr>"
proof (cases "is_pending bs i")
  case False
  with assms have "bs' = bs" by (simp add: visit_event_def)
  with False show ?thesis by (rule skip)
next
  case pend: True
  show ?thesis
  proof (cases "sg_event_id (events ! i) \<in> ws_applied_event_ids (bs_state bs)")
    case True
    with assms pend have "bs' = bs\<lparr>bs_pending := (bs_pending bs)[i := False]\<rparr>"
      by (simp add: visit_event_def Let_def)
    with True show ?thesis by (rule known)
  next
    case new: False
    show ?thesis
    proof (cases "apply_ready_event vals (bs_state bs) (events ! i)")
      case (Inl e)
      have v: "visit_event vals events c r bs i = (case e of
          CoreAuthorization a \<Rightarrow> if ends_batch a then Inl (CoreAuthorization a, bs_state bs)
            else Inr (bs\<lparr>bs_authorization_deferred := bs_authorization_deferred bs @ [i]\<rparr>)
        | _ \<Rightarrow> Inl (e, bs_state bs))"
        using pend new Inl by (simp add: visit_event_def Let_def split: CoreError.split)
      obtain a where a: "e = CoreAuthorization a" using v assms by (cases e) simp_all
      with v assms have "\<not> ends_batch a"
          "bs' = bs\<lparr>bs_authorization_deferred := bs_authorization_deferred bs @ [i]\<rparr>"
        by (simp_all split: if_splits)
      with Inl a show ?thesis by (intro later) simp_all
    next
      case (Inr st)
      with assms pend new have "bs' = accept_event c r i (events ! i) st bs"
        by (simp add: visit_event_def Let_def)
      with new Inr show ?thesis by (rule run)
    qed
  qed
qed

lemma visit_event_ok:
  assumes "batch_ok vals st0 events ready bs" "next_ready ready bs = Some (i, ready', bs1)"
    "visit_event vals events (channel_definition_conflicts events) r bs1 i = Inr bs2"
  shows "batch_ok vals st0 events ready' bs2"
proof -
  note ok = batch_ok_popped [OF assms(1,2)]
  have il: "i < length events" "length (bs_pending bs1) = length events"
    using ok(1,5) by (auto simp: runnable_def sched_ok_def)
  from assms(3) show ?thesis
  proof (cases rule: visit_event_cases)
    case skip
    with ok il show ?thesis by (auto simp: batch_ok_def queue_ok_def is_pending_def)
  next
    case known
    have "sched_ok events bs2"
      using ok(1) known il by (auto simp: sched_ok_def nth_list_update parents_left_def)
    moreover have "queue_ok events ready' bs2"
      using ok(4-6) known il by (auto simp: queue_ok_def queued_def nth_list_update)
    ultimately show ?thesis using ok(2,3) known by (simp add: batch_ok_def retry_ok_def)
  next
    case run
    show ?thesis using visit_accept [OF ok(1,2,4,6,5) run(1,2)] run(3) by simp
  next
    case later
    have "queued ready' bs2 = insert i (queued ready' bs1)" by (auto simp: queued_def later(3))
    then have "queue_ok events ready' bs2" using ok(4-6) later(3) by (auto simp: queue_ok_def)
    with ok(1-3) later show ?thesis
      by (auto simp: batch_ok_def retry_ok_def)
  qed
qed

lemma visit_event_fails:
  assumes "visit_event vals events c r bs i = Inl f"
  shows "snd f = bs_state bs \<and> sg_event_id (events ! i) \<notin> ws_applied_event_ids (bs_state bs)
    \<and> apply_ready_event vals (bs_state bs) (events ! i) = Inl (fst f)
    \<and> (\<forall>a. fst f = CoreAuthorization a \<longrightarrow> ends_batch a)"
  using assms
  by (auto simp: visit_event_def Let_def split: if_splits sum.splits CoreError.splits)

section \<open>Passes and rounds\<close>

text \<open>An event of the batch that is new, unambiguous and whose parents are applied.\<close>

definition due :: "SignedEvent list \<Rightarrow> WorkspaceState \<Rightarrow> SignedEvent \<Rightarrow> bool" where
  "due events st e \<longleftrightarrow> e \<in> set events \<and> sg_event_id e \<notin> ws_applied_event_ids st
     \<and> set (ev_parents e) \<subseteq> ws_applied_event_ids st
     \<and> (\<forall>c. created_channel e = Some c \<longrightarrow> \<not> creation_conflict events c)"

lemma runnable_due:
  "i \<in> runnable events bs \<Longrightarrow> sg_event_id (events ! i) \<notin> ws_applied_event_ids (bs_state bs) \<Longrightarrow>
     due events (bs_state bs) (events ! i)"
  using conflict_flag [of i events] by (auto simp: runnable_def due_def parents_left_def)

text \<open>What a failing batch leaves: the state of an accepted run, and an event the error is due to.\<close>

definition batch_failed :: "invite_iteration \<Rightarrow> WorkspaceState \<Rightarrow> SignedEvent list \<Rightarrow> batch_failure \<Rightarrow> bool" where
  "batch_failed vals st0 events f \<longleftrightarrow>
     (\<exists>es. accepted_run (apply_event vals) st0 es (snd f)
        \<and> set (map sg_event_id es) \<inter> ws_applied_event_ids st0 = {}
        \<and> set es \<subseteq> {e \<in> set events. \<forall>c. created_channel e = Some c \<longrightarrow> \<not> creation_conflict events c})
     \<and> (\<exists>e. due events (snd f) e \<and> apply_ready_event vals (snd f) e = Inl (fst f)
          \<and> (\<forall>a. fst f = CoreAuthorization a \<longrightarrow> ends_batch a))"

lemma visit_event_failed:
  assumes "batch_ok vals st0 events ready bs" "next_ready ready bs = Some (i, ready', bs1)"
    "visit_event vals events c r bs1 i = Inl f"
  shows "batch_failed vals st0 events f"
proof -
  note ok = batch_ok_popped [OF assms(1,2)] and f = visit_event_fails [OF assms(3)]
  have "due events (bs_state bs1) (events ! i)" using runnable_due [OF ok(5)] f by blast
  with f ok(2) show ?thesis unfolding batch_failed_def run_ok_def by fastforce
qed

lemma batch_pass_ok:
  assumes "batch_ok vals st0 events ready bs"
  shows "case batch_pass vals events (channel_definition_conflicts events) r ready bs of
      Inl f \<Rightarrow> batch_failed vals st0 events f
    | Inr bs' \<Rightarrow> batch_ok vals st0 events [] bs' \<and> bs_dynamically_ready bs' = []"
  using assms
  by (rule batch_pass_rule) (blast intro: visit_event_ok visit_event_failed)+

text \<open>Nothing that could be applied is left.\<close>

definition saturated :: "invite_iteration \<Rightarrow> SignedEvent list \<Rightarrow> BatchState \<Rightarrow> bool" where
  "saturated vals events bs \<longleftrightarrow>
     (\<forall>i \<in> runnable events bs. bs_pending bs ! i \<longrightarrow>
        (\<exists>a. \<not> ends_batch a \<and> apply_ready_event vals (bs_state bs) (events ! i) = Inl (CoreAuthorization a)))"

definition round_start :: "BatchState \<Rightarrow> BatchState" where
  "round_start bs = bs\<lparr>bs_progressed := False, bs_authorization_deferred := []\<rparr>"

lemma batch_rounds_ok:
  assumes "batch_ok vals st0 events ready (round_start bs)"
  shows "case batch_rounds vals events (channel_definition_conflicts events) r ready bs of
      Inl f \<Rightarrow> batch_failed vals st0 events f
    | Inr bs' \<Rightarrow> sched_ok events bs' \<and> run_ok vals st0 events bs' \<and> saturated vals events bs'"
  using assms
proof (induction vals events "channel_definition_conflicts events" r ready bs rule: batch_rounds.induct)
  case (1 vals events r ready bs)
  let ?c = "channel_definition_conflicts events"
  have pass: "case batch_pass vals events ?c r ready (round_start bs) of
      Inl f \<Rightarrow> batch_failed vals st0 events f
    | Inr bs' \<Rightarrow> batch_ok vals st0 events [] bs' \<and> bs_dynamically_ready bs' = []"
    using 1(2) by (rule batch_pass_ok)
  show ?case
  proof (cases "batch_pass vals events ?c r ready (round_start bs)")
    case (Inl f)
    with pass show ?thesis by (subst batch_rounds.simps) (simp add: round_start_def)
  next
    case (Inr bs1)
    with pass have ok: "batch_ok vals st0 events [] bs1" "bs_dynamically_ready bs1 = []" by simp_all
    let ?bs2 = "bs1\<lparr>bs_authorization_deferred := [], bs_dynamically_ready := bs_next_round_ready bs1,
        bs_next_round_ready := bs_dynamically_ready bs1\<rparr>"
    have parts: "sched_ok events bs1" "run_ok vals st0 events bs1" "queue_ok events [] bs1" "retry_ok vals events bs1"
      using ok(1) by (simp_all add: batch_ok_def)
    have sw: "runnable events ?bs2 = runnable events bs1" "runnable events (round_start ?bs2) = runnable events bs1"
      by (simp_all add: round_start_def)
    show ?thesis
    proof (cases "bs_progressed bs1")
      case False
      then have "saturated vals events bs1" using parts(3,4) ok(2)
        by (auto simp: saturated_def queue_ok_def retry_ok_def queued_def)
      with False parts Inr show ?thesis by (subst batch_rounds.simps) (simp add: round_start_def)
    next
      case True
      show ?thesis
      proof (cases "bs_authorization_deferred bs1 = [] \<and> bs_next_round_ready bs1 = []")
        case drained: True
        then have "saturated vals events ?bs2" using parts(3) ok(2)
          by (auto simp: saturated_def sw queue_ok_def queued_def)
        moreover have "sched_ok events ?bs2" "run_ok vals st0 events ?bs2"
          using parts(1,2) by simp_all
        ultimately show ?thesis using drained True Inr
          by (subst batch_rounds.simps) (simp add: round_start_def)
      next
        case False
        have "batch_ok vals st0 events (bs_authorization_deferred bs1) (round_start ?bs2)"
          using parts ok(2)
          by (auto simp: batch_ok_def retry_ok_def queue_ok_def queued_def round_start_def)
        from 1(1) [OF Inr [unfolded round_start_def] _ refl refl _ this] True False show ?thesis
          by (subst batch_rounds.simps) (auto simp: Inr [unfolded round_start_def])
      qed
    qed
  qed
qed

section \<open>The whole batch\<close>

lemma batch_start_ok:
  assumes "batch_start st events = (ready, bs)"
  shows "batch_ok vals st events ready (round_start bs)"
proof -
  obtain counts w rd where ix: "index_events st events = (counts, w, rd)"
    by (cases "index_events st events") auto
  have bs: "ready = rd" "bs = \<lparr>bs_state = st, bs_pending = replicate (length events) True,
      bs_missing_parent_counts = counts, bs_earliest_ready_rounds = replicate (length events) 0,
      bs_waiting_by_parent = w, bs_dynamically_ready = [], bs_next_round_ready = [],
      bs_authorization_deferred = [], bs_progressed = False, bs_applied = []\<rparr>"
    using assms by (simp_all add: batch_start_def ix)
  have f: "counts = map (\<lambda>e. card (set (ev_parents e) - ws_applied_event_ids st)) events"
    "\<forall>q \<in> sg_event_id ` set events - ws_applied_event_ids st. distinct (waiting_on w q)
       \<and> set (waiting_on w q) = {i. i < length events \<and> q \<in> set (ev_parents (events ! i))}"
    "set rd = {i. i < length events \<and> set (ev_parents (events ! i)) \<subseteq> ws_applied_event_ids st
       \<and> \<not> channel_definition_conflicts events ! i}"
    using index_events_fold [where applied="ws_applied_event_ids st"
        and cand="sg_event_id ` set events" and conflicts="channel_definition_conflicts events"
        and es=events] ix
    by (auto simp: index_events_def)
  show ?thesis
    using f by (auto simp: batch_ok_def sched_ok_def queue_ok_def run_ok_def retry_ok_def queued_def
        runnable_def parents_left_def round_start_def bs intro!: exI [of _ "[]"])
qed

lemma apply_batch_cases:
  assumes "apply_batch vals st events = out"
  obtains (rejected) e where "check_batch st events = Inl e" "out = Inl (e, st)"
    | (failed) f where "check_batch st events = Inr ()" "batch_failed vals st events f" "out = Inl f"
    | (finished) bs where "check_batch st events = Inr ()" "sched_ok events bs" "run_ok vals st events bs"
        "saturated vals events bs"
        "out = Inr (bs_state bs, \<lparr>rep_applied_events = bs_applied bs, rep_gaps = batch_gaps events bs\<rparr>)"
proof (cases "check_batch st events")
  case (Inl e)
  with assms show ?thesis by (intro rejected) (auto simp: apply_batch_def)
next
  case (Inr u)
  obtain ready bs0 where s: "batch_start st events = (ready, bs0)" by fastforce
  note r = batch_rounds_ok [OF batch_start_ok [OF s, of vals], where r=0]
  show ?thesis
  proof (cases "batch_rounds vals events (channel_definition_conflicts events) 0 ready bs0")
    case (Inl f)
    with assms Inr s r show ?thesis by (intro failed) (auto simp: apply_batch_def)
  next
    case bs: (Inr bs)
    with assms Inr s r show ?thesis by (intro finished [of bs]) (auto simp: apply_batch_def)
  qed
qed

lemma saturated_due:
  assumes "sched_ok events bs" "saturated vals events bs" "due events (bs_state bs) e"
  shows "\<exists>a. \<not> ends_batch a \<and> apply_ready_event vals (bs_state bs) e = Inl (CoreAuthorization a)"
proof -
  obtain i where i: "i < length events" "events ! i = e"
    using assms(3) by (auto simp: due_def in_set_conv_nth)
  have "i \<in> runnable events bs"
    using i assms(3) by (auto simp: runnable_def due_def parents_left_def conflict_flag)
  moreover have "bs_pending bs ! i" using i assms(1,3) by (auto simp: sched_ok_def due_def)
  ultimately show ?thesis using assms(2) i by (auto simp: saturated_def)
qed

end
