(* ===== verification/Batch_Properties.thy ===== *)
theory Batch_Properties
  imports Batch_Correct
begin

text \<open>
  The guarantees of \<open>apply_batch\<close>, with a batch of four events in which a child comes before its
  parent and two events define the same channel differently.
\<close>

section \<open>A sample batch\<close>

definition open_public :: SignedEvent where
  "open_public = sample_event ''p1'' alice None [EventId ''e1''] (ChannelCreated general ''General'' False)"
definition open_private :: SignedEvent where
  "open_private = sample_event ''p2'' alice None [EventId ''e1''] (ChannelCreated general ''General'' True)"

definition team_batch :: "SignedEvent list" where
  "team_batch = [invite_bob, create_team, open_public, open_private]"

definition batch_state :: WorkspaceState where
  "batch_state = run_events sorted_values (state_new team) [create_team, invite_bob]"

definition batch_report :: MaterializationReport where
  "batch_report =
     \<lparr>rep_applied_events = [EventId ''e1'', EventId ''e2''],
      rep_gaps = [\<lparr>gap_event_id = EventId ''p1'', gap_missing_parent_ids = []\<rparr>,
                  \<lparr>gap_event_id = EventId ''p2'', gap_missing_parent_ids = []\<rparr>]\<rparr>"

lemmas batch_eval =
  apply_batch_def check_batch_def batch_start_def index_events_def index_event_def index_parent_def
  push_waiting_def conflicting_channel_ids_def channel_definition_conflicts_def note_creation_def
  created_channel_def batch_rounds.simps batch_pass.simps next_ready_def visit_event_def
  accept_event_def wake_waiting_def heap_push_def is_pending_def batch_gaps_def ends_batch_def
  open_public_def open_private_def team_batch_def batch_state_def batch_report_def

lemma team_batch_applied:
  "apply_batch sorted_values (state_new team) team_batch = Inr (batch_state, batch_report)"
  by (simp add: batch_eval state_eval authorize_eval apply_eval scenario_events scenario_names
      index_new_def run_events_def)

section \<open>Consequences of the scheduler's invariant\<close>

lemma apply_batch_Inr:
  assumes "apply_batch vals st events = Inr (st', rep)"
  obtains bs where "sched_ok events bs" "run_ok vals st events bs" "saturated vals events bs"
    "st' = bs_state bs" "rep_applied_events rep = bs_applied bs" "rep_gaps rep = batch_gaps events bs"
    "check_batch st events = Inr ()"
  by (rule apply_batch_cases [OF assms]) auto

lemma apply_batch_run:
  assumes "apply_batch vals st events = Inr (st', rep)"
  obtains es where "accepted_run (apply_event vals) st es st'" "rep_applied_events rep = map sg_event_id es"
    "distinct (rep_applied_events rep)" "set (rep_applied_events rep) \<inter> ws_applied_event_ids st = {}"
    "set es \<subseteq> {e \<in> set events. \<forall>c. created_channel e = Some c \<longrightarrow> \<not> creation_conflict events c}"
    "ws_applied_event_ids st' = ws_applied_event_ids st \<union> set (rep_applied_events rep)"
  by (rule apply_batch_Inr [OF assms]) (auto simp: run_ok_def)

text \<open>Only a creation event adds a channel.\<close>

lemma channel_absent_step:
  assumes "apply_ready_event vals st ev = Inr st'" "created_channel ev \<noteq> Some c"
    "fmlookup (ws_channels st) c = None"
  shows "fmlookup (ws_channels st') c = None"
  using assms
  by (cases "ev_body ev")
    (auto simp: apply_ready_event_Inr created_channel_def record_applied_def materialize_def
      materialize_arm_defs Let_def result_simps split: option.splits)

lemma channel_absent_run:
  "accepted_run (apply_event vals) st es st' \<Longrightarrow> \<forall>e \<in> set es. created_channel e \<noteq> Some c \<Longrightarrow>
     fmlookup (ws_channels st) c = None \<Longrightarrow> fmlookup (ws_channels st') c = None"
  by (induction rule: accepted_run.induct) (auto simp: apply_event_Inr dest: channel_absent_step)

lemma check_batch_Inr:
  "check_batch st events = Inr () \<longleftrightarrow>
     (\<forall>e \<in> set events. validate_signed_event_ids e = Inr () \<and> ev_workspace e = ws_workspace_id st)"
  by (auto simp: check_batch_def result_simps)

lemma workspace_of_run:
  "accepted_run (apply_event vals) st es st' \<Longrightarrow> ws_workspace_id st' = ws_workspace_id st"
  by (induction rule: accepted_run.induct) (auto simp: apply_event_Inr applied_of_apply_ready)

text \<open>No event of a saturated batch extends the state.\<close>

lemma no_further_run:
  assumes "\<And>e. due events st e \<Longrightarrow> \<exists>a. apply_ready_event vals st e = Inl a"
    "accepted_run (apply_event vals) st es st'"
    "set es \<subseteq> {e \<in> set events. \<forall>c. created_channel e = Some c \<longrightarrow> \<not> creation_conflict events c}"
    "set (map sg_event_id es) \<inter> ws_applied_event_ids st = {}"
  shows "es = [] \<and> st' = st"
proof (cases es)
  case (Cons e es')
  with assms(2) have e: "apply_event vals st e \<noteq> Inl x" for x by auto
  have "due events st e" using assms(2-4) Cons by (auto simp: due_def apply_event_Inr)
  with assms(1) obtain a where "apply_ready_event vals st e = Inl a" by blast
  with assms(2) Cons show ?thesis by (auto simp: apply_event_Inr)
qed (use assms(2) in simp)

section \<open>Properties\<close>

text \<open>
  C2: a batch that succeeds has applied, one by one and each after all its parents, exactly the
  events it reports: they are events of the batch, none was applied before and none is applied
  twice, whatever order the batch arrived in.
\<close>

theorem batch_applies_a_causal_run:
  assumes "apply_batch vals st events = Inr (st', rep)"
  shows "\<exists>es. accepted_run (apply_event vals) st es st' \<and> set es \<subseteq> set events
    \<and> rep_applied_events rep = map sg_event_id es \<and> distinct (rep_applied_events rep)
    \<and> set (rep_applied_events rep) \<inter> ws_applied_event_ids st = {}
    \<and> ws_applied_event_ids st' = ws_applied_event_ids st \<union> set (rep_applied_events rep)"
  by (rule apply_batch_run [OF assms]) blast

theorem batch_applies_a_causal_run_witness:
  "\<exists>es. accepted_run (apply_event sorted_values) (state_new team) es batch_state \<and> set es \<subseteq> set team_batch
    \<and> rep_applied_events batch_report = map sg_event_id es"
  using batch_applies_a_causal_run [OF team_batch_applied] by blast

text \<open>
  C3: a batch that succeeds leaves nothing over that could be applied: every event of the batch
  that is still new, whose parents are all applied and whose channel definition is unambiguous, is
  refused by the authorisation of the final state with an error that does not end a batch.
\<close>

theorem batch_is_saturated:
  assumes "apply_batch vals st events = Inr (st', rep)" "e \<in> set events"
    and "sg_event_id e \<notin> ws_applied_event_ids st'" "set (ev_parents e) \<subseteq> ws_applied_event_ids st'"
    and "\<not> (\<exists>c e'. created_channel e = Some c \<and> e' \<in> set events \<and> created_channel e' = Some c
              \<and> sg_event_id e' \<noteq> sg_event_id e)"
  shows "\<exists>a. \<not> ends_batch a \<and> apply_event vals st' e = Inl (CoreAuthorization a)"
proof -
  obtain bs where bs: "sched_ok events bs" "saturated vals events bs" "st' = bs_state bs"
    "check_batch st events = Inr ()"
    using assms(1) by (rule apply_batch_Inr)
  have "\<not> creation_conflict events c" if "created_channel e = Some c" for c
    using assms(5) that unfolding creation_conflict_def by metis
  with assms(2-4) have "due events st' e" by (simp add: due_def)
  with saturated_due [OF bs(1,2)] bs(3)
  obtain a where a: "\<not> ends_batch a" "apply_ready_event vals st' e = Inl (CoreAuthorization a)" by blast
  obtain es where "accepted_run (apply_event vals) st es st'" using assms(1) by (rule apply_batch_run)
  then have "ws_workspace_id st' = ws_workspace_id st" by (rule workspace_of_run)
  with a assms(2,4) bs(4) show ?thesis
    by (auto simp: apply_event_def missing_parent_ids_def has_applied_event_def map_err_def
        check_batch_Inr filter_empty_conv)
qed

definition intrude :: SignedEvent where
  "intrude = sample_event ''e9'' carol None [EventId ''e1''] (MemberInvited carol Member)"

definition intruder_state :: WorkspaceState where
  "intruder_state = run_events sorted_values (state_new team) [create_team]"

definition intruder_report :: MaterializationReport where
  "intruder_report =
     \<lparr>rep_applied_events = [EventId ''e1''],
      rep_gaps = [\<lparr>gap_event_id = EventId ''e9'', gap_missing_parent_ids = []\<rparr>]\<rparr>"

lemmas intruder_eval = intrude_def intruder_state_def intruder_report_def

lemma intruder_applied:
  "apply_batch sorted_values (state_new team) [intrude, create_team] = Inr (intruder_state, intruder_report)"
  "ws_applied_event_ids intruder_state = {EventId ''e1''}"
  by (simp_all add: batch_eval state_eval authorize_eval apply_eval scenario_events scenario_names
      index_new_def run_events_def intruder_eval)

theorem batch_is_saturated_witness:
  "\<exists>a. \<not> ends_batch a \<and> apply_event sorted_values intruder_state intrude = Inl (CoreAuthorization a)"
  by (rule batch_is_saturated [OF intruder_applied(1)])
    (simp_all add: intruder_applied(2), simp_all add: intrude_def created_channel_def)

text \<open>
  C4: when a batch holds two different definitions of the same channel, neither is materialised: a
  channel that did not exist before does not exist afterwards, whichever definition came first.
\<close>

theorem conflicting_channel_definitions_stay_out:
  assumes "apply_batch vals st events = Inr (st', rep)" "e1 \<in> set events" "e2 \<in> set events"
    and "created_channel e1 = Some c" "created_channel e2 = Some c" "sg_event_id e1 \<noteq> sg_event_id e2"
    and "fmlookup (ws_channels st) c = None"
  shows "fmlookup (ws_channels st') c = None"
proof -
  have conflict: "creation_conflict events c" using assms(2-6) by (rule creation_conflictI)
  obtain es where run: "accepted_run (apply_event vals) st es st'"
    "set es \<subseteq> {e \<in> set events. \<forall>c. created_channel e = Some c \<longrightarrow> \<not> creation_conflict events c}"
    using assms(1) by (rule apply_batch_run)
  with conflict have "\<forall>e \<in> set es. created_channel e \<noteq> Some c" by auto
  from channel_absent_run [OF run(1) this assms(7)] show ?thesis .
qed

theorem conflicting_channel_definitions_stay_out_witness:
  "fmlookup (ws_channels batch_state) general = None"
  by (rule conflicting_channel_definitions_stay_out [OF team_batch_applied, of open_public open_private])
    (simp_all add: team_batch_def open_public_def open_private_def created_channel_def state_new_def)

text \<open>
  Every event of a successful batch is accounted for: it is applied in the final state, or the
  report lists it with exactly those of its parents that are not applied.
\<close>

theorem batch_reports_every_leftover:
  assumes "apply_batch vals st events = Inr (st', rep)" "e \<in> set events"
  shows "sg_event_id e \<in> ws_applied_event_ids st'
    \<or> \<lparr>gap_event_id = sg_event_id e,
       gap_missing_parent_ids = filter (\<lambda>p. p \<notin> ws_applied_event_ids st') (ev_parents e)\<rparr>
      \<in> set (rep_gaps rep)"
proof -
  obtain bs where bs: "sched_ok events bs" "st' = bs_state bs" "rep_gaps rep = batch_gaps events bs"
    using assms(1) by (rule apply_batch_Inr)
  obtain i where i: "i < length events" "events ! i = e" using assms(2) by (auto simp: in_set_conv_nth)
  show ?thesis
  proof (cases "is_pending bs i")
    case True
    have "(i, e) \<in> set (enumerate 0 events)" using i by (force simp: in_set_enumerate_eq)
    with True show ?thesis unfolding bs(2,3) batch_gaps_def by force
  next
    case False
    then show ?thesis using bs(1,2) i by (auto simp: sched_ok_def is_pending_def)
  qed
qed

theorem batch_reports_every_leftover_witness:
  "sg_event_id intrude \<in> ws_applied_event_ids intruder_state
    \<or> \<lparr>gap_event_id = sg_event_id intrude,
       gap_missing_parent_ids =
         filter (\<lambda>p. p \<notin> ws_applied_event_ids intruder_state) (ev_parents intrude)\<rparr>
      \<in> set (rep_gaps intruder_report)"
  by (rule batch_reports_every_leftover [OF intruder_applied(1)]) simp

text \<open>
  A batch keeps the invariant of the workspace state whether it succeeds or fails half-way: the
  state it leaves is one that accepting single events reaches.
\<close>

theorem batch_keeps_state_invariant:
  assumes "state_inv st"
  shows "state_inv (case apply_batch vals st events of Inl (_, st') \<Rightarrow> st' | Inr (st', _) \<Rightarrow> st')"
proof -
  have "apply_batch vals st events = apply_batch vals st events" ..
  then show ?thesis
  proof (cases rule: apply_batch_cases)
  case (rejected e)
  with assms show ?thesis by simp
next
  case (failed f)
  then show ?thesis using causal.run_inv assms by (auto simp: batch_failed_def split: prod.split)
next
  case (finished bs)
  then show ?thesis using causal.run_inv assms by (auto simp: run_ok_def)
  qed
qed

theorem batch_keeps_state_invariant_witness: "state_inv batch_state"
  using batch_keeps_state_invariant [OF state_inv_new, of sorted_values team team_batch]
  by (simp add: team_batch_applied)

text \<open>
  A batch fails only with the first malformed or foreign event, before anything is applied, or
  with an error of the kinds that end a batch, raised by a new event of the batch whose parents are
  all applied; it never fails because of a missing parent or a missing channel.
\<close>

theorem batch_failure_cause:
  assumes "apply_batch vals st events = Inl (err, st')"
  shows "(st' = st \<and> check_batch st events = Inl err)
    \<or> (\<exists>e a. e \<in> set events \<and> sg_event_id e \<notin> ws_applied_event_ids st'
         \<and> set (ev_parents e) \<subseteq> ws_applied_event_ids st'
         \<and> err = CoreAuthorization a \<and> ends_batch a \<and> authorize (ws_access_index st') e = Inl a)"
  using assms
proof (cases rule: apply_batch_cases)
  case (failed f)
  then obtain es e where run: "accepted_run (apply_event vals) st es st'" and e: "due events st' e"
    "apply_ready_event vals st' e = Inl err" "\<forall>a. err = CoreAuthorization a \<longrightarrow> ends_batch a"
    by (auto simp: batch_failed_def)
  have "ev_workspace e = ws_workspace_id st'"
    using failed(1) e(1) workspace_of_run [OF run] by (auto simp: check_batch_Inr due_def)
  from apply_ready_event_Inl [OF this, of vals err] e show ?thesis by (auto simp: due_def)
qed auto

definition unnamed_claim :: SignedEvent where
  "unnamed_claim = sample_event ''e9'' alice None [EventId ''e1''] (WorkspaceInviteClaimed [] dave [])"

lemma unnamed_claim_fails:
  "apply_batch sorted_values (state_new team) [unnamed_claim, create_team]
     = Inl (CoreAuthorization (EventPayloadRequired ''invite ID''), intruder_state)"
  by (simp add: batch_eval state_eval authorize_eval apply_eval scenario_events scenario_names
      index_new_def run_events_def intruder_eval unnamed_claim_def dave_def check_invite_claimed_def
      validate_event_text_required_def trim_Nil)

theorem batch_failure_cause_witness:
  "\<exists>e a. CoreAuthorization (EventPayloadRequired ''invite ID'') = CoreAuthorization a \<and> ends_batch a
     \<and> e \<in> set [unnamed_claim, create_team] \<and> authorize (ws_access_index intruder_state) e = Inl a"
  using batch_failure_cause [OF unnamed_claim_fails]
  by (auto simp: check_batch_def unnamed_claim_def create_team_def id_check_defs scenario_names dave_def
      state_new_def map_err_def)

text \<open>
  Applying a batch a second time changes nothing: it succeeds, applies no event and leaves the
  state as it is.
\<close>

theorem batch_reapplication_is_stable:
  assumes "apply_batch vals st events = Inr (st', rep)"
  shows "\<exists>rep'. apply_batch vals st' events = Inr (st', rep') \<and> rep_applied_events rep' = []"
proof -
  obtain bs where bs: "sched_ok events bs" "saturated vals events bs" "st' = bs_state bs"
    "check_batch st events = Inr ()"
    using assms by (rule apply_batch_Inr)
  obtain es where "accepted_run (apply_event vals) st es st'" using assms by (rule apply_batch_run)
  then have check: "check_batch st' events = Inr ()"
    using bs(4) workspace_of_run by (fastforce simp: check_batch_Inr)
  have stuck: "\<exists>a. \<not> ends_batch a \<and> apply_ready_event vals st' e = Inl (CoreAuthorization a)"
    if "due events st' e" for e
    using saturated_due [OF bs(1,2)] that bs(3) by simp
  then have stuck': "\<exists>a. apply_ready_event vals st' e = Inl a" if "due events st' e" for e
    using that by blast
  have "apply_batch vals st' events = apply_batch vals st' events" ..
  then show ?thesis
  proof (cases rule: apply_batch_cases)
    case (rejected e)
    with check show ?thesis by simp
  next
    case (failed f)
    then obtain es' e where run: "accepted_run (apply_event vals) st' es' (snd f)"
        "set (map sg_event_id es') \<inter> ws_applied_event_ids st' = {}"
        "set es' \<subseteq> {e \<in> set events. \<forall>c. created_channel e = Some c \<longrightarrow> \<not> creation_conflict events c}"
      and e: "due events (snd f) e" "apply_ready_event vals (snd f) e = Inl (fst f)"
        "\<forall>a. fst f = CoreAuthorization a \<longrightarrow> ends_batch a"
      by (auto simp: batch_failed_def)
    have "es' = [] \<and> snd f = st'" using no_further_run [OF stuck' run(1,3,2)] .
    with stuck [of e] e show ?thesis by auto
  next
    case (finished bs')
    then obtain es' where "accepted_run (apply_event vals) st' es' (bs_state bs')"
        "bs_applied bs' = map sg_event_id es'" "set (bs_applied bs') \<inter> ws_applied_event_ids st' = {}"
        "set es' \<subseteq> {e \<in> set events. \<forall>c. created_channel e = Some c \<longrightarrow> \<not> creation_conflict events c}"
      by (auto simp: run_ok_def)
    then have "es' = [] \<and> bs_state bs' = st'" using no_further_run [OF stuck'] by simp
    with finished(5) \<open>bs_applied bs' = _\<close> show ?thesis by simp
  qed
qed

theorem batch_reapplication_is_stable_witness:
  "\<exists>rep'. apply_batch sorted_values batch_state team_batch = Inr (batch_state, rep')
     \<and> rep_applied_events rep' = []"
  using batch_reapplication_is_stable [OF team_batch_applied] .

end
