(* ===== verification/History.thy ===== *)
theory History
  imports Batch_Properties
begin

text \<open>
  \<open>authorize_event_with_history\<close> of \<^verbatim>\<open>src/domain/core/src/lib.rs\<close>: a stateless decision about one
  event from a list of historical events.  Conflicting channel definitions and their causal
  descendants are tainted first, by a worklist over the parent relation, and kept out of the replay
  that builds the access index.
\<close>

section \<open>The channel an event declares\<close>

definition event_declared_channel_id :: "SignedEvent \<Rightarrow> ChannelId option" where
  "event_declared_channel_id event =
     (case (case ev_body event of
              ChannelCreated channel_id _ _ \<Rightarrow> Some channel_id
            | DirectMessageChannelCreated channel_id _ _ \<Rightarrow> Some channel_id
            | ChannelDetailsUpdated channel_id _ _ _ \<Rightarrow> Some channel_id
            | ChannelMemberAdded channel_id _ \<Rightarrow> Some channel_id
            | ChannelMemberRemoved channel_id _ \<Rightarrow> Some channel_id
            | OpenMlsChannelGroupMemberAdded channel_id _ _ _ _ _ _ _ _ _ _ \<Rightarrow> Some channel_id
            | OpenMlsChannelGroupMemberRemoved channel_id _ _ _ _ _ _ _ \<Rightarrow> Some channel_id
            | OpenMlsChannelGroupSelfUpdated channel_id _ _ _ _ _ _ \<Rightarrow> Some channel_id
            | ReadMarkerUpdated channel_id _ \<Rightarrow> Some channel_id
            | ContentKeyEpochPublished scope _ _ _ _ \<Rightarrow>
                (case scope of ScopeChannel channel_id \<Rightarrow> Some channel_id | ScopeWorkspace \<Rightarrow> None)
            | _ \<Rightarrow> None) of
        Some channel_id \<Rightarrow> Some channel_id
      | None \<Rightarrow> ev_channel event)"

section \<open>Tainting the descendants of a conflict\<close>

definition children_by_parent :: "SignedEvent list \<Rightarrow> (EventId, EventId list) fmap" where
  "children_by_parent pending =
     foldl (\<lambda>children event.
        foldl (\<lambda>m parent_id. fmupd parent_id
                 ((case fmlookup m parent_id of None \<Rightarrow> [] | Some cs \<Rightarrow> cs) @ [sg_event_id event]) m)
          children (ev_parents event))
      fmempty pending"

definition note_origin ::
  "ChannelId set \<Rightarrow> (EventId, ChannelId) fmap \<Rightarrow> SignedEvent \<Rightarrow> (EventId, ChannelId) fmap" where
  "note_origin conflicting origins event =
     (case created_channel event of
        None \<Rightarrow> origins
      | Some channel_id \<Rightarrow>
          if channel_id \<notin> conflicting then origins
          else fmupd (sg_event_id event)
                 (case fmlookup origins (sg_event_id event) of
                    Some existing \<Rightarrow> if channel_id < existing then channel_id else existing
                  | None \<Rightarrow> channel_id) origins)"

definition conflict_roots :: "SignedEvent list \<Rightarrow> (EventId, ChannelId) fmap" where
  "conflict_roots pending = foldl (note_origin (conflicting_channel_ids pending)) fmempty pending"

text \<open>One child of a tainted event: (origins, queue).\<close>

definition taint_child ::
  "ChannelId \<Rightarrow> (EventId, ChannelId) fmap \<times> EventId list \<Rightarrow> EventId
    \<Rightarrow> (EventId, ChannelId) fmap \<times> EventId list" where
  "taint_child origin acc child_id =
     (case acc of (origins, queue) \<Rightarrow>
        if (case fmlookup origins child_id of Some existing \<Rightarrow> origin < existing | None \<Rightarrow> True)
        then (fmupd child_id origin origins, queue @ [child_id])
        else acc)"

definition children_of :: "(EventId, EventId list) fmap \<Rightarrow> EventId \<Rightarrow> EventId list" where
  "children_of children parent_id =
     (case fmlookup children parent_id of None \<Rightarrow> [] | Some cs \<Rightarrow> cs)"

text \<open>
  The worklist terminates because an event enters it again only when its origin gets smaller: the
  rank of an event counts the channels below its origin.
\<close>

definition origin_rank :: "(EventId, ChannelId) fmap \<Rightarrow> EventId \<Rightarrow> nat" where
  "origin_rank origins e =
     (case fmlookup origins e of
        None \<Rightarrow> card (fmran' origins) + 1
      | Some c \<Rightarrow> card {d \<in> fmran' origins. d < c})"

definition taint_events :: "(EventId, EventId list) fmap \<Rightarrow> (EventId, ChannelId) fmap \<Rightarrow> EventId set" where
  "taint_events children origins = fmdom' origins \<union> (\<Union>cs \<in> fmran' children. set cs)"

definition taint_measure ::
  "(EventId, EventId list) fmap \<Rightarrow> (EventId, ChannelId) fmap \<times> EventId list \<Rightarrow> nat" where
  "taint_measure children acc =
     (\<Sum>e \<in> taint_events children (fst acc). origin_rank (fst acc) e) + length (snd acc)"

lemma finite_fmran' [simp]: "finite (fmran' m)"
  by (simp add: fmran'_alt_def)

lemma finite_taint_events [simp]: "finite (taint_events children origins)"
proof -
  have "finite (fmran' children)" "finite (fmdom' origins)" by simp_all
  then show ?thesis by (auto simp: taint_events_def)
qed

lemma fmran'_upd_subset: "v \<in> fmran' m \<Longrightarrow> fmran' (fmupd k v m) \<subseteq> fmran' m"
  by (auto simp: fmran'_def fmlookup_ran'_iff split: if_splits)

lemma fmran'_upd_mem: "v \<in> fmran' (fmupd k v m)"
  by (rule fmran'I [of _ k]) simp

lemma origin_rank_smaller:
  assumes "origin \<in> fmran' origins"
    "case fmlookup origins child of Some existing \<Rightarrow> origin < existing | None \<Rightarrow> True"
  shows "origin_rank (fmupd child origin origins) e \<le> origin_rank origins e"
    and "origin_rank (fmupd child origin origins) child < origin_rank origins child"
proof -
  let ?o = "fmupd child origin origins"
  have sub: "fmran' ?o \<subseteq> fmran' origins" using assms(1) by (rule fmran'_upd_subset)
  have fin: "finite (fmran' origins)" by simp
  have le: "card (fmran' ?o) \<le> card (fmran' origins)"
    "card {d \<in> fmran' ?o. d < c} \<le> card {d \<in> fmran' origins. d < c}" for c
    using sub by (auto intro!: card_mono fin)
  show lt: "origin_rank ?o child < origin_rank origins child"
  proof (cases "fmlookup origins child")
    case None
    have "card {d \<in> fmran' ?o. d < origin} \<le> card (fmran' origins)"
      using sub by (intro card_mono fin) auto
    then show ?thesis by (simp add: origin_rank_def None)
  next
    case (Some c)
    then have "origin < c" using assms(2) by simp
    then have "card {d \<in> fmran' ?o. d < origin} < card {d \<in> fmran' origins. d < c}"
      using assms(1) sub by (intro psubset_card_mono) (auto simp: fin)
    then show ?thesis by (simp add: origin_rank_def Some)
  qed
  show "origin_rank ?o e \<le> origin_rank origins e"
    using lt le by (cases "e = child") (auto simp: origin_rank_def split: option.split)
qed

lemma taint_child_measure:
  assumes "origin \<in> fmran' (fst acc)" "child \<in> taint_events children (fst acc)"
  shows "taint_measure children (taint_child origin acc child) \<le> taint_measure children acc
    \<and> taint_events children (fst (taint_child origin acc child)) = taint_events children (fst acc)
    \<and> origin \<in> fmran' (fst (taint_child origin acc child))"
proof -
  obtain origins queue where acc: "acc = (origins, queue)" by (cases acc)
  show ?thesis
  proof (cases "case fmlookup origins child of Some existing \<Rightarrow> origin < existing | None \<Rightarrow> True")
    case False
    with assms show ?thesis by (simp add: taint_child_def acc)
  next
    case True
    let ?o = "fmupd child origin origins"
    have ev: "taint_events children ?o = taint_events children origins"
      using assms(2) by (auto simp: taint_events_def acc)
    have "(\<Sum>e \<in> taint_events children origins. origin_rank ?o e)
        < (\<Sum>e \<in> taint_events children origins. origin_rank origins e)"
      using origin_rank_smaller [of origin origins child] assms True
      by (intro sum_strict_mono_ex1) (auto simp: acc)
    then show ?thesis using True
      by (simp add: taint_child_def acc taint_measure_def ev fmran'_upd_mem)
  qed
qed

lemma foldl_taint_child_measure:
  assumes "origin \<in> fmran' (fst acc)" "set cs \<subseteq> taint_events children (fst acc)"
  shows "taint_measure children (foldl (taint_child origin) acc cs) \<le> taint_measure children acc"
  using assms
proof (induction cs arbitrary: acc)
  case (Cons c cs)
  then have "c \<in> taint_events children (fst acc)" by simp
  note step = taint_child_measure [OF Cons.prems(1) this]
  from Cons.IH [of "taint_child origin acc c"] step Cons.prems(2) show ?case by fastforce
qed simp

function propagate_conflicts ::
  "(EventId, EventId list) fmap \<Rightarrow> (EventId, ChannelId) fmap \<times> EventId list \<Rightarrow> (EventId, ChannelId) fmap" where
  "propagate_conflicts children acc =
     (case acc of (origins, queue) \<Rightarrow>
        (case queue of
           [] \<Rightarrow> origins
         | parent_id # rest \<Rightarrow>
             (case fmlookup origins parent_id of
                None \<Rightarrow> propagate_conflicts children (origins, rest)
              | Some origin \<Rightarrow>
                  propagate_conflicts children
                    (foldl (taint_child origin) (origins, rest) (children_of children parent_id)))))"
  by pat_completeness auto
termination
proof (relation "measure (\<lambda>(children, acc). taint_measure children acc)", goal_cases)
  case (3 children acc origins queue parent_id rest origin)
  have "set (children_of children parent_id) \<subseteq> taint_events children origins"
    by (fastforce simp: children_of_def taint_events_def intro: fmran'I split: option.splits)
  moreover have "origin \<in> fmran' origins" using 3 by (auto intro: fmran'I)
  ultimately have "taint_measure children
      (foldl (taint_child origin) (origins, rest) (children_of children parent_id)) \<le> taint_measure children (origins, rest)"
    by (intro foldl_taint_child_measure) simp_all
  moreover have "taint_measure children (origins, rest) < taint_measure children acc"
    using 3(1,2) by (auto simp: taint_measure_def)
  ultimately show ?case by simp
qed (auto simp: taint_measure_def)

declare propagate_conflicts.simps [simp del]

text \<open>
  The queue starts with the tainted creation events in the unspecified order of
  \<open>HashMap::keys\<close>: the parameter \<open>keys\<close>.
\<close>

type_synonym origin_iteration = "(EventId, ChannelId) fmap \<Rightarrow> EventId list"

definition conflict_origins :: "origin_iteration \<Rightarrow> SignedEvent list \<Rightarrow> (EventId, ChannelId) fmap" where
  "conflict_origins keys pending =
     propagate_conflicts (children_by_parent pending)
       (conflict_roots pending, keys (conflict_roots pending))"

section \<open>Replay\<close>

text \<open>Replay errors that end the decision; every other error defers the event to a later pass.\<close>

definition ends_replay :: "AuthorizationError \<Rightarrow> bool" where
  "ends_replay e =
     (case e of
        WorkspaceAlreadyCreated \<Rightarrow> True
      | ChannelAlreadyCreated _ \<Rightarrow> True
      | EventPayloadTooLarge _ _ _ \<Rightarrow> True
      | EventPayloadRequired _ \<Rightarrow> True
      | InvalidAvatarId \<Rightarrow> True
      | EventItemCountTooLarge _ _ _ \<Rightarrow> True
      | UnsupportedPeerEndpoint \<Rightarrow> True
      | PeerEndpointTransportMismatch \<Rightarrow> True
      | PersonDeviceLinkDenied _ _ \<Rightarrow> True
      | ReplicaCapabilityRequiresBackupPeer \<Rightarrow> True
      | _ \<Rightarrow> False)"

record ReplayState =
  rs_index :: WorkspaceAccessIndex
  rs_applied :: "EventId set"
  rs_deferred :: "SignedEvent list"
  rs_progressed :: bool

definition replay_event ::
  "(EventId, ChannelId) fmap \<Rightarrow> EventId set \<Rightarrow> ReplayState \<Rightarrow> SignedEvent \<Rightarrow> AuthorizationError + ReplayState" where
  "replay_event origins known rs event =
     (if contains_key origins (sg_event_id event) then Inr rs
      else if sg_event_id event \<in> rs_applied rs then Inr rs
      else if \<exists>p \<in> set (ev_parents event). p \<in> known \<and> p \<notin> rs_applied rs
      then Inr (rs\<lparr>rs_deferred := rs_deferred rs @ [event]\<rparr>)
      else case authorize_and_apply (rs_index rs) event of
             Inr ix \<Rightarrow> Inr (rs\<lparr>rs_index := ix, rs_applied := insert (sg_event_id event) (rs_applied rs),
                               rs_progressed := True\<rparr>)
           | Inl e \<Rightarrow>
               if ends_replay e then Inl e
               else Inr (rs\<lparr>rs_deferred := rs_deferred rs @ [event]\<rparr>))"

fun replay_pass ::
  "(EventId, ChannelId) fmap \<Rightarrow> EventId set \<Rightarrow> ReplayState \<Rightarrow> SignedEvent list \<Rightarrow> AuthorizationError + ReplayState" where
  "replay_pass origins known rs [] = Inr rs"
| "replay_pass origins known rs (event # rest) =
     bind_res (replay_event origins known rs event) (\<lambda>rs'. replay_pass origins known rs' rest)"

lemma replay_event_deferred:
  assumes "replay_event origins known rs ev = Inr rs'"
  shows "length (rs_deferred rs') + (if rs_progressed rs' \<and> \<not> rs_progressed rs then 1 else 0)
      \<le> length (rs_deferred rs) + 1
    \<and> (rs_progressed rs \<longrightarrow> rs_progressed rs')"
  using assms by (auto simp: replay_event_def split: if_splits sum.splits)

lemma replay_pass_deferred:
  "replay_pass origins known rs pending = Inr rs' \<Longrightarrow>
     length (rs_deferred rs') + (if rs_progressed rs' \<and> \<not> rs_progressed rs then 1 else 0)
       \<le> length (rs_deferred rs) + length pending
     \<and> (rs_progressed rs \<longrightarrow> rs_progressed rs')"
proof (induction pending arbitrary: rs)
  case (Cons ev pending)
  from Cons.prems obtain rs1 where "replay_event origins known rs ev = Inr rs1"
    "replay_pass origins known rs1 pending = Inr rs'"
    unfolding replay_pass.simps bind_res_Inr by blast
  with replay_event_deferred [OF this(1)] Cons.IH [OF this(2)] show ?case
    by (cases "rs_progressed rs"; cases "rs_progressed rs1"; cases "rs_progressed rs'") simp_all
qed simp

function replay_rounds ::
  "(EventId, ChannelId) fmap \<Rightarrow> EventId set \<Rightarrow> ReplayState \<Rightarrow> SignedEvent list \<Rightarrow> AuthorizationError + ReplayState" where
  "replay_rounds origins known rs pending =
     (case replay_pass origins known (rs\<lparr>rs_progressed := False, rs_deferred := []\<rparr>) pending of
        Inl e \<Rightarrow> Inl e
      | Inr rs' \<Rightarrow>
          if \<not> rs_progressed rs' then Inr rs'
          else replay_rounds origins known rs' (rs_deferred rs'))"
  by pat_completeness auto
termination
proof (relation "measure (\<lambda>(_, _, _, pending). length pending)", goal_cases)
  case (2 origins known rs pending rs')
  from replay_pass_deferred [OF 2(1)] 2(2) show ?case by simp
qed simp

declare replay_rounds.simps [simp del]

section \<open>The decision\<close>

definition least_parent_origin :: "(EventId, ChannelId) fmap \<Rightarrow> SignedEvent \<Rightarrow> ChannelId option" where
  "least_parent_origin origins event =
     (case List.map_filter (fmlookup origins) (ev_parents event) of
        [] \<Rightarrow> None
      | c # cs \<Rightarrow> Some (foldl min c cs))"

definition same_workspace :: "SignedEvent list \<Rightarrow> SignedEvent \<Rightarrow> SignedEvent list" where
  "same_workspace history event = filter (\<lambda>h. ev_workspace h = ev_workspace event) history"

definition replay_history ::
  "origin_iteration \<Rightarrow> SignedEvent list \<Rightarrow> SignedEvent \<Rightarrow> AuthorizationError + ReplayState" where
  "replay_history keys pending event =
     replay_rounds (conflict_origins keys pending) (sg_event_id ` set pending)
       \<lparr>rs_index = index_new (ev_workspace event), rs_applied = {}, rs_deferred = [],
        rs_progressed = False\<rparr> pending"

definition authorize_event_with_history ::
  "origin_iteration \<Rightarrow> SignedEvent list \<Rightarrow> SignedEvent \<Rightarrow> auth_result" where
  "authorize_event_with_history keys history event =
     then_res (validate_signed_event_ids event)
      (let pending = same_workspace history event
       in case (case event_declared_channel_id event of
                  None \<Rightarrow> None
                | Some c \<Rightarrow> if c \<in> conflicting_channel_ids pending then Some c else None) of
            Some channel_id \<Rightarrow> Inl (ChannelAlreadyCreated channel_id)
          | None \<Rightarrow>
              (case least_parent_origin (conflict_origins keys pending) event of
                 Some channel_id \<Rightarrow> Inl (ChannelAlreadyCreated channel_id)
               | None \<Rightarrow>
                   bind_res (replay_history keys pending event) (\<lambda>rs. authorize (rs_index rs) event)))"

end
