(* ===== verification/History_Correct.thy ===== *)
theory History_Correct
  imports History
begin

text \<open>
  Correctness of the stateless decision: the worklist computes, whatever the iteration order of the
  hash map, the least conflicting channel among the causal ancestors of every event, and the replay
  is an accepted run of untainted events that nothing in the history could extend.
\<close>

section \<open>Causal taint\<close>

inductive tainted :: "SignedEvent list \<Rightarrow> EventId \<Rightarrow> ChannelId \<Rightarrow> bool" for pending where
  taint_root: "e \<in> set pending \<Longrightarrow> created_channel e = Some c \<Longrightarrow> creation_conflict pending c \<Longrightarrow>
    tainted pending (sg_event_id e) c"
| taint_descendant: "tainted pending p c \<Longrightarrow> e \<in> set pending \<Longrightarrow> p \<in> set (ev_parents e) \<Longrightarrow>
    tainted pending (sg_event_id e) c"

lemma children_of_push:
  "children_of (foldl (\<lambda>m p. fmupd p ((case fmlookup m p of None \<Rightarrow> [] | Some cs \<Rightarrow> cs) @ [i]) m) m0 ps) q
     = children_of m0 q @ replicate (count_list ps q) i"
proof (induction ps rule: rev_induct)
  case (snoc p ps)
  then show ?case
    by (auto simp: children_of_def replicate_append_same [symmetric] split: option.splits)
qed simp

lemma set_children_of:
  "set (children_of (children_by_parent pending) p) =
     {sg_event_id e |e. e \<in> set pending \<and> p \<in> set (ev_parents e)}"
proof (induction pending rule: rev_induct)
  case Nil
  then show ?case by (simp add: children_by_parent_def children_of_def)
next
  case (snoc e pending)
  have "children_of (children_by_parent (pending @ [e])) p =
      children_of (children_by_parent pending) p @ replicate (count_list (ev_parents e) p) (sg_event_id e)"
    by (simp add: children_by_parent_def children_of_push)
  with snoc show ?case by (auto simp: count_list_0_iff)
qed

definition conflict_root :: "ChannelId set \<Rightarrow> SignedEvent list \<Rightarrow> EventId \<Rightarrow> ChannelId \<Rightarrow> bool" where
  "conflict_root conflicting pending i c \<longleftrightarrow>
     (\<exists>e \<in> set pending. sg_event_id e = i \<and> created_channel e = Some c \<and> c \<in> conflicting)"

lemma note_origin_fold:
  "(\<forall>c. fmlookup (foldl (note_origin conflicting) fmempty pending) i = Some c \<longrightarrow>
        conflict_root conflicting pending i c)
     \<and> (\<forall>c. conflict_root conflicting pending i c \<longrightarrow>
        (\<exists>c' \<le> c. fmlookup (foldl (note_origin conflicting) fmempty pending) i = Some c'))"
proof (induction pending rule: rev_induct)
  case Nil
  then show ?case by (simp add: conflict_root_def)
next
  case (snoc e pending)
  let ?m = "foldl (note_origin conflicting) fmempty pending"
  have root: "conflict_root conflicting (pending @ [e]) i c \<longleftrightarrow> conflict_root conflicting pending i c
      \<or> sg_event_id e = i \<and> created_channel e = Some c \<and> c \<in> conflicting" for c
    by (auto simp: conflict_root_def)
  show ?case
  proof (cases "sg_event_id e = i \<and> (\<exists>c \<in> conflicting. created_channel e = Some c)")
    case False
    then have "fmlookup (note_origin conflicting ?m e) i = fmlookup ?m i"
      by (auto simp: note_origin_def split: option.splits)
    with snoc False show ?thesis by (auto simp: root)
  next
    case True
    then obtain c where c: "c \<in> conflicting" "created_channel e = Some c" "sg_event_id e = i" by blast
    then have l: "fmlookup (foldl (note_origin conflicting) fmempty (pending @ [e])) i =
        Some (case fmlookup ?m i of Some x \<Rightarrow> if c < x then c else x | None \<Rightarrow> c)"
      by (auto simp: note_origin_def)
    show ?thesis
    proof (cases "fmlookup ?m i")
      case None
      with snoc have "\<not> conflict_root conflicting pending i d" for d by auto
      with c None show ?thesis unfolding l root by auto
    next
      case (Some x)
      with snoc have x: "conflict_root conflicting pending i x"
        "\<And>d. conflict_root conflicting pending i d \<Longrightarrow> x \<le> d" by auto
      then have "min c x \<le> d" if "conflict_root conflicting (pending @ [e]) i d" for d
        using that c by (auto simp: root min_le_iff_disj)
      moreover have "conflict_root conflicting (pending @ [e]) i (min c x)"
        using x(1) c by (auto simp: root min_def)
      moreover have "(if c < x then c else x) = min c x" by (auto simp: min_def)
      ultimately show ?thesis unfolding l Some by simp
    qed
  qed
qed

lemma conflict_roots_tainted:
  "fmlookup (conflict_roots pending) i = Some c \<Longrightarrow> tainted pending i c"
  using note_origin_fold [of "conflicting_channel_ids pending" pending i]
  by (auto simp: conflict_roots_def conflict_root_def conflicting_channel_ids_iff intro: taint_root)

section \<open>The worklist\<close>

lemma foldl_taint_child:
  assumes "foldl (taint_child origin) (origins, q) cs = (origins', q')"
  shows "(\<forall>i c. fmlookup origins i = Some c \<longrightarrow> (\<exists>c' \<le> c. fmlookup origins' i = Some c'))
    \<and> (\<forall>i \<in> set cs. \<exists>c \<le> origin. fmlookup origins' i = Some c)
    \<and> (\<forall>i. fmlookup origins' i \<noteq> fmlookup origins i \<longrightarrow> i \<in> set q')
    \<and> set q \<subseteq> set q'
    \<and> (\<forall>i c. fmlookup origins' i = Some c \<longrightarrow> fmlookup origins i = Some c \<or> i \<in> set cs \<and> c = origin)"
  using assms
proof (induction cs arbitrary: origins' q' rule: rev_induct)
  case (snoc e cs)
  obtain o1 q1 where f: "foldl (taint_child origin) (origins, q) cs = (o1, q1)"
    by (cases "foldl (taint_child origin) (origins, q) cs")
  note ih = snoc.IH [OF f]
  from snoc.prems f have step: "taint_child origin (o1, q1) e = (origins', q')" by simp
  show ?case
  proof (cases "case fmlookup o1 e of Some existing \<Rightarrow> origin < existing | None \<Rightarrow> True")
    case False
    with step have "origins' = o1" "q' = q1" by (simp_all add: taint_child_def)
    with ih False show ?thesis by (fastforce split: option.splits)
  next
    case True
    with step have o: "origins' = fmupd e origin o1" "q' = q1 @ [e]" by (simp_all add: taint_child_def)
    have le: "\<exists>c' \<le> c. fmlookup origins' i = Some c'" if "fmlookup o1 i = Some c" for i c
      using that True by (auto simp: o)
    then have "\<forall>i c. fmlookup origins i = Some c \<longrightarrow> (\<exists>c' \<le> c. fmlookup origins' i = Some c')"
      using ih by (meson order_trans)
    moreover have "\<forall>i \<in> set (cs @ [e]). \<exists>c \<le> origin. fmlookup origins' i = Some c"
      using ih by (auto simp: o)
    ultimately show ?thesis using ih by (auto simp: o)
  qed
qed auto

text \<open>
  What the worklist maintains: origins are taints, they cover the roots, and they are passed on to
  the children of every event that is not waiting in the queue.
\<close>

definition taint_ok ::
  "SignedEvent list \<Rightarrow> (EventId, ChannelId) fmap \<times> EventId list \<Rightarrow> bool" where
  "taint_ok pending acc \<longleftrightarrow>
     (\<forall>i c. fmlookup (fst acc) i = Some c \<longrightarrow> tainted pending i c)
     \<and> (\<forall>i c. conflict_root (conflicting_channel_ids pending) pending i c \<longrightarrow>
          (\<exists>c' \<le> c. fmlookup (fst acc) i = Some c'))
     \<and> (\<forall>p c i. fmlookup (fst acc) p = Some c \<and> p \<notin> set (snd acc)
          \<and> i \<in> set (children_of (children_by_parent pending) p) \<longrightarrow>
          (\<exists>c' \<le> c. fmlookup (fst acc) i = Some c'))"

lemma taint_ok_start:
  assumes "set (keys (conflict_roots pending)) = fmdom' (conflict_roots pending)"
  shows "taint_ok pending (conflict_roots pending, keys (conflict_roots pending))"
  using assms conflict_roots_tainted note_origin_fold [of "conflicting_channel_ids pending" pending]
  by (auto simp: taint_ok_def conflict_roots_def fmlookup_dom'_iff)

lemma taint_ok_step:
  assumes "taint_ok pending (origins, p # rest)" "fmlookup origins p = Some c"
  shows "taint_ok pending
    (foldl (taint_child c) (origins, rest) (children_of (children_by_parent pending) p))"
proof -
  let ?cs = "children_of (children_by_parent pending) p"
  obtain o' q' where f: "foldl (taint_child c) (origins, rest) ?cs = (o', q')"
    by (cases "foldl (taint_child c) (origins, rest) ?cs")
  note eff = foldl_taint_child [OF f]
  have p: "tainted pending p c" using assms by (auto simp: taint_ok_def)
  have "tainted pending i d" if "fmlookup o' i = Some d" for i d
  proof (cases "fmlookup origins i = Some d")
    case True
    with assms(1) show ?thesis by (auto simp: taint_ok_def)
  next
    case False
    with eff that have "i \<in> set ?cs" "d = c" by blast+
    with p show ?thesis by (auto simp: set_children_of intro: taint_descendant)
  qed
  moreover have "\<exists>d' \<le> d. fmlookup o' i = Some d'"
    if "conflict_root (conflicting_channel_ids pending) pending i d" for i d
    using assms(1) that eff unfolding taint_ok_def fst_conv by (meson order_trans)
  moreover have "\<exists>d' \<le> d. fmlookup o' i = Some d'"
    if o': "fmlookup o' a = Some d" and a: "a \<notin> set q'" and i: "i \<in> set (children_of (children_by_parent pending) a)"
    for a d i
  proof -
    have o: "fmlookup origins a = Some d" using eff o' a by metis
    show ?thesis
    proof (cases "a = p")
      case True
      then show ?thesis using eff i o assms(2) by auto
    next
      case False
      with a eff have "a \<notin> set (p # rest)" by auto
      with assms(1) o i obtain d1 where "d1 \<le> d" "fmlookup origins i = Some d1"
        unfolding taint_ok_def fst_conv snd_conv by blast
      with eff show ?thesis by (meson order_trans)
    qed
  qed
  ultimately show ?thesis unfolding f taint_ok_def fst_conv snd_conv by blast
qed

lemma propagate_conflicts_ok:
  "taint_ok pending acc \<Longrightarrow>
     taint_ok pending (propagate_conflicts (children_by_parent pending) acc, [])"
proof (induction "children_by_parent pending" acc rule: propagate_conflicts.induct)
  case (1 acc)
  obtain origins queue where acc: "acc = (origins, queue)" by (cases acc)
  show ?case
  proof (cases queue)
    case Nil
    with 1(3) show ?thesis by (subst propagate_conflicts.simps) (simp add: acc)
  next
    case (Cons p rest)
    show ?thesis
    proof (cases "fmlookup origins p")
      case None
      then have "a \<in> set (p # rest) \<longleftrightarrow> a \<in> set rest" if "fmlookup origins a = Some c" for a c
        using that by auto
      with 1(3) have "taint_ok pending (origins, rest)"
        unfolding acc Cons taint_ok_def fst_conv snd_conv by blast
      with 1(1) [OF acc [symmetric] Cons None] show ?thesis
        by (subst propagate_conflicts.simps) (simp add: acc Cons None)
    next
      case (Some c)
      with 1(3) taint_ok_step 1(2) [OF acc [symmetric] Cons Some] show ?thesis
        by (subst propagate_conflicts.simps) (simp add: acc Cons Some)
    qed
  qed
qed

text \<open>The result is the least taint.\<close>

lemma taint_ok_complete:
  assumes "taint_ok pending (origins, [])" "tainted pending i c"
  shows "\<exists>c' \<le> c. fmlookup origins i = Some c'"
  using assms(2)
proof (induction rule: tainted.induct)
  case (taint_root e c)
  then have "conflict_root (conflicting_channel_ids pending) pending (sg_event_id e) c"
    by (auto simp: conflict_root_def conflicting_channel_ids_iff)
  with assms(1) show ?case by (simp add: taint_ok_def)
next
  case (taint_descendant p c e)
  then have "sg_event_id e \<in> set (children_of (children_by_parent pending) p)"
    by (auto simp: set_children_of)
  with taint_descendant.IH assms(1) show ?case unfolding taint_ok_def fst_conv snd_conv
    by (metis empty_iff list.set(1) order_trans)
qed

text \<open>
  \<open>HashMap::keys\<close> visits every key and nothing else, in an unspecified order.
\<close>

locale origin_enumeration =
  fixes keys :: origin_iteration
  assumes set_keys: "set (keys m) = fmdom' m"
begin

lemma conflict_origins_ok: "taint_ok pending (conflict_origins keys pending, [])"
  unfolding conflict_origins_def
  by (rule propagate_conflicts_ok [OF taint_ok_start [where keys=keys, OF set_keys]])

lemma conflict_origins_least:
  "fmlookup (conflict_origins keys pending) i = Some c \<longleftrightarrow>
     tainted pending i c \<and> (\<forall>d. tainted pending i d \<longrightarrow> c \<le> d)"
proof -
  have sound: "fmlookup (conflict_origins keys pending) i = Some d \<Longrightarrow> tainted pending i d" for d
    using conflict_origins_ok [of pending] by (simp add: taint_ok_def)
  have complete: "tainted pending i d \<Longrightarrow> \<exists>d' \<le> d. fmlookup (conflict_origins keys pending) i = Some d'" for d
    using conflict_origins_ok by (rule taint_ok_complete)
  show ?thesis using sound complete by (metis option.inject order_antisym)
qed

lemma conflict_origins_None:
  "fmlookup (conflict_origins keys pending) i = None \<longleftrightarrow> (\<forall>c. \<not> tainted pending i c)"
  using conflict_origins_ok [of pending] taint_ok_complete [OF conflict_origins_ok, of pending i]
  by (cases "fmlookup (conflict_origins keys pending) i") (auto simp: taint_ok_def)

end

section \<open>Replay\<close>

text \<open>
  The replayed events: an accepted run of untainted events of the history, each after those of its
  parents that the history contains.
\<close>

definition replayed ::
  "WorkspaceId \<Rightarrow> (EventId, ChannelId) fmap \<Rightarrow> SignedEvent list \<Rightarrow> WorkspaceAccessIndex \<Rightarrow> EventId set
    \<Rightarrow> SignedEvent list \<Rightarrow> bool" where
  "replayed w origins history ix applied es \<longleftrightarrow>
     accepted_run authorize_and_apply (index_new w) es ix
     \<and> applied = sg_event_id ` set es \<and> distinct (map sg_event_id es) \<and> set es \<subseteq> set history
     \<and> (\<forall>e \<in> set es. fmlookup origins (sg_event_id e) = None)
     \<and> (\<forall>i < length es. \<forall>p \<in> set (ev_parents (es ! i)) \<inter> sg_event_id ` set history.
          p \<in> sg_event_id ` set (take i es))"

text \<open>An event the replay cannot use: tainted, replayed, waiting for a parent or refused.\<close>

definition settled ::
  "(EventId, ChannelId) fmap \<Rightarrow> SignedEvent list \<Rightarrow> ReplayState \<Rightarrow> SignedEvent \<Rightarrow> bool" where
  "settled origins history rs e \<longleftrightarrow>
     fmlookup origins (sg_event_id e) \<noteq> None \<or> sg_event_id e \<in> rs_applied rs
     \<or> (\<exists>p \<in> set (ev_parents e) \<inter> sg_event_id ` set history. p \<notin> rs_applied rs)
     \<or> authorize (rs_index rs) e \<noteq> Inr ()"

lemma replayed_snoc:
  assumes "replayed w origins history ix applied es" "e \<in> set history"
    "fmlookup origins (sg_event_id e) = None" "sg_event_id e \<notin> applied"
    "\<not> (\<exists>p \<in> set (ev_parents e). p \<in> sg_event_id ` set history \<and> p \<notin> applied)"
    "authorize_and_apply ix e = Inr ix'"
  shows "replayed w origins history ix' (insert (sg_event_id e) applied) (es @ [e])"
  using assms unfolding replayed_def
  by (auto simp: accepted_run_append nth_append less_Suc_eq)

lemma replay_event_cases:
  assumes "replay_event origins known rs e = Inr rs'"
  obtains (drop) "fmlookup origins (sg_event_id e) \<noteq> None \<or> sg_event_id e \<in> rs_applied rs" "rs' = rs"
    | (run) ix where "fmlookup origins (sg_event_id e) = None" "sg_event_id e \<notin> rs_applied rs"
        "\<not> (\<exists>p \<in> set (ev_parents e). p \<in> known \<and> p \<notin> rs_applied rs)"
        "authorize_and_apply (rs_index rs) e = Inr ix"
        "rs' = rs\<lparr>rs_index := ix, rs_applied := insert (sg_event_id e) (rs_applied rs), rs_progressed := True\<rparr>"
    | (later) "(\<exists>p \<in> set (ev_parents e). p \<in> known \<and> p \<notin> rs_applied rs) \<or> authorize (rs_index rs) e \<noteq> Inr ()"
        "rs' = rs\<lparr>rs_deferred := rs_deferred rs @ [e]\<rparr>"
proof (cases "contains_key origins (sg_event_id e) \<or> sg_event_id e \<in> rs_applied rs")
  case True
  with assms have "rs' = rs" by (cases "contains_key origins (sg_event_id e)") (simp_all add: replay_event_def)
  with True show ?thesis by (intro drop) (auto simp: contains_key_def)
next
  case new: False
  show ?thesis
  proof (cases "\<exists>p \<in> set (ev_parents e). p \<in> known \<and> p \<notin> rs_applied rs")
    case True
    with assms new have "rs' = rs\<lparr>rs_deferred := rs_deferred rs @ [e]\<rparr>" by (simp add: replay_event_def)
    with True show ?thesis by (intro later) simp_all
  next
    case free: False
    have v: "replay_event origins known rs e = (case authorize_and_apply (rs_index rs) e of
        Inr ix \<Rightarrow> Inr (rs\<lparr>rs_index := ix, rs_applied := insert (sg_event_id e) (rs_applied rs), rs_progressed := True\<rparr>)
      | Inl a \<Rightarrow> if ends_replay a then Inl a else Inr (rs\<lparr>rs_deferred := rs_deferred rs @ [e]\<rparr>))"
      using new free by (auto simp: replay_event_def)
    show ?thesis
    proof (cases "authorize_and_apply (rs_index rs) e")
      case (Inl a)
      then have "authorize (rs_index rs) e \<noteq> Inr ()" by (auto simp: authorize_and_apply_def)
      moreover have "rs' = rs\<lparr>rs_deferred := rs_deferred rs @ [e]\<rparr>"
        using v assms Inl by (simp split: if_splits)
      ultimately show ?thesis by (intro later) simp_all
    next
      case (Inr ix)
      with v assms new free show ?thesis by (intro run [of ix]) (simp_all add: contains_key_def)
    qed
  qed
qed

definition replay_ok ::
  "WorkspaceId \<Rightarrow> (EventId, ChannelId) fmap \<Rightarrow> SignedEvent list \<Rightarrow> ReplayState \<Rightarrow> bool" where
  "replay_ok w origins history rs \<longleftrightarrow> (\<exists>es. replayed w origins history (rs_index rs) (rs_applied rs) es)"

text \<open>What a pass does, relative to the state it starts from.\<close>

definition pass_rel ::
  "(EventId, ChannelId) fmap \<Rightarrow> SignedEvent list \<Rightarrow> SignedEvent set \<Rightarrow> ReplayState \<Rightarrow> ReplayState \<Rightarrow> bool" where
  "pass_rel origins history visited rs rs' \<longleftrightarrow>
     rs_applied rs \<subseteq> rs_applied rs' \<and> (rs_progressed rs \<longrightarrow> rs_progressed rs')
     \<and> set (rs_deferred rs) \<subseteq> set (rs_deferred rs') \<and> set (rs_deferred rs') \<subseteq> set (rs_deferred rs) \<union> visited
     \<and> (\<forall>e \<in> visited. fmlookup origins (sg_event_id e) \<noteq> None \<or> sg_event_id e \<in> rs_applied rs'
          \<or> e \<in> set (rs_deferred rs'))
     \<and> (\<not> rs_progressed rs' \<longrightarrow> rs_index rs' = rs_index rs \<and> rs_applied rs' = rs_applied rs
          \<and> (\<forall>e \<in> visited. settled origins history rs e))"

lemma replay_event_ok:
  assumes "replay_event origins (sg_event_id ` set history) rs e = Inr rs'" "replay_ok w origins history rs"
    "e \<in> set history"
  shows "replay_ok w origins history rs' \<and> pass_rel origins history {e} rs rs'"
  using assms(1)
proof (cases rule: replay_event_cases)
  case drop
  with assms(2) show ?thesis by (auto simp: pass_rel_def settled_def)
next
  case (run ix)
  with assms(2,3) have "replay_ok w origins history rs'"
    unfolding replay_ok_def by (auto dest: replayed_snoc)
  with run show ?thesis by (auto simp: pass_rel_def)
next
  case later
  with assms(2) show ?thesis by (auto simp: pass_rel_def settled_def replay_ok_def)
qed

lemma pass_rel_trans:
  assumes "pass_rel origins history A r1 r2" "pass_rel origins history B r2 r3"
  shows "pass_rel origins history (A \<union> B) r1 r3"
  using assms unfolding pass_rel_def settled_def by (cases "rs_progressed r3") (auto 4 3)

lemma replay_pass_ok:
  "replay_pass origins (sg_event_id ` set history) rs pending = Inr rs' \<Longrightarrow> replay_ok w origins history rs \<Longrightarrow>
     set pending \<subseteq> set history \<Longrightarrow> replay_ok w origins history rs' \<and> pass_rel origins history (set pending) rs rs'"
proof (induction pending arbitrary: rs)
  case Nil
  then show ?case by (simp add: pass_rel_def)
next
  case (Cons e pending)
  from Cons.prems(1) obtain rs1 where r: "replay_event origins (sg_event_id ` set history) rs e = Inr rs1"
    "replay_pass origins (sg_event_id ` set history) rs1 pending = Inr rs'"
    unfolding replay_pass.simps bind_res_Inr by blast
  have 1: "replay_ok w origins history rs1 \<and> pass_rel origins history {e} rs rs1"
    using replay_event_ok [OF r(1) Cons.prems(2)] Cons.prems(3) by simp
  with Cons.IH [OF r(2)] Cons.prems(3) have "replay_ok w origins history rs'"
    "pass_rel origins history (set pending) rs1 rs'" by simp_all
  with 1 pass_rel_trans [of origins history "{e}" rs rs1 "set pending" rs'] show ?case by simp
qed

lemma replay_rounds_ok:
  assumes "replay_rounds origins (sg_event_id ` set history) rs pending = Inr rs'"
    "replay_ok w origins history rs" "set pending \<subseteq> set history"
    "\<forall>e \<in> set history. fmlookup origins (sg_event_id e) \<noteq> None \<or> sg_event_id e \<in> rs_applied rs \<or> e \<in> set pending"
  shows "replay_ok w origins history rs' \<and> (\<forall>e \<in> set history. settled origins history rs' e)"
  using assms
proof (induction origins "sg_event_id ` set history" rs pending rule: replay_rounds.induct)
  case (1 origins rs pending)
  let ?rs = "rs\<lparr>rs_progressed := False, rs_deferred := []\<rparr>"
  have "replay_ok w origins history ?rs" using 1(3) by (simp add: replay_ok_def)
  from 1(2) obtain rs1 where p: "replay_pass origins (sg_event_id ` set history) ?rs pending = Inr rs1"
    and n: "if \<not> rs_progressed rs1 then rs' = rs1
      else replay_rounds origins (sg_event_id ` set history) rs1 (rs_deferred rs1) = Inr rs'"
    by (subst (asm) replay_rounds.simps) (auto split: sum.splits if_splits)
  from replay_pass_ok [OF p _ 1(4)] 1(3) have ok: "replay_ok w origins history rs1"
    "pass_rel origins history (set pending) ?rs rs1" by (simp_all add: replay_ok_def)
  show ?case
  proof (cases "rs_progressed rs1")
    case False
    with n ok 1(5) show ?thesis by (auto simp: pass_rel_def settled_def)
  next
    case True
    have "\<forall>e \<in> set history. fmlookup origins (sg_event_id e) \<noteq> None \<or> sg_event_id e \<in> rs_applied rs1
        \<or> e \<in> set (rs_deferred rs1)"
      using ok(2) 1(5) by (auto simp: pass_rel_def)
    moreover have "set (rs_deferred rs1) \<subseteq> set history" using ok(2) 1(4) by (auto simp: pass_rel_def)
    ultimately show ?thesis using 1(1) [OF p] True n ok(1) by simp
  qed
qed

end
