(* ===== verification/History_Properties.thy ===== *)
theory History_Properties
  imports History_Correct
begin

text \<open>
  The guarantees of \<open>authorize_event_with_history\<close>, and its agreement with the incremental index on
  histories that were applied in order.
\<close>

section \<open>Histories that were applied in order\<close>

definition causally_ordered :: "SignedEvent list \<Rightarrow> bool" where
  "causally_ordered es \<longleftrightarrow> distinct (map sg_event_id es)
     \<and> (\<forall>i < length es. set (ev_parents (es ! i)) \<inter> sg_event_id ` set es \<subseteq> sg_event_id ` set (take i es))"

lemma created_channel_accepted:
  assumes "access_inv ix" "authorize_and_apply ix e = Inr ix'" "created_channel e = Some c"
  shows "fmlookup (ix_channels ix) c = None \<and> fmlookup (ix_channels ix') c \<noteq> None"
  using assms(2,3)
  by (auto simp: created_channel_def authorize_and_apply_Inr authorize_Inr authorize_body_def
      authorize_channel_created_def authorize_direct_message_created_def require_new_channel_id_def
      contains_key_def result_simps apply_authorized_def apply_authorized_body_def index_update_defs
      split: EventBody.splits)

lemma created_once:
  assumes "accepted_run authorize_and_apply ix es ix'" "access_inv ix"
    "fmlookup (ix_channels ix) c \<noteq> None" "e \<in> set es"
  shows "created_channel e \<noteq> Some c"
  using assms
proof (induction rule: accepted_run.induct)
  case (run_cons ix e1 ix1 es ix2)
  have inv: "access_inv ix1" using run_cons.prems(1) run_cons.hyps(1) by (rule access_inv_step)
  have "created_channel e1 \<noteq> Some c"
    using created_channel_accepted [OF run_cons.prems(1) run_cons.hyps(1)] run_cons.prems(2) by auto
  moreover have "fmlookup (ix_channels ix1) c \<noteq> None"
    using index_extends_step [OF run_cons.prems(1) run_cons.hyps(1)] run_cons.prems(2)
    by (auto elim: index_extends_channel)
  ultimately show ?case using run_cons.IH [OF inv] run_cons.prems(3) by auto
qed simp

lemma creation_conflict_Cons:
  "creation_conflict (e # es) c \<longleftrightarrow> creation_conflict es c
     \<or> created_channel e = Some c
       \<and> (\<exists>e0 \<in> set es. created_channel e0 = Some c \<and> sg_event_id e0 \<noteq> sg_event_id e)"
  unfolding creation_conflict_def by (simp add: eq_commute [of "sg_event_id e"]) blast

lemma accepted_no_conflict:
  assumes "accepted_run authorize_and_apply ix es ix'" "access_inv ix"
  shows "\<not> creation_conflict es c"
  using assms
proof (induction rule: accepted_run.induct)
  case (run_nil ix)
  then show ?case by (simp add: creation_conflict_def)
next
  case (run_cons ix e ix1 es ix')
  have inv: "access_inv ix1" using run_cons.prems run_cons.hyps(1) by (rule access_inv_step)
  have "created_channel e2 \<noteq> Some c" if "created_channel e = Some c" "e2 \<in> set es" for e2
    using created_channel_accepted [OF run_cons.prems run_cons.hyps(1) that(1)]
      created_once [OF run_cons.hyps(2) inv _ that(2)] by blast
  with run_cons.IH [OF inv] show ?case by (auto simp: creation_conflict_Cons)
qed

lemma replay_pass_accepts:
  assumes "accepted_run authorize_and_apply (rs_index rs) es ix" "distinct (map sg_event_id es)"
    "rs_applied rs \<inter> sg_event_id ` set es = {}"
    "\<forall>i < length es. set (ev_parents (es ! i)) \<inter> known \<subseteq> rs_applied rs \<union> sg_event_id ` set (take i es)"
  shows "replay_pass fmempty known rs es =
    Inr (rs\<lparr>rs_index := ix, rs_applied := rs_applied rs \<union> sg_event_id ` set es,
            rs_progressed := rs_progressed rs \<or> es \<noteq> []\<rparr>)"
  using assms
proof (induction es arbitrary: rs)
  case (Cons e es)
  from Cons.prems(1) obtain ix1 where ix1: "authorize_and_apply (rs_index rs) e = Inr ix1"
    "accepted_run authorize_and_apply ix1 es ix" by auto
  have "\<not> (\<exists>p \<in> set (ev_parents e). p \<in> known \<and> p \<notin> rs_applied rs)"
    using Cons.prems(4) [rule_format, of 0] by auto
  then have step: "replay_event fmempty known rs e = Inr (rs\<lparr>rs_index := ix1,
      rs_applied := insert (sg_event_id e) (rs_applied rs), rs_progressed := True\<rparr>)" (is "_ = Inr ?rs")
    using Cons.prems(3) ix1(1) by (auto simp: replay_event_def contains_key_def)
  have "\<forall>i < length es. set (ev_parents (es ! i)) \<inter> known \<subseteq> rs_applied ?rs \<union> sg_event_id ` set (take i es)"
    using Cons.prems(4) by fastforce
  with Cons.IH [of ?rs] ix1(2) Cons.prems(2,3) step show ?case by (auto simp: Un_insert_left)
qed simp

lemma no_conflict_origins:
  assumes "origin_enumeration keys" "\<And>c. \<not> creation_conflict pending c"
  shows "conflict_origins keys pending = fmempty" "conflicting_channel_ids pending = {}"
proof -
  have "\<not> tainted pending i c" for i c
  proof
    assume "tainted pending i c"
    then show False by induction (use assms(2) in auto)
  qed
  then have "fmlookup (conflict_origins keys pending) i = None" for i
    by (simp add: origin_enumeration.conflict_origins_None [OF assms(1)])
  then show "conflict_origins keys pending = fmempty" by (intro fmap_ext) simp
  show "conflicting_channel_ids pending = {}" using assms(2) conflicting_channel_ids_iff by blast
qed

lemma run_workspace:
  assumes "accepted_run authorize_and_apply ix es ix'" "access_inv ix"
  shows "ix_workspace_id ix' = ix_workspace_id ix \<and> (\<forall>e \<in> set es. ev_workspace e = ix_workspace_id ix)"
  using assms
proof (induction rule: accepted_run.induct)
  case (run_cons ix e ix1 es ix')
  have "access_inv ix1" "ix_workspace_id ix1 = ix_workspace_id ix"
    using access_inv_step index_extends_step run_cons by (auto simp: index_extends_def)
  with run_cons show ?case by (auto simp: authorize_and_apply_Inr authorize_Inr)
qed simp

lemma replay_history_accepts:
  assumes "origin_enumeration keys" "accepted_run authorize_and_apply (index_new (ev_workspace ev)) es ix"
    "causally_ordered es"
  shows "\<exists>rs. replay_history keys es ev = Inr rs \<and> rs_index rs = ix"
proof -
  have nc: "conflict_origins keys es = fmempty"
    using no_conflict_origins [OF assms(1)] accepted_no_conflict [OF assms(2) access_inv_new] by blast
  let ?rs = "\<lparr>rs_index = index_new (ev_workspace ev), rs_applied = {}, rs_deferred = [], rs_progressed = False\<rparr>"
  have "replay_pass fmempty (sg_event_id ` set es) ?rs es =
      Inr (?rs\<lparr>rs_index := ix, rs_applied := sg_event_id ` set es, rs_progressed := es \<noteq> []\<rparr>)"
    using replay_pass_accepts [of ?rs es ix "sg_event_id ` set es"] assms(2,3)
    by (simp add: causally_ordered_def)
  then show ?thesis using assms(2)
    by (simp add: replay_history_def nc replay_rounds.simps [of _ _ ?rs] replay_rounds.simps [of _ _ _ "[]"])
qed

lemma history_agrees_with_run:
  assumes "origin_enumeration keys" "accepted_run authorize_and_apply (index_new (ev_workspace ev)) es ix"
    "causally_ordered es"
  shows "authorize_event_with_history keys es ev = authorize ix ev"
proof -
  have ws: "same_workspace es ev = es"
    using run_workspace [OF assms(2) access_inv_new] by (simp add: same_workspace_def index_new_def)
  have nc: "conflict_origins keys es = fmempty" "conflicting_channel_ids es = {}"
    using no_conflict_origins [OF assms(1)] accepted_no_conflict [OF assms(2) access_inv_new] by blast+
  obtain rs where rs: "replay_history keys es ev = Inr rs" "rs_index rs = ix"
    using replay_history_accepts [OF assms] by blast
  have "least_parent_origin fmempty ev = None"
    by (simp add: least_parent_origin_def List.map_filter_def)
  with rs show ?thesis
    by (cases "validate_signed_event_ids ev")
      (simp_all add: authorize_event_with_history_def ws nc authorize_def split: option.split)
qed

section \<open>Order independence and soundness\<close>

lemma conflict_origins_unique:
  assumes "origin_enumeration k1" "origin_enumeration k2"
  shows "conflict_origins k1 pending = conflict_origins k2 pending"
proof (rule fmap_ext)
  fix i
  have "fmlookup (conflict_origins k1 pending) i = Some c \<longleftrightarrow>
      fmlookup (conflict_origins k2 pending) i = Some c" for c
    using origin_enumeration.conflict_origins_least [OF assms(1), of pending i c]
      origin_enumeration.conflict_origins_least [OF assms(2), of pending i c] by simp
  then show "fmlookup (conflict_origins k1 pending) i = fmlookup (conflict_origins k2 pending) i"
    by (metis not_Some_eq)
qed

lemma foldl_min:
  "foldl min c cs \<in> insert c (set cs) \<and> (\<forall>d \<in> insert c (set cs). foldl min c cs \<le> d)"
  for c :: "'a::linorder"
proof (induction cs arbitrary: c)
  case (Cons a cs)
  from Cons [of "min c a"] show ?case by (auto simp: min_def split: if_splits)
qed simp

lemma set_map_filter: "set (List.map_filter f xs) = {y. \<exists>x \<in> set xs. f x = Some y}"
  by (force simp: List.map_filter_def)

lemma least_parent_origin_Some:
  assumes "least_parent_origin origins ev = Some c"
  shows "(\<exists>p \<in> set (ev_parents ev). fmlookup origins p = Some c)
     \<and> (\<forall>p \<in> set (ev_parents ev). \<forall>d. fmlookup origins p = Some d \<longrightarrow> c \<le> d)"
proof -
  obtain x xs where l: "List.map_filter (fmlookup origins) (ev_parents ev) = x # xs"
    and c: "c = foldl min x xs"
    using assms by (auto simp: least_parent_origin_def split: list.splits)
  have "insert x (set xs) = {y. \<exists>p \<in> set (ev_parents ev). fmlookup origins p = Some y}"
    using set_map_filter [of "fmlookup origins" "ev_parents ev"] l by simp
  with foldl_min [of x xs] c show ?thesis by auto
qed

lemma least_parent_origin_None:
  "least_parent_origin origins ev = None \<longleftrightarrow> (\<forall>p \<in> set (ev_parents ev). fmlookup origins p = None)"
proof -
  have "least_parent_origin origins ev = None \<longleftrightarrow> List.map_filter (fmlookup origins) (ev_parents ev) = []"
    by (simp add: least_parent_origin_def split: list.split)
  also have "\<dots> \<longleftrightarrow> {y. \<exists>p \<in> set (ev_parents ev). fmlookup origins p = Some y} = {}"
    unfolding set_map_filter [symmetric] by simp
  finally show ?thesis by (auto simp: not_Some_eq [symmetric] simp del: not_Some_eq)
qed

lemma tainted_conflict: "tainted pending i c \<Longrightarrow> creation_conflict pending c"
  by (induction rule: tainted.induct)

lemma replay_history_ok:
  assumes "replay_history keys history ev = Inr rs"
  shows "replay_ok (ev_workspace ev) (conflict_origins keys history) history rs
    \<and> (\<forall>e \<in> set history. settled (conflict_origins keys history) history rs e)"
proof -
  have "replay_ok (ev_workspace ev) (conflict_origins keys history) history
      \<lparr>rs_index = index_new (ev_workspace ev), rs_applied = {}, rs_deferred = [], rs_progressed = False\<rparr>"
    by (auto simp: replay_ok_def replayed_def intro!: exI [of _ "[]"])
  from replay_rounds_ok [OF assms [unfolded replay_history_def] this] show ?thesis by simp
qed

definition sorted_keys :: origin_iteration where
  "sorted_keys m = sorted_list_of_fset (fmdom m)"

interpretation sorted_origins: origin_enumeration sorted_keys
  by unfold_locales (simp add: sorted_keys_def fmdom'_alt_def)

interpretation reversed_origins: origin_enumeration "\<lambda>m. rev (sorted_keys m)"
  by unfold_locales (simp add: sorted_keys_def fmdom'_alt_def)

section \<open>Properties\<close>

text \<open>
  C35: the worklist terminates and computes for every event, whatever the order in which the hash
  map is visited, the least identifier among the conflicting channels defined by the event or one
  of its causal ancestors, and nothing for an event without such an ancestor.
\<close>

theorem conflict_origin_is_least_ancestor:
  assumes "origin_enumeration keys"
  shows "fmlookup (conflict_origins keys pending) i = Some c \<longleftrightarrow>
    tainted pending i c \<and> (\<forall>d. tainted pending i d \<longrightarrow> c \<le> d)"
  using origin_enumeration.conflict_origins_least [OF assms] .

definition post_general :: SignedEvent where
  "post_general = sample_event ''m1'' alice (Some general) [EventId ''p2''] (MessageCreated hello ''hi'' [])"

definition forked_history :: "SignedEvent list" where
  "forked_history = [create_team, open_public, post_general, open_private]"

lemmas forked_eval =
  forked_history_def open_public_def open_private_def post_general_def scenario_events scenario_names
  created_channel_def

lemma forked_conflict: "creation_conflict forked_history c \<longleftrightarrow> c = general"
  by (auto simp: creation_conflict_def forked_eval)

lemma forked_taint: "tainted forked_history (EventId ''m1'') general"
proof -
  have "tainted forked_history (sg_event_id open_private) general"
    by (rule taint_root) (simp_all add: forked_conflict, simp_all add: forked_eval)
  then have "tainted forked_history (sg_event_id post_general) general"
    by (rule taint_descendant) (simp_all add: forked_eval)
  then show ?thesis by (simp add: post_general_def)
qed

theorem conflict_origin_is_least_ancestor_witness:
  "fmlookup (conflict_origins sorted_keys forked_history) (EventId ''m1'') = Some general"
  unfolding conflict_origin_is_least_ancestor [OF sorted_origins.origin_enumeration_axioms]
  using forked_taint by (auto simp: forked_conflict dest: tainted_conflict)

text \<open>
  The decision about an event does not depend on the iteration order of the hash map that seeds
  the worklist.
\<close>

theorem history_decision_order_independent:
  assumes "origin_enumeration k1" "origin_enumeration k2"
  shows "authorize_event_with_history k1 history ev = authorize_event_with_history k2 history ev"
  unfolding authorize_event_with_history_def replay_history_def conflict_origins_unique [OF assms] ..

theorem history_decision_order_independent_witness:
  "authorize_event_with_history sorted_keys forked_history post_general
     = authorize_event_with_history (\<lambda>m. rev (sorted_keys m)) forked_history post_general"
  using history_decision_order_independent [OF sorted_origins.origin_enumeration_axioms
      reversed_origins.origin_enumeration_axioms] .

definition declares_conflict :: "SignedEvent list \<Rightarrow> SignedEvent \<Rightarrow> bool" where
  "declares_conflict h ev \<longleftrightarrow> (case event_declared_channel_id ev of Some c \<Rightarrow> creation_conflict h c | None \<Rightarrow> False)"


definition reply_general :: SignedEvent where
  "reply_general = sample_event ''m2'' alice None [EventId ''m1''] (DeviceProfileUpdated ''Alice'' [])"


text \<open>
  An event is accepted only by an index that replays untainted events of the history, each
  once and after those of its parents that the history contains, and that no further event of the
  history could extend.
\<close>

theorem accepted_event_rests_on_replay:
  assumes "authorize_event_with_history keys history ev = Inr ()"
  defines "h \<equiv> same_workspace history ev"
  shows "\<exists>es ix. replayed (ev_workspace ev) (conflict_origins keys h) h ix (sg_event_id ` set es) es
    \<and> authorize ix ev = Inr ()
    \<and> (\<forall>e \<in> set h. fmlookup (conflict_origins keys h) (sg_event_id e) = None
          \<and> sg_event_id e \<notin> sg_event_id ` set es
          \<and> set (ev_parents e) \<inter> sg_event_id ` set h \<subseteq> sg_event_id ` set es
        \<longrightarrow> authorize ix e \<noteq> Inr ())"
proof -
  obtain rs where rs: "replay_history keys h ev = Inr rs" "authorize (rs_index rs) ev = Inr ()"
    using assms(1)
    by (auto simp: authorize_event_with_history_def then_res_Inr bind_res_Inr Let_def h_def
        split: option.splits if_splits)
  from replay_history_ok [OF rs(1)] obtain es
    where es: "replayed (ev_workspace ev) (conflict_origins keys h) h (rs_index rs) (rs_applied rs) es"
      and s: "\<forall>e \<in> set h. settled (conflict_origins keys h) h rs e"
    by (auto simp: replay_ok_def)
  then have a: "rs_applied rs = sg_event_id ` set es" by (simp add: replayed_def)
  have "authorize (rs_index rs) e \<noteq> Inr ()"
    if "e \<in> set h" "fmlookup (conflict_origins keys h) (sg_event_id e) = None"
      "sg_event_id e \<notin> sg_event_id ` set es"
      "set (ev_parents e) \<inter> sg_event_id ` set h \<subseteq> sg_event_id ` set es" for e
    using bspec [OF s that(1)] that(2-4) unfolding settled_def a by blast
  then show ?thesis using es rs(2) unfolding a by blast
qed

theorem accepted_event_rests_on_replay_witness:
  "\<exists>es ix. replayed team (conflict_origins sorted_keys []) [] ix (sg_event_id ` set es) es
    \<and> authorize ix create_team = Inr ()"
proof -
  have "authorize_event_with_history sorted_keys [] create_team = Inr ()"
    by (simp add: authorize_event_with_history_def same_workspace_def replay_history_def
        replay_rounds.simps conflict_origins_def conflict_roots_def children_by_parent_def
        propagate_conflicts.simps sorted_keys_def conflicting_channel_ids_def create_team_def
        event_declared_channel_id_def least_parent_origin_def authorize_eval index_new_def scenario_names)
  from accepted_event_rests_on_replay [OF this] show ?thesis
    by (auto simp: same_workspace_def create_team_def)
qed

text \<open>
  On a history that an access index accepted in this order, each event after its parents, the
  stateless decision is the decision of that index, errors included.
\<close>

theorem history_decision_agrees_with_index:
  assumes "origin_enumeration keys" "causally_ordered es"
    and "accepted_run authorize_and_apply (index_new (ev_workspace ev)) es ix"
  shows "authorize_event_with_history keys es ev = authorize ix ev"
  using history_agrees_with_run [OF assms(1,3,2)] .

lemma team_causal: "causally_ordered team_history"
  by (simp add: causally_ordered_def team_history_def scenario_events scenario_names nth_Cons' less_Suc_eq
      numeral_eq_Suc)

theorem history_decision_agrees_with_index_witness:
  "authorize_event_with_history sorted_keys team_history grant_bob = Inr ()"
proof -
  have "authorize_event_with_history sorted_keys team_history grant_bob = authorize team_index grant_bob"
    by (rule history_decision_agrees_with_index [OF sorted_origins.origin_enumeration_axioms team_causal])
      (use team_run in \<open>simp add: grant_bob_def\<close>)
  then show ?thesis using grant_bob_accepted(1) by (simp add: authorize_and_apply_Inr)
qed

end
