(* ===== verification/Trust_Snapshot.thy ===== *)
theory Trust_Snapshot
  imports History_Properties
begin

text \<open>
  Trust snapshots of \<^verbatim>\<open>src/domain/core/src/lib.rs\<close>: the access state of a workspace as sorted lists,
  produced from a history (\<open>trust_snapshot_from_events\<close>), narrowed to what given events need
  (\<open>trust_snapshot_for_events\<close>) and loaded back into an access index (\<open>from_trust_snapshot\<close>).
\<close>

section \<open>Loading a snapshot\<close>

text \<open>
  A loop that inserts the items of a list into a map and fails on an item that is not valid or whose
  key is already present.
\<close>

fun load_unique ::
  "('x \<Rightarrow> 'k) \<Rightarrow> ('x \<Rightarrow> 'v) \<Rightarrow> ('x \<Rightarrow> bool) \<Rightarrow> ('k, 'v) fmap \<Rightarrow> 'x list \<Rightarrow> AuthorizationError + ('k, 'v) fmap" where
  "load_unique key val valid m [] = Inr m"
| "load_unique key val valid m (x # xs) =
     (if contains_key m (key x) \<or> \<not> valid x then Inl InvalidTrustSnapshot
      else load_unique key val valid (fmupd (key x) (val x) m) xs)"

text \<open>Every member of a channel has a role and is listed once.\<close>

fun load_members ::
  "(DeviceId, WorkspaceRole) fmap \<Rightarrow> DeviceId set \<Rightarrow> DeviceId list \<Rightarrow> DeviceId set option" where
  "load_members roles members [] = Some members"
| "load_members roles members (d # ds) =
     (if \<not> contains_key roles d \<or> d \<in> members then None else load_members roles (insert d members) ds)"

definition snapshot_channel_access :: "TrustSnapshotChannel \<Rightarrow> ChannelAccess" where
  "snapshot_channel_access channel =
     \<lparr>ca_is_private = tsc_is_private channel, ca_creator_device_id = tsc_creator_device_id channel,
      ca_members = set (tsc_member_device_ids channel)\<rparr>"

fun load_links ::
  "(DeviceId, WorkspaceRole) fmap \<Rightarrow> (DeviceId, PersonId) fmap \<Rightarrow> (PersonId, DeviceId) fmap
    \<Rightarrow> TrustSnapshotPersonDeviceLink list \<Rightarrow> AuthorizationError + (DeviceId, PersonId) fmap" where
  "load_links roles links persons [] = Inr links"
| "load_links roles links persons (l # ls) =
     (if \<not> contains_key roles (tsl_device_id l) \<or> contains_key links (tsl_device_id l)
      then Inl InvalidTrustSnapshot
      else if contains_key persons (tsl_person_id l) then Inl InvalidTrustSnapshot
      else load_links roles (fmupd (tsl_device_id l) (tsl_person_id l) links)
             (fmupd (tsl_person_id l) (tsl_device_id l) persons) ls)"

definition snapshot_message_access :: "TrustSnapshotMessage \<Rightarrow> MessageAccess" where
  "snapshot_message_access message =
     \<lparr>ma_channel_id = tsm_channel_id message, ma_author_device_id = tsm_author_device_id message\<rparr>"

definition from_trust_snapshot :: "TrustSnapshot \<Rightarrow> AuthorizationError + WorkspaceAccessIndex" where
  "from_trust_snapshot snapshot =
     (if ts_schema_version snapshot \<noteq> 1 then Inl InvalidTrustSnapshot
      else then_res (validate_trust_snapshot_ids snapshot)
       (bind_res (load_unique tsr_device_id tsr_role (\<lambda>_. True)
                   (fmupd (ts_root_author_device_id snapshot) Owner fmempty) (ts_roles snapshot)) (\<lambda>roles.
        bind_res (load_unique tsc_channel_id snapshot_channel_access
                   (\<lambda>c. load_members roles {} (tsc_member_device_ids c) \<noteq> None) fmempty
                   (ts_channels snapshot)) (\<lambda>channels.
        bind_res (load_links roles fmempty fmempty (ts_person_device_links snapshot)) (\<lambda>links.
        bind_res (load_unique tsm_message_id snapshot_message_access
                   (\<lambda>m. contains_key channels (tsm_channel_id m)) fmempty (ts_messages snapshot)) (\<lambda>messages.
        bind_res (load_unique tse_event_id tse_channel_id
                   (\<lambda>e. contains_key channels (tse_channel_id e)) fmempty
                   (ts_event_channels snapshot)) (\<lambda>event_channels.
          Inr ((index_new (ts_workspace_id snapshot))
                \<lparr>ix_root_seen := True, ix_root_device_id := Some (ts_root_author_device_id snapshot),
                 ix_roles := roles, ix_channels := channels, ix_person_links := links,
                 ix_messages := messages, ix_event_channels := event_channels\<rparr>))))))))"

definition authorize_event_with_trust_snapshot :: "TrustSnapshot \<Rightarrow> SignedEvent \<Rightarrow> auth_result" where
  "authorize_event_with_trust_snapshot snapshot event =
     bind_res (from_trust_snapshot snapshot) (\<lambda>ix. authorize ix event)"

section \<open>Producing a snapshot\<close>

record SnapshotParts =
  parts_roles :: "(DeviceId, WorkspaceRole) fmap"
  parts_channels :: "(ChannelId, TrustSnapshotChannel) fmap"
  parts_messages :: "(MessageId, ChannelId \<times> DeviceId) fmap"
  parts_event_channels :: "(EventId, ChannelId) fmap"
  parts_links :: "(DeviceId, PersonId) fmap"

definition parts_empty :: SnapshotParts where
  "parts_empty = \<lparr>parts_roles = fmempty, parts_channels = fmempty, parts_messages = fmempty,
     parts_event_channels = fmempty, parts_links = fmempty\<rparr>"

definition parts_note_channel :: "SignedEvent \<Rightarrow> ChannelId \<Rightarrow> SnapshotParts \<Rightarrow> SnapshotParts" where
  "parts_note_channel event channel_id parts =
     parts\<lparr>parts_event_channels := fmupd (sg_event_id event) channel_id (parts_event_channels parts)\<rparr>"

definition parts_insert_role :: "DeviceId \<Rightarrow> WorkspaceRole \<Rightarrow> SnapshotParts \<Rightarrow> SnapshotParts" where
  "parts_insert_role device_id role parts =
     parts\<lparr>parts_roles := fmupd device_id role (parts_roles parts)\<rparr>"

definition parts_remove_member :: "DeviceId \<Rightarrow> SnapshotParts \<Rightarrow> SnapshotParts" where
  "parts_remove_member removed parts =
     parts\<lparr>parts_roles := fmdrop removed (parts_roles parts),
           parts_links := fmdrop removed (parts_links parts),
           parts_channels := fmmap (\<lambda>c. c\<lparr>tsc_member_device_ids :=
             filter (\<lambda>d. d \<noteq> removed) (tsc_member_device_ids c)\<rparr>) (parts_channels parts)\<rparr>"

definition parts_create_channel ::
  "SignedEvent \<Rightarrow> ChannelId \<Rightarrow> bool \<Rightarrow> DeviceId list \<Rightarrow> SnapshotParts \<Rightarrow> SnapshotParts" where
  "parts_create_channel event channel_id is_private members parts =
     parts_note_channel event channel_id
       (parts\<lparr>parts_channels := fmupd channel_id
          \<lparr>tsc_channel_id = channel_id, tsc_is_private = is_private,
           tsc_creator_device_id = ev_author event, tsc_member_device_ids = members\<rparr>
          (parts_channels parts)\<rparr>)"

definition parts_add_channel_member ::
  "SignedEvent \<Rightarrow> ChannelId \<Rightarrow> DeviceId \<Rightarrow> SnapshotParts \<Rightarrow> SnapshotParts" where
  "parts_add_channel_member event channel_id member parts =
     parts_note_channel event channel_id
       (parts\<lparr>parts_channels := fm_modify channel_id
          (\<lambda>c. if member \<notin> set (tsc_member_device_ids c)
               then c\<lparr>tsc_member_device_ids := tsc_member_device_ids c @ [member]\<rparr> else c)
          (parts_channels parts)\<rparr>)"

definition parts_remove_channel_member ::
  "SignedEvent \<Rightarrow> ChannelId \<Rightarrow> DeviceId \<Rightarrow> SnapshotParts \<Rightarrow> SnapshotParts" where
  "parts_remove_channel_member event channel_id member parts =
     parts_note_channel event channel_id
       (parts\<lparr>parts_channels := fm_modify channel_id
          (\<lambda>c. c\<lparr>tsc_member_device_ids := filter (\<lambda>d. d \<noteq> member) (tsc_member_device_ids c)\<rparr>)
          (parts_channels parts)\<rparr>)"

definition parts_message_created :: "SignedEvent \<Rightarrow> MessageId \<Rightarrow> SnapshotParts \<Rightarrow> SnapshotParts" where
  "parts_message_created event message_id parts =
     (case ev_channel event of
        None \<Rightarrow> parts
      | Some channel_id \<Rightarrow>
          parts_note_channel event channel_id
            (parts\<lparr>parts_messages :=
               fmupd message_id (channel_id, ev_author event) (parts_messages parts)\<rparr>))"

definition parts_message_touched :: "SignedEvent \<Rightarrow> MessageId \<Rightarrow> SnapshotParts \<Rightarrow> SnapshotParts" where
  "parts_message_touched event message_id parts =
     (case fmlookup (parts_messages parts) message_id of
        None \<Rightarrow> parts
      | Some (channel_id, _) \<Rightarrow> parts_note_channel event channel_id parts)"

definition parts_apply :: "SnapshotParts \<Rightarrow> SignedEvent \<Rightarrow> SnapshotParts" where
  "parts_apply parts event =
     (case ev_body event of
        OpenMlsChannelGroupMemberAdded channel_id _ _ _ _ _ _ _ _ _ _ \<Rightarrow>
          parts_note_channel event channel_id parts
      | OpenMlsChannelGroupMemberRemoved channel_id _ _ _ _ _ _ _ \<Rightarrow>
          parts_note_channel event channel_id parts
      | OpenMlsChannelGroupSelfUpdated channel_id _ _ _ _ _ _ \<Rightarrow>
          parts_note_channel event channel_id parts
      | ContentKeyEpochPublished scope _ _ _ _ \<Rightarrow>
          (case scope of
             ScopeWorkspace \<Rightarrow> parts
           | ScopeChannel channel_id \<Rightarrow> parts_note_channel event channel_id parts)
      | MemberInvited invitee role \<Rightarrow> parts_insert_role invitee role parts
      | MemberRoleUpdated member role \<Rightarrow> parts_insert_role member role parts
      | MemberRemoved removed \<Rightarrow> parts_remove_member removed parts
      | ChannelCreated channel_id _ is_private \<Rightarrow>
          parts_create_channel event channel_id is_private
            (if is_private then [ev_author event] else []) parts
      | DirectMessageChannelCreated channel_id _ participants \<Rightarrow>
          parts_create_channel event channel_id True
            (direct_message_members participants (ev_author event)) parts
      | ChannelDetailsUpdated channel_id _ _ _ \<Rightarrow> parts_note_channel event channel_id parts
      | ChannelMemberAdded channel_id member \<Rightarrow> parts_add_channel_member event channel_id member parts
      | ChannelMemberRemoved channel_id member \<Rightarrow>
          parts_remove_channel_member event channel_id member parts
      | PersonDeviceLinked person_id device_id \<Rightarrow>
          parts\<lparr>parts_links := fmupd device_id person_id (parts_links parts)\<rparr>
      | MessageCreated message_id _ _ \<Rightarrow> parts_message_created event message_id parts
      | MessageCreatedEncrypted message_id _ _ \<Rightarrow> parts_message_created event message_id parts
      | MessageReplyCreated message_id _ _ _ \<Rightarrow> parts_message_created event message_id parts
      | MessageReplyCreatedEncrypted message_id _ _ _ \<Rightarrow> parts_message_created event message_id parts
      | MessageEdited message_id _ \<Rightarrow> parts_message_touched event message_id parts
      | MessageEditedEncrypted message_id _ \<Rightarrow> parts_message_touched event message_id parts
      | MessageDeleted message_id \<Rightarrow> parts_message_touched event message_id parts
      | ReactionAdded message_id _ \<Rightarrow> parts_message_touched event message_id parts
      | ReactionRemoved message_id _ \<Rightarrow> parts_message_touched event message_id parts
      | ReadMarkerUpdated channel_id _ \<Rightarrow> parts_note_channel event channel_id parts
      | _ \<Rightarrow> parts)"

text \<open>
  The hash maps are emptied into vectors that are then sorted by their keys, which are distinct, so
  the iteration order of the maps does not matter.
\<close>

definition snapshot_of_parts :: "WorkspaceId \<Rightarrow> SignedEvent \<Rightarrow> SnapshotParts \<Rightarrow> TrustSnapshot" where
  "snapshot_of_parts workspace_id root_event parts =
     (let root = ev_author root_event in
      \<lparr>ts_schema_version = 1, ts_workspace_id = workspace_id,
       ts_root_event_id = sg_event_id root_event, ts_root_author_device_id = root,
       ts_roles = map (\<lambda>(d, r). \<lparr>tsr_device_id = d, tsr_role = r\<rparr>)
         (sorted_list_of_fmap (fmdrop root (parts_roles parts))),
       ts_channels = map (\<lambda>(_, c). c\<lparr>tsc_member_device_ids := remdups_adj (sort (tsc_member_device_ids c))\<rparr>)
         (sorted_list_of_fmap (parts_channels parts)),
       ts_messages = map (\<lambda>(m, (c, a)). \<lparr>tsm_message_id = m, tsm_channel_id = c, tsm_author_device_id = Some a\<rparr>)
         (sorted_list_of_fmap (parts_messages parts)),
       ts_event_channels = map (\<lambda>(e, c). \<lparr>tse_event_id = e, tse_channel_id = c\<rparr>)
         (sorted_list_of_fmap (parts_event_channels parts)),
       ts_person_device_links = map (\<lambda>(d, p). \<lparr>tsl_person_id = p, tsl_device_id = d\<rparr>)
         (sorted_list_of_fmap (parts_links parts))\<rparr>)"

definition is_workspace_created :: "SignedEvent \<Rightarrow> bool" where
  "is_workspace_created event = (case ev_body event of WorkspaceCreated _ \<Rightarrow> True | _ \<Rightarrow> False)"

definition applied_of_batch :: "SignedEvent list \<Rightarrow> MaterializationReport \<Rightarrow> SignedEvent list" where
  "applied_of_batch events report =
     filter (\<lambda>e. sg_event_id e \<in> set (rep_applied_events report)) events"

definition trust_snapshot_from_events ::
  "invite_iteration \<Rightarrow> WorkspaceId \<Rightarrow> SignedEvent list \<Rightarrow> CoreError + TrustSnapshot \<times> SignedEvent" where
  "trust_snapshot_from_events vals workspace_id events =
     (case apply_batch vals (state_new workspace_id) events of
        Inl (e, _) \<Rightarrow> Inl e
      | Inr (_, report) \<Rightarrow>
          let applied = applied_of_batch events report in
          bind_res (ok_or (find is_workspace_created applied) (CoreAuthorization MissingWorkspaceRoot))
            (\<lambda>root_event.
              Inr (snapshot_of_parts workspace_id root_event (foldl parts_apply parts_empty applied),
                   root_event)))"

section \<open>Narrowing a snapshot\<close>

record SnapshotNeeds =
  need_devices :: "DeviceId set"
  need_channels :: "ChannelId set"
  need_messages :: "MessageId set"
  need_event_channels :: "EventId set"

definition needs_device :: "DeviceId \<Rightarrow> SnapshotNeeds \<Rightarrow> SnapshotNeeds" where
  "needs_device d needs = needs\<lparr>need_devices := insert d (need_devices needs)\<rparr>"

definition needs_channel :: "ChannelId \<Rightarrow> SnapshotNeeds \<Rightarrow> SnapshotNeeds" where
  "needs_channel c needs = needs\<lparr>need_channels := insert c (need_channels needs)\<rparr>"

definition needs_message :: "MessageId \<Rightarrow> SnapshotNeeds \<Rightarrow> SnapshotNeeds" where
  "needs_message m needs = needs\<lparr>need_messages := insert m (need_messages needs)\<rparr>"

definition collect_body_dependencies :: "EventBody \<Rightarrow> SnapshotNeeds \<Rightarrow> SnapshotNeeds" where
  "collect_body_dependencies body needs =
     (case body of
        WorkspaceInviteRecorded _ invitee _ _ _ _ _ _ \<Rightarrow> needs_device invitee needs
      | WorkspaceInviteClaimed _ invitee _ \<Rightarrow> needs_device invitee needs
      | WorkspaceJoinRequestRecorded _ requester _ _ _ _ _ _ _ \<Rightarrow> needs_device requester needs
      | MemberRoleUpdated member _ \<Rightarrow> needs_device member needs
      | MemberRemoved removed \<Rightarrow> needs_device removed needs
      | PersonDeviceLinked _ device_id \<Rightarrow> needs_device device_id needs
      | DirectMessageChannelCreated channel_id _ participants \<Rightarrow>
          foldl (\<lambda>n p. needs_device p n) (needs_channel channel_id needs) participants
      | ChannelDetailsUpdated channel_id _ _ _ \<Rightarrow> needs_channel channel_id needs
      | ChannelMemberAdded channel_id member \<Rightarrow> needs_device member (needs_channel channel_id needs)
      | ChannelMemberRemoved channel_id member \<Rightarrow> needs_device member (needs_channel channel_id needs)
      | OpenMlsWorkspaceGroupMemberAdded invitee _ _ _ _ _ _ _ _ _ \<Rightarrow> needs_device invitee needs
      | OpenMlsWorkspaceGroupMemberRemoved removed _ _ _ _ _ _ \<Rightarrow> needs_device removed needs
      | OpenMlsChannelGroupMemberAdded channel_id invitee _ _ _ _ _ _ _ _ _ \<Rightarrow>
          needs_device invitee (needs_channel channel_id needs)
      | OpenMlsChannelGroupMemberRemoved channel_id removed _ _ _ _ _ _ \<Rightarrow>
          needs_device removed (needs_channel channel_id needs)
      | OpenMlsChannelGroupSelfUpdated channel_id _ _ _ _ _ _ \<Rightarrow> needs_channel channel_id needs
      | ContentKeyEpochPublished scope _ _ _ _ \<Rightarrow>
          (case scope of ScopeWorkspace \<Rightarrow> needs | ScopeChannel channel_id \<Rightarrow> needs_channel channel_id needs)
      | MessageReplyCreated _ reply_to _ _ \<Rightarrow> needs_message reply_to needs
      | MessageReplyCreatedEncrypted _ reply_to _ _ \<Rightarrow> needs_message reply_to needs
      | MessageEdited message_id _ \<Rightarrow> needs_message message_id needs
      | MessageEditedEncrypted message_id _ \<Rightarrow> needs_message message_id needs
      | MessageDeleted message_id \<Rightarrow> needs_message message_id needs
      | ReactionAdded message_id _ \<Rightarrow> needs_message message_id needs
      | ReactionRemoved message_id _ \<Rightarrow> needs_message message_id needs
      | ReadMarkerUpdated channel_id event_id \<Rightarrow>
          (needs_channel channel_id needs)
            \<lparr>need_event_channels := insert event_id (need_event_channels needs)\<rparr>
      | _ \<Rightarrow> needs)"

definition collect_trust_snapshot_dependencies :: "SnapshotNeeds \<Rightarrow> SignedEvent \<Rightarrow> SnapshotNeeds" where
  "collect_trust_snapshot_dependencies needs event =
     (let needs1 = needs_device (ev_author event) needs;
          needs2 = (case ev_channel event of None \<Rightarrow> needs1 | Some c \<Rightarrow> needs_channel c needs1)
      in collect_body_dependencies (ev_body event) needs2)"

definition need_of_message :: "SnapshotNeeds \<Rightarrow> TrustSnapshotMessage \<Rightarrow> SnapshotNeeds" where
  "need_of_message needs message =
     (if tsm_message_id message \<in> need_messages needs then
        (let needs1 = needs_channel (tsm_channel_id message) needs
         in case tsm_author_device_id message of None \<Rightarrow> needs1 | Some a \<Rightarrow> needs_device a needs1)
      else needs)"

definition need_of_event_channel :: "SnapshotNeeds \<Rightarrow> TrustSnapshotEventChannel \<Rightarrow> SnapshotNeeds" where
  "need_of_event_channel needs ec =
     (if tse_event_id ec \<in> need_event_channels needs then needs_channel (tse_channel_id ec) needs else needs)"

definition snapshot_needs :: "TrustSnapshot \<Rightarrow> SignedEvent list \<Rightarrow> SnapshotNeeds" where
  "snapshot_needs snapshot target_events =
     (let needs0 = \<lparr>need_devices = {ts_root_author_device_id snapshot}, need_channels = {},
                    need_messages = {}, need_event_channels = {}\<rparr>;
          needs1 = foldl collect_trust_snapshot_dependencies needs0 target_events;
          needs2 = foldl need_of_message needs1 (ts_messages snapshot)
      in foldl need_of_event_channel needs2 (ts_event_channels snapshot))"

definition retain_needed :: "SnapshotNeeds \<Rightarrow> TrustSnapshot \<Rightarrow> TrustSnapshot" where
  "retain_needed needs snapshot =
     snapshot
       \<lparr>ts_roles := filter (\<lambda>r. tsr_device_id r \<in> need_devices needs) (ts_roles snapshot),
        ts_channels :=
          map (\<lambda>c. c\<lparr>tsc_member_device_ids :=
                 filter (\<lambda>d. d \<in> need_devices needs) (tsc_member_device_ids c)\<rparr>)
            (filter (\<lambda>c. tsc_channel_id c \<in> need_channels needs) (ts_channels snapshot)),
        ts_messages := filter (\<lambda>m. tsm_message_id m \<in> need_messages needs) (ts_messages snapshot),
        ts_event_channels :=
          filter (\<lambda>e. tse_event_id e \<in> need_event_channels needs) (ts_event_channels snapshot),
        ts_person_device_links :=
          filter (\<lambda>l. tsl_device_id l \<in> need_devices needs) (ts_person_device_links snapshot)\<rparr>"

definition trust_snapshot_for_events :: "TrustSnapshot \<Rightarrow> SignedEvent list \<Rightarrow> TrustSnapshot" where
  "trust_snapshot_for_events snapshot target_events =
     retain_needed (snapshot_needs snapshot target_events) snapshot"

definition trust_snapshot_for_events_from_events ::
  "invite_iteration \<Rightarrow> WorkspaceId \<Rightarrow> SignedEvent list \<Rightarrow> SignedEvent list
    \<Rightarrow> CoreError + TrustSnapshot \<times> SignedEvent" where
  "trust_snapshot_for_events_from_events vals workspace_id events target_events =
     bind_res (trust_snapshot_from_events vals workspace_id events) (\<lambda>(snapshot, root_event).
       Inr (trust_snapshot_for_events snapshot target_events, root_event))"

definition trust_snapshot_for_event_from_events ::
  "invite_iteration \<Rightarrow> WorkspaceId \<Rightarrow> SignedEvent list \<Rightarrow> SignedEvent
    \<Rightarrow> CoreError + TrustSnapshot \<times> SignedEvent" where
  "trust_snapshot_for_event_from_events vals workspace_id events event =
     trust_snapshot_for_events_from_events vals workspace_id events [event]"

end
