(* ===== verification/Trust_Correct.thy ===== *)
theory Trust_Correct
  imports Trust_Snapshot
begin

text \<open>
  What loading a snapshot accepts, the round trip from an in-order history through a snapshot back
  to an access index, and the decisions a narrowed snapshot preserves.
\<close>

section \<open>Closed forms of the loading loops\<close>

lemma fmlookup_add_of_list:
  "fmlookup (m ++\<^sub>f fmap_of_list kvs) k = (case map_of kvs k of None \<Rightarrow> fmlookup m k | Some v \<Rightarrow> Some v)"
  by (cases "map_of kvs k")
    (simp_all add: fmlookup_of_list fmlookup_dom_iff del: fmdom_fmap_of_list)

lemma add_of_list_Cons:
  assumes "k \<notin> fst ` set kvs"
  shows "fmupd k v m ++\<^sub>f fmap_of_list kvs = m ++\<^sub>f fmap_of_list ((k, v) # kvs)"
proof (rule fmap_ext)
  fix k'
  have "map_of kvs k = None" using assms by (simp add: map_of_eq_None_iff)
  then show "fmlookup (fmupd k v m ++\<^sub>f fmap_of_list kvs) k' = fmlookup (m ++\<^sub>f fmap_of_list ((k, v) # kvs)) k'"
    unfolding fmlookup_add_of_list by (simp split: option.split)
qed

lemma load_unique_Inr:
  "load_unique key val valid m xs = Inr m' \<longleftrightarrow>
     distinct (map key xs) \<and> key ` set xs \<inter> fmdom' m = {} \<and> (\<forall>x \<in> set xs. valid x)
     \<and> m' = m ++\<^sub>f fmap_of_list (map (\<lambda>x. (key x, val x)) xs)"
proof (induction xs arbitrary: m)
  case (Cons x xs)
  have "fmupd (key x) (val x) m ++\<^sub>f fmap_of_list (map (\<lambda>x. (key x, val x)) xs)
      = m ++\<^sub>f fmap_of_list (map (\<lambda>x. (key x, val x)) (x # xs))" if "key x \<notin> key ` set xs"
    using that add_of_list_Cons [of "key x" "map (\<lambda>x. (key x, val x)) xs"] by (auto simp: image_image)
  then show ?case by (auto simp: Cons.IH contains_key_iff)
qed auto

lemma load_members_Some:
  "(\<exists>ms. load_members roles members ds = Some ms) \<longleftrightarrow>
     distinct ds \<and> set ds \<inter> members = {} \<and> set ds \<subseteq> fmdom' roles"
  by (induction ds arbitrary: members) (auto simp: contains_key_iff)

lemma load_links_Inr:
  "load_links roles links persons ls = Inr m \<longleftrightarrow>
     distinct (map tsl_device_id ls) \<and> tsl_device_id ` set ls \<inter> fmdom' links = {}
     \<and> distinct (map tsl_person_id ls) \<and> tsl_person_id ` set ls \<inter> fmdom' persons = {}
     \<and> tsl_device_id ` set ls \<subseteq> fmdom' roles
     \<and> m = links ++\<^sub>f fmap_of_list (map (\<lambda>l. (tsl_device_id l, tsl_person_id l)) ls)"
proof (induction ls arbitrary: links persons)
  case (Cons l ls)
  have "fmupd (tsl_device_id l) (tsl_person_id l) links
        ++\<^sub>f fmap_of_list (map (\<lambda>l. (tsl_device_id l, tsl_person_id l)) ls)
      = links ++\<^sub>f fmap_of_list (map (\<lambda>l. (tsl_device_id l, tsl_person_id l)) (l # ls))"
    if "tsl_device_id l \<notin> tsl_device_id ` set ls"
    using that add_of_list_Cons [of "tsl_device_id l" "map (\<lambda>l. (tsl_device_id l, tsl_person_id l)) ls"]
    by (auto simp: image_image)
  then show ?case by (auto simp: Cons.IH contains_key_iff)
qed auto

section \<open>The snapshots that load\<close>

definition snapshot_devices :: "TrustSnapshot \<Rightarrow> DeviceId set" where
  "snapshot_devices s = insert (ts_root_author_device_id s) (tsr_device_id ` set (ts_roles s))"

definition snapshot_ok :: "TrustSnapshot \<Rightarrow> bool" where
  "snapshot_ok s \<longleftrightarrow>
     distinct (map tsr_device_id (ts_roles s)) \<and> ts_root_author_device_id s \<notin> tsr_device_id ` set (ts_roles s)
     \<and> distinct (map tsc_channel_id (ts_channels s))
     \<and> (\<forall>c \<in> set (ts_channels s). distinct (tsc_member_device_ids c)
          \<and> set (tsc_member_device_ids c) \<subseteq> snapshot_devices s)
     \<and> distinct (map tsl_device_id (ts_person_device_links s))
     \<and> distinct (map tsl_person_id (ts_person_device_links s))
     \<and> tsl_device_id ` set (ts_person_device_links s) \<subseteq> snapshot_devices s
     \<and> distinct (map tsm_message_id (ts_messages s))
     \<and> tsm_channel_id ` set (ts_messages s) \<subseteq> tsc_channel_id ` set (ts_channels s)
     \<and> distinct (map tse_event_id (ts_event_channels s))
     \<and> tse_channel_id ` set (ts_event_channels s) \<subseteq> tsc_channel_id ` set (ts_channels s)"

definition snapshot_index :: "TrustSnapshot \<Rightarrow> WorkspaceAccessIndex" where
  "snapshot_index s =
     (index_new (ts_workspace_id s))
       \<lparr>ix_root_seen := True, ix_root_device_id := Some (ts_root_author_device_id s),
        ix_roles := fmupd (ts_root_author_device_id s) Owner fmempty
          ++\<^sub>f fmap_of_list (map (\<lambda>r. (tsr_device_id r, tsr_role r)) (ts_roles s)),
        ix_channels := fmap_of_list (map (\<lambda>c. (tsc_channel_id c, snapshot_channel_access c)) (ts_channels s)),
        ix_person_links := fmap_of_list (map (\<lambda>l. (tsl_device_id l, tsl_person_id l)) (ts_person_device_links s)),
        ix_messages := fmap_of_list (map (\<lambda>m. (tsm_message_id m, snapshot_message_access m)) (ts_messages s)),
        ix_event_channels := fmap_of_list (map (\<lambda>e. (tse_event_id e, tse_channel_id e)) (ts_event_channels s))\<rparr>"

lemma fmdom'_of_list: "fmdom' (fmap_of_list (map (\<lambda>x. (f x, g x)) xs)) = f ` set xs"
  by (force simp: fmdom'_iff fmlookup_of_list map_of_eq_None_iff)

lemma fmdom'_snapshot_roles:
  "fmdom' (fmupd r v fmempty ++\<^sub>f fmap_of_list (map (\<lambda>x. (f x, g x)) xs)) = insert r (f ` set xs)"
  by (auto simp: fmdom'_of_list)

lemma from_trust_snapshot_Inr:
  "from_trust_snapshot s = Inr ix \<longleftrightarrow>
     ts_schema_version s = 1 \<and> validate_trust_snapshot_ids s = Inr () \<and> snapshot_ok s
     \<and> ix = snapshot_index s"
  unfolding from_trust_snapshot_def
  by (auto simp: result_simps load_unique_Inr load_links_Inr load_members_Some contains_key_iff
      fmdom'_snapshot_roles fmdom'_of_list snapshot_ok_def snapshot_devices_def snapshot_index_def)

lemma map_of_mapD: "map_of (map (\<lambda>x. (k x, v x)) xs) i = Some y \<Longrightarrow> \<exists>x \<in> set xs. i = k x \<and> y = v x"
  by (auto dest!: map_of_SomeD)

lemma snapshot_index_inv:
  assumes "snapshot_ok s"
  shows "access_inv (snapshot_index s)"
proof -
  have roles: "fmdom' (ix_roles (snapshot_index s)) = snapshot_devices s"
    by (simp add: snapshot_index_def fmdom'_of_list snapshot_devices_def)
  have chans: "fmdom' (ix_channels (snapshot_index s)) = tsc_channel_id ` set (ts_channels s)"
    by (simp add: snapshot_index_def fmdom'_of_list)
  have "links_ok (snapshot_index s)"
  proof -
    let ?ls = "ts_person_device_links s"
    have inj: "l = l'" if "l \<in> set ?ls" "l' \<in> set ?ls" "tsl_person_id l = tsl_person_id l'" for l l'
      using assms that by (auto simp: snapshot_ok_def distinct_map inj_on_def)
    have l: "fmlookup (ix_person_links (snapshot_index s)) d = Some p \<Longrightarrow>
        \<exists>l \<in> set ?ls. d = tsl_device_id l \<and> p = tsl_person_id l" for d p
      by (simp add: snapshot_index_def fmlookup_of_list map_of_mapD)
    have "d \<in> snapshot_devices s" if "fmlookup (ix_person_links (snapshot_index s)) d = Some p" for d p
      using l [OF that] assms by (auto simp: snapshot_ok_def)
    moreover have "d' = d" if "fmlookup (ix_person_links (snapshot_index s)) d = Some p"
      "fmlookup (ix_person_links (snapshot_index s)) d' = Some p" for d d' p
      using l [OF that(1)] l [OF that(2)] inj by metis
    ultimately show ?thesis by (auto simp: links_ok_def fmpred_iff roles)
  qed
  moreover have "members_ok (snapshot_index s)"
  proof -
    have "\<forall>c \<in> set (ts_channels s). set (tsc_member_device_ids c) \<subseteq> snapshot_devices s"
      using assms by (simp add: snapshot_ok_def)
    then have "x \<in> snapshot_devices s"
      if "c \<in> set (ts_channels s)" "x \<in> set (tsc_member_device_ids c)" for c x
      using that by (meson subsetD)
    then show ?thesis unfolding members_ok_def roles
      by (auto simp: fmpred_iff snapshot_index_def fmlookup_of_list snapshot_channel_access_def
          dest!: map_of_mapD)
  qed
  moreover have "messages_ok (snapshot_index s)" "event_channels_ok (snapshot_index s)"
    using assms unfolding messages_ok_def event_channels_ok_def chans
    by (auto simp: fmpred_iff snapshot_index_def fmlookup_of_list snapshot_ok_def snapshot_message_access_def
        dest!: map_of_mapD)
  moreover have "root_ok (snapshot_index s)"
    unfolding root_ok_def roles by (simp add: snapshot_index_def snapshot_devices_def)
  moreover have "invites_ok (snapshot_index s)"
    by (simp add: invites_ok_def snapshot_index_def index_new_def)
  ultimately show ?thesis by (simp add: access_inv_def)
qed

section \<open>Snapshot parts follow the index\<close>

definition part_channel_ok :: "ChannelId \<Rightarrow> ChannelAccess \<Rightarrow> TrustSnapshotChannel \<Rightarrow> bool" where
  "part_channel_ok c ca tc \<longleftrightarrow>
     tsc_channel_id tc = c \<and> tsc_is_private tc = ca_is_private ca
     \<and> tsc_creator_device_id tc = ca_creator_device_id ca \<and> set (tsc_member_device_ids tc) = ca_members ca"

definition part_roles_ok :: "WorkspaceAccessIndex \<Rightarrow> SnapshotParts \<Rightarrow> bool" where
  "part_roles_ok ix parts \<longleftrightarrow>
     (\<forall>d. ix_root_device_id ix \<noteq> Some d \<longrightarrow> fmlookup (parts_roles parts) d = fmlookup (ix_roles ix) d)"

definition part_channels_ok :: "WorkspaceAccessIndex \<Rightarrow> SnapshotParts \<Rightarrow> bool" where
  "part_channels_ok ix parts \<longleftrightarrow>
     (\<forall>c. rel_option (part_channel_ok c) (fmlookup (ix_channels ix) c) (fmlookup (parts_channels parts) c))"

definition part_messages_ok :: "WorkspaceAccessIndex \<Rightarrow> SnapshotParts \<Rightarrow> bool" where
  "part_messages_ok ix parts \<longleftrightarrow>
     (\<forall>m. fmlookup (ix_messages ix) m =
        map_option (\<lambda>(c, a). \<lparr>ma_channel_id = c, ma_author_device_id = Some a\<rparr>)
          (fmlookup (parts_messages parts) m))"

definition parts_follow :: "WorkspaceAccessIndex \<Rightarrow> SnapshotParts \<Rightarrow> bool" where
  "parts_follow ix parts \<longleftrightarrow>
     part_roles_ok ix parts \<and> part_channels_ok ix parts \<and> part_messages_ok ix parts
     \<and> parts_event_channels parts = ix_event_channels ix \<and> parts_links parts = ix_person_links ix"

lemmas parts_defs =
  parts_apply_def parts_note_channel_def parts_insert_role_def parts_remove_member_def
  parts_create_channel_def parts_add_channel_member_def parts_remove_channel_member_def
  parts_message_created_def parts_message_touched_def

lemma part_channel_ok_members:
  assumes "part_channel_ok c ca tc"
  shows "part_channel_ok c (ca\<lparr>ca_members := insert d (ca_members ca)\<rparr>)
      (if d \<notin> set (tsc_member_device_ids tc)
       then tc\<lparr>tsc_member_device_ids := tsc_member_device_ids tc @ [d]\<rparr> else tc)"
    and "part_channel_ok c (ca\<lparr>ca_members := ca_members ca - {d}\<rparr>)
      (tc\<lparr>tsc_member_device_ids := filter (\<lambda>x. x \<noteq> d) (tsc_member_device_ids tc)\<rparr>)"
  using assms by (auto simp: part_channel_ok_def)

lemma part_channel_ok_new:
  "set ms = ca_members ca \<Longrightarrow> part_channel_ok c ca
     \<lparr>tsc_channel_id = c, tsc_is_private = ca_is_private ca, tsc_creator_device_id = ca_creator_device_id ca,
      tsc_member_device_ids = ms\<rparr>"
  by (simp add: part_channel_ok_def)

lemma parts_follow_step_roles:
  assumes "authorize_body ix ev = Inr ()" "root_ok ix" "part_roles_ok ix parts"
  shows "part_roles_ok (apply_authorized ix ev) (parts_apply parts ev)"
  using assms
  by (cases "ev_body ev")
    (auto simp: part_roles_ok_def parts_defs apply_authorized_def apply_authorized_body_def
      index_update_defs root_ok_def authorize_body_def result_simps fmdom'_iff
      split: option.splits ContentKeyScope.splits)

lemma rel_option_keyed_mapI:
  "rel_option (R c) x y \<Longrightarrow> (\<And>a b. R c a b \<Longrightarrow> R c (f a) (g b)) \<Longrightarrow>
     rel_option (R c) (map_option f x) (map_option g y)"
  by (rule rel_option_mapI)

lemma parts_follow_step_channels:
  assumes "part_channels_ok ix parts"
  shows "part_channels_ok (apply_authorized ix ev) (parts_apply parts ev)"
  using assms part_channel_ok_new [where ca="\<lparr>ca_is_private = p, ca_creator_device_id = d, ca_members = m\<rparr>" for p d m]
  by (cases "ev_body ev")
    (auto simp: part_channels_ok_def parts_defs apply_authorized_def apply_authorized_body_def
      index_update_defs direct_message_view
      intro!: rel_option_mapI [where R="part_channel_ok c" for c] part_channel_ok_members
      split: option.splits ContentKeyScope.splits prod.splits)

lemma parts_follow_step_messages:
  assumes "part_messages_ok ix parts"
  shows "part_messages_ok (apply_authorized ix ev) (parts_apply parts ev)"
  using assms
  by (cases "ev_body ev")
    (auto simp: part_messages_ok_def parts_defs apply_authorized_def apply_authorized_body_def
      index_update_defs split: option.splits ContentKeyScope.splits prod.splits)

lemma message_lookup_parts:
  "part_messages_ok ix parts \<Longrightarrow>
     (case fmlookup (ix_messages ix) m of None \<Rightarrow> None | Some ma \<Rightarrow> Some (ma_channel_id ma))
     = map_option fst (fmlookup (parts_messages parts) m)"
  by (auto simp: part_messages_ok_def split: option.splits)

lemma parts_follow_step_rest:
  assumes "parts_event_channels parts = ix_event_channels ix" "parts_links parts = ix_person_links ix"
    "part_messages_ok ix parts"
  shows "parts_event_channels (parts_apply parts ev) = ix_event_channels (apply_authorized ix ev)
    \<and> parts_links (parts_apply parts ev) = ix_person_links (apply_authorized ix ev)"
proof -
  have touched: "parts_event_channels (parts_message_touched ev m parts) = ix_event_channels (index_message_touched ev m ix)
      \<and> parts_links (parts_message_touched ev m parts) = ix_person_links (index_message_touched ev m ix)" for m
    using assms message_lookup_parts [OF assms(3), of m]
    by (auto simp: parts_message_touched_def index_message_touched_def parts_note_channel_def
        record_event_channel_def split: option.splits)
  show ?thesis using assms touched
    by (cases "ev_body ev")
      (auto simp: parts_apply_def parts_note_channel_def parts_insert_role_def parts_remove_member_def
        parts_create_channel_def parts_add_channel_member_def parts_remove_channel_member_def
        parts_message_created_def apply_authorized_def apply_authorized_body_def record_event_channel_def
        insert_role_def insert_invite_def index_remove_member_def insert_channel_def modify_channel_members_def
        index_message_created_def split: option.splits ContentKeyScope.splits)
qed

lemma parts_follow_step:
  assumes "access_inv ix" "authorize_and_apply ix ev = Inr ix'" "parts_follow ix parts"
  shows "parts_follow ix' (parts_apply parts ev)"
proof -
  have ok: "authorize_body ix ev = Inr ()" "ix' = apply_authorized ix ev" "root_ok ix"
    using assms(1,2) by (auto simp: authorize_and_apply_Inr authorize_Inr access_inv_def)
  from assms(3) parts_follow_step_roles [OF ok(1,3)] parts_follow_step_channels
    parts_follow_step_messages parts_follow_step_rest
  show ?thesis unfolding parts_follow_def ok(2) by blast
qed

lemma parts_follow_run:
  assumes "accepted_run authorize_and_apply ix es ix'" "access_inv ix" "parts_follow ix parts"
  shows "parts_follow ix' (foldl parts_apply parts es)"
  using assms
proof (induction arbitrary: parts rule: accepted_run.induct)
  case (run_cons ix e ix1 es ix')
  then show ?case by (auto intro: parts_follow_step access_inv_step)
qed simp

lemma parts_follow_empty: "parts_follow (index_new w) parts_empty"
  by (simp add: parts_follow_def part_roles_ok_def part_channels_ok_def part_messages_ok_def
      index_new_def parts_empty_def)

section \<open>Identifier sizes of an index\<close>

definition small_device :: "DeviceId \<Rightarrow> bool" where
  "small_device d \<longleftrightarrow> length (device_str d) \<le> DEVICE_ID_MAX_BYTES"

definition small_channel :: "ChannelId \<Rightarrow> bool" where
  "small_channel c \<longleftrightarrow> length (channel_str c) \<le> CHANNEL_ID_MAX_BYTES"

definition small_message :: "MessageId \<Rightarrow> bool" where
  "small_message m \<longleftrightarrow> length (message_str m) \<le> MESSAGE_ID_MAX_BYTES"

definition small_event :: "EventId \<Rightarrow> bool" where
  "small_event e \<longleftrightarrow> length (event_str e) \<le> EVENT_ID_MAX_BYTES"

definition small_person :: "PersonId \<Rightarrow> bool" where
  "small_person p \<longleftrightarrow> length (person_str p) \<le> PERSON_ID_MAX_BYTES"

definition small_workspace :: "WorkspaceId \<Rightarrow> bool" where
  "small_workspace w \<longleftrightarrow> length (workspace_str w) \<le> WORKSPACE_ID_MAX_BYTES"

lemma small_checks [result_simps]:
  "validate_device_id_size l d = Inr () \<longleftrightarrow> small_device d"
  "validate_channel_id_size l c = Inr () \<longleftrightarrow> small_channel c"
  "validate_message_id_size l m = Inr () \<longleftrightarrow> small_message m"
  "validate_event_id_size l e = Inr () \<longleftrightarrow> small_event e"
  "validate_person_id_size l p = Inr () \<longleftrightarrow> small_person p"
  "validate_workspace_id_size l w = Inr () \<longleftrightarrow> small_workspace w"
  by (simp_all add: validate_device_id_size_def validate_channel_id_size_def validate_message_id_size_def
      validate_event_id_size_def validate_person_id_size_def validate_workspace_id_size_def
      validate_event_text_size_def ensure_Inr small_device_def small_channel_def small_message_def
      small_event_def small_person_def small_workspace_def)

definition ids_small :: "WorkspaceAccessIndex \<Rightarrow> bool" where
  "ids_small ix \<longleftrightarrow>
     fmpred (\<lambda>d _. small_device d) (ix_roles ix)
     \<and> fmpred (\<lambda>c ca. small_channel c \<and> small_device (ca_creator_device_id ca)) (ix_channels ix)
     \<and> fmpred (\<lambda>m ma. small_message m \<and> pred_option small_device (ma_author_device_id ma)) (ix_messages ix)
     \<and> fmpred (\<lambda>e _. small_event e) (ix_event_channels ix)
     \<and> fmpred (\<lambda>_ p. small_person p) (ix_person_links ix)"

lemma signed_ids_small:
  assumes "validate_signed_event_ids ev = Inr ()"
  shows "small_workspace (ev_workspace ev)" "small_device (ev_author ev)" "small_event (sg_event_id ev)"
    "validate_event_body_ids (ev_body ev) = Inr ()"
  using assms by (auto simp: validate_signed_event_ids_def result_simps)

lemma fmpred_modify_frame:
  "fmpred P m \<Longrightarrow> (\<And>k v. P k v \<Longrightarrow> P k (f v)) \<Longrightarrow> fmpred P (fm_modify k f m)"
  "fmpred P m \<Longrightarrow> (\<And>k v. P k v \<Longrightarrow> P k (f v)) \<Longrightarrow> fmpred P (fmmap f m)"
  by (auto simp: fmpred_iff split: if_splits)

lemma ids_small_step:
  assumes "ids_small ix" "authorize_and_apply ix ev = Inr ix'"
  shows "ids_small ix'"
proof -
  have ok: "validate_signed_event_ids ev = Inr ()" "ix' = apply_authorized ix ev"
    using assms(2) by (auto simp: authorize_and_apply_Inr authorize_Inr)
  note small = signed_ids_small [OF ok(1)]
  show ?thesis using assms(1) small unfolding ok(2)
    by (cases "ev_body ev")
      (auto simp: ids_small_def apply_authorized_def apply_authorized_body_def index_update_defs
        validate_event_body_ids_def result_simps
        intro!: fmpred_upd fmpred_drop fmpred_modify_frame
        split: option.splits ContentKeyScope.splits)
qed

interpretation index_sizes: event_machine authorize_and_apply ids_small
  by unfold_locales (rule ids_small_step)

lemma ids_small_new: "ids_small (index_new w)"
  by (simp add: ids_small_def index_new_def)

section \<open>The round trip through a snapshot\<close>

lemma distinct_sorted_keys: "distinct (map fst (sorted_list_of_fmap m))"
  by (simp add: sorted_list_of_fmap_def comp_def sorted_list_of_fset.rep_eq)

lemma set_sorted_list: "(k, v) \<in> set (sorted_list_of_fmap m) \<longleftrightarrow> fmlookup m k = Some v"
  by (simp add: set_sorted_list_of_fmap)

lemma image_fst_sorted: "fst ` set (sorted_list_of_fmap m) = fmdom' m"
  by (force simp: set_sorted_list_of_fmap fmdom'_iff)

lemma map_of_sorted_map:
  "map_of (map (\<lambda>(k, v). (k, f v)) (sorted_list_of_fmap m)) k = map_option f (fmlookup m k)"
  by (simp add: map_of_map)

text \<open>What a snapshot keeps of an index.\<close>

definition snapshot_view :: "WorkspaceAccessIndex \<Rightarrow> WorkspaceAccessIndex" where
  "snapshot_view ix = ix\<lparr>ix_invites := fmempty, ix_join_requests := {}\<rparr>"

text \<open>An index that can be shared: its root is known and still an owner.\<close>

definition shareable :: "WorkspaceAccessIndex \<Rightarrow> SignedEvent \<Rightarrow> SnapshotParts \<Rightarrow> bool" where
  "shareable ix root_event parts \<longleftrightarrow>
     parts_follow ix parts \<and> access_inv ix \<and> ids_small ix
     \<and> ix_root_device_id ix = Some (ev_author root_event)
     \<and> role_for ix (ev_author root_event) = Some Owner"

lemma snapshot_lists:
  "map (\<lambda>r. (tsr_device_id r, tsr_role r)) (ts_roles (snapshot_of_parts w e parts))
     = sorted_list_of_fmap (fmdrop (ev_author e) (parts_roles parts))"
  "map (\<lambda>x. (tse_event_id x, tse_channel_id x)) (ts_event_channels (snapshot_of_parts w e parts))
     = sorted_list_of_fmap (parts_event_channels parts)"
  "map (\<lambda>l. (tsl_device_id l, tsl_person_id l)) (ts_person_device_links (snapshot_of_parts w e parts))
     = sorted_list_of_fmap (parts_links parts)"
  "map (\<lambda>m. (tsm_message_id m, snapshot_message_access m)) (ts_messages (snapshot_of_parts w e parts))
     = map (\<lambda>(k, v). (k, case v of (c, a) \<Rightarrow> \<lparr>ma_channel_id = c, ma_author_device_id = Some a\<rparr>))
         (sorted_list_of_fmap (parts_messages parts))"
  by (simp_all add: snapshot_of_parts_def Let_def comp_def case_prod_unfold snapshot_message_access_def)

lemma snapshot_channel_list:
  assumes "part_channels_ok ix parts"
  shows "map (\<lambda>c. (tsc_channel_id c, snapshot_channel_access c)) (ts_channels (snapshot_of_parts w e parts))
     = map (\<lambda>(k, v). (k, snapshot_channel_access v)) (sorted_list_of_fmap (parts_channels parts))"
proof -
  have "tsc_channel_id v = k" if "fmlookup (parts_channels parts) k = Some v" for k v
  proof -
    have "rel_option (part_channel_ok k) (fmlookup (ix_channels ix) k) (fmlookup (parts_channels parts) k)"
      using assms by (simp add: part_channels_ok_def)
    then show ?thesis by (auto simp: that option_rel_Some2 part_channel_ok_def)
  qed
  then show ?thesis
    by (auto simp: snapshot_of_parts_def Let_def snapshot_channel_access_def set_sorted_list)
qed

lemma snapshot_index_of_parts:
  assumes "shareable ix e parts"
  shows "snapshot_index (snapshot_of_parts (ix_workspace_id ix) e parts) = snapshot_view ix"
proof -
  let ?s = "snapshot_of_parts (ix_workspace_id ix) e parts"
  have f: "part_roles_ok ix parts" "part_channels_ok ix parts" "part_messages_ok ix parts"
      "parts_event_channels parts = ix_event_channels ix" "parts_links parts = ix_person_links ix"
    and root: "ix_root_device_id ix = Some (ev_author e)" "fmlookup (ix_roles ix) (ev_author e) = Some Owner"
    and seen: "ix_root_seen ix"
    using assms by (auto simp: shareable_def parts_follow_def role_for_def access_inv_def root_ok_def)
  have "fmupd (ev_author e) Owner fmempty
      ++\<^sub>f fmap_of_list (map (\<lambda>r. (tsr_device_id r, tsr_role r)) (ts_roles ?s)) = ix_roles ix"
  proof (rule fmap_ext)
    fix d
    have "d \<noteq> ev_author e \<Longrightarrow> fmlookup (parts_roles parts) d = fmlookup (ix_roles ix) d"
      using f(1) root(1) by (auto simp: part_roles_ok_def)
    then show "fmlookup (fmupd (ev_author e) Owner fmempty
        ++\<^sub>f fmap_of_list (map (\<lambda>r. (tsr_device_id r, tsr_role r)) (ts_roles ?s))) d = fmlookup (ix_roles ix) d"
      unfolding snapshot_lists fmlookup_add_of_list map_of_sorted_list
      using root(2) by (cases "d = ev_author e") (auto split: option.split)
  qed
  moreover have "fmap_of_list (map (\<lambda>c. (tsc_channel_id c, snapshot_channel_access c)) (ts_channels ?s)) = ix_channels ix"
  proof (rule fmap_ext)
    fix c
    have rel: "rel_option (part_channel_ok c) (fmlookup (ix_channels ix) c) (fmlookup (parts_channels parts) c)"
      using f(2) by (simp add: part_channels_ok_def)
    have "snapshot_channel_access tc = ca" if "part_channel_ok c ca tc" for tc ca
      using that by (simp add: part_channel_ok_def snapshot_channel_access_def)
    with rel show "fmlookup (fmap_of_list (map (\<lambda>c. (tsc_channel_id c, snapshot_channel_access c)) (ts_channels ?s))) c
        = fmlookup (ix_channels ix) c"
      unfolding snapshot_channel_list [OF f(2)] fmlookup_of_list map_of_sorted_map
      by (cases "fmlookup (ix_channels ix) c"; cases "fmlookup (parts_channels parts) c") auto
  qed
  moreover have "fmap_of_list (map (\<lambda>m. (tsm_message_id m, snapshot_message_access m)) (ts_messages ?s)) = ix_messages ix"
    unfolding snapshot_lists using f(3)
    by (intro fmap_ext) (simp add: fmlookup_of_list map_of_sorted_map part_messages_ok_def)
  moreover have "fmap_of_list (map (\<lambda>x. (tse_event_id x, tse_channel_id x)) (ts_event_channels ?s)) = ix_event_channels ix"
    "fmap_of_list (map (\<lambda>l. (tsl_device_id l, tsl_person_id l)) (ts_person_device_links ?s)) = ix_person_links ix"
    unfolding snapshot_lists f(4,5) by (intro fmap_ext; simp add: fmlookup_of_list)+
  moreover have "ts_workspace_id ?s = ix_workspace_id ix" "ts_root_author_device_id ?s = ev_author e"
    by (simp_all add: snapshot_of_parts_def Let_def)
  ultimately show ?thesis using root seen
    by (simp add: snapshot_index_def snapshot_view_def index_new_def)
qed

lemma snapshot_keys:
  "map tsr_device_id (ts_roles (snapshot_of_parts w e parts))
     = map fst (sorted_list_of_fmap (fmdrop (ev_author e) (parts_roles parts)))"
  "map tse_event_id (ts_event_channels (snapshot_of_parts w e parts))
     = map fst (sorted_list_of_fmap (parts_event_channels parts))"
  "map tse_channel_id (ts_event_channels (snapshot_of_parts w e parts))
     = map snd (sorted_list_of_fmap (parts_event_channels parts))"
  "map tsl_device_id (ts_person_device_links (snapshot_of_parts w e parts))
     = map fst (sorted_list_of_fmap (parts_links parts))"
  "map tsl_person_id (ts_person_device_links (snapshot_of_parts w e parts))
     = map snd (sorted_list_of_fmap (parts_links parts))"
  "map tsm_message_id (ts_messages (snapshot_of_parts w e parts))
     = map fst (sorted_list_of_fmap (parts_messages parts))"
  "map tsm_channel_id (ts_messages (snapshot_of_parts w e parts))
     = map (fst \<circ> snd) (sorted_list_of_fmap (parts_messages parts))"
  by (simp_all add: snapshot_of_parts_def Let_def comp_def case_prod_unfold)

lemma snapshot_channel_keys:
  "part_channels_ok ix parts \<Longrightarrow> map tsc_channel_id (ts_channels (snapshot_of_parts w e parts))
     = map fst (sorted_list_of_fmap (parts_channels parts))"
  using arg_cong [OF snapshot_channel_list [of ix parts w e], of "map fst"]
  by (simp add: comp_def case_prod_unfold)

lemma image_snd_sorted: "snd ` set (sorted_list_of_fmap m) = {v. \<exists>k. fmlookup m k = Some v}"
  by (force simp: set_sorted_list_of_fmap)

lemma distinct_snd_sorted:
  assumes "\<And>k k' v. fmlookup m k = Some v \<Longrightarrow> fmlookup m k' = Some v \<Longrightarrow> k = k'"
  shows "distinct (map snd (sorted_list_of_fmap m))"
proof -
  have "distinct (sorted_list_of_fmap m)" using distinct_sorted_keys [of m] by (simp add: distinct_map)
  moreover have "inj_on snd (set (sorted_list_of_fmap m))"
    using assms by (auto simp: inj_on_def set_sorted_list_of_fmap)
  ultimately show ?thesis by (simp add: distinct_map)
qed

lemma snapshot_of_parts_ok:
  assumes "shareable ix e parts"
  shows "snapshot_ok (snapshot_of_parts (ix_workspace_id ix) e parts)"
proof -
  let ?s = "snapshot_of_parts (ix_workspace_id ix) e parts"
  have f: "part_channels_ok ix parts" "part_messages_ok ix parts"
      "parts_event_channels parts = ix_event_channels ix" "parts_links parts = ix_person_links ix"
    and inv: "members_ok ix" "messages_ok ix" "event_channels_ok ix" "links_ok ix"
    using assms by (auto simp: shareable_def parts_follow_def access_inv_def)
  have eq: "snapshot_index ?s = snapshot_view ix" using assms by (rule snapshot_index_of_parts)
  have dev: "snapshot_devices ?s = fmdom' (ix_roles ix)"
    using arg_cong [OF eq, of "\<lambda>i. fmdom' (ix_roles i)"]
    by (simp add: snapshot_index_def fmdom'_of_list snapshot_devices_def snapshot_view_def)
  have chan: "tsc_channel_id ` set (ts_channels ?s) = fmdom' (ix_channels ix)"
    using arg_cong [OF eq, of "\<lambda>i. fmdom' (ix_channels i)"]
    by (simp add: snapshot_index_def fmdom'_of_list snapshot_view_def)
  have root: "ts_root_author_device_id ?s = ev_author e" by (simp add: snapshot_of_parts_def Let_def)
  have "distinct (tsc_member_device_ids c) \<and> set (tsc_member_device_ids c) \<subseteq> snapshot_devices ?s"
    if c: "c \<in> set (ts_channels ?s)" for c
  proof -
    obtain k tc where k: "fmlookup (parts_channels parts) k = Some tc"
      "tsc_member_device_ids c = remdups_adj (sort (tsc_member_device_ids tc))"
      using c by (auto simp: snapshot_of_parts_def Let_def set_sorted_list)
    have "rel_option (part_channel_ok k) (fmlookup (ix_channels ix) k) (fmlookup (parts_channels parts) k)"
      using f(1) by (simp add: part_channels_ok_def)
    then obtain ca where "fmlookup (ix_channels ix) k = Some ca" "set (tsc_member_device_ids tc) = ca_members ca"
      by (auto simp: k option_rel_Some2 part_channel_ok_def)
    with inv(1) show ?thesis by (auto simp: k dev members_ok_def fmpred_iff distinct_remdups_adj_sorted)
  qed
  moreover have "distinct (map tsl_person_id (ts_person_device_links ?s))"
    unfolding snapshot_keys f(4) using inv(4)
    by (intro distinct_snd_sorted) (auto simp: links_ok_def fmpred_iff)
  moreover have "tsl_device_id ` set (ts_person_device_links ?s) \<subseteq> snapshot_devices ?s"
    unfolding set_map [symmetric] snapshot_keys dev using inv(4)
    by (auto simp: links_ok_def fmpred_iff f(4) set_sorted_list)
  moreover have "tsm_channel_id ` set (ts_messages ?s) \<subseteq> tsc_channel_id ` set (ts_channels ?s)"
    unfolding chan unfolding set_map [symmetric] snapshot_keys
    using inv(2) f(2) by (fastforce simp: messages_ok_def fmpred_iff part_messages_ok_def set_sorted_list)
  moreover have "tse_channel_id ` set (ts_event_channels ?s) \<subseteq> tsc_channel_id ` set (ts_channels ?s)"
    unfolding chan unfolding set_map [symmetric] snapshot_keys f(3)
    using inv(3) by (auto simp: event_channels_ok_def fmpred_iff set_sorted_list)
  moreover have "ev_author e \<notin> tsr_device_id ` set (ts_roles ?s)"
    unfolding set_map [symmetric] snapshot_keys by (auto simp: set_sorted_list)
  ultimately show ?thesis
    by (simp add: snapshot_ok_def root snapshot_keys snapshot_channel_keys [OF f(1)] distinct_sorted_keys)
qed

definition snapshot_ids_small :: "TrustSnapshot \<Rightarrow> bool" where
  "snapshot_ids_small s \<longleftrightarrow>
     small_workspace (ts_workspace_id s) \<and> small_event (ts_root_event_id s)
     \<and> (\<forall>d \<in> snapshot_devices s. small_device d)
     \<and> (\<forall>c \<in> set (ts_channels s). small_channel (tsc_channel_id c) \<and> small_device (tsc_creator_device_id c)
          \<and> (\<forall>d \<in> set (tsc_member_device_ids c). small_device d))
     \<and> (\<forall>m \<in> set (ts_messages s). small_message (tsm_message_id m) \<and> small_channel (tsm_channel_id m)
          \<and> pred_option small_device (tsm_author_device_id m))
     \<and> (\<forall>x \<in> set (ts_event_channels s). small_event (tse_event_id x) \<and> small_channel (tse_channel_id x))
     \<and> (\<forall>l \<in> set (ts_person_device_links s). small_person (tsl_person_id l) \<and> small_device (tsl_device_id l))"

lemma validate_trust_snapshot_ids_Inr:
  "validate_trust_snapshot_ids s = Inr () \<longleftrightarrow> snapshot_ids_small s"
proof -
  have opt: "check_opt (validate_device_id_size l) x = Inr () \<longleftrightarrow> pred_option small_device x" for l x
    by (cases x) (simp_all add: check_opt_def small_checks)
  show ?thesis
    unfolding validate_trust_snapshot_ids_def validate_trust_snapshot_channel_ids_def
      validate_trust_snapshot_message_ids_def snapshot_ids_small_def snapshot_devices_def
    by (simp add: first_err_Inr small_checks opt ball_Un del: first_err.simps)
qed

text \<open>Every identifier of a loadable snapshot is an identifier of its index.\<close>

lemma snapshot_index_small:
  assumes "snapshot_ok s" "ids_small (snapshot_index s)" "small_workspace (ts_workspace_id s)"
    "small_event (ts_root_event_id s)"
  shows "snapshot_ids_small s"
proof -
  have key: "map_of (map (\<lambda>x. (k x, v x)) xs) (k x) = Some (v x)"
    if "distinct (map k xs)" "x \<in> set xs" for k :: "'a \<Rightarrow> 'b" and v :: "'a \<Rightarrow> 'c" and x xs
    using that by (intro map_of_is_SomeI) (auto simp: comp_def)
  let ?ix = "snapshot_index s"
  have dev: "small_device d" if "d \<in> snapshot_devices s" for d
  proof -
    have "d \<in> fmdom' (ix_roles ?ix)"
      using that by (simp add: snapshot_index_def fmdom'_of_list snapshot_devices_def)
    with assms(2) show ?thesis by (auto simp: ids_small_def fmpred_iff fmlookup_dom'_iff)
  qed
  have chan: "small_channel (tsc_channel_id c) \<and> small_device (tsc_creator_device_id c)"
    if "c \<in> set (ts_channels s)" for c
  proof -
    have "fmlookup (ix_channels ?ix) (tsc_channel_id c) = Some (snapshot_channel_access c)"
      using assms(1) that by (simp add: snapshot_index_def fmlookup_of_list key snapshot_ok_def)
    with assms(2) show ?thesis by (fastforce simp: ids_small_def fmpred_iff snapshot_channel_access_def)
  qed
  have msg: "small_message (tsm_message_id m) \<and> pred_option small_device (tsm_author_device_id m)"
    if "m \<in> set (ts_messages s)" for m
  proof -
    have "fmlookup (ix_messages ?ix) (tsm_message_id m) = Some (snapshot_message_access m)"
      using assms(1) that by (simp add: snapshot_index_def fmlookup_of_list key snapshot_ok_def)
    with assms(2) show ?thesis by (fastforce simp: ids_small_def fmpred_iff snapshot_message_access_def)
  qed
  have evt: "small_event (tse_event_id x)" if "x \<in> set (ts_event_channels s)" for x
  proof -
    have "fmlookup (ix_event_channels ?ix) (tse_event_id x) = Some (tse_channel_id x)"
      using assms(1) that by (simp add: snapshot_index_def fmlookup_of_list key snapshot_ok_def)
    with assms(2) show ?thesis by (auto simp: ids_small_def fmpred_iff)
  qed
  have lnk: "small_person (tsl_person_id l)" if "l \<in> set (ts_person_device_links s)" for l
  proof -
    have "fmlookup (ix_person_links ?ix) (tsl_device_id l) = Some (tsl_person_id l)"
      using assms(1) that by (simp add: snapshot_index_def fmlookup_of_list key snapshot_ok_def)
    with assms(2) show ?thesis by (auto simp: ids_small_def fmpred_iff)
  qed
  have sub: "\<forall>c \<in> set (ts_channels s). set (tsc_member_device_ids c) \<subseteq> snapshot_devices s"
    "tsl_device_id ` set (ts_person_device_links s) \<subseteq> snapshot_devices s"
    "tsm_channel_id ` set (ts_messages s) \<subseteq> tsc_channel_id ` set (ts_channels s)"
    "tse_channel_id ` set (ts_event_channels s) \<subseteq> tsc_channel_id ` set (ts_channels s)"
    using assms(1) by (simp_all add: snapshot_ok_def)
  have "\<forall>c \<in> set (ts_channels s). \<forall>d \<in> set (tsc_member_device_ids c). small_device d"
    "\<forall>l \<in> set (ts_person_device_links s). small_device (tsl_device_id l)"
    using sub(1,2) dev by (meson subsetD, auto)
  moreover have "small_channel c" if "c \<in> tsc_channel_id ` set (ts_channels s)" for c
    using chan that by auto
  then have "\<forall>m \<in> set (ts_messages s). small_channel (tsm_channel_id m)"
    "\<forall>x \<in> set (ts_event_channels s). small_channel (tse_channel_id x)"
    using sub(3,4) by auto
  ultimately show ?thesis
    using dev chan msg evt lnk assms(3,4) by (simp add: snapshot_ids_small_def)
qed

lemma snapshot_round_trip:
  assumes "shareable ix e parts" "small_workspace (ix_workspace_id ix)" "small_event (sg_event_id e)"
  shows "from_trust_snapshot (snapshot_of_parts (ix_workspace_id ix) e parts) = Inr (snapshot_view ix)"
proof -
  let ?s = "snapshot_of_parts (ix_workspace_id ix) e parts"
  have eq: "snapshot_index ?s = snapshot_view ix" using assms(1) by (rule snapshot_index_of_parts)
  have ok: "snapshot_ok ?s" using assms(1) by (rule snapshot_of_parts_ok)
  have "ids_small (snapshot_index ?s)"
    using assms(1) by (simp add: eq shareable_def ids_small_def snapshot_view_def)
  then have "snapshot_ids_small ?s"
    using assms(2,3) by (intro snapshot_index_small [OF ok]) (simp_all add: snapshot_of_parts_def Let_def)
  then show ?thesis
    by (simp add: from_trust_snapshot_Inr validate_trust_snapshot_ids_Inr ok eq)
      (simp add: snapshot_of_parts_def Let_def)
qed

end
