(* ===== verification/Trust_Scope.thy ===== *)
theory Trust_Scope
  imports Trust_Correct
begin

text \<open>
  Narrowing a snapshot to the needs of given events keeps the decisions about those events, for
  every kind of event whose requirements the collector covers.
\<close>

section \<open>Needs\<close>

definition needs_union :: "SnapshotNeeds \<Rightarrow> SnapshotNeeds \<Rightarrow> SnapshotNeeds" where
  "needs_union a b =
     \<lparr>need_devices = need_devices a \<union> need_devices b, need_channels = need_channels a \<union> need_channels b,
      need_messages = need_messages a \<union> need_messages b,
      need_event_channels = need_event_channels a \<union> need_event_channels b\<rparr>"

definition needs_le :: "SnapshotNeeds \<Rightarrow> SnapshotNeeds \<Rightarrow> bool" where
  "needs_le a b \<longleftrightarrow> need_devices a \<subseteq> need_devices b \<and> need_channels a \<subseteq> need_channels b
     \<and> need_messages a \<subseteq> need_messages b \<and> need_event_channels a \<subseteq> need_event_channels b"

definition needs_none :: SnapshotNeeds where
  "needs_none = \<lparr>need_devices = {}, need_channels = {}, need_messages = {}, need_event_channels = {}\<rparr>"

text \<open>What one event needs.\<close>

abbreviation event_needs :: "SignedEvent \<Rightarrow> SnapshotNeeds" where
  "event_needs ev \<equiv> collect_trust_snapshot_dependencies needs_none ev"

lemma foldl_needs_device:
  "foldl (\<lambda>n p. n\<lparr>need_devices := insert p (need_devices n)\<rparr>) needs ps
   = needs\<lparr>need_devices := set ps \<union> need_devices needs\<rparr>"
  by (induction ps arbitrary: needs) simp_all

lemmas needs_defs =
  collect_body_dependencies_def needs_device_def needs_channel_def needs_message_def
  foldl_needs_device needs_none_def

abbreviation body_needs :: "SignedEvent \<Rightarrow> SnapshotNeeds" where
  "body_needs ev \<equiv> collect_body_dependencies (ev_body ev) needs_none"

lemma collect_body_union:
  "collect_body_dependencies body needs = needs_union needs (collect_body_dependencies body needs_none)"
  by (cases needs; cases body) (auto simp: needs_defs needs_union_def split: ContentKeyScope.splits)

definition context_needs :: "SignedEvent \<Rightarrow> SnapshotNeeds" where
  "context_needs ev = \<lparr>need_devices = {ev_author ev}, need_channels = set_option (ev_channel ev),
     need_messages = {}, need_event_channels = {}\<rparr>"

lemma collect_dependencies_union:
  "collect_trust_snapshot_dependencies needs ev = needs_union needs (needs_union (context_needs ev) (body_needs ev))"
proof -
  have "collect_trust_snapshot_dependencies needs ev
      = collect_body_dependencies (ev_body ev) (needs_union needs (context_needs ev))"
    by (cases needs; cases "ev_channel ev")
      (simp_all add: collect_trust_snapshot_dependencies_def context_needs_def needs_union_def
        needs_device_def needs_channel_def)
  also have "\<dots> = needs_union (needs_union needs (context_needs ev)) (body_needs ev)"
    by (rule collect_body_union)
  finally show ?thesis by (simp add: needs_union_def Un_assoc)
qed

lemma event_needs_eq: "event_needs ev = needs_union (context_needs ev) (body_needs ev)"
  by (simp add: collect_dependencies_union [of needs_none]) (simp add: needs_union_def needs_none_def)

lemma needs_le_refl: "needs_le a a"
  by (simp add: needs_le_def)

lemma needs_le_trans: "needs_le a b \<Longrightarrow> needs_le b c \<Longrightarrow> needs_le a c"
  by (auto simp: needs_le_def)

lemma needs_le_union: "needs_le a (needs_union a b)" "needs_le b (needs_union a b)"
  by (auto simp: needs_le_def needs_union_def)

lemma collect_all:
  "needs_le needs (foldl collect_trust_snapshot_dependencies needs evs)
   \<and> (\<forall>ev \<in> set evs. needs_le (event_needs ev) (foldl collect_trust_snapshot_dependencies needs evs))"
proof (induction evs rule: rev_induct)
  case (snoc e evs)
  then show ?case
    by (auto simp: collect_dependencies_union [of "foldl collect_trust_snapshot_dependencies needs evs"]
        event_needs_eq intro: needs_le_union needs_le_trans)
qed (simp add: needs_le_refl)

lemma need_of_message_all:
  "let n = foldl need_of_message needs ms in
     needs_le needs n \<and> need_messages n = need_messages needs \<and> need_event_channels n = need_event_channels needs
     \<and> (\<forall>m \<in> set ms. tsm_message_id m \<in> need_messages needs \<longrightarrow> tsm_channel_id m \<in> need_channels n)"
proof (induction ms rule: rev_induct)
  case Nil
  then show ?case by (simp add: needs_le_refl)
next
  case (snoc m ms)
  then show ?case
    by (auto simp: Let_def need_of_message_def needs_channel_def needs_device_def needs_le_def
        split: option.splits)
qed

lemma need_of_event_channel_all:
  "let n = foldl need_of_event_channel needs es in
     needs_le needs n \<and> need_messages n = need_messages needs \<and> need_event_channels n = need_event_channels needs
     \<and> need_devices n = need_devices needs
     \<and> (\<forall>e \<in> set es. tse_event_id e \<in> need_event_channels needs \<longrightarrow> tse_channel_id e \<in> need_channels n)"
proof (induction es rule: rev_induct)
  case Nil
  then show ?case by (simp add: needs_le_refl)
next
  case (snoc e es)
  then show ?case by (auto simp: Let_def need_of_event_channel_def needs_channel_def needs_le_def)
qed

lemma snapshot_needs_covers:
  fixes s targets
  defines "n \<equiv> snapshot_needs s targets"
  shows "ts_root_author_device_id s \<in> need_devices n"
    and "ev \<in> set targets \<Longrightarrow> needs_le (event_needs ev) n"
    and "m \<in> set (ts_messages s) \<Longrightarrow> tsm_message_id m \<in> need_messages n \<Longrightarrow> tsm_channel_id m \<in> need_channels n"
    and "x \<in> set (ts_event_channels s) \<Longrightarrow> tse_event_id x \<in> need_event_channels n \<Longrightarrow>
      tse_channel_id x \<in> need_channels n"
proof -
  let ?n0 = "\<lparr>need_devices = {ts_root_author_device_id s}, need_channels = {}, need_messages = {},
      need_event_channels = {}\<rparr>"
  let ?n1 = "foldl collect_trust_snapshot_dependencies ?n0 targets"
  let ?n2 = "foldl need_of_message ?n1 (ts_messages s)"
  have n: "n = foldl need_of_event_channel ?n2 (ts_event_channels s)"
    by (simp add: n_def snapshot_needs_def Let_def)
  note a = collect_all [of ?n0 targets]
    and b = need_of_message_all [of ?n1 "ts_messages s", unfolded Let_def]
    and c = need_of_event_channel_all [of ?n2 "ts_event_channels s", unfolded Let_def, folded n]
  show "ts_root_author_device_id s \<in> need_devices n" using a b c by (auto simp: needs_le_def)
  show "needs_le (event_needs ev) n" if "ev \<in> set targets"
  proof -
    from a that have "needs_le (event_needs ev) ?n1" by simp
    moreover have "needs_le ?n1 n" using b c by (auto intro: needs_le_trans)
    ultimately show ?thesis by (rule needs_le_trans)
  qed
  show "tsm_channel_id m \<in> need_channels n"
    if "m \<in> set (ts_messages s)" "tsm_message_id m \<in> need_messages n"
    using b c that by (auto simp: needs_le_def)
  show "tse_channel_id x \<in> need_channels n"
    if "x \<in> set (ts_event_channels s)" "tse_event_id x \<in> need_event_channels n"
    using c that by simp
qed

section \<open>Agreement on what is needed\<close>

definition agrees_on :: "SnapshotNeeds \<Rightarrow> WorkspaceAccessIndex \<Rightarrow> WorkspaceAccessIndex \<Rightarrow> bool" where
  "agrees_on n ix ix' \<longleftrightarrow>
     ix_workspace_id ix' = ix_workspace_id ix \<and> ix_root_device_id ix' = ix_root_device_id ix
     \<and> ix_root_seen ix' = ix_root_seen ix \<and> ix_invites ix' = ix_invites ix
     \<and> ix_join_requests ix' = ix_join_requests ix
     \<and> (\<forall>d \<in> need_devices n. fmlookup (ix_roles ix') d = fmlookup (ix_roles ix) d
          \<and> fmlookup (ix_person_links ix') d = fmlookup (ix_person_links ix) d)
     \<and> (\<forall>c \<in> need_channels n. rel_option (\<lambda>ca ca'. ca_is_private ca' = ca_is_private ca
          \<and> ca_creator_device_id ca' = ca_creator_device_id ca
          \<and> (\<forall>d \<in> need_devices n. d \<in> ca_members ca' \<longleftrightarrow> d \<in> ca_members ca))
          (fmlookup (ix_channels ix) c) (fmlookup (ix_channels ix') c))
     \<and> (\<forall>m \<in> need_messages n. fmlookup (ix_messages ix') m = fmlookup (ix_messages ix) m
          \<and> (\<forall>ma. fmlookup (ix_messages ix) m = Some ma \<longrightarrow> ma_channel_id ma \<in> need_channels n))
     \<and> (\<forall>e \<in> need_event_channels n. fmlookup (ix_event_channels ix') e = fmlookup (ix_event_channels ix) e)"

text \<open>The requirements of \<open>authorize\<close> about needed items have the same outcome.\<close>

lemma agrees_on_requirements:
  assumes "agrees_on n ix ix'"
  shows "d \<in> need_devices n \<Longrightarrow> require_rooted_member ix' d = require_rooted_member ix d"
    and "c \<in> need_channels n \<Longrightarrow> d \<in> need_devices n \<Longrightarrow>
      require_channel_access ix' c d = require_channel_access ix c d"
    and "c \<in> need_channels n \<Longrightarrow> require_channel_member_grant ix' c d r = require_channel_member_grant ix c d r"
    and "c \<in> need_channels n \<Longrightarrow> require_channel_openmls_committer ix' c d = require_channel_openmls_committer ix c d"
    and "c \<in> need_channels n \<Longrightarrow> require_new_channel_id ix' c = require_new_channel_id ix c"
    and "require_workspace_openmls_committer ix' d = require_workspace_openmls_committer ix d"
    and "m \<in> need_messages n \<Longrightarrow> require_message ix' m = require_message ix m"
    and "d \<in> need_devices n \<Longrightarrow> require_person_profile_update ix' p d = require_person_profile_update ix p d"
proof -
  have rel: "rel_option (\<lambda>ca ca'. ca_is_private ca' = ca_is_private ca
          \<and> ca_creator_device_id ca' = ca_creator_device_id ca
          \<and> (\<forall>d \<in> need_devices n. d \<in> ca_members ca' \<longleftrightarrow> d \<in> ca_members ca))
          (fmlookup (ix_channels ix) c) (fmlookup (ix_channels ix') c)" if "c \<in> need_channels n" for c
    using assms that by (simp add: agrees_on_def)
  show "require_rooted_member ix' d = require_rooted_member ix d" if "d \<in> need_devices n"
    using assms that by (simp add: agrees_on_def require_rooted_member_def role_for_def)
  show "require_channel_access ix' c d = require_channel_access ix c d"
    if "c \<in> need_channels n" "d \<in> need_devices n"
    using rel [OF that(1)] that(2)
    by (cases "fmlookup (ix_channels ix) c"; cases "fmlookup (ix_channels ix') c")
      (auto simp: require_channel_access_def ok_or_def)
  show "require_channel_member_grant ix' c d r = require_channel_member_grant ix c d r"
    and "require_channel_openmls_committer ix' c d = require_channel_openmls_committer ix c d"
    and "require_new_channel_id ix' c = require_new_channel_id ix c" if "c \<in> need_channels n"
    using rel [OF that]
    by (cases "fmlookup (ix_channels ix) c"; cases "fmlookup (ix_channels ix') c";
        auto simp: require_channel_member_grant_def require_channel_openmls_committer_def
          require_new_channel_id_def contains_key_def ok_or_def)+
  show "require_workspace_openmls_committer ix' d = require_workspace_openmls_committer ix d"
    using assms by (simp add: agrees_on_def require_workspace_openmls_committer_def)
  show "require_message ix' m = require_message ix m" if "m \<in> need_messages n"
    using assms that by (simp add: agrees_on_def require_message_def)
  show "require_person_profile_update ix' p d = require_person_profile_update ix p d" if "d \<in> need_devices n"
    using assms that by (simp add: agrees_on_def require_person_profile_update_def)
qed

text \<open>
  The collector does not ask for the channel that a \<open>ChannelCreated\<close> event defines, nor for the
  links of other devices that a \<open>PersonDeviceLinked\<close> event must not repeat.
\<close>

definition scope_covered :: "EventBody \<Rightarrow> bool" where
  "scope_covered body =
     (case body of ChannelCreated _ _ _ \<Rightarrow> False | PersonDeviceLinked _ _ \<Rightarrow> False | _ \<Rightarrow> True)"

lemma agrees_on_message_target:
  assumes "agrees_on n ix ix'" "m \<in> need_messages n" "ev_author ev \<in> need_devices n"
  shows "authorize_message_target ix' ev m = authorize_message_target ix ev m"
proof -
  have "ma_channel_id ma \<in> need_channels n" if "require_message ix m = Inr ma" for ma
    using assms(1,2) that by (auto simp: agrees_on_def require_message_def ok_or_Inr)
  then show ?thesis
    using agrees_on_requirements(1,2,7) [OF assms(1)] assms(2,3)
    by (cases "require_message ix m") (simp_all add: authorize_message_target_def)
qed

lemma agrees_on_message_arms:
  assumes "agrees_on n ix ix'" "ev_author ev \<in> need_devices n" "set_option (ev_channel ev) \<subseteq> need_channels n"
  shows "authorize_message_created ix' ev = authorize_message_created ix ev"
    and "m \<in> need_messages n \<Longrightarrow> authorize_message_reply ix' ev m = authorize_message_reply ix ev m"
    and "m \<in> need_messages n \<Longrightarrow> authorize_message_mutation ix' ev m = authorize_message_mutation ix ev m"
    and "m \<in> need_messages n \<Longrightarrow> authorize_reaction ix' ev m = authorize_reaction ix ev m"
    and "c \<in> need_channels n \<Longrightarrow> e \<in> need_event_channels n \<Longrightarrow>
      authorize_read_marker ix' ev c e = authorize_read_marker ix ev c e"
proof -
  note req = agrees_on_requirements [OF assms(1)]
  have member: "authorize_member ix' ev = authorize_member ix ev"
    using req(1) assms(2) by (simp add: authorize_member_def)
  show "authorize_message_created ix' ev = authorize_message_created ix ev"
    using req(2) assms(2,3)
    by (cases "ev_channel ev") (simp_all add: authorize_message_created_def member require_event_channel_def ok_or_def bind_res_def)
  show "authorize_message_reply ix' ev m = authorize_message_reply ix ev m" if "m \<in> need_messages n"
    using req(2,7) assms(2,3) that
    by (cases "ev_channel ev")
      (simp_all add: authorize_message_reply_def member require_event_channel_def ok_or_def bind_res_def)
  show "authorize_message_mutation ix' ev m = authorize_message_mutation ix ev m"
    and "authorize_reaction ix' ev m = authorize_reaction ix ev m" if "m \<in> need_messages n"
    using agrees_on_message_target [OF assms(1) that assms(2)]
    by (simp_all add: authorize_message_mutation_def authorize_reaction_def)
  show "authorize_read_marker ix' ev c e = authorize_read_marker ix ev c e"
    if "c \<in> need_channels n" "e \<in> need_event_channels n"
    using req(2) assms(1,2) that by (simp add: authorize_read_marker_def member agrees_on_def)
qed

lemma agrees_on_direct_message:
  assumes "agrees_on n ix ix'" "ev_author ev \<in> need_devices n" "c \<in> need_channels n" "set ps \<subseteq> need_devices n"
  shows "authorize_direct_message_created ix' ev c ps = authorize_direct_message_created ix ev c ps"
proof -
  note req = agrees_on_requirements [OF assms(1)]
  have checks: "map (\<lambda>p. then_res (require_rooted_member ix' p) (Inr ())) ps
      = map (\<lambda>p. then_res (require_rooted_member ix p) (Inr ())) ps"
    using req(1) assms(4) by (auto intro!: map_cong)
  show ?thesis
    by (simp only: authorize_direct_message_created_def authorize_with_role_def checks
        req(1) [OF assms(2)] req(5) [OF assms(3)])
qed

lemma agrees_on_authorize:
  assumes "agrees_on n ix ix'" "needs_le (event_needs ev) n" "scope_covered (ev_body ev)"
  shows "authorize ix' ev = authorize ix ev"
proof -
  note req = agrees_on_requirements [OF assms(1)]
  have author: "ev_author ev \<in> need_devices n"
    and chan: "set_option (ev_channel ev) \<subseteq> need_channels n"
    and bn: "needs_le (body_needs ev) n"
    using assms(2) by (auto simp: needs_le_def event_needs_eq needs_union_def context_needs_def)
  note arms = agrees_on_message_arms [OF assms(1) author chan] agrees_on_direct_message [OF assms(1) author]
  have same: "ix_workspace_id ix' = ix_workspace_id ix" "ix_root_seen ix' = ix_root_seen ix"
    "ix_root_device_id ix' = ix_root_device_id ix"
    "ix_invites ix' = ix_invites ix" "ix_join_requests ix' = ix_join_requests ix"
    using assms(1) by (simp_all add: agrees_on_def)
  have body: "authorize_body ix' ev = authorize_body ix ev"
    using author bn assms(3)
    by (cases "ev_body ev")
      (auto simp: authorize_body_def needs_le_def needs_defs req arms same scope_covered_def
        authorize_invite_def authorize_member_role_updated_def authorize_with_role_def
        authorize_invite_claimed_def authorize_invite_resolved_def authorize_join_request_resolved_def
        authorize_removal_def authorize_channel_details_updated_def authorize_member_def
        authorize_openmls_workspace_added_def authorize_openmls_workspace_removed_def
        authorize_openmls_channel_member_def authorize_openmls_workspace_self_updated_def
        authorize_openmls_channel_self_updated_def authorize_content_key_epoch_def
        authorize_channel_member_added_def authorize_channel_member_removed_def
        cong: if_cong split: ContentKeyScope.splits)
  show ?thesis by (simp add: authorize_def body same(1))
qed

section \<open>A narrowed snapshot\<close>

text \<open>A set of needs that a snapshot can be narrowed to without dangling references.\<close>

definition needs_closed :: "SnapshotNeeds \<Rightarrow> TrustSnapshot \<Rightarrow> bool" where
  "needs_closed n s \<longleftrightarrow>
     ts_root_author_device_id s \<in> need_devices n
     \<and> (\<forall>m \<in> set (ts_messages s). tsm_message_id m \<in> need_messages n \<longrightarrow> tsm_channel_id m \<in> need_channels n)
     \<and> (\<forall>x \<in> set (ts_event_channels s). tse_event_id x \<in> need_event_channels n \<longrightarrow>
          tse_channel_id x \<in> need_channels n)"

lemma snapshot_needs_closed: "needs_closed (snapshot_needs s targets) s"
  using snapshot_needs_covers [where s = s and targets = targets] by (simp add: needs_closed_def)

lemma retain_needed_simps [simp]:
  "ts_schema_version (retain_needed n s) = ts_schema_version s"
  "ts_workspace_id (retain_needed n s) = ts_workspace_id s"
  "ts_root_event_id (retain_needed n s) = ts_root_event_id s"
  "ts_root_author_device_id (retain_needed n s) = ts_root_author_device_id s"
  by (simp_all add: retain_needed_def)

lemma narrowed_devices:
  "ts_root_author_device_id s \<in> need_devices n \<Longrightarrow>
     snapshot_devices (retain_needed n s) = snapshot_devices s \<inter> need_devices n"
  by (auto simp: snapshot_devices_def retain_needed_def)

lemma narrowed_channel_ids:
  "tsc_channel_id ` set (ts_channels (retain_needed n s)) = tsc_channel_id ` set (ts_channels s) \<inter> need_channels n"
  by (auto simp: retain_needed_def image_image)

lemma narrowed_ok:
  assumes "snapshot_ok s" "needs_closed n s"
  shows "snapshot_ok (retain_needed n s)"
proof -
  have root: "ts_root_author_device_id s \<in> need_devices n" using assms(2) by (simp add: needs_closed_def)
  have ids: "map tsc_channel_id (ts_channels (retain_needed n s))
      = map tsc_channel_id (filter (\<lambda>c. tsc_channel_id c \<in> need_channels n) (ts_channels s))"
    by (simp add: retain_needed_def comp_def)
  have "distinct (map tsc_channel_id (ts_channels (retain_needed n s)))"
    unfolding ids using assms(1) by (simp add: snapshot_ok_def distinct_map_filter)
  moreover have "\<forall>c \<in> set (ts_channels (retain_needed n s)). distinct (tsc_member_device_ids c)
      \<and> set (tsc_member_device_ids c) \<subseteq> snapshot_devices (retain_needed n s)"
    using assms(1) unfolding narrowed_devices [OF root] by (auto simp: snapshot_ok_def retain_needed_def)
  moreover have "tsl_device_id ` set (ts_person_device_links (retain_needed n s)) \<subseteq> snapshot_devices (retain_needed n s)"
    using assms(1) unfolding narrowed_devices [OF root] by (auto simp: snapshot_ok_def retain_needed_def)
  moreover have "tsm_channel_id ` set (ts_messages (retain_needed n s)) \<subseteq> tsc_channel_id ` set (ts_channels (retain_needed n s))"
    "tse_channel_id ` set (ts_event_channels (retain_needed n s)) \<subseteq> tsc_channel_id ` set (ts_channels (retain_needed n s))"
    using assms unfolding narrowed_channel_ids by (auto simp: snapshot_ok_def needs_closed_def retain_needed_def)
  ultimately show ?thesis
    using assms(1) by (auto simp: snapshot_ok_def distinct_map_filter) (auto simp: retain_needed_def distinct_map_filter)
qed

lemma narrowed_ids_small:
  assumes "snapshot_ids_small s" "needs_closed n s"
  shows "snapshot_ids_small (retain_needed n s)"
  using assms narrowed_devices [of s n] by (auto simp: snapshot_ids_small_def needs_closed_def) (auto simp: retain_needed_def)

lemma map_of_filtered:
  "map_of (map (\<lambda>x. (k x, v x)) (filter (\<lambda>x. k x \<in> A) xs)) i = (if i \<in> A then map_of (map (\<lambda>x. (k x, v x)) xs) i else None)"
  by (induction xs) auto

lemma map_of_compose:
  "map_of (map (\<lambda>x. (k x, h (v x))) xs) i = map_option h (map_of (map (\<lambda>x. (k x, v x)) xs) i)"
  by (induction xs) auto

lemma narrowed_agrees:
  assumes "needs_closed n s"
  shows "agrees_on n (snapshot_index s) (snapshot_index (retain_needed n s))"
proof -
  let ?h = "\<lambda>ca. ca\<lparr>ca_members := ca_members ca \<inter> need_devices n\<rparr>"
  let ?t = "retain_needed n s"
  have "map (\<lambda>c. (tsc_channel_id c, snapshot_channel_access c)) (ts_channels ?t)
      = map (\<lambda>c. (tsc_channel_id c, ?h (snapshot_channel_access c)))
          (filter (\<lambda>c. tsc_channel_id c \<in> need_channels n) (ts_channels s))"
    by (auto simp: retain_needed_def snapshot_channel_access_def)
  then have chan: "fmlookup (ix_channels (snapshot_index ?t)) c
      = (if c \<in> need_channels n then map_option ?h (fmlookup (ix_channels (snapshot_index s)) c) else None)" for c
    by (simp add: snapshot_index_def fmlookup_of_list map_of_filtered
        map_of_compose [where k = tsc_channel_id and v = snapshot_channel_access and h = ?h])
  have role: "fmlookup (ix_roles (snapshot_index ?t)) d = fmlookup (ix_roles (snapshot_index s)) d"
    if "d \<in> need_devices n" for d
    using that by (simp add: snapshot_index_def fmlookup_add_of_list retain_needed_def map_of_filtered del: fmlookup_add)
  have link: "fmlookup (ix_person_links (snapshot_index ?t)) d = fmlookup (ix_person_links (snapshot_index s)) d"
    if "d \<in> need_devices n" for d
    using that by (simp add: snapshot_index_def fmlookup_of_list retain_needed_def map_of_filtered)
  have msg: "fmlookup (ix_messages (snapshot_index ?t)) m = fmlookup (ix_messages (snapshot_index s)) m"
    if "m \<in> need_messages n" for m
    using that by (simp add: snapshot_index_def fmlookup_of_list retain_needed_def map_of_filtered)
  have evt: "fmlookup (ix_event_channels (snapshot_index ?t)) e = fmlookup (ix_event_channels (snapshot_index s)) e"
    if "e \<in> need_event_channels n" for e
    using that by (simp add: snapshot_index_def fmlookup_of_list retain_needed_def map_of_filtered)
  have target: "ma_channel_id ma \<in> need_channels n"
    if "m \<in> need_messages n" "fmlookup (ix_messages (snapshot_index s)) m = Some ma" for m ma
    using assms that
    by (auto simp: needs_closed_def snapshot_index_def fmlookup_of_list snapshot_message_access_def dest!: map_of_mapD)
  have rel: "rel_option (\<lambda>ca ca'. ca_is_private ca' = ca_is_private ca
        \<and> ca_creator_device_id ca' = ca_creator_device_id ca
        \<and> (\<forall>d \<in> need_devices n. d \<in> ca_members ca' \<longleftrightarrow> d \<in> ca_members ca))
      (fmlookup (ix_channels (snapshot_index s)) c) (fmlookup (ix_channels (snapshot_index ?t)) c)"
    if "c \<in> need_channels n" for c
    using that by (cases "fmlookup (ix_channels (snapshot_index s)) c") (simp_all add: chan)
  have "ix_workspace_id (snapshot_index ?t) = ix_workspace_id (snapshot_index s)"
    "ix_root_device_id (snapshot_index ?t) = ix_root_device_id (snapshot_index s)"
    "ix_root_seen (snapshot_index ?t) = ix_root_seen (snapshot_index s)"
    "ix_invites (snapshot_index ?t) = ix_invites (snapshot_index s)"
    "ix_join_requests (snapshot_index ?t) = ix_join_requests (snapshot_index s)"
    by (simp_all add: snapshot_index_def index_new_def)
  with role link msg evt target rel show ?thesis by (simp add: agrees_on_def)
qed

text \<open>The narrowed snapshot loads whenever the full one does.\<close>

lemma narrowed_loads:
  assumes "from_trust_snapshot s = Inr ix"
  shows "\<exists>ix'. from_trust_snapshot (trust_snapshot_for_events s targets) = Inr ix'
    \<and> agrees_on (snapshot_needs s targets) ix ix'"
proof -
  let ?n = "snapshot_needs s targets"
  have c: "needs_closed ?n s" by (rule snapshot_needs_closed)
  from assms have "snapshot_ok s" "snapshot_ids_small s" "ix = snapshot_index s" "ts_schema_version s = 1"
    by (simp_all add: from_trust_snapshot_Inr validate_trust_snapshot_ids_Inr)
  with c show ?thesis
    by (simp add: trust_snapshot_for_events_def from_trust_snapshot_Inr validate_trust_snapshot_ids_Inr
        narrowed_ok narrowed_ids_small narrowed_agrees)
qed

lemma narrowed_decision:
  assumes "from_trust_snapshot s = Inr ix" "ev \<in> set targets" "scope_covered (ev_body ev)"
  shows "authorize_event_with_trust_snapshot (trust_snapshot_for_events s targets) ev = authorize ix ev"
proof -
  obtain ix' where ix': "from_trust_snapshot (trust_snapshot_for_events s targets) = Inr ix'"
    "agrees_on (snapshot_needs s targets) ix ix'" using narrowed_loads [OF assms(1)] by blast
  have "needs_le (event_needs ev) (snapshot_needs s targets)" using assms(2) by (rule snapshot_needs_covers)
  then have "authorize ix' ev = authorize ix ev" using agrees_on_authorize [OF ix'(2) _ assms(3)] by blast
  then show ?thesis by (simp add: authorize_event_with_trust_snapshot_def ix'(1) bind_res_def)
qed

end
