(* ===== verification/Batch_Ordered.thy ===== *)
theory Batch_Ordered
  imports Trust_Scope
begin

text \<open>
  The batch scheduler on a history that \<open>apply\<close> accepts one event after the other: the indexed
  scheduler visits the events in exactly that order, in a single pass.
\<close>

section \<open>Histories accepted in order\<close>

definition ordered_run ::
  "invite_iteration \<Rightarrow> WorkspaceState \<Rightarrow> SignedEvent list \<Rightarrow> WorkspaceState \<Rightarrow> bool" where
  "ordered_run vals st events st' \<longleftrightarrow>
     accepted_run (apply_event vals) st events st' \<and> distinct (map sg_event_id events)
     \<and> sg_event_id ` set events \<inter> ws_applied_event_ids st = {} \<and> access_inv (ws_access_index st)"

lemma index_of_run:
  "accepted_run (apply_event vals) st es st' \<Longrightarrow>
     accepted_run authorize_and_apply (ws_access_index st) es (ws_access_index st')"
  by (induction rule: accepted_run.induct) (auto simp: apply_event_Inr dest: index_of_apply_ready)

lemma applied_ids_of_run:
  "accepted_run (apply_event vals) st es st' \<Longrightarrow>
     ws_applied_event_ids st' = ws_applied_event_ids st \<union> sg_event_id ` set es"
  by (induction rule: accepted_run.induct) (auto simp: apply_event_Inr applied_of_apply_ready)

lemma ordered_fresh:
  "ordered_run vals st events st' \<Longrightarrow> k < length events \<Longrightarrow> sg_event_id (events ! k) \<notin> ws_applied_event_ids st"
  unfolding ordered_run_def using nth_mem by blast

lemma ordered_split:
  assumes "ordered_run vals st events st'" "k < length events"
    "accepted_run (apply_event vals) st (take k events) s"
  obtains s1 where "apply_event vals s (events ! k) = Inr s1"
    "accepted_run (apply_event vals) st (take (Suc k) events) s1"
    "sg_event_id (events ! k) \<notin> ws_applied_event_ids s"
    "set (ev_parents (events ! k)) \<subseteq> ws_applied_event_ids st \<union> sg_event_id ` set (take k events)"
proof -
  have split: "events = take k events @ events ! k # drop (Suc k) events"
    using assms(2) by (rule id_take_nth_drop)
  then obtain t s1 where t: "accepted_run (apply_event vals) st (take k events) t"
    "apply_event vals t (events ! k) = Inr s1"
    using assms(1) unfolding ordered_run_def by (metis accepted_run_append accepted_run_cons)
  have s: "t = s" using accepted_run_deterministic [OF t(1) assms(3)] .
  have "distinct (map sg_event_id (take k events @ [events ! k]))"
    using assms(1,2) unfolding ordered_run_def
    by (metis distinct_take take_Suc_conv_app_nth take_map)
  then have "sg_event_id (events ! k) \<notin> ws_applied_event_ids s"
    using ordered_fresh [OF assms(1,2)] applied_ids_of_run [OF assms(3)] by auto
  moreover have "accepted_run (apply_event vals) st (take (Suc k) events) s1"
    using accepted_run_snoc [OF assms(3)] t(2) s assms(2) by (simp add: take_Suc_conv_app_nth)
  moreover have "set (ev_parents (events ! k)) \<subseteq> ws_applied_event_ids st \<union> sg_event_id ` set (take k events)"
    using t(2) applied_ids_of_run [OF assms(3)] by (simp add: apply_event_Inr s)
  ultimately show ?thesis using that t(2) s by blast
qed

text \<open>A child comes after its parents.\<close>

lemma ordered_child_later:
  assumes "ordered_run vals st events st'" "k < length events" "w < length events"
    "sg_event_id (events ! k) \<in> set (ev_parents (events ! w))"
  shows "k < w"
proof (rule ccontr)
  assume "\<not> k < w"
  have run: "accepted_run (apply_event vals) st (take w events @ drop w events) st'"
    using assms(1) by (simp add: ordered_run_def)
  then obtain s where s: "accepted_run (apply_event vals) st (take w events) s"
    unfolding accepted_run_append by blast
  obtain s1 where "set (ev_parents (events ! w)) \<subseteq> ws_applied_event_ids st \<union> sg_event_id ` set (take w events)"
    using ordered_split [OF assms(1,3) s] by blast
  then have "sg_event_id (events ! k) \<in> sg_event_id ` set (take w events)"
    using assms(4) ordered_fresh [OF assms(1,2)] by blast
  then obtain j where j: "j < w" "sg_event_id (events ! j) = sg_event_id (events ! k)"
    using assms(3) by (auto simp: in_set_conv_nth)
  moreover have "sg_event_id (events ! j) = sg_event_id (events ! k) \<longleftrightarrow> j = k"
    using assms(1,2) j(1) assms(3) nth_eq_iff_index_eq [of "map sg_event_id events" j k]
    by (simp add: ordered_run_def)
  ultimately show False using j \<open>\<not> k < w\<close> by simp
qed

section \<open>Waking later events\<close>

lemma wake_later:
  assumes "\<forall>w \<in> set ws. i < w \<and> w < length (bs_earliest_ready_rounds bs)"
    "\<forall>w < length (bs_earliest_ready_rounds bs). bs_earliest_ready_rounds bs ! w = 0"
    "sorted (bs_dynamically_ready bs)"
  shows "bs_next_round_ready (foldl (wake_waiting c 0 i) bs ws) = bs_next_round_ready bs
    \<and> bs_earliest_ready_rounds (foldl (wake_waiting c 0 i) bs ws) = bs_earliest_ready_rounds bs
    \<and> sorted (bs_dynamically_ready (foldl (wake_waiting c 0 i) bs ws))"
  using assms
proof (induction ws arbitrary: bs)
  case (Cons w ws)
  let ?bs = "wake_waiting c 0 i bs w"
  have w: "i < w" "w < length (bs_earliest_ready_rounds bs)" using Cons.prems(1) by auto
  have "(bs_earliest_ready_rounds bs)[w := 0] = bs_earliest_ready_rounds bs"
    using Cons.prems(2) w(2) by (metis list_update_id)
  then have eq: "bs_next_round_ready ?bs = bs_next_round_ready bs"
    "bs_earliest_ready_rounds ?bs = bs_earliest_ready_rounds bs" "sorted (bs_dynamically_ready ?bs)"
    using Cons.prems(2,3) w by (simp_all add: wake_waiting_def Let_def heap_push_def sorted_insort)
  from Cons.IH [of ?bs] Cons.prems(1,2) eq show ?case by simp
qed simp

lemma ready_sorted:
  "case foldl (index_event applied cand conflicts) ([], fmempty, []) (enumerate 0 es) of
     (counts, w, ready) \<Rightarrow> sorted ready \<and> (\<forall>i \<in> set ready. i < length es)"
proof (induction es rule: rev_induct)
  case (snoc e es)
  then show ?case
    by (auto simp: enumerate_append_eq index_event_def sorted_append less_Suc_eq split: prod.splits)
qed simp

section \<open>The pass over an ordered history\<close>

definition in_order ::
  "invite_iteration \<Rightarrow> WorkspaceState \<Rightarrow> SignedEvent list \<Rightarrow> nat list \<Rightarrow> BatchState \<Rightarrow> nat \<Rightarrow> bool" where
  "in_order vals st events ready bs k \<longleftrightarrow>
     k \<le> length events \<and> batch_ok vals st events ready bs \<and> sorted ready \<and> sorted (bs_dynamically_ready bs)
     \<and> bs_next_round_ready bs = [] \<and> bs_authorization_deferred bs = []
     \<and> length (bs_earliest_ready_rounds bs) = length events
     \<and> (\<forall>w < length events. bs_earliest_ready_rounds bs ! w = 0)
     \<and> (\<forall>i < length events. bs_pending bs ! i \<longleftrightarrow> k \<le> i)
     \<and> accepted_run (apply_event vals) st (take k events) (bs_state bs)
     \<and> bs_applied bs = map sg_event_id (take k events) \<and> (0 < k \<longrightarrow> bs_progressed bs)"

lemma next_ready_least:
  assumes "next_ready ready bs = Some (i, ready', bs1)" "sorted ready" "sorted (bs_dynamically_ready bs)"
  shows "\<forall>j \<in> set ready \<union> set (bs_dynamically_ready bs). i \<le> j" "sorted ready'"
    "sorted (bs_dynamically_ready bs1)"
  using assms by (auto simp: next_ready_def split: list.splits if_splits)

lemma ordered_runnable:
  assumes "ordered_run vals st events st'" "k < length events"
    "accepted_run (apply_event vals) st (take k events) (bs_state bs)"
  shows "k \<in> runnable events bs"
proof -
  have "set (ev_parents (events ! k)) \<subseteq> ws_applied_event_ids (bs_state bs)"
    using ordered_split [OF assms] applied_ids_of_run [OF assms(3)] by blast
  moreover have "accepted_run authorize_and_apply (ws_access_index st) events (ws_access_index st')"
    using assms(1) by (auto simp: ordered_run_def intro: index_of_run)
  then have "\<not> creation_conflict events c" for c
    using assms(1) accepted_no_conflict by (auto simp: ordered_run_def)
  ultimately show ?thesis using assms(2) by (auto simp: runnable_def parents_left_def conflict_flag)
qed

lemma in_order_next:
  assumes "ordered_run vals st events st'" "in_order vals st events ready bs k"
    "next_ready ready bs = Some (i, ready', bs1)" "is_pending bs1 i"
  shows "i = k" "k < length events"
proof -
  have i: "i \<in> queued ready bs" using next_ready_queued(1) [OF assms(3)] by simp
  have il: "i < length events" using batch_ok_index [OF _ i] assms(2) by (auto simp: in_order_def)
  obtain d where bs1: "bs1 = bs\<lparr>bs_dynamically_ready := d\<rparr>" using next_ready_queued(2) [OF assms(3)] by blast
  then have ki: "k \<le> i" using assms(2,4) il by (auto simp: in_order_def is_pending_def)
  with il show k: "k < length events" by simp
  have "k \<in> runnable events bs" using ordered_runnable [OF assms(1) k] assms(2) by (simp add: in_order_def)
  then have "k \<in> queued ready bs" using assms(2) k by (auto simp: in_order_def batch_ok_def queue_ok_def)
  then have "k \<in> set ready \<union> set (bs_dynamically_ready bs)" using assms(2) by (simp add: in_order_def queued_def)
  then have "i \<le> k" using next_ready_least(1) [OF assms(3)] assms(2) by (simp add: in_order_def)
  with ki show "i = k" by simp
qed

lemma in_order_visit:
  assumes "ordered_run vals st events st'" "in_order vals st events ready bs k"
    "next_ready ready bs = Some (i, ready', bs1)"
  shows "\<exists>bs2 k'. visit_event vals events (channel_definition_conflicts events) 0 bs1 i = Inr bs2
    \<and> in_order vals st events ready' bs2 k'"
proof (cases "is_pending bs1 i")
  case False
  obtain d where bs1: "bs1 = bs\<lparr>bs_dynamically_ready := d\<rparr>" using next_ready_queued(2) [OF assms(3)] by blast
  from False have v: "visit_event vals events (channel_definition_conflicts events) 0 bs1 i = Inr bs1"
    by (simp add: visit_event_def)
  have "in_order vals st events ready' bs1 k"
    using assms(2) visit_event_ok [OF _ assms(3) v] next_ready_least(2,3) [OF assms(3)]
    by (simp add: in_order_def bs1)
  with v show ?thesis by blast
next
  case True
  let ?c = "channel_definition_conflicts events"
  note ik = in_order_next [OF assms True]
  obtain d where bs1: "bs1 = bs\<lparr>bs_dynamically_ready := d\<rparr>" using next_ready_queued(2) [OF assms(3)] by blast
  have run: "accepted_run (apply_event vals) st (take k events) (bs_state bs1)"
    using assms(2) by (simp add: in_order_def bs1)
  obtain s1 where s1: "apply_event vals (bs_state bs1) (events ! k) = Inr s1"
    "accepted_run (apply_event vals) st (take (Suc k) events) s1"
    "sg_event_id (events ! k) \<notin> ws_applied_event_ids (bs_state bs1)"
    using ordered_split [OF assms(1) ik(2) run] by blast
  let ?bs2 = "accept_event ?c 0 k (events ! k) s1 bs1"
  have v: "visit_event vals events ?c 0 bs1 i = Inr ?bs2"
    using True s1(1,3) ik(1) by (simp add: visit_event_def Let_def apply_event_Inr)
  have ok: "batch_ok vals st events ready' ?bs2"
    using visit_event_ok [OF _ assms(3) v] assms(2) by (simp add: in_order_def)
  have "batch_ok vals st events ready bs" using assms(2) by (simp add: in_order_def)
  then have "sched_ok events bs1" using assms(3) by (rule batch_ok_popped)
  then have "set (waiting_on (bs_waiting_by_parent bs1) (sg_event_id (events ! k)))
      = {w. w < length events \<and> sg_event_id (events ! k) \<in> set (ev_parents (events ! w))}"
    using s1(3) ik(2) by (simp add: sched_ok_def)
  then have later: "\<forall>w \<in> set (waiting_on (bs_waiting_by_parent bs1) (sg_event_id (events ! k))).
      k < w \<and> w < length events"
    using ordered_child_later [OF assms(1) ik(2)] by auto
  have w: "bs_next_round_ready ?bs2 = []" "bs_earliest_ready_rounds ?bs2 = bs_earliest_ready_rounds bs"
    "sorted (bs_dynamically_ready ?bs2)"
    using wake_later [where i = k and c = ?c and ws = "waiting_on (bs_waiting_by_parent bs1) (sg_event_id (events ! k))"
        and bs = "bs1\<lparr>bs_state := s1, bs_pending := (bs_pending bs1)[k := False],
           bs_applied := bs_applied bs1 @ [sg_event_id (events ! k)], bs_progressed := True,
           bs_waiting_by_parent := fmdrop (sg_event_id (events ! k)) (bs_waiting_by_parent bs1)\<rparr>"]
      later assms(2) next_ready_least(3) [OF assms(3)]
    by (simp_all add: accept_event_fold in_order_def bs1)
  have "in_order vals st events ready' ?bs2 (Suc k)"
    using assms(2) ik(2) ok w s1(2) next_ready_least(2) [OF assms(3)]
    by (auto simp: in_order_def bs1 nth_list_update take_Suc_conv_app_nth batch_ok_def sched_ok_def)
  with v show ?thesis by blast
qed

lemma ordered_start:
  assumes "batch_start st events = (ready, bs)"
  shows "in_order vals st events ready (round_start bs) 0"
proof -
  obtain counts w where ix: "index_events st events = (counts, w, ready)"
    and bs: "bs = \<lparr>bs_state = st, bs_pending = replicate (length events) True,
          bs_missing_parent_counts = counts,
          bs_earliest_ready_rounds = replicate (length events) 0, bs_waiting_by_parent = w,
          bs_dynamically_ready = [], bs_next_round_ready = [], bs_authorization_deferred = [],
          bs_progressed = False, bs_applied = []\<rparr>"
    using assms by (auto simp: batch_start_def split: prod.splits)
  have "sorted ready"
    using ready_sorted [where applied = "ws_applied_event_ids st" and cand = "sg_event_id ` set events"
        and conflicts = "channel_definition_conflicts events" and es = events, folded index_events_def] ix by simp
  with batch_start_ok [OF assms, of vals] show ?thesis
    by (simp add: in_order_def round_start_def bs run_nil)
qed

lemma ordered_pass:
  assumes "ordered_run vals st events st'" "batch_start st events = (ready, bs)"
  obtains bs' where "batch_pass vals events (channel_definition_conflicts events) 0 ready (round_start bs) = Inr bs'"
    "in_order vals st events [] bs' (length events)" "bs_dynamically_ready bs' = []" "bs_state bs' = st'"
proof -
  let ?I = "\<lambda>ready bs. \<exists>k. in_order vals st events ready bs k"
  have "case batch_pass vals events (channel_definition_conflicts events) 0 ready (round_start bs) of
      Inl f \<Rightarrow> False | Inr bs' \<Rightarrow> ?I [] bs' \<and> bs_dynamically_ready bs' = []"
  proof (rule batch_pass_rule [where I = ?I and F = "\<lambda>_. False"])
    show "?I ready (round_start bs)" using ordered_start [OF assms(2)] by blast
  next
    fix ready bs i ready' bs1 bs2
    assume "?I ready bs" "next_ready ready bs = Some (i, ready', bs1)"
      "visit_event vals events (channel_definition_conflicts events) 0 bs1 i = Inr bs2"
    then show "?I ready' bs2" using in_order_visit [OF assms(1)] by fastforce
  next
    fix ready bs i ready' bs1 f
    assume "?I ready bs" "next_ready ready bs = Some (i, ready', bs1)"
      "visit_event vals events (channel_definition_conflicts events) 0 bs1 i = Inl f"
    then show False using in_order_visit [OF assms(1)] by fastforce
  qed
  then obtain bs' k where bs': "batch_pass vals events (channel_definition_conflicts events) 0 ready (round_start bs) = Inr bs'"
    "in_order vals st events [] bs' k" "bs_dynamically_ready bs' = []"
    by (cases "batch_pass vals events (channel_definition_conflicts events) 0 ready (round_start bs)") auto
  have k: "k = length events"
  proof (rule ccontr)
    assume "k \<noteq> length events"
    with bs'(2) have kl: "k < length events" by (simp add: in_order_def)
    have "k \<in> runnable events bs'" using ordered_runnable [OF assms(1) kl] bs'(2) by (simp add: in_order_def)
    then have "k \<in> queued [] bs'" using bs'(2) kl by (auto simp: in_order_def batch_ok_def queue_ok_def)
    then show False using bs'(2,3) by (simp add: in_order_def queued_def)
  qed
  have "bs_state bs' = st'"
    using bs'(2) assms(1) unfolding in_order_def ordered_run_def k by (auto intro: accepted_run_deterministic)
  with bs' k show ?thesis by (intro that) auto
qed

lemma apply_ready_checked:
  "apply_ready_event vals st e = Inr st' \<Longrightarrow>
     validate_signed_event_ids e = Inr () \<and> ev_workspace e = ws_workspace_id st"
  by (simp add: apply_ready_event_Inr authorize_Inr)

lemma run_checked:
  "accepted_run (apply_event vals) st es st' \<Longrightarrow>
     \<forall>e \<in> set es. validate_signed_event_ids e = Inr () \<and> ev_workspace e = ws_workspace_id st"
proof (induction rule: accepted_run.induct)
  case (run_cons st e st1 es st')
  have "validate_signed_event_ids e = Inr ()" "ev_workspace e = ws_workspace_id st" "ws_workspace_id st1 = ws_workspace_id st"
    using run_cons(1) by (auto simp: apply_event_Inr applied_of_apply_ready dest: apply_ready_checked)
  with run_cons show ?case by simp
qed simp

lemma ordered_batch:
  assumes "ordered_run vals st events st'"
  shows "apply_batch vals st events =
    Inr (st', \<lparr>rep_applied_events = map sg_event_id events, rep_gaps = []\<rparr>)"
proof -
  obtain ready bs where start: "batch_start st events = (ready, bs)" by fastforce
  obtain bs' where bs': "batch_pass vals events (channel_definition_conflicts events) 0 ready (round_start bs) = Inr bs'"
    "in_order vals st events [] bs' (length events)" "bs_dynamically_ready bs' = []" "bs_state bs' = st'"
    using ordered_pass [OF assms start] by blast
  have "accepted_run (apply_event vals) st events st'" using assms by (simp add: ordered_run_def)
  note ids = run_checked [OF this]
  have check: "check_batch st events = Inr ()" using ids by (simp add: check_batch_Inr)
  have "\<exists>bs2. batch_rounds vals events (channel_definition_conflicts events) 0 ready bs = Inr bs2
      \<and> bs_state bs2 = st' \<and> bs_applied bs2 = map sg_event_id events \<and> bs_pending bs2 = bs_pending bs'"
    using bs' by (subst batch_rounds.simps) (simp add: round_start_def Let_def in_order_def)
  then obtain bs2 where bs2: "batch_rounds vals events (channel_definition_conflicts events) 0 ready bs = Inr bs2"
    "bs_state bs2 = st'" "bs_applied bs2 = map sg_event_id events" "bs_pending bs2 = bs_pending bs'" by blast
  have "\<not> is_pending bs2 i" if "i < length events" for i
    using bs'(2) bs2(4) that by (simp add: in_order_def is_pending_def)
  then have "batch_gaps events bs2 = []"
    by (auto simp: batch_gaps_def filter_empty_conv in_set_enumerate_eq)
  then show ?thesis by (simp add: apply_batch_def check start bs2)
qed

section \<open>Property\<close>

text \<open>
  C14: on a history that \<open>apply\<close> accepts event by event, with distinct identifiers that are new to the
  state, the indexed scheduler of \<open>apply_batch\<close> agrees with applying the events one after the other:
  it succeeds, ends in the same state, reports the events in the same order and leaves no gap.
\<close>

theorem batch_equals_sequential_application:
  assumes "state_inv st" "accepted_run (apply_event vals) st events st'" "distinct (map sg_event_id events)"
    "sg_event_id ` set events \<inter> ws_applied_event_ids st = {}"
  shows "apply_batch vals st events =
    Inr (st', \<lparr>rep_applied_events = map sg_event_id events, rep_gaps = []\<rparr>)"
  using assms by (intro ordered_batch) (simp add: ordered_run_def state_inv_def)

lemma team_ids: "distinct (map sg_event_id team_history)"
  by (simp add: team_history_def scenario_events)

theorem batch_equals_sequential_application_witness:
  "apply_batch sorted_values (state_new team) team_history =
    Inr (team_state, \<lparr>rep_applied_events = map sg_event_id team_history, rep_gaps = []\<rparr>)"
  using batch_equals_sequential_application [OF state_inv_new team_state_run team_ids]
  by (simp add: state_new_def)

end
