(* ===== verification/Trust_Properties.thy ===== *)
theory Trust_Properties
  imports Batch_Ordered
begin

text \<open>
  The guarantees of trust snapshots: what loads, the round trip of a history applied in order, the
  decisions a narrowed snapshot preserves, and two closed examples that mark the limits.
\<close>

section \<open>Runs of the index behind a batch\<close>

lemma root_of_step:
  "ix_root_device_id (apply_authorized ix e) =
     (if is_workspace_created e then Some (ev_author e) else ix_root_device_id ix)"
  by (cases "ev_body e")
    (auto simp: apply_authorized_def apply_authorized_body_def index_update_defs settle_invites_def
      is_workspace_created_def split: option.splits ContentKeyScope.splits)

lemma workspace_of_step: "ix_workspace_id (apply_authorized ix e) = ix_workspace_id ix"
  by (cases "ev_body e")
    (auto simp: apply_authorized_def apply_authorized_body_def index_update_defs settle_invites_def
      split: option.splits ContentKeyScope.splits)

lemma find_snoc: "find P (xs @ [x]) = (case find P xs of None \<Rightarrow> if P x then Some x else None | Some y \<Rightarrow> Some y)"
  by (induction xs) auto

lemma root_of_run:
  assumes "accepted_run authorize_and_apply (index_new w) es ix"
  shows "ix_root_device_id ix = map_option ev_author (find is_workspace_created es)"
  using assms
proof (induction es arbitrary: ix rule: rev_induct)
  case Nil
  then show ?case by (simp add: index_new_def)
next
  case (snoc e es)
  then obtain ix0 where run: "accepted_run authorize_and_apply (index_new w) es ix0"
    and step: "authorize ix0 e = Inr ()" "ix = apply_authorized ix0 e"
    by (auto simp: accepted_run_append authorize_and_apply_Inr)
  have "root_ok ix0" using access.run_inv [OF run access_inv_new] by (simp add: access_inv_def)
  then have "ix_root_device_id ix0 = None" if "is_workspace_created e"
    using step(1) that
    by (cases "ev_body e") (auto simp: is_workspace_created_def authorize_Inr authorize_body_def root_ok_def
        result_simps split: option.splits)
  with snoc.IH [OF run] show ?case by (auto simp: step(2) root_of_step find_snoc split: option.splits)
qed

lemma index_workspace_of_run:
  "accepted_run authorize_and_apply ix es ix' \<Longrightarrow> ix_workspace_id ix' = ix_workspace_id ix"
  by (induction rule: accepted_run.induct) (auto simp: authorize_and_apply_Inr workspace_of_step)

lemma ids_of_run:
  assumes "accepted_run authorize_and_apply ix es ix'" "e \<in> set es"
  shows "validate_signed_event_ids e = Inr () \<and> ev_workspace e = ix_workspace_id ix'"
  using assms
proof (induction rule: accepted_run.induct)
  case (run_cons ix d ix1 es ix')
  from run_cons index_workspace_of_run [OF run_cons(2)] show ?case
    by (auto simp: authorize_and_apply_Inr authorize_Inr workspace_of_step)
qed simp

text \<open>Identifiers of a loaded index.\<close>

lemma snapshot_small_index:
  assumes "snapshot_ids_small s"
  shows "ids_small (snapshot_index s)"
  using assms
  by (auto simp: ids_small_def fmpred_iff snapshot_index_def snapshot_ids_small_def fmlookup_add_of_list
      fmlookup_of_list snapshot_devices_def snapshot_channel_access_def snapshot_message_access_def
      simp del: fmlookup_add dest!: map_of_mapD split: option.splits if_splits)

section \<open>What a snapshot cannot decide\<close>

text \<open>A snapshot carries neither invites nor join requests.\<close>

definition reads_invites :: "EventBody \<Rightarrow> bool" where
  "reads_invites body =
     (case body of WorkspaceInviteClaimed _ _ _ \<Rightarrow> True | WorkspaceInviteResolved _ _ \<Rightarrow> True
      | WorkspaceJoinRequestResolved _ _ \<Rightarrow> True | _ \<Rightarrow> False)"

lemma snapshot_view_requirements [simp]:
  "role_for (snapshot_view ix) = role_for ix"
  "ix_root_seen (snapshot_view ix) = ix_root_seen ix"
  "ix_root_device_id (snapshot_view ix) = ix_root_device_id ix"
  "ix_workspace_id (snapshot_view ix) = ix_workspace_id ix"
  "ix_channels (snapshot_view ix) = ix_channels ix"
  "ix_messages (snapshot_view ix) = ix_messages ix"
  "ix_event_channels (snapshot_view ix) = ix_event_channels ix"
  "ix_person_links (snapshot_view ix) = ix_person_links ix"
  by (simp_all add: snapshot_view_def role_for_def fun_eq_iff)

lemma authorize_snapshot_view:
  assumes "\<not> reads_invites (ev_body ev)"
  shows "authorize (snapshot_view ix) ev = authorize ix ev"
proof -
  have "authorize_body (snapshot_view ix) ev = authorize_body ix ev"
    using assms
    by (cases "ev_body ev")
      (simp_all add: authorize_body_def reads_invites_def authorize_arm_defs requirement_defs
        require_person_device_link_def cong: if_cong option.case_cong ContentKeyScope.case_cong)
  then show ?thesis by (simp add: authorize_def)
qed

text \<open>The snapshot of a history that was accepted event by event.\<close>

lemma history_snapshot:
  assumes "accepted_run (apply_event vals) (state_new w) events st" "distinct (map sg_event_id events)"
    "ix_root_device_id (ws_access_index st) = Some root" "role_for (ws_access_index st) root = Some Owner"
  shows "\<exists>snapshot root_event. trust_snapshot_from_events vals w events = Inr (snapshot, root_event)
    \<and> ev_author root_event = root \<and> from_trust_snapshot snapshot = Inr (snapshot_view (ws_access_index st))"
proof -
  let ?ix = "ws_access_index st" and ?parts = "foldl parts_apply parts_empty events"
  have run: "accepted_run authorize_and_apply (index_new w) events ?ix"
    using index_of_run [OF assms(1)] by (simp add: state_new_def)
  obtain root_event where root: "find is_workspace_created events = Some root_event" "ev_author root_event = root"
    using root_of_run [OF run] assms(3) by (cases "find is_workspace_created events") auto
  have "ordered_run vals (state_new w) events st"
    using assms(1,2) by (simp add: ordered_run_def state_new_def access_inv_new)
  then have "apply_batch vals (state_new w) events =
      Inr (st, \<lparr>rep_applied_events = map sg_event_id events, rep_gaps = []\<rparr>)" by (rule ordered_batch)
  then have snap: "trust_snapshot_from_events vals w events = Inr (snapshot_of_parts w root_event ?parts, root_event)"
    by (simp add: trust_snapshot_from_events_def applied_of_batch_def root ok_or_def bind_res_def)
  have "root_event \<in> set events" using root(1) by (auto simp: find_Some_iff)
  note ids = ids_of_run [OF run this]
  have w: "ix_workspace_id ?ix = w" using index_workspace_of_run [OF run] by (simp add: index_new_def)
  have "shareable ?ix root_event ?parts"
    using parts_follow_run [OF run access_inv_new parts_follow_empty] access.run_inv [OF run access_inv_new]
      index_sizes.run_inv [OF run ids_small_new] assms(3,4) root(2) by (simp add: shareable_def)
  from snapshot_round_trip [OF this] ids signed_ids_small
  have "from_trust_snapshot (snapshot_of_parts w root_event ?parts) = Inr (snapshot_view ?ix)" by (metis w)
  with snap root(2) show ?thesis by blast
qed

lemma team_state_root:
  "ix_root_device_id (ws_access_index team_state) = Some alice"
  "role_for (ws_access_index team_state) alice = Some Owner"
proof -
  have "ws_access_index team_state = team_index"
    using accepted_run_deterministic [OF index_of_run [OF team_state_run]] team_run by (simp add: state_new_def)
  then show "ix_root_device_id (ws_access_index team_state) = Some alice"
    "role_for (ws_access_index team_state) alice = Some Owner" by (simp_all add: team_roles)
qed

section \<open>Properties\<close>

text \<open>
  C30: a snapshot loads exactly when its schema version is 1, its identifiers fit their size limits
  and its lists are consistent (no entry listed twice, the root not listed again, members and links
  only of devices with a role, messages and event channels only in listed channels), and the
  index it loads to satisfies every invariant of an index built from events.
\<close>

theorem snapshot_loading_is_well_formed:
  "((\<exists>ix. from_trust_snapshot s = Inr ix) \<longleftrightarrow>
      ts_schema_version s = 1 \<and> snapshot_ids_small s \<and> snapshot_ok s)
   \<and> (\<forall>ix. from_trust_snapshot s = Inr ix \<longrightarrow> access_inv ix \<and> ids_small ix)"
  by (auto simp: from_trust_snapshot_Inr validate_trust_snapshot_ids_Inr
      intro: snapshot_index_inv snapshot_small_index)

theorem snapshot_loading_is_well_formed_witness:
  "\<exists>snapshot root_event ix. trust_snapshot_from_events sorted_values team team_history = Inr (snapshot, root_event)
    \<and> from_trust_snapshot snapshot = Inr ix \<and> access_inv ix"
  using history_snapshot [OF team_state_run team_ids team_state_root] snapshot_loading_is_well_formed by blast

text \<open>
  C29: for a history that \<open>apply\<close> accepts event by event, and whose root is still an owner, a
  snapshot is produced, and it loads back to the access index of the resulting state, without its
  invites and join requests; it decides every event that does not refer to those as the state does.
\<close>

theorem snapshot_round_trips_history:
  assumes "accepted_run (apply_event vals) (state_new w) events st" "distinct (map sg_event_id events)"
    "ix_root_device_id (ws_access_index st) = Some root" "role_for (ws_access_index st) root = Some Owner"
  shows "\<exists>snapshot root_event. trust_snapshot_from_events vals w events = Inr (snapshot, root_event)
    \<and> ev_author root_event = root
    \<and> from_trust_snapshot snapshot = Inr (snapshot_view (ws_access_index st))
    \<and> (\<forall>ev. \<not> reads_invites (ev_body ev) \<longrightarrow>
         authorize_event_with_trust_snapshot snapshot ev = authorize (ws_access_index st) ev)"
proof -
  obtain snapshot root_event where s: "trust_snapshot_from_events vals w events = Inr (snapshot, root_event)"
    "ev_author root_event = root" "from_trust_snapshot snapshot = Inr (snapshot_view (ws_access_index st))"
    using history_snapshot [OF assms] by blast
  then show ?thesis
    by (intro exI [of _ snapshot] exI [of _ root_event])
      (simp add: authorize_event_with_trust_snapshot_def bind_res_def authorize_snapshot_view)
qed

theorem snapshot_round_trips_history_witness:
  "\<exists>snapshot root_event. trust_snapshot_from_events sorted_values team team_history = Inr (snapshot, root_event)
    \<and> from_trust_snapshot snapshot = Inr (snapshot_view (ws_access_index team_state))"
  using snapshot_round_trips_history [OF team_state_run team_ids team_state_root] by blast

text \<open>
  C31: a snapshot narrowed to given events loads whenever the full one does, and decides each of
  those events as the full one does, except for the definition of a channel and the link of a
  person to a device, whose requirements the narrowing does not collect.
\<close>

theorem narrowed_snapshot_decides_alike:
  assumes "from_trust_snapshot snapshot = Inr ix" "ev \<in> set targets" "scope_covered (ev_body ev)"
  shows "authorize_event_with_trust_snapshot (trust_snapshot_for_events snapshot targets) ev
    = authorize_event_with_trust_snapshot snapshot ev"
  using narrowed_decision [OF assms] assms(1)
  by (simp add: authorize_event_with_trust_snapshot_def bind_res_def)

theorem narrowed_snapshot_decides_alike_witness:
  "\<exists>snapshot root_event. trust_snapshot_from_events sorted_values team team_history = Inr (snapshot, root_event)
    \<and> authorize_event_with_trust_snapshot (trust_snapshot_for_events snapshot [grant_bob]) grant_bob
      = authorize_event_with_trust_snapshot snapshot grant_bob"
proof -
  have "scope_covered (ev_body grant_bob)" by (simp add: grant_bob_def scope_covered_def)
  then show ?thesis
    using history_snapshot [OF team_state_run team_ids team_state_root]
      narrowed_snapshot_decides_alike [where ev = grant_bob and targets = "[grant_bob]"]
    by fastforce
qed

definition carol_person :: PersonId where "carol_person = PersonId ''person_carol''"

definition shared_snapshot :: TrustSnapshot where
  "shared_snapshot =
     \<lparr>ts_schema_version = 1, ts_workspace_id = team, ts_root_event_id = EventId ''e1'',
      ts_root_author_device_id = alice,
      ts_roles = [\<lparr>tsr_device_id = bob, tsr_role = Member\<rparr>, \<lparr>tsr_device_id = carol, tsr_role = Member\<rparr>],
      ts_channels = [\<lparr>tsc_channel_id = secret, tsc_is_private = True, tsc_creator_device_id = carol,
        tsc_member_device_ids = [carol]\<rparr>],
      ts_messages = [], ts_event_channels = [],
      ts_person_device_links = [\<lparr>tsl_person_id = carol_person, tsl_device_id = carol\<rparr>]\<rparr>"

definition redefine_secret :: SignedEvent where
  "redefine_secret = sample_event ''x1'' bob None [] (ChannelCreated secret ''Secret'' False)"
definition claim_person :: SignedEvent where
  "claim_person = sample_event ''x2'' bob None [] (PersonDeviceLinked carol_person bob)"

lemmas shared_eval =
  shared_snapshot_def redefine_secret_def claim_person_def carol_person_def scenario_names
  authorize_event_with_trust_snapshot_def from_trust_snapshot_def validate_trust_snapshot_ids_def
  validate_trust_snapshot_channel_ids_def validate_trust_snapshot_message_ids_def
  snapshot_channel_access_def index_new_def trust_snapshot_for_events_def snapshot_needs_def
  retain_needed_def collect_trust_snapshot_dependencies_def collect_body_dependencies_def
  needs_device_def needs_channel_def require_person_device_link_def linked_device_of_def

text \<open>
  The two exceptions are real: a snapshot that refuses to define an existing channel again and
  to link a person to a second device accepts both once it is narrowed to the event in question,
  because the narrowing drops the existing channel and the existing link.
\<close>

theorem narrowing_loses_uniqueness_checks:
  "authorize_event_with_trust_snapshot shared_snapshot redefine_secret = Inl (ChannelAlreadyCreated secret)
   \<and> authorize_event_with_trust_snapshot (trust_snapshot_for_events shared_snapshot [redefine_secret])
       redefine_secret = Inr ()
   \<and> authorize_event_with_trust_snapshot shared_snapshot claim_person
     = Inl (PersonAlreadyLinked carol_person carol bob)
   \<and> authorize_event_with_trust_snapshot (trust_snapshot_for_events shared_snapshot [claim_person])
       claim_person = Inr ()"
  by (simp add: shared_eval authorize_eval sorted_list_of_fmap_def sorted_list_of_fset.rep_eq)

end
