(* ===== verification/Domain_Properties.thy ===== *)
theory Domain_Properties
  imports Domain_Checks
begin

text \<open>
  The encodings of the domain types: relay avatars, storage classes and event identifiers.
\<close>

section \<open>Splitting at a separator\<close>

lemma split_char_nonempty: "split_char c s \<noteq> []"
  by (induction s) (auto split: list.split)

lemma split_char_word: "c \<notin> set w \<Longrightarrow> split_char c w = [w]"
  by (induction w) auto

lemma split_char_step: "c \<notin> set w \<Longrightarrow> split_char c (w @ c # s) = w # split_char c s"
  by (induction w) auto

lemma split_char_join:
  "split_char c s = w # ws \<Longrightarrow> c \<notin> set w \<and> (case ws of [] \<Rightarrow> s = w | _ \<Rightarrow> \<exists>t. s = w @ c # t \<and> split_char c t = ws)"
proof (induction s arbitrary: w ws)
  case (Cons d s)
  show ?case
  proof (cases "d = c")
    case True
    with Cons.prems split_char_nonempty [of c s] show ?thesis by (auto split: list.splits)
  next
    case False
    obtain v vs where v: "split_char c s = v # vs" using split_char_nonempty [of c s] by (cases "split_char c s") auto
    with Cons.prems False have "w = d # v" "ws = vs" by auto
    with Cons.IH [OF v] False show ?thesis by (cases ws) auto
  qed
qed auto

section \<open>Two-digit fields\<close>

lemma of_char_digit: "n < 10 \<Longrightarrow> (of_char (digit_char n) :: nat) = 48 + n"
  by (simp add: digit_char_def of_char_of)

lemma digit_char_digit:
  assumes "n < 10"
  shows "is_ascii_digit (digit_char n)"
proof -
  have "(of_char (digit_char n) :: int) = int (48 + n)"
    by (metis of_char_digit [OF assms] of_nat_of_char)
  with assms show ?thesis by (simp add: is_ascii_digit_def byte_between_def)
qed

lemma digit_cases:
  assumes "is_ascii_digit c"
  obtains n where "n < 10" "c = digit_char n"
proof
  have "(of_char c :: int) = int (of_char c)" by (rule of_nat_of_char [symmetric])
  then have r: "48 \<le> (of_char c :: nat)" "(of_char c :: nat) \<le> 57"
    using assms unfolding is_ascii_digit_def byte_between_def by linarith+
  then show "of_char c - 48 < (10 :: nat)" by simp
  have "48 + (of_char c - 48) = (of_char c :: nat)" using r by simp
  then show "c = digit_char (of_char c - 48)" by (simp add: digit_char_def)
qed

lemma digit_char_inject: "n < 10 \<Longrightarrow> m < 10 \<Longrightarrow> digit_char n = digit_char m \<longleftrightarrow> n = m"
  by (metis of_char_digit add_left_cancel)

text \<open>The value of two digits, at eight bits.\<close>

lemma two_digits_value:
  assumes "n < 10" "m < 10"
  shows "(byte_val (digit_char n) - 48) * 10 + byte_val (digit_char m) - 48 = (of_nat (10 * n + m) :: u8)"
  using assms by (simp add: byte_val_def of_char_digit)

lemma fmt02_two_digits:
  assumes "n < 10" "m < 10"
  shows "fmt02 (of_nat (10 * n + m)) = [digit_char n, digit_char m]"
proof -
  have "unat (of_nat (10 * n + m) :: u8) = 10 * n + m"
    using assms unfolding unat_of_nat by simp
  then show ?thesis using assms by (simp add: fmt02_def Let_def)
qed

lemma parse_component_digits:
  assumes "n < 10" "m < 10"
  shows "parse_relay_avatar_component [pre, digit_char n, digit_char m] pre = Some (of_nat (10 * n + m))"
  using assms
  by (simp add: parse_relay_avatar_component_def digit_char_digit byte_val_def of_char_digit)

lemma parse_component_fmt02:
  assumes "unat v < 100"
  shows "parse_relay_avatar_component (pre # fmt02 v) pre = Some v"
proof -
  define n m where "n = unat v div 10" and "m = unat v mod 10"
  have d: "n < 10" "m < 10" using assms by (auto simp: n_def m_def)
  have "of_nat (10 * n + m) = v" by (simp add: n_def m_def)
  with parse_component_digits [OF d] fmt02_two_digits [OF d] show ?thesis by simp
qed

lemma parse_component_Some:
  assumes "parse_relay_avatar_component s pre = Some v"
  shows "s = pre # fmt02 v"
proof -
  obtain b1 b2 where b: "s = [pre, b1, b2]" "is_ascii_digit b1" "is_ascii_digit b2"
    "v = (byte_val b1 - 48) * 10 + byte_val b2 - 48"
    using assms by (auto simp: parse_relay_avatar_component_def split: list.splits if_splits)
  obtain n m where n: "n < 10" "b1 = digit_char n" and m: "m < 10" "b2 = digit_char m"
    using b(2,3) by (elim digit_cases) blast
  have "v = of_nat (10 * n + m)" using two_digits_value [OF n(1) m(1)] by (simp add: b(4) n(2) m(2))
  with fmt02_two_digits [OF n(1) m(1)] show ?thesis by (simp add: b(1) n(2) m(2))
qed

lemma fmt02_chars:
  assumes "unat v < 100" "c \<in> set (fmt02 v)"
  shows "is_ascii_digit c"
  using assms by (auto simp: fmt02_def Let_def digit_char_digit)

lemma digit_not_colon: "is_ascii_digit c \<Longrightarrow> c \<noteq> CHR '':''"
  by (auto simp: is_ascii_digit_def byte_between_def)

lemma avatar_parts:
  assumes "CHR '':'' \<notin> set a" "CHR '':'' \<notin> set b" "CHR '':'' \<notin> set c"
  shows "split_char CHR '':'' (a @ CHR '':'' # b @ CHR '':'' # c) = [a, b, c]"
  using assms by (simp add: split_char_step split_char_word)

lemma split_three:
  assumes "split_char x s = [a, b, c]"
  shows "s = a @ x # b @ x # c"
  using split_char_join [OF assms] by (auto dest!: split_char_join)

section \<open>Properties\<close>

text \<open>
  Identifiers of built-in avatars round trip: the parser reads back the three components of every
  identifier that is produced, every identifier it accepts is the one produced from the components
  it reads, and every produced identifier passes the avatar check.
\<close>

theorem relay_avatar_round_trip:
  "(\<forall>v. relay_avatar_id g p c = Some v \<longrightarrow>
      parse_relay_avatar_id v = Some (g, p, c) \<and> validate_avatar_id_str v = Inr ())
   \<and> (\<forall>v. parse_relay_avatar_id v = Some (g, p, c) \<longrightarrow> relay_avatar_id g p c = Some v)"
proof (intro conjI allI impI)
  fix v
  assume r: "relay_avatar_id g p c = Some v"
  then have "g < 16" "p < 8" "c < 12" by (auto simp: relay_avatar_id_def not_le split: if_splits)
  then have u: "unat g < 100" "unat p < 100" "unat c < 100" by (auto simp: word_less_nat_alt)
  let ?a = "CHR ''g'' # fmt02 g" and ?b = "CHR ''p'' # fmt02 p" and ?c = "CHR ''c'' # fmt02 c"
  have v: "v = ''relay-v1:'' @ ?a @ CHR '':'' # ?b @ CHR '':'' # ?c"
    using r by (auto simp: relay_avatar_id_def split: if_splits)
  have nc: "CHR '':'' \<notin> set ?a" "CHR '':'' \<notin> set ?b" "CHR '':'' \<notin> set ?c"
    using u by (auto dest!: fmt02_chars digit_not_colon)
  have strip: "strip_prefix ''relay-v1:'' v = Some (?a @ CHR '':'' # ?b @ CHR '':'' # ?c)"
    by (simp add: v strip_prefix_def)
  show parsed: "parse_relay_avatar_id v = Some (g, p, c)"
    unfolding parse_relay_avatar_id_def strip
    using \<open>g < 16\<close> \<open>p < 8\<close> \<open>c < 12\<close> avatar_parts [OF nc] parse_component_fmt02 [OF u(1)]
      parse_component_fmt02 [OF u(2)] parse_component_fmt02 [OF u(3)] by (simp add: not_le)
  have len: "length (fmt02 w) \<le> 3" for w by (simp add: fmt02_def Let_def)
  have "length v \<le> AVATAR_ID_MAX_BYTES" using len [of g] len [of p] len [of c] by (simp add: v)
  moreover have "list_all avatar_char_ok v"
    using u by (auto simp: v list_all_iff avatar_char_ok_def dest: fmt02_chars)
      (simp_all add: is_ascii_lower_def byte_between_def is_ascii_digit_def)
  ultimately show "validate_avatar_id_str v = Inr ()"
    using parsed by (simp add: validate_avatar_id_str_def)
next
  fix v
  assume p: "parse_relay_avatar_id v = Some (g, p, c)"
  then obtain rest where rest: "strip_prefix ''relay-v1:'' v = Some rest"
    by (auto simp: parse_relay_avatar_id_def bind_eq_Some_conv)
  obtain a b d extra where sp: "split_char CHR '':'' rest = a # b # d # extra"
    using p unfolding parse_relay_avatar_id_def rest by (simp split: list.splits)
  have parts: "split_char CHR '':'' rest = [a, b, d]"
    and ps: "parse_relay_avatar_component a CHR ''g'' = Some g" "parse_relay_avatar_component b CHR ''p'' = Some p"
      "parse_relay_avatar_component d CHR ''c'' = Some c"
    and bounds: "\<not> (g \<ge> 16 \<or> p \<ge> 8 \<or> c \<ge> 12)"
    using p unfolding parse_relay_avatar_id_def rest by (auto simp: sp bind_eq_Some_conv split: if_splits)
  have "v = ''relay-v1:'' @ rest"
    using rest by (auto simp: strip_prefix_def prefix_def split: if_splits)
  moreover note split_three [OF parts] parse_component_Some [OF ps(1)] parse_component_Some [OF ps(2)]
    parse_component_Some [OF ps(3)]
  ultimately show "relay_avatar_id g p c = Some v"
    using bounds by (simp add: relay_avatar_id_def)
qed

theorem relay_avatar_round_trip_witness:
  "relay_avatar_id 7 3 11 = Some ''relay-v1:g07:p03:c11''
   \<and> parse_relay_avatar_id ''relay-v1:g07:p03:c11'' = Some (7, 3, 11)"
proof -
  have "relay_avatar_id 7 3 11 = Some ''relay-v1:g07:p03:c11''"
    by code_simp
  then show ?thesis using relay_avatar_round_trip [of 7 3 11] by blast
qed

text \<open>
  The wire names of the replica storage classes are a bijection with the supported values: each
  class is read back from its name, only supported values are read, and each of them is the name of
  the class it is read as.
\<close>

theorem storage_class_round_trip:
  "storage_class_from_wire (storage_class_as_str k) = Some k
   \<and> (storage_class_from_wire v \<noteq> None \<longleftrightarrow> v \<in> set supported_wire_values)
   \<and> map_option storage_class_as_str (storage_class_from_wire v) = (if v \<in> set supported_wire_values then Some v else None)"
  by (cases k) (auto simp: storage_class_from_wire_def supported_wire_values_def)

text \<open>
  Whatever the serialiser, the identifier of a signed event is canonical, fits the size limit of
  event identifiers and depends only on the signed bytes and the signature, provided the hash prints
  64 lower-case hexadecimal digits.
\<close>

theorem signed_event_id_is_canonical:
  assumes "\<And>b. length (blake3_hex b) = 64 \<and> list_all is_lower_hex (blake3_hex b)"
  shows "is_canonical_event_id_str (event_str (sg_event_id (from_author_signature blake3_hex enc ev pk sig)))
    \<and> validate_event_id (sg_event_id (from_author_signature blake3_hex enc ev pk sig)) = Inr ()
    \<and> sg_event_id (from_author_signature blake3_hex enc ev pk sig)
      = sg_event_id (from_signed_bytes blake3_hex enc ev sig)"
  using assms [of "enc ev @ sig"]
  by (simp add: from_author_signature_def from_signed_bytes_def is_canonical_event_id_str_def strip_prefix_def
      validate_event_id_def validate_event_id_str_def validate_id_bytes_def ensure_def)

theorem signed_event_id_is_canonical_witness:
  "is_canonical_event_id_str (event_str (sg_event_id
     (from_author_signature (\<lambda>_. replicate 64 CHR ''a'') (\<lambda>_. [])
       (signable_event_new \<lparr>physical_ms = 0, logical = 0\<rparr> (WorkspaceId ''w'') None (DeviceId ''d'')
         (WorkspaceCreated ''W'')) [] [])))"
proof -
  have "length (replicate 64 CHR ''a'') = 64 \<and> list_all is_lower_hex (replicate 64 CHR ''a'')"
    by (simp add: list_all_iff is_lower_hex_def byte_between_def)
  then show ?thesis by (intro signed_event_id_is_canonical [THEN conjunct1])
qed

end
