(* ===== verification/Crypto.thy ===== *)
theory Crypto
  imports Domain_Checks
begin

text \<open>
  The content encryption of \<^verbatim>\<open>src/security/crypto/src/lib.rs\<close>: sealed payloads, the associated data that
  binds a payload to its message or attachment, and encrypted blob references.  The cipher
  (AES-256-GCM-SIV) is a parameter, a record of the operations the code calls; the random nonce
  that \<open>SysRng\<close> fills in is an argument of the sealing functions.
\<close>

section \<open>Bytes and strings\<close>

text \<open>\<open>str::as_bytes\<close>, \<open>String::from_utf8\<close> and the decimal \<open>Display\<close> of an unsigned integer.\<close>

definition as_bytes :: "string \<Rightarrow> bytes" where
  "as_bytes s = map byte_val s"

definition byte_char :: "u8 \<Rightarrow> char" where
  "byte_char b = char_of (unat b)"

text \<open>One well-formed UTF-8 sequence off the front (the table of the Unicode standard).\<close>

definition utf8_tail :: "u8 \<Rightarrow> bool" where
  "utf8_tail b \<longleftrightarrow> 0x80 \<le> b \<and> b \<le> 0xBF"

fun utf8_char :: "bytes \<Rightarrow> bytes option" where
  "utf8_char [] = None"
| "utf8_char (a # s) =
     (if a < 0x80 then Some s
      else if 0xC2 \<le> a \<and> a \<le> 0xDF then
        (case s of b # r \<Rightarrow> if utf8_tail b then Some r else None | _ \<Rightarrow> None)
      else if 0xE0 \<le> a \<and> a \<le> 0xEF then
        (case s of b # c # r \<Rightarrow>
           if utf8_tail b \<and> utf8_tail c \<and> (a = 0xE0 \<longrightarrow> 0xA0 \<le> b) \<and> (a = 0xED \<longrightarrow> b \<le> 0x9F)
           then Some r else None | _ \<Rightarrow> None)
      else if 0xF0 \<le> a \<and> a \<le> 0xF4 then
        (case s of b # c # d # r \<Rightarrow>
           if utf8_tail b \<and> utf8_tail c \<and> utf8_tail d \<and> (a = 0xF0 \<longrightarrow> 0x90 \<le> b) \<and> (a = 0xF4 \<longrightarrow> b \<le> 0x8F)
           then Some r else None | _ \<Rightarrow> None)
      else None)"

lemma utf8_char_shorter: "utf8_char s = Some r \<Longrightarrow> length r < length s"
  by (cases s) (auto split: if_splits list.splits)

function valid_utf8 :: "bytes \<Rightarrow> bool" where
  "valid_utf8 s = (s = [] \<or> (case utf8_char s of None \<Rightarrow> False | Some r \<Rightarrow> valid_utf8 r))"
  by pat_completeness auto
termination
  by (relation "measure length") (auto dest: utf8_char_shorter)

declare valid_utf8.simps [simp del]

definition from_utf8 :: "bytes \<Rightarrow> string option" where
  "from_utf8 bs = (if valid_utf8 bs then Some (map byte_char bs) else None)"

function show_decimal :: "nat \<Rightarrow> string" where
  "show_decimal n = (if n < 10 then [digit_char n] else show_decimal (n div 10) @ [digit_char (n mod 10)])"
  by pat_completeness auto
termination
  by (relation "measure id") auto

declare show_decimal.simps [simp del]

section \<open>The cipher\<close>

abbreviation AES_256_GCM_SIV_KEY_LEN :: nat where "AES_256_GCM_SIV_KEY_LEN \<equiv> 32"
abbreviation AES_256_GCM_SIV_NONCE_LEN :: nat where "AES_256_GCM_SIV_NONCE_LEN \<equiv> 12"

text \<open>
  \<open>Aes256GcmSiv::new_from_slice\<close>, and \<open>encrypt\<close> and \<open>decrypt\<close> of a nonce, a message and associated
  data.  The library documents that it takes keys of 32 bytes and that decryption returns the
  plaintext of a ciphertext that encryption produced under the same key, nonce and data.
\<close>

record 'c Aead =
  new_from_slice :: "bytes \<Rightarrow> 'c option"
  encrypt :: "'c \<Rightarrow> bytes \<Rightarrow> bytes \<Rightarrow> bytes \<Rightarrow> bytes option"
  decrypt :: "'c \<Rightarrow> bytes \<Rightarrow> bytes \<Rightarrow> bytes \<Rightarrow> bytes option"

definition aead_law :: "'c Aead \<Rightarrow> bool" where
  "aead_law A \<longleftrightarrow>
     (\<forall>cipher nonce msg aad bytes. length nonce = AES_256_GCM_SIV_NONCE_LEN
        \<longrightarrow> encrypt A cipher nonce msg aad = Some bytes \<longrightarrow> decrypt A cipher nonce bytes aad = Some msg)"

section \<open>Keys and errors\<close>

datatype CryptoError =
    NotDevelopmentPlaintext
  | NotAes256GcmSiv
  | InvalidNonceLength
  | AssociatedDataMismatch
  | SealFailed
  | OpenFailed
  | InvalidUtf8

datatype ContentKey = ContentKey (as_key_bytes: bytes)

section \<open>Payloads\<close>

definition seal_development_plaintext :: "bytes \<Rightarrow> SealedPayload" where
  "seal_development_plaintext bytes =
     \<lparr>sp_mode = DevelopmentPlaintext, sp_key_id = [], sp_nonce = [], sp_aad = [], sp_bytes = bytes\<rparr>"

definition open_development_plaintext :: "SealedPayload \<Rightarrow> CryptoError + bytes" where
  "open_development_plaintext payload =
     (case sp_mode payload of
        DevelopmentPlaintext \<Rightarrow> Inr (sp_bytes payload)
      | Aes256GcmSiv \<Rightarrow> Inl NotDevelopmentPlaintext
      | OpenMlsPending \<Rightarrow> Inl NotDevelopmentPlaintext)"

definition seal_aes_256_gcm_siv ::
  "'c Aead \<Rightarrow> bytes \<Rightarrow> string \<Rightarrow> ContentKey \<Rightarrow> bytes \<Rightarrow> bytes \<Rightarrow> CryptoError + SealedPayload" where
  "seal_aes_256_gcm_siv A nonce key_id key plaintext aad =
     bind_res (ok_or (new_from_slice A (as_key_bytes key)) SealFailed) (\<lambda>cipher.
     bind_res (ok_or (encrypt A cipher nonce plaintext aad) SealFailed) (\<lambda>bytes.
     Inr \<lparr>sp_mode = Aes256GcmSiv, sp_key_id = key_id, sp_nonce = nonce, sp_aad = aad, sp_bytes = bytes\<rparr>))"

definition open_aes_256_gcm_siv_with_aad ::
  "'c Aead \<Rightarrow> ContentKey \<Rightarrow> SealedPayload \<Rightarrow> bytes \<Rightarrow> CryptoError + bytes" where
  "open_aes_256_gcm_siv_with_aad A key payload aad =
     (if sp_mode payload \<noteq> Aes256GcmSiv then Inl NotAes256GcmSiv
      else if length (sp_nonce payload) \<noteq> AES_256_GCM_SIV_NONCE_LEN then Inl InvalidNonceLength
      else if sp_aad payload \<noteq> aad then Inl AssociatedDataMismatch
      else bind_res (ok_or (new_from_slice A (as_key_bytes key)) OpenFailed) (\<lambda>cipher.
        ok_or (decrypt A cipher (sp_nonce payload) (sp_bytes payload) aad) OpenFailed))"

definition open_aes_256_gcm_siv :: "'c Aead \<Rightarrow> ContentKey \<Rightarrow> SealedPayload \<Rightarrow> CryptoError + bytes" where
  "open_aes_256_gcm_siv A key payload = open_aes_256_gcm_siv_with_aad A key payload (sp_aad payload)"

section \<open>Messages\<close>

definition message_markdown_aad :: "WorkspaceId \<Rightarrow> ChannelId \<Rightarrow> MessageId \<Rightarrow> bytes" where
  "message_markdown_aad workspace_id channel_id message_id =
     as_bytes (''chaft:v1:message_markdown:'' @ workspace_str workspace_id @ '':'' @ channel_str channel_id
       @ '':'' @ message_str message_id)"

definition seal_message_markdown ::
  "'c Aead \<Rightarrow> bytes \<Rightarrow> string \<Rightarrow> ContentKey \<Rightarrow> WorkspaceId \<Rightarrow> ChannelId \<Rightarrow> MessageId \<Rightarrow> string \<Rightarrow> CryptoError + SealedPayload"
  where
  "seal_message_markdown A nonce key_id key workspace_id channel_id message_id markdown =
     seal_aes_256_gcm_siv A nonce key_id key (as_bytes markdown)
       (message_markdown_aad workspace_id channel_id message_id)"

definition open_message_markdown ::
  "'c Aead \<Rightarrow> ContentKey \<Rightarrow> SealedPayload \<Rightarrow> WorkspaceId \<Rightarrow> ChannelId \<Rightarrow> MessageId \<Rightarrow> CryptoError + string"
  where
  "open_message_markdown A key payload workspace_id channel_id message_id =
     bind_res (open_aes_256_gcm_siv_with_aad A key payload
         (message_markdown_aad workspace_id channel_id message_id))
       (\<lambda>bytes. ok_or (from_utf8 bytes) InvalidUtf8)"

section \<open>Attachments\<close>

definition attachment_blob_aad :: "WorkspaceId \<Rightarrow> ChannelId \<Rightarrow> MessageId \<Rightarrow> u32 \<Rightarrow> bytes" where
  "attachment_blob_aad workspace_id channel_id message_id attachment_index =
     as_bytes (''chaft:v1:attachment_blob:'' @ workspace_str workspace_id @ '':'' @ channel_str channel_id
       @ '':'' @ message_str message_id @ '':'' @ show_decimal (unat attachment_index))"

definition seal_attachment_blob ::
  "'c Aead \<Rightarrow> bytes \<Rightarrow> string \<Rightarrow> ContentKey \<Rightarrow> WorkspaceId \<Rightarrow> ChannelId \<Rightarrow> MessageId \<Rightarrow> u32 \<Rightarrow> bytes
     \<Rightarrow> CryptoError + SealedPayload" where
  "seal_attachment_blob A nonce key_id key workspace_id channel_id message_id attachment_index bytes =
     seal_aes_256_gcm_siv A nonce key_id key bytes
       (attachment_blob_aad workspace_id channel_id message_id attachment_index)"

definition open_attachment_blob ::
  "'c Aead \<Rightarrow> ContentKey \<Rightarrow> SealedPayload \<Rightarrow> WorkspaceId \<Rightarrow> ChannelId \<Rightarrow> MessageId \<Rightarrow> u32 \<Rightarrow> CryptoError + bytes"
  where
  "open_attachment_blob A key payload workspace_id channel_id message_id attachment_index =
     open_aes_256_gcm_siv_with_aad A key payload
       (attachment_blob_aad workspace_id channel_id message_id attachment_index)"

definition encrypted_blob_ref_from_payload :: "SealedPayload \<Rightarrow> u64 \<Rightarrow> CryptoError + EncryptedBlobRef" where
  "encrypted_blob_ref_from_payload payload plaintext_byte_len =
     (if sp_mode payload \<noteq> Aes256GcmSiv then Inl NotAes256GcmSiv
      else if length (sp_nonce payload) \<noteq> AES_256_GCM_SIV_NONCE_LEN then Inl InvalidNonceLength
      else Inr \<lparr>ebr_mode = sp_mode payload, ebr_key_id = sp_key_id payload, ebr_nonce = sp_nonce payload,
        ebr_aad = sp_aad payload, ebr_plaintext_byte_len = plaintext_byte_len\<rparr>)"

definition sealed_payload_from_encrypted_blob_ref :: "EncryptedBlobRef \<Rightarrow> bytes \<Rightarrow> SealedPayload" where
  "sealed_payload_from_encrypted_blob_ref encrypted ciphertext =
     \<lparr>sp_mode = ebr_mode encrypted, sp_key_id = ebr_key_id encrypted, sp_nonce = ebr_nonce encrypted,
      sp_aad = ebr_aad encrypted, sp_bytes = ciphertext\<rparr>"

end
