(* ===== verification/Identity.thy ===== *)
theory Identity
  imports Crypto
begin

text \<open>
  Device identities, signatures and their verification, from \<^verbatim>\<open>src/security/identity/src/lib.rs\<close>.  Ed25519,
  blake3, Argon2id, the cipher and the JSON serialiser are parameters, gathered in one record of the
  operations the code calls; a signing key is its 32 secret bytes.  The calls to the operating system
  (does the file exist, read it, write it) are arguments that give their results; random bytes are
  arguments too.
\<close>

section \<open>Errors and data\<close>

abbreviation DEVICE_IDENTITY_FILE_MAX_BYTES :: nat where "DEVICE_IDENTITY_FILE_MAX_BYTES \<equiv> 64 * 1024"
abbreviation DEVICE_IDENTITY_PASSPHRASE_MAX_BYTES :: nat where "DEVICE_IDENTITY_PASSPHRASE_MAX_BYTES \<equiv> 16 * 1024"
abbreviation DEVICE_IDENTITY_PATH_MAX_BYTES :: nat where "DEVICE_IDENTITY_PATH_MAX_BYTES \<equiv> 64 * 1024"
abbreviation ENCRYPTED_IDENTITY_SCHEMA_VERSION :: u32 where "ENCRYPTED_IDENTITY_SCHEMA_VERSION \<equiv> 1"
abbreviation ENCRYPTED_IDENTITY_STORAGE :: string where "ENCRYPTED_IDENTITY_STORAGE \<equiv> ''argon2id-aes-256-gcm-siv''"
abbreviation ENCRYPTED_IDENTITY_KDF_ARGON2ID :: string where "ENCRYPTED_IDENTITY_KDF_ARGON2ID \<equiv> ''argon2id''"
abbreviation ENCRYPTED_IDENTITY_KDF_CONTEXT :: string where
  "ENCRYPTED_IDENTITY_KDF_CONTEXT \<equiv> ''Chaft device identity file v1''"
abbreviation ENCRYPTED_IDENTITY_SALT_LEN :: nat where "ENCRYPTED_IDENTITY_SALT_LEN \<equiv> 16"
abbreviation ENCRYPTED_IDENTITY_ARGON2_MEMORY_COST_KIB :: u32 where
  "ENCRYPTED_IDENTITY_ARGON2_MEMORY_COST_KIB \<equiv> 64 * 1024"
abbreviation ENCRYPTED_IDENTITY_ARGON2_TIME_COST :: u32 where "ENCRYPTED_IDENTITY_ARGON2_TIME_COST \<equiv> 3"
abbreviation ENCRYPTED_IDENTITY_ARGON2_PARALLELISM :: u32 where "ENCRYPTED_IDENTITY_ARGON2_PARALLELISM \<equiv> 1"
abbreviation ENCRYPTED_IDENTITY_KDF_OUTPUT_LEN :: u32 where "ENCRYPTED_IDENTITY_KDF_OUTPUT_LEN \<equiv> 32"

datatype IdentityError =
    Io string
  | Serde
  | InvalidSigningKey
  | InvalidVerifyingKey
  | InvalidSignature
  | EventIdMismatch
  | DeviceIdMismatch
  | PersistedDeviceIdMismatch
  | InvalidTrustSnapshotRoot
  | TrustSnapshotSignerMismatch
  | EncryptedIdentityPassphraseRequired
  | EncryptedIdentityPassphraseTooLarge nat nat
  | UnsupportedEncryptedIdentity
  | InvalidEncryptedIdentity
  | IdentityCrypto CryptoError
  | Kdf string
  | IdentityFileTooLarge nat nat
  | IdentityPathRequired
  | IdentityPathTooLarge nat nat

record DeviceIdentity =
  di_device_id :: DeviceId
  di_signing_key :: bytes

record SignedTrustSnapshot =
  sts_snapshot :: TrustSnapshot
  sts_root_event :: SignedEvent
  sts_author_public_key :: bytes
  sts_signature :: bytes

record PersistedDeviceIdentity =
  pdi_schema_version :: u32
  pdi_device_id :: DeviceId
  pdi_signing_key_hex :: string

record EncryptedIdentityKdf =
  kdf_name :: string
  kdf_context :: string
  kdf_salt :: bytes
  kdf_memory_cost_kib :: u32
  kdf_time_cost :: u32
  kdf_parallelism :: u32
  kdf_output_len :: u32

record PersistedEncryptedDeviceIdentity =
  ped_schema_version :: u32
  ped_storage :: string
  ped_device_id :: DeviceId
  ped_kdf :: EncryptedIdentityKdf
  ped_sealed_payload :: SealedPayload

section \<open>The libraries\<close>

text \<open>
  \<open>verifying_key\<close> is \<open>SigningKey::verifying_key().to_bytes()\<close>, \<open>vk_ok\<close> whether
  \<open>VerifyingKey::from_bytes\<close> accepts its 32 bytes, \<open>argon2id\<close> takes the four parameters, the
  passphrase and the salt.  \<open>Signature::from_slice\<close> accepts exactly 64 bytes.
\<close>

record 'c IdentityLib =
  hash_hex :: "bytes \<Rightarrow> string"
  event_bytes :: "SignableEvent \<Rightarrow> bytes"
  snapshot_bytes :: "TrustSnapshot \<Rightarrow> bytes"
  verifying_key :: "bytes \<Rightarrow> bytes"
  vk_ok :: "bytes \<Rightarrow> bool"
  ed_sign :: "bytes \<Rightarrow> bytes \<Rightarrow> bytes"
  ed_verify :: "bytes \<Rightarrow> bytes \<Rightarrow> bytes \<Rightarrow> bool"
  argon2id :: "u32 \<Rightarrow> u32 \<Rightarrow> u32 \<Rightarrow> u32 \<Rightarrow> string \<Rightarrow> bytes \<Rightarrow> string + bytes"
  cipher :: "'c Aead"
  persisted_to_vec :: "PersistedDeviceIdentity \<Rightarrow> bytes"
  persisted_to_vec_pretty :: "PersistedDeviceIdentity \<Rightarrow> bytes"
  persisted_from_slice :: "bytes \<Rightarrow> PersistedDeviceIdentity option"
  encrypted_to_vec_pretty :: "PersistedEncryptedDeviceIdentity \<Rightarrow> bytes"
  encrypted_from_slice :: "bytes \<Rightarrow> PersistedEncryptedDeviceIdentity option"

abbreviation device_id_of :: "'c IdentityLib \<Rightarrow> bytes \<Rightarrow> DeviceId" where
  "device_id_of L \<equiv> device_id_from_public_key_bytes (hash_hex L)"

text \<open>
  What the signature library documents: verifying keys have 32 bytes and are accepted, signatures
  have 64 bytes and verify under the key of their signer.
\<close>

definition signature_law :: "'c IdentityLib \<Rightarrow> bool" where
  "signature_law L \<longleftrightarrow>
     (\<forall>k. length (verifying_key L k) = 32 \<and> vk_ok L (verifying_key L k)
        \<and> (\<forall>m. length (ed_sign L k m) = 64 \<and> ed_verify L (verifying_key L k) m (ed_sign L k m)))"

section \<open>Hexadecimal\<close>

definition hex_digit :: "u8 \<Rightarrow> char" where
  "hex_digit n = ''0123456789abcdef'' ! unat n"

definition encode_hex :: "bytes \<Rightarrow> string" where
  "encode_hex bs = concat (map (\<lambda>b. [hex_digit (drop_bit 4 b), hex_digit (and b 0x0f)]) bs)"

definition decode_hex_nibble :: "u8 \<Rightarrow> IdentityError + u8" where
  "decode_hex_nibble b =
     (if 48 \<le> b \<and> b \<le> 57 then Inr (b - 48)
      else if 97 \<le> b \<and> b \<le> 102 then Inr (b - 97 + 10)
      else if 65 \<le> b \<and> b \<le> 70 then Inr (b - 65 + 10)
      else Inl InvalidSigningKey)"

fun decode_hex_chunks :: "bytes \<Rightarrow> IdentityError + bytes" where
  "decode_hex_chunks (hi # lo # rest) =
     bind_res (decode_hex_nibble hi) (\<lambda>h. bind_res (decode_hex_nibble lo) (\<lambda>l.
       bind_res (decode_hex_chunks rest) (\<lambda>out. Inr (or (push_bit 4 h) l # out))))"
| "decode_hex_chunks _ = Inr []"

definition decode_hex_32 :: "string \<Rightarrow> IdentityError + bytes" where
  "decode_hex_32 input =
     (if length input \<noteq> 64 then Inl InvalidSigningKey else decode_hex_chunks (as_bytes input))"

section \<open>Identities and capabilities\<close>

definition from_signing_key :: "'c IdentityLib \<Rightarrow> bytes \<Rightarrow> DeviceIdentity" where
  "from_signing_key L signing_key =
     \<lparr>di_device_id = device_id_of L (verifying_key L signing_key), di_signing_key = signing_key\<rparr>"

definition verifying_key_bytes :: "'c IdentityLib \<Rightarrow> DeviceIdentity \<Rightarrow> bytes" where
  "verifying_key_bytes L identity = verifying_key L (di_signing_key identity)"

definition sign_bytes :: "'c IdentityLib \<Rightarrow> DeviceIdentity \<Rightarrow> bytes \<Rightarrow> bytes" where
  "sign_bytes L identity msg = ed_sign L (di_signing_key identity) msg"

datatype InvitationCapability = InvitationCapability (secret_bytes: bytes)

definition capability_verifying_key_bytes :: "'c IdentityLib \<Rightarrow> InvitationCapability \<Rightarrow> bytes" where
  "capability_verifying_key_bytes L cap = verifying_key L (secret_bytes cap)"

definition capability_sign :: "'c IdentityLib \<Rightarrow> InvitationCapability \<Rightarrow> bytes \<Rightarrow> bytes" where
  "capability_sign L cap msg = ed_sign L (secret_bytes cap) msg"

section \<open>Verification\<close>

definition validate_author_public_key_len :: "bytes \<Rightarrow> IdentityError + unit" where
  "validate_author_public_key_len bs = ensure (length bs \<le> EVENT_AUTHOR_PUBLIC_KEY_MAX_BYTES) InvalidVerifyingKey"

definition validate_signature_len :: "bytes \<Rightarrow> IdentityError + unit" where
  "validate_signature_len bs = ensure (length bs \<le> EVENT_SIGNATURE_MAX_BYTES) InvalidSignature"

text \<open>The common tail: the key, the signature and the equation, in this order.\<close>

definition verify_with_key :: "'c IdentityLib \<Rightarrow> bytes \<Rightarrow> bytes \<Rightarrow> bytes \<Rightarrow> IdentityError + unit" where
  "verify_with_key L key msg signature =
     first_err [ensure (vk_ok L key) InvalidVerifyingKey,
       ensure (length signature = 64) InvalidSignature,
       ensure (ed_verify L key msg signature) InvalidSignature]"

definition verify_event :: "'c IdentityLib \<Rightarrow> SignedEvent \<Rightarrow> bytes \<Rightarrow> IdentityError + unit" where
  "verify_event L event key =
     then_res (validate_signature_len (sg_signature event))
       (verify_with_key L key (event_bytes L (sg_event event)) (sg_signature event))"

definition verify_detached_signature :: "'c IdentityLib \<Rightarrow> bytes \<Rightarrow> bytes \<Rightarrow> bytes \<Rightarrow> IdentityError + unit" where
  "verify_detached_signature L key msg signature =
     (if length signature \<noteq> 64 then Inl InvalidSignature else verify_with_key L key msg signature)"

definition verify_device_detached_signature ::
  "'c IdentityLib \<Rightarrow> DeviceId \<Rightarrow> bytes \<Rightarrow> bytes \<Rightarrow> bytes \<Rightarrow> IdentityError + unit" where
  "verify_device_detached_signature L device_id key msg signature =
     (if device_id_of L key \<noteq> device_id then Inl DeviceIdMismatch
      else verify_detached_signature L key msg signature)"

definition verify_self_contained_event :: "'c IdentityLib \<Rightarrow> SignedEvent \<Rightarrow> IdentityError + unit" where
  "verify_self_contained_event L event =
     (let key = sg_author_public_key event in
      first_err [validate_author_public_key_len key,
        validate_signature_len (sg_signature event),
        ensure (length key = 32) InvalidVerifyingKey,
        ensure (device_id_of L key = ev_author event) DeviceIdMismatch,
        ensure (sg_event_id (from_author_signature (hash_hex L) (event_bytes L) (sg_event event) key
            (sg_signature event)) = sg_event_id event) EventIdMismatch,
        verify_event L event key])"

definition validate_trust_snapshot_root :: "'c IdentityLib \<Rightarrow> TrustSnapshot \<Rightarrow> SignedEvent \<Rightarrow> IdentityError + unit" where
  "validate_trust_snapshot_root L snapshot root_event =
     then_res (verify_self_contained_event L root_event)
       (if ts_schema_version snapshot \<noteq> 1
          \<or> sg_event_id root_event \<noteq> ts_root_event_id snapshot
          \<or> ev_workspace root_event \<noteq> ts_workspace_id snapshot
          \<or> ev_author root_event \<noteq> ts_root_author_device_id snapshot
          \<or> \<not> (case ev_body root_event of WorkspaceCreated _ \<Rightarrow> True | _ \<Rightarrow> False)
        then Inl InvalidTrustSnapshotRoot else Inr ())"

definition verify_self_contained_trust_snapshot :: "'c IdentityLib \<Rightarrow> SignedTrustSnapshot \<Rightarrow> IdentityError + unit" where
  "verify_self_contained_trust_snapshot L s =
     (let key = sts_author_public_key s in
      first_err [validate_trust_snapshot_root L (sts_snapshot s) (sts_root_event s),
        validate_author_public_key_len key,
        validate_signature_len (sts_signature s),
        ensure (length key = 32) InvalidVerifyingKey,
        ensure (device_id_of L key = ts_root_author_device_id (sts_snapshot s)) TrustSnapshotSignerMismatch,
        ensure (sg_author_public_key (sts_root_event s) = key) TrustSnapshotSignerMismatch,
        verify_with_key L key (snapshot_bytes L (sts_snapshot s)) (sts_signature s)])"

section \<open>Signing\<close>

definition sign_event :: "'c IdentityLib \<Rightarrow> DeviceIdentity \<Rightarrow> SignableEvent \<Rightarrow> SignedEvent" where
  "sign_event L identity event =
     from_author_signature (hash_hex L) (event_bytes L) event (verifying_key_bytes L identity)
       (ed_sign L (di_signing_key identity) (event_bytes L event))"

definition sign_trust_snapshot ::
  "'c IdentityLib \<Rightarrow> DeviceIdentity \<Rightarrow> TrustSnapshot \<Rightarrow> SignedEvent \<Rightarrow> IdentityError + SignedTrustSnapshot" where
  "sign_trust_snapshot L identity snapshot root_event =
     (if di_device_id identity \<noteq> ts_root_author_device_id snapshot then Inl TrustSnapshotSignerMismatch
      else then_res (validate_trust_snapshot_root L snapshot root_event)
        (Inr \<lparr>sts_snapshot = snapshot, sts_root_event = root_event,
          sts_author_public_key = verifying_key_bytes L identity,
          sts_signature = ed_sign L (di_signing_key identity) (snapshot_bytes L snapshot)\<rparr>))"

section \<open>The identity file\<close>

definition validate_identity_path :: "string \<Rightarrow> IdentityError + unit" where
  "validate_identity_path path =
     (if length path = 0 then Inl IdentityPathRequired
      else if length path > DEVICE_IDENTITY_PATH_MAX_BYTES
      then Inl (IdentityPathTooLarge (length path) DEVICE_IDENTITY_PATH_MAX_BYTES) else Inr ())"

definition validate_identity_passphrase :: "string option \<Rightarrow> IdentityError + unit" where
  "validate_identity_passphrase passphrase =
     (case passphrase of
        Some p \<Rightarrow> ensure (length p \<le> DEVICE_IDENTITY_PASSPHRASE_MAX_BYTES)
          (EncryptedIdentityPassphraseTooLarge (length p) DEVICE_IDENTITY_PASSPHRASE_MAX_BYTES)
      | None \<Rightarrow> Inr ())"

text \<open>\<open>metadata\<close> is the length the file system reports and \<open>contents\<close> what opening and reading gives.\<close>

definition read_identity_file :: "IdentityError + u64 \<Rightarrow> IdentityError + bytes \<Rightarrow> IdentityError + bytes" where
  "read_identity_file metadata contents =
     bind_res metadata (\<lambda>len.
       if unat len > DEVICE_IDENTITY_FILE_MAX_BYTES
       then Inl (IdentityFileTooLarge (unat len) DEVICE_IDENTITY_FILE_MAX_BYTES)
       else bind_res contents (\<lambda>file.
         let bytes = take (DEVICE_IDENTITY_FILE_MAX_BYTES + 1) file in
         if length bytes > DEVICE_IDENTITY_FILE_MAX_BYTES
         then Inl (IdentityFileTooLarge (length bytes) DEVICE_IDENTITY_FILE_MAX_BYTES)
         else Inr bytes))"

definition from_persisted :: "'c IdentityLib \<Rightarrow> PersistedDeviceIdentity \<Rightarrow> IdentityError + DeviceIdentity" where
  "from_persisted L persisted =
     (if pdi_schema_version persisted \<noteq> 1 then Inl InvalidSigningKey
      else bind_res (decode_hex_32 (pdi_signing_key_hex persisted)) (\<lambda>key.
        let identity = from_signing_key L key in
        if di_device_id identity \<noteq> pdi_device_id persisted then Inl PersistedDeviceIdMismatch
        else Inr identity))"

definition derive_encrypted_identity_key :: "'c IdentityLib \<Rightarrow> string \<Rightarrow> EncryptedIdentityKdf \<Rightarrow> IdentityError + ContentKey" where
  "derive_encrypted_identity_key L passphrase kdf =
     (if kdf_name kdf \<noteq> ENCRYPTED_IDENTITY_KDF_ARGON2ID
        \<or> kdf_context kdf \<noteq> ENCRYPTED_IDENTITY_KDF_CONTEXT
        \<or> length (kdf_salt kdf) \<noteq> ENCRYPTED_IDENTITY_SALT_LEN
        \<or> kdf_memory_cost_kib kdf \<noteq> ENCRYPTED_IDENTITY_ARGON2_MEMORY_COST_KIB
        \<or> kdf_time_cost kdf \<noteq> ENCRYPTED_IDENTITY_ARGON2_TIME_COST
        \<or> kdf_parallelism kdf \<noteq> ENCRYPTED_IDENTITY_ARGON2_PARALLELISM
        \<or> kdf_output_len kdf \<noteq> ENCRYPTED_IDENTITY_KDF_OUTPUT_LEN
      then Inl UnsupportedEncryptedIdentity
      else bind_res (map_err Kdf (argon2id L (kdf_memory_cost_kib kdf) (kdf_time_cost kdf) (kdf_parallelism kdf)
          (kdf_output_len kdf) passphrase (kdf_salt kdf))) (\<lambda>bytes. Inr (ContentKey bytes)))"

definition encrypted_identity_aad :: "DeviceId \<Rightarrow> string \<Rightarrow> string \<Rightarrow> bytes \<Rightarrow> bytes" where
  "encrypted_identity_aad device_id name context salt =
     as_bytes (''chaft:v1:device_identity:'' @ device_str device_id @ '':'' @ name @ '':'' @ context @ '':'') @ salt"

definition encrypted_identity_key_id :: "DeviceId \<Rightarrow> string" where
  "encrypted_identity_key_id device_id = ''device-identity:'' @ device_str device_id"

definition encrypt_persisted_identity ::
  "'c IdentityLib \<Rightarrow> bytes \<Rightarrow> bytes \<Rightarrow> PersistedDeviceIdentity \<Rightarrow> string
     \<Rightarrow> IdentityError + PersistedEncryptedDeviceIdentity" where
  "encrypt_persisted_identity L salt nonce persisted passphrase =
     (let kdf = \<lparr>kdf_name = ENCRYPTED_IDENTITY_KDF_ARGON2ID, kdf_context = ENCRYPTED_IDENTITY_KDF_CONTEXT,
            kdf_salt = salt, kdf_memory_cost_kib = ENCRYPTED_IDENTITY_ARGON2_MEMORY_COST_KIB,
            kdf_time_cost = ENCRYPTED_IDENTITY_ARGON2_TIME_COST,
            kdf_parallelism = ENCRYPTED_IDENTITY_ARGON2_PARALLELISM,
            kdf_output_len = ENCRYPTED_IDENTITY_KDF_OUTPUT_LEN\<rparr>
      in bind_res (derive_encrypted_identity_key L passphrase kdf) (\<lambda>wrapping_key.
         bind_res (map_err IdentityCrypto (seal_aes_256_gcm_siv (cipher L) nonce
             (encrypted_identity_key_id (pdi_device_id persisted)) wrapping_key (persisted_to_vec L persisted)
             (encrypted_identity_aad (pdi_device_id persisted) (kdf_name kdf) (kdf_context kdf) (kdf_salt kdf))))
           (\<lambda>sealed_payload.
         Inr \<lparr>ped_schema_version = ENCRYPTED_IDENTITY_SCHEMA_VERSION, ped_storage = ENCRYPTED_IDENTITY_STORAGE,
           ped_device_id = pdi_device_id persisted, ped_kdf = kdf, ped_sealed_payload = sealed_payload\<rparr>)))"

definition from_encrypted_persisted ::
  "'c IdentityLib \<Rightarrow> PersistedEncryptedDeviceIdentity \<Rightarrow> string option \<Rightarrow> IdentityError + DeviceIdentity" where
  "from_encrypted_persisted L encrypted passphrase =
     (if ped_schema_version encrypted \<noteq> ENCRYPTED_IDENTITY_SCHEMA_VERSION then Inl UnsupportedEncryptedIdentity
      else then_res (validate_identity_passphrase passphrase)
       (case passphrase of
          None \<Rightarrow> Inl EncryptedIdentityPassphraseRequired
        | Some p \<Rightarrow>
            if trim p = [] then Inl EncryptedIdentityPassphraseRequired
            else bind_res (derive_encrypted_identity_key L p (ped_kdf encrypted)) (\<lambda>wrapping_key.
              if sp_aad (ped_sealed_payload encrypted)
                \<noteq> encrypted_identity_aad (ped_device_id encrypted) (kdf_name (ped_kdf encrypted))
                    (kdf_context (ped_kdf encrypted)) (kdf_salt (ped_kdf encrypted))
              then Inl InvalidEncryptedIdentity
              else bind_res (map_err IdentityCrypto (open_aes_256_gcm_siv (cipher L) wrapping_key
                  (ped_sealed_payload encrypted))) (\<lambda>plaintext.
                bind_res (ok_or (persisted_from_slice L plaintext) Serde) (\<lambda>persisted.
                if pdi_device_id persisted \<noteq> ped_device_id encrypted then Inl InvalidEncryptedIdentity
                else from_persisted L persisted)))))"

definition persisted_bytes ::
  "'c IdentityLib \<Rightarrow> bytes \<Rightarrow> bytes \<Rightarrow> DeviceIdentity \<Rightarrow> string option \<Rightarrow> IdentityError + bytes" where
  "persisted_bytes L salt nonce identity passphrase =
     (let persisted = \<lparr>pdi_schema_version = 1, pdi_device_id = di_device_id identity,
            pdi_signing_key_hex = encode_hex (di_signing_key identity)\<rparr>
      in case passphrase of
           Some p \<Rightarrow>
             if trim p \<noteq> [] then
               bind_res (encrypt_persisted_identity L salt nonce persisted p) (\<lambda>encrypted.
                 Inr (encrypted_to_vec_pretty L encrypted))
             else Inl EncryptedIdentityPassphraseRequired
         | None \<Rightarrow> Inr (persisted_to_vec_pretty L persisted))"

text \<open>\<open>file\<close> is the result of \<open>read_identity_file\<close>.\<close>

definition load_from_file_with_passphrase ::
  "'c IdentityLib \<Rightarrow> string \<Rightarrow> string option \<Rightarrow> IdentityError + bytes \<Rightarrow> IdentityError + DeviceIdentity" where
  "load_from_file_with_passphrase L path passphrase file =
     then_res (validate_identity_path path)
      (then_res (validate_identity_passphrase passphrase)
       (bind_res file (\<lambda>bytes.
         let plain = bind_res (ok_or (persisted_from_slice L bytes) Serde) (from_persisted L) in
         case encrypted_from_slice L bytes of
           Some encrypted \<Rightarrow>
             if ped_storage encrypted = ENCRYPTED_IDENTITY_STORAGE
             then from_encrypted_persisted L encrypted passphrase else plain
         | None \<Rightarrow> plain)))"

text \<open>
  \<open>exists\<close> is whether the file exists, \<open>generated\<close> the random key, \<open>write_new\<close> what
  \<open>write_new_identity_file\<close> returns for the bytes (\<open>false\<close> when another process created the file
  first) and \<open>file\<close> what reading the file gives afterwards.
\<close>

definition load_or_generate_with_passphrase ::
  "'c IdentityLib \<Rightarrow> bytes \<Rightarrow> bytes \<Rightarrow> string \<Rightarrow> string option \<Rightarrow> bool \<Rightarrow> bytes \<Rightarrow> (bytes \<Rightarrow> IdentityError + bool)
     \<Rightarrow> IdentityError + bytes \<Rightarrow> IdentityError + DeviceIdentity" where
  "load_or_generate_with_passphrase L salt nonce path passphrase exists generated write_new file =
     then_res (validate_identity_path path)
      (then_res (validate_identity_passphrase passphrase)
       (if exists then load_from_file_with_passphrase L path passphrase file
        else let identity = from_signing_key L generated in
          bind_res (persisted_bytes L salt nonce identity passphrase) (\<lambda>bytes.
          bind_res (write_new bytes) (\<lambda>created.
            if created then Inr identity else load_from_file_with_passphrase L path passphrase file))))"

text \<open>\<open>make_parent\<close> is the result of \<open>create_dir_all\<close> and \<open>write\<close> that of \<open>write_identity_file\<close>.\<close>

definition save_to_file_with_passphrase ::
  "'c IdentityLib \<Rightarrow> bytes \<Rightarrow> bytes \<Rightarrow> DeviceIdentity \<Rightarrow> string \<Rightarrow> string option \<Rightarrow> IdentityError + unit
     \<Rightarrow> (bytes \<Rightarrow> IdentityError + unit) \<Rightarrow> IdentityError + unit" where
  "save_to_file_with_passphrase L salt nonce identity path passphrase make_parent write =
     first_err [validate_identity_path path, validate_identity_passphrase passphrase, make_parent,
       bind_res (persisted_bytes L salt nonce identity passphrase) write]"

end
