(* ===== verification/Store.thy ===== *)
theory Store
  imports Identity
begin

text \<open>
  The event store of \<^verbatim>\<open>src/storage/store/src/lib.rs\<close>.  The table \<open>events\<close> is the list of its rows in
  the order of their row identifiers: rows are never deleted and an upsert keeps the row, so a new row
  gets the largest identifier and its position in the list is its rank.  Each operation is the SQL
  statement it executes with the Rust code around it; a column that may be \<open>NULL\<close> is an option.  The
  JSON serialiser of events is a parameter, next to the libraries of the signature check.  SQL statements
  do not fail in the model (the error \<open>Sqlite\<close> is left out).
\<close>

abbreviation EVENT_JSON_MAX_BYTES :: nat where "EVENT_JSON_MAX_BYTES \<equiv> 16 * 1024 * 1024"
abbreviation MAX_EVENT_STORE_PAGE_ROWS :: nat where "MAX_EVENT_STORE_PAGE_ROWS \<equiv> 1024"
abbreviation MAX_EVENT_STORE_CANDIDATE_FILTER_ROWS :: nat where "MAX_EVENT_STORE_CANDIDATE_FILTER_ROWS \<equiv> 1024"
abbreviation EVENT_STORE_PATH_MAX_BYTES :: nat where "EVENT_STORE_PATH_MAX_BYTES \<equiv> 64 * 1024"

section \<open>Errors, rows and reports\<close>

datatype StoreError =
    StoreSerde
  | EventJsonTooLarge nat nat
  | StorePathRequired
  | StorePathTooLarge nat nat
  | WorkspaceHistoryChanged
  | EventWorkspaceMismatch EventId string string

record SerializedEvent =
  sr_event_id :: string
  sr_workspace_id :: string
  sr_channel_id :: "string option"
  sr_author_device_id :: string
  sr_physical_ms :: i64
  sr_logical :: u32
  sr_self_contained_signature_valid :: int
  sr_event_json :: bytes

text \<open>A row of the table; the validity column is \<open>NULL\<close> in rows of older versions.\<close>

record EventRow =
  rw_event_id :: string
  rw_workspace_id :: string
  rw_channel_id :: "string option"
  rw_author_device_id :: string
  rw_physical_ms :: i64
  rw_logical :: u32
  rw_self_contained_signature_valid :: "int option"
  rw_event_json :: bytes

type_synonym EventStore = "EventRow list"

record WorkspaceEventStorageHealth =
  wh_workspace_id :: string
  wh_total_event_count :: nat
  wh_parseable_event_count :: nat
  wh_corrupt_event_count :: nat
  wh_signature_valid_metadata_count :: nat
  wh_servable_event_count :: nat
  wh_poisoned_servable_metadata_count :: nat
  wh_promotable_servable_metadata_count :: nat
  wh_non_servable_parseable_event_count :: nat

record WorkspaceEventStorageRepair =
  wr_workspace_id :: string
  wr_total_event_count :: nat
  wr_parseable_event_count :: nat
  wr_corrupt_event_count :: nat
  wr_signature_valid_metadata_before_count :: nat
  wr_signature_valid_metadata_after_count :: nat
  wr_repaired_metadata_count :: nat
  wr_promoted_servable_metadata_count :: nat
  wr_cleared_unservable_metadata_count :: nat

record 'c StoreLib =
  ident :: "'c IdentityLib"
  event_to_vec :: "SignedEvent \<Rightarrow> bytes"
  event_from_slice :: "bytes \<Rightarrow> SignedEvent option"

section \<open>Sizes and small conversions\<close>

definition is_servable_event :: "'c StoreLib \<Rightarrow> SignedEvent \<Rightarrow> bool" where
  "is_servable_event L event \<longleftrightarrow> verify_self_contained_event (ident L) event = Inr ()"

definition bool_to_sqlite_integer :: "bool \<Rightarrow> int" where
  "bool_to_sqlite_integer v = (if v then 1 else 0)"

definition sqlite_page_value :: "nat \<Rightarrow> int" where
  "sqlite_page_value v = int (min v (2 ^ 63 - 1))"

definition sqlite_page_limit_value :: "nat \<Rightarrow> int" where
  "sqlite_page_limit_value v = sqlite_page_value (min v MAX_EVENT_STORE_PAGE_ROWS)"

definition validate_event_json_size :: "nat \<Rightarrow> StoreError + unit" where
  "validate_event_json_size actual_bytes =
     (if actual_bytes > EVENT_JSON_MAX_BYTES then Inl (EventJsonTooLarge actual_bytes EVENT_JSON_MAX_BYTES)
      else Inr ())"

definition validate_signed_event_json_size :: "'c StoreLib \<Rightarrow> SignedEvent \<Rightarrow> StoreError + unit" where
  "validate_signed_event_json_size L event = validate_event_json_size (length (event_to_vec L event))"

definition sqlite_blob_len_to_usize :: "int \<Rightarrow> nat" where
  "sqlite_blob_len_to_usize actual_bytes = nat (max actual_bytes 0)"

definition validate_event_store_path :: "string \<Rightarrow> StoreError + unit" where
  "validate_event_store_path path =
     (if length path = 0 then Inl StorePathRequired
      else if length path > EVENT_STORE_PATH_MAX_BYTES
      then Inl (StorePathTooLarge (length path) EVENT_STORE_PATH_MAX_BYTES) else Inr ())"

definition bounded_event_json_or_error :: "int \<Rightarrow> bytes option \<Rightarrow> StoreError + bytes" where
  "bounded_event_json_or_error actual_bytes bytes =
     then_res (validate_event_json_size (sqlite_blob_len_to_usize actual_bytes))
       (let bs = (case bytes of Some b \<Rightarrow> b | None \<Rightarrow> []) in
        then_res (validate_event_json_size (length bs)) (Inr bs))"

definition bounded_event_json_or_none :: "int \<Rightarrow> bytes option \<Rightarrow> bytes option" where
  "bounded_event_json_or_none actual_bytes bytes =
     (if sqlite_blob_len_to_usize actual_bytes > EVENT_JSON_MAX_BYTES then None
      else case bytes of
        Some b \<Rightarrow> if length b \<le> EVENT_JSON_MAX_BYTES then Some b else None
      | None \<Rightarrow> None)"

text \<open>
  The selected pair \<open>length(event_json)\<close> and
  \<open>CASE WHEN length(event_json) <= max THEN event_json ELSE NULL END\<close>, and the SQL conditions.
\<close>

definition json_columns :: "EventRow \<Rightarrow> int \<times> bytes option" where
  "json_columns r =
     (int (length (rw_event_json r)),
      if length (rw_event_json r) \<le> EVENT_JSON_MAX_BYTES then Some (rw_event_json r) else None)"

definition coalesce_valid :: "EventRow \<Rightarrow> int" where
  "coalesce_valid r = (case rw_self_contained_signature_valid r of Some v \<Rightarrow> v | None \<Rightarrow> 0)"

definition servable_row :: "EventRow \<Rightarrow> bool" where
  "servable_row r \<longleftrightarrow> rw_self_contained_signature_valid r = Some 1
     \<and> length (rw_event_json r) \<le> EVENT_JSON_MAX_BYTES"

definition in_workspace :: "string \<Rightarrow> EventRow \<Rightarrow> bool" where
  "in_workspace workspace_id r \<longleftrightarrow> rw_workspace_id r = workspace_id"

definition page :: "nat \<Rightarrow> nat \<Rightarrow> 'a list \<Rightarrow> 'a list" where
  "page start_index limit rows =
     take (nat (sqlite_page_limit_value limit)) (drop (nat (sqlite_page_value start_index)) rows)"

section \<open>Writing\<close>

definition from_event :: "'c StoreLib \<Rightarrow> SignedEvent \<Rightarrow> StoreError + SerializedEvent" where
  "from_event L event =
     (let event_json = event_to_vec L event in
      then_res (validate_event_json_size (length event_json))
       (Inr \<lparr>sr_event_id = event_str (sg_event_id event), sr_workspace_id = workspace_str (ev_workspace event),
         sr_channel_id = map_option channel_str (ev_channel event),
         sr_author_device_id = device_str (ev_author event),
         sr_physical_ms = ev_physical_ms event, sr_logical = logical (se_timestamp (sg_event event)),
         sr_self_contained_signature_valid = bool_to_sqlite_integer (is_servable_event L event),
         sr_event_json = event_json\<rparr>))"

definition row_of :: "SerializedEvent \<Rightarrow> EventRow" where
  "row_of e =
     \<lparr>rw_event_id = sr_event_id e, rw_workspace_id = sr_workspace_id e, rw_channel_id = sr_channel_id e,
      rw_author_device_id = sr_author_device_id e, rw_physical_ms = sr_physical_ms e, rw_logical = sr_logical e,
      rw_self_contained_signature_valid = Some (sr_self_contained_signature_valid e),
      rw_event_json = sr_event_json e\<rparr>"

definition insert_serialized_event :: "SerializedEvent \<Rightarrow> EventStore \<Rightarrow> EventStore" where
  "insert_serialized_event e store =
     (if sr_event_id e \<in> rw_event_id ` set store then
        map (\<lambda>r. if rw_event_id r = sr_event_id e \<and> coalesce_valid r \<noteq> 1
                     \<and> sr_self_contained_signature_valid e = 1
                  then row_of e else r) store
      else store @ [row_of e])"

definition append_event :: "'c StoreLib \<Rightarrow> EventStore \<Rightarrow> SignedEvent \<Rightarrow> StoreError + EventStore" where
  "append_event L store event =
     bind_res (from_event L event) (\<lambda>serialized. Inr (insert_serialized_event serialized store))"

definition list_event_ids_for_workspace :: "EventStore \<Rightarrow> string \<Rightarrow> EventId list" where
  "list_event_ids_for_workspace store workspace_id =
     map (\<lambda>r. EventId (rw_event_id r)) (filter (in_workspace workspace_id) store)"

definition serialize_for :: "'c StoreLib \<Rightarrow> string \<Rightarrow> SignedEvent \<Rightarrow> StoreError + SerializedEvent" where
  "serialize_for L workspace_id event =
     (if workspace_str (ev_workspace event) \<noteq> workspace_id
      then Inl (EventWorkspaceMismatch (sg_event_id event) workspace_id (workspace_str (ev_workspace event)))
      else from_event L event)"

text \<open>\<open>collect\<close> into a result: the first error, or all values.\<close>

fun collect_results :: "('e + 'a) list \<Rightarrow> 'e + 'a list" where
  "collect_results [] = Inr []"
| "collect_results (r # rs) = bind_res r (\<lambda>x. bind_res (collect_results rs) (\<lambda>xs. Inr (x # xs)))"

text \<open>The transaction is rolled back when the function returns before the commit.\<close>

definition append_events_atomically_if_workspace_history_matches ::
  "'c StoreLib \<Rightarrow> EventStore \<Rightarrow> string \<Rightarrow> EventId list \<Rightarrow> SignedEvent list \<Rightarrow> StoreError + EventStore" where
  "append_events_atomically_if_workspace_history_matches L store workspace_id expected_event_ids events =
     bind_res (collect_results (map (serialize_for L workspace_id) events)) (\<lambda>serialized.
       if list_event_ids_for_workspace store workspace_id \<noteq> expected_event_ids
       then Inl WorkspaceHistoryChanged
       else Inr (foldl (\<lambda>s e. insert_serialized_event e s) store serialized))"

section \<open>Reading\<close>

definition read_row :: "'c StoreLib \<Rightarrow> EventRow \<Rightarrow> StoreError + SignedEvent" where
  "read_row L r =
     (let (actual_bytes, bytes) = json_columns r in
      bind_res (bounded_event_json_or_error actual_bytes bytes) (\<lambda>bs. ok_or (event_from_slice L bs) StoreSerde))"

definition parse_row :: "'c StoreLib \<Rightarrow> EventRow \<Rightarrow> SignedEvent option" where
  "parse_row L r =
     (let (actual_bytes, bytes) = json_columns r in
      Option.bind (bounded_event_json_or_none actual_bytes bytes) (event_from_slice L))"

definition get_event :: "'c StoreLib \<Rightarrow> EventStore \<Rightarrow> EventId \<Rightarrow> StoreError + SignedEvent option" where
  "get_event L store event_id =
     (case find (\<lambda>r. rw_event_id r = event_str event_id) store of
        None \<Rightarrow> Inr None
      | Some r \<Rightarrow> bind_res (read_row L r) (\<lambda>event. Inr (Some event)))"

definition get_servable_event :: "'c StoreLib \<Rightarrow> EventStore \<Rightarrow> EventId \<Rightarrow> SignedEvent option" where
  "get_servable_event L store event_id =
     (case find (\<lambda>r. rw_event_id r = event_str event_id \<and> servable_row r) store of
        None \<Rightarrow> None
      | Some r \<Rightarrow> event_from_slice L (rw_event_json r))"

definition list_events :: "'c StoreLib \<Rightarrow> EventStore \<Rightarrow> StoreError + SignedEvent list" where
  "list_events L store = collect_results (map (read_row L) store)"

definition list_event_ids :: "EventStore \<Rightarrow> EventId list" where
  "list_event_ids store = map (\<lambda>r. EventId (rw_event_id r)) store"

text \<open>\<open>GROUP BY workspace_id ORDER BY MIN(rowid)\<close>: the distinct values by first occurrence.\<close>

definition list_workspace_ids :: "EventStore \<Rightarrow> string list" where
  "list_workspace_ids store = rev (remdups (rev (map rw_workspace_id store)))"

definition count_workspaces :: "EventStore \<Rightarrow> nat" where
  "count_workspaces store = card (rw_workspace_id ` set store)"

definition list_workspace_ids_page :: "EventStore \<Rightarrow> nat \<Rightarrow> nat \<Rightarrow> string list" where
  "list_workspace_ids_page store start_index limit = page start_index limit (list_workspace_ids store)"

definition list_events_for_workspace :: "'c StoreLib \<Rightarrow> EventStore \<Rightarrow> string \<Rightarrow> StoreError + SignedEvent list" where
  "list_events_for_workspace L store workspace_id =
     collect_results (map (read_row L) (filter (in_workspace workspace_id) store))"

definition count_events_for_workspace :: "EventStore \<Rightarrow> string \<Rightarrow> nat" where
  "count_events_for_workspace store workspace_id = length (filter (in_workspace workspace_id) store)"

definition list_parseable_events_for_workspace :: "'c StoreLib \<Rightarrow> EventStore \<Rightarrow> string \<Rightarrow> SignedEvent list" where
  "list_parseable_events_for_workspace L store workspace_id =
     List.map_filter (\<lambda>r. event_from_slice L (rw_event_json r))
       (filter (\<lambda>r. in_workspace workspace_id r \<and> length (rw_event_json r) \<le> EVENT_JSON_MAX_BYTES) store)"

definition list_servable_event_ids :: "EventStore \<Rightarrow> EventId list" where
  "list_servable_event_ids store = map (\<lambda>r. EventId (rw_event_id r)) (filter servable_row store)"

definition count_servable_events :: "EventStore \<Rightarrow> nat" where
  "count_servable_events store = length (filter servable_row store)"

definition list_servable_event_ids_page :: "EventStore \<Rightarrow> nat \<Rightarrow> nat \<Rightarrow> EventId list" where
  "list_servable_event_ids_page store start_index limit = page start_index limit (list_servable_event_ids store)"

definition count_servable_events_for_workspace :: "EventStore \<Rightarrow> string \<Rightarrow> nat" where
  "count_servable_events_for_workspace store workspace_id =
     length (filter (\<lambda>r. in_workspace workspace_id r \<and> servable_row r) store)"

definition list_servable_event_ids_for_workspace :: "EventStore \<Rightarrow> string \<Rightarrow> EventId list" where
  "list_servable_event_ids_for_workspace store workspace_id =
     map (\<lambda>r. EventId (rw_event_id r)) (filter (\<lambda>r. in_workspace workspace_id r \<and> servable_row r) store)"

definition list_servable_event_ids_for_workspace_page :: "EventStore \<Rightarrow> string \<Rightarrow> nat \<Rightarrow> nat \<Rightarrow> EventId list" where
  "list_servable_event_ids_for_workspace_page store workspace_id start_index limit =
     page start_index limit (list_servable_event_ids_for_workspace store workspace_id)"

definition list_servable_events_for_workspace :: "'c StoreLib \<Rightarrow> EventStore \<Rightarrow> string \<Rightarrow> SignedEvent list" where
  "list_servable_events_for_workspace L store workspace_id =
     List.map_filter (\<lambda>r. event_from_slice L (rw_event_json r))
       (filter (\<lambda>r. in_workspace workspace_id r \<and> servable_row r) store)"

text \<open>
  \<open>slice::chunks\<close>; a query per chunk selects the rank and the identifier of the matching rows, and
  the ordered map collects them by rank.
\<close>

function chunks :: "nat \<Rightarrow> 'a list \<Rightarrow> 'a list list" where
  "chunks n xs = (if n = 0 \<or> xs = [] then [] else take n xs # chunks n (drop n xs))"
  by pat_completeness auto
termination
  by (relation "measure (\<lambda>(n, xs). length xs)") auto

declare chunks.simps [simp del]

definition query_candidates :: "EventStore \<Rightarrow> string \<Rightarrow> EventId list \<Rightarrow> (nat \<times> EventId) list" where
  "query_candidates store workspace_id candidate_chunk =
     map (\<lambda>(rowid, r). (rowid, EventId (rw_event_id r)))
       (filter (\<lambda>(rowid, r). in_workspace workspace_id r \<and> servable_row r
           \<and> EventId (rw_event_id r) \<in> set candidate_chunk)
         (enumerate 0 store))"

definition filter_servable_event_ids_for_workspace :: "EventStore \<Rightarrow> string \<Rightarrow> EventId list \<Rightarrow> EventId list" where
  "filter_servable_event_ids_for_workspace store workspace_id candidate_ids =
     (if candidate_ids = [] then []
      else map snd (sorted_list_of_fmap
        (foldl (\<lambda>by_rowid candidate_chunk.
            foldl (\<lambda>m (rowid, event_id). fmupd rowid event_id m) by_rowid
              (query_candidates store workspace_id candidate_chunk))
          fmempty (chunks MAX_EVENT_STORE_CANDIDATE_FILTER_ROWS candidate_ids))))"

section \<open>Metadata\<close>

text \<open>\<open>UPDATE events SET self_contained_signature_valid = v WHERE event_id = id\<close>.\<close>

definition set_valid :: "EventStore \<Rightarrow> string \<times> bool \<Rightarrow> EventStore" where
  "set_valid store u =
     map (\<lambda>r. if rw_event_id r = fst u
          then r\<lparr>rw_self_contained_signature_valid := Some (bool_to_sqlite_integer (snd u))\<rparr> else r) store"

definition row_is_servable :: "'c StoreLib \<Rightarrow> EventRow \<Rightarrow> bool" where
  "row_is_servable L r = (case parse_row L r of Some event \<Rightarrow> is_servable_event L event | None \<Rightarrow> False)"

definition backfill_self_contained_signature_valid :: "'c StoreLib \<Rightarrow> EventStore \<Rightarrow> EventStore" where
  "backfill_self_contained_signature_valid L store =
     foldl set_valid store
       (map (\<lambda>r. (rw_event_id r, row_is_servable L r))
         (filter (\<lambda>r. rw_self_contained_signature_valid r = None) store))"

definition health_step :: "'c StoreLib \<Rightarrow> WorkspaceEventStorageHealth \<Rightarrow> EventRow \<Rightarrow> WorkspaceEventStorageHealth" where
  "health_step L h r =
     (let has_valid = coalesce_valid r = 1;
          h = h\<lparr>wh_total_event_count := wh_total_event_count h + 1\<rparr>;
          h = (if has_valid
               then h\<lparr>wh_signature_valid_metadata_count := wh_signature_valid_metadata_count h + 1\<rparr> else h)
      in case parse_row L r of
           None \<Rightarrow>
             let h = h\<lparr>wh_corrupt_event_count := wh_corrupt_event_count h + 1\<rparr>
             in if has_valid
                then h\<lparr>wh_poisoned_servable_metadata_count := wh_poisoned_servable_metadata_count h + 1\<rparr> else h
         | Some event \<Rightarrow>
             let h = h\<lparr>wh_parseable_event_count := wh_parseable_event_count h + 1\<rparr>;
                 is_servable = is_servable_event L event;
                 h = (if is_servable then h\<lparr>wh_servable_event_count := wh_servable_event_count h + 1\<rparr>
                      else h\<lparr>wh_non_servable_parseable_event_count := wh_non_servable_parseable_event_count h + 1\<rparr>)
             in if has_valid \<and> \<not> is_servable
                then h\<lparr>wh_poisoned_servable_metadata_count := wh_poisoned_servable_metadata_count h + 1\<rparr>
                else if \<not> has_valid \<and> is_servable
                then h\<lparr>wh_promotable_servable_metadata_count := wh_promotable_servable_metadata_count h + 1\<rparr>
                else h)"

definition workspace_event_storage_health :: "'c StoreLib \<Rightarrow> EventStore \<Rightarrow> string \<Rightarrow> WorkspaceEventStorageHealth" where
  "workspace_event_storage_health L store workspace_id =
     foldl (health_step L)
       \<lparr>wh_workspace_id = workspace_id, wh_total_event_count = 0, wh_parseable_event_count = 0,
        wh_corrupt_event_count = 0, wh_signature_valid_metadata_count = 0, wh_servable_event_count = 0,
        wh_poisoned_servable_metadata_count = 0, wh_promotable_servable_metadata_count = 0,
        wh_non_servable_parseable_event_count = 0\<rparr>
       (filter (in_workspace workspace_id) store)"

text \<open>The loop of the repair carries the report and the updates; the count of updates is set at the end.\<close>

definition repair_step ::
  "'c StoreLib \<Rightarrow> WorkspaceEventStorageRepair \<times> (string \<times> bool) list \<Rightarrow> EventRow
     \<Rightarrow> WorkspaceEventStorageRepair \<times> (string \<times> bool) list" where
  "repair_step L acc r =
     (let (w, updates) = acc;
          current = (coalesce_valid r = 1);
          w = w\<lparr>wr_total_event_count := wr_total_event_count w + 1\<rparr>;
          w = (if current
               then w\<lparr>wr_signature_valid_metadata_before_count := wr_signature_valid_metadata_before_count w + 1\<rparr>
               else w);
          (w, repaired) = (case parse_row L r of
              Some event \<Rightarrow>
                (w\<lparr>wr_parseable_event_count := wr_parseable_event_count w + 1\<rparr>, is_servable_event L event)
            | None \<Rightarrow> (w\<lparr>wr_corrupt_event_count := wr_corrupt_event_count w + 1\<rparr>, False));
          w = (if repaired
               then w\<lparr>wr_signature_valid_metadata_after_count := wr_signature_valid_metadata_after_count w + 1\<rparr>
               else w)
      in if current \<noteq> repaired then
           (if repaired
            then w\<lparr>wr_promoted_servable_metadata_count := wr_promoted_servable_metadata_count w + 1\<rparr>
            else w\<lparr>wr_cleared_unservable_metadata_count := wr_cleared_unservable_metadata_count w + 1\<rparr>,
            updates @ [(rw_event_id r, repaired)])
         else (w, updates))"

definition repair_workspace_event_storage_metadata ::
  "'c StoreLib \<Rightarrow> EventStore \<Rightarrow> string \<Rightarrow> EventStore \<times> WorkspaceEventStorageRepair" where
  "repair_workspace_event_storage_metadata L store workspace_id =
     (let (w, updates) = foldl (repair_step L)
            (\<lparr>wr_workspace_id = workspace_id, wr_total_event_count = 0, wr_parseable_event_count = 0,
              wr_corrupt_event_count = 0, wr_signature_valid_metadata_before_count = 0,
              wr_signature_valid_metadata_after_count = 0, wr_repaired_metadata_count = 0,
              wr_promoted_servable_metadata_count = 0, wr_cleared_unservable_metadata_count = 0\<rparr>, [])
            (filter (in_workspace workspace_id) store)
      in (foldl set_valid store updates, w\<lparr>wr_repaired_metadata_count := length updates\<rparr>))"

section \<open>Opening\<close>

text \<open>Opening a database that holds the given rows: the path check and the migration.\<close>

definition open_event_store :: "'c StoreLib \<Rightarrow> string \<Rightarrow> EventRow list \<Rightarrow> StoreError + EventStore" where
  "open_event_store L path rows =
     then_res (validate_event_store_path path) (Inr (backfill_self_contained_signature_valid L rows))"

end
