(* ===== verification/Sync.thy ===== *)
theory Sync
  imports Batch Store
begin

text \<open>
  Pull synchronisation, from \<^verbatim>\<open>src/network/sync/src/lib.rs\<close>: inventories, the plan of a bidirectional
  sync, and the pull that fetches, verifies, orders, stores and materialises the missing events of a
  workspace.  The transport (\<^verbatim>\<open>src/network/transport/src/lib.rs\<close>) is a trait: the two calls that a pull
  makes are arguments, the inventory a peer returns and the function that answers a request for
  events.  The pull changes the store even when it fails later, so it returns the store next to its
  result.
\<close>

section \<open>Errors\<close>

datatype NetError = Unavailable string | NetIo string | Protocol string

datatype SyncError =
    Net NetError
  | SyncStore StoreError
  | SyncIdentity IdentityError
  | SyncCore CoreError

definition protocol_error :: "string \<Rightarrow> SyncError" where
  "protocol_error message = Net (Protocol message)"

section \<open>Inventories\<close>

record EventInventory =
  inv_event_ids :: "EventId set"

definition from_event_ids :: "EventId list \<Rightarrow> EventInventory" where
  "from_event_ids event_ids = \<lparr>inv_event_ids = set event_ids\<rparr>"

definition missing_from :: "EventInventory \<Rightarrow> EventInventory \<Rightarrow> EventId list" where
  "missing_from self remote = sorted_list_of_set (inv_event_ids remote - inv_event_ids self)"

definition inventory_has :: "EventInventory \<Rightarrow> EventId \<Rightarrow> bool" where
  "inventory_has inventory event_id \<longleftrightarrow> event_id \<in> inv_event_ids inventory"

definition inventory_from_events :: "SignedEvent list \<Rightarrow> EventInventory" where
  "inventory_from_events events = from_event_ids (map sg_event_id events)"

definition events_missing_from_local :: "EventInventory \<Rightarrow> SignedEvent list \<Rightarrow> SignedEvent list" where
  "events_missing_from_local local remote_events =
     filter (\<lambda>event. \<not> inventory_has local (sg_event_id event)) remote_events"

section \<open>The plan\<close>

record WorkspaceSyncPlan =
  pl_workspace_id :: WorkspaceId
  pl_local_event_ids :: "EventId list"
  pl_remote_event_ids :: "EventId list"
  pl_publish_event_ids :: "EventId list"
  pl_request_event_ids :: "EventId list"

definition is_no_change :: "WorkspaceSyncPlan \<Rightarrow> bool" where
  "is_no_change plan \<longleftrightarrow> pl_publish_event_ids plan = [] \<and> pl_request_event_ids plan = []"

text \<open>The loops carry the set of identifiers seen so far.\<close>

fun check_inventory_ids :: "EventId set \<Rightarrow> EventId list \<Rightarrow> SyncError + unit" where
  "check_inventory_ids seen [] = Inr ()"
| "check_inventory_ids seen (event_id # rest) =
     (if \<not> is_canonical_event_id_str (event_str event_id)
      then Inl (protocol_error ''peer returned non-canonical inventory event id'')
      else if event_id \<in> seen
      then Inl (protocol_error (''peer returned duplicate inventory event id '' @ event_str event_id))
      else check_inventory_ids (insert event_id seen) rest)"

definition validate_remote_inventory_event_ids :: "EventId list \<Rightarrow> SyncError + unit" where
  "validate_remote_inventory_event_ids remote_event_ids = check_inventory_ids {} remote_event_ids"

fun collect_missing :: "EventInventory \<Rightarrow> EventId set \<Rightarrow> EventId list \<Rightarrow> EventId list" where
  "collect_missing inventory seen [] = []"
| "collect_missing inventory seen (event_id # rest) =
     (if inventory_has inventory event_id then collect_missing inventory seen rest
      else if event_id \<in> seen then collect_missing inventory seen rest
      else event_id # collect_missing inventory (insert event_id seen) rest)"

definition missing_remote_event_ids :: "EventInventory \<Rightarrow> EventId list \<Rightarrow> EventId list" where
  "missing_remote_event_ids local_inventory remote_event_ids = collect_missing local_inventory {} remote_event_ids"

definition plan_workspace_sync :: "EventStore \<Rightarrow> WorkspaceId \<Rightarrow> EventId list \<Rightarrow> SyncError + WorkspaceSyncPlan" where
  "plan_workspace_sync store workspace_id remote_event_ids =
     then_res (validate_remote_inventory_event_ids remote_event_ids)
      (let local_event_ids = list_servable_event_ids_for_workspace store (workspace_str workspace_id);
           local_inventory = from_event_ids local_event_ids;
           remote_inventory = from_event_ids remote_event_ids
       in Inr \<lparr>pl_workspace_id = workspace_id, pl_local_event_ids = local_event_ids,
            pl_remote_event_ids = remote_event_ids,
            pl_publish_event_ids = missing_from remote_inventory local_inventory,
            pl_request_event_ids = missing_remote_event_ids local_inventory remote_event_ids\<rparr>)"

section \<open>Checking what a peer sent\<close>

fun check_fetched :: "EventId set \<Rightarrow> EventId set \<Rightarrow> SignedEvent list \<Rightarrow> SyncError + unit" where
  "check_fetched requested seen [] = Inr ()"
| "check_fetched requested seen (event # rest) =
     (if sg_event_id event \<notin> requested
      then Inl (protocol_error (''peer returned unrequested event '' @ event_str (sg_event_id event)))
      else if sg_event_id event \<in> seen
      then Inl (protocol_error (''peer returned duplicate event '' @ event_str (sg_event_id event)))
      else check_fetched requested (insert (sg_event_id event) seen) rest)"

definition validate_fetched_events :: "SignedEvent list \<Rightarrow> EventId list \<Rightarrow> SyncError + unit" where
  "validate_fetched_events fetched_events requested_event_ids =
     check_fetched (set requested_event_ids) {} fetched_events"

text \<open>The loop over the fetched events: verify each, and set aside those of other workspaces.\<close>

fun sort_fetched ::
  "'c StoreLib \<Rightarrow> WorkspaceId \<Rightarrow> SignedEvent list \<Rightarrow> SyncError + (EventId list \<times> SignedEvent list)" where
  "sort_fetched L workspace_id [] = Inr ([], [])"
| "sort_fetched L workspace_id (event # rest) =
     then_res (map_err SyncIdentity (verify_self_contained_event (ident L) event))
      (bind_res (sort_fetched L workspace_id rest) (\<lambda>(ignored, workspace_events).
        if ev_workspace event \<noteq> workspace_id then Inr (sg_event_id event # ignored, workspace_events)
        else Inr (ignored, event # workspace_events)))"

definition verified_sync_events :: "'c StoreLib \<Rightarrow> SignedEvent list \<Rightarrow> SignedEvent list" where
  "verified_sync_events L events =
     filter (\<lambda>event. sg_author_public_key event = [] \<or> verify_self_contained_event (ident L) event = Inr ()) events"

section \<open>Storing in materialised order\<close>

record AppendedWorkspaceEvents =
  aw_event_ids :: "EventId list"
  aw_events :: "SignedEvent list"

text \<open>The state of the two appending loops: the store, the identifiers appended and the result.\<close>

record AppendLoop =
  al_store :: EventStore
  al_appended :: "EventId set"
  al_result :: AppendedWorkspaceEvents

definition append_one ::
  "'c StoreLib \<Rightarrow> (EventId, SignedEvent) fmap \<Rightarrow> AppendLoop \<Rightarrow> EventId \<Rightarrow> (EventStore \<times> SyncError) + AppendLoop" where
  "append_one L fetched_by_id loop event_id =
     (case fmlookup fetched_by_id event_id of
        None \<Rightarrow> Inr loop
      | Some event \<Rightarrow>
          if event_id \<in> al_appended loop then Inr loop
          else case append_event L (al_store loop) event of
            Inl e \<Rightarrow> Inl (al_store loop, SyncStore e)
          | Inr store \<Rightarrow>
              Inr \<lparr>al_store = store, al_appended = insert event_id (al_appended loop),
                al_result = \<lparr>aw_event_ids = aw_event_ids (al_result loop) @ [event_id],
                  aw_events = aw_events (al_result loop) @ [event]\<rparr>\<rparr>)"

fun append_loop ::
  "'c StoreLib \<Rightarrow> (EventId, SignedEvent) fmap \<Rightarrow> AppendLoop \<Rightarrow> EventId list \<Rightarrow> (EventStore \<times> SyncError) + AppendLoop" where
  "append_loop L fetched_by_id loop [] = Inr loop"
| "append_loop L fetched_by_id loop (event_id # rest) =
     bind_res (append_one L fetched_by_id loop event_id) (\<lambda>loop'. append_loop L fetched_by_id loop' rest)"

definition index_fetched :: "(EventId, SignedEvent) fmap \<times> EventId list \<Rightarrow> SignedEvent \<Rightarrow> (EventId, SignedEvent) fmap \<times> EventId list"
  where
  "index_fetched acc event =
     (let (by_id, order) = acc in
      (fmupd (sg_event_id event) event by_id,
       if fmlookup by_id (sg_event_id event) = None then order @ [sg_event_id event] else order))"

definition append_workspace_events_in_materialized_order ::
  "'c StoreLib \<Rightarrow> invite_iteration \<Rightarrow> EventStore \<Rightarrow> WorkspaceId \<Rightarrow> SignedEvent list \<Rightarrow> SignedEvent list
     \<Rightarrow> (EventStore \<times> SyncError) + (EventStore \<times> AppendedWorkspaceEvents)" where
  "append_workspace_events_in_materialized_order L vals store workspace_id local_events fetched_events =
     (if fetched_events = [] then Inr (store, \<lparr>aw_event_ids = [], aw_events = []\<rparr>)
      else case apply_batch vals (state_new workspace_id) (local_events @ fetched_events) of
        Inl (e, _) \<Rightarrow> Inl (store, SyncCore e)
      | Inr (_, preview) \<Rightarrow>
          let (fetched_by_id, fetched_order) = foldl index_fetched (fmempty, []) fetched_events;
              start = \<lparr>al_store = store, al_appended = {}, al_result = \<lparr>aw_event_ids = [], aw_events = []\<rparr>\<rparr>
          in bind_res (append_loop L fetched_by_id start
                 (rep_applied_events preview @ map gap_event_id (rep_gaps preview))) (\<lambda>loop.
             bind_res (append_loop L fetched_by_id loop fetched_order) (\<lambda>loop'.
               Inr (al_store loop', al_result loop'))))"

section \<open>The pull\<close>

record PullSyncReport =
  ps_requested_event_ids :: "EventId list"
  ps_fetched_event_ids :: "EventId list"
  ps_ignored_event_ids :: "EventId list"
  ps_materialization :: MaterializationReport
  ps_materialized_member_device_ids :: "DeviceId list"

definition has_fetched_events :: "PullSyncReport \<Rightarrow> bool" where
  "has_fetched_events report \<longleftrightarrow> ps_fetched_event_ids report \<noteq> []"

abbreviation report_default :: MaterializationReport where
  "report_default \<equiv> \<lparr>rep_applied_events = [], rep_gaps = []\<rparr>"

definition materialize_pulled ::
  "invite_iteration \<Rightarrow> WorkspaceId \<Rightarrow> SignedEvent list \<Rightarrow> SyncError + (MaterializationReport \<times> DeviceId list)" where
  "materialize_pulled vals workspace_id events =
     (if events = [] then Inr (report_default, [])
      else case apply_batch vals (state_new workspace_id) events of
        Inl (e, _) \<Rightarrow> Inl (SyncCore e)
      | Inr (state, report) \<Rightarrow> Inr (report, sorted_list_of_fset (fmdom (ws_members state))))"

definition pull_workspace_from_peer_with_plan ::
  "'c StoreLib \<Rightarrow> invite_iteration \<Rightarrow> (EventId list \<Rightarrow> NetError + SignedEvent list) \<Rightarrow> EventStore \<Rightarrow> WorkspaceId
     \<Rightarrow> WorkspaceSyncPlan \<Rightarrow> EventStore \<times> (SyncError + PullSyncReport)" where
  "pull_workspace_from_peer_with_plan L vals fetch_events store workspace_id plan =
     (if pl_workspace_id plan \<noteq> workspace_id
      then (store, Inl (protocol_error ''sync plan workspace does not match pull workspace''))
      else let requested = pl_request_event_ids plan in
      if requested = [] then
        (store, Inr \<lparr>ps_requested_event_ids = requested, ps_fetched_event_ids = [], ps_ignored_event_ids = [],
           ps_materialization = report_default, ps_materialized_member_device_ids = []\<rparr>)
      else case
        bind_res (map_err Net (fetch_events requested)) (\<lambda>fetched_events.
        then_res (validate_fetched_events fetched_events requested)
          (sort_fetched L workspace_id fetched_events)) of
        Inl e \<Rightarrow> (store, Inl e)
      | Inr (ignored, workspace_events) \<Rightarrow>
          let local_events = verified_sync_events L
                (list_parseable_events_for_workspace L store (workspace_str workspace_id)) in
          case (if workspace_events = [] then Inr (store, [], [])
                else bind_res (append_workspace_events_in_materialized_order L vals store workspace_id
                    local_events workspace_events) (\<lambda>(store', appended).
                  Inr (store', local_events @ aw_events appended, aw_event_ids appended))) of
            Inl (store', e) \<Rightarrow> (store', Inl e)
          | Inr (store', materialization_events, fetched_event_ids) \<Rightarrow>
              (store', bind_res (materialize_pulled vals workspace_id materialization_events)
                (\<lambda>(materialization, members).
                  Inr \<lparr>ps_requested_event_ids = requested, ps_fetched_event_ids = fetched_event_ids,
                    ps_ignored_event_ids = ignored, ps_materialization = materialization,
                    ps_materialized_member_device_ids = members\<rparr>)))"

definition pull_workspace_from_peer_with_inventory ::
  "'c StoreLib \<Rightarrow> invite_iteration \<Rightarrow> (EventId list \<Rightarrow> NetError + SignedEvent list) \<Rightarrow> EventStore \<Rightarrow> WorkspaceId
     \<Rightarrow> EventId list \<Rightarrow> EventStore \<times> (SyncError + PullSyncReport)" where
  "pull_workspace_from_peer_with_inventory L vals fetch_events store workspace_id remote_event_ids =
     (case plan_workspace_sync store workspace_id remote_event_ids of
        Inl e \<Rightarrow> (store, Inl e)
      | Inr plan \<Rightarrow> pull_workspace_from_peer_with_plan L vals fetch_events store workspace_id plan)"

definition pull_workspace_from_peer ::
  "'c StoreLib \<Rightarrow> invite_iteration \<Rightarrow> (WorkspaceId \<Rightarrow> NetError + EventId list)
     \<Rightarrow> (EventId list \<Rightarrow> NetError + SignedEvent list) \<Rightarrow> EventStore \<Rightarrow> WorkspaceId
     \<Rightarrow> EventStore \<times> (SyncError + PullSyncReport)" where
  "pull_workspace_from_peer L vals fetch_workspace_inventory fetch_events store workspace_id =
     (case fetch_workspace_inventory workspace_id of
        Inl e \<Rightarrow> (store, Inl (Net e))
      | Inr remote_event_ids \<Rightarrow>
          pull_workspace_from_peer_with_inventory L vals fetch_events store workspace_id remote_event_ids)"

end
