(* ===== verification/Crypto_Properties.thy ===== *)
theory Crypto_Properties
  imports Crypto Domain_Properties
begin

text \<open>
  Sealed content opens again in the context it was sealed for and in no other.
\<close>

section \<open>Strings as bytes\<close>

lemma byte_char_val [simp]: "byte_char (byte_val c) = c"
proof -
  have "(of_char c :: nat) < 256" by simp
  then have "unat (byte_val c) = (of_char c :: nat)" by (simp add: byte_val_def unat_of_nat take_bit_nat_eq_self)
  then show ?thesis by (simp add: byte_char_def)
qed

lemma as_bytes_inject [simp]: "as_bytes s = as_bytes t \<longleftrightarrow> s = t"
proof -
  have "inj byte_val" by (rule inj_on_inverseI [of _ byte_char]) simp
  then show ?thesis by (simp add: as_bytes_def inj_map_eq_map)
qed

lemma from_utf8_as_bytes: "valid_utf8 (as_bytes s) \<Longrightarrow> from_utf8 (as_bytes s) = Some s"
  by (simp add: from_utf8_def as_bytes_def o_def)

section \<open>Separated fields\<close>

lemma fields_inject:
  assumes "x \<notin> set a" "x \<notin> set a'" "a @ x # s = a' @ x # s'"
  shows "a = a' \<and> s = s'"
  using assms by (induction a arbitrary: a') (auto simp: Cons_eq_append_conv)

text \<open>
  Fields without the separator determine every other way to write the same string with as many
  separators.
\<close>

definition seps :: "string \<Rightarrow> nat" where
  "seps s = length (filter (\<lambda>c. c = CHR '':'') s)"

lemma seps_simps [simp]:
  "seps [] = 0" "seps (c # s) = (if c = CHR '':'' then 1 else 0) + seps s" "seps (s @ t) = seps s + seps t"
  by (simp_all add: seps_def)

lemma seps_zero: "seps s = 0 \<longleftrightarrow> CHR '':'' \<notin> set s"
  by (auto simp: seps_def filter_empty_conv)

lemma two_fields:
  assumes "seps a = 0" "seps b = 0" "a @ CHR '':'' # b = a' @ CHR '':'' # b'"
  shows "a = a' \<and> b = b'"
proof -
  have "seps a + seps b = seps a' + seps b'" using arg_cong [OF assms(3), of seps] by simp
  then show ?thesis using assms fields_inject [of "CHR '':''" a a'] by (simp add: seps_zero)
qed

lemma three_fields:
  assumes "seps a = 0" "seps b = 0" "seps c = 0"
    "a @ CHR '':'' # b @ CHR '':'' # c = a' @ CHR '':'' # b' @ CHR '':'' # c'"
  shows "a = a' \<and> b = b' \<and> c = c'"
proof -
  have "seps a + seps b + seps c = seps a' + seps b' + seps c'" using arg_cong [OF assms(4), of seps] by simp
  then have "seps a' = 0" using assms by simp
  then have "a = a' \<and> b @ CHR '':'' # c = b' @ CHR '':'' # c'"
    using assms by (intro fields_inject [of "CHR '':''"]) (simp_all only: seps_zero not_False_eq_True)
  then show ?thesis using two_fields [OF assms(2,3)] by blast
qed

lemma four_fields:
  assumes "seps a = 0" "seps b = 0" "seps c = 0" "seps d = 0"
    "a @ CHR '':'' # b @ CHR '':'' # c @ CHR '':'' # d = a' @ CHR '':'' # b' @ CHR '':'' # c' @ CHR '':'' # d'"
  shows "a = a' \<and> b = b' \<and> c = c' \<and> d = d'"
proof -
  have "seps a + seps b + seps c + seps d = seps a' + seps b' + seps c' + seps d'"
    using arg_cong [OF assms(5), of seps] by simp
  then have "seps a' = 0" using assms by simp
  then have "a = a' \<and> b @ CHR '':'' # c @ CHR '':'' # d = b' @ CHR '':'' # c' @ CHR '':'' # d'"
    using assms by (intro fields_inject [of "CHR '':''"]) (simp_all only: seps_zero not_False_eq_True)
  then show ?thesis using three_fields [OF assms(2-4)] by blast
qed

section \<open>Decimal numbers\<close>

lemma seps_digit [simp]: "n < 10 \<Longrightarrow> digit_char n \<noteq> CHR '':''"
  using digit_not_colon [OF digit_char_digit] by blast

lemma show_decimal_seps: "seps (show_decimal n) = 0"
proof (induction n rule: show_decimal.induct)
  case (1 n)
  then show ?case by (subst show_decimal.simps) auto
qed

lemma show_decimal_cases:
  "n < 10 \<Longrightarrow> show_decimal n = [digit_char n]"
  "10 \<le> n \<Longrightarrow> show_decimal n = show_decimal (n div 10) @ [digit_char (n mod 10)]"
  by (simp_all add: show_decimal.simps [of n])

lemma show_decimal_length: "1 < length (show_decimal n) \<longleftrightarrow> 10 \<le> n"
proof (cases "n < 10")
  case False
  have "show_decimal (n div 10) \<noteq> []" by (cases "n div 10 < 10") (simp_all add: show_decimal_cases)
  with False show ?thesis by (simp add: show_decimal_cases)
qed (simp add: show_decimal_cases)

lemma show_decimal_inject: "show_decimal n = show_decimal m \<Longrightarrow> n = m"
proof (induction n arbitrary: m rule: less_induct)
  case (less n)
  then have same: "10 \<le> n \<longleftrightarrow> 10 \<le> m" by (metis show_decimal_length)
  show ?case
  proof (cases "n < 10")
    case True
    then show ?thesis using less.prems same digit_char_inject [of n m] by (simp add: show_decimal_cases)
  next
    case False
    then have "show_decimal (n div 10) = show_decimal (m div 10)" "digit_char (n mod 10) = digit_char (m mod 10)"
      using less.prems same show_decimal_cases(2) [of n] show_decimal_cases(2) [of m] by simp_all
    then have "n div 10 = m div 10" "n mod 10 = m mod 10"
      using less.IH [of "n div 10"] False digit_char_inject [of "n mod 10" "m mod 10"] by simp_all
    then show ?thesis by (metis div_mult_mod_eq)
  qed
qed

section \<open>Contexts\<close>

lemma message_context_inject:
  assumes "seps (workspace_str w) = 0" "seps (channel_str c) = 0" "seps (message_str m) = 0"
    "message_markdown_aad w c m = message_markdown_aad w' c' m'"
  shows "w = w' \<and> c = c' \<and> m = m'"
proof -
  have "workspace_str w @ CHR '':'' # channel_str c @ CHR '':'' # message_str m
      = workspace_str w' @ CHR '':'' # channel_str c' @ CHR '':'' # message_str m'"
    using assms(4) by (simp add: message_markdown_aad_def)
  from three_fields [OF assms(1-3) this] show ?thesis
    by (blast intro: WorkspaceId.expand ChannelId.expand MessageId.expand)
qed

lemma attachment_context_inject:
  assumes "seps (workspace_str w) = 0" "seps (channel_str c) = 0" "seps (message_str m) = 0"
    "attachment_blob_aad w c m i = attachment_blob_aad w' c' m' i'"
  shows "w = w' \<and> c = c' \<and> m = m' \<and> i = i'"
proof -
  have "workspace_str w @ CHR '':'' # channel_str c @ CHR '':'' # message_str m @ CHR '':'' # show_decimal (unat i)
      = workspace_str w' @ CHR '':'' # channel_str c' @ CHR '':'' # message_str m' @ CHR '':'' # show_decimal (unat i')"
    using assms(4) by (simp add: attachment_blob_aad_def)
  from four_fields [OF assms(1-3) show_decimal_seps this] show ?thesis
    by (blast intro: WorkspaceId.expand ChannelId.expand MessageId.expand word_unat_eq_iff [THEN iffD2]
        dest: show_decimal_inject)
qed

lemma open_sealed:
  assumes "aead_law A" "length nonce = 12" "seal_aes_256_gcm_siv A nonce key_id key plaintext aad = Inr payload"
  shows "open_aes_256_gcm_siv_with_aad A key payload aad = Inr plaintext"
    "aad' \<noteq> aad \<Longrightarrow> open_aes_256_gcm_siv_with_aad A key' payload aad' = Inl AssociatedDataMismatch"
    "sealed_payload_from_encrypted_blob_ref
       (the (case encrypted_blob_ref_from_payload payload n of Inl e \<Rightarrow> None | Inr r \<Rightarrow> Some r)) (sp_bytes payload)
     = payload"
    "\<exists>r. encrypted_blob_ref_from_payload payload n = Inr r"
  using assms
  by (auto simp: seal_aes_256_gcm_siv_def open_aes_256_gcm_siv_with_aad_def aead_law_def result_simps
      encrypted_blob_ref_from_payload_def sealed_payload_from_encrypted_blob_ref_def ok_or_def split: option.splits)

section \<open>Properties\<close>

text \<open>The identifiers of a context are joined with colons, so they can be told apart when none of them holds one.\<close>

definition plain_context :: "WorkspaceId \<Rightarrow> ChannelId \<Rightarrow> MessageId \<Rightarrow> bool" where
  "plain_context w c m \<longleftrightarrow> seps (workspace_str w) = 0 \<and> seps (channel_str c) = 0 \<and> seps (message_str m) = 0"

text \<open>
  C38: with a cipher that decrypts what it encrypts, a sealed message opens to its text in the
  context (workspace, channel, message) it was sealed for; an attachment opens to its bytes after its
  metadata went through an encrypted blob reference.  A context whose associated data differs is refused
  before decryption, whatever the key; when the identifiers of the sealing context hold no colon, these
  are all other contexts.
\<close>

theorem sealed_content_opens_only_in_context:
  assumes "aead_law A" "length nonce = 12"
  shows "(\<forall>payload. seal_message_markdown A nonce key_id key w c m markdown = Inr payload \<longrightarrow>
        (valid_utf8 (as_bytes markdown) \<longrightarrow> open_message_markdown A key payload w c m = Inr markdown)
        \<and> (\<forall>key' w' c' m'. message_markdown_aad w' c' m' \<noteq> message_markdown_aad w c m \<longrightarrow>
             open_message_markdown A key' payload w' c' m' = Inl AssociatedDataMismatch))
    \<and> (\<forall>payload. seal_attachment_blob A nonce key_id key w c m i plaintext = Inr payload \<longrightarrow>
        (\<exists>r. encrypted_blob_ref_from_payload payload n = Inr r
          \<and> open_attachment_blob A key (sealed_payload_from_encrypted_blob_ref r (sp_bytes payload)) w c m i
            = Inr plaintext)
        \<and> (\<forall>key' w' c' m' i'. attachment_blob_aad w' c' m' i' \<noteq> attachment_blob_aad w c m i \<longrightarrow>
             open_attachment_blob A key' payload w' c' m' i' = Inl AssociatedDataMismatch))
    \<and> (plain_context w c m \<longrightarrow>
        (\<forall>w' c' m'. (w', c', m') \<noteq> (w, c, m) \<longrightarrow> message_markdown_aad w' c' m' \<noteq> message_markdown_aad w c m)
        \<and> (\<forall>w' c' m' i'. (w', c', m', i') \<noteq> (w, c, m, i) \<longrightarrow> attachment_blob_aad w' c' m' i' \<noteq> attachment_blob_aad w c m i))"
proof (intro conjI allI impI)
  fix payload
  assume s: "seal_message_markdown A nonce key_id key w c m markdown = Inr payload"
  note o = open_sealed [OF assms(1,2) s [unfolded seal_message_markdown_def]]
  show "open_message_markdown A key payload w c m = Inr markdown" if "valid_utf8 (as_bytes markdown)"
    using o(1) that by (simp add: open_message_markdown_def bind_res_def from_utf8_as_bytes ok_or_def)
  show "open_message_markdown A key' payload w' c' m' = Inl AssociatedDataMismatch"
    if "message_markdown_aad w' c' m' \<noteq> message_markdown_aad w c m" for key' w' c' m'
    using o(2) [OF that] by (simp add: open_message_markdown_def bind_res_def)
next
  fix payload
  assume s: "seal_attachment_blob A nonce key_id key w c m i plaintext = Inr payload"
  note o = open_sealed [OF assms(1,2) s [unfolded seal_attachment_blob_def]]
  show "\<exists>r. encrypted_blob_ref_from_payload payload n = Inr r
      \<and> open_attachment_blob A key (sealed_payload_from_encrypted_blob_ref r (sp_bytes payload)) w c m i = Inr plaintext"
    using o(1) o(3,4) [of n] by (auto simp: open_attachment_blob_def)
  show "open_attachment_blob A key' payload w' c' m' i' = Inl AssociatedDataMismatch"
    if "attachment_blob_aad w' c' m' i' \<noteq> attachment_blob_aad w c m i" for key' w' c' m' i'
    using o(2) [OF that] by (simp add: open_attachment_blob_def)
next
  assume "plain_context w c m"
  then have plain: "seps (workspace_str w) = 0" "seps (channel_str c) = 0" "seps (message_str m) = 0"
    by (simp_all add: plain_context_def)
  show "message_markdown_aad w' c' m' \<noteq> message_markdown_aad w c m" if "(w', c', m') \<noteq> (w, c, m)" for w' c' m'
    using message_context_inject [OF plain] that by metis
  show "attachment_blob_aad w' c' m' i' \<noteq> attachment_blob_aad w c m i" if "(w', c', m', i') \<noteq> (w, c, m, i)" for w' c' m' i'
    using attachment_context_inject [OF plain] that by metis
qed

text \<open>A cipher for closed examples: it adds the first byte of the key to every byte.\<close>

definition shift_cipher :: "bytes Aead" where
  "shift_cipher =
     \<lparr>new_from_slice = (\<lambda>key. if length key = 32 then Some key else None),
      encrypt = (\<lambda>key nonce msg aad. Some (map (\<lambda>b. b + hd key) msg)),
      decrypt = (\<lambda>key nonce msg aad. Some (map (\<lambda>b. b - hd key) msg))\<rparr>"

lemma shift_cipher_law: "aead_law shift_cipher"
  by (simp add: aead_law_def shift_cipher_def o_def)

theorem sealed_content_opens_only_in_context_witness:
  "let w = WorkspaceId ''w''; c = ChannelId ''c''; m = MessageId ''m''; key = ContentKey (replicate 32 7) in
   \<exists>payload. seal_message_markdown shift_cipher (replicate 12 0) ''k'' key w c m ''hi'' = Inr payload
     \<and> open_message_markdown shift_cipher key payload w c m = Inr ''hi''
     \<and> open_message_markdown shift_cipher key payload w c (MessageId ''c:m'') = Inl AssociatedDataMismatch"
proof -
  let ?w = "WorkspaceId ''w''" and ?c = "ChannelId ''c''" and ?m = "MessageId ''m''" and ?key = "ContentKey (replicate 32 7)"
  obtain p where p: "seal_message_markdown shift_cipher (replicate 12 0) ''k'' ?key ?w ?c ?m ''hi'' = Inr p"
    by (simp add: seal_message_markdown_def seal_aes_256_gcm_siv_def shift_cipher_def bind_res_def ok_or_def)
  have "valid_utf8 (as_bytes ''hi'')"
    by (simp add: as_bytes_def byte_val_def valid_utf8.simps)
  moreover have "plain_context ?w ?c ?m" by (simp add: plain_context_def)
  ultimately show ?thesis using p sealed_content_opens_only_in_context [OF shift_cipher_law,
      where nonce = "replicate 12 0" and w = ?w and c = ?c and m = ?m and key_id = "''k''" and key = ?key and markdown = "''hi''"]
    by (auto simp: Let_def)
qed

end
