(* ===== verification/Identity_Properties.thy ===== *)
theory Identity_Properties
  imports Identity Crypto_Properties
begin

text \<open>
  What signatures and identity files guarantee: signed events verify, a verified identifier fixes
  its event, and a saved identity loads again.
\<close>

section \<open>Hexadecimal\<close>

lemma decode_hex_digit:
  assumes "n < 16"
  shows "decode_hex_nibble (byte_val (hex_digit n)) = Inr n"
proof -
  have "unat n < 16" using assms by (simp add: word_less_nat_alt)
  then have "n = of_nat (unat n)" "unat n \<in> {0, 1, 2, 3, 4, 5, 6, 7, 8, 9, 10, 11, 12, 13, 14, 15}"
    by (simp_all, presburger)
  then obtain k :: nat where "n = of_nat k" "k \<in> {0, 1, 2, 3, 4, 5, 6, 7, 8, 9, 10, 11, 12, 13, 14, 15}" by blast
  then show ?thesis
    by (auto simp: decode_hex_nibble_def hex_digit_def byte_val_def)
qed

lemma nibbles:
  fixes b :: u8
  shows "or (push_bit 4 (drop_bit 4 b)) (and b 0x0f) = b" "drop_bit 4 b < 16" "and b 0x0f < 16"
proof -
  have mask: "(0x0f :: u8) = mask 4" by (simp add: mask_eq_exp_minus_1)
  show "or (push_bit 4 (drop_bit 4 b)) (and b 0x0f) = b"
    unfolding mask by (rule bit_word_eqI) (auto simp: bit_simps)
  have "unat b < 256" using unsigned_less [of b, where ?'a = nat] by simp
  then show "drop_bit 4 b < 16"
    by (simp add: word_less_nat_alt drop_bit_eq_div unat_div less_mult_imp_div_less)
  have "and b (mask 4) = take_bit 4 b" by (simp add: take_bit_eq_mask)
  then show "and b 0x0f < 16" by (simp only: mask) (simp add: take_bit_eq_mod word_less_nat_alt unat_mod)
qed

lemma decode_encode_chunks: "decode_hex_chunks (as_bytes (encode_hex bs)) = Inr bs"
proof (induction bs)
  case (Cons b bs)
  then show ?case
    by (simp add: encode_hex_def as_bytes_def decode_hex_digit nibbles bind_res_def)
qed (simp add: encode_hex_def as_bytes_def)

lemma length_encode_hex: "length (encode_hex bs) = 2 * length bs"
  by (induction bs) (simp_all add: encode_hex_def)

lemma decode_encode_hex: "length bs = 32 \<Longrightarrow> decode_hex_32 (encode_hex bs) = Inr bs"
  by (simp add: decode_hex_32_def length_encode_hex decode_encode_chunks)

section \<open>Verification\<close>

lemma verify_with_key_Inr:
  "verify_with_key L key msg signature = Inr () \<longleftrightarrow>
     vk_ok L key \<and> length signature = 64 \<and> ed_verify L key msg signature"
  by (auto simp: verify_with_key_def result_simps)

lemma verify_self_contained_event_Inr:
  "verify_self_contained_event L e = Inr () \<longleftrightarrow>
     length (sg_author_public_key e) = 32 \<and> length (sg_signature e) = 64
     \<and> ev_author e = device_id_of L (sg_author_public_key e)
     \<and> sg_event_id e = EventId (''evt_'' @ hash_hex L (event_bytes L (sg_event e) @ sg_signature e))
     \<and> vk_ok L (sg_author_public_key e)
     \<and> ed_verify L (sg_author_public_key e) (event_bytes L (sg_event e)) (sg_signature e)"
  by (auto simp: verify_self_contained_event_def verify_event_def validate_author_public_key_len_def
      validate_signature_len_def verify_with_key_Inr from_author_signature_def result_simps Let_def)

lemma sign_event_simps [simp]:
  "sg_event (sign_event L identity ev) = ev"
  "sg_author_public_key (sign_event L identity ev) = verifying_key_bytes L identity"
  "sg_signature (sign_event L identity ev) = ed_sign L (di_signing_key identity) (event_bytes L ev)"
  "sg_event_id (sign_event L identity ev) =
     EventId (''evt_'' @ hash_hex L (event_bytes L ev @ ed_sign L (di_signing_key identity) (event_bytes L ev)))"
  by (simp_all add: sign_event_def from_author_signature_def)

lemma validate_trust_snapshot_root_Inr:
  "validate_trust_snapshot_root L snapshot root_event = Inr () \<longleftrightarrow>
     verify_self_contained_event L root_event = Inr () \<and> ts_schema_version snapshot = 1
     \<and> sg_event_id root_event = ts_root_event_id snapshot \<and> ev_workspace root_event = ts_workspace_id snapshot
     \<and> ev_author root_event = ts_root_author_device_id snapshot
     \<and> (\<exists>name. ev_body root_event = WorkspaceCreated name)"
  by (auto simp: validate_trust_snapshot_root_def result_simps split: EventBody.splits if_splits)

lemma verify_snapshot_Inr:
  "verify_self_contained_trust_snapshot L s = Inr () \<longleftrightarrow>
     validate_trust_snapshot_root L (sts_snapshot s) (sts_root_event s) = Inr ()
     \<and> length (sts_signature s) = 64
     \<and> sg_author_public_key (sts_root_event s) = sts_author_public_key s
     \<and> ed_verify L (sts_author_public_key s) (snapshot_bytes L (sts_snapshot s)) (sts_signature s)"
  by (auto simp: verify_self_contained_trust_snapshot_def validate_trust_snapshot_root_Inr
      verify_self_contained_event_Inr validate_author_public_key_len_def validate_signature_len_def
      verify_with_key_Inr result_simps Let_def)

section \<open>Files\<close>

text \<open>The identity that a device persists, and what the serialiser promises for it.\<close>

abbreviation persisted_form :: "DeviceIdentity \<Rightarrow> PersistedDeviceIdentity" where
  "persisted_form identity \<equiv> \<lparr>pdi_schema_version = 1, pdi_device_id = di_device_id identity,
     pdi_signing_key_hex = encode_hex (di_signing_key identity)\<rparr>"

definition persisted_json_law :: "'c IdentityLib \<Rightarrow> PersistedDeviceIdentity \<Rightarrow> bool" where
  "persisted_json_law L p \<longleftrightarrow>
     persisted_from_slice L (persisted_to_vec L p) = Some p
     \<and> persisted_from_slice L (persisted_to_vec_pretty L p @ [0x0A]) = Some p
     \<and> encrypted_from_slice L (persisted_to_vec_pretty L p @ [0x0A]) = None"

definition encrypted_json_law :: "'c IdentityLib \<Rightarrow> PersistedEncryptedDeviceIdentity \<Rightarrow> bool" where
  "encrypted_json_law L e \<longleftrightarrow> encrypted_from_slice L (encrypted_to_vec_pretty L e @ [0x0A]) = Some e"

lemma from_persisted_form:
  assumes "length key = 32"
  shows "from_persisted L (persisted_form (from_signing_key L key)) = Inr (from_signing_key L key)"
  using assms by (simp add: from_persisted_def from_signing_key_def decode_encode_hex bind_res_def)

lemma from_encrypted_form:
  assumes "length key = 32" "aead_law (cipher L)" "length nonce = 12" "length p \<le> DEVICE_IDENTITY_PASSPHRASE_MAX_BYTES"
    "persisted_json_law L (persisted_form (from_signing_key L key))" "trim p \<noteq> []"
    "encrypt_persisted_identity L salt nonce (persisted_form (from_signing_key L key)) p = Inr e"
  shows "from_encrypted_persisted L e (Some p) = Inr (from_signing_key L key) \<and> ped_storage e = ENCRYPTED_IDENTITY_STORAGE"
proof -
  let ?p = "persisted_form (from_signing_key L key)"
  obtain wrapping payload where w: "derive_encrypted_identity_key L p (ped_kdf e) = Inr wrapping"
    and s: "seal_aes_256_gcm_siv (cipher L) nonce (encrypted_identity_key_id (pdi_device_id ?p)) wrapping
      (persisted_to_vec L ?p) (encrypted_identity_aad (pdi_device_id ?p) (kdf_name (ped_kdf e))
        (kdf_context (ped_kdf e)) (kdf_salt (ped_kdf e))) = Inr payload"
    and e: "ped_schema_version e = 1" "ped_storage e = ENCRYPTED_IDENTITY_STORAGE"
      "ped_device_id e = pdi_device_id ?p" "ped_sealed_payload e = payload"
    using assms(7) by (auto simp: encrypt_persisted_identity_def Let_def result_simps)
  have aad: "sp_aad payload = encrypted_identity_aad (pdi_device_id ?p) (kdf_name (ped_kdf e))
      (kdf_context (ped_kdf e)) (kdf_salt (ped_kdf e))"
    using s by (auto simp: seal_aes_256_gcm_siv_def result_simps)
  have "open_aes_256_gcm_siv (cipher L) wrapping payload = Inr (persisted_to_vec L ?p)"
    using open_sealed(1) [OF assms(2,3) s] by (simp only: open_aes_256_gcm_siv_def aad)
  then show ?thesis
    using assms(4,5,6) w e aad from_persisted_form [OF assms(1)]
    by (simp add: from_encrypted_persisted_def validate_identity_passphrase_def persisted_json_law_def bind_res_def
        then_res_def map_err_def ok_or_def ensure_def)
qed

section \<open>Properties\<close>

text \<open>
  An event signed by a device verifies exactly when the event names that device as its author;
  otherwise it is refused for the mismatch.  A snapshot that a device signs verifies when the root
  event carries the key of the device.
\<close>

theorem signatures_verify:
  assumes "signature_law L"
  shows "verify_self_contained_event L (sign_event L (from_signing_key L key) ev) =
      (if se_author_device_id ev = di_device_id (from_signing_key L key) then Inr () else Inl DeviceIdMismatch)
    \<and> (\<forall>signed. sign_trust_snapshot L (from_signing_key L key) snapshot root_event = Inr signed \<longrightarrow>
        sg_author_public_key root_event = verifying_key_bytes L (from_signing_key L key) \<longrightarrow>
        verify_self_contained_trust_snapshot L signed = Inr ())"
proof (intro conjI allI impI)
  have law: "length (verifying_key L key) = 32" "vk_ok L (verifying_key L key)" "length (ed_sign L key m) = 64"
    "ed_verify L (verifying_key L key) m (ed_sign L key m)" for m
    using assms by (simp_all add: signature_law_def)
  show "verify_self_contained_event L (sign_event L (from_signing_key L key) ev) =
      (if se_author_device_id ev = di_device_id (from_signing_key L key) then Inr () else Inl DeviceIdMismatch)"
  proof (cases "se_author_device_id ev = di_device_id (from_signing_key L key)")
    case True
    then have "verify_self_contained_event L (sign_event L (from_signing_key L key) ev) = Inr ()"
      by (simp add: verify_self_contained_event_Inr from_signing_key_def verifying_key_bytes_def law)
    with True show ?thesis by simp
  next
    case False
    then show ?thesis
      by (auto simp: verify_self_contained_event_def validate_author_public_key_len_def validate_signature_len_def
          from_signing_key_def verifying_key_bytes_def law ensure_def Let_def result_simps)
  qed
  fix signed
  assume s: "sign_trust_snapshot L (from_signing_key L key) snapshot root_event = Inr signed"
    "sg_author_public_key root_event = verifying_key_bytes L (from_signing_key L key)"
  then show "verify_self_contained_trust_snapshot L signed = Inr ()"
    by (auto simp: sign_trust_snapshot_def verify_snapshot_Inr result_simps from_signing_key_def
        verifying_key_bytes_def law split: if_splits)
qed

text \<open>
  C13: the identifier of a verified event fixes the event: two verified events with the same
  identifier are equal, or they exhibit a collision of the hash, either on their signed bytes with
  their signatures or on their public keys.
\<close>

theorem verified_identifier_determines_event:
  assumes "verify_self_contained_event L a = Inr ()" "verify_self_contained_event L b = Inr ()"
    "sg_event_id a = sg_event_id b"
    and serialiser: "event_bytes L (sg_event a) = event_bytes L (sg_event b) \<longrightarrow> sg_event a = sg_event b"
  shows "a = b
    \<or> (let x = event_bytes L (sg_event a) @ sg_signature a; y = event_bytes L (sg_event b) @ sg_signature b
        in x \<noteq> y \<and> hash_hex L x = hash_hex L y)
    \<or> (let x = sg_author_public_key a; y = sg_author_public_key b in x \<noteq> y \<and> hash_hex L x = hash_hex L y)"
proof (cases "event_bytes L (sg_event a) @ sg_signature a = event_bytes L (sg_event b) @ sg_signature b")
  case True
  have "length (sg_signature a) = length (sg_signature b)" using assms(1,2) by (simp add: verify_self_contained_event_Inr)
  with True serialiser have same: "sg_event a = sg_event b" "sg_signature a = sg_signature b" by simp_all
  then have "hash_hex L (sg_author_public_key a) = hash_hex L (sg_author_public_key b)"
    using assms(1,2) by (simp add: verify_self_contained_event_Inr device_id_from_public_key_bytes_def)
  then show ?thesis using same assms(3) by (cases "sg_author_public_key a = sg_author_public_key b") (simp_all add: Let_def)
next
  case False
  then show ?thesis using assms(1-3) by (auto simp: verify_self_contained_event_Inr Let_def)
qed

text \<open>
  An identity loads back from the bytes that saving it writes, plain or encrypted under a
  passphrase, given that the serialiser reads what it wrote and the cipher decrypts what it encrypted.
\<close>

theorem identity_file_round_trip:
  assumes "length key = 32" "validate_identity_path path = Inr ()" "validate_identity_passphrase passphrase = Inr ()"
    "persisted_bytes L salt nonce (from_signing_key L key) passphrase = Inr saved"
    "persisted_json_law L (persisted_form (from_signing_key L key))"
    "\<forall>p e. passphrase = Some p \<longrightarrow>
       encrypt_persisted_identity L salt nonce (persisted_form (from_signing_key L key)) p = Inr e \<longrightarrow> encrypted_json_law L e"
    "aead_law (cipher L)" "length nonce = 12"
  shows "load_from_file_with_passphrase L path passphrase (Inr (saved @ [0x0A])) = Inr (from_signing_key L key)"
proof (cases passphrase)
  case None
  then show ?thesis
    using assms(2-5) from_persisted_form [OF assms(1)]
    by (simp add: load_from_file_with_passphrase_def persisted_bytes_def persisted_json_law_def bind_res_def
        then_res_def ok_or_def)
next
  case (Some p)
  obtain e where e: "encrypt_persisted_identity L salt nonce (persisted_form (from_signing_key L key)) p = Inr e"
    "saved = encrypted_to_vec_pretty L e" "trim p \<noteq> []"
    using assms(4) Some by (auto simp: persisted_bytes_def result_simps split: if_splits)
  have "length p \<le> DEVICE_IDENTITY_PASSPHRASE_MAX_BYTES"
    using assms(3) Some by (simp add: validate_identity_passphrase_def result_simps)
  from from_encrypted_form [OF assms(1,7,8) this assms(5) e(3,1)] show ?thesis
    using assms(2,3) assms(6) [rule_format, OF Some e(1)] Some e(2)
    by (simp add: load_from_file_with_passphrase_def encrypted_json_law_def bind_res_def then_res_def)
qed

text \<open>A library for closed examples.\<close>

definition sample_key :: bytes where "sample_key = replicate 32 7"

definition sample_kdf :: EncryptedIdentityKdf where
  "sample_kdf = \<lparr>kdf_name = ENCRYPTED_IDENTITY_KDF_ARGON2ID, kdf_context = ENCRYPTED_IDENTITY_KDF_CONTEXT,
     kdf_salt = replicate 16 5, kdf_memory_cost_kib = 64 * 1024, kdf_time_cost = 3, kdf_parallelism = 1,
     kdf_output_len = 32\<rparr>"

definition sample_device :: DeviceId where "sample_device = DeviceId (''dev_'' @ replicate 64 CHR ''a'')"

definition sample_persisted :: PersistedDeviceIdentity where
  "sample_persisted = \<lparr>pdi_schema_version = 1, pdi_device_id = sample_device, pdi_signing_key_hex = encode_hex sample_key\<rparr>"

definition sample_encrypted :: PersistedEncryptedDeviceIdentity where
  "sample_encrypted = \<lparr>ped_schema_version = 1, ped_storage = ENCRYPTED_IDENTITY_STORAGE, ped_device_id = sample_device,
     ped_kdf = sample_kdf,
     ped_sealed_payload = \<lparr>sp_mode = Aes256GcmSiv, sp_key_id = encrypted_identity_key_id sample_device,
       sp_nonce = replicate 12 0,
       sp_aad = encrypted_identity_aad sample_device (kdf_name sample_kdf) (kdf_context sample_kdf) (kdf_salt sample_kdf),
       sp_bytes = [4]\<rparr>\<rparr>"

definition sample_lib :: "bytes IdentityLib" where
  "sample_lib =
     \<lparr>hash_hex = (\<lambda>_. replicate 64 CHR ''a''), event_bytes = (\<lambda>_. []), snapshot_bytes = (\<lambda>_. []),
      verifying_key = (\<lambda>k. take 32 (k @ replicate 32 0)), vk_ok = (\<lambda>_. True),
      ed_sign = (\<lambda>k m. take 64 (k @ replicate 64 0)), ed_verify = (\<lambda>pk m s. take 32 s = pk),
      argon2id = (\<lambda>_ _ _ _ p salt. Inr (replicate 32 3)), cipher = shift_cipher,
      persisted_to_vec = (\<lambda>_. [1]), persisted_to_vec_pretty = (\<lambda>_. [1]),
      persisted_from_slice = (\<lambda>_. Some sample_persisted),
      encrypted_to_vec_pretty = (\<lambda>_. [2]),
      encrypted_from_slice = (\<lambda>bs. if hd bs = 2 then Some sample_encrypted else None)\<rparr>"

lemma sample_signature_law: "signature_law sample_lib"
  by (auto simp: signature_law_def sample_lib_def min_def)

lemma sample_identity:
  "from_signing_key sample_lib sample_key = \<lparr>di_device_id = sample_device, di_signing_key = sample_key\<rparr>"
  by (simp add: from_signing_key_def sample_lib_def device_id_from_public_key_bytes_def sample_device_def)

definition sample_signable :: SignableEvent where
  "sample_signable = signable_event_new \<lparr>physical_ms = 0, logical = 0\<rparr> (WorkspaceId ''w'') None sample_device
     (WorkspaceCreated ''W'')"

lemma sample_event_verifies:
  "verify_self_contained_event sample_lib (sign_event sample_lib (from_signing_key sample_lib sample_key) sample_signable)
    = Inr ()"
  by (simp add: verify_self_contained_event_Inr sample_identity sample_signable_def signable_event_new_def
        verifying_key_bytes_def)
    (simp add: sample_lib_def sample_key_def device_id_from_public_key_bytes_def sample_device_def)

theorem signatures_verify_witness:
  "verify_self_contained_event sample_lib (sign_event sample_lib (from_signing_key sample_lib sample_key) sample_signable)
    = Inr ()"
  using signatures_verify [OF sample_signature_law, of sample_key sample_signable]
  by (simp add: sample_identity sample_signable_def signable_event_new_def)

theorem verified_identifier_determines_event_witness:
  "\<exists>a b. verify_self_contained_event sample_lib a = Inr () \<and> verify_self_contained_event sample_lib b = Inr ()
    \<and> sg_event_id a = sg_event_id b
    \<and> (a = b \<or> (let x = event_bytes sample_lib (sg_event a) @ sg_signature a;
          y = event_bytes sample_lib (sg_event b) @ sg_signature b in x \<noteq> y \<and> hash_hex sample_lib x = hash_hex sample_lib y)
        \<or> (let x = sg_author_public_key a; y = sg_author_public_key b in
             x \<noteq> y \<and> hash_hex sample_lib x = hash_hex sample_lib y))"
proof -
  let ?a = "sign_event sample_lib (from_signing_key sample_lib sample_key) sample_signable"
  from sample_event_verifies verified_identifier_determines_event [of sample_lib ?a ?a] show ?thesis by blast
qed

theorem identity_file_round_trip_witness:
  "\<exists>saved. persisted_bytes sample_lib (replicate 16 5) (replicate 12 0) (from_signing_key sample_lib sample_key)
      (Some ''pw'') = Inr saved
    \<and> load_from_file_with_passphrase sample_lib ''device.json'' (Some ''pw'') (Inr (saved @ [0x0A]))
      = Inr (from_signing_key sample_lib sample_key)"
proof -
  have e: "encrypt_persisted_identity sample_lib (replicate 16 5) (replicate 12 0)
      (persisted_form (from_signing_key sample_lib sample_key)) p = Inr sample_encrypted" for p
    by (simp add: encrypt_persisted_identity_def sample_identity derive_encrypted_identity_key_def Let_def
        seal_aes_256_gcm_siv_def bind_res_def ok_or_def map_err_def)
      (simp add: sample_lib_def shift_cipher_def sample_encrypted_def sample_kdf_def sample_device_def)
  have trim: "trim ''pw'' \<noteq> []" by code_simp
  have key: "length sample_key = 32" by (simp add: sample_key_def)
  have json: "persisted_json_law sample_lib (persisted_form (from_signing_key sample_lib sample_key))"
    "encrypted_json_law sample_lib sample_encrypted"
    by (simp_all add: persisted_json_law_def encrypted_json_law_def sample_identity)
      (simp_all add: sample_lib_def sample_persisted_def)
  have b: "persisted_bytes sample_lib (replicate 16 5) (replicate 12 0) (from_signing_key sample_lib sample_key)
      (Some ''pw'') = Inr [2]"
    using e trim by (simp add: persisted_bytes_def bind_res_def) (simp add: sample_lib_def)
  have "load_from_file_with_passphrase sample_lib ''device.json'' (Some ''pw'') (Inr ([2] @ [0x0A]))
      = Inr (from_signing_key sample_lib sample_key)"
    by (rule identity_file_round_trip [OF key _ _ b json(1)])
      (use json(2) e shift_cipher_law in \<open>simp_all add: validate_identity_path_def validate_identity_passphrase_def ensure_def,
        simp add: sample_lib_def\<close>)
  with b show ?thesis by blast
qed

end
