(* ===== verification/Store_Correct.thy ===== *)
theory Store_Correct
  imports Store Event_Machine Identity_Properties
begin

text \<open>
  Lemmas about the event store: the invariant of the rows, what an append keeps, what a store promises
  to a client that appends verified events, and the effect of the metadata repair.
\<close>

section \<open>Rows\<close>

lemma json_size_Inr: "validate_event_json_size n = Inr () \<longleftrightarrow> n \<le> EVENT_JSON_MAX_BYTES"
  by (auto simp: validate_event_json_size_def)

lemma parse_row_alt:
  "parse_row L r = (if length (rw_event_json r) \<le> EVENT_JSON_MAX_BYTES then event_from_slice L (rw_event_json r) else None)"
  by (auto simp: parse_row_def json_columns_def bounded_event_json_or_none_def sqlite_blob_len_to_usize_def)

lemma read_row_alt:
  "read_row L r =
     (if length (rw_event_json r) \<le> EVENT_JSON_MAX_BYTES then ok_or (event_from_slice L (rw_event_json r)) StoreSerde
      else Inl (EventJsonTooLarge (length (rw_event_json r)) EVENT_JSON_MAX_BYTES))"
  by (auto simp: read_row_def json_columns_def bounded_event_json_or_error_def sqlite_blob_len_to_usize_def
      validate_event_json_size_def then_res_def bind_res_def)

text \<open>The row that stores an event.\<close>

definition event_row :: "'c StoreLib \<Rightarrow> SignedEvent \<Rightarrow> EventRow" where
  "event_row L e =
     \<lparr>rw_event_id = event_str (sg_event_id e), rw_workspace_id = workspace_str (ev_workspace e),
      rw_channel_id = map_option channel_str (ev_channel e), rw_author_device_id = device_str (ev_author e),
      rw_physical_ms = ev_physical_ms e, rw_logical = logical (se_timestamp (sg_event e)),
      rw_self_contained_signature_valid = Some (bool_to_sqlite_integer (is_servable_event L e)),
      rw_event_json = event_to_vec L e\<rparr>"

definition fits :: "'c StoreLib \<Rightarrow> SignedEvent \<Rightarrow> bool" where
  "fits L e \<longleftrightarrow> length (event_to_vec L e) \<le> EVENT_JSON_MAX_BYTES"

lemma from_event_Inr: "from_event L e = Inr s \<Longrightarrow> fits L e \<and> row_of s = event_row L e \<and> sr_event_id s = event_str (sg_event_id e)
    \<and> sr_self_contained_signature_valid s = bool_to_sqlite_integer (is_servable_event L e)"
  by (auto simp: from_event_def Let_def result_simps json_size_Inr row_of_def event_row_def fits_def)

text \<open>What an append does to the rows.\<close>

definition put_row :: "EventRow \<Rightarrow> EventStore \<Rightarrow> EventStore" where
  "put_row n store =
     (if rw_event_id n \<in> rw_event_id ` set store
      then map (\<lambda>r. if rw_event_id r = rw_event_id n \<and> coalesce_valid r \<noteq> 1 \<and> coalesce_valid n = 1 then n else r) store
      else store @ [n])"

lemma insert_row: "insert_serialized_event s store = put_row (row_of s) store"
  by (simp add: insert_serialized_event_def put_row_def row_of_def coalesce_valid_def)

lemma append_event_Inr:
  "append_event L store e = Inr store' \<longleftrightarrow> fits L e \<and> store' = put_row (event_row L e) store"
proof
  assume "append_event L store e = Inr store'"
  then show "fits L e \<and> store' = put_row (event_row L e) store"
    by (auto simp: append_event_def result_simps insert_row dest!: from_event_Inr)
next
  assume "fits L e \<and> store' = put_row (event_row L e) store"
  then show "append_event L store e = Inr store'"
    by (auto simp: append_event_def from_event_def Let_def result_simps insert_row fits_def validate_event_json_size_def
        row_of_def event_row_def bind_res_def then_res_def)
qed

lemma append_event_Inl:
  "append_event L store e = Inl err \<longleftrightarrow>
     \<not> fits L e \<and> err = EventJsonTooLarge (length (event_to_vec L e)) EVENT_JSON_MAX_BYTES"
  by (auto simp: append_event_def from_event_def Let_def fits_def validate_event_json_size_def then_res_def bind_res_def)

section \<open>The invariant\<close>

definition store_ok :: "'c StoreLib \<Rightarrow> EventStore \<Rightarrow> bool" where
  "store_ok L store \<longleftrightarrow> distinct (map rw_event_id store) \<and> (\<forall>r \<in> set store. \<exists>e. fits L e \<and> r = event_row L e)"

lemma put_row_ids:
  "map rw_event_id (put_row n store) =
     (if rw_event_id n \<in> rw_event_id ` set store then map rw_event_id store else map rw_event_id store @ [rw_event_id n])"
  by (auto simp: put_row_def)

lemma set_put_row: "set (put_row n store) \<subseteq> insert n (set store)"
  by (auto simp: put_row_def)

lemma store_ok_append:
  assumes "store_ok L store" "append_event L store e = Inr store'"
  shows "store_ok L store'"
proof -
  have e: "fits L e" "store' = put_row (event_row L e) store" using assms(2) by (simp_all add: append_event_Inr)
  have "distinct (map rw_event_id store')" using assms(1) by (auto simp: e(2) put_row_ids store_ok_def)
  then show ?thesis using assms(1) e(1) set_put_row [of "event_row L e" store] by (auto simp: store_ok_def e(2))
qed

text \<open>Rows keep their place and their identifier, and a row marked valid is never changed.\<close>

definition row_kept :: "EventRow \<Rightarrow> EventRow \<Rightarrow> bool" where
  "row_kept r r' \<longleftrightarrow> rw_event_id r' = rw_event_id r \<and> (coalesce_valid r = 1 \<longrightarrow> r' = r)"

definition store_extends :: "EventStore \<Rightarrow> EventStore \<Rightarrow> bool" where
  "store_extends s t \<longleftrightarrow> length s \<le> length t \<and> list_all2 row_kept s (take (length s) t)"

lemma row_kept_trans: "row_kept r r' \<Longrightarrow> row_kept r' r'' \<Longrightarrow> row_kept r r''"
  by (auto simp: row_kept_def)

lemma store_extends_refl: "store_extends s s"
  by (auto simp: store_extends_def row_kept_def intro: list.rel_refl)

lemma store_extends_trans:
  assumes "store_extends s t" "store_extends t u"
  shows "store_extends s u"
  using assms
  by (auto simp: store_extends_def list_all2_conv_all_nth intro: row_kept_trans)

lemma store_extends_put: "store_extends store (put_row n store)"
  by (auto simp: store_extends_def put_row_def list_all2_conv_all_nth row_kept_def nth_append)

interpretation store_order: event_machine_order "append_event L" "store_ok L" store_extends for L
proof
  fix s e t
  show "store_ok L s \<Longrightarrow> append_event L s e = Inr t \<Longrightarrow> store_ok L t" by (rule store_ok_append)
  show "store_ok L s \<Longrightarrow> append_event L s e = Inr t \<Longrightarrow> store_extends s t"
    by (auto simp: append_event_Inr intro: store_extends_put)
qed (auto intro: store_extends_refl store_extends_trans)

section \<open>What a log promises to its clients\<close>

text \<open>
  A client of the store appends verified events and asks which identifiers can be served for a
  workspace.  The provider promises that an append adds exactly the verified event, unless its
  identifier can already be served, and loses nothing.
\<close>

locale servable_log = event_machine step inv for step :: "'s \<Rightarrow> SignedEvent \<Rightarrow> 'x + 's" and inv +
  fixes servable :: "'s \<Rightarrow> (EventId \<times> WorkspaceId) set" and verified :: "SignedEvent \<Rightarrow> bool"
  assumes step_servable: "inv s \<Longrightarrow> step s e = Inr t \<Longrightarrow>
    servable t = servable s \<union>
      (if verified e \<and> sg_event_id e \<notin> fst ` servable s then {(sg_event_id e, ev_workspace e)} else {})"
begin

lemma run_keeps_servable: "accepted_run step s es t \<Longrightarrow> inv s \<Longrightarrow> servable s \<subseteq> servable t"
proof (induction rule: accepted_run.induct)
  case (run_cons s e t es u)
  then have "servable s \<subseteq> servable t" "inv t" using step_servable step_inv by auto
  with run_cons.IH show ?case by blast
qed simp

lemma run_servable:
  assumes "accepted_run step s es t" "inv s" "\<forall>e \<in> set es. verified e" "distinct (map sg_event_id es)"
    "\<forall>e \<in> set es. sg_event_id e \<notin> fst ` servable s"
  shows "servable t = servable s \<union> (\<lambda>e. (sg_event_id e, ev_workspace e)) ` set es"
  using assms
proof (induction rule: accepted_run.induct)
  case (run_cons s e t es u)
  then have t: "servable t = insert (sg_event_id e, ev_workspace e) (servable s)" "inv t"
    using step_servable step_inv by auto
  have "\<forall>d \<in> set es. sg_event_id d \<notin> fst ` servable t"
    using run_cons.prems t(1) by (auto simp: image_iff)
  then show ?case using run_cons t by auto
qed simp

text \<open>The first verified event of each new identifier becomes servable, whatever else is appended.\<close>

lemma run_first_servable:
  assumes "accepted_run step s es t" "inv s"
  shows "servable t = servable s \<union> {(i, w).
    i \<notin> fst ` servable s \<and> map_option ev_workspace (find (\<lambda>e. verified e \<and> sg_event_id e = i) es) = Some w}"
  using assms
proof (induction rule: accepted_run.induct)
  case (run_cons s e t es u)
  let ?fresh = "verified e \<and> sg_event_id e \<notin> fst ` servable s"
  have t: "servable t = servable s \<union> (if ?fresh then {(sg_event_id e, ev_workspace e)} else {})"
    by (rule step_servable [OF run_cons.prems run_cons.hyps(1)])
  have "inv t" by (rule step_inv [OF run_cons.prems run_cons.hyps(1)])
  note u = run_cons.IH [OF this]
  show ?case
  proof (cases ?fresh)
    case True
    have known: "fst ` servable t = insert (sg_event_id e) (fst ` servable s)" using t True by simp
    have "(i, w) \<in> servable u \<longleftrightarrow> (i, w) \<in> servable s \<or> i \<notin> fst ` servable s
        \<and> map_option ev_workspace (find (\<lambda>e. verified e \<and> sg_event_id e = i) (e # es)) = Some w" for i w
      unfolding u known t using True by (cases "i = sg_event_id e") (auto intro: rev_image_eqI)
    then show ?thesis by (intro set_eqI) (simp add: split_paired_all)
  next
    case False
    then have "(i, w) \<in> servable u \<longleftrightarrow> (i, w) \<in> servable s \<or> i \<notin> fst ` servable s
        \<and> map_option ev_workspace (find (\<lambda>e. verified e \<and> sg_event_id e = i) (e # es)) = Some w" for i w
      unfolding u t by (cases "i = sg_event_id e") (auto intro: rev_image_eqI)
    then show ?thesis by (intro set_eqI) (simp add: split_paired_all)
  qed
qed simp

end

definition store_servable :: "EventStore \<Rightarrow> (EventId \<times> WorkspaceId) set" where
  "store_servable store = (\<lambda>r. (EventId (rw_event_id r), WorkspaceId (rw_workspace_id r))) ` {r \<in> set store. servable_row r}"

lemma servable_event_row: "servable_row (event_row L e) \<longleftrightarrow> is_servable_event L e \<and> fits L e"
  by (simp add: servable_row_def event_row_def bool_to_sqlite_integer_def fits_def)

lemma store_ok_servable_valid: "store_ok L s \<Longrightarrow> r \<in> set s \<Longrightarrow> servable_row r \<longleftrightarrow> coalesce_valid r = 1"
  by (auto simp: store_ok_def event_row_def servable_row_def coalesce_valid_def fits_def)

lemma store_servable_append:
  assumes "store_ok L s" "append_event L s e = Inr t"
  shows "store_servable t = store_servable s \<union>
    (if is_servable_event L e \<and> sg_event_id e \<notin> fst ` store_servable s then {(sg_event_id e, ev_workspace e)} else {})"
proof -
  let ?n = "event_row L e"
  have t: "t = put_row ?n s" and f: "fits L e" using assms(2) by (simp_all add: append_event_Inr)
  have n: "EventId (rw_event_id ?n) = sg_event_id e" "WorkspaceId (rw_workspace_id ?n) = ev_workspace e"
    "coalesce_valid ?n = 1 \<longleftrightarrow> is_servable_event L e"
    by (simp_all add: event_row_def coalesce_valid_def bool_to_sqlite_integer_def)
  have valid: "r \<in> set s \<Longrightarrow> servable_row r \<longleftrightarrow> coalesce_valid r = 1" for r
    using store_ok_servable_valid [OF assms(1)] .
  have known: "sg_event_id e \<in> fst ` store_servable s \<longleftrightarrow> (\<exists>r \<in> set s. servable_row r \<and> rw_event_id r = rw_event_id ?n)"
    by (force simp: store_servable_def event_row_def)
  show ?thesis
  proof (cases "rw_event_id ?n \<in> rw_event_id ` set s")
    case False
    then have "{r \<in> set t. servable_row r} = {r \<in> set s. servable_row r} \<union> (if is_servable_event L e then {?n} else {})"
      using f by (auto simp: t put_row_def servable_event_row)
    moreover have "sg_event_id e \<notin> fst ` store_servable s" using False known by (metis imageI)
    ultimately show ?thesis by (auto simp: store_servable_def n)
  next
    case True
    then obtain r where r: "r \<in> set s" "rw_event_id r = rw_event_id ?n" by (metis imageE)
    have only: "r' \<in> set s \<Longrightarrow> rw_event_id r' = rw_event_id ?n \<Longrightarrow> r' = r" for r'
      using assms(1) r inj_onD [of rw_event_id "set s" r' r] by (simp add: store_ok_def distinct_map)
    have "r' \<in> set s \<Longrightarrow> rw_event_id r' = rw_event_id ?n \<longleftrightarrow> r' = r" for r' using only r by blast
    then have t': "t = map (\<lambda>r'. if r' = r \<and> coalesce_valid r' \<noteq> 1 \<and> is_servable_event L e then ?n else r') s"
      using True by (simp add: t put_row_def n(3) cong: map_cong)
    have known': "sg_event_id e \<in> fst ` store_servable s \<longleftrightarrow> coalesce_valid r = 1"
      using known only r valid by blast
    show ?thesis
    proof (cases "coalesce_valid r \<noteq> 1 \<and> is_servable_event L e")
      case True
      then have "{x \<in> set t. servable_row x} = insert ?n {x \<in> set s. servable_row x}"
        using f r valid [OF r(1)] by (auto simp: t' servable_event_row)
      with True known' show ?thesis by (auto simp: store_servable_def n)
    next
      case False
      then have "t = s" by (auto simp: t' intro: map_idI)
      with False known' show ?thesis by auto
    qed
  qed
qed

interpretation store_log: servable_log "append_event L" "store_ok L" store_servable "is_servable_event L" for L
  by unfold_locales (rule store_servable_append)

end
