(* ===== verification/Store_Metadata.thy ===== *)
theory Store_Metadata
  imports Store_Correct
begin

text \<open>
  The bookkeeping of the event store: the ordered map behind the chunked filter, and the updates and
  counters of the metadata repair and of the health report.
\<close>

section \<open>Chunks\<close>

lemma concat_chunks: "0 < n \<Longrightarrow> concat (chunks n xs) = xs"
proof (induction n xs rule: chunks.induct)
  case (1 n xs)
  then show ?case by (subst chunks.simps) simp
qed

section \<open>The ordered map of the filter\<close>

text \<open>The map holds the identifiers of exactly the rows with rank in \<open>K\<close>.\<close>

definition ranks :: "EventStore \<Rightarrow> nat set \<Rightarrow> (nat, EventId) fmap \<Rightarrow> bool" where
  "ranks store K m \<longleftrightarrow> (\<forall>k. fmlookup m k = (if k \<in> K then Some (EventId (rw_event_id (store ! k))) else None))"

lemma ranks_upd:
  assumes "\<forall>(k, v) \<in> set xs. v = EventId (rw_event_id (store ! k))" "ranks store K m"
  shows "ranks store (K \<union> fst ` set xs) (foldl (\<lambda>m (k, v). fmupd k v m) m xs)"
  using assms
proof (induction xs arbitrary: K m)
  case (Cons x xs)
  obtain k v where x: "x = (k, v)" by (cases x)
  then have "ranks store (insert k K) (fmupd k v m)" using Cons.prems by (auto simp: ranks_def)
  from Cons.IH [OF _ this] Cons.prems show ?case by (simp add: x insert_commute)
qed simp

definition matching :: "string \<Rightarrow> EventId set \<Rightarrow> EventRow \<Rightarrow> bool" where
  "matching w C r \<longleftrightarrow> in_workspace w r \<and> servable_row r \<and> EventId (rw_event_id r) \<in> C"

lemma query_ranks:
  "fst ` set (query_candidates store w cs) = {k. k < length store \<and> matching w (set cs) (store ! k)}"
  "\<forall>(k, v) \<in> set (query_candidates store w cs). v = EventId (rw_event_id (store ! k))"
  by (auto simp: query_candidates_def matching_def in_set_enumerate_eq image_iff)

lemma ranks_chunks:
  "ranks store K m \<Longrightarrow>
     ranks store (K \<union> {k. k < length store \<and> matching w (\<Union> (set ` set css)) (store ! k)})
       (foldl (\<lambda>by_rowid chunk. foldl (\<lambda>m (rowid, event_id). fmupd rowid event_id m) by_rowid
          (query_candidates store w chunk)) m css)"
proof (induction css arbitrary: K m)
  case (Cons cs css)
  let ?m = "foldl (\<lambda>m (rowid, event_id). fmupd rowid event_id m) m (query_candidates store w cs)"
  have "ranks store (K \<union> {k. k < length store \<and> matching w (set cs) (store ! k)}) ?m"
    using ranks_upd [OF query_ranks(2) Cons.prems] by (simp add: query_ranks(1))
  from Cons.IH [OF this] show ?case
    by (simp add: matching_def) (erule back_subst [where P = "\<lambda>K. ranks store K _"], auto)
qed (simp add: matching_def)

lemma filtered_ranks:
  assumes "ranks store {k. k < length store \<and> M (store ! k)} m"
  shows "map snd (sorted_list_of_fmap m) = map (\<lambda>r. EventId (rw_event_id r)) (filter M store)"
proof -
  let ?K = "{k. k < length store \<and> M (store ! k)}" and ?ks = "filter (\<lambda>k. M (store ! k)) [0..<length store]"
  have "fset (fmdom m) = ?K" using assms by (auto simp: ranks_def fmlookup_dom_iff split: if_splits)
  then have "sorted_list_of_fset (fmdom m) = sorted_list_of_set ?K" by (simp add: sorted_list_of_fset.rep_eq)
  also have "sorted_list_of_set ?K = ?ks"
    by (rule sorted_distinct_set_unique) (auto simp: sorted_wrt_filter)
  finally have "map snd (sorted_list_of_fmap m) = map (\<lambda>k. the (fmlookup m k)) ?ks"
    by (simp add: sorted_list_of_fmap_def)
  also have "\<dots> = map (\<lambda>k. EventId (rw_event_id (store ! k))) ?ks"
    using assms by (auto simp: ranks_def)
  also have "\<dots> = map (\<lambda>r. EventId (rw_event_id r)) (map ((!) store) ?ks)" by simp
  also have "map ((!) store) ?ks = filter M (map ((!) store) [0..<length store])" by (simp add: filter_map o_def)
  finally show ?thesis by (simp add: map_nth)
qed

section \<open>Updates\<close>

definition mark :: "bool \<Rightarrow> EventRow \<Rightarrow> EventRow" where
  "mark b r = r\<lparr>rw_self_contained_signature_valid := Some (bool_to_sqlite_integer b)\<rparr>"

lemma mark_simps [simp]:
  "rw_event_id (mark b r) = rw_event_id r" "rw_workspace_id (mark b r) = rw_workspace_id r"
  "rw_event_json (mark b r) = rw_event_json r" "coalesce_valid (mark b r) = 1 \<longleftrightarrow> b"
  "rw_self_contained_signature_valid (mark b r) \<noteq> None" "in_workspace w (mark b r) = in_workspace w r"
  "parse_row L (mark b r) = parse_row L r" "row_is_servable L (mark b r) = row_is_servable L r"
  by (simp_all add: mark_def coalesce_valid_def bool_to_sqlite_integer_def in_workspace_def parse_row_alt row_is_servable_def)

lemma foldl_set_valid:
  assumes "distinct (map fst us)"
  shows "foldl set_valid s us =
    map (\<lambda>r. case map_of us (rw_event_id r) of None \<Rightarrow> r | Some b \<Rightarrow> mark b r) s"
  using assms
proof (induction us arbitrary: s)
  case (Cons u us)
  have "map_of us (fst u) = None" using Cons.prems by (simp add: map_of_eq_None_iff)
  then have "(case map_of us (rw_event_id r) of None \<Rightarrow> r | Some b \<Rightarrow> mark b r) = r"
    if "rw_event_id r = fst u" for r using that by simp
  then show ?case using Cons
    by (cases u) (auto simp: set_valid_def mark_def split: option.splits)
qed simp

lemma map_of_rows:
  assumes "distinct (map rw_event_id s)" "r \<in> set s"
  shows "map_of (map (\<lambda>r. (rw_event_id r, f r)) (filter P s)) (rw_event_id r) = (if P r then Some (f r) else None)"
  using assms
proof (induction s)
  case (Cons x s)
  show ?case
  proof (cases "r = x")
    case True
    have "rw_event_id x \<notin> rw_event_id ` set (filter P s)" using Cons.prems(1) by auto
    then show ?thesis using True by (auto simp: map_of_eq_None_iff image_image)
  next
    case False
    then have "rw_event_id r \<noteq> rw_event_id x" "r \<in> set s" using Cons.prems by (auto simp: image_iff)
    then show ?thesis using Cons by simp
  qed
qed simp

text \<open>One pass of updates over the rows that satisfy \<open>P\<close>.\<close>

lemma update_rows:
  assumes "distinct (map rw_event_id s)"
  shows "foldl set_valid s (map (\<lambda>r. (rw_event_id r, f r)) (filter P s)) = map (\<lambda>r. if P r then mark (f r) r else r) s"
proof -
  have "distinct (map fst (map (\<lambda>r. (rw_event_id r, f r)) (filter P s)))"
    using assms by (simp add: o_def distinct_map_filter)
  then show ?thesis by (simp add: foldl_set_valid map_of_rows [OF assms] cong: map_cong)
qed

section \<open>Counters\<close>

definition wrong :: "'c StoreLib \<Rightarrow> EventRow \<Rightarrow> bool" where
  "wrong L r \<longleftrightarrow> (coalesce_valid r = 1) \<noteq> row_is_servable L r"

abbreviation number :: "('a \<Rightarrow> bool) \<Rightarrow> 'a list \<Rightarrow> nat" where
  "number P xs \<equiv> length (filter P xs)"

lemma repair_fold:
  "foldl (repair_step L) (w, us) rows =
     (w\<lparr>wr_total_event_count := wr_total_event_count w + length rows,
        wr_parseable_event_count := wr_parseable_event_count w + number (\<lambda>r. parse_row L r \<noteq> None) rows,
        wr_corrupt_event_count := wr_corrupt_event_count w + number (\<lambda>r. parse_row L r = None) rows,
        wr_signature_valid_metadata_before_count :=
          wr_signature_valid_metadata_before_count w + number (\<lambda>r. coalesce_valid r = 1) rows,
        wr_signature_valid_metadata_after_count :=
          wr_signature_valid_metadata_after_count w + number (row_is_servable L) rows,
        wr_promoted_servable_metadata_count :=
          wr_promoted_servable_metadata_count w + number (\<lambda>r. coalesce_valid r \<noteq> 1 \<and> row_is_servable L r) rows,
        wr_cleared_unservable_metadata_count :=
          wr_cleared_unservable_metadata_count w + number (\<lambda>r. coalesce_valid r = 1 \<and> \<not> row_is_servable L r) rows\<rparr>,
      us @ map (\<lambda>r. (rw_event_id r, row_is_servable L r)) (filter (wrong L) rows))"
proof (induction rows arbitrary: w us)
  case (Cons r rows)
  obtain w' us' where s: "repair_step L (w, us) r = (w', us')" by (cases "repair_step L (w, us) r")
  show ?case
    unfolding foldl_Cons s Cons.IH
    using s
    by (intro prod_eqI WorkspaceEventStorageRepair.equality; cases "coalesce_valid r = 1"; cases "parse_row L r")
      (auto simp: repair_step_def Let_def row_is_servable_def [of L r] wrong_def [of L r] split: if_splits)
qed simp

lemma health_fold:
  "foldl (health_step L) h rows =
     h\<lparr>wh_total_event_count := wh_total_event_count h + length rows,
       wh_parseable_event_count := wh_parseable_event_count h + number (\<lambda>r. parse_row L r \<noteq> None) rows,
       wh_corrupt_event_count := wh_corrupt_event_count h + number (\<lambda>r. parse_row L r = None) rows,
       wh_signature_valid_metadata_count :=
         wh_signature_valid_metadata_count h + number (\<lambda>r. coalesce_valid r = 1) rows,
       wh_servable_event_count := wh_servable_event_count h + number (row_is_servable L) rows,
       wh_poisoned_servable_metadata_count :=
         wh_poisoned_servable_metadata_count h + number (\<lambda>r. coalesce_valid r = 1 \<and> \<not> row_is_servable L r) rows,
       wh_promotable_servable_metadata_count :=
         wh_promotable_servable_metadata_count h + number (\<lambda>r. coalesce_valid r \<noteq> 1 \<and> row_is_servable L r) rows,
       wh_non_servable_parseable_event_count :=
         wh_non_servable_parseable_event_count h
           + number (\<lambda>r. parse_row L r \<noteq> None \<and> \<not> row_is_servable L r) rows\<rparr>"
proof (induction rows arbitrary: h)
  case (Cons r rows)
  show ?case
    unfolding foldl_Cons Cons.IH
    by (rule WorkspaceEventStorageHealth.equality; cases "coalesce_valid r = 1"; cases "parse_row L r")
      (simp_all add: health_step_def Let_def row_is_servable_def [of L r])
qed simp

lemma repair_rows:
  assumes "distinct (map rw_event_id store)"
  shows "fst (repair_workspace_event_storage_metadata L store w) =
    map (\<lambda>r. if in_workspace w r \<and> wrong L r then mark (row_is_servable L r) r else r) store"
  using update_rows [OF assms, of "row_is_servable L" "\<lambda>r. in_workspace w r \<and> wrong L r"]
  by (simp add: repair_workspace_event_storage_metadata_def repair_fold filter_filter conj_commute)

end
