(* ===== verification/Store_Properties.thy ===== *)
theory Store_Properties
  imports Store_Metadata Scenario
begin

text \<open>
  The contract of the event store: appends refine insertion into a map that only upgrades, batches are
  atomic, the chunked filter is the plain one, and the repair makes the metadata true.
\<close>

section \<open>The abstract store\<close>

text \<open>
  A map from identifiers to events.  An event enters when its identifier is new, or when it verifies
  and the event stored under its identifier does not.
\<close>

definition abstract_append :: "(SignedEvent \<Rightarrow> bool) \<Rightarrow> (EventId \<rightharpoonup> SignedEvent) \<Rightarrow> SignedEvent \<Rightarrow> (EventId \<rightharpoonup> SignedEvent)"
  where
  "abstract_append verified m e =
     (case m (sg_event_id e) of
        None \<Rightarrow> m(sg_event_id e \<mapsto> e)
      | Some old \<Rightarrow> if \<not> verified old \<and> verified e then m(sg_event_id e \<mapsto> e) else m)"

definition stored_events :: "'c StoreLib \<Rightarrow> EventStore \<Rightarrow> EventId \<rightharpoonup> SignedEvent" where
  "stored_events L store i = (case get_event L store i of Inr x \<Rightarrow> x | Inl _ \<Rightarrow> None)"

text \<open>Every row stores an event that the serialiser reads back.\<close>

definition codec :: "'c StoreLib \<Rightarrow> SignedEvent \<Rightarrow> bool" where
  "codec L e \<longleftrightarrow> event_from_slice L (event_to_vec L e) = Some e"

definition readable :: "'c StoreLib \<Rightarrow> EventStore \<Rightarrow> bool" where
  "readable L store \<longleftrightarrow> (\<forall>r \<in> set store. \<exists>e. fits L e \<and> codec L e \<and> r = event_row L e)"

lemma find_map_id:
  assumes "\<And>r. rw_event_id (f r) = rw_event_id r"
  shows "find (\<lambda>r. rw_event_id r = i) (map f s) = map_option f (find (\<lambda>r. rw_event_id r = i) s)"
  by (induction s) (auto simp: assms)

lemma find_unique:
  assumes "\<And>x. x \<in> set xs \<Longrightarrow> P x \<Longrightarrow> x = r" "r \<in> set xs" "P r"
  shows "find (\<lambda>x. P x \<and> Q x) xs = (if Q r then Some r else None)"
proof (cases "find (\<lambda>x. P x \<and> Q x) xs")
  case None
  then have "\<not> Q r" using assms(2,3) by (auto simp: find_None_iff)
  with None show ?thesis by simp
next
  case (Some y)
  then have "y \<in> set xs" "P y" "Q y" by (auto simp: find_Some_iff)
  with assms(1) [of y] Some show ?thesis by simp
qed

lemma find_put_row:
  "find (\<lambda>r. rw_event_id r = i) (put_row n s) =
     (if i = rw_event_id n then
        Some (case find (\<lambda>r. rw_event_id r = i) s of
          None \<Rightarrow> n | Some r \<Rightarrow> if coalesce_valid r \<noteq> 1 \<and> coalesce_valid n = 1 then n else r)
      else find (\<lambda>r. rw_event_id r = i) s)"
proof (cases "rw_event_id n \<in> rw_event_id ` set s")
  case False
  have "find P (s @ [n]) = (case find P s of None \<Rightarrow> if P n then Some n else None | Some y \<Rightarrow> Some y)" for P
    by (induction s) auto
  moreover have "find (\<lambda>r. rw_event_id r = rw_event_id n) s = None" using False by (auto simp: find_None_iff image_iff)
  ultimately show ?thesis using False by (auto simp: put_row_def split: option.split)
next
  case True
  let ?f = "\<lambda>r. if rw_event_id r = rw_event_id n \<and> coalesce_valid r \<noteq> 1 \<and> coalesce_valid n = 1 then n else r"
  have "find (\<lambda>r. rw_event_id r = i) (put_row n s) = map_option ?f (find (\<lambda>r. rw_event_id r = i) s)"
    using True by (simp add: put_row_def find_map_id)
  note f = this
  show ?thesis
  proof (cases "find (\<lambda>r. rw_event_id r = i) s")
    case None
    then have "i \<noteq> rw_event_id n" using True by (auto simp: find_None_iff image_iff)
    with f None show ?thesis by simp
  next
    case (Some r)
    then have "rw_event_id r = i" by (auto simp: find_Some_iff)
    with f Some show ?thesis by (cases "i = rw_event_id n") auto
  qed
qed

lemma stored_events_find:
  assumes "readable L store"
  shows "stored_events L store i =
    (case find (\<lambda>r. rw_event_id r = event_str i) store of None \<Rightarrow> None | Some r \<Rightarrow> event_from_slice L (rw_event_json r))"
proof (cases "find (\<lambda>r. rw_event_id r = event_str i) store")
  case (Some r)
  then have "r \<in> set store" by (auto simp: find_Some_iff)
  then obtain e where "fits L e" "codec L e" "r = event_row L e" using assms by (auto simp: readable_def)
  with Some show ?thesis
    by (simp add: stored_events_def get_event_def read_row_alt event_row_def fits_def codec_def bind_res_def ok_or_def)
qed (simp add: stored_events_def get_event_def)

lemma readable_put:
  assumes "readable L store" "fits L e" "codec L e"
  shows "readable L (put_row (event_row L e) store)"
  using assms set_put_row [of "event_row L e" store] by (auto simp: readable_def)

lemma event_row_simps [simp]:
  "rw_event_id (event_row L e) = event_str (sg_event_id e)"
  "rw_event_json (event_row L e) = event_to_vec L e"
  "coalesce_valid (event_row L e) = 1 \<longleftrightarrow> is_servable_event L e"
  by (simp_all add: event_row_def coalesce_valid_def bool_to_sqlite_integer_def)

lemma stored_put:
  assumes "readable L store" "fits L e" "codec L e"
  shows "stored_events L (put_row (event_row L e) store) = abstract_append (is_servable_event L) (stored_events L store) e"
proof
  fix i
  note new = stored_events_find [OF readable_put [OF assms]] and old = stored_events_find [OF assms(1)]
  have id: "event_str i = event_str (sg_event_id e) \<longleftrightarrow> i = sg_event_id e" by (cases i; cases "sg_event_id e") auto
  show "stored_events L (put_row (event_row L e) store) i =
      abstract_append (is_servable_event L) (stored_events L store) e i"
  proof (cases "find (\<lambda>r. rw_event_id r = event_str (sg_event_id e)) store")
    case None
    then show ?thesis using assms(3) by (auto simp: new old find_put_row abstract_append_def codec_def id)
  next
    case (Some r)
    then have "r \<in> set store" by (auto simp: find_Some_iff)
    then obtain d where "fits L d" "codec L d" "r = event_row L d" using assms(1) by (auto simp: readable_def)
    then show ?thesis using Some assms(3)
      by (auto simp: new old find_put_row abstract_append_def codec_def id)
  qed
qed

lemma servable_lookup:
  assumes "readable L store" "store_ok L store"
  shows "get_servable_event L store i = (case stored_events L store i of
    Some e \<Rightarrow> if is_servable_event L e then Some e else None | None \<Rightarrow> None)"
proof (cases "find (\<lambda>r. rw_event_id r = event_str i) store")
  case None
  then have "find (\<lambda>r. rw_event_id r = event_str i \<and> servable_row r) store = None" by (auto simp: find_None_iff)
  with None show ?thesis by (simp add: get_servable_event_def stored_events_find [OF assms(1)])
next
  case (Some r)
  then have r: "r \<in> set store" "rw_event_id r = event_str i" by (auto simp: find_Some_iff)
  then obtain e where e: "fits L e" "codec L e" "r = event_row L e" using assms(1) by (auto simp: readable_def)
  have only: "r' \<in> set store \<Longrightarrow> rw_event_id r' = event_str i \<Longrightarrow> r' = r" for r'
    using assms(2) r inj_onD [of rw_event_id "set store" r' r] by (simp add: store_ok_def distinct_map)
  have "find (\<lambda>r. rw_event_id r = event_str i \<and> servable_row r) store = (if servable_row r then Some r else None)"
    by (rule find_unique [where P = "\<lambda>r. rw_event_id r = event_str i"]) (erule (1) only, rule r(1), rule r(2))
  then show ?thesis using e Some
    by (simp add: get_servable_event_def stored_events_find [OF assms(1)] servable_event_row codec_def)
qed

section \<open>Atomic batches\<close>

lemma collect_results_Inr:
  "collect_results rs = Inr xs \<longleftrightarrow> list_all2 (\<lambda>r x. r = Inr x) rs xs"
  by (induction rs arbitrary: xs) (auto simp: result_simps list_all2_Cons1)

lemma collect_results_Inl:
  "collect_results rs = Inl err \<longleftrightarrow> (\<exists>i < length rs. rs ! i = Inl err \<and> (\<forall>j < i. \<exists>x. rs ! j = Inr x))"
proof (induction rs)
  case (Cons r rs)
  show ?case
  proof (cases r)
    case (Inl e)
    have "(\<forall>j < i. \<exists>x. (r # rs) ! j = Inr x) \<longleftrightarrow> i = 0" for i using Inl by (cases i) force+
    then show ?thesis using Inl by (auto simp: bind_res_def)
  next
    case (Inr x)
    have "collect_results (r # rs) = Inl err \<longleftrightarrow> collect_results rs = Inl err"
      by (cases "collect_results rs") (simp_all add: Inr bind_res_def)
    also have "\<dots> \<longleftrightarrow> (\<exists>i < length (r # rs). (r # rs) ! i = Inl err \<and> (\<forall>j < i. \<exists>x. (r # rs) ! j = Inr x))"
      unfolding Cons.IH using Inr by (simp add: Ex_less_Suc2 All_less_Suc2)
    finally show ?thesis .
  qed
qed simp

lemma serialize_for_Inr:
  "serialize_for L w e = Inr s \<Longrightarrow> workspace_str (ev_workspace e) = w \<and> fits L e \<and> row_of s = event_row L e"
  by (auto simp: serialize_for_def split: if_splits dest: from_event_Inr)

lemma serialize_for_ok:
  "(\<exists>s. serialize_for L w e = Inr s) \<longleftrightarrow> workspace_str (ev_workspace e) = w \<and> fits L e"
  by (auto simp: serialize_for_def from_event_def Let_def fits_def validate_event_json_size_def then_res_def bind_res_def)

lemma fold_put:
  assumes "list_all2 (\<lambda>e s. serialize_for L w e = Inr s) es ss"
  shows "accepted_run (append_event L) store es (foldl (\<lambda>s e. insert_serialized_event e s) store ss)"
  using assms
  by (induction arbitrary: store rule: list_all2_induct)
    (auto simp: append_event_Inr insert_row dest: serialize_for_Inr)

lemma ids_after_appends:
  assumes "accepted_run (append_event L) store es store'" "distinct (map sg_event_id es)"
    "\<forall>e \<in> set es. event_str (sg_event_id e) \<notin> rw_event_id ` set store \<and> workspace_str (ev_workspace e) = w"
  shows "list_event_ids_for_workspace store' w = list_event_ids_for_workspace store w @ map sg_event_id es"
  using assms
proof (induction rule: accepted_run.induct)
  case (run_cons s e t es u)
  have t: "t = s @ [event_row L e]" using run_cons by (auto simp: append_event_Inr put_row_def)
  have "list_event_ids_for_workspace t w = list_event_ids_for_workspace s w @ [sg_event_id e]"
    using run_cons.prems by (simp add: t list_event_ids_for_workspace_def in_workspace_def) (simp add: event_row_def)
  moreover have "\<forall>d \<in> set es. event_str (sg_event_id d) \<notin> rw_event_id ` set t \<and> workspace_str (ev_workspace d) = w"
    using run_cons.prems by (auto simp: t image_iff) (metis EventId.expand)
  ultimately show ?case using run_cons by simp
qed simp

section \<open>Properties\<close>

text \<open>
  C12: the table refines a map from identifiers to events that an append changes only for a new
  identifier or to replace an event that does not verify by one that does; the events the store serves
  are exactly the stored ones that verify.
\<close>

theorem event_store_refines_map:
  assumes "readable L store" "store_ok L store" "codec L e" "append_event L store e = Inr store'"
  shows "readable L store' \<and> store_ok L store'
    \<and> stored_events L store' = abstract_append (is_servable_event L) (stored_events L store) e
    \<and> (\<forall>i. get_servable_event L store' i = (case stored_events L store' i of
         Some d \<Rightarrow> if is_servable_event L d then Some d else None | None \<Rightarrow> None))"
proof -
  have e: "fits L e" "store' = put_row (event_row L e) store" using assms(4) by (simp_all add: append_event_Inr)
  have ok: "readable L store'" "store_ok L store'"
    using readable_put [OF assms(1) e(1) assms(3)] store_ok_append [OF assms(2,4)] by (simp_all add: e(2))
  then show ?thesis using stored_put [OF assms(1) e(1) assms(3)] servable_lookup [OF ok] by (simp add: e(2))
qed

text \<open>
  C37: any sequence of appends keeps the invariant of the table, keeps every row in its place with its
  identifier, never changes a row whose event verified, and loses no servable event.  The events it makes
  servable are exactly those that verify and whose identifier was not servable before, the first of each
  identifier, each in its workspace, whatever other events the sequence holds.
\<close>

theorem appends_never_lose_events:
  assumes "accepted_run (append_event L) store es store'" "store_ok L store"
  shows "store_ok L store' \<and> store_extends store store' \<and> store_servable store \<subseteq> store_servable store'
    \<and> store_servable store' = store_servable store \<union> {(i, w). i \<notin> fst ` store_servable store
        \<and> map_option ev_workspace (find (\<lambda>e. is_servable_event L e \<and> sg_event_id e = i) es) = Some w}"
  using store_order.run_inv [OF assms] store_order.run_rel [OF assms] store_log.run_keeps_servable [OF assms]
    store_log.run_first_servable [OF assms] by blast

text \<open>
  An atomic batch succeeds exactly when every event belongs to the workspace and fits the size
  limit and the history of the workspace is the expected one, and then it is the sequence of single
  appends; otherwise the error names the first offending event, or the changed history, and nothing is
  written.  New events extend the history in their order.
\<close>

theorem atomic_append_is_all_or_nothing:
  "(append_events_atomically_if_workspace_history_matches L store w expected events = Inr store' \<longleftrightarrow>
      (\<forall>e \<in> set events. workspace_str (ev_workspace e) = w \<and> fits L e)
      \<and> list_event_ids_for_workspace store w = expected
      \<and> accepted_run (append_event L) store events store')
   \<and> (append_events_atomically_if_workspace_history_matches L store w expected events = Inl err \<longrightarrow>
      err = WorkspaceHistoryChanged \<and> list_event_ids_for_workspace store w \<noteq> expected
      \<or> (\<exists>i < length events. serialize_for L w (events ! i) = Inl err
          \<and> (\<forall>j < i. workspace_str (ev_workspace (events ! j)) = w \<and> fits L (events ! j))))
   \<and> (append_events_atomically_if_workspace_history_matches L store w expected events = Inr store'
      \<and> distinct (map sg_event_id events)
      \<and> (\<forall>e \<in> set events. event_str (sg_event_id e) \<notin> rw_event_id ` set store)
      \<longrightarrow> list_event_ids_for_workspace store' w = expected @ map sg_event_id events)"
proof -
  let ?r = "collect_results (map (serialize_for L w) events)"
  let ?a = "append_events_atomically_if_workspace_history_matches L store w expected events"
  have ok: "?a = Inr store' \<longleftrightarrow> (\<forall>e \<in> set events. workspace_str (ev_workspace e) = w \<and> fits L e)
      \<and> list_event_ids_for_workspace store w = expected \<and> accepted_run (append_event L) store events store'"
  proof (cases ?r)
    case (Inl err)
    then obtain i where "i < length events" "serialize_for L w (events ! i) = Inl err"
      by (auto simp: collect_results_Inl)
    then have "\<not> (workspace_str (ev_workspace (events ! i)) = w \<and> fits L (events ! i))"
      by (simp flip: serialize_for_ok)
    with \<open>i < length events\<close> show ?thesis
      using Inl by (auto simp: append_events_atomically_if_workspace_history_matches_def bind_res_def)
  next
    case (Inr ss)
    then have all: "list_all2 (\<lambda>e s. serialize_for L w e = Inr s) events ss"
      by (simp add: collect_results_Inr list_all2_map1)
    then have "\<forall>e \<in> set events. workspace_str (ev_workspace e) = w \<and> fits L e"
      by (metis (mono_tags, lifting) in_set_conv_nth list_all2_conv_all_nth serialize_for_ok)
    then show ?thesis using Inr fold_put [OF all, of store]
      by (auto simp: append_events_atomically_if_workspace_history_matches_def bind_res_def
          dest: accepted_run_deterministic)
  qed
  moreover have "err = WorkspaceHistoryChanged \<and> list_event_ids_for_workspace store w \<noteq> expected
      \<or> (\<exists>i < length events. serialize_for L w (events ! i) = Inl err
          \<and> (\<forall>j < i. workspace_str (ev_workspace (events ! j)) = w \<and> fits L (events ! j)))" if "?a = Inl err"
  proof (cases ?r)
    case (Inl e)
    then have "e = err" using that
      by (simp add: append_events_atomically_if_workspace_history_matches_def bind_res_def)
    with Inl show ?thesis by (auto simp: collect_results_Inl simp flip: serialize_for_ok)
  next
    case (Inr ss)
    with that show ?thesis
      by (auto simp: append_events_atomically_if_workspace_history_matches_def bind_res_def split: if_splits)
  qed
  moreover have "list_event_ids_for_workspace store' w = expected @ map sg_event_id events"
    if "?a = Inr store'" "distinct (map sg_event_id events)"
      "\<forall>e \<in> set events. event_str (sg_event_id e) \<notin> rw_event_id ` set store"
    using that ok ids_after_appends [of L store events store' w] by auto
  ultimately show ?thesis by blast
qed

text \<open>
  Whatever the table holds, the repair of a workspace makes its validity column say which of its
  rows parse to a verified event, and changes nothing else: no row is poisoned or promotable
  afterwards, the report counts the rows that were, and a second repair finds nothing to do.
\<close>

theorem repair_makes_metadata_true:
  assumes "distinct (map rw_event_id store)"
    "repair_workspace_event_storage_metadata L store w = (store', report)"
  shows "(let h = workspace_event_storage_health L store w; h' = workspace_event_storage_health L store' w in
      wh_poisoned_servable_metadata_count h' = 0 \<and> wh_promotable_servable_metadata_count h' = 0
      \<and> wh_signature_valid_metadata_count h' = wh_servable_event_count h'
      \<and> wh_servable_event_count h' = wh_servable_event_count h
      \<and> wr_cleared_unservable_metadata_count report = wh_poisoned_servable_metadata_count h
      \<and> wr_promoted_servable_metadata_count report = wh_promotable_servable_metadata_count h
      \<and> wr_repaired_metadata_count report
        = wh_poisoned_servable_metadata_count h + wh_promotable_servable_metadata_count h
      \<and> wr_signature_valid_metadata_after_count report = wh_servable_event_count h)
    \<and> map rw_event_id store' = map rw_event_id store \<and> map rw_event_json store' = map rw_event_json store
    \<and> filter (\<lambda>r. \<not> in_workspace w r) store' = filter (\<lambda>r. \<not> in_workspace w r) store
    \<and> fst (repair_workspace_event_storage_metadata L store' w) = store'
    \<and> wr_repaired_metadata_count (snd (repair_workspace_event_storage_metadata L store' w)) = 0"
proof -
  let ?f = "\<lambda>r. if in_workspace w r \<and> wrong L r then mark (row_is_servable L r) r else r"
  have s: "store' = map ?f store" using repair_rows [OF assms(1), of L w] assms(2) by simp
  have f: "rw_event_id (?f r) = rw_event_id r" "rw_event_json (?f r) = rw_event_json r"
    "in_workspace w (?f r) = in_workspace w r" "row_is_servable L (?f r) = row_is_servable L r"
    "in_workspace w r \<Longrightarrow> coalesce_valid (?f r) = 1 \<longleftrightarrow> row_is_servable L r" "\<not> in_workspace w r \<Longrightarrow> ?f r = r" for r
    by (auto simp: wrong_def)
  have d: "distinct (map rw_event_id store')" using assms(1) by (simp add: s o_def f(1))
  have none: "filter (\<lambda>r. in_workspace w r \<and> wrong L r) store' = []"
    using f(3,4,5) by (auto simp: s wrong_def filter_empty_conv)
  have count: "number (\<lambda>r. in_workspace w r \<and> P (coalesce_valid r = 1) (row_is_servable L r)) store'
      = number (\<lambda>r. in_workspace w r \<and> P (row_is_servable L r) (row_is_servable L r)) store" for P
    using f(3,4,5) by (simp add: s filter_map o_def cong: conj_cong)
  have sum: "number (\<lambda>r. in_workspace w r \<and> wrong L r) store =
      number (\<lambda>r. in_workspace w r \<and> coalesce_valid r = 1 \<and> \<not> row_is_servable L r) store
      + number (\<lambda>r. in_workspace w r \<and> coalesce_valid r \<noteq> 1 \<and> row_is_servable L r) store"
    by (induction store) (auto simp: wrong_def)
  have "fst (repair_workspace_event_storage_metadata L store' w) = store'"
    using repair_rows [OF d, of L w] none by (auto simp: filter_empty_conv intro!: map_idI)
  moreover have "wr_repaired_metadata_count (snd (repair_workspace_event_storage_metadata L store' w)) = 0"
    using none by (simp add: repair_workspace_event_storage_metadata_def repair_fold filter_filter conj_commute)
  moreover have "filter (\<lambda>r. \<not> in_workspace w r) store' = filter (\<lambda>r. \<not> in_workspace w r) store"
    using f(3,6) by (simp add: s filter_map o_def cong: map_cong) (auto intro!: map_idI)
  moreover have "map rw_event_id store' = map rw_event_id store" "map rw_event_json store' = map rw_event_json store"
    using f(1,2) by (simp_all add: s)
  moreover have "report = snd (repair_workspace_event_storage_metadata L store w)" using assms(2) by simp
  ultimately show ?thesis
    using count [of "\<lambda>v s. v \<and> \<not> s"] count [of "\<lambda>v s. \<not> v \<and> s"] count [of "\<lambda>v s. v"] count [of "\<lambda>v s. s"] sum
    by (simp add: Let_def workspace_event_storage_health_def health_fold repair_workspace_event_storage_metadata_def
        repair_fold filter_filter)
qed

text \<open>
  The filter of candidate identifiers, which queries the table in chunks and collects the rows by
  rank, returns the servable identifiers of the workspace that are candidates, in the order of the
  table and each once, however the candidates are ordered, repeated or split into chunks.
\<close>

theorem chunked_filter_is_plain_filter:
  "filter_servable_event_ids_for_workspace store w candidates =
     filter (\<lambda>i. i \<in> set candidates) (list_servable_event_ids_for_workspace store w)"
proof (cases "candidates = []")
  case False
  have "ranks store {} fmempty" by (simp add: ranks_def)
  from ranks_chunks [OF this, of w "chunks 1024 candidates"]
  have "ranks store {k. k < length store \<and> matching w (set candidates) (store ! k)}
      (foldl (\<lambda>by_rowid chunk. foldl (\<lambda>m (rowid, event_id). fmupd rowid event_id m) by_rowid
          (query_candidates store w chunk)) fmempty (chunks 1024 candidates))"
    using arg_cong [OF concat_chunks [of 1024 candidates], of set] by simp
  from filtered_ranks [OF this] False show ?thesis
    by (simp add: filter_servable_event_ids_for_workspace_def list_servable_event_ids_for_workspace_def filter_map
        o_def matching_def [abs_def] conj_assoc)
qed (simp add: filter_servable_event_ids_for_workspace_def)


section \<open>Closed examples\<close>

definition stored_event :: SignedEvent where
  "stored_event = sign_event sample_lib (from_signing_key sample_lib sample_key) sample_signable"

definition sample_store_lib :: "bytes StoreLib" where
  "sample_store_lib = \<lparr>ident = sample_lib, event_to_vec = (\<lambda>_. [1]), event_from_slice = (\<lambda>_. Some stored_event)\<rparr>"

lemma stored_event_ok:
  "is_servable_event sample_store_lib stored_event" "fits sample_store_lib stored_event" "codec sample_store_lib stored_event"
  "ev_workspace stored_event = WorkspaceId ''w''"
proof -
  show "is_servable_event sample_store_lib stored_event"
    by (simp add: is_servable_event_def sample_store_lib_def stored_event_def sample_event_verifies)
qed (simp_all add: fits_def codec_def sample_store_lib_def stored_event_def sample_signable_def signable_event_new_def)

lemma stored_event_appended:
  "append_event sample_store_lib [] stored_event = Inr [event_row sample_store_lib stored_event]"
  by (simp add: append_event_Inr stored_event_ok put_row_def)

lemma empty_store_ok: "readable L []" "store_ok L []"
  by (simp_all add: readable_def store_ok_def)

theorem event_store_refines_map_witness:
  "\<exists>store'. append_event sample_store_lib [] stored_event = Inr store'
    \<and> stored_events sample_store_lib store'
      = abstract_append (is_servable_event sample_store_lib) (stored_events sample_store_lib []) stored_event"
  using event_store_refines_map [OF empty_store_ok stored_event_ok(3) stored_event_appended] stored_event_appended by blast

theorem appends_never_lose_events_witness:
  "store_servable [event_row sample_store_lib stored_event] = {(sg_event_id stored_event, WorkspaceId ''w'')}"
proof -
  have "accepted_run (append_event sample_store_lib) [] [stored_event] [event_row sample_store_lib stored_event]"
    by (simp add: stored_event_appended)
  from appends_never_lose_events [OF this empty_store_ok(2)] show ?thesis
    by (auto simp: stored_event_ok store_servable_def [of "[]"] split: if_splits)
qed

theorem atomic_append_is_all_or_nothing_witness:
  "append_events_atomically_if_workspace_history_matches sample_store_lib [] ''w'' [] [stored_event]
     = Inr [event_row sample_store_lib stored_event]
   \<and> list_event_ids_for_workspace [event_row sample_store_lib stored_event] ''w'' = [sg_event_id stored_event]"
  using atomic_append_is_all_or_nothing [of sample_store_lib "[]" "''w''" "[]" "[stored_event]"
      "[event_row sample_store_lib stored_event]"]
  by (simp add: stored_event_ok stored_event_appended list_event_ids_for_workspace_def)

theorem repair_makes_metadata_true_witness:
  "let store = [(event_row sample_store_lib stored_event)\<lparr>rw_self_contained_signature_valid := Some 0\<rparr>];
       (store', report) = repair_workspace_event_storage_metadata sample_store_lib store ''w''
   in wh_promotable_servable_metadata_count (workspace_event_storage_health sample_store_lib store ''w'') = 1
     \<and> wr_repaired_metadata_count report = 1
     \<and> wh_promotable_servable_metadata_count (workspace_event_storage_health sample_store_lib store' ''w'') = 0"
proof -
  let ?r = "(event_row sample_store_lib stored_event)\<lparr>rw_self_contained_signature_valid := Some 0\<rparr>"
  obtain store' report where r: "repair_workspace_event_storage_metadata sample_store_lib [?r] ''w'' = (store', report)"
    by (cases "repair_workspace_event_storage_metadata sample_store_lib [?r] ''w''")
  have "row_is_servable sample_store_lib ?r" "in_workspace ''w'' ?r" "coalesce_valid ?r = 0"
    using stored_event_ok
    by (simp_all add: row_is_servable_def parse_row_alt fits_def codec_def in_workspace_def coalesce_valid_def)
      (simp add: event_row_def)
  then have h: "wh_promotable_servable_metadata_count (workspace_event_storage_health sample_store_lib [?r] ''w'') = 1"
    "wh_poisoned_servable_metadata_count (workspace_event_storage_health sample_store_lib [?r] ''w'') = 0"
    unfolding workspace_event_storage_health_def health_fold by simp_all
  with repair_makes_metadata_true [OF _ r] r show ?thesis by (simp add: Let_def)
qed

end
