(* ===== verification/Sync_Correct.thy ===== *)
theory Sync_Correct
  imports Sync Store_Properties Batch_Ordered
begin

text \<open>
  Lemmas about pull synchronisation: what the checks of a peer's answers accept, and what the
  appending loops write.
\<close>

section \<open>Checks\<close>

lemma check_inventory_Inr:
  "check_inventory_ids seen ids = Inr () \<longleftrightarrow>
     (\<forall>i \<in> set ids. is_canonical_event_id_str (event_str i)) \<and> distinct ids \<and> set ids \<inter> seen = {}"
  by (induction seen ids rule: check_inventory_ids.induct) (auto split: if_splits)

lemma collect_missing_distinct:
  assumes "distinct ids" "set ids \<inter> seen = {}"
  shows "collect_missing inventory seen ids = filter (\<lambda>i. i \<notin> inv_event_ids inventory) ids"
  using assms
  by (induction inventory seen ids rule: collect_missing.induct) (auto simp: inventory_has_def)

lemma check_fetched_Inr:
  "check_fetched requested seen events = Inr () \<longleftrightarrow>
     sg_event_id ` set events \<subseteq> requested \<and> distinct (map sg_event_id events) \<and> sg_event_id ` set events \<inter> seen = {}"
  by (induction requested seen events rule: check_fetched.induct) (auto split: if_splits)

lemma sort_fetched_Inr:
  "sort_fetched L w events = Inr (ignored, own) \<longleftrightarrow>
     (\<forall>e \<in> set events. is_servable_event L e)
     \<and> ignored = map sg_event_id (filter (\<lambda>e. ev_workspace e \<noteq> w) events)
     \<and> own = filter (\<lambda>e. ev_workspace e = w) events"
proof (induction events arbitrary: ignored own)
  case (Cons e events)
  show ?case
  proof (cases "is_servable_event L e")
    case True
    then show ?thesis using Cons
      by (cases "sort_fetched L w events") (auto simp: result_simps is_servable_event_def bind_res_def split: prod.splits)
  next
    case False
    then show ?thesis by (auto simp: result_simps is_servable_event_def)
  qed
qed auto

section \<open>The index of fetched events\<close>

lemma index_fetched_fold:
  assumes "distinct (map sg_event_id events)" "fmdom' m \<inter> sg_event_id ` set events = {}"
  shows "foldl index_fetched (m, order) events =
    (m ++\<^sub>f fmap_of_list (map (\<lambda>e. (sg_event_id e, e)) events), order @ map sg_event_id events)"
  using assms
proof (induction events arbitrary: m order)
  case (Cons e events)
  have new: "fmlookup m (sg_event_id e) = None" using Cons.prems(2) by (auto simp: fmdom'_iff)
  have none: "map_of (map (\<lambda>e. (sg_event_id e, e)) events) (sg_event_id e) = None"
    using Cons.prems(1) by (simp add: map_of_eq_None_iff image_image)
  have "fmupd (sg_event_id e) e m ++\<^sub>f fmap_of_list (map (\<lambda>e. (sg_event_id e, e)) events)
      = m ++\<^sub>f fmap_of_list (map (\<lambda>e. (sg_event_id e, e)) (e # events))"
    using none by (intro fmap_ext) (auto simp: fmlookup_add_of_list simp del: fmlookup_add split: option.split)
  moreover have "fmdom' (fmupd (sg_event_id e) e m) \<inter> sg_event_id ` set events = {}"
    using Cons.prems by auto
  ultimately show ?case using Cons.IH Cons.prems(1) new by (simp add: index_fetched_def)
qed simp

lemma index_fetched_start:
  assumes "distinct (map sg_event_id events)"
  obtains by_id where "foldl index_fetched (fmempty, []) events = (by_id, map sg_event_id events)"
    "\<forall>i e. fmlookup by_id i = Some e \<longleftrightarrow> e \<in> set events \<and> sg_event_id e = i"
proof
  let ?m = "fmap_of_list (map (\<lambda>e. (sg_event_id e, e)) events)"
  show "foldl index_fetched (fmempty, []) events = (?m, map sg_event_id events)"
    using index_fetched_fold [OF assms, of fmempty "[]"] by simp
  show "\<forall>i e. fmlookup ?m i = Some e \<longleftrightarrow> e \<in> set events \<and> sg_event_id e = i"
    using assms by (auto simp: fmlookup_of_list o_def map_of_eq_Some_iff)
qed

section \<open>The appending loops\<close>

definition loop_fine :: "AppendLoop \<Rightarrow> bool" where
  "loop_fine l \<longleftrightarrow> al_appended l = set (aw_event_ids (al_result l)) \<and> distinct (aw_event_ids (al_result l))
     \<and> aw_event_ids (al_result l) = map sg_event_id (aw_events (al_result l))"

text \<open>What a loop over \<open>ids\<close> writes: the new events among them, in order.\<close>

definition loop_writes :: "'c StoreLib \<Rightarrow> (EventId, SignedEvent) fmap \<Rightarrow> AppendLoop \<Rightarrow> SignedEvent list \<Rightarrow> AppendLoop \<Rightarrow> bool" where
  "loop_writes L by_id l es l' \<longleftrightarrow>
     accepted_run (append_event L) (al_store l) es (al_store l')
     \<and> aw_events (al_result l') = aw_events (al_result l) @ es \<and> loop_fine l' \<and> set es \<subseteq> fmran' by_id"

lemma append_one_Inr:
  assumes "append_one L by_id l i = Inr l'" "loop_fine l" "\<And>i e. fmlookup by_id i = Some e \<Longrightarrow> sg_event_id e = i"
  shows "loop_writes L by_id l
    (case fmlookup by_id i of Some e \<Rightarrow> if i \<in> al_appended l then [] else [e] | None \<Rightarrow> []) l'"
  using assms
  by (auto simp: append_one_def loop_writes_def loop_fine_def fmran'I split: option.splits if_splits sum.splits)

lemma loop_writes_trans:
  "loop_writes L by_id l es l' \<Longrightarrow> loop_writes L by_id l' ds l'' \<Longrightarrow> loop_writes L by_id l (es @ ds) l''"
  by (auto simp: loop_writes_def accepted_run_append)

lemma append_loop_Inr:
  assumes "append_loop L by_id l ids = Inr l'" "loop_fine l" "\<And>i e. fmlookup by_id i = Some e \<Longrightarrow> sg_event_id e = i"
  obtains es where "loop_writes L by_id l es l'"
    "sg_event_id ` set es = set ids \<inter> fmdom' by_id - al_appended l"
    "distinct ids \<Longrightarrow> map sg_event_id es = filter (\<lambda>i. i \<in> fmdom' by_id \<and> i \<notin> al_appended l) ids"
  using assms(1,2)
proof (induction ids arbitrary: l thesis)
  case Nil
  show ?case by (rule Nil(1) [of "[]"]) (use Nil in \<open>auto simp: loop_writes_def\<close>)
next
  case (Cons i ids)
  obtain l1 where l1: "append_one L by_id l i = Inr l1" "append_loop L by_id l1 ids = Inr l'"
    using Cons.prems(2) by (auto simp: result_simps)
  define ds where "ds = (case fmlookup by_id i of Some e \<Rightarrow> if i \<in> al_appended l then [] else [e] | None \<Rightarrow> [])"
  have w: "loop_writes L by_id l ds l1" unfolding ds_def by (rule append_one_Inr [OF l1(1) Cons.prems(3) assms(3)])
  then have f: "loop_fine l1" by (simp add: loop_writes_def)
  obtain es where es: "loop_writes L by_id l1 es l'" "sg_event_id ` set es = set ids \<inter> fmdom' by_id - al_appended l1"
    "distinct ids \<Longrightarrow> map sg_event_id es = filter (\<lambda>i. i \<in> fmdom' by_id \<and> i \<notin> al_appended l1) ids"
    using Cons.IH [OF _ l1(2) f] by blast
  have ids: "map sg_event_id ds = (if i \<in> fmdom' by_id \<and> i \<notin> al_appended l then [i] else [])"
    using assms(3) by (auto simp: ds_def fmdom'_iff split: option.splits)
  have app: "al_appended l1 = al_appended l \<union> sg_event_id ` set ds"
    using w Cons.prems(3) by (auto simp: loop_writes_def loop_fine_def)
  have dset: "sg_event_id ` set ds = (if i \<in> fmdom' by_id \<and> i \<notin> al_appended l then {i} else {})"
    using arg_cong [OF ids, of set] by (simp split: if_splits)
  show ?case
  proof (rule Cons.prems(1) [OF loop_writes_trans [OF w es(1)]])
    show "sg_event_id ` set (ds @ es) = set (i # ids) \<inter> fmdom' by_id - al_appended l"
      by (auto simp: image_Un es(2) app dset split: if_splits)
    assume "distinct (i # ids)"
    then show "map sg_event_id (ds @ es) = filter (\<lambda>i. i \<in> fmdom' by_id \<and> i \<notin> al_appended l) (i # ids)"
      using es(3) ids by (auto simp: app dset split: if_splits intro!: filter_cong)
  qed
qed

text \<open>A loop fails only when the store refuses an event, and keeps what it wrote.\<close>

lemma append_loop_Inl:
  assumes "append_loop L by_id l ids = Inl (store', err)"
  shows "\<exists>es. accepted_run (append_event L) (al_store l) es store' \<and> set es \<subseteq> fmran' by_id
    \<and> (\<exists>e \<in> fmran' by_id. \<not> fits L e \<and> err = SyncStore (EventJsonTooLarge (length (event_to_vec L e)) EVENT_JSON_MAX_BYTES))"
  using assms
proof (induction ids arbitrary: l)
  case (Cons i ids)
  show ?case
  proof (cases "append_one L by_id l i")
    case (Inl f)
    then obtain e x where e: "fmlookup by_id i = Some e" "append_event L (al_store l) e = Inl x"
      "f = (al_store l, SyncStore x)"
      by (auto simp: append_one_def split: option.splits if_splits sum.splits)
    moreover have "f = (store', err)" using Cons.prems Inl by (simp add: bind_res_def)
    ultimately show ?thesis by (auto simp: append_event_Inl fmran'I intro!: exI [of _ "[]"])
  next
    case (Inr l1)
    then have "append_loop L by_id l1 ids = Inl (store', err)" using Cons.prems by (simp add: bind_res_def)
    from Cons.IH [OF this] obtain es e where es: "accepted_run (append_event L) (al_store l1) es store'"
      "set es \<subseteq> fmran' by_id" "e \<in> fmran' by_id" "\<not> fits L e"
      "err = SyncStore (EventJsonTooLarge (length (event_to_vec L e)) EVENT_JSON_MAX_BYTES)" by blast
    obtain ds where "accepted_run (append_event L) (al_store l) ds (al_store l1)" "set ds \<subseteq> fmran' by_id"
    proof (cases "al_store l1 = al_store l")
      case True
      then show ?thesis by (intro that [of "[]"]) simp_all
    next
      case False
      then obtain d where "fmlookup by_id i = Some d" "append_event L (al_store l) d = Inr (al_store l1)"
        using Inr by (auto simp: append_one_def split: option.splits if_splits sum.splits)
      then show ?thesis by (intro that [of "[d]"]) (auto simp: fmran'I)
    qed
    then show ?thesis using es by (intro exI [of _ "ds @ es"]) (auto simp: accepted_run_append)
  qed
qed simp

end
