(* ===== verification/Sync_Properties.thy ===== *)
theory Sync_Properties
  imports Sync_Correct
begin

text \<open>
  The guarantees of pull synchronisation: exact plans, only verified events are stored, in causal
  order, and a pull leaves nothing to request that the peer delivered.
\<close>

section \<open>What an append in materialised order writes\<close>

lemma append_loop_append:
  "append_loop L by_id l (xs @ ys) = bind_res (append_loop L by_id l xs) (\<lambda>l'. append_loop L by_id l' ys)"
  by (induction xs arbitrary: l) (auto simp: bind_res_def split: sum.splits)

lemma same_events:
  assumes "set es \<subseteq> set fs" "sg_event_id ` set es = sg_event_id ` set fs" "distinct (map sg_event_id fs)"
  shows "set es = set fs"
proof (rule subset_antisym [OF assms(1)], rule subsetI)
  fix f assume f: "f \<in> set fs"
  then obtain e where e: "e \<in> set es" "sg_event_id e = sg_event_id f" using assms(2) by (metis imageE imageI)
  then have "e = f" using f assms(1,3) inj_onD [of sg_event_id "set fs" e f] by (auto simp: distinct_map)
  with e show "f \<in> set es" by simp
qed

lemma append_materialized_Inr:
  assumes "append_workspace_events_in_materialized_order L vals store w local fetched = Inr (store', app)"
    "distinct (map sg_event_id fetched)" "fetched \<noteq> []"
  obtains st preview es ds where
    "apply_batch vals (state_new w) (local @ fetched) = Inr (st, preview)"
    "aw_events app = es @ ds" "aw_event_ids app = map sg_event_id (es @ ds)"
    "accepted_run (append_event L) store (es @ ds) store'" "distinct (map sg_event_id (es @ ds))"
    "set (es @ ds) = set fetched"
    "map sg_event_id es = filter (\<lambda>i. i \<in> sg_event_id ` set fetched) (rep_applied_events preview)"
proof -
  obtain st preview where p: "apply_batch vals (state_new w) (local @ fetched) = Inr (st, preview)"
    using assms(1,3) by (auto simp: append_workspace_events_in_materialized_order_def split: sum.splits prod.splits)
  obtain by_id where idx: "foldl index_fetched (fmempty, []) fetched = (by_id, map sg_event_id fetched)"
    and by_id: "\<forall>i e. fmlookup by_id i = Some e \<longleftrightarrow> e \<in> set fetched \<and> sg_event_id e = i"
    using index_fetched_start [OF assms(2)] by metis
  have key: "fmlookup by_id i = Some e \<Longrightarrow> sg_event_id e = i" for i e using by_id by simp
  have dom: "fmdom' by_id = sg_event_id ` set fetched" and ran: "fmran' by_id = set fetched"
    by (auto simp: fmdom'_iff by_id elim!: fmran'E intro!: fmran'I)
  let ?l = "\<lparr>al_store = store, al_appended = {}, al_result = \<lparr>aw_event_ids = [], aw_events = []\<rparr>\<rparr>"
  obtain l1 l2 l3 where l1: "append_loop L by_id ?l (rep_applied_events preview) = Inr l1"
    and l2: "append_loop L by_id l1 (map gap_event_id (rep_gaps preview)) = Inr l2"
    and l3: "append_loop L by_id l2 (map sg_event_id fetched) = Inr l3" "store' = al_store l3" "app = al_result l3"
    using assms(1,3) p idx
    by (auto simp: append_workspace_events_in_materialized_order_def append_loop_append result_simps)
  have f: "loop_fine ?l" by (simp add: loop_fine_def)
  obtain es where es: "loop_writes L by_id ?l es l1" "sg_event_id ` set es = set (rep_applied_events preview) \<inter> fmdom' by_id - {}"
    "distinct (rep_applied_events preview) \<Longrightarrow>
       map sg_event_id es = filter (\<lambda>i. i \<in> fmdom' by_id \<and> i \<notin> {}) (rep_applied_events preview)"
    by (rule append_loop_Inr [OF l1 f key]) simp_all
  then have f1: "loop_fine l1" by (simp add: loop_writes_def)
  obtain gs where gs: "loop_writes L by_id l1 gs l2" using append_loop_Inr [OF l2 f1 key] by metis
  then have f2: "loop_fine l2" by (simp add: loop_writes_def)
  obtain rs where rs: "loop_writes L by_id l2 rs l3"
    "sg_event_id ` set rs = set (map sg_event_id fetched) \<inter> fmdom' by_id - al_appended l2"
    using append_loop_Inr [OF l3(1) f2 key] by metis
  have all: "loop_writes L by_id ?l (es @ gs @ rs) l3"
    using loop_writes_trans [OF es(1) loop_writes_trans [OF gs rs(1)]] .
  have "al_appended l2 = sg_event_id ` set (es @ gs)"
    using loop_writes_trans [OF es(1) gs] by (auto simp: loop_writes_def loop_fine_def)
  then have "sg_event_id ` set (es @ gs @ rs) = sg_event_id ` set fetched"
    using all rs(2) by (auto simp: loop_writes_def ran dom image_Un)
  then have "set (es @ gs @ rs) = set fetched"
    using all assms(2) by (intro same_events) (simp_all add: loop_writes_def ran)
  moreover have "distinct (rep_applied_events preview)" by (rule apply_batch_run [OF p])
  moreover have "aw_events app = es @ gs @ rs" "aw_event_ids app = map sg_event_id (es @ gs @ rs)"
    "accepted_run (append_event L) store (es @ gs @ rs) store'"
    using all by (simp_all add: l3(2,3) loop_writes_def loop_fine_def)
  moreover have "distinct (aw_event_ids app)" using all unfolding l3(3) loop_writes_def loop_fine_def by blast
  ultimately show thesis using that [OF p, of es "gs @ rs"] es(3) by (simp add: dom)
qed

lemma append_materialized_Inl:
  assumes "append_workspace_events_in_materialized_order L vals store w local fetched = Inl (store', err)"
    "distinct (map sg_event_id fetched)"
  shows "(\<exists>es. accepted_run (append_event L) store es store' \<and> set es \<subseteq> set fetched)
    \<and> (store' = store \<or> (\<exists>n. err = SyncStore (EventJsonTooLarge n EVENT_JSON_MAX_BYTES)))"
proof -
  obtain by_id where idx: "foldl index_fetched (fmempty, []) fetched = (by_id, map sg_event_id fetched)"
    and by_id: "\<forall>i e. fmlookup by_id i = Some e \<longleftrightarrow> e \<in> set fetched \<and> sg_event_id e = i"
    using index_fetched_start [OF assms(2)] by metis
  have ran: "fmran' by_id \<subseteq> set fetched" by (auto simp: by_id elim!: fmran'E)
  show ?thesis
  proof (cases "\<exists>r. apply_batch vals (state_new w) (local @ fetched) = Inr r")
    case True
    then obtain st preview where p: "apply_batch vals (state_new w) (local @ fetched) = Inr (st, preview)" by auto
    let ?l = "\<lparr>al_store = store, al_appended = {}, al_result = \<lparr>aw_event_ids = [], aw_events = []\<rparr>\<rparr>"
    have "append_loop L by_id ?l ((rep_applied_events preview @ map gap_event_id (rep_gaps preview)) @ map sg_event_id fetched)
        = Inl (store', err)"
      using assms(1) p idx
      by (auto simp: append_workspace_events_in_materialized_order_def append_loop_append bind_res_def
          split: sum.splits if_splits)
    from append_loop_Inl [OF this] ran show ?thesis by auto
  next
    case False
    then have "store' = store"
      using assms(1) by (auto simp: append_workspace_events_in_materialized_order_def split: sum.splits if_splits)
    then show ?thesis by (auto intro: exI [of _ "[]"])
  qed
qed

section \<open>What a pull does\<close>

abbreviation local_sync_events :: "'c StoreLib \<Rightarrow> EventStore \<Rightarrow> WorkspaceId \<Rightarrow> SignedEvent list" where
  "local_sync_events L store w \<equiv> verified_sync_events L (list_parseable_events_for_workspace L store (workspace_str w))"

abbreviation own_events :: "WorkspaceId \<Rightarrow> SignedEvent list \<Rightarrow> SignedEvent list" where
  "own_events w \<equiv> filter (\<lambda>e. ev_workspace e = w)"

text \<open>An answer of the peer that passes the checks of the pull.\<close>

definition good_answer :: "'c StoreLib \<Rightarrow> EventId list \<Rightarrow> SignedEvent list \<Rightarrow> bool" where
  "good_answer L requested fetched \<longleftrightarrow>
     sg_event_id ` set fetched \<subseteq> set requested \<and> distinct (map sg_event_id fetched)
     \<and> (\<forall>e \<in> set fetched. is_servable_event L e)"

lemma answer_checked:
  "(bind_res (map_err Net (fetch requested)) (\<lambda>fetched.
      then_res (validate_fetched_events fetched requested) (sort_fetched L w fetched)) = Inr (ignored, own)) \<longleftrightarrow>
   (\<exists>fetched. fetch requested = Inr fetched \<and> good_answer L requested fetched
     \<and> ignored = map sg_event_id (filter (\<lambda>e. ev_workspace e \<noteq> w) fetched) \<and> own = own_events w fetched)"
  by (auto simp: result_simps validate_fetched_events_def check_fetched_Inr sort_fetched_Inr good_answer_def)

lemma distinct_own: "good_answer L requested fetched \<Longrightarrow> distinct (map sg_event_id (own_events w fetched))"
  by (simp add: good_answer_def distinct_map_filter)

lemma pull_cases:
  assumes "pull_workspace_from_peer_with_plan L vals fetch store w plan = (store', result)"
  obtains (unchanged) "store' = store"
      "\<And>report. result = Inr report \<Longrightarrow> pl_request_event_ids plan = [] \<or>
         (\<exists>fetched. fetch (pl_request_event_ids plan) = Inr fetched
           \<and> good_answer L (pl_request_event_ids plan) fetched \<and> own_events w fetched = []
           \<and> report = \<lparr>ps_requested_event_ids = pl_request_event_ids plan, ps_fetched_event_ids = [],
               ps_ignored_event_ids = map sg_event_id fetched, ps_materialization = report_default,
               ps_materialized_member_device_ids = []\<rparr>)"
    | (refused) fetched err where "fetch (pl_request_event_ids plan) = Inr fetched"
      "good_answer L (pl_request_event_ids plan) fetched" "result = Inl err"
      "append_workspace_events_in_materialized_order L vals store w (local_sync_events L store w) (own_events w fetched)
        = Inl (store', err)"
    | (appended) fetched app where "fetch (pl_request_event_ids plan) = Inr fetched"
      "good_answer L (pl_request_event_ids plan) fetched" "own_events w fetched \<noteq> []"
      "append_workspace_events_in_materialized_order L vals store w (local_sync_events L store w) (own_events w fetched)
        = Inr (store', app)"
      "result = bind_res (materialize_pulled vals w (local_sync_events L store w @ aw_events app))
        (\<lambda>(materialization, members).
           Inr \<lparr>ps_requested_event_ids = pl_request_event_ids plan, ps_fetched_event_ids = aw_event_ids app,
             ps_ignored_event_ids = map sg_event_id (filter (\<lambda>e. ev_workspace e \<noteq> w) fetched),
             ps_materialization = materialization, ps_materialized_member_device_ids = members\<rparr>)"
proof -
  let ?req = "pl_request_event_ids plan"
  let ?answer = "bind_res (map_err Net (fetch ?req)) (\<lambda>fetched.
      then_res (validate_fetched_events fetched ?req) (sort_fetched L w fetched))"
  note def = assms [unfolded pull_workspace_from_peer_with_plan_def Let_def]
  show thesis
  proof (cases "pl_workspace_id plan \<noteq> w \<or> ?req = [] \<or> (\<exists>e. ?answer = Inl e)")
    case True
    then show thesis using def by (intro unchanged) (auto split: if_splits)
  next
    case False
    then obtain ignored own where a: "?answer = Inr (ignored, own)" by (cases ?answer) auto
    then obtain fetched where f: "fetch ?req = Inr fetched" "good_answer L ?req fetched"
      "ignored = map sg_event_id (filter (\<lambda>e. ev_workspace e \<noteq> w) fetched)" "own = own_events w fetched"
      by (auto simp: answer_checked)
    show thesis
    proof (cases "own = []")
      case True
      then have "filter (\<lambda>e. ev_workspace e \<noteq> w) fetched = fetched" using f(4) by (auto simp: filter_empty_conv filter_id_conv)
      then show thesis using def False a True f
        by (intro unchanged) (auto simp: materialize_pulled_def bind_res_def)
    next
      case own: False
      then show thesis
        using def False a f refused [OF f(1,2)] appended [OF f(1,2)]
        by (cases "append_workspace_events_in_materialized_order L vals store w (local_sync_events L store w) own")
          (auto simp: bind_res_def split: prod.splits)
    qed
  qed
qed

lemma servable_ids_of_workspace:
  "set (list_servable_event_ids_for_workspace store (workspace_str w)) = {i. (i, w) \<in> store_servable store}"
  by (cases w) (auto simp: list_servable_event_ids_for_workspace_def store_servable_def in_workspace_def image_iff)

lemma plan_Inr:
  "plan_workspace_sync store w remote = Inr plan \<longleftrightarrow>
     (\<forall>i \<in> set remote. is_canonical_event_id_str (event_str i)) \<and> distinct remote
     \<and> (let ids = list_servable_event_ids_for_workspace store (workspace_str w) in
        plan = \<lparr>pl_workspace_id = w, pl_local_event_ids = ids, pl_remote_event_ids = remote,
          pl_publish_event_ids = sorted_list_of_set (set ids - set remote),
          pl_request_event_ids = filter (\<lambda>i. i \<notin> set ids) remote\<rparr>)"
  by (auto simp: plan_workspace_sync_def result_simps validate_remote_inventory_event_ids_def check_inventory_Inr Let_def
      missing_from_def missing_remote_event_ids_def from_event_ids_def collect_missing_distinct)

text \<open>An order of application puts parents first; a filter of it keeps that.\<close>

lemma filtered_parents_first:
  assumes "distinct xs" "map f es = filter P xs" "i < length es" "k < length xs" "xs ! k = f (es ! i)"
    "q \<in> set (take k xs)" "P q"
  shows "q \<in> f ` set (take i es)"
proof -
  let ?us = "filter P (take k xs)" and ?y = "f (es ! i)"
  have y: "?y = filter P xs ! i" "i < length (filter P xs)"
    using assms(2,3) by (simp_all flip: assms(2))
  then have "P ?y" using nth_mem [of i "filter P xs"] by simp
  have "xs = take k xs @ ?y # drop (Suc k) xs" using assms(4,5) id_take_nth_drop by metis
  then have split: "filter P xs = ?us @ ?y # filter P (drop (Suc k) xs)" using \<open>P ?y\<close> by (metis filter.simps(2) filter_append)
  then have "filter P xs ! length ?us = ?y" "length ?us < length (filter P xs)" by simp_all
  moreover have "distinct (filter P xs)" using assms(1) by simp
  ultimately have i: "i = length ?us" using y by (metis nth_eq_iff_index_eq)
  have "map f (take i es) = take i (filter P xs)" using assms(2) by (simp flip: take_map)
  also have "\<dots> = ?us" using split by (simp add: i)
  finally have "f ` set (take i es) = set ?us" by (metis set_map)
  then show ?thesis using assms(6,7) by simp
qed

section \<open>Properties\<close>

text \<open>
  A plan exists exactly when the inventory of the peer lists canonical identifiers without
  duplicates; it publishes exactly the servable local events the peer lacks, in the order of their
  identifiers, requests exactly the remote events that cannot be served locally, in the order of the
  peer, and reports no change exactly when both sides have the same events.
\<close>

theorem sync_plan_is_exact_difference:
  "((\<exists>plan. plan_workspace_sync store w remote = Inr plan) \<longleftrightarrow>
      (\<forall>i \<in> set remote. is_canonical_event_id_str (event_str i)) \<and> distinct remote)
   \<and> (\<forall>plan. plan_workspace_sync store w remote = Inr plan \<longrightarrow>
      (let here = {i. (i, w) \<in> store_servable store} in
       pl_publish_event_ids plan = sorted_list_of_set (here - set remote)
       \<and> pl_request_event_ids plan = filter (\<lambda>i. i \<notin> here) remote
       \<and> (is_no_change plan \<longleftrightarrow> here = set remote)))"
proof -
  have "finite {i. (i, w) \<in> store_servable store}" by (metis List.finite_set servable_ids_of_workspace)
  then show ?thesis
    by (auto simp: plan_Inr Let_def servable_ids_of_workspace is_no_change_def filter_empty_conv)
qed

text \<open>
  C6: whatever a peer answers, a pull only appends to the store, and only events that the plan
  requested, that verify and that belong to the workspace.  A pull that succeeds has stored all such
  events of the answer and reports exactly them; a pull that fails has left the store as it was, unless
  an event was too large to store or the stored events could not be materialised.
\<close>

theorem pull_stores_only_verified_requested_events:
  assumes "pull_workspace_from_peer_with_plan L vals fetch store w plan = (store', result)" "store_ok L store"
  shows "\<exists>es. accepted_run (append_event L) store es store' \<and> store_ok L store' \<and> store_extends store store'
    \<and> (\<forall>e \<in> set es. is_servable_event L e \<and> ev_workspace e = w \<and> sg_event_id e \<in> set (pl_request_event_ids plan))
    \<and> (\<forall>report. result = Inr report \<longrightarrow> pl_request_event_ids plan = [] \<and> es = []
        \<or> (\<exists>fetched. fetch (pl_request_event_ids plan) = Inr fetched \<and> set es = {e \<in> set fetched. ev_workspace e = w}
           \<and> ps_fetched_event_ids report = map sg_event_id es
           \<and> ps_ignored_event_ids report = map sg_event_id (filter (\<lambda>e. ev_workspace e \<noteq> w) fetched)))
    \<and> (\<forall>err. result = Inl err \<longrightarrow> store' = store \<or> (\<exists>e. err = SyncCore e)
        \<or> (\<exists>n. err = SyncStore (EventJsonTooLarge n EVENT_JSON_MAX_BYTES)))"
  using assms(1)
proof (cases rule: pull_cases)
  case unchanged
  then show ?thesis using assms(2)
    by (intro exI [of _ "[]"]) (fastforce simp: store_extends_refl filter_empty_conv filter_id_conv)
next
  case (refused fetched err)
  obtain es where es: "accepted_run (append_event L) store es store'" "set es \<subseteq> set (own_events w fetched)"
    and err: "store' = store \<or> (\<exists>n. err = SyncStore (EventJsonTooLarge n EVENT_JSON_MAX_BYTES))"
    using append_materialized_Inl [OF refused(4) distinct_own [OF refused(2)]] by blast
  then show ?thesis
    using store_order.run_inv [OF es(1) assms(2)] store_order.run_rel [OF es(1) assms(2)] refused(2,3)
    by (intro exI [of _ es]) (auto simp: good_answer_def)
next
  case (appended fetched app)
  obtain es ds where es: "aw_event_ids app = map sg_event_id (es @ ds)"
    "accepted_run (append_event L) store (es @ ds) store'" "set (es @ ds) = set (own_events w fetched)"
    using append_materialized_Inr [OF appended(4) distinct_own [OF appended(2)] appended(3)] by metis
  have "\<exists>e. err = SyncCore e" if "result = Inl err" for err
    using appended(5) that by (auto simp: bind_res_def materialize_pulled_def split: sum.splits if_splits)
  moreover have "ps_fetched_event_ids report = map sg_event_id (es @ ds)
      \<and> ps_ignored_event_ids report = map sg_event_id (filter (\<lambda>e. ev_workspace e \<noteq> w) fetched)"
    if "result = Inr report" for report
    using appended(5) that es(1) by (auto simp: bind_res_def split: sum.splits prod.splits)
  ultimately show ?thesis
    using es(3) store_order.run_inv [OF es(2) assms(2)] store_order.run_rel [OF es(2) assms(2)] appended(1,2)
    by (intro exI [of _ "es @ ds"]) (auto simp: es(2) good_answer_def)
qed

text \<open>
  C7: a pull that succeeds makes progress: planned again against the same inventory, the request
  shrinks by exactly the events the pull stored and the events to publish stay the same, provided no
  requested identifier is already served in another workspace.
\<close>

theorem pull_converges:
  assumes "plan_workspace_sync store w remote = Inr plan" "store_ok L store"
    "pull_workspace_from_peer_with_plan L vals fetch store w plan = (store', Inr report)"
    and unclaimed: "\<forall>i \<in> set (pl_request_event_ids plan). i \<notin> fst ` store_servable store"
  shows "\<exists>plan'. plan_workspace_sync store' w remote = Inr plan'
    \<and> pl_request_event_ids plan' = filter (\<lambda>i. i \<notin> set (ps_fetched_event_ids report)) (pl_request_event_ids plan)
    \<and> pl_publish_event_ids plan' = pl_publish_event_ids plan"
proof -
  let ?req = "pl_request_event_ids plan" and ?here = "\<lambda>s. set (list_servable_event_ids_for_workspace s (workspace_str w))"
  have plan: "\<forall>i \<in> set remote. is_canonical_event_id_str (event_str i)" "distinct remote"
    "?req = filter (\<lambda>i. i \<notin> ?here store) remote" "pl_publish_event_ids plan = sorted_list_of_set (?here store - set remote)"
    using assms(1) by (auto simp: plan_Inr Let_def)
  have here: "?here store' = ?here store \<union> set (ps_fetched_event_ids report) \<and> set (ps_fetched_event_ids report) \<subseteq> set ?req"
    using assms(3)
  proof (cases rule: pull_cases)
    case unchanged
    then have "ps_fetched_event_ids report = []"
      using assms(1,3) by (auto simp: pull_workspace_from_peer_with_plan_def plan_Inr Let_def)
    with unchanged(1) show ?thesis by simp
  next
    case (appended fetched app)
    obtain es where es: "aw_event_ids app = map sg_event_id es" "accepted_run (append_event L) store es store'"
      "set es = set (own_events w fetched)" "distinct (map sg_event_id es)"
      using append_materialized_Inr [OF appended(4) distinct_own [OF appended(2)] appended(3)] by metis
    have r: "ps_fetched_event_ids report = map sg_event_id es"
      using appended(5) es(1) by (auto simp: bind_res_def split: sum.splits prod.splits)
    have req: "sg_event_id ` set es \<subseteq> set ?req" using appended(2) es(3) by (auto simp: good_answer_def)
    then have new: "\<forall>e \<in> set es. sg_event_id e \<notin> fst ` store_servable store" using unclaimed by blast
    have "\<forall>e \<in> set es. is_servable_event L e" using appended(2) es(3) by (auto simp: good_answer_def)
    then have "store_servable store' = store_servable store \<union> (\<lambda>e. (sg_event_id e, ev_workspace e)) ` set es"
      using new by (rule store_log.run_servable [OF es(2) assms(2) _ es(4)])
    then show ?thesis using es(3) req by (auto simp: servable_ids_of_workspace r)
  qed simp
  have "?here store' - set remote = ?here store - set remote" using here plan(3) by auto
  moreover have "filter (\<lambda>i. i \<notin> ?here store') remote = filter (\<lambda>i. i \<notin> set (ps_fetched_event_ids report)) ?req"
    using here by (auto simp: plan(3) intro!: filter_cong)
  ultimately show ?thesis using plan by (auto simp: plan_Inr Let_def)
qed

text \<open>
  C8: a pull stores the events that can be applied in an order in which they can be applied: each of
  them is stored after those of its parents that the same pull stores, and before everything that
  cannot be applied yet, provided no requested identifier is among the local events.
\<close>

theorem pulled_events_are_stored_causally:
  assumes "pull_workspace_from_peer_with_plan L vals fetch store w plan = (store', Inr report)"
    "ps_fetched_event_ids report \<noteq> []"
    and fresh: "\<forall>d \<in> set (local_sync_events L store w). sg_event_id d \<notin> set (pl_request_event_ids plan)"
  shows "\<exists>fetched st preview es ds. fetch (pl_request_event_ids plan) = Inr fetched
    \<and> apply_batch vals (state_new w) (local_sync_events L store w @ own_events w fetched) = Inr (st, preview)
    \<and> accepted_run (append_event L) store (es @ ds) store' \<and> ps_fetched_event_ids report = map sg_event_id (es @ ds)
    \<and> set (map sg_event_id es) \<subseteq> set (rep_applied_events preview)
    \<and> set (map sg_event_id ds) \<inter> set (rep_applied_events preview) = {}
    \<and> (\<forall>i < length es. set (ev_parents (es ! i)) \<inter> sg_event_id ` set (es @ ds) \<subseteq> sg_event_id ` set (take i es))"
  using assms(1)
proof (cases rule: pull_cases)
  case unchanged
  then show ?thesis using assms(1,2)
    by (auto simp: pull_workspace_from_peer_with_plan_def Let_def split: if_splits)
next
  case (appended fetched app)
  let ?own = "own_events w fetched" and ?local = "local_sync_events L store w"
  obtain st preview es ds where p: "apply_batch vals (state_new w) (?local @ ?own) = Inr (st, preview)"
    and es: "aw_event_ids app = map sg_event_id (es @ ds)" "accepted_run (append_event L) store (es @ ds) store'"
      "distinct (map sg_event_id (es @ ds))" "set (es @ ds) = set ?own"
      "map sg_event_id es = filter (\<lambda>i. i \<in> sg_event_id ` set ?own) (rep_applied_events preview)"
    using append_materialized_Inr [OF appended(4) distinct_own [OF appended(2)] appended(3)] by metis
  obtain run where run: "accepted_run (apply_event vals) (state_new w) run st" "rep_applied_events preview = map sg_event_id run"
    "distinct (rep_applied_events preview)" "set run \<subseteq> set (?local @ ?own)"
    by (rule apply_batch_run [OF p]) auto
  have r: "ps_fetched_event_ids report = map sg_event_id (es @ ds)"
    using appended(5) es(1) by (auto simp: bind_res_def split: sum.splits prod.splits)
  have in_run: "e \<in> set run" if e: "e \<in> set ?own" and applied: "sg_event_id e \<in> set (rep_applied_events preview)" for e
  proof -
    obtain d where d: "d \<in> set run" "sg_event_id d = sg_event_id e" using applied run(2) by auto
    have "sg_event_id e \<in> set (pl_request_event_ids plan)" using e appended(2) by (auto simp: good_answer_def)
    then have "d \<notin> set ?local" using d(2) fresh by metis
    then have "d \<in> set ?own" using d(1) run(4) by auto
    then show ?thesis
      using d e distinct_own [OF appended(2), of w] inj_onD [of sg_event_id "set ?own" d e] by (simp add: distinct_map)
  qed
  have sub: "set (map sg_event_id es) = set (rep_applied_events preview) \<inter> sg_event_id ` set ?own"
    unfolding es(5) by auto
  have "set (map sg_event_id ds) \<inter> set (rep_applied_events preview) = {}"
    using es(3,4) sub by (auto simp: image_iff)
  moreover have "set (ev_parents (es ! i)) \<inter> sg_event_id ` set (es @ ds) \<subseteq> sg_event_id ` set (take i es)"
    if i: "i < length es" for i
  proof
    fix q assume q: "q \<in> set (ev_parents (es ! i)) \<inter> sg_event_id ` set (es @ ds)"
    have "es ! i \<in> set ?own" "sg_event_id (es ! i) \<in> set (rep_applied_events preview)"
      using i es(4) sub nth_mem [OF i] by auto
    then obtain k where k: "k < length run" "run ! k = es ! i" using in_run by (metis in_set_conv_nth)
    have "q \<in> set (take k (rep_applied_events preview))"
      using parents_of_run [OF run(1) state_inv_new k(1)] q by (auto simp: k(2) run(2) state_new_def)
    then show "q \<in> sg_event_id ` set (take i es)"
      using q k es(4) by (intro filtered_parents_first [OF run(3) es(5) i]) (auto simp: run(2))
  qed
  ultimately show ?thesis using appended(1) p es(2) r sub by blast
qed simp

section \<open>Closed examples\<close>

lemma stored_event_applies:
  "\<exists>st. apply_event sorted_values (state_new (WorkspaceId ''w'')) stored_event = Inr st"
proof -
  have a: "authorize (index_new (WorkspaceId ''w'')) stored_event = Inr ()"
    by (simp add: stored_event_def sample_identity sample_signable_def signable_event_new_def sample_device_def
        authorize_eval index_new_def)
      (simp add: sample_lib_def sample_key_def verifying_key_bytes_def)
  then have "authorize_body (index_new (WorkspaceId ''w'')) stored_event = Inr ()" by (simp add: authorize_Inr)
  from materialize_total [OF this] obtain st where
    "materialize sorted_values (mark_invites_accepted_by_event ((state_new (WorkspaceId ''w''))
       \<lparr>ws_access_index := apply_authorized (index_new (WorkspaceId ''w'')) stored_event\<rparr>) stored_event) stored_event
      = Inr st" by blast
  with a stored_event_ok(4) show ?thesis
    by (simp add: apply_event_Inr apply_ready_event_Inr state_new_def stored_event_def sample_signable_def signable_event_new_def)
qed

definition sample_plan :: WorkspaceSyncPlan where
  "sample_plan = \<lparr>pl_workspace_id = WorkspaceId ''w'', pl_local_event_ids = [],
     pl_remote_event_ids = [sg_event_id stored_event], pl_publish_event_ids = [],
     pl_request_event_ids = [sg_event_id stored_event]\<rparr>"

lemma sample_plan_made: "plan_workspace_sync [] (WorkspaceId ''w'') [sg_event_id stored_event] = Inr sample_plan"
proof -
  have "is_canonical_event_id_str (event_str (sg_event_id stored_event))"
    by (simp add: stored_event_def is_canonical_event_id_str_def strip_prefix_def sample_lib_def list_all_iff
        is_lower_hex_def byte_between_def)
  then show ?thesis by (simp add: plan_Inr sample_plan_def list_servable_event_ids_for_workspace_def)
qed

lemma stored_event_batch:
  "\<exists>st. apply_batch sorted_values (state_new (WorkspaceId ''w'')) [stored_event]
    = Inr (st, \<lparr>rep_applied_events = [sg_event_id stored_event], rep_gaps = []\<rparr>)"
proof -
  obtain st where "apply_event sorted_values (state_new (WorkspaceId ''w'')) stored_event = Inr st"
    using stored_event_applies by blast
  then have "ordered_run sorted_values (state_new (WorkspaceId ''w'')) [stored_event] st"
    by (simp add: ordered_run_def state_new_def access_inv_new)
  from ordered_batch [OF this] show ?thesis by auto
qed

lemma sample_pull:
  "\<exists>report. pull_workspace_from_peer_with_plan sample_store_lib sorted_values (\<lambda>_. Inr [stored_event]) []
      (WorkspaceId ''w'') sample_plan = ([event_row sample_store_lib stored_event], Inr report)
    \<and> ps_fetched_event_ids report = [sg_event_id stored_event]"
proof -
  obtain st where b: "apply_batch sorted_values (state_new (WorkspaceId ''w'')) [stored_event]
      = Inr (st, \<lparr>rep_applied_events = [sg_event_id stored_event], rep_gaps = []\<rparr>)" using stored_event_batch by blast
  have s: "sort_fetched sample_store_lib (WorkspaceId ''w'') [stored_event] = Inr ([], [stored_event])"
    by (simp add: sort_fetched_Inr stored_event_ok del: sort_fetched.simps)
  show ?thesis
    by (simp add: pull_workspace_from_peer_with_plan_def sample_plan_def bind_res_def map_err_def then_res_def
        validate_fetched_events_def s verified_sync_events_def list_parseable_events_for_workspace_def
        List.map_filter_def append_workspace_events_in_materialized_order_def b index_fetched_def append_one_def
        stored_event_appended materialize_pulled_def Let_def del: sort_fetched.simps)
qed

theorem sync_plan_is_exact_difference_witness:
  "plan_workspace_sync [] (WorkspaceId ''w'') [sg_event_id stored_event] = Inr sample_plan
   \<and> \<not> is_no_change sample_plan"
  using sync_plan_is_exact_difference [of "[]" "WorkspaceId ''w''" "[sg_event_id stored_event]"] sample_plan_made
  by (auto simp: store_servable_def)

theorem pull_stores_only_verified_requested_events_witness:
  "\<exists>store' result es. pull_workspace_from_peer_with_plan sample_store_lib sorted_values (\<lambda>_. Inr [stored_event]) []
      (WorkspaceId ''w'') sample_plan = (store', result)
    \<and> accepted_run (append_event sample_store_lib) [] es store' \<and> (\<forall>e \<in> set es. is_servable_event sample_store_lib e)"
proof -
  obtain store' result where p: "pull_workspace_from_peer_with_plan sample_store_lib sorted_values (\<lambda>_. Inr [stored_event]) []
      (WorkspaceId ''w'') sample_plan = (store', result)" by fastforce
  from pull_stores_only_verified_requested_events [OF p empty_store_ok(2)] show ?thesis using p by blast
qed

theorem pull_converges_witness:
  "\<exists>plan'. plan_workspace_sync [event_row sample_store_lib stored_event] (WorkspaceId ''w'') [sg_event_id stored_event]
      = Inr plan' \<and> pl_request_event_ids plan' = []"
proof -
  obtain report where p: "pull_workspace_from_peer_with_plan sample_store_lib sorted_values (\<lambda>_. Inr [stored_event]) []
      (WorkspaceId ''w'') sample_plan = ([event_row sample_store_lib stored_event], Inr report)"
    "ps_fetched_event_ids report = [sg_event_id stored_event]" using sample_pull by blast
  from pull_converges [OF sample_plan_made empty_store_ok(2) p(1)] show ?thesis
    by (auto simp: store_servable_def p(2)) (auto simp: sample_plan_def)
qed

theorem pulled_events_are_stored_causally_witness:
  "\<exists>es ds. accepted_run (append_event sample_store_lib) [] (es @ ds) [event_row sample_store_lib stored_event]
    \<and> map sg_event_id (es @ ds) = [sg_event_id stored_event]"
proof -
  obtain report where p: "pull_workspace_from_peer_with_plan sample_store_lib sorted_values (\<lambda>_. Inr [stored_event]) []
      (WorkspaceId ''w'') sample_plan = ([event_row sample_store_lib stored_event], Inr report)"
    "ps_fetched_event_ids report = [sg_event_id stored_event]" using sample_pull by blast
  have "local_sync_events sample_store_lib [] (WorkspaceId ''w'') = []"
    by (simp add: verified_sync_events_def list_parseable_events_for_workspace_def List.map_filter_def)
  then show ?thesis
    using pulled_events_are_stored_causally [OF p(1)] p(2) by (simp del: map_append) metis
qed

end
