(* ===== verification/Media.thy ===== *)
theory Media
  imports Prelude
begin

text \<open>
  The media store, from \<^verbatim>\<open>src/storage/media/src/lib.rs\<close>: blobs kept whole or in chunks, under the names of
  their hashes.  The directory of the store is a finite map from paths, lists of names relative to the root,
  to the contents of files; directories themselves are not modelled, writing a file is one step, and of the
  failures of the file system only a missing file is.  The hash, the serialiser and the process identifier
  are arguments.  A \<open>usize\<close> is a natural number; no count of the program comes near its bound.
\<close>

type_synonym BlobFiles = "(string list, bytes) fmap"

datatype MediaError =
    MdIo
  | MdSerde
  | MdHashMismatch (mde_expected: string) (mde_actual: string)
  | MdInvalidHash
  | MdInvalidDescriptor
  | MdManifestTooLarge (mde_actual_bytes: nat) (mde_max_bytes: nat)
  | MdChunkTooLarge (mde_actual_bytes: nat) (mde_max_bytes: nat)
  | MdBlobTooLarge (mde_actual_bytes: nat) (mde_max_bytes: nat)
  | MdBlobStorePathRequired
  | MdBlobStorePathTooLarge (mde_actual_bytes: nat) (mde_max_bytes: nat)

abbreviation BLOB_FILE_MAX_BYTES :: nat where "BLOB_FILE_MAX_BYTES \<equiv> 134218752"
abbreviation BLOB_MANIFEST_MAX_BYTES :: nat where "BLOB_MANIFEST_MAX_BYTES \<equiv> 1048576"
abbreviation BLOB_CHUNK_FILE_MAX_BYTES :: nat where "BLOB_CHUNK_FILE_MAX_BYTES \<equiv> 16777216"
abbreviation BLOB_DESCRIPTOR_MAX_CHUNKS :: nat where "BLOB_DESCRIPTOR_MAX_CHUNKS \<equiv> 16384"
abbreviation BLOB_STORE_PATH_MAX_BYTES :: nat where "BLOB_STORE_PATH_MAX_BYTES \<equiv> 65536"

record BlobDescriptor =
  bd_hash :: string
  bd_byte_len :: u64
  bd_chunk_size :: nat
  bd_chunk_hashes :: "string list"

record BlobAvailability =
  ba_hash :: string
  ba_has_whole_blob :: bool
  ba_descriptor :: "BlobDescriptor option"
  ba_available_chunk_hashes :: "string list"
  ba_missing_chunk_hashes :: "string list"

record BlobPruneReport =
  bp_referenced_blob_hashes :: "string list"
  bp_removed_blob_hashes :: "string list"
  bp_removed_manifest_hashes :: "string list"
  bp_removed_chunk_hashes :: "string list"
  bp_removed_temp_file_paths :: "string list"

text \<open>blake3 in hexadecimal digits, the JSON form of a descriptor, and \<open>process::id()\<close>.\<close>

record MediaLib =
  blob_hash :: "bytes \<Rightarrow> string"
  manifest_to_vec :: "BlobDescriptor \<Rightarrow> bytes"
  manifest_from_slice :: "bytes \<Rightarrow> BlobDescriptor option"
  process_id :: int

section \<open>Hashes, chunks and descriptors\<close>

definition validate_hash :: "string \<Rightarrow> MediaError + unit" where
  "validate_hash hash =
     ensure (length hash = 64 \<and> list_all (\<lambda>c. is_ascii_digit c \<or> byte_between 97 102 c) hash) MdInvalidHash"

text \<open>\<open>slice::chunks\<close>; the size is at least 1 wherever the code calls it.\<close>

function byte_chunks :: "nat \<Rightarrow> 'a list \<Rightarrow> 'a list list" where
  "byte_chunks n xs = (if n = 0 \<or> xs = [] then [] else take n xs # byte_chunks n (drop n xs))"
  by pat_completeness auto
termination by (relation "measure (length \<circ> snd)") auto

declare byte_chunks.simps [simp del]

definition describe_blob :: "MediaLib \<Rightarrow> bytes \<Rightarrow> nat \<Rightarrow> BlobDescriptor" where
  "describe_blob M content chunk_size =
     (let chunk_size = max chunk_size 1 in
      \<lparr>bd_hash = blob_hash M content, bd_byte_len = of_nat (length content), bd_chunk_size = chunk_size,
       bd_chunk_hashes = map (blob_hash M) (byte_chunks chunk_size content)\<rparr>)"

definition expected_chunk_count :: "u64 \<Rightarrow> nat \<Rightarrow> MediaError + nat" where
  "expected_chunk_count byte_len chunk_size =
     (if chunk_size = 0 \<or> BLOB_CHUNK_FILE_MAX_BYTES < chunk_size then Inl MdInvalidDescriptor
      else let expected_chunk_count = (if byte_len = 0 then 0 else (unat byte_len - 1) div chunk_size + 1) in
        if BLOB_DESCRIPTOR_MAX_CHUNKS < expected_chunk_count then Inl MdInvalidDescriptor else Inr expected_chunk_count)"

definition validate_chunk_plan :: "nat \<Rightarrow> nat \<Rightarrow> MediaError + unit" where
  "validate_chunk_plan byte_len chunk_size =
     (if 2 ^ 64 \<le> byte_len then Inl MdInvalidDescriptor
      else bind_res (expected_chunk_count (of_nat byte_len) chunk_size) (\<lambda>_. Inr ()))"

definition validate_descriptor :: "BlobDescriptor \<Rightarrow> MediaError + unit" where
  "validate_descriptor d =
     bind_res (validate_hash (bd_hash d)) (\<lambda>_.
     bind_res (expected_chunk_count (bd_byte_len d) (bd_chunk_size d)) (\<lambda>expected_chunk_count.
     if length (bd_chunk_hashes d) \<noteq> expected_chunk_count then Inl MdInvalidDescriptor
     else first_err (map validate_hash (bd_chunk_hashes d))))"

definition expected_chunk_byte_len :: "BlobDescriptor \<Rightarrow> nat \<Rightarrow> MediaError + nat" where
  "expected_chunk_byte_len d chunk_index =
     bind_res (validate_descriptor d) (\<lambda>_.
     if length (bd_chunk_hashes d) \<le> chunk_index then Inl MdInvalidDescriptor
     else if chunk_index + 1 < length (bd_chunk_hashes d) then Inr (bd_chunk_size d)
     else let consumed_before = chunk_index * bd_chunk_size d in
       if 2 ^ 64 \<le> consumed_before then Inl MdInvalidDescriptor
       else if unat (bd_byte_len d) < consumed_before then Inl MdInvalidDescriptor
       else Inr (unat (bd_byte_len d) - consumed_before))"

definition validate_chunk_payload :: "MediaLib \<Rightarrow> BlobDescriptor \<Rightarrow> nat \<Rightarrow> bytes \<Rightarrow> MediaError + unit" where
  "validate_chunk_payload M d chunk_index content =
     bind_res (validate_descriptor d) (\<lambda>_.
     if length (bd_chunk_hashes d) \<le> chunk_index then Inl MdInvalidDescriptor
     else let expected_hash = bd_chunk_hashes d ! chunk_index in
       bind_res (expected_chunk_byte_len d chunk_index) (\<lambda>expected_len.
       if length content \<noteq> expected_len then Inl MdInvalidDescriptor
       else ensure (blob_hash M content = expected_hash) (MdHashMismatch expected_hash (blob_hash M content))))"

definition validate_reassembled_blob :: "MediaLib \<Rightarrow> BlobDescriptor \<Rightarrow> bytes \<Rightarrow> MediaError + unit" where
  "validate_reassembled_blob M d content =
     bind_res (validate_descriptor d) (\<lambda>_.
     if 2 ^ 64 \<le> length content \<or> of_nat (length content) \<noteq> bd_byte_len d then Inl MdInvalidDescriptor
     else ensure (blob_hash M content = bd_hash d) (MdHashMismatch (bd_hash d) (blob_hash M content)))"

definition validate_blob_file_size :: "nat \<Rightarrow> MediaError + unit" where
  "validate_blob_file_size actual_bytes =
     ensure (actual_bytes \<le> BLOB_FILE_MAX_BYTES) (MdBlobTooLarge actual_bytes BLOB_FILE_MAX_BYTES)"

definition validate_chunk_file_size :: "nat \<Rightarrow> MediaError + unit" where
  "validate_chunk_file_size actual_bytes =
     ensure (actual_bytes \<le> BLOB_CHUNK_FILE_MAX_BYTES) (MdChunkTooLarge actual_bytes BLOB_CHUNK_FILE_MAX_BYTES)"

definition validate_blob_store_path :: "string \<Rightarrow> MediaError + unit" where
  "validate_blob_store_path path =
     (if length path = 0 then Inl MdBlobStorePathRequired
      else ensure (length path \<le> BLOB_STORE_PATH_MAX_BYTES) (MdBlobStorePathTooLarge (length path) BLOB_STORE_PATH_MAX_BYTES))"

section \<open>Availability\<close>

definition count_chunk_hashes :: "string list \<Rightarrow> MediaError + (string, nat) fmap" where
  "count_chunk_hashes hashes =
     bind_res (first_err (map validate_hash hashes)) (\<lambda>_.
       Inr (foldl (\<lambda>counts h. fmupd h ((case fmlookup counts h of Some n \<Rightarrow> n | None \<Rightarrow> 0) + 1) counts) fmempty hashes))"

definition count_of :: "(string, nat) fmap \<Rightarrow> string \<Rightarrow> nat" where
  "count_of counts h = (case fmlookup counts h of Some n \<Rightarrow> n | None \<Rightarrow> 0)"

definition validate_blob_availability :: "BlobAvailability \<Rightarrow> MediaError + unit" where
  "validate_blob_availability a =
     bind_res (validate_hash (ba_hash a)) (\<lambda>_.
     case ba_descriptor a of
       None \<Rightarrow> ensure (ba_available_chunk_hashes a = [] \<and> ba_missing_chunk_hashes a = []) MdInvalidDescriptor
     | Some d \<Rightarrow>
         bind_res (validate_descriptor d) (\<lambda>_.
         if bd_hash d \<noteq> ba_hash a then Inl MdInvalidDescriptor
         else bind_res (count_chunk_hashes (bd_chunk_hashes d)) (\<lambda>expected.
         bind_res (count_chunk_hashes (ba_available_chunk_hashes a)) (\<lambda>available.
         bind_res (count_chunk_hashes (ba_missing_chunk_hashes a)) (\<lambda>missing.
         then_res (first_err (map (\<lambda>(h, available_count).
             bind_res (ok_or (fmlookup expected h) MdInvalidDescriptor) (\<lambda>expected_count.
               ensure (\<not> (0 < count_of missing h \<or> expected_count < available_count + count_of missing h)) MdInvalidDescriptor))
             (sorted_list_of_fmap available)))
         (then_res (first_err (map (\<lambda>(h, missing_count).
             bind_res (ok_or (fmlookup expected h) MdInvalidDescriptor) (\<lambda>expected_count.
               ensure (missing_count \<le> expected_count) MdInvalidDescriptor))
             (sorted_list_of_fmap missing)))
         (first_err (map (\<lambda>(h, expected_count).
             ensure (count_of available h + count_of missing h = expected_count) MdInvalidDescriptor)
             (sorted_list_of_fmap expected)))))))))"

definition is_complete :: "BlobAvailability \<Rightarrow> bool" where
  "is_complete a \<longleftrightarrow>
     (if validate_blob_availability a \<noteq> Inr () then False
      else if ba_has_whole_blob a then True
      else case ba_descriptor a of
        None \<Rightarrow> False
      | Some d \<Rightarrow>
          if bd_hash d \<noteq> ba_hash a \<or> ba_missing_chunk_hashes a \<noteq> [] then False
          else if length (ba_available_chunk_hashes a) \<noteq> length (bd_chunk_hashes d) then False
          else sort (ba_available_chunk_hashes a) = sort (bd_chunk_hashes d))"

section \<open>Whole blobs\<close>

definition blob_path :: "string \<Rightarrow> MediaError + string list" where
  "blob_path h = bind_res (validate_hash h) (\<lambda>_. Inr [take 2 h, h])"

definition chunk_path :: "string \<Rightarrow> MediaError + string list" where
  "chunk_path h = bind_res (validate_hash h) (\<lambda>_. Inr [''chunks'', take 2 h, h])"

definition manifest_path :: "string \<Rightarrow> MediaError + string list" where
  "manifest_path h = bind_res (validate_hash h) (\<lambda>_. Inr [''manifests'', take 2 h, h @ ''.json''])"

text \<open>\<open>BlobStore::open\<close>; the store is then the map of its files.\<close>

definition blob_store_open :: "string \<Rightarrow> MediaError + unit" where
  "blob_store_open root = validate_blob_store_path root"

definition write_file_atomically :: "BlobFiles \<Rightarrow> string list \<Rightarrow> bytes \<Rightarrow> BlobFiles" where
  "write_file_atomically st path content = fmupd path content st"

definition read_blob_file :: "bytes \<Rightarrow> MediaError + bytes" where
  "read_blob_file content = bind_res (validate_blob_file_size (length content)) (\<lambda>_. Inr content)"

definition read_chunk_file :: "bytes \<Rightarrow> MediaError + bytes" where
  "read_chunk_file content = bind_res (validate_chunk_file_size (length content)) (\<lambda>_. Inr content)"

definition read_manifest_file :: "bytes \<Rightarrow> MediaError + bytes" where
  "read_manifest_file content =
     (if BLOB_MANIFEST_MAX_BYTES < length content
      then Inl (MdManifestTooLarge (length content) BLOB_MANIFEST_MAX_BYTES) else Inr content)"

definition has_blob :: "BlobFiles \<Rightarrow> string \<Rightarrow> MediaError + bool" where
  "has_blob st h =
     bind_res (validate_hash h) (\<lambda>_.
     bind_res (blob_path h) (\<lambda>path.
       Inr (case fmlookup st path of None \<Rightarrow> False | Some content \<Rightarrow> length content \<le> BLOB_FILE_MAX_BYTES)))"

definition put_bytes_with_hash :: "MediaLib \<Rightarrow> BlobFiles \<Rightarrow> string \<Rightarrow> bytes \<Rightarrow> BlobFiles \<times> (MediaError + unit)" where
  "put_bytes_with_hash M st expected_hash content =
     attempt st (validate_hash expected_hash) (\<lambda>_.
     attempt st (validate_blob_file_size (length content)) (\<lambda>_.
     let actual = blob_hash M content in
     if actual \<noteq> expected_hash then (st, Inl (MdHashMismatch expected_hash actual))
     else attempt st (blob_path expected_hash) (\<lambda>path.
     attempt st (has_blob st expected_hash) (\<lambda>present.
     if present then (st, Inr ())
     else let st = (if contains_key st path then fmdrop path st else st) in
       (write_file_atomically st path content, Inr ())))))"

definition blob_store_put_bytes :: "MediaLib \<Rightarrow> BlobFiles \<Rightarrow> bytes \<Rightarrow> BlobFiles \<times> (MediaError + BlobDescriptor)" where
  "blob_store_put_bytes M st content =
     (let descriptor = describe_blob M content 1048576 in
      and_then (put_bytes_with_hash M st (bd_hash descriptor) content) (\<lambda>st _. (st, Inr descriptor)))"

definition get_bytes :: "MediaLib \<Rightarrow> BlobFiles \<Rightarrow> string \<Rightarrow> MediaError + bytes option" where
  "get_bytes M st h =
     bind_res (validate_hash h) (\<lambda>_.
     bind_res (blob_path h) (\<lambda>path.
     case fmlookup st path of
       None \<Rightarrow> Inr None
     | Some content \<Rightarrow>
         bind_res (read_blob_file content) (\<lambda>content.
         if blob_hash M content \<noteq> h then Inl (MdHashMismatch h (blob_hash M content)) else Inr (Some content))))"

section \<open>Chunks and manifests\<close>

definition has_chunk :: "BlobFiles \<Rightarrow> string \<Rightarrow> MediaError + bool" where
  "has_chunk st h = bind_res (validate_hash h) (\<lambda>_. bind_res (chunk_path h) (\<lambda>path. Inr (contains_key st path)))"

definition put_chunk_with_hash :: "MediaLib \<Rightarrow> BlobFiles \<Rightarrow> string \<Rightarrow> bytes \<Rightarrow> BlobFiles \<times> (MediaError + unit)" where
  "put_chunk_with_hash M st expected_hash content =
     attempt st (validate_hash expected_hash) (\<lambda>_.
     attempt st (validate_chunk_file_size (length content)) (\<lambda>_.
     let actual = blob_hash M content in
     if actual \<noteq> expected_hash then (st, Inl (MdHashMismatch expected_hash actual))
     else attempt st (chunk_path expected_hash) (\<lambda>path.
       if contains_key st path then (st, Inr ()) else (write_file_atomically st path content, Inr ()))))"

definition get_chunk :: "MediaLib \<Rightarrow> BlobFiles \<Rightarrow> string \<Rightarrow> MediaError + bytes option" where
  "get_chunk M st h =
     bind_res (validate_hash h) (\<lambda>_.
     bind_res (chunk_path h) (\<lambda>path.
     case fmlookup st path of
       None \<Rightarrow> Inr None
     | Some content \<Rightarrow>
         bind_res (read_chunk_file content) (\<lambda>content.
         if blob_hash M content \<noteq> h then Inl (MdHashMismatch h (blob_hash M content)) else Inr (Some content))))"

definition put_manifest :: "MediaLib \<Rightarrow> BlobFiles \<Rightarrow> BlobDescriptor \<Rightarrow> BlobFiles \<times> (MediaError + unit)" where
  "put_manifest M st descriptor =
     attempt st (validate_descriptor descriptor) (\<lambda>_.
     attempt st (manifest_path (bd_hash descriptor)) (\<lambda>path.
       (write_file_atomically st path (manifest_to_vec M descriptor), Inr ())))"

definition get_manifest :: "MediaLib \<Rightarrow> BlobFiles \<Rightarrow> string \<Rightarrow> MediaError + BlobDescriptor option" where
  "get_manifest M st h =
     bind_res (validate_hash h) (\<lambda>_.
     bind_res (manifest_path h) (\<lambda>path.
     case fmlookup st path of
       None \<Rightarrow> Inr None
     | Some content \<Rightarrow>
         bind_res (read_manifest_file content) (\<lambda>content.
         bind_res (ok_or (manifest_from_slice M content) MdSerde) (\<lambda>descriptor.
         bind_res (validate_descriptor descriptor) (\<lambda>_.
         if bd_hash descriptor \<noteq> h then Inl (MdHashMismatch h (bd_hash descriptor)) else Inr (Some descriptor))))))"

fun put_chunks :: "MediaLib \<Rightarrow> BlobFiles \<Rightarrow> (string \<times> bytes) list \<Rightarrow> BlobFiles \<times> (MediaError + unit)" where
  "put_chunks M st [] = (st, Inr ())"
| "put_chunks M st ((chunk_hash, chunk) # rest) =
     and_then (put_chunk_with_hash M st chunk_hash chunk) (\<lambda>st _. put_chunks M st rest)"

definition put_bytes_chunked :: "MediaLib \<Rightarrow> BlobFiles \<Rightarrow> bytes \<Rightarrow> nat \<Rightarrow> BlobFiles \<times> (MediaError + BlobDescriptor)" where
  "put_bytes_chunked M st content chunk_size =
     (let chunk_size = max chunk_size 1 in
      attempt st (validate_chunk_plan (length content) chunk_size) (\<lambda>_.
      let descriptor = describe_blob M content chunk_size in
      and_then (put_manifest M st descriptor) (\<lambda>st _.
      and_then (put_chunks M st (zip (bd_chunk_hashes descriptor) (byte_chunks (bd_chunk_size descriptor) content))) (\<lambda>st _.
        (st, Inr descriptor)))))"

text \<open>The loop of \<open>get_bytes_chunked\<close> from chunk \<open>i\<close> on; a missing chunk ends it without a result.\<close>

fun collect_chunks :: "MediaLib \<Rightarrow> BlobFiles \<Rightarrow> BlobDescriptor \<Rightarrow> nat \<Rightarrow> string list \<Rightarrow> bytes \<Rightarrow> MediaError + bytes option" where
  "collect_chunks M st d i [] acc = Inr (Some acc)"
| "collect_chunks M st d i (chunk_hash # rest) acc =
     bind_res (get_chunk M st chunk_hash) (\<lambda>found.
     case found of
       None \<Rightarrow> Inr None
     | Some chunk \<Rightarrow>
         bind_res (validate_chunk_payload M d i chunk) (\<lambda>_. collect_chunks M st d (Suc i) rest (acc @ chunk)))"

definition get_bytes_chunked :: "MediaLib \<Rightarrow> BlobFiles \<Rightarrow> string \<Rightarrow> MediaError + bytes option" where
  "get_bytes_chunked M st h =
     bind_res (get_manifest M st h) (\<lambda>manifest.
     case manifest of
       None \<Rightarrow> Inr None
     | Some descriptor \<Rightarrow>
         bind_res (collect_chunks M st descriptor 0 (bd_chunk_hashes descriptor) []) (\<lambda>found.
         case found of
           None \<Rightarrow> Inr None
         | Some content \<Rightarrow>
             bind_res (validate_reassembled_blob M descriptor content) (\<lambda>_. Inr (Some content))))"

definition get_complete_bytes :: "MediaLib \<Rightarrow> BlobFiles \<Rightarrow> string \<Rightarrow> MediaError + bytes option" where
  "get_complete_bytes M st h =
     bind_res (get_bytes M st h) (\<lambda>whole.
     case whole of Some content \<Rightarrow> Inr (Some content) | None \<Rightarrow> get_bytes_chunked M st h)"

definition has_expected_chunk_len :: "BlobFiles \<Rightarrow> BlobDescriptor \<Rightarrow> nat \<Rightarrow> MediaError + bool" where
  "has_expected_chunk_len st d chunk_index =
     (if length (bd_chunk_hashes d) \<le> chunk_index then Inl MdInvalidDescriptor
      else bind_res (chunk_path (bd_chunk_hashes d ! chunk_index)) (\<lambda>path.
      case fmlookup st path of
        None \<Rightarrow> Inr False
      | Some content \<Rightarrow>
          bind_res (expected_chunk_byte_len d chunk_index) (\<lambda>expected_len. Inr (length content = expected_len))))"

text \<open>The loop over the chunks: the available ones and the missing ones, in order.\<close>

fun split_chunks :: "BlobFiles \<Rightarrow> BlobDescriptor \<Rightarrow> nat \<Rightarrow> string list \<Rightarrow> MediaError + string list \<times> string list" where
  "split_chunks st d i [] = Inr ([], [])"
| "split_chunks st d i (chunk_hash # rest) =
     bind_res (has_expected_chunk_len st d i) (\<lambda>present.
     bind_res (split_chunks st d (Suc i) rest) (\<lambda>(available, missing).
       Inr (if present then (chunk_hash # available, missing) else (available, chunk_hash # missing))))"

definition missing_chunks :: "BlobFiles \<Rightarrow> BlobDescriptor \<Rightarrow> MediaError + string list" where
  "missing_chunks st d =
     bind_res (validate_descriptor d) (\<lambda>_.
     bind_res (split_chunks st d 0 (bd_chunk_hashes d)) (\<lambda>(_, missing). Inr missing))"

definition availability :: "MediaLib \<Rightarrow> BlobFiles \<Rightarrow> string \<Rightarrow> MediaError + BlobAvailability option" where
  "availability M st h =
     bind_res (validate_hash h) (\<lambda>_.
     bind_res (has_blob st h) (\<lambda>has_whole_blob.
     bind_res (get_manifest M st h) (\<lambda>descriptor.
     if \<not> has_whole_blob \<and> descriptor = None then Inr None
     else bind_res (case descriptor of Some d \<Rightarrow> split_chunks st d 0 (bd_chunk_hashes d) | None \<Rightarrow> Inr ([], []))
       (\<lambda>(available, missing).
         Inr (Some \<lparr>ba_hash = h, ba_has_whole_blob = has_whole_blob, ba_descriptor = descriptor,
           ba_available_chunk_hashes = available, ba_missing_chunk_hashes = missing\<rparr>)))))"

definition has_complete_blob :: "MediaLib \<Rightarrow> BlobFiles \<Rightarrow> string \<Rightarrow> MediaError + bool" where
  "has_complete_blob M st h =
     bind_res (has_blob st h) (\<lambda>whole.
     if whole then Inr True
     else bind_res (availability M st h) (\<lambda>found.
       Inr (case found of Some a \<Rightarrow> is_complete a | None \<Rightarrow> False)))"

text \<open>The chunks to ask a peer for: those it has of its descriptor and this store does not.\<close>

fun plan_needed :: "BlobFiles \<Rightarrow> BlobDescriptor \<Rightarrow> string set \<Rightarrow> string list \<Rightarrow> MediaError + string list" where
  "plan_needed st d seen [] = Inr []"
| "plan_needed st d seen (chunk_hash # rest) =
     (if chunk_hash \<in> set (bd_chunk_hashes d) \<and> chunk_hash \<notin> seen
      then bind_res (has_chunk st chunk_hash) (\<lambda>present.
        bind_res (plan_needed st d (insert chunk_hash seen) rest) (\<lambda>needed.
          Inr (if present then needed else chunk_hash # needed)))
      else plan_needed st d seen rest)"

definition plan_missing_chunks :: "BlobFiles \<Rightarrow> BlobAvailability \<Rightarrow> MediaError + string list" where
  "plan_missing_chunks st remote =
     bind_res (validate_blob_availability remote) (\<lambda>_.
     case ba_descriptor remote of
       None \<Rightarrow> Inr []
     | Some d \<Rightarrow> plan_needed st d {} (ba_available_chunk_hashes remote))"

section \<open>Pruning\<close>

text \<open>\<open>Path::extension\<close> and \<open>Path::file_stem\<close> of a file name.\<close>

definition file_extension :: "string \<Rightarrow> string option" where
  "file_extension name = (case rsplit_once (CHR ''.'') name of
     Some (stem, extension) \<Rightarrow> if stem = [] then None else Some extension | None \<Rightarrow> None)"

definition file_stem :: "string \<Rightarrow> string" where
  "file_stem name = (case rsplit_once (CHR ''.'') name of
     Some (stem, extension) \<Rightarrow> if stem = [] then name else stem | None \<Rightarrow> name)"

definition hash_of_file_name :: "string option \<Rightarrow> string \<Rightarrow> string option" where
  "hash_of_file_name extension name =
     (let hash = (case extension of
          Some e \<Rightarrow> if file_extension name \<noteq> Some e then None else Some (file_stem name)
        | None \<Rightarrow> if file_extension name \<noteq> None then None else Some name)
      in case hash of Some h \<Rightarrow> if validate_hash h = Inr () then Some h else None | None \<Rightarrow> None)"

text \<open>
  The files of the store that are named by a hash, with the hash, in the order of the hashes.  Directories
  are walked in no particular order; the hashes that are returned do not depend on it.
\<close>

definition collect_hash_files :: "string list list \<Rightarrow> string option \<Rightarrow> (string \<times> string list) list" where
  "collect_hash_files paths extension =
     sort_key fst (List.map_filter (\<lambda>path. map_option (\<lambda>h. (h, path)) (hash_of_file_name extension (last path))) paths)"

definition stored_paths :: "BlobFiles \<Rightarrow> string list list" where
  "stored_paths st = sorted_list_of_fset (fmdom st)"

definition stored_blob_files :: "BlobFiles \<Rightarrow> (string \<times> string list) list" where
  "stored_blob_files st =
     collect_hash_files (filter (\<lambda>p. 2 \<le> length p \<and> hd p \<noteq> ''chunks'' \<and> hd p \<noteq> ''manifests'') (stored_paths st)) None"

definition stored_chunk_files :: "BlobFiles \<Rightarrow> (string \<times> string list) list" where
  "stored_chunk_files st =
     collect_hash_files (filter (\<lambda>p. 2 \<le> length p \<and> hd p = ''chunks'') (stored_paths st)) None"

definition stored_manifest_files :: "BlobFiles \<Rightarrow> (string \<times> string list) list" where
  "stored_manifest_files st =
     collect_hash_files (filter (\<lambda>p. 2 \<le> length p \<and> hd p = ''manifests'') (stored_paths st)) (Some ''json'')"

text \<open>\<open>str::parse::<u32>\<close>.\<close>

definition parse_u32 :: "string \<Rightarrow> int option" where
  "parse_u32 s =
     (case read_number 10 None True (2 ^ 32) (case s of c # r \<Rightarrow> if c = CHR ''+'' then r else s | [] \<Rightarrow> s) of
        Some (n, []) \<Rightarrow> Some n | _ \<Rightarrow> None)"

definition blob_temp_artifact_process_id :: "string \<Rightarrow> int option" where
  "blob_temp_artifact_process_id file_name =
     (if \<not> prefix ''.'' file_name then None
      else case split_once_str (rev ''.tmp.'') (rev file_name) of
        None \<Rightarrow> None
      | Some (tail, _) \<Rightarrow> parse_u32 (hd (split_char (CHR ''.'') (rev tail))))"

definition is_stale_blob_temp_artifact :: "MediaLib \<Rightarrow> string \<Rightarrow> bool" where
  "is_stale_blob_temp_artifact M file_name =
     (case blob_temp_artifact_process_id file_name of None \<Rightarrow> False | Some pid \<Rightarrow> pid \<noteq> process_id M)"

definition relative_path :: "string list \<Rightarrow> string" where
  "relative_path path = concat (tl (concat (map (\<lambda>name. [''/'', name]) path)))"

definition stale_temp_artifact_files :: "MediaLib \<Rightarrow> BlobFiles \<Rightarrow> (string \<times> string list) list" where
  "stale_temp_artifact_files M st =
     sort_key fst (map (\<lambda>path. (relative_path path, path))
       (filter (\<lambda>path. is_stale_blob_temp_artifact M (last path)) (stored_paths st)))"

definition remove_files :: "BlobFiles \<Rightarrow> (string \<times> string list) list \<Rightarrow> BlobFiles" where
  "remove_files st files = foldl (\<lambda>st (_, path). fmdrop path st) st files"

fun referenced_chunks :: "MediaLib \<Rightarrow> BlobFiles \<Rightarrow> string list \<Rightarrow> string set \<Rightarrow> MediaError + string set" where
  "referenced_chunks M st [] acc = Inr acc"
| "referenced_chunks M st (h # rest) acc =
     bind_res (get_manifest M st h) (\<lambda>manifest.
       referenced_chunks M st rest (case manifest of Some d \<Rightarrow> acc \<union> set (bd_chunk_hashes d) | None \<Rightarrow> acc))"

text \<open>What is removed once the references are known.\<close>

definition remove_unreferenced ::
  "MediaLib \<Rightarrow> BlobFiles \<Rightarrow> string set \<Rightarrow> string set \<Rightarrow> BlobFiles \<times> BlobPruneReport" where
  "remove_unreferenced M st referenced_blob_hashes referenced_chunk_hashes =
     (let blobs = filter (\<lambda>(h, _). h \<notin> referenced_blob_hashes) (stored_blob_files st);
          st = remove_files st blobs;
          manifests = filter (\<lambda>(h, _). h \<notin> referenced_blob_hashes) (stored_manifest_files st);
          st = remove_files st manifests;
          chunks = filter (\<lambda>(h, _). h \<notin> referenced_chunk_hashes) (stored_chunk_files st);
          st = remove_files st chunks;
          artifacts = stale_temp_artifact_files M st
      in (remove_files st artifacts,
          \<lparr>bp_referenced_blob_hashes = sorted_list_of_set referenced_blob_hashes, bp_removed_blob_hashes = map fst blobs,
           bp_removed_manifest_hashes = map fst manifests, bp_removed_chunk_hashes = map fst chunks,
           bp_removed_temp_file_paths = map fst artifacts\<rparr>))"

definition prune_unreferenced ::
  "MediaLib \<Rightarrow> BlobFiles \<Rightarrow> string set \<Rightarrow> BlobFiles \<times> (MediaError + BlobPruneReport)" where
  "prune_unreferenced M st referenced_blob_hashes =
     (let references = sorted_list_of_set referenced_blob_hashes in
      attempt st (first_err (map validate_hash references)) (\<lambda>_.
      attempt st (referenced_chunks M st references {}) (\<lambda>referenced_chunk_hashes.
        map_prod id Inr (remove_unreferenced M st referenced_blob_hashes referenced_chunk_hashes))))"

end
