(* ===== verification/Local_Secret.thy ===== *)
theory Local_Secret
  imports Sync Media
begin

text \<open>
  The files in which a device keeps its content keys, from \<^verbatim>\<open>src/runtime/src/local_secret.rs\<close>,
  \<^verbatim>\<open>local_file_io.rs\<close>, \<^verbatim>\<open>paths.rs\<close> and the first half of \<^verbatim>\<open>local_secret_store.rs\<close>, and the error type of the
  runtime (\<^verbatim>\<open>src/runtime/src/lib.rs\<close>).  The file system is a map from paths to contents; a missing file is
  the only input/output error of the model, and two spellings of one path are two files.  Paths are Unix
  paths, as text.  Salts and nonces that the random number generator fills in are arguments.
\<close>

section \<open>The errors of the runtime\<close>

datatype IoErrorKind = IoNotFound | IoOther string

text \<open>The errors that the modelled operations of the runtime raise.\<close>

datatype (plugins only: code) RuntimeError =
    RtIo IoErrorKind
  | RtStore StoreError
  | RtCrypto CryptoError
  | RtSerde
  | RtCore CoreError
  | RtAuthorization AuthorizationError
  | RtMedia MediaError
  | RtMls string
  | RtWorkspaceHasNoEvents WorkspaceId
  | RtMetadataFieldTooLarge string nat nat
  | RtMetadataFieldRequired string
  | RtMessageNotFound WorkspaceId MessageId
  | RtAttachmentNotFound WorkspaceId MessageId string
  | RtAttachmentBlobMissing string
  | RtAttachmentNotEncrypted string
  | RtChannelNotFound WorkspaceId ChannelId
  | RtChannelAccessDenied WorkspaceId ChannelId DeviceId
  | RtReactionRequired
  | RtMessageMarkdownTooLarge nat nat
  | RtAttachmentFileTooLarge u64 u64
  | RtDisplayNameRequired
  | RtInvalidAvatarId
  | RtPeerEndpointIdRequired
  | RtPeerEndpointRequired
  | RtUnsupportedPeerEndpoint
  | RtPeerEndpointTransportRequired
  | RtPeerEndpointTransportMismatch
  | RtReplicaCapabilityRequiresBackupPeer
  | RtInvalidWorkspaceKey
  | RtUnsupportedWorkspaceKeyExport
  | RtChannelKeyMissing WorkspaceId ChannelId
  | RtInvalidChannelKey
  | RtUnsupportedChannelKeyExport
  | RtLocalSecretPassphraseRequired
  | RtUnsupportedLocalSecretFile
  | RtInvalidLocalSecretFile
  | RtLocalSecretKdf string
  | RtEventNotFound WorkspaceId EventId
  | RtDeviceKeyPackageProtocolRequired
  | RtDeviceKeyPackageRequired
  | RtDeviceKeyPackageTooLarge
  | RtDeviceKeyPackageNotFound WorkspaceId DeviceKeyPackageId
  | RtOpenMlsKeyPackageProtocolMismatch WorkspaceId DeviceKeyPackageId string
  | RtOpenMlsKeyPackagePublisherMismatch DeviceId string
  | RtOpenMlsKeyPackageValidationMismatch DeviceKeyPackageId
  | RtOpenMlsPrivateKeyPackageMissing WorkspaceId string
  | RtOpenMlsWorkspaceGroupCreatorRequired WorkspaceId
  | RtOpenMlsWorkspaceGroupAlreadyExists WorkspaceId
  | RtOpenMlsWorkspaceGroupMissing WorkspaceId
  | RtOpenMlsWorkspaceGroupInviteNotFound WorkspaceId DeviceId
  | RtOpenMlsWorkspaceRevocationPending WorkspaceId DeviceId
  | RtOpenMlsLocalGroupMissing WorkspaceId
  | RtOpenMlsChannelGroupCreatorRequired WorkspaceId ChannelId
  | RtOpenMlsChannelGroupAlreadyExists WorkspaceId ChannelId
  | RtOpenMlsChannelGroupMissing WorkspaceId ChannelId
  | RtOpenMlsChannelGroupInviteNotFound WorkspaceId ChannelId DeviceId
  | RtOpenMlsChannelRevocationPending WorkspaceId ChannelId DeviceId
  | RtContentKeyMissing WorkspaceId ChannelId string

section \<open>Paths\<close>

abbreviation RUNTIME_PATH_MAX_BYTES :: nat where "RUNTIME_PATH_MAX_BYTES \<equiv> 64 * 1024"
abbreviation RUNTIME_PASSPHRASE_MAX_BYTES :: nat where "RUNTIME_PASSPHRASE_MAX_BYTES \<equiv> 16 * 1024"

text \<open>\<open>PathBuf::join\<close>, and \<open>Path::strip_prefix\<close> for a path that was joined onto the prefix.\<close>

definition path_join :: "string \<Rightarrow> string \<Rightarrow> string" where
  "path_join base p =
     (if p \<noteq> [] \<and> hd p = CHR ''/'' then p
      else if base = [] \<or> last base = CHR ''/'' then base @ p
      else base @ ''/'' @ p)"

definition path_strip_prefix :: "string \<Rightarrow> string \<Rightarrow> string option" where
  "path_strip_prefix base p =
     (case strip_prefix base p of
        None \<Rightarrow> None
      | Some rest \<Rightarrow>
          if rest = [] \<or> hd rest = CHR ''/'' \<or> base = [] \<or> last base = CHR ''/''
          then Some (dropWhile (\<lambda>c. c = CHR ''/'') rest) else None)"

record RuntimePaths =
  rp_data_dir :: string
  rp_identity_file :: string
  rp_event_store :: string
  rp_search_index :: string
  rp_blob_store :: string
  rp_workspace_keys_dir :: string
  rp_blob_transfer_ledger :: string
  rp_compromise_response_ledger :: string

definition runtime_paths_new :: "string \<Rightarrow> string option \<Rightarrow> RuntimePaths" where
  "runtime_paths_new data_dir identity_file =
     \<lparr>rp_data_dir = data_dir,
      rp_identity_file = (case identity_file of Some p \<Rightarrow> p | None \<Rightarrow> path_join data_dir ''device.json''),
      rp_event_store = path_join data_dir ''events.db'',
      rp_search_index = path_join data_dir ''search.db'',
      rp_blob_store = path_join data_dir ''blobs'',
      rp_workspace_keys_dir = path_join data_dir ''keys'',
      rp_blob_transfer_ledger = path_join data_dir ''blob-transfer-ledger.json'',
      rp_compromise_response_ledger = path_join data_dir ''compromise-response-ledger.json''\<rparr>"

definition validate_runtime_path :: "string \<Rightarrow> string \<Rightarrow> RuntimeError + unit" where
  "validate_runtime_path path fld =
     (if length path = 0 then Inl (RtMetadataFieldRequired fld)
      else if length path > RUNTIME_PATH_MAX_BYTES
      then Inl (RtMetadataFieldTooLarge fld (length path) RUNTIME_PATH_MAX_BYTES)
      else Inr ())"

definition validate_runtime_paths :: "RuntimePaths \<Rightarrow> RuntimeError + unit" where
  "validate_runtime_paths paths =
     first_err
      [validate_runtime_path (rp_data_dir paths) ''data directory'',
       validate_runtime_path (rp_identity_file paths) ''identity file'',
       validate_runtime_path (rp_event_store paths) ''event store path'',
       validate_runtime_path (rp_search_index paths) ''search index path'',
       validate_runtime_path (rp_blob_store paths) ''blob store path'',
       validate_runtime_path (rp_workspace_keys_dir paths) ''workspace keys path'',
       validate_runtime_path (rp_blob_transfer_ledger paths) ''blob transfer ledger path'',
       validate_runtime_path (rp_compromise_response_ledger paths) ''compromise response ledger path'']"

definition normalize_runtime_identity_passphrase :: "string option \<Rightarrow> RuntimeError + string option" where
  "normalize_runtime_identity_passphrase passphrase =
     (case passphrase of
        Some p \<Rightarrow>
          if length p > RUNTIME_PASSPHRASE_MAX_BYTES
          then Inl (RtMetadataFieldTooLarge ''identity passphrase'' (length p) RUNTIME_PASSPHRASE_MAX_BYTES)
          else if trim p = [] then Inr None
          else Inr (Some p)
      | None \<Rightarrow> Inr None)"

section \<open>Files\<close>

type_synonym FileSystem = "(string, bytes) fmap"

definition read_local_metadata_file_with_limit ::
  "FileSystem \<Rightarrow> string \<Rightarrow> nat \<Rightarrow> string \<Rightarrow> RuntimeError + bytes option" where
  "read_local_metadata_file_with_limit files path max_bytes fld =
     (case fmlookup files path of
        None \<Rightarrow> Inr None
      | Some contents \<Rightarrow>
          if length contents > max_bytes
          then Inl (RtMetadataFieldTooLarge fld (length contents) max_bytes)
          else let bytes = take (max_bytes + 1) contents in
            if length bytes > max_bytes
            then Inl (RtMetadataFieldTooLarge fld (length bytes) max_bytes)
            else Inr (Some bytes))"

text \<open>The temporary file is renamed over the path once it is complete, a newline at its end.\<close>

definition write_secret_file :: "FileSystem \<Rightarrow> string \<Rightarrow> bytes \<Rightarrow> FileSystem" where
  "write_secret_file files path bytes = fmupd path (bytes @ [0x0A]) files"

definition remove_secret_file :: "FileSystem \<Rightarrow> string \<Rightarrow> FileSystem" where
  "remove_secret_file files path = fmdrop path files"

section \<open>Encrypted secrets\<close>

abbreviation LOCAL_SECRET_SCHEMA_VERSION :: u32 where "LOCAL_SECRET_SCHEMA_VERSION \<equiv> 1"
abbreviation LOCAL_SECRET_STORAGE :: string where "LOCAL_SECRET_STORAGE \<equiv> ''argon2id-aes-256-gcm-siv''"
abbreviation LOCAL_SECRET_KDF_ARGON2ID :: string where "LOCAL_SECRET_KDF_ARGON2ID \<equiv> ''argon2id''"
abbreviation LOCAL_SECRET_KDF_CONTEXT :: string where "LOCAL_SECRET_KDF_CONTEXT \<equiv> ''Chaft local secret file v1''"
abbreviation LOCAL_SECRET_SALT_LEN :: nat where "LOCAL_SECRET_SALT_LEN \<equiv> 16"
abbreviation LOCAL_SECRET_ARGON2_MEMORY_COST_KIB :: u32 where "LOCAL_SECRET_ARGON2_MEMORY_COST_KIB \<equiv> 64 * 1024"
abbreviation LOCAL_SECRET_ARGON2_TIME_COST :: u32 where "LOCAL_SECRET_ARGON2_TIME_COST \<equiv> 3"
abbreviation LOCAL_SECRET_ARGON2_PARALLELISM :: u32 where "LOCAL_SECRET_ARGON2_PARALLELISM \<equiv> 1"
abbreviation LOCAL_SECRET_KDF_OUTPUT_LEN :: u32 where "LOCAL_SECRET_KDF_OUTPUT_LEN \<equiv> 32"
abbreviation LOCAL_SECRET_FILE_MAX_BYTES :: nat where "LOCAL_SECRET_FILE_MAX_BYTES \<equiv> 16 * 1024 * 1024"
abbreviation LOCAL_SECRET_KIND_WORKSPACE_KEY :: string where "LOCAL_SECRET_KIND_WORKSPACE_KEY \<equiv> ''workspace-key''"
abbreviation LOCAL_SECRET_KIND_CHANNEL_KEY :: string where "LOCAL_SECRET_KIND_CHANNEL_KEY \<equiv> ''channel-key''"

record LocalSecretKdf =
  lk_name :: string
  lk_context :: string
  lk_salt :: bytes
  lk_memory_cost_kib :: u32
  lk_time_cost :: u32
  lk_parallelism :: u32
  lk_output_len :: u32

record PersistedEncryptedLocalSecret =
  pls_schema_version :: u32
  pls_storage :: string
  pls_secret_kind :: string
  pls_path_hint :: string
  pls_kdf :: LocalSecretKdf
  pls_sealed_payload :: SealedPayload

text \<open>The libraries below the store, and the JSON form of an encrypted secret.\<close>

record 'c SecretLib =
  store_lib :: "'c StoreLib"
  secret_to_vec_pretty :: "PersistedEncryptedLocalSecret \<Rightarrow> bytes"
  secret_from_slice :: "bytes \<Rightarrow> PersistedEncryptedLocalSecret option"

abbreviation ident_lib :: "'c SecretLib \<Rightarrow> 'c IdentityLib" where "ident_lib L \<equiv> ident (store_lib L)"

definition derive_local_secret_key :: "'c SecretLib \<Rightarrow> string \<Rightarrow> LocalSecretKdf \<Rightarrow> RuntimeError + ContentKey" where
  "derive_local_secret_key L passphrase kdf =
     (if lk_name kdf \<noteq> LOCAL_SECRET_KDF_ARGON2ID
        \<or> lk_context kdf \<noteq> LOCAL_SECRET_KDF_CONTEXT
        \<or> length (lk_salt kdf) \<noteq> LOCAL_SECRET_SALT_LEN
        \<or> lk_memory_cost_kib kdf \<noteq> LOCAL_SECRET_ARGON2_MEMORY_COST_KIB
        \<or> lk_time_cost kdf \<noteq> LOCAL_SECRET_ARGON2_TIME_COST
        \<or> lk_parallelism kdf \<noteq> LOCAL_SECRET_ARGON2_PARALLELISM
        \<or> lk_output_len kdf \<noteq> LOCAL_SECRET_KDF_OUTPUT_LEN
      then Inl RtUnsupportedLocalSecretFile
      else bind_res (map_err RtLocalSecretKdf (argon2id (ident_lib L) (lk_memory_cost_kib kdf) (lk_time_cost kdf)
          (lk_parallelism kdf) (lk_output_len kdf) passphrase (lk_salt kdf))) (\<lambda>bytes. Inr (ContentKey bytes)))"

definition local_secret_aad :: "string \<Rightarrow> string \<Rightarrow> LocalSecretKdf \<Rightarrow> bytes" where
  "local_secret_aad secret_kind path_hint kdf =
     as_bytes (''chaft:v1:local_secret:'' @ secret_kind @ '':'' @ path_hint @ '':'' @ lk_name kdf @ '':''
       @ lk_context kdf @ '':'') @ lk_salt kdf"

definition local_secret_key_id :: "string \<Rightarrow> string \<Rightarrow> string" where
  "local_secret_key_id secret_kind path_hint = ''local-secret:'' @ secret_kind @ '':'' @ path_hint"

definition encrypt_local_secret ::
  "'c SecretLib \<Rightarrow> bytes \<Rightarrow> bytes \<Rightarrow> string \<Rightarrow> string \<Rightarrow> string \<Rightarrow> bytes \<Rightarrow> RuntimeError + bytes" where
  "encrypt_local_secret L salt nonce secret_kind path_hint passphrase plaintext =
     (let kdf = \<lparr>lk_name = LOCAL_SECRET_KDF_ARGON2ID, lk_context = LOCAL_SECRET_KDF_CONTEXT, lk_salt = salt,
            lk_memory_cost_kib = LOCAL_SECRET_ARGON2_MEMORY_COST_KIB, lk_time_cost = LOCAL_SECRET_ARGON2_TIME_COST,
            lk_parallelism = LOCAL_SECRET_ARGON2_PARALLELISM, lk_output_len = LOCAL_SECRET_KDF_OUTPUT_LEN\<rparr>
      in bind_res (derive_local_secret_key L passphrase kdf) (\<lambda>wrapping_key.
         bind_res (map_err RtCrypto (seal_aes_256_gcm_siv (cipher (ident_lib L)) nonce
             (local_secret_key_id secret_kind path_hint) wrapping_key plaintext
             (local_secret_aad secret_kind path_hint kdf))) (\<lambda>sealed_payload.
         Inr (secret_to_vec_pretty L
           \<lparr>pls_schema_version = LOCAL_SECRET_SCHEMA_VERSION, pls_storage = LOCAL_SECRET_STORAGE,
            pls_secret_kind = secret_kind, pls_path_hint = path_hint, pls_kdf = kdf,
            pls_sealed_payload = sealed_payload\<rparr>))))"

definition open_local_secret ::
  "'c SecretLib \<Rightarrow> PersistedEncryptedLocalSecret \<Rightarrow> string \<Rightarrow> string \<Rightarrow> string option \<Rightarrow> RuntimeError + bytes" where
  "open_local_secret L encrypted secret_kind path_hint passphrase =
     (if pls_schema_version encrypted \<noteq> LOCAL_SECRET_SCHEMA_VERSION
        \<or> pls_storage encrypted \<noteq> LOCAL_SECRET_STORAGE \<or> pls_secret_kind encrypted \<noteq> secret_kind
      then Inl RtUnsupportedLocalSecretFile
      else if pls_path_hint encrypted \<noteq> path_hint then Inl RtInvalidLocalSecretFile
      else case passphrase of
        None \<Rightarrow> Inl RtLocalSecretPassphraseRequired
      | Some p \<Rightarrow>
          if trim p = [] then Inl RtLocalSecretPassphraseRequired
          else bind_res (derive_local_secret_key L p (pls_kdf encrypted)) (\<lambda>wrapping_key.
            if sp_aad (pls_sealed_payload encrypted) \<noteq> local_secret_aad secret_kind path_hint (pls_kdf encrypted)
            then Inl RtInvalidLocalSecretFile
            else map_err RtCrypto (open_aes_256_gcm_siv (cipher (ident_lib L)) wrapping_key
              (pls_sealed_payload encrypted))))"

definition open_serialized_local_secret ::
  "'c SecretLib \<Rightarrow> bytes \<Rightarrow> string \<Rightarrow> string \<Rightarrow> string option \<Rightarrow> RuntimeError + bytes option" where
  "open_serialized_local_secret L bytes secret_kind path_hint passphrase =
     (case secret_from_slice L bytes of
        None \<Rightarrow> Inr None
      | Some encrypted \<Rightarrow>
          if pls_storage encrypted \<noteq> LOCAL_SECRET_STORAGE then Inr None
          else bind_res (open_local_secret L encrypted secret_kind path_hint passphrase) (\<lambda>plaintext. Inr (Some plaintext)))"

section \<open>The runtime and its secret files\<close>

record LocalRuntime =
  rt_paths :: RuntimePaths
  rt_identity :: DeviceIdentity
  rt_identity_passphrase :: "string option"
  rt_store :: EventStore
  rt_files :: FileSystem
  rt_blobs :: BlobFiles

definition workspace_key_path :: "LocalRuntime \<Rightarrow> WorkspaceId \<Rightarrow> string" where
  "workspace_key_path rt workspace_id =
     path_join (rp_workspace_keys_dir (rt_paths rt)) (workspace_str workspace_id @ ''.json'')"

definition channel_key_path :: "LocalRuntime \<Rightarrow> WorkspaceId \<Rightarrow> ChannelId \<Rightarrow> string" where
  "channel_key_path rt workspace_id channel_id =
     path_join (path_join (path_join (rp_workspace_keys_dir (rt_paths rt)) (workspace_str workspace_id)) ''channels'')
       (channel_str channel_id @ ''.json'')"

definition openmls_workspace_group_path :: "LocalRuntime \<Rightarrow> WorkspaceId \<Rightarrow> string" where
  "openmls_workspace_group_path rt workspace_id =
     path_join (path_join (path_join (rp_workspace_keys_dir (rt_paths rt)) (workspace_str workspace_id)) ''mls-groups'')
       ''workspace.json''"

definition openmls_channel_groups_dir :: "LocalRuntime \<Rightarrow> WorkspaceId \<Rightarrow> string" where
  "openmls_channel_groups_dir rt workspace_id =
     path_join (path_join (path_join (rp_workspace_keys_dir (rt_paths rt)) (workspace_str workspace_id)) ''mls-groups'')
       ''channels''"

definition openmls_channel_group_path :: "LocalRuntime \<Rightarrow> WorkspaceId \<Rightarrow> ChannelId \<Rightarrow> string" where
  "openmls_channel_group_path rt workspace_id channel_id =
     path_join (openmls_channel_groups_dir rt workspace_id) (channel_str channel_id @ ''.json'')"

text \<open>\<open>Path::file_name\<close>, for a path that does not end in a separator.\<close>

definition path_file_name :: "string \<Rightarrow> string" where
  "path_file_name path = rev (takeWhile (\<lambda>c. c \<noteq> CHR ''/'') (rev path))"

definition openmls_group_secret_kind :: "string \<Rightarrow> string" where
  "openmls_group_secret_kind path =
     (if path_file_name path = ''workspace.json'' then ''openmls-workspace-group'' else ''openmls-channel-group'')"

definition local_secret_path_hint :: "LocalRuntime \<Rightarrow> string \<Rightarrow> string" where
  "local_secret_path_hint rt path =
     (case path_strip_prefix (rp_data_dir (rt_paths rt)) path of Some rest \<Rightarrow> rest | None \<Rightarrow> path)"

definition read_local_secret_file :: "'c SecretLib \<Rightarrow> LocalRuntime \<Rightarrow> string \<Rightarrow> string \<Rightarrow> RuntimeError + bytes" where
  "read_local_secret_file L rt path secret_kind =
     bind_res (read_local_metadata_file_with_limit (rt_files rt) path LOCAL_SECRET_FILE_MAX_BYTES ''local secret file'')
      (\<lambda>found. case found of
        None \<Rightarrow> Inl (RtIo IoNotFound)
      | Some bytes \<Rightarrow>
          bind_res (open_serialized_local_secret L bytes secret_kind (local_secret_path_hint rt path)
              (rt_identity_passphrase rt)) (\<lambda>opened.
            case opened of Some plaintext \<Rightarrow> Inr plaintext | None \<Rightarrow> Inr bytes))"

definition read_optional_openmls_secret_file ::
  "'c SecretLib \<Rightarrow> LocalRuntime \<Rightarrow> string \<Rightarrow> string \<Rightarrow> RuntimeError + bytes option" where
  "read_optional_openmls_secret_file L rt path secret_kind =
     (case read_local_secret_file L rt path secret_kind of
        Inr bytes \<Rightarrow> Inr (Some bytes)
      | Inl (RtIo IoNotFound) \<Rightarrow> Inr None
      | Inl err \<Rightarrow> Inl err)"

definition write_local_secret_file ::
  "'c SecretLib \<Rightarrow> bytes \<Rightarrow> bytes \<Rightarrow> LocalRuntime \<Rightarrow> string \<Rightarrow> string \<Rightarrow> bytes \<Rightarrow> RuntimeError + LocalRuntime" where
  "write_local_secret_file L salt nonce rt path secret_kind plaintext =
     bind_res
      (case rt_identity_passphrase rt of
         Some passphrase \<Rightarrow>
           encrypt_local_secret L salt nonce secret_kind (local_secret_path_hint rt path) passphrase plaintext
       | None \<Rightarrow> Inr plaintext)
      (\<lambda>bytes. Inr (rt\<lparr>rt_files := write_secret_file (rt_files rt) path bytes\<rparr>))"

end
