(* ===== verification/Content_Keys.thy ===== *)
theory Content_Keys
  imports Local_Secret
begin

text \<open>
  The content keys of a workspace and of its private channels, from \<^verbatim>\<open>src/runtime/src/content_keys.rs\<close>
  and the second half of \<^verbatim>\<open>local_secret_store.rs\<close>: generation, rotation, resolution by key identifier,
  the exported and the persisted form, and the key files.  The bytes of a fresh key are an argument;
  the JSON form of a persisted key is a parameter.  An epoch is a \<open>u64\<close> and its increment wraps.
\<close>

abbreviation WORKSPACE_KEY_LEN :: nat where "WORKSPACE_KEY_LEN \<equiv> 32"
abbreviation CONTENT_KEY_EXPORT_SCHEMA_VERSION :: u32 where "CONTENT_KEY_EXPORT_SCHEMA_VERSION \<equiv> 2"
abbreviation CONTENT_KEY_ALGORITHM_AES_256_GCM_SIV :: string where
  "CONTENT_KEY_ALGORITHM_AES_256_GCM_SIV \<equiv> ''aes-256-gcm-siv''"

section \<open>Records\<close>

record ExportedContentKeyMaterial =
  xm_key_id :: string
  xm_aes_256_gcm_siv_key :: bytes

record WorkspaceKeyExport =
  wx_schema_version :: u32
  wx_workspace_id :: string
  wx_epoch :: u64
  wx_key_id :: string
  wx_exporter_device_id :: string
  wx_aes_256_gcm_siv_key :: bytes
  wx_previous_keys :: "ExportedContentKeyMaterial list"

record ImportedWorkspaceKey =
  iw_workspace_id :: string
  iw_key_id :: string
  iw_importer_device_id :: string

record RotatedWorkspaceKey =
  rw_rotated_workspace_id :: string
  rw_previous_key_id :: string
  rw_key_id :: string
  rw_epoch :: u64
  rw_rotation_event_id :: string

record ChannelKeyExport =
  cx_schema_version :: u32
  cx_workspace_id :: string
  cx_channel_id :: string
  cx_epoch :: u64
  cx_key_id :: string
  cx_exporter_device_id :: string
  cx_aes_256_gcm_siv_key :: bytes
  cx_previous_keys :: "ExportedContentKeyMaterial list"

record ImportedChannelKey =
  ic_workspace_id :: string
  ic_channel_id :: string
  ic_key_id :: string
  ic_importer_device_id :: string

record RotatedChannelKey =
  rc_workspace_id :: string
  rc_channel_id :: string
  rc_previous_key_id :: string
  rc_key_id :: string
  rc_epoch :: u64
  rc_event_id :: string

record RotatedWorkspaceManualKeys =
  rm_workspace_id :: string
  rm_workspace_key_rotation :: RotatedWorkspaceKey
  rm_channel_key_rotation_count :: nat
  rm_channel_key_rotations :: "RotatedChannelKey list"
  rm_rotated_event_count :: nat
  rm_rotated_event_ids :: "string list"

record ResolvedContentKey =
  rk_key_id :: string
  rk_content_key :: ContentKey

record PersistedContentKeyMaterial =
  pm_key_id :: string
  pm_aes_256_gcm_siv_key :: bytes

record PersistedWorkspaceKey =
  pw_schema_version :: u32
  pw_workspace_id :: WorkspaceId
  pw_epoch :: u64
  pw_key_id :: string
  pw_aes_256_gcm_siv_key :: bytes
  pw_previous_keys :: "PersistedContentKeyMaterial list"

record PersistedChannelKey =
  pc_schema_version :: u32
  pc_workspace_id :: WorkspaceId
  pc_channel_id :: ChannelId
  pc_epoch :: u64
  pc_key_id :: string
  pc_aes_256_gcm_siv_key :: bytes
  pc_previous_keys :: "PersistedContentKeyMaterial list"

record ContentKeyMaterial =
  cm_key_id :: string
  cm_content_key :: ContentKey

record WorkspaceKey =
  wk_workspace_id :: WorkspaceId
  wk_epoch :: u64
  wk_key_id :: string
  wk_content_key :: ContentKey
  wk_previous_keys :: "ContentKeyMaterial list"

record ChannelKey =
  ck_workspace_id :: WorkspaceId
  ck_channel_id :: ChannelId
  ck_epoch :: u64
  ck_key_id :: string
  ck_content_key :: ContentKey
  ck_previous_keys :: "ContentKeyMaterial list"

text \<open>The libraries of the runtime: those of the secret files and the JSON form of persisted keys.\<close>

record 'c KeyLib =
  secret_lib :: "'c SecretLib"
  workspace_key_to_vec_pretty :: "PersistedWorkspaceKey \<Rightarrow> bytes"
  workspace_key_from_slice :: "bytes \<Rightarrow> PersistedWorkspaceKey option"
  channel_key_to_vec_pretty :: "PersistedChannelKey \<Rightarrow> bytes"
  channel_key_from_slice :: "bytes \<Rightarrow> PersistedChannelKey option"

section \<open>Key material\<close>

definition material_exported :: "ContentKeyMaterial \<Rightarrow> ExportedContentKeyMaterial" where
  "material_exported m = \<lparr>xm_key_id = cm_key_id m, xm_aes_256_gcm_siv_key = as_key_bytes (cm_content_key m)\<rparr>"

definition material_persisted :: "ContentKeyMaterial \<Rightarrow> PersistedContentKeyMaterial" where
  "material_persisted m = \<lparr>pm_key_id = cm_key_id m, pm_aes_256_gcm_siv_key = as_key_bytes (cm_content_key m)\<rparr>"

definition material_resolved :: "ContentKeyMaterial \<Rightarrow> ResolvedContentKey" where
  "material_resolved m = \<lparr>rk_key_id = cm_key_id m, rk_content_key = cm_content_key m\<rparr>"

definition content_key_from_mls_export :: "bytes \<Rightarrow> RuntimeError + ContentKey" where
  "content_key_from_mls_export raw_key =
     (if length raw_key = AES_256_GCM_SIV_KEY_LEN then Inr (ContentKey raw_key) else Inl RtInvalidWorkspaceKey)"

definition content_key_schema_supported :: "u32 \<Rightarrow> bool" where
  "content_key_schema_supported schema_version \<longleftrightarrow>
     schema_version = 1 \<or> schema_version = CONTENT_KEY_EXPORT_SCHEMA_VERSION"

definition decode_workspace_key_material :: "string \<Rightarrow> bytes \<Rightarrow> RuntimeError + ContentKeyMaterial" where
  "decode_workspace_key_material key_id raw_key =
     (if length raw_key \<noteq> WORKSPACE_KEY_LEN then Inl RtInvalidWorkspaceKey
      else Inr \<lparr>cm_key_id = key_id, cm_content_key = ContentKey raw_key\<rparr>)"

definition decode_channel_key_material :: "string \<Rightarrow> bytes \<Rightarrow> RuntimeError + ContentKeyMaterial" where
  "decode_channel_key_material key_id raw_key =
     (if length raw_key \<noteq> WORKSPACE_KEY_LEN then Inl RtInvalidChannelKey
      else Inr \<lparr>cm_key_id = key_id, cm_content_key = ContentKey raw_key\<rparr>)"

section \<open>Workspace keys\<close>

definition workspace_key_id_for_epoch :: "WorkspaceId \<Rightarrow> u64 \<Rightarrow> string" where
  "workspace_key_id_for_epoch workspace_id epoch =
     workspace_str workspace_id @ '':content:v'' @ show_decimal (unat epoch)"

definition workspace_key_generate :: "ContentKey \<Rightarrow> WorkspaceId \<Rightarrow> WorkspaceKey" where
  "workspace_key_generate generated workspace_id =
     (let epoch = 1 in
      \<lparr>wk_workspace_id = workspace_id, wk_epoch = epoch,
       wk_key_id = workspace_key_id_for_epoch workspace_id epoch,
       wk_content_key = generated, wk_previous_keys = []\<rparr>)"

definition workspace_key_from_bytes :: "'c KeyLib \<Rightarrow> bytes \<Rightarrow> RuntimeError + WorkspaceKey" where
  "workspace_key_from_bytes L bytes =
     bind_res (ok_or (workspace_key_from_slice L bytes) RtSerde) (\<lambda>persisted.
       if \<not> content_key_schema_supported (pw_schema_version persisted) then Inl RtInvalidWorkspaceKey
       else let epoch = max (pw_epoch persisted) 1 in
         if pw_key_id persisted \<noteq> workspace_key_id_for_epoch (pw_workspace_id persisted) epoch
         then Inl RtInvalidWorkspaceKey
         else bind_res (decode_workspace_key_material (pw_key_id persisted) (pw_aes_256_gcm_siv_key persisted))
           (\<lambda>material.
              bind_res (collect_results (map (\<lambda>key. decode_workspace_key_material (pm_key_id key)
                  (pm_aes_256_gcm_siv_key key)) (pw_previous_keys persisted))) (\<lambda>previous_keys.
                Inr \<lparr>wk_workspace_id = pw_workspace_id persisted, wk_epoch = epoch,
                  wk_key_id = pw_key_id persisted, wk_content_key = cm_content_key material,
                  wk_previous_keys = previous_keys\<rparr>)))"

definition workspace_key_from_export :: "WorkspaceKeyExport \<Rightarrow> RuntimeError + WorkspaceKey" where
  "workspace_key_from_export exported =
     (if \<not> content_key_schema_supported (wx_schema_version exported) then Inl RtUnsupportedWorkspaceKeyExport
      else let workspace_id = WorkspaceId (wx_workspace_id exported);
               epoch = max (wx_epoch exported) 1 in
        if wx_key_id exported \<noteq> workspace_key_id_for_epoch workspace_id epoch then Inl RtInvalidWorkspaceKey
        else bind_res (decode_workspace_key_material (wx_key_id exported) (wx_aes_256_gcm_siv_key exported))
          (\<lambda>material.
             bind_res (collect_results (map (\<lambda>key. decode_workspace_key_material (xm_key_id key)
                 (xm_aes_256_gcm_siv_key key)) (wx_previous_keys exported))) (\<lambda>previous_keys.
               Inr \<lparr>wk_workspace_id = workspace_id, wk_epoch = epoch, wk_key_id = wx_key_id exported,
                 wk_content_key = cm_content_key material, wk_previous_keys = previous_keys\<rparr>)))"

definition workspace_key_rotate :: "ContentKey \<Rightarrow> WorkspaceKey \<Rightarrow> WorkspaceKey" where
  "workspace_key_rotate generated key =
     (let next_epoch = wk_epoch key + 1;
          next_key_id = workspace_key_id_for_epoch (wk_workspace_id key) next_epoch in
      key\<lparr>wk_key_id := next_key_id, wk_content_key := generated,
        wk_previous_keys := wk_previous_keys key
          @ [\<lparr>cm_key_id = wk_key_id key, cm_content_key = wk_content_key key\<rparr>],
        wk_epoch := next_epoch\<rparr>)"

definition workspace_key_resolve_content_key :: "WorkspaceKey \<Rightarrow> string \<Rightarrow> ResolvedContentKey option" where
  "workspace_key_resolve_content_key key key_id =
     (if wk_key_id key = key_id
      then Some \<lparr>rk_key_id = wk_key_id key, rk_content_key = wk_content_key key\<rparr>
      else map_option material_resolved (find (\<lambda>m. cm_key_id m = key_id) (wk_previous_keys key)))"

definition workspace_key_exported_previous_keys :: "WorkspaceKey \<Rightarrow> ExportedContentKeyMaterial list" where
  "workspace_key_exported_previous_keys key = map material_exported (wk_previous_keys key)"

definition workspace_key_persisted :: "WorkspaceKey \<Rightarrow> PersistedWorkspaceKey" where
  "workspace_key_persisted key =
     \<lparr>pw_schema_version = CONTENT_KEY_EXPORT_SCHEMA_VERSION, pw_workspace_id = wk_workspace_id key,
      pw_epoch = wk_epoch key, pw_key_id = wk_key_id key,
      pw_aes_256_gcm_siv_key = as_key_bytes (wk_content_key key),
      pw_previous_keys = map material_persisted (wk_previous_keys key)\<rparr>"

definition resolved_of_workspace_key :: "WorkspaceKey \<Rightarrow> ResolvedContentKey" where
  "resolved_of_workspace_key key = \<lparr>rk_key_id = wk_key_id key, rk_content_key = wk_content_key key\<rparr>"

section \<open>Channel keys\<close>

definition channel_key_id_for_epoch :: "WorkspaceId \<Rightarrow> ChannelId \<Rightarrow> u64 \<Rightarrow> string" where
  "channel_key_id_for_epoch workspace_id channel_id epoch =
     workspace_str workspace_id @ '':'' @ channel_str channel_id @ '':content:v'' @ show_decimal (unat epoch)"

definition channel_key_generate :: "ContentKey \<Rightarrow> WorkspaceId \<Rightarrow> ChannelId \<Rightarrow> ChannelKey" where
  "channel_key_generate generated workspace_id channel_id =
     (let epoch = 1 in
      \<lparr>ck_workspace_id = workspace_id, ck_channel_id = channel_id, ck_epoch = epoch,
       ck_key_id = channel_key_id_for_epoch workspace_id channel_id epoch,
       ck_content_key = generated, ck_previous_keys = []\<rparr>)"

definition channel_key_from_bytes :: "'c KeyLib \<Rightarrow> bytes \<Rightarrow> RuntimeError + ChannelKey" where
  "channel_key_from_bytes L bytes =
     bind_res (ok_or (channel_key_from_slice L bytes) RtSerde) (\<lambda>persisted.
       if \<not> content_key_schema_supported (pc_schema_version persisted) then Inl RtInvalidChannelKey
       else let epoch = max (pc_epoch persisted) 1;
                expected_key_id = channel_key_id_for_epoch (pc_workspace_id persisted) (pc_channel_id persisted) epoch in
         if pc_key_id persisted \<noteq> expected_key_id then Inl RtInvalidChannelKey
         else bind_res (decode_channel_key_material (pc_key_id persisted) (pc_aes_256_gcm_siv_key persisted))
           (\<lambda>material.
              bind_res (collect_results (map (\<lambda>key. decode_channel_key_material (pm_key_id key)
                  (pm_aes_256_gcm_siv_key key)) (pc_previous_keys persisted))) (\<lambda>previous_keys.
                Inr \<lparr>ck_workspace_id = pc_workspace_id persisted, ck_channel_id = pc_channel_id persisted,
                  ck_epoch = epoch, ck_key_id = pc_key_id persisted,
                  ck_content_key = cm_content_key material, ck_previous_keys = previous_keys\<rparr>)))"

definition channel_key_from_export :: "ChannelKeyExport \<Rightarrow> RuntimeError + ChannelKey" where
  "channel_key_from_export exported =
     (if \<not> content_key_schema_supported (cx_schema_version exported) then Inl RtUnsupportedChannelKeyExport
      else let workspace_id = WorkspaceId (cx_workspace_id exported);
               channel_id = ChannelId (cx_channel_id exported);
               epoch = max (cx_epoch exported) 1 in
        if cx_key_id exported \<noteq> channel_key_id_for_epoch workspace_id channel_id epoch then Inl RtInvalidChannelKey
        else bind_res (decode_channel_key_material (cx_key_id exported) (cx_aes_256_gcm_siv_key exported))
          (\<lambda>material.
             bind_res (collect_results (map (\<lambda>key. decode_channel_key_material (xm_key_id key)
                 (xm_aes_256_gcm_siv_key key)) (cx_previous_keys exported))) (\<lambda>previous_keys.
               Inr \<lparr>ck_workspace_id = workspace_id, ck_channel_id = channel_id, ck_epoch = epoch,
                 ck_key_id = cx_key_id exported, ck_content_key = cm_content_key material,
                 ck_previous_keys = previous_keys\<rparr>)))"

definition channel_key_rotate :: "ContentKey \<Rightarrow> ChannelKey \<Rightarrow> ChannelKey" where
  "channel_key_rotate generated key =
     (let next_epoch = ck_epoch key + 1;
          next_key_id = channel_key_id_for_epoch (ck_workspace_id key) (ck_channel_id key) next_epoch in
      key\<lparr>ck_key_id := next_key_id, ck_content_key := generated,
        ck_previous_keys := ck_previous_keys key
          @ [\<lparr>cm_key_id = ck_key_id key, cm_content_key = ck_content_key key\<rparr>],
        ck_epoch := next_epoch\<rparr>)"

definition channel_key_resolve_content_key :: "ChannelKey \<Rightarrow> string \<Rightarrow> ResolvedContentKey option" where
  "channel_key_resolve_content_key key key_id =
     (if ck_key_id key = key_id
      then Some \<lparr>rk_key_id = ck_key_id key, rk_content_key = ck_content_key key\<rparr>
      else map_option material_resolved (find (\<lambda>m. cm_key_id m = key_id) (ck_previous_keys key)))"

definition channel_key_exported_previous_keys :: "ChannelKey \<Rightarrow> ExportedContentKeyMaterial list" where
  "channel_key_exported_previous_keys key = map material_exported (ck_previous_keys key)"

definition channel_key_persisted :: "ChannelKey \<Rightarrow> PersistedChannelKey" where
  "channel_key_persisted key =
     \<lparr>pc_schema_version = CONTENT_KEY_EXPORT_SCHEMA_VERSION, pc_workspace_id = ck_workspace_id key,
      pc_channel_id = ck_channel_id key, pc_epoch = ck_epoch key, pc_key_id = ck_key_id key,
      pc_aes_256_gcm_siv_key = as_key_bytes (ck_content_key key),
      pc_previous_keys = map material_persisted (ck_previous_keys key)\<rparr>"

definition resolved_of_channel_key :: "ChannelKey \<Rightarrow> ResolvedContentKey" where
  "resolved_of_channel_key key = \<lparr>rk_key_id = ck_key_id key, rk_content_key = ck_content_key key\<rparr>"

section \<open>Key files\<close>

definition load_workspace_key :: "'c KeyLib \<Rightarrow> LocalRuntime \<Rightarrow> WorkspaceId \<Rightarrow> RuntimeError + WorkspaceKey option" where
  "load_workspace_key L rt workspace_id =
     (case read_local_secret_file (secret_lib L) rt (workspace_key_path rt workspace_id)
          LOCAL_SECRET_KIND_WORKSPACE_KEY of
        Inr bytes \<Rightarrow> bind_res (workspace_key_from_bytes L bytes) (\<lambda>key. Inr (Some key))
      | Inl (RtIo IoNotFound) \<Rightarrow> Inr None
      | Inl err \<Rightarrow> Inl err)"

definition save_workspace_key ::
  "'c KeyLib \<Rightarrow> bytes \<Rightarrow> bytes \<Rightarrow> LocalRuntime \<Rightarrow> WorkspaceKey \<Rightarrow> RuntimeError + LocalRuntime" where
  "save_workspace_key L salt nonce rt key =
     write_local_secret_file (secret_lib L) salt nonce rt (workspace_key_path rt (wk_workspace_id key))
       LOCAL_SECRET_KIND_WORKSPACE_KEY (workspace_key_to_vec_pretty L (workspace_key_persisted key))"

definition load_channel_key ::
  "'c KeyLib \<Rightarrow> LocalRuntime \<Rightarrow> WorkspaceId \<Rightarrow> ChannelId \<Rightarrow> RuntimeError + ChannelKey option" where
  "load_channel_key L rt workspace_id channel_id =
     (case read_local_secret_file (secret_lib L) rt (channel_key_path rt workspace_id channel_id)
          LOCAL_SECRET_KIND_CHANNEL_KEY of
        Inr bytes \<Rightarrow> bind_res (channel_key_from_bytes L bytes) (\<lambda>key. Inr (Some key))
      | Inl (RtIo IoNotFound) \<Rightarrow> Inr None
      | Inl err \<Rightarrow> Inl err)"

definition save_channel_key ::
  "'c KeyLib \<Rightarrow> bytes \<Rightarrow> bytes \<Rightarrow> LocalRuntime \<Rightarrow> ChannelKey \<Rightarrow> RuntimeError + LocalRuntime" where
  "save_channel_key L salt nonce rt key =
     write_local_secret_file (secret_lib L) salt nonce rt
       (channel_key_path rt (ck_workspace_id key) (ck_channel_id key))
       LOCAL_SECRET_KIND_CHANNEL_KEY (channel_key_to_vec_pretty L (channel_key_persisted key))"

section \<open>Export and import\<close>

definition export_workspace_key ::
  "'c KeyLib \<Rightarrow> LocalRuntime \<Rightarrow> WorkspaceId \<Rightarrow> RuntimeError + WorkspaceKeyExport" where
  "export_workspace_key L rt workspace_id =
     bind_res (load_workspace_key L rt workspace_id) (\<lambda>found.
     bind_res (ok_or found RtInvalidWorkspaceKey) (\<lambda>workspace_key.
       Inr \<lparr>wx_schema_version = CONTENT_KEY_EXPORT_SCHEMA_VERSION,
         wx_workspace_id = workspace_str (wk_workspace_id workspace_key), wx_epoch = wk_epoch workspace_key,
         wx_key_id = wk_key_id workspace_key, wx_exporter_device_id = device_str (di_device_id (rt_identity rt)),
         wx_aes_256_gcm_siv_key = as_key_bytes (wk_content_key workspace_key),
         wx_previous_keys = workspace_key_exported_previous_keys workspace_key\<rparr>))"

text \<open>The import ends by rebuilding the search index and ignores the result: no part of this state changes.\<close>

definition import_workspace_key ::
  "'c KeyLib \<Rightarrow> bytes \<Rightarrow> bytes \<Rightarrow> LocalRuntime \<Rightarrow> WorkspaceKeyExport
     \<Rightarrow> RuntimeError + (LocalRuntime \<times> ImportedWorkspaceKey)" where
  "import_workspace_key L salt nonce rt exported =
     bind_res (workspace_key_from_export exported) (\<lambda>workspace_key.
       let imported = \<lparr>iw_workspace_id = workspace_str (wk_workspace_id workspace_key),
             iw_key_id = wk_key_id workspace_key, iw_importer_device_id = device_str (di_device_id (rt_identity rt))\<rparr> in
       bind_res (save_workspace_key L salt nonce rt workspace_key) (\<lambda>rt'. Inr (rt', imported)))"

definition export_channel_key ::
  "'c KeyLib \<Rightarrow> LocalRuntime \<Rightarrow> WorkspaceId \<Rightarrow> ChannelId \<Rightarrow> RuntimeError + ChannelKeyExport" where
  "export_channel_key L rt workspace_id channel_id =
     bind_res (load_channel_key L rt workspace_id channel_id) (\<lambda>found.
     bind_res (ok_or found RtInvalidChannelKey) (\<lambda>channel_key.
       Inr \<lparr>cx_schema_version = CONTENT_KEY_EXPORT_SCHEMA_VERSION,
         cx_workspace_id = workspace_str (ck_workspace_id channel_key),
         cx_channel_id = channel_str (ck_channel_id channel_key), cx_epoch = ck_epoch channel_key,
         cx_key_id = ck_key_id channel_key, cx_exporter_device_id = device_str (di_device_id (rt_identity rt)),
         cx_aes_256_gcm_siv_key = as_key_bytes (ck_content_key channel_key),
         cx_previous_keys = channel_key_exported_previous_keys channel_key\<rparr>))"

definition import_channel_key ::
  "'c KeyLib \<Rightarrow> bytes \<Rightarrow> bytes \<Rightarrow> LocalRuntime \<Rightarrow> ChannelKeyExport
     \<Rightarrow> RuntimeError + (LocalRuntime \<times> ImportedChannelKey)" where
  "import_channel_key L salt nonce rt exported =
     bind_res (channel_key_from_export exported) (\<lambda>channel_key.
       let imported = \<lparr>ic_workspace_id = workspace_str (ck_workspace_id channel_key),
             ic_channel_id = channel_str (ck_channel_id channel_key), ic_key_id = ck_key_id channel_key,
             ic_importer_device_id = device_str (di_device_id (rt_identity rt))\<rparr> in
       bind_res (save_channel_key L salt nonce rt channel_key) (\<lambda>rt'. Inr (rt', imported)))"

end
