(* ===== verification/Local_Write.thy ===== *)
theory Local_Write
  imports Content_Keys History
begin

text \<open>
  How a device writes to a workspace, from \<^verbatim>\<open>src/runtime/src/lib.rs\<close> and the end of \<^verbatim>\<open>content_keys.rs\<close>: the
  write context (the verified events of the store, materialised, and the heads of their causal graph),
  the choice of the content key, the signed and authorised append, and key rotation.  An operation
  returns the runtime next to its result, because what it changed before an error stays changed.  The
  clock, the random bytes and the export of a key from an MLS group (\<^verbatim>\<open>src/security/mls\<close>, a wrapper of the
  OpenMLS library) are arguments.
\<close>

section \<open>The environment\<close>

text \<open>
  The libraries, the iteration orders of two hash maps, \<open>export_group_content_key\<close>, which reads the
  identifier and the bytes of the content key off a serialised MLS group, and the library of the media store.
\<close>

record 'c RuntimeEnv =
  key_lib :: "'c KeyLib"
  invite_order :: invite_iteration
  origin_order :: origin_iteration
  export_group_content_key :: "bytes \<Rightarrow> string + (string \<times> bytes)"
  export_group_content_key_for_key_id :: "bytes \<Rightarrow> string \<Rightarrow> string + (string \<times> bytes) option"
  media_lib :: MediaLib

abbreviation env_store :: "'c RuntimeEnv \<Rightarrow> 'c StoreLib" where
  "env_store E \<equiv> store_lib (secret_lib (key_lib E))"

abbreviation own_device :: "LocalRuntime \<Rightarrow> DeviceId" where
  "own_device rt \<equiv> di_device_id (rt_identity rt)"

definition validate_identifier_size :: "IdValidationError + unit \<Rightarrow> RuntimeError + unit" where
  "validate_identifier_size result =
     map_err (\<lambda>err. RtMetadataFieldTooLarge (ive_field err) (ive_actual_bytes err) (ive_max_bytes err)) result"

definition validate_workspace_id_reference :: "WorkspaceId \<Rightarrow> RuntimeError + unit" where
  "validate_workspace_id_reference workspace_id =
     validate_identifier_size (validate_workspace_id_str (workspace_str workspace_id))"

section \<open>The events a device trusts\<close>

definition keep_verified ::
  "'c StoreLib \<Rightarrow> SignedEvent list \<Rightarrow> SignedEvent list \<times> bool \<Rightarrow> nat \<times> SignedEvent \<Rightarrow> SignedEvent list \<times> bool" where
  "keep_verified L events acc entry =
     (let (verified_events, found_invalid) = acc; (index, event) = entry;
          invalid_self_contained_signature =
            sg_author_public_key event \<noteq> [] \<and> verify_self_contained_event (ident L) event \<noteq> Inr ()
      in if invalid_self_contained_signature then
           (if \<not> found_invalid then (verified_events @ take index events, True) else (verified_events, found_invalid))
         else if found_invalid then (verified_events @ [event], found_invalid)
         else (verified_events, found_invalid))"

definition verified_local_events_for_runtime :: "'c StoreLib \<Rightarrow> SignedEvent list \<Rightarrow> SignedEvent list" where
  "verified_local_events_for_runtime L events =
     (let (verified_events, found_invalid) = foldl (keep_verified L events) ([], False) (enumerate 0 events)
      in if found_invalid then verified_events else events)"

section \<open>The write context\<close>

record WorkspaceWriteContext =
  wc_events :: "SignedEvent list"
  wc_state :: WorkspaceState
  wc_report :: MaterializationReport
  wc_head_event_ids :: "EventId list"

text \<open>The hash map of events by identifier, and the lookup that removes what it finds.\<close>

definition events_by_id :: "SignedEvent list \<Rightarrow> (EventId, SignedEvent) fmap" where
  "events_by_id events = foldl (\<lambda>m event. fmupd (sg_event_id event) event m) fmempty events"

fun take_events :: "(EventId, SignedEvent) fmap \<Rightarrow> EventId list \<Rightarrow> SignedEvent list" where
  "take_events m [] = []"
| "take_events m (event_id # rest) =
     (case fmlookup m event_id of
        None \<Rightarrow> take_events m rest
      | Some event \<Rightarrow> event # take_events (fmdrop event_id m) rest)"

definition referenced_parent_ids :: "EventId set \<Rightarrow> SignedEvent list \<Rightarrow> EventId set" where
  "referenced_parent_ids applied_event_ids events =
     foldl (\<lambda>acc event. acc \<union> set (filter (\<lambda>p. p \<in> applied_event_ids) (ev_parents event))) {}
       (filter (\<lambda>event. sg_event_id event \<in> applied_event_ids) events)"

definition workspace_head_event_ids_from_materialization ::
  "SignedEvent list \<Rightarrow> MaterializationReport \<Rightarrow> EventId list" where
  "workspace_head_event_ids_from_materialization events report =
     (let applied_event_ids = set (rep_applied_events report);
          referenced = referenced_parent_ids applied_event_ids events;
          heads = sorted_list_of_set (set (filter (\<lambda>i. i \<notin> referenced) (rep_applied_events report)))
      in if heads = [] then [last (rep_applied_events report)] else heads)"

definition workspace_write_context_from_materialized_events ::
  "'c RuntimeEnv \<Rightarrow> WorkspaceId \<Rightarrow> SignedEvent list \<Rightarrow> RuntimeError + WorkspaceWriteContext" where
  "workspace_write_context_from_materialized_events E workspace_id verified_events =
     then_res (validate_workspace_id_reference workspace_id)
      (case apply_batch (invite_order E) (state_new workspace_id) verified_events of
         Inl (err, _) \<Rightarrow> Inl (RtCore err)
       | Inr (state, report) \<Rightarrow>
           if rep_applied_events report = [] then Inl (RtWorkspaceHasNoEvents workspace_id)
           else let events = take_events (events_by_id verified_events) (rep_applied_events report) in
             Inr \<lparr>wc_events = events, wc_state = state, wc_report = report,
               wc_head_event_ids = workspace_head_event_ids_from_materialization events report\<rparr>)"

definition workspace_write_context ::
  "'c RuntimeEnv \<Rightarrow> LocalRuntime \<Rightarrow> WorkspaceId \<Rightarrow> RuntimeError + WorkspaceWriteContext" where
  "workspace_write_context E rt workspace_id =
     then_res (validate_workspace_id_reference workspace_id)
      (let raw_events = list_parseable_events_for_workspace (env_store E) (rt_store rt) (workspace_str workspace_id) in
       if raw_events = [] then Inl (RtWorkspaceHasNoEvents workspace_id)
       else workspace_write_context_from_materialized_events E workspace_id
         (verified_local_events_for_runtime (env_store E) raw_events))"

definition materialized_workspace_write_context ::
  "'c RuntimeEnv \<Rightarrow> LocalRuntime \<Rightarrow> WorkspaceId \<Rightarrow> RuntimeError + WorkspaceWriteContext" where
  "materialized_workspace_write_context E rt workspace_id =
     then_res (validate_workspace_id_reference workspace_id)
      (let raw_events = list_parseable_events_for_workspace (env_store E) (rt_store rt) (workspace_str workspace_id) in
       workspace_write_context_from_materialized_events E workspace_id
         (verified_local_events_for_runtime (env_store E) raw_events))"

section \<open>Materialised events and local permissions\<close>

record PulledWorkspaceGap =
  pg_event_id :: string
  pg_missing_parent_ids :: "string list"

definition materialized_workspace_events_with_gaps ::
  "'c RuntimeEnv \<Rightarrow> LocalRuntime \<Rightarrow> WorkspaceId \<Rightarrow> RuntimeError + (SignedEvent list \<times> PulledWorkspaceGap list)" where
  "materialized_workspace_events_with_gaps E rt workspace_id =
     then_res (validate_workspace_id_reference workspace_id)
      (let events = verified_local_events_for_runtime (env_store E)
             (list_parseable_events_for_workspace (env_store E) (rt_store rt) (workspace_str workspace_id)) in
       case apply_batch (invite_order E) (state_new workspace_id) events of
         Inl (err, _) \<Rightarrow> Inl (RtCore err)
       | Inr (_, report) \<Rightarrow>
           Inr (take_events (events_by_id events) (rep_applied_events report),
             map (\<lambda>gap. \<lparr>pg_event_id = event_str (gap_event_id gap),
                 pg_missing_parent_ids = map event_str (gap_missing_parent_ids gap)\<rparr>) (rep_gaps report)))"

definition materialized_workspace_events ::
  "'c RuntimeEnv \<Rightarrow> LocalRuntime \<Rightarrow> WorkspaceId \<Rightarrow> RuntimeError + SignedEvent list" where
  "materialized_workspace_events E rt workspace_id =
     bind_res (materialized_workspace_events_with_gaps E rt workspace_id) (\<lambda>(events, _). Inr events)"

definition materialized_state ::
  "'c RuntimeEnv \<Rightarrow> LocalRuntime \<Rightarrow> WorkspaceId \<Rightarrow> RuntimeError + WorkspaceState" where
  "materialized_state E rt workspace_id =
     bind_res (materialized_workspace_events E rt workspace_id) (\<lambda>events.
       case apply_batch (invite_order E) (state_new workspace_id) events of
         Inl (err, _) \<Rightarrow> Inl (RtCore err)
       | Inr (state, _) \<Rightarrow> Inr state)"

definition require_local_channel_access_in_state ::
  "LocalRuntime \<Rightarrow> WorkspaceState \<Rightarrow> ChannelId \<Rightarrow> RuntimeError + unit" where
  "require_local_channel_access_in_state rt state channel_id =
     (if \<not> contains_key (ws_channels state) channel_id then Inl (RtAuthorization (ChannelNotFound channel_id))
      else if \<not> channel_accessible_to state channel_id (own_device rt)
      then Inl (RtAuthorization (PrivateChannelAccessDenied channel_id (own_device rt)))
      else Inr ())"

definition require_local_channel_access ::
  "'c RuntimeEnv \<Rightarrow> LocalRuntime \<Rightarrow> WorkspaceId \<Rightarrow> ChannelId \<Rightarrow> RuntimeError + unit" where
  "require_local_channel_access E rt workspace_id channel_id =
     bind_res (materialized_state E rt workspace_id) (\<lambda>state.
       require_local_channel_access_in_state rt state channel_id)"

definition require_workspace_admin_in_state :: "LocalRuntime \<Rightarrow> WorkspaceState \<Rightarrow> string \<Rightarrow> RuntimeError + unit" where
  "require_workspace_admin_in_state rt state action =
     bind_res (ok_or (map_option wm_role (fmlookup (ws_members state) (own_device rt)))
         (RtAuthorization (NotAMember (own_device rt)))) (\<lambda>role.
       if role = Owner \<or> role = Admin then Inr () else Inl (RtAuthorization (InsufficientRole role action)))"

definition require_workspace_admin :: "'c RuntimeEnv \<Rightarrow> LocalRuntime \<Rightarrow> WorkspaceId \<Rightarrow> string \<Rightarrow> RuntimeError + unit" where
  "require_workspace_admin E rt workspace_id action =
     bind_res (materialized_state E rt workspace_id) (\<lambda>state. require_workspace_admin_in_state rt state action)"

section \<open>The content key of a write\<close>

text \<open>\<open>max_by_key\<close> keeps the last of several maxima.\<close>

definition announced_key :: "ChannelId option \<Rightarrow> SignedEvent \<Rightarrow> (u64 \<times> string) option" where
  "announced_key channel_id event =
     (case ev_body event of
        ContentKeyEpochPublished scope epoch key_id _ _ \<Rightarrow>
          if (case scope of ScopeWorkspace \<Rightarrow> channel_id = None | ScopeChannel c \<Rightarrow> channel_id = Some c)
          then Some (epoch, key_id) else None
      | _ \<Rightarrow> None)"

definition last_max :: "(u64 \<times> string) option \<Rightarrow> u64 \<times> string \<Rightarrow> (u64 \<times> string) option" where
  "last_max best x =
     (case best of None \<Rightarrow> Some x | Some b \<Rightarrow> if fst b \<le> fst x then Some x else Some b)"

definition latest_manual_content_key_id :: "SignedEvent list \<Rightarrow> ChannelId option \<Rightarrow> string option" where
  "latest_manual_content_key_id events channel_id =
     map_option snd (foldl last_max None (List.map_filter (announced_key channel_id) events))"

definition openmls_group_content_key ::
  "'c RuntimeEnv \<Rightarrow> LocalRuntime \<Rightarrow> string \<Rightarrow> RuntimeError + ResolvedContentKey option" where
  "openmls_group_content_key E rt private_group_state_path =
     bind_res (read_optional_openmls_secret_file (secret_lib (key_lib E)) rt private_group_state_path
         (openmls_group_secret_kind private_group_state_path)) (\<lambda>found.
       case found of
         None \<Rightarrow> Inr None
       | Some private_group_state \<Rightarrow>
           bind_res (map_err RtMls (export_group_content_key E private_group_state)) (\<lambda>(key_id, raw_key).
           bind_res (content_key_from_mls_export raw_key) (\<lambda>content_key.
             Inr (Some \<lparr>rk_key_id = key_id, rk_content_key = content_key\<rparr>))))"

definition openmls_group_content_key_for_key_id ::
  "'c RuntimeEnv \<Rightarrow> LocalRuntime \<Rightarrow> string \<Rightarrow> string \<Rightarrow> RuntimeError + ResolvedContentKey option" where
  "openmls_group_content_key_for_key_id E rt private_group_state_path key_id =
     bind_res (read_optional_openmls_secret_file (secret_lib (key_lib E)) rt private_group_state_path
         (openmls_group_secret_kind private_group_state_path)) (\<lambda>found.
       case found of
         None \<Rightarrow> Inr None
       | Some private_group_state \<Rightarrow>
           bind_res (map_err RtMls (export_group_content_key_for_key_id E private_group_state key_id)) (\<lambda>exported.
             case exported of
               None \<Rightarrow> Inr None
             | Some (exported_key_id, raw_key) \<Rightarrow>
                 bind_res (content_key_from_mls_export raw_key) (\<lambda>content_key.
                   Inr (Some \<lparr>rk_key_id = exported_key_id, rk_content_key = content_key\<rparr>))))"

definition openmls_workspace_content_key ::
  "'c RuntimeEnv \<Rightarrow> LocalRuntime \<Rightarrow> WorkspaceId \<Rightarrow> RuntimeError + ResolvedContentKey option" where
  "openmls_workspace_content_key E rt workspace_id =
     openmls_group_content_key E rt (openmls_workspace_group_path rt workspace_id)"

definition openmls_channel_content_key ::
  "'c RuntimeEnv \<Rightarrow> LocalRuntime \<Rightarrow> WorkspaceId \<Rightarrow> ChannelId \<Rightarrow> RuntimeError + ResolvedContentKey option" where
  "openmls_channel_content_key E rt workspace_id channel_id =
     openmls_group_content_key E rt (openmls_channel_group_path rt workspace_id channel_id)"

definition openmls_workspace_content_key_for_key_id ::
  "'c RuntimeEnv \<Rightarrow> LocalRuntime \<Rightarrow> WorkspaceId \<Rightarrow> string \<Rightarrow> RuntimeError + ResolvedContentKey option" where
  "openmls_workspace_content_key_for_key_id E rt workspace_id key_id =
     openmls_group_content_key_for_key_id E rt (openmls_workspace_group_path rt workspace_id) key_id"

definition openmls_channel_content_key_for_key_id ::
  "'c RuntimeEnv \<Rightarrow> LocalRuntime \<Rightarrow> WorkspaceId \<Rightarrow> ChannelId \<Rightarrow> string \<Rightarrow> RuntimeError + ResolvedContentKey option"
  where
  "openmls_channel_content_key_for_key_id E rt workspace_id channel_id key_id =
     openmls_group_content_key_for_key_id E rt (openmls_channel_group_path rt workspace_id channel_id) key_id"

definition content_key_for_local_write_in_state ::
  "'c RuntimeEnv \<Rightarrow> LocalRuntime \<Rightarrow> WorkspaceId \<Rightarrow> ChannelId \<Rightarrow> WorkspaceState \<Rightarrow> SignedEvent list
     \<Rightarrow> RuntimeError + ResolvedContentKey" where
  "content_key_for_local_write_in_state E rt workspace_id channel_id state events =
     bind_res (ok_or (fmlookup (ws_channels state) channel_id) (RtAuthorization (ChannelNotFound channel_id)))
      (\<lambda>channel.
        if cv_is_private channel then
          if \<not> channel_accessible_to state channel_id (own_device rt)
          then Inl (RtAuthorization (PrivateChannelAccessDenied channel_id (own_device rt)))
          else bind_res (openmls_channel_content_key E rt workspace_id channel_id) (\<lambda>openmls_key.
            case openmls_key of
              Some content_key \<Rightarrow> Inr content_key
            | None \<Rightarrow>
                bind_res (load_channel_key (key_lib E) rt workspace_id channel_id) (\<lambda>found.
                bind_res (ok_or found (RtChannelKeyMissing workspace_id channel_id)) (\<lambda>channel_key.
                  if (case latest_manual_content_key_id events (Some channel_id) of
                        None \<Rightarrow> False | Some key_id \<Rightarrow> key_id \<noteq> ck_key_id channel_key)
                  then Inl (RtChannelKeyMissing workspace_id channel_id)
                  else Inr (resolved_of_channel_key channel_key))))
        else bind_res (openmls_workspace_content_key E rt workspace_id) (\<lambda>openmls_key.
          case openmls_key of
            Some content_key \<Rightarrow> Inr content_key
          | None \<Rightarrow>
              bind_res (load_workspace_key (key_lib E) rt workspace_id) (\<lambda>found.
              bind_res (ok_or found RtInvalidWorkspaceKey) (\<lambda>workspace_key.
                if (case latest_manual_content_key_id events None of
                      None \<Rightarrow> False | Some key_id \<Rightarrow> key_id \<noteq> wk_key_id workspace_key)
                then Inl RtInvalidWorkspaceKey
                else Inr (resolved_of_workspace_key workspace_key)))))"

definition content_key_for_materialized_payload ::
  "'c RuntimeEnv \<Rightarrow> LocalRuntime \<Rightarrow> WorkspaceId \<Rightarrow> ChannelId \<Rightarrow> WorkspaceState \<Rightarrow> WorkspaceKey option \<Rightarrow> string
     \<Rightarrow> RuntimeError + ResolvedContentKey option" where
  "content_key_for_materialized_payload E rt workspace_id channel_id state workspace_key key_id =
     (case fmlookup (ws_channels state) channel_id of
        None \<Rightarrow> Inr None
      | Some channel \<Rightarrow>
          if cv_is_private channel then
            bind_res (openmls_channel_content_key_for_key_id E rt workspace_id channel_id key_id) (\<lambda>openmls_key.
              case openmls_key of
                Some content_key \<Rightarrow> Inr (Some content_key)
              | None \<Rightarrow> bind_res (load_channel_key (key_lib E) rt workspace_id channel_id) (\<lambda>key.
                  Inr (Option.bind key (\<lambda>k. channel_key_resolve_content_key k key_id))))
          else
            bind_res (openmls_workspace_content_key_for_key_id E rt workspace_id key_id) (\<lambda>openmls_key.
              case openmls_key of
                Some content_key \<Rightarrow> Inr (Some content_key)
              | None \<Rightarrow> Inr (Option.bind workspace_key (\<lambda>k. workspace_key_resolve_content_key k key_id))))"

section \<open>The append\<close>

definition append_signed :: "'c RuntimeEnv \<Rightarrow> LocalRuntime \<Rightarrow> SignedEvent \<Rightarrow> LocalRuntime \<times> (RuntimeError + SignedEvent)" where
  "append_signed E rt event =
     attempt rt (map_err RtStore (append_event (env_store E) (rt_store rt) event)) (\<lambda>store.
       (rt\<lparr>rt_store := store\<rparr>, Inr event))"

definition sign_authorize_and_append_with_history ::
  "'c RuntimeEnv \<Rightarrow> LocalRuntime \<Rightarrow> SignableEvent \<Rightarrow> SignedEvent list \<Rightarrow> LocalRuntime \<times> (RuntimeError + SignedEvent)"
  where
  "sign_authorize_and_append_with_history E rt event history =
     (let signed_event = sign_event (ident (env_store E)) (rt_identity rt) event in
      attempt rt (map_err RtAuthorization (authorize_event_with_history (origin_order E) history signed_event)) (\<lambda>_.
        append_signed E rt signed_event))"

definition sign_authorize_and_append ::
  "'c RuntimeEnv \<Rightarrow> LocalRuntime \<Rightarrow> SignableEvent \<Rightarrow> LocalRuntime \<times> (RuntimeError + SignedEvent)" where
  "sign_authorize_and_append E rt event =
     sign_authorize_and_append_with_history E rt event
       (list_parseable_events_for_workspace (env_store E) (rt_store rt) (workspace_str (se_workspace_id event)))"

definition sign_authorize_save_key_and_append_with_history ::
  "'c RuntimeEnv \<Rightarrow> LocalRuntime \<Rightarrow> SignableEvent \<Rightarrow> SignedEvent list \<Rightarrow> (LocalRuntime \<Rightarrow> RuntimeError + LocalRuntime)
     \<Rightarrow> LocalRuntime \<times> (RuntimeError + SignedEvent)" where
  "sign_authorize_save_key_and_append_with_history E rt event history save_key =
     (let signed_event = sign_event (ident (env_store E)) (rt_identity rt) event in
      attempt rt (map_err RtAuthorization (authorize_event_with_history (origin_order E) history signed_event)) (\<lambda>_.
      attempt rt (save_key rt) (\<lambda>rt'. append_signed E rt' signed_event)))"

section \<open>Key rotation\<close>

definition rotate_workspace_key ::
  "'c RuntimeEnv \<Rightarrow> HybridTimestamp \<Rightarrow> bytes \<Rightarrow> bytes \<Rightarrow> ContentKey \<Rightarrow> LocalRuntime \<Rightarrow> WorkspaceId
     \<Rightarrow> LocalRuntime \<times> (RuntimeError + RotatedWorkspaceKey)" where
  "rotate_workspace_key E now salt nonce generated rt workspace_id =
     attempt rt (materialized_workspace_write_context E rt workspace_id) (\<lambda>context.
     attempt rt (load_workspace_key (key_lib E) rt workspace_id) (\<lambda>found.
     attempt rt (ok_or found RtInvalidWorkspaceKey) (\<lambda>loaded.
       let previous_key_id = wk_key_id loaded;
           workspace_key = workspace_key_rotate generated loaded;
           event = signable_event_new now workspace_id None (own_device rt)
             (ContentKeyEpochPublished ScopeWorkspace (wk_epoch workspace_key) (wk_key_id workspace_key)
               (Some previous_key_id) CONTENT_KEY_ALGORITHM_AES_256_GCM_SIV)
       in and_then (sign_authorize_save_key_and_append_with_history E rt
             (event\<lparr>se_parents := wc_head_event_ids context\<rparr>) (wc_events context)
             (\<lambda>runtime. save_workspace_key (key_lib E) salt nonce runtime workspace_key)) (\<lambda>rt' event.
           (rt', Inr \<lparr>rw_rotated_workspace_id = workspace_str workspace_id, rw_previous_key_id = previous_key_id,
              rw_key_id = wk_key_id workspace_key, rw_epoch = wk_epoch workspace_key,
              rw_rotation_event_id = event_str (sg_event_id event)\<rparr>)))))"

definition rotate_channel_key ::
  "'c RuntimeEnv \<Rightarrow> HybridTimestamp \<Rightarrow> bytes \<Rightarrow> bytes \<Rightarrow> ContentKey \<Rightarrow> LocalRuntime \<Rightarrow> WorkspaceId \<Rightarrow> ChannelId
     \<Rightarrow> LocalRuntime \<times> (RuntimeError + RotatedChannelKey)" where
  "rotate_channel_key E now salt nonce generated rt workspace_id channel_id =
     attempt rt (materialized_workspace_write_context E rt workspace_id) (\<lambda>context.
     attempt rt (load_channel_key (key_lib E) rt workspace_id channel_id) (\<lambda>found.
     attempt rt (ok_or found (RtChannelKeyMissing workspace_id channel_id)) (\<lambda>loaded.
       let previous_key_id = ck_key_id loaded;
           channel_key = channel_key_rotate generated loaded;
           event = signable_event_new now workspace_id (Some channel_id) (own_device rt)
             (ContentKeyEpochPublished (ScopeChannel channel_id) (ck_epoch channel_key) (ck_key_id channel_key)
               (Some previous_key_id) CONTENT_KEY_ALGORITHM_AES_256_GCM_SIV)
       in and_then (sign_authorize_save_key_and_append_with_history E rt
             (event\<lparr>se_parents := wc_head_event_ids context\<rparr>) (wc_events context)
             (\<lambda>runtime. save_channel_key (key_lib E) salt nonce runtime channel_key)) (\<lambda>rt' event.
           (rt', Inr \<lparr>rc_workspace_id = workspace_str workspace_id, rc_channel_id = channel_str channel_id,
              rc_previous_key_id = previous_key_id, rc_key_id = ck_key_id channel_key,
              rc_epoch = ck_epoch channel_key, rc_event_id = event_str (sg_event_id event)\<rparr>)))))"

text \<open>The channels for which the device keeps a manual key: \<open>exists\<close> looks the key file up.\<close>

definition local_private_channel_key_ids ::
  "'c RuntimeEnv \<Rightarrow> LocalRuntime \<Rightarrow> WorkspaceId \<Rightarrow> RuntimeError + ChannelId list" where
  "local_private_channel_key_ids E rt workspace_id =
     bind_res (materialized_state E rt workspace_id) (\<lambda>state.
       Inr (sort (map cv_channel_id (filter (\<lambda>channel. cv_is_private channel
           \<and> contains_key (rt_files rt) (channel_key_path rt workspace_id (cv_channel_id channel)))
         (map snd (sorted_list_of_fmap (ws_channels state)))))))"

text \<open>\<open>inputs n\<close> gives the clock, salt, nonce and fresh key of the n-th rotation.\<close>

fun rotate_channel_keys ::
  "'c RuntimeEnv \<Rightarrow> (nat \<Rightarrow> HybridTimestamp \<times> bytes \<times> bytes \<times> ContentKey) \<Rightarrow> nat \<Rightarrow> LocalRuntime \<Rightarrow> WorkspaceId
     \<Rightarrow> ChannelId list \<Rightarrow> LocalRuntime \<times> (RuntimeError + RotatedChannelKey list)" where
  "rotate_channel_keys E inputs n rt workspace_id [] = (rt, Inr [])"
| "rotate_channel_keys E inputs n rt workspace_id (channel_id # rest) =
     (let (now, salt, nonce, generated) = inputs n in
      and_then (rotate_channel_key E now salt nonce generated rt workspace_id channel_id) (\<lambda>rt rotation.
      and_then (rotate_channel_keys E inputs (Suc n) rt workspace_id rest) (\<lambda>rt rotations.
        (rt, Inr (rotation # rotations)))))"

definition rotate_workspace_manual_keys ::
  "'c RuntimeEnv \<Rightarrow> (nat \<Rightarrow> HybridTimestamp \<times> bytes \<times> bytes \<times> ContentKey) \<Rightarrow> LocalRuntime \<Rightarrow> WorkspaceId
     \<Rightarrow> LocalRuntime \<times> (RuntimeError + RotatedWorkspaceManualKeys)" where
  "rotate_workspace_manual_keys E inputs rt workspace_id =
     (let (now, salt, nonce, generated) = inputs 0 in
      and_then (rotate_workspace_key E now salt nonce generated rt workspace_id) (\<lambda>rt workspace_key_rotation.
      attempt rt (local_private_channel_key_ids E rt workspace_id) (\<lambda>channel_ids.
      and_then (rotate_channel_keys E inputs 1 rt workspace_id channel_ids) (\<lambda>rt channel_key_rotations.
        let rotated_event_ids = rw_rotation_event_id workspace_key_rotation # map rc_event_id channel_key_rotations in
        (rt, Inr \<lparr>rm_workspace_id = workspace_str workspace_id, rm_workspace_key_rotation = workspace_key_rotation,
           rm_channel_key_rotation_count = length channel_key_rotations,
           rm_channel_key_rotations = channel_key_rotations,
           rm_rotated_event_count = length rotated_event_ids, rm_rotated_event_ids = rotated_event_ids\<rparr>)))))"

end
