(* ===== verification/Local_Actions.thy ===== *)
theory Local_Actions
  imports Local_Write
begin

text \<open>
  The actions a device performs on its workspaces, from \<^verbatim>\<open>src/runtime/src/workspace_actions.rs\<close>: creating
  workspaces and channels, profiles, endpoints, invites and join requests, roles and policies, messages,
  reactions and read markers.  Each takes the readings of the clock and the fresh identifiers as
  arguments.  The search index, which messages are added to after the append, is not part of the state.
  The actions on MLS groups are in \<open>Group_Actions\<close>, the removals in \<open>Member_Removal\<close>, inviting members and
  opening channels to them in \<open>Provisioning\<close>.
\<close>

section \<open>Checks\<close>

definition validate_message_markdown_size :: "string \<Rightarrow> RuntimeError + unit" where
  "validate_message_markdown_size markdown =
     ensure (length markdown \<le> MESSAGE_MARKDOWN_MAX_BYTES)
       (RtMessageMarkdownTooLarge (length markdown) MESSAGE_MARKDOWN_MAX_BYTES)"

definition validate_metadata_field_size :: "string \<Rightarrow> string \<Rightarrow> nat \<Rightarrow> RuntimeError + unit" where
  "validate_metadata_field_size fld val max_bytes =
     ensure (length val \<le> max_bytes) (RtMetadataFieldTooLarge fld (length val) max_bytes)"

definition validate_channel_id_reference :: "ChannelId \<Rightarrow> RuntimeError + unit" where
  "validate_channel_id_reference channel_id =
     validate_identifier_size (validate_channel_id_str (channel_str channel_id))"

definition validate_message_id_reference :: "MessageId \<Rightarrow> RuntimeError + unit" where
  "validate_message_id_reference message_id =
     validate_identifier_size (validate_message_id_str (message_str message_id))"

definition validate_device_id_reference :: "DeviceId \<Rightarrow> RuntimeError + unit" where
  "validate_device_id_reference device_id =
     validate_metadata_field_size ''device ID'' (device_str device_id) DEVICE_ID_MAX_BYTES"

definition normalize_avatar_id :: "string \<Rightarrow> RuntimeError + string" where
  "normalize_avatar_id avatar_id =
     (let avatar_id = trim avatar_id in
      then_res (validate_metadata_field_size ''avatar ID'' avatar_id AVATAR_ID_MAX_BYTES)
       (then_res (map_err (\<lambda>_. RtInvalidAvatarId) (validate_avatar_id_str avatar_id)) (Inr avatar_id)))"

definition option_filter :: "('a \<Rightarrow> bool) \<Rightarrow> 'a option \<Rightarrow> 'a option" where
  "option_filter P x = (case x of Some v \<Rightarrow> if P v then Some v else None | None \<Rightarrow> None)"

definition check_some :: "'a option \<Rightarrow> ('a \<Rightarrow> 'e + unit) \<Rightarrow> 'e + unit" where
  "check_some x f = (case x of Some v \<Rightarrow> f v | None \<Rightarrow> Inr ())"

section \<open>The event of a local write\<close>

text \<open>\<open>SignableEvent::new\<close> with the heads of the context as parents, then signed, authorised and stored.\<close>

definition local_event ::
  "HybridTimestamp \<Rightarrow> LocalRuntime \<Rightarrow> WorkspaceId \<Rightarrow> ChannelId option \<Rightarrow> EventId list \<Rightarrow> EventBody \<Rightarrow> SignableEvent" where
  "local_event now rt workspace_id channel_id parents body =
     (signable_event_new now workspace_id channel_id (own_device rt) body)\<lparr>se_parents := parents\<rparr>"

definition write_event ::
  "'c RuntimeEnv \<Rightarrow> HybridTimestamp \<Rightarrow> LocalRuntime \<Rightarrow> WorkspaceId \<Rightarrow> ChannelId option \<Rightarrow> WorkspaceWriteContext
     \<Rightarrow> EventBody \<Rightarrow> LocalRuntime \<times> (RuntimeError + SignedEvent)" where
  "write_event E now rt workspace_id channel_id context body =
     sign_authorize_and_append_with_history E rt
       (local_event now rt workspace_id channel_id (wc_head_event_ids context) body) (wc_events context)"

section \<open>Workspaces and channels\<close>

record CreatedWorkspace =
  cw_workspace_id :: string
  cw_channel_id :: string
  cw_owner_device_id :: string
  cw_access_policy :: WorkspaceAccessPolicy
  cw_workspace_event_id :: string
  cw_access_policy_event_id :: "string option"
  cw_channel_event_id :: string

datatype ChannelAccessProvisioningState =
  ProvReady | MlsWelcomePublished | KeyPackagePending | GroupPending | RevocationPending | ProvFailed

record CreatedChannel =
  cc_workspace_id :: string
  cc_channel_id :: string
  cc_event_id :: string
  cc_provisioning_state :: ChannelAccessProvisioningState
  cc_provisioning_error :: "string option"

text \<open>
  \<open>now\<close> gives the three readings of the clock; \<open>workspace_id\<close>, \<open>channel_id\<close> and \<open>generated\<close> are the random
  identifiers and key.
\<close>

definition create_workspace_with_access_policy ::
  "'c RuntimeEnv \<Rightarrow> (nat \<Rightarrow> HybridTimestamp) \<Rightarrow> bytes \<Rightarrow> bytes \<Rightarrow> WorkspaceId \<Rightarrow> ChannelId \<Rightarrow> ContentKey
     \<Rightarrow> LocalRuntime \<Rightarrow> string \<Rightarrow> string \<Rightarrow> WorkspaceAccessPolicy \<Rightarrow> LocalRuntime \<times> (RuntimeError + CreatedWorkspace)" where
  "create_workspace_with_access_policy E now salt nonce workspace_id channel_id generated rt name
       default_channel_name access_policy =
     attempt rt (validate_metadata_field_size ''workspace name'' name WORKSPACE_NAME_MAX_BYTES) (\<lambda>_.
     attempt rt (validate_metadata_field_size ''default channel name'' default_channel_name CHANNEL_NAME_MAX_BYTES) (\<lambda>_.
     attempt rt (save_workspace_key (key_lib E) salt nonce rt (workspace_key_generate generated workspace_id)) (\<lambda>rt.
     and_then (append_signed E rt (sign_event (ident (env_store E)) (rt_identity rt)
         (local_event (now 0) rt workspace_id None [] (WorkspaceCreated name)))) (\<lambda>rt workspace.
     and_then
       (if access_policy = InviteOnly then (rt, Inr None)
        else and_then (sign_authorize_and_append E rt (local_event (now 1) rt workspace_id None
               [sg_event_id workspace] (WorkspaceAccessPolicyUpdated access_policy)))
             (\<lambda>rt event. (rt, Inr (Some (sg_event_id event))))) (\<lambda>rt access_policy_event_id.
     and_then (sign_authorize_and_append E rt (local_event (now 2) rt workspace_id None
         [case access_policy_event_id of Some event_id \<Rightarrow> event_id | None \<Rightarrow> sg_event_id workspace]
         (ChannelCreated channel_id default_channel_name False))) (\<lambda>rt channel.
       (rt, Inr \<lparr>cw_workspace_id = workspace_str workspace_id, cw_channel_id = channel_str channel_id,
          cw_owner_device_id = device_str (own_device rt), cw_access_policy = access_policy,
          cw_workspace_event_id = event_str (sg_event_id workspace),
          cw_access_policy_event_id = map_option event_str access_policy_event_id,
          cw_channel_event_id = event_str (sg_event_id channel)\<rparr>)))))))"

definition create_workspace ::
  "'c RuntimeEnv \<Rightarrow> (nat \<Rightarrow> HybridTimestamp) \<Rightarrow> bytes \<Rightarrow> bytes \<Rightarrow> WorkspaceId \<Rightarrow> ChannelId \<Rightarrow> ContentKey
     \<Rightarrow> LocalRuntime \<Rightarrow> string \<Rightarrow> string \<Rightarrow> LocalRuntime \<times> (RuntimeError + CreatedWorkspace)" where
  "create_workspace E now salt nonce workspace_id channel_id generated rt name default_channel_name =
     create_workspace_with_access_policy E now salt nonce workspace_id channel_id generated rt name
       default_channel_name InviteOnly"

definition create_channel ::
  "'c RuntimeEnv \<Rightarrow> HybridTimestamp \<Rightarrow> bytes \<Rightarrow> bytes \<Rightarrow> ChannelId \<Rightarrow> ContentKey \<Rightarrow> LocalRuntime \<Rightarrow> WorkspaceId
     \<Rightarrow> string \<Rightarrow> bool \<Rightarrow> LocalRuntime \<times> (RuntimeError + CreatedChannel)" where
  "create_channel E now salt nonce channel_id generated rt workspace_id name is_private =
     attempt rt (validate_metadata_field_size ''channel name'' name CHANNEL_NAME_MAX_BYTES) (\<lambda>_.
     attempt rt (workspace_write_context E rt workspace_id) (\<lambda>context.
       let channel_key = (if is_private then Some (channel_key_generate generated workspace_id channel_id) else None);
           channel = sign_event (ident (env_store E)) (rt_identity rt)
             (local_event now rt workspace_id None (wc_head_event_ids context) (ChannelCreated channel_id name is_private))
       in attempt rt (map_err RtAuthorization
             (authorize_event_with_history (origin_order E) (wc_events context) channel)) (\<lambda>_.
          attempt rt (case channel_key of Some key \<Rightarrow> save_channel_key (key_lib E) salt nonce rt key | None \<Rightarrow> Inr rt) (\<lambda>rt.
          and_then (append_signed E rt channel) (\<lambda>rt channel.
            (rt, Inr \<lparr>cc_workspace_id = workspace_str workspace_id, cc_channel_id = channel_str channel_id,
               cc_event_id = event_str (sg_event_id channel), cc_provisioning_state = ProvReady,
               cc_provisioning_error = None\<rparr>))))))"

record UpdatedChannelDetails =
  ud_workspace_id :: string
  ud_channel_id :: string
  ud_name :: "string option"
  ud_topic :: "string option"
  ud_archived :: "bool option"
  ud_event_id :: string

definition update_channel_details ::
  "'c RuntimeEnv \<Rightarrow> HybridTimestamp \<Rightarrow> LocalRuntime \<Rightarrow> WorkspaceId \<Rightarrow> ChannelId \<Rightarrow> string option \<Rightarrow> string option
     \<Rightarrow> LocalRuntime \<times> (RuntimeError + UpdatedChannelDetails)" where
  "update_channel_details E now rt workspace_id channel_id name topic =
     attempt rt (validate_channel_id_reference channel_id) (\<lambda>_.
     if name = None \<and> topic = None then (rt, Inl (RtMetadataFieldRequired ''channel details''))
     else let name = option_filter (\<lambda>n. n \<noteq> []) (map_option trim name) in
     if name = None \<and> topic = None then (rt, Inl (RtMetadataFieldRequired ''channel name''))
     else attempt rt (check_some name (\<lambda>n. validate_metadata_field_size ''channel name'' n CHANNEL_NAME_MAX_BYTES)) (\<lambda>_.
     let topic = map_option trim topic in
     attempt rt (check_some topic (\<lambda>t. validate_metadata_field_size ''channel topic'' t CHANNEL_TOPIC_MAX_BYTES)) (\<lambda>_.
     attempt rt (workspace_write_context E rt workspace_id) (\<lambda>context.
     and_then (write_event E now rt workspace_id None context (ChannelDetailsUpdated channel_id name topic None)) (\<lambda>rt event.
       (rt, Inr \<lparr>ud_workspace_id = workspace_str workspace_id, ud_channel_id = channel_str channel_id, ud_name = name,
          ud_topic = topic, ud_archived = None, ud_event_id = event_str (sg_event_id event)\<rparr>))))))"

definition update_channel_archive ::
  "'c RuntimeEnv \<Rightarrow> HybridTimestamp \<Rightarrow> LocalRuntime \<Rightarrow> WorkspaceId \<Rightarrow> ChannelId \<Rightarrow> bool
     \<Rightarrow> LocalRuntime \<times> (RuntimeError + UpdatedChannelDetails)" where
  "update_channel_archive E now rt workspace_id channel_id archived =
     attempt rt (validate_channel_id_reference channel_id) (\<lambda>_.
     attempt rt (workspace_write_context E rt workspace_id) (\<lambda>context.
     and_then (write_event E now rt workspace_id None context
         (ChannelDetailsUpdated channel_id None None (Some archived))) (\<lambda>rt event.
       (rt, Inr \<lparr>ud_workspace_id = workspace_str workspace_id, ud_channel_id = channel_str channel_id, ud_name = None,
          ud_topic = None, ud_archived = Some archived, ud_event_id = event_str (sg_event_id event)\<rparr>))))"

section \<open>Profiles\<close>

record UpdatedDeviceProfile =
  up_workspace_id :: string
  up_device_id :: string
  up_display_name :: string
  up_avatar_id :: string
  up_event_id :: string

text \<open>The state that the profile actions materialise again from the events of the context.\<close>

definition rematerialize :: "'c RuntimeEnv \<Rightarrow> WorkspaceId \<Rightarrow> SignedEvent list \<Rightarrow> RuntimeError + WorkspaceState" where
  "rematerialize E workspace_id events =
     (case apply_batch (invite_order E) (state_new workspace_id) events of
        Inl (err, _) \<Rightarrow> Inl (RtCore err)
      | Inr (state, _) \<Rightarrow> Inr state)"

definition not_blank :: "string \<Rightarrow> bool" where
  "not_blank s \<longleftrightarrow> trim s \<noteq> []"

definition or_else :: "'a option \<Rightarrow> 'a option \<Rightarrow> 'a option" where
  "or_else x y = (case x of Some v \<Rightarrow> Some v | None \<Rightarrow> y)"

definition unwrap_or :: "'a option \<Rightarrow> 'a \<Rightarrow> 'a" where
  "unwrap_or x d = (case x of Some v \<Rightarrow> v | None \<Rightarrow> d)"

definition update_device_profile_fields ::
  "'c RuntimeEnv \<Rightarrow> HybridTimestamp \<Rightarrow> LocalRuntime \<Rightarrow> WorkspaceId \<Rightarrow> string \<Rightarrow> string option
     \<Rightarrow> LocalRuntime \<times> (RuntimeError + UpdatedDeviceProfile)" where
  "update_device_profile_fields E now rt workspace_id display_name avatar_id =
     (let display_name = trim display_name in
      if display_name = [] then (rt, Inl RtDisplayNameRequired)
      else attempt rt (validate_metadata_field_size ''display name'' display_name DEVICE_DISPLAY_NAME_MAX_BYTES) (\<lambda>_.
      attempt rt (workspace_write_context E rt workspace_id) (\<lambda>context.
      attempt rt (rematerialize E workspace_id (wc_events context)) (\<lambda>state.
      let device_id = own_device rt;
          existing = fmlookup (ws_profiles state) device_id;
          current_avatar_id = unwrap_or
            (or_else (option_filter not_blank (map_option dp_avatar_id existing))
              (map_option pp_avatar_id (Option.bind (fmlookup (ws_person_device_links state) device_id)
                (\<lambda>link. fmlookup (ws_person_profiles state) (pl_person_id link))))) [];
          requested_avatar_id = unwrap_or (option_filter not_blank avatar_id) current_avatar_id in
      attempt rt (normalize_avatar_id requested_avatar_id) (\<lambda>avatar_id.
      case option_filter (\<lambda>p. dp_display_name p = display_name \<and> dp_avatar_id p = avatar_id) existing of
        Some profile \<Rightarrow>
          (rt, Inr \<lparr>up_workspace_id = workspace_str workspace_id, up_device_id = device_str device_id,
             up_display_name = display_name, up_avatar_id = avatar_id,
             up_event_id = event_str (dp_updated_event_id profile)\<rparr>)
      | None \<Rightarrow>
          and_then (write_event E now rt workspace_id None context (DeviceProfileUpdated display_name avatar_id)) (\<lambda>rt event.
            (rt, Inr \<lparr>up_workspace_id = workspace_str workspace_id, up_device_id = device_str (own_device rt),
               up_display_name = display_name, up_avatar_id = avatar_id,
               up_event_id = event_str (sg_event_id event)\<rparr>)))))))"

definition update_device_profile ::
  "'c RuntimeEnv \<Rightarrow> HybridTimestamp \<Rightarrow> LocalRuntime \<Rightarrow> WorkspaceId \<Rightarrow> string
     \<Rightarrow> LocalRuntime \<times> (RuntimeError + UpdatedDeviceProfile)" where
  "update_device_profile E now rt workspace_id display_name =
     update_device_profile_fields E now rt workspace_id display_name None"

definition update_device_profile_with_avatar ::
  "'c RuntimeEnv \<Rightarrow> HybridTimestamp \<Rightarrow> LocalRuntime \<Rightarrow> WorkspaceId \<Rightarrow> string \<Rightarrow> string
     \<Rightarrow> LocalRuntime \<times> (RuntimeError + UpdatedDeviceProfile)" where
  "update_device_profile_with_avatar E now rt workspace_id display_name avatar_id =
     update_device_profile_fields E now rt workspace_id display_name (Some avatar_id)"

record UpdatedPersonProfile =
  uq_workspace_id :: string
  uq_person_id :: string
  uq_device_id :: string
  uq_display_name :: string
  uq_avatar_id :: string
  uq_link_event_id :: "string option"
  uq_profile_event_id :: string

definition update_person_profile_fields ::
  "'c RuntimeEnv \<Rightarrow> (nat \<Rightarrow> HybridTimestamp) \<Rightarrow> LocalRuntime \<Rightarrow> WorkspaceId \<Rightarrow> PersonId \<Rightarrow> string \<Rightarrow> string option
     \<Rightarrow> LocalRuntime \<times> (RuntimeError + UpdatedPersonProfile)" where
  "update_person_profile_fields E now rt workspace_id person_id display_name avatar_id =
     attempt rt (validate_workspace_id_reference workspace_id) (\<lambda>_.
     attempt rt (validate_metadata_field_size ''person ID'' (person_str person_id) PERSON_ID_MAX_BYTES) (\<lambda>_.
     let display_name = trim display_name in
     if display_name = [] then (rt, Inl RtDisplayNameRequired)
     else attempt rt (validate_metadata_field_size ''display name'' display_name DEVICE_DISPLAY_NAME_MAX_BYTES) (\<lambda>_.
     attempt rt (workspace_write_context E rt workspace_id) (\<lambda>context.
     attempt rt (rematerialize E workspace_id (wc_events context)) (\<lambda>state.
     let device_id = own_device rt;
         existing = fmlookup (ws_person_profiles state) person_id;
         current_avatar_id = unwrap_or
           (or_else (option_filter not_blank (map_option pp_avatar_id existing))
             (map_option dp_avatar_id (fmlookup (ws_profiles state) device_id))) [];
         requested_avatar_id = unwrap_or (option_filter not_blank avatar_id) current_avatar_id in
     attempt rt (normalize_avatar_id requested_avatar_id) (\<lambda>avatar_id.
     let already_linked = (case fmlookup (ws_person_device_links state) device_id of
           Some link \<Rightarrow> pl_person_id link = person_id | None \<Rightarrow> False) in
     and_then
       (if already_linked then (rt, Inr (None, wc_events context, wc_head_event_ids context))
        else and_then (sign_authorize_and_append_with_history E rt
               (local_event (now 0) rt workspace_id None (wc_head_event_ids context) (PersonDeviceLinked person_id device_id))
               (wc_events context)) (\<lambda>rt link.
             (rt, Inr (Some (event_str (sg_event_id link)), wc_events context @ [link], [sg_event_id link]))))
       (\<lambda>rt (link_event_id, history, parents).
     case option_filter (\<lambda>p. pp_display_name p = display_name \<and> pp_avatar_id p = avatar_id) existing of
       Some profile \<Rightarrow>
         (rt, Inr \<lparr>uq_workspace_id = workspace_str workspace_id, uq_person_id = person_str person_id,
            uq_device_id = device_str device_id, uq_display_name = display_name, uq_avatar_id = avatar_id,
            uq_link_event_id = link_event_id, uq_profile_event_id = event_str (pp_updated_event_id profile)\<rparr>)
     | None \<Rightarrow>
         and_then (sign_authorize_and_append_with_history E rt
             (local_event (now 1) rt workspace_id None parents (PersonProfileUpdated person_id display_name avatar_id))
             history) (\<lambda>rt profile.
           (rt, Inr \<lparr>uq_workspace_id = workspace_str workspace_id, uq_person_id = person_str person_id,
              uq_device_id = device_str device_id, uq_display_name = display_name, uq_avatar_id = avatar_id,
              uq_link_event_id = link_event_id, uq_profile_event_id = event_str (sg_event_id profile)\<rparr>)))))))))"

definition update_person_profile ::
  "'c RuntimeEnv \<Rightarrow> (nat \<Rightarrow> HybridTimestamp) \<Rightarrow> LocalRuntime \<Rightarrow> WorkspaceId \<Rightarrow> PersonId \<Rightarrow> string
     \<Rightarrow> LocalRuntime \<times> (RuntimeError + UpdatedPersonProfile)" where
  "update_person_profile E now rt workspace_id person_id display_name =
     update_person_profile_fields E now rt workspace_id person_id display_name None"

definition update_person_profile_with_avatar ::
  "'c RuntimeEnv \<Rightarrow> (nat \<Rightarrow> HybridTimestamp) \<Rightarrow> LocalRuntime \<Rightarrow> WorkspaceId \<Rightarrow> PersonId \<Rightarrow> string \<Rightarrow> string
     \<Rightarrow> LocalRuntime \<times> (RuntimeError + UpdatedPersonProfile)" where
  "update_person_profile_with_avatar E now rt workspace_id person_id display_name avatar_id =
     update_person_profile_fields E now rt workspace_id person_id display_name (Some avatar_id)"

text \<open>\<open>fresh_person\<close> is the random identifier of \<open>PersonId::default\<close>.\<close>

definition update_local_person_profile_fields ::
  "'c RuntimeEnv \<Rightarrow> (nat \<Rightarrow> HybridTimestamp) \<Rightarrow> PersonId \<Rightarrow> LocalRuntime \<Rightarrow> WorkspaceId \<Rightarrow> string \<Rightarrow> string option
     \<Rightarrow> LocalRuntime \<times> (RuntimeError + UpdatedPersonProfile)" where
  "update_local_person_profile_fields E now fresh_person rt workspace_id display_name avatar_id =
     attempt rt (validate_workspace_id_reference workspace_id) (\<lambda>_.
     let display_name = trim display_name in
     if display_name = [] then (rt, Inl RtDisplayNameRequired)
     else attempt rt (validate_metadata_field_size ''display name'' display_name DEVICE_DISPLAY_NAME_MAX_BYTES) (\<lambda>_.
     attempt rt (workspace_write_context E rt workspace_id) (\<lambda>context.
     attempt rt (rematerialize E workspace_id (wc_events context)) (\<lambda>state.
     let person_id = unwrap_or (map_option pl_person_id (fmlookup (ws_person_device_links state) (own_device rt)))
           fresh_person in
     update_person_profile_fields E now rt workspace_id person_id display_name avatar_id))))"

definition update_local_person_profile ::
  "'c RuntimeEnv \<Rightarrow> (nat \<Rightarrow> HybridTimestamp) \<Rightarrow> PersonId \<Rightarrow> LocalRuntime \<Rightarrow> WorkspaceId \<Rightarrow> string
     \<Rightarrow> LocalRuntime \<times> (RuntimeError + UpdatedPersonProfile)" where
  "update_local_person_profile E now fresh_person rt workspace_id display_name =
     update_local_person_profile_fields E now fresh_person rt workspace_id display_name None"

definition update_local_person_profile_with_avatar ::
  "'c RuntimeEnv \<Rightarrow> (nat \<Rightarrow> HybridTimestamp) \<Rightarrow> PersonId \<Rightarrow> LocalRuntime \<Rightarrow> WorkspaceId \<Rightarrow> string \<Rightarrow> string
     \<Rightarrow> LocalRuntime \<times> (RuntimeError + UpdatedPersonProfile)" where
  "update_local_person_profile_with_avatar E now fresh_person rt workspace_id display_name avatar_id =
     update_local_person_profile_fields E now fresh_person rt workspace_id display_name (Some avatar_id)"

end
