(* ===== verification/Local_Messages.thy ===== *)
theory Local_Messages
  imports Local_Actions
begin

text \<open>
  Messages, reactions and read markers, from \<^verbatim>\<open>src/runtime/src/workspace_actions.rs\<close>, the sealing of
  attachments from \<^verbatim>\<open>attachment_runtime.rs\<close> and the lookups of \<^verbatim>\<open>lib.rs\<close> they use.
\<close>

section \<open>Lookups\<close>

definition message_view_from_state :: "WorkspaceState \<Rightarrow> WorkspaceId \<Rightarrow> MessageId \<Rightarrow> RuntimeError + MessageView" where
  "message_view_from_state state workspace_id message_id =
     then_res (validate_message_id_reference message_id)
      (ok_or (fmlookup (ws_messages state) message_id) (RtMessageNotFound workspace_id message_id))"

definition message_channel_id_from_state :: "WorkspaceState \<Rightarrow> WorkspaceId \<Rightarrow> MessageId \<Rightarrow> RuntimeError + ChannelId" where
  "message_channel_id_from_state state workspace_id message_id =
     bind_res (message_view_from_state state workspace_id message_id) (\<lambda>message. Inr (mv_channel_id message))"

text \<open>What makes an event a point up to which a channel can be read.\<close>

definition reads_channel :: "ChannelId \<Rightarrow> SignedEvent \<Rightarrow> bool" where
  "reads_channel channel_id event =
     (case ev_body event of
        MessageCreated _ _ _ \<Rightarrow> ev_channel event = Some channel_id
      | MessageCreatedEncrypted _ _ _ \<Rightarrow> ev_channel event = Some channel_id
      | MessageReplyCreated _ _ _ _ \<Rightarrow> ev_channel event = Some channel_id
      | MessageReplyCreatedEncrypted _ _ _ _ \<Rightarrow> ev_channel event = Some channel_id
      | ChannelCreated created_channel_id _ _ \<Rightarrow> created_channel_id = channel_id
      | DirectMessageChannelCreated created_channel_id _ _ \<Rightarrow> created_channel_id = channel_id
      | _ \<Rightarrow> False)"

fun last_read_point :: "SignedEvent list \<Rightarrow> ChannelId \<Rightarrow> EventId list \<Rightarrow> EventId option" where
  "last_read_point events channel_id [] = None"
| "last_read_point events channel_id (event_id # rest) =
     (case find (\<lambda>event. sg_event_id event = event_id) events of
        None \<Rightarrow> last_read_point events channel_id rest
      | Some event \<Rightarrow>
          if reads_channel channel_id event then Some event_id else last_read_point events channel_id rest)"

definition latest_channel_read_event_id_from_context ::
  "WorkspaceWriteContext \<Rightarrow> WorkspaceId \<Rightarrow> ChannelId \<Rightarrow> RuntimeError + EventId" where
  "latest_channel_read_event_id_from_context context workspace_id channel_id =
     then_res (validate_channel_id_reference channel_id)
      (if \<not> contains_key (ws_channels (wc_state context)) channel_id
       then Inl (RtChannelNotFound workspace_id channel_id)
       else ok_or (last_read_point (wc_events context) channel_id (rev (rep_applied_events (wc_report context))))
         (RtChannelNotFound workspace_id channel_id))"

definition channel_is_read_through_in_state :: "WorkspaceState \<Rightarrow> DeviceId \<Rightarrow> ChannelId \<Rightarrow> EventId \<Rightarrow> bool" where
  "channel_is_read_through_in_state state device_id channel_id read_through_event_id \<longleftrightarrow>
     Option.bind (fmlookup (ws_read_markers state) device_id) (\<lambda>channels. fmlookup channels channel_id)
       = Some read_through_event_id"

section \<open>Attachments\<close>

record PendingAttachment =
  pa_display_name :: string
  pa_media_type :: string
  pa_plaintext :: bytes

definition attachment_id_for_message_slot :: "MessageId \<Rightarrow> nat \<Rightarrow> string" where
  "attachment_id_for_message_slot message_id attachment_index =
     ''att_'' @ message_str message_id @ ''_'' @ show_decimal attachment_index"

definition validate_attachment_plaintext_size :: "u64 \<Rightarrow> RuntimeError + unit" where
  "validate_attachment_plaintext_size actual_bytes =
     (if actual_bytes > ATTACHMENT_PLAINTEXT_MAX_BYTES
      then Inl (RtAttachmentFileTooLarge actual_bytes ATTACHMENT_PLAINTEXT_MAX_BYTES) else Inr ())"

text \<open>\<open>open_blob_store\<close>: the store is the one of the runtime, if its path is acceptable.\<close>

definition open_blob_store :: "LocalRuntime \<Rightarrow> RuntimeError + BlobFiles" where
  "open_blob_store rt =
     bind_res (map_err RtMedia (blob_store_open (rp_blob_store (rt_paths rt)))) (\<lambda>_. Inr (rt_blobs rt))"

text \<open>A blob is put into the store of the runtime.\<close>

definition put_runtime_blob :: "MediaLib \<Rightarrow> LocalRuntime \<Rightarrow> bytes \<Rightarrow> LocalRuntime \<times> (RuntimeError + BlobDescriptor)" where
  "put_runtime_blob M rt content =
     (let (blobs, r) = blob_store_put_bytes M (rt_blobs rt) content in (rt\<lparr>rt_blobs := blobs\<rparr>, map_err RtMedia r))"

definition seal_and_store_attachment ::
  "'c RuntimeEnv \<Rightarrow> bytes \<Rightarrow> LocalRuntime \<Rightarrow> WorkspaceId \<Rightarrow> ChannelId \<Rightarrow> MessageId \<Rightarrow> ResolvedContentKey \<Rightarrow> nat
     \<Rightarrow> PendingAttachment \<Rightarrow> LocalRuntime \<times> (RuntimeError + AttachmentRef)" where
  "seal_and_store_attachment E nonce rt workspace_id channel_id message_id content_key index pending =
     (let byte_count = word_of_nat (length (pa_plaintext pending)) in
      attempt rt (validate_attachment_plaintext_size byte_count) (\<lambda>_.
      attempt rt (map_err RtCrypto (seal_attachment_blob (cipher (ident (env_store E))) nonce (rk_key_id content_key)
          (rk_content_key content_key) workspace_id channel_id message_id (word_of_nat index) (pa_plaintext pending)))
        (\<lambda>sealed.
      attempt rt (map_err RtCrypto (encrypted_blob_ref_from_payload sealed byte_count)) (\<lambda>encryption.
      and_then (put_runtime_blob (media_lib E) rt (sp_bytes sealed)) (\<lambda>rt descriptor.
        (rt, Inr \<lparr>att_blob_hash = bd_hash descriptor,
          att_media_type = (if pa_media_type pending = [] then ''application/octet-stream'' else pa_media_type pending),
          att_byte_len = bd_byte_len descriptor, att_display_name = pa_display_name pending,
          att_attachment_id = attachment_id_for_message_slot message_id index,
          att_encryption = Some encryption\<rparr>))))))"

text \<open>\<open>nonces\<close> gives the nonce of each attachment.  The loop, from position \<open>index\<close> on.\<close>

fun store_attachments_from ::
  "'c RuntimeEnv \<Rightarrow> (nat \<Rightarrow> bytes) \<Rightarrow> LocalRuntime \<Rightarrow> WorkspaceId \<Rightarrow> ChannelId \<Rightarrow> MessageId \<Rightarrow> ResolvedContentKey \<Rightarrow> nat
     \<Rightarrow> PendingAttachment list \<Rightarrow> LocalRuntime \<times> (RuntimeError + AttachmentRef list)" where
  "store_attachments_from E nonces rt workspace_id channel_id message_id content_key index [] = (rt, Inr [])"
| "store_attachments_from E nonces rt workspace_id channel_id message_id content_key index (pending # rest) =
     and_then (seal_and_store_attachment E (nonces index) rt workspace_id channel_id message_id content_key index pending)
       (\<lambda>rt attachment.
     and_then (store_attachments_from E nonces rt workspace_id channel_id message_id content_key (Suc index) rest)
       (\<lambda>rt attachments. (rt, Inr (attachment # attachments))))"

definition seal_and_store_attachments ::
  "'c RuntimeEnv \<Rightarrow> (nat \<Rightarrow> bytes) \<Rightarrow> LocalRuntime \<Rightarrow> WorkspaceId \<Rightarrow> ChannelId \<Rightarrow> MessageId \<Rightarrow> ResolvedContentKey
     \<Rightarrow> PendingAttachment list \<Rightarrow> LocalRuntime \<times> (RuntimeError + AttachmentRef list)" where
  "seal_and_store_attachments E nonces rt workspace_id channel_id message_id content_key pending_attachments =
     (if pending_attachments = [] then (rt, Inr [])
      else attempt rt (open_blob_store rt) (\<lambda>_.
        store_attachments_from E nonces rt workspace_id channel_id message_id content_key 0 pending_attachments))"

section \<open>Messages\<close>

record CreatedMessage =
  me_workspace_id :: string
  me_channel_id :: string
  me_message_id :: string
  me_reply_to_message_id :: "string option"
  me_event_id :: string
  me_encrypted :: bool
  me_attachment_count :: nat

text \<open>\<open>nonce\<close> is that of the text, \<open>nonces\<close> those of the attachments, \<open>message_id\<close> the random identifier.\<close>

definition send_message_with_attachments ::
  "'c RuntimeEnv \<Rightarrow> HybridTimestamp \<Rightarrow> bytes \<Rightarrow> (nat \<Rightarrow> bytes) \<Rightarrow> MessageId \<Rightarrow> LocalRuntime \<Rightarrow> WorkspaceId \<Rightarrow> ChannelId
     \<Rightarrow> string \<Rightarrow> MessageId option \<Rightarrow> PendingAttachment list \<Rightarrow> LocalRuntime \<times> (RuntimeError + CreatedMessage)" where
  "send_message_with_attachments E now nonce nonces message_id rt workspace_id channel_id markdown
       reply_to_message_id pending_attachments =
     attempt rt (validate_workspace_id_reference workspace_id) (\<lambda>_.
     attempt rt (validate_channel_id_reference channel_id) (\<lambda>_.
     attempt rt (check_some reply_to_message_id validate_message_id_reference) (\<lambda>_.
     attempt rt (validate_message_markdown_size markdown) (\<lambda>_.
     attempt rt (workspace_write_context E rt workspace_id) (\<lambda>context.
     attempt rt (content_key_for_local_write_in_state E rt workspace_id channel_id (wc_state context)
         (wc_events context)) (\<lambda>content_key.
     and_then (seal_and_store_attachments E nonces rt workspace_id channel_id message_id content_key
         pending_attachments) (\<lambda>rt attachments.
     attempt rt (map_err RtCrypto (seal_message_markdown (cipher (ident (env_store E))) nonce (rk_key_id content_key)
         (rk_content_key content_key) workspace_id channel_id message_id markdown)) (\<lambda>sealed_markdown.
     and_then (write_event E now rt workspace_id (Some channel_id) context
         (case reply_to_message_id of
            Some reply_to \<Rightarrow> MessageReplyCreatedEncrypted message_id reply_to sealed_markdown attachments
          | None \<Rightarrow> MessageCreatedEncrypted message_id sealed_markdown attachments)) (\<lambda>rt message.
       (rt, Inr \<lparr>me_workspace_id = workspace_str workspace_id, me_channel_id = channel_str channel_id,
          me_message_id = message_str message_id, me_reply_to_message_id = map_option message_str reply_to_message_id,
          me_event_id = event_str (sg_event_id message), me_encrypted = True,
          me_attachment_count = (case ev_body message of
            MessageCreatedEncrypted _ _ attachments \<Rightarrow> length attachments
          | MessageReplyCreatedEncrypted _ _ _ attachments \<Rightarrow> length attachments
          | _ \<Rightarrow> 0)\<rparr>))))))))))"

definition send_message ::
  "'c RuntimeEnv \<Rightarrow> HybridTimestamp \<Rightarrow> bytes \<Rightarrow> MessageId \<Rightarrow> LocalRuntime \<Rightarrow> WorkspaceId \<Rightarrow> ChannelId \<Rightarrow> string
     \<Rightarrow> LocalRuntime \<times> (RuntimeError + CreatedMessage)" where
  "send_message E now nonce message_id rt workspace_id channel_id markdown =
     send_message_with_attachments E now nonce (\<lambda>_. []) message_id rt workspace_id channel_id markdown None []"

definition send_message_reply ::
  "'c RuntimeEnv \<Rightarrow> HybridTimestamp \<Rightarrow> bytes \<Rightarrow> MessageId \<Rightarrow> LocalRuntime \<Rightarrow> WorkspaceId \<Rightarrow> ChannelId \<Rightarrow> MessageId \<Rightarrow> string
     \<Rightarrow> LocalRuntime \<times> (RuntimeError + CreatedMessage)" where
  "send_message_reply E now nonce message_id rt workspace_id channel_id reply_to_message_id markdown =
     send_message_with_attachments E now nonce (\<lambda>_. []) message_id rt workspace_id channel_id markdown
       (Some reply_to_message_id) []"

record EditedMessage =
  ed_workspace_id :: string
  ed_channel_id :: string
  ed_message_id :: string
  ed_event_id :: string
  ed_encrypted :: bool

definition edit_message ::
  "'c RuntimeEnv \<Rightarrow> HybridTimestamp \<Rightarrow> bytes \<Rightarrow> LocalRuntime \<Rightarrow> WorkspaceId \<Rightarrow> MessageId \<Rightarrow> string
     \<Rightarrow> LocalRuntime \<times> (RuntimeError + EditedMessage)" where
  "edit_message E now nonce rt workspace_id message_id markdown =
     attempt rt (validate_workspace_id_reference workspace_id) (\<lambda>_.
     attempt rt (validate_message_id_reference message_id) (\<lambda>_.
     attempt rt (validate_message_markdown_size markdown) (\<lambda>_.
     attempt rt (workspace_write_context E rt workspace_id) (\<lambda>context.
     attempt rt (message_view_from_state (wc_state context) workspace_id message_id) (\<lambda>message_view.
     let channel_id = mv_channel_id message_view in
     attempt rt (content_key_for_local_write_in_state E rt workspace_id channel_id (wc_state context)
         (wc_events context)) (\<lambda>content_key.
     attempt rt (map_err RtCrypto (seal_message_markdown (cipher (ident (env_store E))) nonce (rk_key_id content_key)
         (rk_content_key content_key) workspace_id channel_id message_id markdown)) (\<lambda>sealed_markdown.
     and_then (write_event E now rt workspace_id (Some channel_id) context
         (MessageEditedEncrypted message_id sealed_markdown)) (\<lambda>rt message.
       (rt, Inr \<lparr>ed_workspace_id = workspace_str workspace_id, ed_channel_id = channel_str channel_id,
          ed_message_id = message_str message_id, ed_event_id = event_str (sg_event_id message),
          ed_encrypted = True\<rparr>)))))))))"

record DeletedMessage =
  de_workspace_id :: string
  de_channel_id :: string
  de_message_id :: string
  de_event_id :: string

definition delete_message ::
  "'c RuntimeEnv \<Rightarrow> HybridTimestamp \<Rightarrow> LocalRuntime \<Rightarrow> WorkspaceId \<Rightarrow> MessageId
     \<Rightarrow> LocalRuntime \<times> (RuntimeError + DeletedMessage)" where
  "delete_message E now rt workspace_id message_id =
     attempt rt (validate_workspace_id_reference workspace_id) (\<lambda>_.
     attempt rt (validate_message_id_reference message_id) (\<lambda>_.
     attempt rt (workspace_write_context E rt workspace_id) (\<lambda>context.
     attempt rt (message_view_from_state (wc_state context) workspace_id message_id) (\<lambda>message_view.
     let channel_id = mv_channel_id message_view in
     and_then (write_event E now rt workspace_id (Some channel_id) context (MessageDeleted message_id)) (\<lambda>rt message.
       (rt, Inr \<lparr>de_workspace_id = workspace_str workspace_id, de_channel_id = channel_str channel_id,
          de_message_id = message_str message_id, de_event_id = event_str (sg_event_id message)\<rparr>))))))"

section \<open>Reactions and read markers\<close>

record ReactionChange =
  re_workspace_id :: string
  re_channel_id :: string
  re_message_id :: string
  re_reaction :: string
  re_event_id :: string

definition react_to_message ::
  "(MessageId \<Rightarrow> string \<Rightarrow> EventBody) \<Rightarrow> 'c RuntimeEnv \<Rightarrow> HybridTimestamp \<Rightarrow> LocalRuntime \<Rightarrow> WorkspaceId \<Rightarrow> MessageId \<Rightarrow> string
     \<Rightarrow> LocalRuntime \<times> (RuntimeError + ReactionChange)" where
  "react_to_message body E now rt workspace_id message_id reaction =
     attempt rt (validate_workspace_id_reference workspace_id) (\<lambda>_.
     attempt rt (validate_message_id_reference message_id) (\<lambda>_.
     let reaction = trim reaction in
     if reaction = [] then (rt, Inl RtReactionRequired)
     else attempt rt (validate_metadata_field_size ''reaction'' reaction REACTION_TEXT_MAX_BYTES) (\<lambda>_.
     attempt rt (workspace_write_context E rt workspace_id) (\<lambda>context.
     attempt rt (message_channel_id_from_state (wc_state context) workspace_id message_id) (\<lambda>channel_id.
     and_then (write_event E now rt workspace_id (Some channel_id) context (body message_id reaction)) (\<lambda>rt event.
       (rt, Inr \<lparr>re_workspace_id = workspace_str workspace_id, re_channel_id = channel_str channel_id,
          re_message_id = message_str message_id, re_reaction = reaction,
          re_event_id = event_str (sg_event_id event)\<rparr>)))))))"

definition add_reaction_action ::
  "'c RuntimeEnv \<Rightarrow> HybridTimestamp \<Rightarrow> LocalRuntime \<Rightarrow> WorkspaceId \<Rightarrow> MessageId \<Rightarrow> string
     \<Rightarrow> LocalRuntime \<times> (RuntimeError + ReactionChange)" where
  "add_reaction_action = react_to_message ReactionAdded"

definition remove_reaction_action ::
  "'c RuntimeEnv \<Rightarrow> HybridTimestamp \<Rightarrow> LocalRuntime \<Rightarrow> WorkspaceId \<Rightarrow> MessageId \<Rightarrow> string
     \<Rightarrow> LocalRuntime \<times> (RuntimeError + ReactionChange)" where
  "remove_reaction_action = react_to_message ReactionRemoved"

record MarkedChannelRead =
  mr_workspace_id :: string
  mr_channel_id :: string
  mr_read_through_event_id :: string
  mr_marker_event_id :: "string option"
  mr_already_read :: bool

definition mark_channel_read ::
  "'c RuntimeEnv \<Rightarrow> HybridTimestamp \<Rightarrow> LocalRuntime \<Rightarrow> WorkspaceId \<Rightarrow> ChannelId
     \<Rightarrow> LocalRuntime \<times> (RuntimeError + MarkedChannelRead)" where
  "mark_channel_read E now rt workspace_id channel_id =
     attempt rt (validate_workspace_id_reference workspace_id) (\<lambda>_.
     attempt rt (validate_channel_id_reference channel_id) (\<lambda>_.
     attempt rt (workspace_write_context E rt workspace_id) (\<lambda>context.
     attempt rt (latest_channel_read_event_id_from_context context workspace_id channel_id) (\<lambda>read_through_event_id.
     if channel_is_read_through_in_state (wc_state context) (own_device rt) channel_id read_through_event_id
     then (rt, Inr \<lparr>mr_workspace_id = workspace_str workspace_id, mr_channel_id = channel_str channel_id,
         mr_read_through_event_id = event_str read_through_event_id, mr_marker_event_id = None, mr_already_read = True\<rparr>)
     else and_then (write_event E now rt workspace_id (Some channel_id) context
         (ReadMarkerUpdated channel_id read_through_event_id)) (\<lambda>rt event.
       (rt, Inr \<lparr>mr_workspace_id = workspace_str workspace_id, mr_channel_id = channel_str channel_id,
          mr_read_through_event_id = event_str read_through_event_id,
          mr_marker_event_id = Some (event_str (sg_event_id event)), mr_already_read = False\<rparr>))))))"

end
