(* ===== verification/Local_Admin.thy ===== *)
theory Local_Admin
  imports Local_Actions
begin

text \<open>
  More actions of \<^verbatim>\<open>src/runtime/src/workspace_actions.rs\<close>: peer endpoints, invites, join requests, roles and
  the access policy.
\<close>

section \<open>Peer endpoints\<close>

record PublishPeerEndpointRequest =
  rq_workspace_id :: WorkspaceId
  rq_endpoint_id :: string
  rq_endpoint :: string
  rq_transport :: string
  rq_is_backup_peer :: bool
  rq_expires_at_ms :: "i64 option"
  rq_replica_storage_class :: "ReplicaStorageClass option"
  rq_replica_retention_hint :: "string option"

record PublishedPeerEndpoint =
  pub_workspace_id :: string
  pub_device_id :: string
  pub_endpoint_id :: string
  pub_endpoint :: string
  pub_transport :: string
  pub_is_backup_peer :: bool
  pub_expires_at_ms :: "i64 option"
  pub_replica_storage_class :: "ReplicaStorageClass option"
  pub_replica_retention_hint :: "string option"
  pub_event_id :: string

definition normalize_retention_hint :: "string option \<Rightarrow> RuntimeError + string option" where
  "normalize_retention_hint hint =
     (case hint of
        Some h \<Rightarrow>
          let h = trim h in
          if h = [] then Inl (RtMetadataFieldRequired ''replica retention hint'')
          else then_res (validate_metadata_field_size ''replica retention hint'' h REPLICA_RETENTION_HINT_MAX_BYTES)
            (Inr (Some h))
      | None \<Rightarrow> Inr None)"

definition publish_peer_endpoint_with_replica_capability ::
  "'c RuntimeEnv \<Rightarrow> HybridTimestamp \<Rightarrow> LocalRuntime \<Rightarrow> PublishPeerEndpointRequest
     \<Rightarrow> LocalRuntime \<times> (RuntimeError + PublishedPeerEndpoint)" where
  "publish_peer_endpoint_with_replica_capability E now rt request =
     (let endpoint_id = trim (rq_endpoint_id request) in
      if endpoint_id = [] then (rt, Inl RtPeerEndpointIdRequired)
      else attempt rt (validate_metadata_field_size ''peer endpoint ID'' endpoint_id PEER_ENDPOINT_ID_MAX_BYTES) (\<lambda>_.
      let endpoint = trim (rq_endpoint request) in
      if endpoint = [] then (rt, Inl RtPeerEndpointRequired)
      else attempt rt (validate_metadata_field_size ''peer endpoint'' endpoint PEER_ENDPOINT_MAX_BYTES) (\<lambda>_.
      if \<not> peer_endpoint_hint_is_supported endpoint then (rt, Inl RtUnsupportedPeerEndpoint)
      else let transport = trim (rq_transport request) in
      if transport = [] then (rt, Inl RtPeerEndpointTransportRequired)
      else attempt rt (validate_metadata_field_size ''peer endpoint transport'' transport PEER_ENDPOINT_TRANSPORT_MAX_BYTES) (\<lambda>_.
      if \<not> peer_endpoint_hint_transport_is_consistent endpoint transport then (rt, Inl RtPeerEndpointTransportMismatch)
      else attempt rt (normalize_retention_hint (rq_replica_retention_hint request)) (\<lambda>replica_retention_hint.
      if \<not> rq_is_backup_peer request \<and> (rq_replica_storage_class request \<noteq> None \<or> replica_retention_hint \<noteq> None)
      then (rt, Inl RtReplicaCapabilityRequiresBackupPeer)
      else attempt rt (workspace_write_context E rt (rq_workspace_id request)) (\<lambda>context.
      and_then (write_event E now rt (rq_workspace_id request) None context
          (PeerEndpointPublished endpoint_id endpoint transport (rq_is_backup_peer request) (rq_expires_at_ms request)
            (rq_replica_storage_class request) replica_retention_hint)) (\<lambda>rt event.
        (rt, Inr \<lparr>pub_workspace_id = workspace_str (rq_workspace_id request), pub_device_id = device_str (own_device rt),
           pub_endpoint_id = endpoint_id, pub_endpoint = endpoint, pub_transport = transport,
           pub_is_backup_peer = rq_is_backup_peer request, pub_expires_at_ms = rq_expires_at_ms request,
           pub_replica_storage_class = rq_replica_storage_class request,
           pub_replica_retention_hint = replica_retention_hint,
           pub_event_id = event_str (sg_event_id event)\<rparr>))))))))"

definition publish_peer_endpoint ::
  "'c RuntimeEnv \<Rightarrow> HybridTimestamp \<Rightarrow> LocalRuntime \<Rightarrow> WorkspaceId \<Rightarrow> string \<Rightarrow> string \<Rightarrow> string \<Rightarrow> bool \<Rightarrow> i64 option
     \<Rightarrow> LocalRuntime \<times> (RuntimeError + PublishedPeerEndpoint)" where
  "publish_peer_endpoint E now rt workspace_id endpoint_id endpoint transport is_backup_peer expires_at_ms =
     publish_peer_endpoint_with_replica_capability E now rt
       \<lparr>rq_workspace_id = workspace_id, rq_endpoint_id = endpoint_id, rq_endpoint = endpoint,
        rq_transport = transport, rq_is_backup_peer = is_backup_peer, rq_expires_at_ms = expires_at_ms,
        rq_replica_storage_class = None, rq_replica_retention_hint = None\<rparr>"

section \<open>Join requests and invites\<close>

record RecordedWorkspaceJoinRequest =
  rj_workspace_id :: string
  rj_request_id :: string
  rj_requester_device_id :: string
  rj_display_name :: string
  rj_note :: string
  rj_source_type :: string
  rj_source_invite_id :: string
  rj_source_display_name :: string
  rj_source_approval_policy :: string
  rj_event_id :: string

definition record_workspace_join_request_with_response_route ::
  "'c RuntimeEnv \<Rightarrow> HybridTimestamp \<Rightarrow> LocalRuntime \<Rightarrow> WorkspaceId \<Rightarrow> string \<Rightarrow> DeviceId \<Rightarrow> string \<Rightarrow> string \<Rightarrow> string
     \<Rightarrow> string \<Rightarrow> string \<Rightarrow> string \<Rightarrow> string \<Rightarrow> LocalRuntime \<times> (RuntimeError + RecordedWorkspaceJoinRequest)" where
  "record_workspace_join_request_with_response_route E now rt workspace_id request_id requester_device_id
       display_name note source_type source_invite_id source_display_name source_approval_policy
       response_peer_endpoint =
     attempt rt (validate_device_id_reference requester_device_id) (\<lambda>_.
     let request_id = trim request_id; display_name = trim display_name; note = trim note;
         source_type = trim source_type; source_invite_id = trim source_invite_id;
         source_display_name = trim source_display_name; source_approval_policy = trim source_approval_policy;
         response_peer_endpoint = trim response_peer_endpoint in
     if request_id = [] then (rt, Inl (RtMetadataFieldRequired ''join request ID''))
     else if display_name = [] then (rt, Inl RtDisplayNameRequired)
     else attempt rt (first_err
       [validate_metadata_field_size ''join request ID'' request_id WORKSPACE_JOIN_REQUEST_ID_MAX_BYTES,
        validate_metadata_field_size ''display name'' display_name DEVICE_DISPLAY_NAME_MAX_BYTES,
        validate_metadata_field_size ''join request note'' note WORKSPACE_JOIN_REQUEST_NOTE_MAX_BYTES,
        validate_metadata_field_size ''join request source'' source_type WORKSPACE_ACCESS_POLICY_MAX_BYTES,
        validate_metadata_field_size ''source invite ID'' source_invite_id WORKSPACE_INVITE_ID_MAX_BYTES,
        validate_metadata_field_size ''source display name'' source_display_name DEVICE_DISPLAY_NAME_MAX_BYTES,
        validate_metadata_field_size ''source approval policy'' source_approval_policy
          WORKSPACE_INVITE_APPROVAL_POLICY_MAX_BYTES,
        validate_metadata_field_size ''join request response peer endpoint'' response_peer_endpoint
          PEER_ENDPOINT_MAX_BYTES]) (\<lambda>_.
     attempt rt (workspace_write_context E rt workspace_id) (\<lambda>context.
     and_then (write_event E now rt workspace_id None context
         (WorkspaceJoinRequestRecorded request_id requester_device_id display_name note source_type source_invite_id
           source_display_name source_approval_policy response_peer_endpoint)) (\<lambda>rt request.
       (rt, Inr \<lparr>rj_workspace_id = workspace_str workspace_id, rj_request_id = request_id,
          rj_requester_device_id = device_str requester_device_id, rj_display_name = display_name, rj_note = note,
          rj_source_type = source_type, rj_source_invite_id = source_invite_id,
          rj_source_display_name = source_display_name, rj_source_approval_policy = source_approval_policy,
          rj_event_id = event_str (sg_event_id request)\<rparr>)))))"

definition record_workspace_join_request ::
  "'c RuntimeEnv \<Rightarrow> HybridTimestamp \<Rightarrow> LocalRuntime \<Rightarrow> WorkspaceId \<Rightarrow> string \<Rightarrow> DeviceId \<Rightarrow> string \<Rightarrow> string \<Rightarrow> string
     \<Rightarrow> string \<Rightarrow> string \<Rightarrow> string \<Rightarrow> LocalRuntime \<times> (RuntimeError + RecordedWorkspaceJoinRequest)" where
  "record_workspace_join_request E now rt workspace_id request_id requester_device_id display_name note source_type
       source_invite_id source_display_name source_approval_policy =
     record_workspace_join_request_with_response_route E now rt workspace_id request_id requester_device_id
       display_name note source_type source_invite_id source_display_name source_approval_policy []"

record RecordedWorkspaceInvite =
  ri_workspace_id :: string
  ri_invite_id :: string
  ri_invitee_device_id :: string
  ri_display_name :: string
  ri_role :: WorkspaceRole
  ri_request_id :: "string option"
  ri_expires_at :: string
  ri_approval_policy :: string
  ri_sync_expectation :: string
  ri_event_id :: string

definition record_workspace_invite ::
  "'c RuntimeEnv \<Rightarrow> HybridTimestamp \<Rightarrow> LocalRuntime \<Rightarrow> WorkspaceId \<Rightarrow> string \<Rightarrow> DeviceId \<Rightarrow> string \<Rightarrow> WorkspaceRole
     \<Rightarrow> string option \<Rightarrow> string \<Rightarrow> string \<Rightarrow> string \<Rightarrow> LocalRuntime \<times> (RuntimeError + RecordedWorkspaceInvite)" where
  "record_workspace_invite E now rt workspace_id invite_id invitee_device_id display_name role request_id expires_at
       approval_policy sync_expectation =
     attempt rt (validate_device_id_reference invitee_device_id) (\<lambda>_.
     let invite_id = trim invite_id; display_name = trim display_name;
         request_id = option_filter (\<lambda>r. r \<noteq> []) (map_option trim request_id);
         expires_at = trim expires_at; approval_policy = trim approval_policy;
         sync_expectation = trim sync_expectation in
     if invite_id = [] then (rt, Inl (RtMetadataFieldRequired ''invite ID''))
     else attempt rt (first_err
       [validate_metadata_field_size ''invite ID'' invite_id WORKSPACE_INVITE_ID_MAX_BYTES,
        validate_metadata_field_size ''display name'' display_name DEVICE_DISPLAY_NAME_MAX_BYTES,
        check_some request_id (\<lambda>r. validate_metadata_field_size ''join request ID'' r WORKSPACE_JOIN_REQUEST_ID_MAX_BYTES),
        validate_metadata_field_size ''invite expiry'' expires_at WORKSPACE_INVITE_EXPIRES_AT_MAX_BYTES,
        validate_metadata_field_size ''invite approval policy'' approval_policy
          WORKSPACE_INVITE_APPROVAL_POLICY_MAX_BYTES,
        validate_metadata_field_size ''invite sync expectation'' sync_expectation
          WORKSPACE_INVITE_SYNC_EXPECTATION_MAX_BYTES]) (\<lambda>_.
     attempt rt (workspace_write_context E rt workspace_id) (\<lambda>context.
     and_then (write_event E now rt workspace_id None context
         (WorkspaceInviteRecorded invite_id invitee_device_id display_name role request_id expires_at
           approval_policy sync_expectation)) (\<lambda>rt invite.
       (rt, Inr \<lparr>ri_workspace_id = workspace_str workspace_id, ri_invite_id = invite_id,
          ri_invitee_device_id = device_str invitee_device_id, ri_display_name = display_name, ri_role = role,
          ri_request_id = request_id, ri_expires_at = expires_at, ri_approval_policy = approval_policy,
          ri_sync_expectation = sync_expectation, ri_event_id = event_str (sg_event_id invite)\<rparr>)))))"

record ResolvedWorkspaceInvite =
  vi_workspace_id :: string
  vi_invite_id :: string
  vi_resolution :: WorkspaceInviteResolution
  vi_event_id :: string

definition resolve_workspace_invite ::
  "'c RuntimeEnv \<Rightarrow> HybridTimestamp \<Rightarrow> LocalRuntime \<Rightarrow> WorkspaceId \<Rightarrow> string \<Rightarrow> WorkspaceInviteResolution
     \<Rightarrow> LocalRuntime \<times> (RuntimeError + ResolvedWorkspaceInvite)" where
  "resolve_workspace_invite E now rt workspace_id invite_id resolution =
     (let invite_id = trim invite_id in
      if invite_id = [] then (rt, Inl (RtMetadataFieldRequired ''invite ID''))
      else attempt rt (validate_metadata_field_size ''invite ID'' invite_id WORKSPACE_INVITE_ID_MAX_BYTES) (\<lambda>_.
      attempt rt (workspace_write_context E rt workspace_id) (\<lambda>context.
      and_then (write_event E now rt workspace_id None context (WorkspaceInviteResolved invite_id resolution)) (\<lambda>rt invite.
        (rt, Inr \<lparr>vi_workspace_id = workspace_str workspace_id, vi_invite_id = invite_id,
           vi_resolution = resolution, vi_event_id = event_str (sg_event_id invite)\<rparr>)))))"

record ResolvedWorkspaceJoinRequest =
  vj_workspace_id :: string
  vj_request_id :: string
  vj_resolution :: WorkspaceJoinRequestResolution
  vj_event_id :: string

definition resolve_workspace_join_request ::
  "'c RuntimeEnv \<Rightarrow> HybridTimestamp \<Rightarrow> LocalRuntime \<Rightarrow> WorkspaceId \<Rightarrow> string \<Rightarrow> WorkspaceJoinRequestResolution
     \<Rightarrow> LocalRuntime \<times> (RuntimeError + ResolvedWorkspaceJoinRequest)" where
  "resolve_workspace_join_request E now rt workspace_id request_id resolution =
     (let request_id = trim request_id in
      if request_id = [] then (rt, Inl (RtMetadataFieldRequired ''join request ID''))
      else attempt rt (validate_metadata_field_size ''join request ID'' request_id WORKSPACE_JOIN_REQUEST_ID_MAX_BYTES) (\<lambda>_.
      attempt rt (workspace_write_context E rt workspace_id) (\<lambda>context.
      and_then (write_event E now rt workspace_id None context (WorkspaceJoinRequestResolved request_id resolution))
        (\<lambda>rt request.
        (rt, Inr \<lparr>vj_workspace_id = workspace_str workspace_id, vj_request_id = request_id,
           vj_resolution = resolution, vj_event_id = event_str (sg_event_id request)\<rparr>)))))"

section \<open>Roles and the access policy\<close>

record UpdatedMemberRole =
  ur_workspace_id :: string
  ur_member_device_id :: string
  ur_role :: WorkspaceRole
  ur_event_id :: string

definition update_member_role ::
  "'c RuntimeEnv \<Rightarrow> HybridTimestamp \<Rightarrow> LocalRuntime \<Rightarrow> WorkspaceId \<Rightarrow> DeviceId \<Rightarrow> WorkspaceRole
     \<Rightarrow> LocalRuntime \<times> (RuntimeError + UpdatedMemberRole)" where
  "update_member_role E now rt workspace_id member_device_id role =
     attempt rt (validate_device_id_reference member_device_id) (\<lambda>_.
     attempt rt (workspace_write_context E rt workspace_id) (\<lambda>context.
     and_then (write_event E now rt workspace_id None context (MemberRoleUpdated member_device_id role)) (\<lambda>rt update.
       (rt, Inr \<lparr>ur_workspace_id = workspace_str workspace_id, ur_member_device_id = device_str member_device_id,
          ur_role = role, ur_event_id = event_str (sg_event_id update)\<rparr>))))"

record UpdatedWorkspaceAccessPolicy =
  ua_workspace_id :: string
  ua_access_policy :: WorkspaceAccessPolicy
  ua_event_id :: string

definition update_workspace_access_policy ::
  "'c RuntimeEnv \<Rightarrow> HybridTimestamp \<Rightarrow> LocalRuntime \<Rightarrow> WorkspaceId \<Rightarrow> WorkspaceAccessPolicy
     \<Rightarrow> LocalRuntime \<times> (RuntimeError + UpdatedWorkspaceAccessPolicy)" where
  "update_workspace_access_policy E now rt workspace_id access_policy =
     attempt rt (workspace_write_context E rt workspace_id) (\<lambda>context.
     and_then (write_event E now rt workspace_id None context (WorkspaceAccessPolicyUpdated access_policy)) (\<lambda>rt update.
       (rt, Inr \<lparr>ua_workspace_id = workspace_str workspace_id, ua_access_policy = access_policy,
          ua_event_id = event_str (sg_event_id update)\<rparr>)))"

end
