(* ===== verification/Write_Correct.thy ===== *)
theory Write_Correct
  imports Local_Messages Local_Admin Batch_Ordered Store_Properties Sync_Correct
begin

text \<open>
  Lemmas about local writes: which events a device trusts, what a write context holds, the heads of a
  causal history, and the invariant of a device on which only local actions happen.
\<close>

section \<open>Trusted events\<close>

lemma keep_verified_foldl:
  fixes L :: "'c StoreLib"
  assumes "xs = take (length xs) events"
  defines "ok \<equiv> \<lambda>e. sg_author_public_key e = [] \<or> verify_self_contained_event (ident L) e = Inr ()"
  shows "foldl (keep_verified L events) ([], False) (enumerate 0 xs) =
    (if list_all ok xs then ([], False) else (filter ok xs, True))"
  using assms(1)
proof (induction xs rule: rev_induct)
  case (snoc x xs)
  have pre: "xs = take (length xs) events" using snoc.prems
    by (metis append_eq_conv_conj length_append_singleton take_Suc_conv_app_nth take_take min.absorb1 le_add1 Suc_eq_plus1)
  have "filter ok xs = xs" if "list_all ok xs" using that by (simp add: list_all_iff filter_id_conv)
  then show ?case
    using snoc.IH [OF pre] pre
    by (auto simp: enumerate_append_eq keep_verified_def ok_def Let_def)
qed simp

lemma verified_local_events: "verified_local_events_for_runtime L events = verified_sync_events L events"
proof -
  let ?ok = "\<lambda>e. sg_author_public_key e = [] \<or> verify_self_contained_event (ident L) e = Inr ()"
  have "foldl (keep_verified L events) ([], False) (enumerate 0 events) =
      (if list_all ?ok events then ([], False) else (filter ?ok events, True))"
    by (rule keep_verified_foldl) simp
  moreover have "filter ?ok events = events" if "list_all ?ok events" using that by (simp add: list_all_iff filter_id_conv)
  ultimately show ?thesis by (simp add: verified_local_events_for_runtime_def verified_sync_events_def)
qed

section \<open>Events by identifier\<close>

lemma events_by_id_lookup:
  "distinct (map sg_event_id events) \<Longrightarrow>
     fmlookup (events_by_id events) i = find (\<lambda>e. sg_event_id e = i) events"
proof (induction events rule: rev_induct)
  case (snoc e es)
  have "find (\<lambda>e. sg_event_id e = i) (es @ [e]) =
      (case find (\<lambda>e. sg_event_id e = i) es of None \<Rightarrow> if sg_event_id e = i then Some e else None | Some y \<Rightarrow> Some y)"
    by (induction es) auto
  moreover have "find (\<lambda>e. sg_event_id e = i) es = None" if "sg_event_id e = i"
    using snoc.prems that by (simp add: find_None_iff image_iff) metis
  ultimately show ?case using snoc by (auto simp: events_by_id_def split: option.split)
qed (simp add: events_by_id_def)

lemma take_events_run:
  assumes "distinct (map sg_event_id es)" "\<forall>e \<in> set es. fmlookup m (sg_event_id e) = Some e"
  shows "take_events m (map sg_event_id es) = es"
  using assms
proof (induction es arbitrary: m)
  case (Cons e es)
  have "fmlookup (fmdrop (sg_event_id e) m) (sg_event_id e') = Some e'" if "e' \<in> set es" for e'
  proof -
    have "sg_event_id e' \<noteq> sg_event_id e" using Cons.prems(1) that by (simp add: image_iff) metis
    then show ?thesis using Cons.prems(2) that by simp
  qed
  then show ?case using Cons.prems Cons.IH [of "fmdrop (sg_event_id e) m"] by simp
qed simp

lemma events_by_id_member:
  assumes "distinct (map sg_event_id events)" "e \<in> set events"
  shows "fmlookup (events_by_id events) (sg_event_id e) = Some e"
proof -
  have "\<exists>y. find (\<lambda>x. sg_event_id x = sg_event_id e) events = Some y"
    using assms(2) by (metis (mono_tags) find_None_iff option.exhaust)
  then obtain y where y: "find (\<lambda>x. sg_event_id x = sg_event_id e) events = Some y" by blast
  then have "y \<in> set events" "sg_event_id y = sg_event_id e" by (auto simp: find_Some_iff)
  then have "y = e" using assms by (auto simp: distinct_map dest: inj_onD)
  with y assms(1) show ?thesis by (simp add: events_by_id_lookup)
qed

section \<open>Heads\<close>

text \<open>The parent relation of a list of events, and its heads.\<close>

definition parent_of :: "SignedEvent list \<Rightarrow> EventId \<Rightarrow> EventId \<Rightarrow> bool" where
  "parent_of es p c \<longleftrightarrow> (\<exists>e \<in> set es. sg_event_id e = c \<and> p \<in> set (ev_parents e))"

definition head_ids :: "SignedEvent list \<Rightarrow> EventId set" where
  "head_ids es = {i \<in> sg_event_id ` set es. \<forall>c. \<not> parent_of es i c}"

lemma referenced_parents:
  "referenced_parent_ids A es = {p \<in> A. \<exists>e \<in> set es. sg_event_id e \<in> A \<and> p \<in> set (ev_parents e)}"
proof -
  have "foldl (\<lambda>acc e. acc \<union> set (filter (\<lambda>p. p \<in> A) (ev_parents e))) B xs
      = B \<union> {p \<in> A. \<exists>e \<in> set xs. p \<in> set (ev_parents e)}" for B and xs :: "SignedEvent list"
    by (induction xs arbitrary: B) auto
  then show ?thesis by (auto simp: referenced_parent_ids_def)
qed

text \<open>An event whose parents come first leads down to a head.\<close>

lemma reaches_head:
  assumes "causally_ordered es" "k < length es"
  shows "\<exists>h \<in> head_ids es. (parent_of es)\<^sup>*\<^sup>* (sg_event_id (es ! k)) h"
  using assms(2)
proof (induction "length es - k" arbitrary: k rule: less_induct)
  case less
  show ?case
  proof (cases "\<exists>c. parent_of es (sg_event_id (es ! k)) c")
    case False
    then show ?thesis using less.prems by (auto simp: head_ids_def)
  next
    case True
    then obtain j where j: "j < length es" "sg_event_id (es ! k) \<in> set (ev_parents (es ! j))"
      unfolding parent_of_def by (metis in_set_conv_nth)
    have "sg_event_id (es ! k) \<in> sg_event_id ` set (take j es)"
      using assms(1) j less.prems by (fastforce simp: causally_ordered_def)
    then obtain i where i: "i < j" "sg_event_id (es ! i) = sg_event_id (es ! k)"
      using j(1) by (auto simp: in_set_conv_nth)
    have "distinct (map sg_event_id es)" using assms(1) by (simp add: causally_ordered_def)
    from nth_eq_iff_index_eq [OF this, of i k] have "i = k" using i j(1) less.prems by simp
    then obtain h where h: "h \<in> head_ids es" "(parent_of es)\<^sup>*\<^sup>* (sg_event_id (es ! j)) h"
      using less.hyps [of j] i(1) j(1) less.prems diff_less_mono2 [of k j "length es"] by auto
    have "parent_of es (sg_event_id (es ! k)) (sg_event_id (es ! j))"
      using j by (auto simp: parent_of_def)
    with h show ?thesis by (meson converse_rtranclp_into_rtranclp)
  qed
qed

lemma heads_of_run:
  assumes "causally_ordered es" "es \<noteq> []"
  shows "workspace_head_event_ids_from_materialization es \<lparr>rep_applied_events = map sg_event_id es, rep_gaps = gs\<rparr>
    = sorted_list_of_set (head_ids es)" "head_ids es \<noteq> {}"
proof -
  show ne: "head_ids es \<noteq> {}" using reaches_head [OF assms(1), of 0] assms(2) by auto
  have "set (filter (\<lambda>i. i \<notin> referenced_parent_ids (sg_event_id ` set es) es) (map sg_event_id es)) = head_ids es"
    by (auto simp: referenced_parents head_ids_def parent_of_def)
  moreover have "sorted_list_of_set (head_ids es) \<noteq> []" using ne by (simp add: head_ids_def)
  ultimately show "workspace_head_event_ids_from_materialization es
      \<lparr>rep_applied_events = map sg_event_id es, rep_gaps = gs\<rparr> = sorted_list_of_set (head_ids es)"
    by (simp only: workspace_head_event_ids_from_materialization_def Let_def MaterializationReport.select_convs
        set_map if_False)
qed

section \<open>Write contexts\<close>

lemma run_is_causal:
  assumes "accepted_run (apply_event vals) (state_new w) events st" "distinct (map sg_event_id events)"
  shows "causally_ordered events"
  unfolding causally_ordered_def
proof (intro conjI allI impI)
  fix i assume i: "i < length events"
  have run: "ordered_run vals (state_new w) events st"
    using assms by (simp add: ordered_run_def state_new_def access_inv_new)
  show "set (ev_parents (events ! i)) \<inter> sg_event_id ` set events \<subseteq> sg_event_id ` set (take i events)"
  proof
    fix p assume "p \<in> set (ev_parents (events ! i)) \<inter> sg_event_id ` set events"
    then obtain e where "e \<in> set events" "p = sg_event_id e" "p \<in> set (ev_parents (events ! i))" by blast
    then obtain k where k: "k < length events" "p = sg_event_id (events ! k)"
      "sg_event_id (events ! k) \<in> set (ev_parents (events ! i))" by (metis in_set_conv_nth)
    have "k < i" using ordered_child_later [OF run k(1) i k(3)] .
    then show "p \<in> sg_event_id ` set (take i events)"
      using k i by (auto simp: in_set_conv_nth intro!: image_eqI [of _ _ "events ! k"] exI [of _ k])
  qed
qed (use assms in simp)

text \<open>
  What a context of a workspace is: a run of trusted events that the workspace state accepted, one
  after the other, the state it led to, and the heads of the run.
\<close>

definition context_of :: "'c RuntimeEnv \<Rightarrow> WorkspaceId \<Rightarrow> WorkspaceWriteContext \<Rightarrow> bool" where
  "context_of E w ctx \<longleftrightarrow> wc_events ctx \<noteq> [] \<and> distinct (map sg_event_id (wc_events ctx))
     \<and> accepted_run (apply_event (invite_order E)) (state_new w) (wc_events ctx) (wc_state ctx)
     \<and> rep_applied_events (wc_report ctx) = map sg_event_id (wc_events ctx)
     \<and> wc_head_event_ids ctx = sorted_list_of_set (head_ids (wc_events ctx))"

lemma context_from_events:
  assumes "workspace_write_context_from_materialized_events E w events = Inr ctx" "distinct (map sg_event_id events)"
  shows "context_of E w ctx \<and> set (wc_events ctx) \<subseteq> set events"
proof -
  obtain st rep where b: "apply_batch (invite_order E) (state_new w) events = Inr (st, rep)"
    "rep_applied_events rep \<noteq> []"
    "ctx = \<lparr>wc_events = take_events (events_by_id events) (rep_applied_events rep), wc_state = st, wc_report = rep,
       wc_head_event_ids = workspace_head_event_ids_from_materialization
         (take_events (events_by_id events) (rep_applied_events rep)) rep\<rparr>"
    using assms(1)
    by (auto simp: workspace_write_context_from_materialized_events_def result_simps Let_def
        split: sum.splits prod.splits if_splits)
  obtain es where es: "accepted_run (apply_event (invite_order E)) (state_new w) es st"
    "rep_applied_events rep = map sg_event_id es" "distinct (rep_applied_events rep)" "set es \<subseteq> set events"
    using b(1) by (rule apply_batch_run) auto
  have t: "take_events (events_by_id events) (rep_applied_events rep) = es"
    using take_events_run [of es "events_by_id events"] es(2-4) events_by_id_member [OF assms(2)] by (simp add: subset_iff)
  have "causally_ordered es" using run_is_causal [OF es(1)] es(2,3) by simp
  then have "workspace_head_event_ids_from_materialization es rep = sorted_list_of_set (head_ids es)"
    using heads_of_run(1) [of es "rep_gaps rep"] b(2) es(2) by (cases rep) auto
  then show ?thesis using b(2,3) es t by (simp add: context_of_def)
qed

lemma context_causal: "context_of E w ctx \<Longrightarrow> causally_ordered (wc_events ctx)"
  by (auto simp: context_of_def intro: run_is_causal)

lemma head_ids_finite: "finite (head_ids es)"
  by (simp add: head_ids_def)

lemma context_heads_applied:
  assumes "context_of E w ctx"
  shows "set (wc_head_event_ids ctx) \<subseteq> ws_applied_event_ids (wc_state ctx)"
  using assms applied_ids_of_run [of "invite_order E" "state_new w" "wc_events ctx" "wc_state ctx"]
  by (auto simp: context_of_def head_ids_finite head_ids_def state_new_def)

text \<open>A context decides about an event like the access index of its state.\<close>

lemma context_authorizes:
  assumes "context_of E w ctx" "origin_enumeration (origin_order E)" "ev_workspace ev = w"
  shows "authorize_event_with_history (origin_order E) (wc_events ctx) ev = authorize (ws_access_index (wc_state ctx)) ev"
proof -
  have "accepted_run authorize_and_apply (index_new w) (wc_events ctx) (ws_access_index (wc_state ctx))"
    using assms(1) index_of_run [of "invite_order E" "state_new w"] by (auto simp: context_of_def state_new_def)
  then show ?thesis using history_agrees_with_run [OF assms(2) _ context_causal [OF assms(1)]] assms(3) by simp
qed

lemma authorized_applies:
  assumes "authorize (ws_access_index st) ev = Inr ()" "ev_workspace ev = ws_workspace_id st"
    "set (ev_parents ev) \<subseteq> ws_applied_event_ids st"
  shows "\<exists>st'. apply_event vals st ev = Inr st'"
proof -
  have "apply_ready_event vals st ev \<noteq> Inl err" for err
    using apply_ready_event_Inl [OF assms(2)] assms(1) by auto
  then show ?thesis using assms(3) by (cases "apply_ready_event vals st ev") (auto simp: apply_event_Inr)
qed

section \<open>A device with local events only\<close>

abbreviation own_log :: "'c RuntimeEnv \<Rightarrow> LocalRuntime \<Rightarrow> WorkspaceId \<Rightarrow> SignedEvent list" where
  "own_log E rt w \<equiv> list_parseable_events_for_workspace (env_store E) (rt_store rt) (workspace_str w)"

text \<open>
  What the libraries promise: the worklist is seeded with every origin, signatures verify, the
  serialiser reads back what it wrote, and a hash has 64 hexadecimal digits.
\<close>

definition env_laws :: "'c RuntimeEnv \<Rightarrow> bool" where
  "env_laws E \<longleftrightarrow> origin_enumeration (origin_order E) \<and> signature_law (ident (env_store E))
     \<and> (\<forall>e. fits (env_store E) e \<longrightarrow> codec (env_store E) e) \<and> (\<forall>x. length (hash_hex (ident (env_store E)) x) = 64)"

definition good_row :: "'c StoreLib \<Rightarrow> EventRow \<Rightarrow> bool" where
  "good_row L r \<longleftrightarrow> (\<exists>e. fits L e \<and> codec L e \<and> is_servable_event L e \<and> r = event_row L e)"

definition local_ok :: "'c RuntimeEnv \<Rightarrow> LocalRuntime \<Rightarrow> bool" where
  "local_ok E rt \<longleftrightarrow> (\<exists>key. rt_identity rt = from_signing_key (ident (env_store E)) key)
     \<and> distinct (map rw_event_id (rt_store rt)) \<and> (\<forall>r \<in> set (rt_store rt). good_row (env_store E) r)
     \<and> (\<forall>w. \<exists>st. accepted_run (apply_event (invite_order E)) (state_new w) (own_log E rt w) st)"

lemma local_ok_files [simp]:
  "local_ok E (rt\<lparr>rt_files := f\<rparr>) \<longleftrightarrow> local_ok E rt" "local_ok E (rt\<lparr>rt_blobs := b\<rparr>) \<longleftrightarrow> local_ok E rt"
  by (simp_all add: local_ok_def)

definition row_event :: "'c StoreLib \<Rightarrow> EventRow \<Rightarrow> SignedEvent" where
  "row_event L r = the (event_from_slice L (rw_event_json r))"

lemma good_row_event:
  assumes "good_row L r"
  shows "event_from_slice L (rw_event_json r) = Some (row_event L r)" "length (rw_event_json r) \<le> EVENT_JSON_MAX_BYTES"
    "sg_event_id (row_event L r) = EventId (rw_event_id r)" "workspace_str (ev_workspace (row_event L r)) = rw_workspace_id r"
    "is_servable_event L (row_event L r)" "coalesce_valid r = 1"
  using assms by (auto simp: good_row_def row_event_def codec_def event_row_def fits_def coalesce_valid_def
      bool_to_sqlite_integer_def)

lemma readable_row_event:
  assumes "readable L store" "r \<in> set store"
  shows "event_from_slice L (rw_event_json r) = Some (row_event L r)" "length (rw_event_json r) \<le> EVENT_JSON_MAX_BYTES"
    "sg_event_id (row_event L r) = EventId (rw_event_id r)" "workspace_str (ev_workspace (row_event L r)) = rw_workspace_id r"
  using assms by (auto simp: readable_def row_event_def codec_def event_row_def fits_def)

lemma readable_log_alt:
  assumes "readable L store"
  shows "list_parseable_events_for_workspace L store w = map (row_event L) (filter (in_workspace w) store)"
  using assms
proof (induction store)
  case (Cons r store)
  then have "readable L store" by (simp add: readable_def)
  with Cons readable_row_event(1,2) [OF Cons.prems, of r] show ?case
    by (simp add: list_parseable_events_for_workspace_def List.map_filter_simps)
qed (simp add: list_parseable_events_for_workspace_def List.map_filter_simps)

lemma readable_log_rows:
  assumes "readable L store"
  shows "map (event_str \<circ> sg_event_id) (list_parseable_events_for_workspace L store w)
    = map rw_event_id (filter (in_workspace w) store)"
  using readable_row_event(3) [OF assms] by (simp add: readable_log_alt [OF assms])

lemma readable_log_ids:
  assumes "readable L store" "distinct (map rw_event_id store)"
  shows "distinct (map sg_event_id (list_parseable_events_for_workspace L store w))"
proof -
  have "distinct (map (event_str \<circ> sg_event_id) (list_parseable_events_for_workspace L store w))"
    using assms(2) by (simp only: readable_log_rows [OF assms(1)]) (rule distinct_map_filter)
  then show ?thesis by (auto simp: distinct_map inj_on_def)
qed

lemma good_readable: "\<forall>r \<in> set store. good_row L r \<Longrightarrow> readable L store"
  by (auto simp: readable_def good_row_def)

lemmas log_alt = readable_log_alt [OF good_readable]
lemmas log_ids = readable_log_ids [OF good_readable]

lemma log_verified:
  assumes "\<forall>r \<in> set store. good_row L r"
  shows "verified_local_events_for_runtime L (list_parseable_events_for_workspace L store w)
    = list_parseable_events_for_workspace L store w"
  using assms
  by (auto simp: verified_local_events verified_sync_events_def log_alt filter_id_conv good_row_event(5) [unfolded is_servable_event_def])

lemma own_context:
  assumes "local_ok E rt"
    and "workspace_write_context E rt w = Inr ctx \<or> materialized_workspace_write_context E rt w = Inr ctx"
  shows "context_of E w ctx" "wc_events ctx = own_log E rt w"
proof -
  have rows: "\<forall>r \<in> set (rt_store rt). good_row (env_store E) r" "distinct (map rw_event_id (rt_store rt))"
    using assms(1) by (simp_all add: local_ok_def)
  note d = log_ids [OF rows, of "workspace_str w"]
  have c: "workspace_write_context_from_materialized_events E w (own_log E rt w) = Inr ctx"
    using assms(2)
    by (auto simp: workspace_write_context_def materialized_workspace_write_context_def result_simps Let_def
        log_verified [OF rows(1)] split: if_splits)
  show "context_of E w ctx" using context_from_events [OF c d] by simp
  obtain st where "accepted_run (apply_event (invite_order E)) (state_new w) (own_log E rt w) st"
    using assms(1) by (auto simp: local_ok_def)
  then have "apply_batch (invite_order E) (state_new w) (own_log E rt w)
      = Inr (st, \<lparr>rep_applied_events = map sg_event_id (own_log E rt w), rep_gaps = []\<rparr>)"
    using d by (intro ordered_batch) (simp add: ordered_run_def state_new_def access_inv_new)
  then show "wc_events ctx = own_log E rt w"
    using c take_events_run [OF d] events_by_id_member [OF d]
    by (auto simp: workspace_write_context_from_materialized_events_def result_simps Let_def split: if_splits)
qed

section \<open>Appending to a local store\<close>

lemma stored_row_unchanged:
  assumes "\<forall>r \<in> set store. good_row L r" "rw_event_id n \<in> rw_event_id ` set store"
  shows "put_row n store = store"
proof -
  have "coalesce_valid r = 1" if "r \<in> set store" for r using assms(1) that good_row_event(6) by blast
  with assms(2) show ?thesis by (auto simp: put_row_def intro!: map_idI)
qed

lemma log_put_row:
  assumes "\<forall>r \<in> set store. good_row L r" "rw_event_id (event_row L e) \<notin> rw_event_id ` set store"
    "fits L e" "codec L e" "is_servable_event L e"
  shows "list_parseable_events_for_workspace L (put_row (event_row L e) store) w
    = list_parseable_events_for_workspace L store w @ (if workspace_str (ev_workspace e) = w then [e] else [])"
proof -
  have g: "good_row L (event_row L e)" using assms(3-5) by (auto simp: good_row_def)
  have "row_event L (event_row L e) = e" using assms(4) by (simp add: row_event_def codec_def event_row_def)
  then show ?thesis using assms(1,2) g
    by (simp add: put_row_def log_alt [of "store @ [event_row L e]"] log_alt [of store])
      (simp add: in_workspace_def event_row_def)
qed

lemma local_append:
  assumes "local_ok E rt" "fits (env_store E) e" "codec (env_store E) e" "is_servable_event (env_store E) e"
    and "\<And>st. accepted_run (apply_event (invite_order E)) (state_new (ev_workspace e)) (own_log E rt (ev_workspace e)) st
      \<Longrightarrow> \<exists>st'. apply_event (invite_order E) st e = Inr st'"
  shows "local_ok E (rt\<lparr>rt_store := put_row (event_row (env_store E) e) (rt_store rt)\<rparr>)"
proof (cases "rw_event_id (event_row (env_store E) e) \<in> rw_event_id ` set (rt_store rt)")
  case True
  then have "put_row (event_row (env_store E) e) (rt_store rt) = rt_store rt"
    using assms(1) by (intro stored_row_unchanged) (auto simp: local_ok_def)
  with assms(1) show ?thesis by simp
next
  case False
  have rows: "\<forall>r \<in> set (rt_store rt). good_row (env_store E) r" using assms(1) by (simp add: local_ok_def)
  have log: "list_parseable_events_for_workspace (env_store E) (put_row (event_row (env_store E) e) (rt_store rt))
      (workspace_str w) = own_log E rt w @ (if ev_workspace e = w then [e] else [])" for w
    using log_put_row [OF rows False assms(2-4), of "workspace_str w"] by (auto simp: workspace_str_def WorkspaceId.expand)
  have run: "\<exists>st. accepted_run (apply_event (invite_order E)) (state_new w)
      (own_log E rt w @ (if ev_workspace e = w then [e] else [])) st" for w
  proof -
    obtain st where st: "accepted_run (apply_event (invite_order E)) (state_new w) (own_log E rt w) st"
      using assms(1) by (auto simp: local_ok_def)
    then show ?thesis using assms(5) [of st] by (auto intro: accepted_run_snoc)
  qed
  have "good_row (env_store E) (event_row (env_store E) e)" using assms(2-4) by (auto simp: good_row_def)
  then show ?thesis using assms(1) False run
    by (auto simp: local_ok_def log) (auto simp: put_row_def)
qed

text \<open>An event that a device signs as its author verifies.\<close>

lemma signed_verifies:
  assumes "signature_law L" "identity = from_signing_key L key" "se_author_device_id ev = di_device_id identity"
  shows "verify_self_contained_event L (sign_event L identity ev) = Inr ()"
proof -
  have law: "length (verifying_key L key) = 32" "vk_ok L (verifying_key L key)" "length (ed_sign L key m) = 64"
    "ed_verify L (verifying_key L key) m (ed_sign L key m)" for m
    using assms(1) by (simp_all add: signature_law_def)
  show ?thesis using assms(2,3)
    by (simp add: verify_self_contained_event_Inr sign_event_def from_author_signature_def from_signing_key_def
        verifying_key_bytes_def law)
qed

lemma sign_event_sel [simp]: "sg_event (sign_event L identity ev) = ev"
  by (simp add: sign_event_def from_author_signature_def)

text \<open>Appending an event that the state of its workspace accepts keeps the invariant.\<close>

lemma append_signed_keeps:
  assumes "env_laws E" "local_ok E rt" "se_author_device_id ev = own_device rt"
    and "\<And>st. accepted_run (apply_event (invite_order E)) (state_new (se_workspace_id ev)) (own_log E rt (se_workspace_id ev)) st
      \<Longrightarrow> \<exists>st'. apply_event (invite_order E) st (sign_event (ident (env_store E)) (rt_identity rt) ev) = Inr st'"
  shows "local_ok E (fst (append_signed E rt (sign_event (ident (env_store E)) (rt_identity rt) ev)))"
proof (cases "append_event (env_store E) (rt_store rt) (sign_event (ident (env_store E)) (rt_identity rt) ev)")
  case (Inl err)
  then show ?thesis using assms(2) by (simp add: append_signed_def attempt_def map_err_def)
next
  case (Inr store)
  let ?e = "sign_event (ident (env_store E)) (rt_identity rt) ev"
  have f: "fits (env_store E) ?e" "store = put_row (event_row (env_store E) ?e) (rt_store rt)"
    using Inr by (simp_all add: append_event_Inr)
  have "is_servable_event (env_store E) ?e"
    using assms(1-3) by (auto simp: env_laws_def local_ok_def is_servable_event_def intro: signed_verifies)
  then have "local_ok E (rt\<lparr>rt_store := store\<rparr>)"
    using assms f unfolding f(2) by (intro local_append) (auto simp: env_laws_def)
  then show ?thesis using Inr by (simp add: append_signed_def attempt_def map_err_def)
qed

lemma authorized_by_log:
  assumes "env_laws E" "local_ok E rt" "set (ev_parents ev) \<subseteq> sg_event_id ` set (own_log E rt (ev_workspace ev))"
    "authorize_event_with_history (origin_order E) (own_log E rt (ev_workspace ev)) ev = Inr ()"
    "accepted_run (apply_event (invite_order E)) (state_new (ev_workspace ev)) (own_log E rt (ev_workspace ev)) st"
  shows "\<exists>st'. apply_event (invite_order E) st ev = Inr st'"
proof (rule authorized_applies)
  have d: "distinct (map sg_event_id (own_log E rt (ev_workspace ev)))"
    using assms(2) by (intro log_ids) (auto simp: local_ok_def)
  have "accepted_run authorize_and_apply (index_new (ev_workspace ev)) (own_log E rt (ev_workspace ev)) (ws_access_index st)"
    using index_of_run [OF assms(5)] by (simp add: state_new_def)
  then show "authorize (ws_access_index st) ev = Inr ()"
    using history_agrees_with_run [of "origin_order E"] run_is_causal [OF assms(5) d] assms(1,4)
    by (simp add: env_laws_def)
  show "ev_workspace ev = ws_workspace_id st" using workspace_of_run [OF assms(5)] by (simp add: state_new_def)
  show "set (ev_parents ev) \<subseteq> ws_applied_event_ids st"
    using assms(3) applied_ids_of_run [OF assms(5)] by (auto simp: state_new_def)
qed

lemma write_keeps:
  assumes "env_laws E" "local_ok E rt" "se_author_device_id ev = own_device rt" "se_workspace_id ev = w"
    "set (se_parents ev) \<subseteq> sg_event_id ` set (own_log E rt w)"
  shows "local_ok E (fst (sign_authorize_and_append_with_history E rt ev (own_log E rt w)))"
proof (cases "authorize_event_with_history (origin_order E) (own_log E rt w)
    (sign_event (ident (env_store E)) (rt_identity rt) ev)")
  case (Inl err)
  then show ?thesis using assms(2) by (simp add: sign_authorize_and_append_with_history_def attempt_def map_err_def)
next
  case (Inr u)
  let ?e = "sign_event (ident (env_store E)) (rt_identity rt) ev"
  have e: "ev_workspace ?e = w" "ev_parents ?e = se_parents ev" using assms(4) by simp_all
  have "local_ok E (fst (append_signed E rt ?e))"
    using authorized_by_log [OF assms(1,2), of ?e, unfolded e, OF assms(5)] assms(1-4) Inr
    by (intro append_signed_keeps) auto
  then show ?thesis using Inr by (simp add: sign_authorize_and_append_with_history_def attempt_def map_err_def)
qed

section \<open>Actions\<close>

text \<open>Rules for operations with state: whatever the outcome, the runtime that is left is fine.\<close>

named_theorems keeps

lemma attempt_keeps [keeps]:
  "local_ok E rt \<Longrightarrow> (\<And>x. r = Inr x \<Longrightarrow> local_ok E (fst (k x))) \<Longrightarrow> local_ok E (fst (attempt rt r k))"
  by (auto simp: attempt_def split: sum.splits)

lemma and_then_keeps [keeps]:
  "local_ok E (fst p) \<Longrightarrow> (\<And>s x. p = (s, Inr x) \<Longrightarrow> local_ok E s \<Longrightarrow> local_ok E (fst (k s x))) \<Longrightarrow> local_ok E (fst (and_then p k))"
  by (auto simp: and_then_def split: prod.splits sum.splits)

lemma own_heads:
  assumes "local_ok E rt"
    and "workspace_write_context E rt w = Inr ctx \<or> materialized_workspace_write_context E rt w = Inr ctx"
  shows "set (wc_head_event_ids ctx) \<subseteq> sg_event_id ` set (own_log E rt w)"
  using own_context [OF assms] by (auto simp: context_of_def head_ids_finite head_ids_def)

lemma write_event_keeps [keeps]:
  assumes "env_laws E" "local_ok E rt" "workspace_write_context E rt w = Inr ctx"
  shows "local_ok E (fst (write_event E now rt w c ctx body))"
  using assms own_context(2) [of E rt w ctx] own_heads [of E rt w ctx]
  by (simp add: write_event_def write_keeps local_event_def signable_event_new_def)

text \<open>An event that the log authorises may be appended after the device has written files.\<close>

lemma authorized_append_keeps [keeps]:
  assumes "env_laws E" "local_ok E rt"
    and "workspace_write_context E rt w = Inr ctx \<or> materialized_workspace_write_context E rt w = Inr ctx"
    and "authorize_event_with_history (origin_order E) (wc_events ctx)
      (sign_event (ident (env_store E)) (rt_identity rt) ev) = Inr ()"
    and "se_author_device_id ev = own_device rt" "se_workspace_id ev = w" "se_parents ev = wc_head_event_ids ctx"
  shows "local_ok E (fst (append_signed E (rt\<lparr>rt_files := f\<rparr>) (sign_event (ident (env_store E)) (rt_identity rt) ev)))"
proof -
  let ?rt = "rt\<lparr>rt_files := f\<rparr>" and ?e = "sign_event (ident (env_store E)) (rt_identity rt) ev"
  have e: "ev_workspace ?e = w" "ev_parents ?e = wc_head_event_ids ctx" using assms(6,7) by simp_all
  have "local_ok E ?rt" using assms(2) by simp
  from append_signed_keeps [OF assms(1) this, of ev] show ?thesis
    using authorized_by_log [OF assms(1,2), of ?e, unfolded e] own_heads [OF assms(2,3)] own_context(2) [OF assms(2,3)]
      assms(4-6) by simp
qed

lemma saved_files:
  "write_local_secret_file L salt nonce rt path kind plain = Inr rt' \<Longrightarrow> \<exists>f. rt' = rt\<lparr>rt_files := f\<rparr>"
  by (auto simp: write_local_secret_file_def result_simps)

lemma save_key_write_keeps [keeps]:
  assumes "env_laws E" "local_ok E rt" "materialized_workspace_write_context E rt w = Inr ctx"
    and "se_author_device_id ev = own_device rt" "se_workspace_id ev = w" "se_parents ev = wc_head_event_ids ctx"
    and "\<And>rt'. save rt = Inr rt' \<Longrightarrow> \<exists>f. rt' = rt\<lparr>rt_files := f\<rparr>"
  shows "local_ok E (fst (sign_authorize_save_key_and_append_with_history E rt ev (wc_events ctx) save))"
  unfolding sign_authorize_save_key_and_append_with_history_def Let_def
  using assms by (auto simp: map_err_def result_simps split: sum.splits intro!: attempt_keeps dest!: assms(7)
      intro: authorized_append_keeps)

end
