(* ===== verification/Mls_Types.thy ===== *)
theory Mls_Types
  imports Local_Secret
begin

text \<open>
  The results of the crate \<^verbatim>\<open>src/security/mls\<close>, which wraps the OpenMLS library, and of the group actions of
  \<^verbatim>\<open>src/runtime/src/openmls_actions.rs\<close>.  The functions of the crate that run the MLS protocol are
  arguments: a record \<open>MlsLib\<close> of arbitrary functions, of which nothing is assumed here.  Those that draw
  random numbers take them as a first argument.
\<close>

abbreviation OPENMLS_WORKSPACE_GROUP_PROTOCOL :: string where
  "OPENMLS_WORKSPACE_GROUP_PROTOCOL \<equiv> ''openmls/workspace-group/rfc9420''"

abbreviation OPENMLS_CHANNEL_GROUP_PROTOCOL :: string where
  "OPENMLS_CHANNEL_GROUP_PROTOCOL \<equiv> ''openmls/channel-group/rfc9420''"

section \<open>Results of the MLS crate\<close>

record GeneratedMlsKeyPackage =
  gen_protocol :: string
  gen_ciphersuite :: string
  gen_key_package_ref :: string
  gen_identity :: string
  gen_key_package :: bytes
  gen_private_bundle :: bytes

record ValidatedMlsKeyPackage =
  val_protocol :: string
  val_ciphersuite :: string
  val_key_package_ref :: string
  val_identity :: string
  val_signature_public_key :: bytes
  val_byte_len :: nat

record CreatedMlsWorkspaceGroup =
  new_protocol :: string
  new_ciphersuite :: string
  new_group_id :: string
  new_epoch :: u64
  new_identity :: string
  new_member_count :: nat
  new_private_group_state :: bytes

record ValidatedMlsWorkspaceGroup =
  grp_protocol :: string
  grp_ciphersuite :: string
  grp_group_id :: string
  grp_epoch :: u64
  grp_identity :: string
  grp_member_count :: nat
  grp_storage_entry_count :: nat

record AddedMlsWorkspaceGroupMember =
  add_protocol :: string
  add_ciphersuite :: string
  add_group_id :: string
  add_epoch :: u64
  add_member_count :: nat
  add_invitee_identity :: string
  add_invitee_key_package_ref :: string
  add_commit :: bytes
  add_welcome :: bytes
  add_ratchet_tree :: bytes
  add_updated_private_group_state :: bytes

record RemovedMlsWorkspaceGroupMember =
  rem_protocol :: string
  rem_ciphersuite :: string
  rem_group_id :: string
  rem_epoch :: u64
  rem_member_count :: nat
  rem_removed_identity :: string
  rem_commit :: bytes
  rem_ratchet_tree :: bytes
  rem_updated_private_group_state :: bytes

record JoinedMlsWorkspaceGroup =
  join_protocol :: string
  join_ciphersuite :: string
  join_group_id :: string
  join_epoch :: u64
  join_identity :: string
  join_member_count :: nat
  join_private_group_state :: bytes

record UpdatedMlsWorkspaceGroup =
  upd_protocol :: string
  upd_ciphersuite :: string
  upd_group_id :: string
  upd_epoch :: u64
  upd_member_count :: nat
  upd_commit :: bytes
  upd_ratchet_tree :: bytes
  upd_updated_private_group_state :: bytes

record AppliedMlsWorkspaceGroupCommit =
  app_protocol :: string
  app_ciphersuite :: string
  app_group_id :: string
  app_epoch :: u64
  app_identity :: string
  app_member_count :: nat
  app_self_removed :: bool
  app_updated_private_group_state :: bytes

record MlsLib =
  generate_device_key_package :: "bytes \<Rightarrow> string \<Rightarrow> string + GeneratedMlsKeyPackage"
  validate_key_package :: "bytes \<Rightarrow> string + ValidatedMlsKeyPackage"
  create_group :: "bytes \<Rightarrow> string \<Rightarrow> string \<Rightarrow> string \<Rightarrow> string + CreatedMlsWorkspaceGroup"
  validate_private_workspace_group_state :: "bytes \<Rightarrow> string + ValidatedMlsWorkspaceGroup"
  add_member_to_workspace_group :: "bytes \<Rightarrow> bytes \<Rightarrow> bytes \<Rightarrow> string + AddedMlsWorkspaceGroupMember"
  remove_member_from_group :: "bytes \<Rightarrow> bytes \<Rightarrow> string \<Rightarrow> string + RemovedMlsWorkspaceGroupMember"
  join_group_from_welcome :: "bytes \<Rightarrow> bytes \<Rightarrow> bytes \<Rightarrow> string \<Rightarrow> string + JoinedMlsWorkspaceGroup"
  update_own_leaf_in_group :: "bytes \<Rightarrow> bytes \<Rightarrow> string + UpdatedMlsWorkspaceGroup"
  apply_group_commit :: "bytes \<Rightarrow> bytes \<Rightarrow> string + AppliedMlsWorkspaceGroupCommit"
  validate_private_key_package_bundle :: "bytes \<Rightarrow> string + ValidatedMlsKeyPackage"

definition create_workspace_group ::
  "MlsLib \<Rightarrow> bytes \<Rightarrow> string \<Rightarrow> string \<Rightarrow> string + CreatedMlsWorkspaceGroup" where
  "create_workspace_group M random identity workspace_id =
     create_group M random identity OPENMLS_WORKSPACE_GROUP_PROTOCOL (''chaft/workspace/'' @ workspace_id)"

definition create_channel_group ::
  "MlsLib \<Rightarrow> bytes \<Rightarrow> string \<Rightarrow> string \<Rightarrow> string \<Rightarrow> string + CreatedMlsWorkspaceGroup" where
  "create_channel_group M random identity workspace_id channel_id =
     create_group M random identity OPENMLS_CHANNEL_GROUP_PROTOCOL
       (''chaft/workspace/'' @ workspace_id @ ''/channel/'' @ channel_id)"

definition join_workspace_group_from_welcome ::
  "MlsLib \<Rightarrow> bytes \<Rightarrow> bytes \<Rightarrow> bytes \<Rightarrow> string + JoinedMlsWorkspaceGroup" where
  "join_workspace_group_from_welcome M private_key_package_bundle welcome ratchet_tree =
     join_group_from_welcome M private_key_package_bundle welcome ratchet_tree OPENMLS_WORKSPACE_GROUP_PROTOCOL"

definition join_channel_group_from_welcome ::
  "MlsLib \<Rightarrow> bytes \<Rightarrow> bytes \<Rightarrow> bytes \<Rightarrow> string + JoinedMlsWorkspaceGroup" where
  "join_channel_group_from_welcome M private_key_package_bundle welcome ratchet_tree =
     join_group_from_welcome M private_key_package_bundle welcome ratchet_tree OPENMLS_CHANNEL_GROUP_PROTOCOL"

section \<open>Results of the group actions\<close>

text \<open>The structure of a channel is that of the workspace and the identifier of the channel.\<close>

record PublishedOpenMlsKeyPackage =
  pk_workspace_id :: string
  pk_device_id :: string
  pk_key_package_id :: string
  pk_protocol :: string
  pk_ciphersuite :: string
  pk_key_package_ref :: string
  pk_byte_len :: nat
  pk_private_bundle_path :: string
  pk_event_id :: string

record CreatedOpenMlsWorkspaceGroup =
  cg_workspace_id :: string
  cg_device_id :: string
  cg_protocol :: string
  cg_ciphersuite :: string
  cg_group_id :: string
  cg_epoch :: u64
  cg_member_count :: nat
  cg_private_group_state_path :: string

record CreatedOpenMlsChannelGroup = CreatedOpenMlsWorkspaceGroup + cg_channel_id :: string

record AddedOpenMlsWorkspaceGroupMember =
  ag_workspace_id :: string
  ag_device_id :: string
  ag_invitee_device_id :: string
  ag_invitee_key_package_id :: string
  ag_invitee_key_package_ref :: string
  ag_protocol :: string
  ag_ciphersuite :: string
  ag_group_id :: string
  ag_epoch :: u64
  ag_member_count :: nat
  ag_commit_byte_len :: nat
  ag_welcome_byte_len :: nat
  ag_ratchet_tree_byte_len :: nat
  ag_private_group_state_path :: string
  ag_event_id :: string

record AddedOpenMlsChannelGroupMember = AddedOpenMlsWorkspaceGroupMember + ag_channel_id :: string

record RemovedOpenMlsWorkspaceGroupMember =
  rg_workspace_id :: string
  rg_device_id :: string
  rg_removed_device_id :: string
  rg_protocol :: string
  rg_ciphersuite :: string
  rg_group_id :: string
  rg_epoch :: u64
  rg_member_count :: nat
  rg_commit_byte_len :: nat
  rg_ratchet_tree_byte_len :: nat
  rg_private_group_state_path :: string
  rg_event_id :: string

record RemovedOpenMlsChannelGroupMember = RemovedOpenMlsWorkspaceGroupMember + rg_channel_id :: string

record JoinedOpenMlsWorkspaceGroup =
  jg_workspace_id :: string
  jg_device_id :: string
  jg_protocol :: string
  jg_ciphersuite :: string
  jg_group_id :: string
  jg_epoch :: u64
  jg_member_count :: nat
  jg_private_group_state_path :: string
  jg_source_event_id :: string

record JoinedOpenMlsChannelGroup = JoinedOpenMlsWorkspaceGroup + jg_channel_id :: string

record UpdatedOpenMlsWorkspaceGroup =
  ug_workspace_id :: string
  ug_device_id :: string
  ug_protocol :: string
  ug_ciphersuite :: string
  ug_group_id :: string
  ug_epoch :: u64
  ug_member_count :: nat
  ug_commit_byte_len :: nat
  ug_ratchet_tree_byte_len :: nat
  ug_private_group_state_path :: string
  ug_event_id :: string

record UpdatedOpenMlsChannelGroup = UpdatedOpenMlsWorkspaceGroup + ug_channel_id :: string

record UpdatedWorkspaceOpenMlsGroups =
  uw_workspace_id :: string
  uw_workspace_update :: "UpdatedOpenMlsWorkspaceGroup option"
  uw_channel_update_count :: nat
  uw_channel_updates :: "UpdatedOpenMlsChannelGroup list"
  uw_updated_event_count :: nat
  uw_updated_event_ids :: "string list"

record AppliedOpenMlsWorkspaceGroupCommits =
  ac_workspace_id :: string
  ac_device_id :: string
  ac_protocol :: string
  ac_ciphersuite :: string
  ac_group_id :: string
  ac_epoch :: u64
  ac_member_count :: nat
  ac_applied_event_count :: nat
  ac_applied_event_ids :: "string list"
  ac_self_removed :: bool
  ac_private_group_state_path :: string

record AppliedOpenMlsChannelGroupCommits = AppliedOpenMlsWorkspaceGroupCommits + ac_channel_id :: string

end
