(* ===== verification/Group_Index.thy ===== *)
theory Group_Index
  imports Access_Index "HOL-Library.Product_Lexorder"
begin

text \<open>
  What the events of a workspace say about its MLS groups, from \<^verbatim>\<open>src/runtime/src/openmls_provisioning.rs\<close>: the
  members of private channels, and an index of the members, commits, forks, revocations and key packages of
  the groups.  A \<open>BTreeSet\<close> is a set and a \<open>BTreeMap\<close> a finite map; where the code iterates over one, the
  model goes through its sorted list.
\<close>

abbreviation OPENMLS_KEY_PACKAGE_PROTOCOL :: string where
  "OPENMLS_KEY_PACKAGE_PROTOCOL \<equiv> ''openmls/key-package/rfc9420''"

text \<open>\<open>m.entry(k).or_default()\<close>, changed by \<open>f\<close>.\<close>

definition entry_or_default :: "'k \<Rightarrow> 'v \<Rightarrow> ('v \<Rightarrow> 'v) \<Rightarrow> ('k, 'v) fmap \<Rightarrow> ('k, 'v) fmap" where
  "entry_or_default k d f m = fmupd k (f (case fmlookup m k of Some v \<Rightarrow> v | None \<Rightarrow> d)) m"

section \<open>Members of private channels\<close>

fun find_map :: "('a \<Rightarrow> 'b option) \<Rightarrow> 'a list \<Rightarrow> 'b option" where
  "find_map f [] = None"
| "find_map f (x # xs) = (case f x of Some y \<Rightarrow> Some y | None \<Rightarrow> find_map f xs)"

definition private_channel_creator_device_id_from_events :: "SignedEvent list \<Rightarrow> ChannelId \<Rightarrow> DeviceId option" where
  "private_channel_creator_device_id_from_events events expected_channel_id =
     find_map (\<lambda>event. case ev_body event of
         ChannelCreated channel_id _ is_private \<Rightarrow>
           if is_private \<and> channel_id = expected_channel_id then Some (ev_author event) else None
       | DirectMessageChannelCreated channel_id _ _ \<Rightarrow>
           if channel_id = expected_channel_id then Some (ev_author event) else None
       | _ \<Rightarrow> None) events"

definition workspace_creator_device_id_from_events :: "SignedEvent list \<Rightarrow> DeviceId option" where
  "workspace_creator_device_id_from_events events =
     find_map (\<lambda>event. case ev_body event of WorkspaceCreated _ \<Rightarrow> Some (ev_author event) | _ \<Rightarrow> None) events"

definition channel_member_step :: "ChannelId \<Rightarrow> string set \<Rightarrow> SignedEvent \<Rightarrow> string set" where
  "channel_member_step expected_channel_id member_ids event =
     (case ev_body event of
        ChannelCreated channel_id _ is_private \<Rightarrow>
          if channel_id = expected_channel_id \<and> is_private
          then insert (device_str (ev_author event)) member_ids else member_ids
      | DirectMessageChannelCreated channel_id _ participants \<Rightarrow>
          if channel_id = expected_channel_id
          then insert (device_str (ev_author event)) (member_ids \<union> device_str ` set participants) else member_ids
      | ChannelMemberAdded channel_id member \<Rightarrow>
          if channel_id = expected_channel_id then insert (device_str member) member_ids else member_ids
      | ChannelMemberRemoved channel_id member \<Rightarrow>
          if channel_id = expected_channel_id then member_ids - {device_str member} else member_ids
      | MemberRemoved removed \<Rightarrow> member_ids - {device_str removed}
      | _ \<Rightarrow> member_ids)"

definition current_private_channel_member_ids_from_events :: "SignedEvent list \<Rightarrow> ChannelId \<Rightarrow> string set" where
  "current_private_channel_member_ids_from_events events expected_channel_id =
     foldl (channel_member_step expected_channel_id) {} events"

section \<open>The index\<close>

record OpenMlsAutoProvisionIndex =
  px_used_key_package_ids :: "string set"
  px_key_package_ids_by_device_id :: "(string, DeviceKeyPackageId list) fmap"
  px_workspace_group_members :: "(string, string set) fmap"
  px_channel_group_members :: "(string, (string, string set) fmap) fmap"
  px_workspace_commits :: "(string \<times> u64, string) fmap"
  px_channel_commits :: "(string \<times> string \<times> u64, string) fmap"
  px_forked_workspace_group_ids :: "string set"
  px_forked_channel_group_ids :: "(string \<times> string) set"
  px_workspace_revoked_device_ids :: "string set"
  px_channel_revoked_device_ids :: "(string, string set) fmap"

definition provision_index_default :: OpenMlsAutoProvisionIndex where
  "provision_index_default =
     \<lparr>px_used_key_package_ids = {}, px_key_package_ids_by_device_id = fmempty, px_workspace_group_members = fmempty,
      px_channel_group_members = fmempty, px_workspace_commits = fmempty, px_channel_commits = fmempty,
      px_forked_workspace_group_ids = {}, px_forked_channel_group_ids = {}, px_workspace_revoked_device_ids = {},
      px_channel_revoked_device_ids = fmempty\<rparr>"

definition record_workspace_commit ::
  "string \<Rightarrow> string \<Rightarrow> u64 \<Rightarrow> OpenMlsAutoProvisionIndex \<Rightarrow> OpenMlsAutoProvisionIndex" where
  "record_workspace_commit event_id group_id epoch ix =
     (let existing = fmlookup (px_workspace_commits ix) (group_id, epoch);
          ix = ix\<lparr>px_workspace_commits := fmupd (group_id, epoch) event_id (px_workspace_commits ix)\<rparr>
      in case existing of
           Some e \<Rightarrow> if e \<noteq> event_id
             then ix\<lparr>px_forked_workspace_group_ids := insert group_id (px_forked_workspace_group_ids ix)\<rparr> else ix
         | None \<Rightarrow> ix)"

definition record_channel_commit ::
  "string \<Rightarrow> string \<Rightarrow> string \<Rightarrow> u64 \<Rightarrow> OpenMlsAutoProvisionIndex \<Rightarrow> OpenMlsAutoProvisionIndex" where
  "record_channel_commit event_id channel_id group_id epoch ix =
     (let existing = fmlookup (px_channel_commits ix) (channel_id, group_id, epoch);
          ix = ix\<lparr>px_channel_commits := fmupd (channel_id, group_id, epoch) event_id (px_channel_commits ix)\<rparr>
      in case existing of
           Some e \<Rightarrow> if e \<noteq> event_id
             then ix\<lparr>px_forked_channel_group_ids := insert (channel_id, group_id) (px_forked_channel_group_ids ix)\<rparr> else ix
         | None \<Rightarrow> ix)"

definition index_commit :: "SignedEvent \<Rightarrow> OpenMlsAutoProvisionIndex \<Rightarrow> OpenMlsAutoProvisionIndex" where
  "index_commit event ix =
     (case ev_body event of
        OpenMlsWorkspaceGroupMemberAdded _ _ _ _ _ group_id epoch _ _ _ \<Rightarrow>
          record_workspace_commit (event_str (sg_event_id event)) group_id epoch ix
      | OpenMlsWorkspaceGroupMemberRemoved _ _ _ group_id epoch _ _ \<Rightarrow>
          record_workspace_commit (event_str (sg_event_id event)) group_id epoch ix
      | OpenMlsWorkspaceGroupSelfUpdated _ _ group_id epoch _ _ \<Rightarrow>
          record_workspace_commit (event_str (sg_event_id event)) group_id epoch ix
      | OpenMlsChannelGroupMemberAdded channel_id _ _ _ _ _ group_id epoch _ _ _ \<Rightarrow>
          record_channel_commit (event_str (sg_event_id event)) (channel_str channel_id) group_id epoch ix
      | OpenMlsChannelGroupMemberRemoved channel_id _ _ _ group_id epoch _ _ \<Rightarrow>
          record_channel_commit (event_str (sg_event_id event)) (channel_str channel_id) group_id epoch ix
      | OpenMlsChannelGroupSelfUpdated channel_id _ _ group_id epoch _ _ \<Rightarrow>
          record_channel_commit (event_str (sg_event_id event)) (channel_str channel_id) group_id epoch ix
      | _ \<Rightarrow> ix)"

definition index_effect :: "SignedEvent \<Rightarrow> OpenMlsAutoProvisionIndex \<Rightarrow> OpenMlsAutoProvisionIndex" where
  "index_effect event ix =
     (let author = device_str (ev_author event) in
      case ev_body event of
        MemberInvited invitee _ \<Rightarrow>
          ix\<lparr>px_workspace_revoked_device_ids := px_workspace_revoked_device_ids ix - {device_str invitee}\<rparr>
      | ChannelMemberAdded channel_id member \<Rightarrow>
          ix\<lparr>px_channel_revoked_device_ids := fm_modify (channel_str channel_id) (\<lambda>ds. ds - {device_str member})
            (px_channel_revoked_device_ids ix)\<rparr>
      | DeviceKeyPackagePublished key_package_id protocol _ \<Rightarrow>
          if protocol = OPENMLS_KEY_PACKAGE_PROTOCOL
          then ix\<lparr>px_key_package_ids_by_device_id :=
            entry_or_default author [] (\<lambda>ids. ids @ [key_package_id]) (px_key_package_ids_by_device_id ix)\<rparr>
          else ix
      | OpenMlsWorkspaceGroupMemberAdded invitee key_package_id _ _ _ group_id _ _ _ _ \<Rightarrow>
          ix\<lparr>px_workspace_group_members :=
              entry_or_default group_id {} (\<lambda>ms. insert (device_str invitee) (insert author ms)) (px_workspace_group_members ix),
             px_used_key_package_ids := insert (key_package_str key_package_id) (px_used_key_package_ids ix)\<rparr>
      | OpenMlsWorkspaceGroupMemberRemoved removed _ _ group_id _ _ _ \<Rightarrow>
          ix\<lparr>px_workspace_group_members :=
              fm_modify group_id (\<lambda>ms. ms - {device_str removed}) (px_workspace_group_members ix),
             px_workspace_revoked_device_ids := insert (device_str removed) (px_workspace_revoked_device_ids ix)\<rparr>
      | OpenMlsChannelGroupMemberAdded channel_id invitee key_package_id _ _ _ group_id _ _ _ _ \<Rightarrow>
          ix\<lparr>px_channel_group_members :=
              entry_or_default (channel_str channel_id) fmempty
                (entry_or_default group_id {} (\<lambda>ms. insert (device_str invitee) (insert author ms)))
                (px_channel_group_members ix),
             px_used_key_package_ids := insert (key_package_str key_package_id) (px_used_key_package_ids ix)\<rparr>
      | OpenMlsChannelGroupMemberRemoved channel_id removed _ _ group_id _ _ _ \<Rightarrow>
          ix\<lparr>px_channel_group_members :=
              fm_modify (channel_str channel_id) (fm_modify group_id (\<lambda>ms. ms - {device_str removed}))
                (px_channel_group_members ix),
             px_channel_revoked_device_ids :=
               entry_or_default (channel_str channel_id) {} (insert (device_str removed)) (px_channel_revoked_device_ids ix)\<rparr>
      | _ \<Rightarrow> ix)"

definition provision_index_from_events :: "SignedEvent list \<Rightarrow> OpenMlsAutoProvisionIndex" where
  "provision_index_from_events events =
     foldl (\<lambda>ix event. index_effect event (index_commit event ix)) provision_index_default events"

section \<open>Queries\<close>

definition workspace_group_ids_for_device :: "OpenMlsAutoProvisionIndex \<Rightarrow> DeviceId \<Rightarrow> string list" where
  "workspace_group_ids_for_device ix device_id =
     map fst (filter (\<lambda>(_, ms). device_str device_id \<in> ms) (sorted_list_of_fmap (px_workspace_group_members ix)))"

definition workspace_group_has_device :: "OpenMlsAutoProvisionIndex \<Rightarrow> DeviceId \<Rightarrow> bool" where
  "workspace_group_has_device ix device_id \<longleftrightarrow> workspace_group_ids_for_device ix device_id \<noteq> []"

definition workspace_device_is_revoked :: "OpenMlsAutoProvisionIndex \<Rightarrow> DeviceId \<Rightarrow> bool" where
  "workspace_device_is_revoked ix device_id \<longleftrightarrow> device_str device_id \<in> px_workspace_revoked_device_ids ix"

definition workspace_group_has_device_in_group :: "OpenMlsAutoProvisionIndex \<Rightarrow> string \<Rightarrow> DeviceId \<Rightarrow> bool" where
  "workspace_group_has_device_in_group ix group_id device_id \<longleftrightarrow>
     (case fmlookup (px_workspace_group_members ix) group_id of Some ms \<Rightarrow> device_str device_id \<in> ms | None \<Rightarrow> False)"

definition has_forked_workspace_group :: "OpenMlsAutoProvisionIndex \<Rightarrow> bool" where
  "has_forked_workspace_group ix \<longleftrightarrow> px_forked_workspace_group_ids ix \<noteq> {}"

text \<open>\<open>groups.values().any(|member_ids| member_ids.contains(..))\<close>\<close>

definition any_group_has :: "(string, string set) fmap \<Rightarrow> DeviceId \<Rightarrow> bool" where
  "any_group_has groups device_id \<longleftrightarrow> (\<exists>(_, ms) \<in> set (sorted_list_of_fmap groups). device_str device_id \<in> ms)"

definition channel_group_has_device :: "OpenMlsAutoProvisionIndex \<Rightarrow> ChannelId \<Rightarrow> DeviceId \<Rightarrow> bool" where
  "channel_group_has_device ix channel_id device_id \<longleftrightarrow>
     (case fmlookup (px_channel_group_members ix) (channel_str channel_id) of
        Some groups \<Rightarrow> any_group_has groups device_id | None \<Rightarrow> False)"

definition channel_device_is_revoked :: "OpenMlsAutoProvisionIndex \<Rightarrow> ChannelId \<Rightarrow> DeviceId \<Rightarrow> bool" where
  "channel_device_is_revoked ix channel_id device_id \<longleftrightarrow>
     (case fmlookup (px_channel_revoked_device_ids ix) (channel_str channel_id) of
        Some ds \<Rightarrow> device_str device_id \<in> ds | None \<Rightarrow> False)"

definition channel_group_has_device_in_group :: "OpenMlsAutoProvisionIndex \<Rightarrow> ChannelId \<Rightarrow> string \<Rightarrow> DeviceId \<Rightarrow> bool" where
  "channel_group_has_device_in_group ix channel_id group_id device_id \<longleftrightarrow>
     (case Option.bind (fmlookup (px_channel_group_members ix) (channel_str channel_id)) (\<lambda>groups. fmlookup groups group_id) of
        Some ms \<Rightarrow> device_str device_id \<in> ms | None \<Rightarrow> False)"

definition channel_group_ids_for_device_in_channel :: "OpenMlsAutoProvisionIndex \<Rightarrow> ChannelId \<Rightarrow> DeviceId \<Rightarrow> string list" where
  "channel_group_ids_for_device_in_channel ix channel_id device_id =
     (case fmlookup (px_channel_group_members ix) (channel_str channel_id) of
        Some groups \<Rightarrow> map fst (filter (\<lambda>(_, ms). device_str device_id \<in> ms) (sorted_list_of_fmap groups))
      | None \<Rightarrow> [])"

definition channel_has_forked_group :: "OpenMlsAutoProvisionIndex \<Rightarrow> ChannelId \<Rightarrow> bool" where
  "channel_has_forked_group ix channel_id \<longleftrightarrow>
     (\<exists>(c, _) \<in> px_forked_channel_group_ids ix. c = channel_str channel_id)"

definition first_forked_channel_id :: "OpenMlsAutoProvisionIndex \<Rightarrow> ChannelId option" where
  "first_forked_channel_id ix =
     (if px_forked_channel_group_ids ix = {} then None else Some (ChannelId (fst (Min (px_forked_channel_group_ids ix)))))"

definition channel_group_has_events :: "OpenMlsAutoProvisionIndex \<Rightarrow> ChannelId \<Rightarrow> bool" where
  "channel_group_has_events ix channel_id \<longleftrightarrow>
     (\<exists>(c, _, _) \<in> fmdom' (px_channel_commits ix). c = channel_str channel_id)"

definition workspace_group_has_events :: "OpenMlsAutoProvisionIndex \<Rightarrow> bool" where
  "workspace_group_has_events ix \<longleftrightarrow> fmdom' (px_workspace_commits ix) \<noteq> {}"

definition channel_group_ids_for_device :: "OpenMlsAutoProvisionIndex \<Rightarrow> DeviceId \<Rightarrow> ChannelId list" where
  "channel_group_ids_for_device ix device_id =
     map (\<lambda>(c, _). ChannelId c)
       (filter (\<lambda>(_, groups). any_group_has groups device_id) (sorted_list_of_fmap (px_channel_group_members ix)))"

definition key_package_is_used :: "OpenMlsAutoProvisionIndex \<Rightarrow> DeviceKeyPackageId \<Rightarrow> bool" where
  "key_package_is_used ix key_package_id \<longleftrightarrow> key_package_str key_package_id \<in> px_used_key_package_ids ix"

definition latest_unused_key_package_id_for_device :: "OpenMlsAutoProvisionIndex \<Rightarrow> DeviceId \<Rightarrow> DeviceKeyPackageId option" where
  "latest_unused_key_package_id_for_device ix device_id =
     Option.bind (fmlookup (px_key_package_ids_by_device_id ix) (device_str device_id)) (\<lambda>ids.
       find (\<lambda>i. key_package_str i \<notin> px_used_key_package_ids ix) (rev ids))"

definition mark_workspace_group_member_added ::
  "string \<Rightarrow> string \<Rightarrow> string \<Rightarrow> OpenMlsAutoProvisionIndex \<Rightarrow> OpenMlsAutoProvisionIndex" where
  "mark_workspace_group_member_added group_id device_id key_package_id ix =
     ix\<lparr>px_workspace_group_members := entry_or_default group_id {} (insert device_id) (px_workspace_group_members ix),
        px_used_key_package_ids := insert key_package_id (px_used_key_package_ids ix)\<rparr>"

definition mark_channel_group_member_added ::
  "string \<Rightarrow> string \<Rightarrow> string \<Rightarrow> string \<Rightarrow> OpenMlsAutoProvisionIndex \<Rightarrow> OpenMlsAutoProvisionIndex" where
  "mark_channel_group_member_added channel_id group_id device_id key_package_id ix =
     ix\<lparr>px_channel_group_members := entry_or_default channel_id fmempty
          (entry_or_default group_id {} (insert device_id)) (px_channel_group_members ix),
        px_used_key_package_ids := insert key_package_id (px_used_key_package_ids ix)\<rparr>"

end
