(* ===== verification/Group_Actions.thy ===== *)
theory Group_Actions
  imports Mls_Types Group_Index Local_Actions
begin

text \<open>
  The actions on MLS groups, from \<^verbatim>\<open>src/runtime/src/openmls_actions.rs\<close> and the helpers of
  \<^verbatim>\<open>src/runtime/src/lib.rs\<close> they use: publishing key packages, creating groups, adding and removing members,
  joining from a welcome, updating the own leaf and applying the commits of others.  The private state of
  a group is a secret file of the device.  Clock, random numbers, salts and nonces are arguments; the
  assertions that only debug builds check are left out.
\<close>

record GroupInputs =
  in_now :: HybridTimestamp
  in_random :: bytes
  in_salt :: bytes
  in_nonce :: bytes

abbreviation LOCAL_SECRET_KIND_OPENMLS_KEY_PACKAGE :: string where
  "LOCAL_SECRET_KIND_OPENMLS_KEY_PACKAGE \<equiv> ''openmls-key-package''"
abbreviation LOCAL_SECRET_KIND_OPENMLS_WORKSPACE_GROUP :: string where
  "LOCAL_SECRET_KIND_OPENMLS_WORKSPACE_GROUP \<equiv> ''openmls-workspace-group''"
abbreviation LOCAL_SECRET_KIND_OPENMLS_CHANNEL_GROUP :: string where
  "LOCAL_SECRET_KIND_OPENMLS_CHANNEL_GROUP \<equiv> ''openmls-channel-group''"

section \<open>Files of groups and key packages\<close>

definition openmls_key_package_path :: "LocalRuntime \<Rightarrow> WorkspaceId \<Rightarrow> string \<Rightarrow> string" where
  "openmls_key_package_path rt workspace_id key_package_ref =
     path_join (path_join (path_join (rp_workspace_keys_dir (rt_paths rt)) (workspace_str workspace_id)) ''mls-key-packages'')
       (key_package_ref @ ''.json'')"

definition read_openmls_secret_file :: "'c RuntimeEnv \<Rightarrow> LocalRuntime \<Rightarrow> string \<Rightarrow> string \<Rightarrow> RuntimeError + bytes" where
  "read_openmls_secret_file E rt path secret_kind = read_local_secret_file (secret_lib (key_lib E)) rt path secret_kind"

definition write_openmls_secret_file ::
  "'c RuntimeEnv \<Rightarrow> GroupInputs \<Rightarrow> LocalRuntime \<Rightarrow> string \<Rightarrow> string \<Rightarrow> bytes \<Rightarrow> RuntimeError + LocalRuntime" where
  "write_openmls_secret_file E inp rt path secret_kind plaintext =
     write_local_secret_file (secret_lib (key_lib E)) (in_salt inp) (in_nonce inp) rt path secret_kind plaintext"

definition local_openmls_workspace_group_id ::
  "'c RuntimeEnv \<Rightarrow> MlsLib \<Rightarrow> LocalRuntime \<Rightarrow> WorkspaceId \<Rightarrow> RuntimeError + string option" where
  "local_openmls_workspace_group_id E M rt workspace_id =
     (let path = openmls_workspace_group_path rt workspace_id in
      if \<not> contains_key (rt_files rt) path then Inr None
      else bind_res (read_openmls_secret_file E rt path LOCAL_SECRET_KIND_OPENMLS_WORKSPACE_GROUP) (\<lambda>bytes.
        bind_res (map_err RtMls (validate_private_workspace_group_state M bytes)) (\<lambda>validated.
          Inr (Some (grp_group_id validated)))))"

definition local_openmls_channel_group_id ::
  "'c RuntimeEnv \<Rightarrow> MlsLib \<Rightarrow> LocalRuntime \<Rightarrow> WorkspaceId \<Rightarrow> ChannelId \<Rightarrow> RuntimeError + string option" where
  "local_openmls_channel_group_id E M rt workspace_id channel_id =
     (let path = openmls_channel_group_path rt workspace_id channel_id in
      if \<not> contains_key (rt_files rt) path then Inr None
      else bind_res (read_openmls_secret_file E rt path LOCAL_SECRET_KIND_OPENMLS_CHANNEL_GROUP) (\<lambda>bytes.
        bind_res (map_err RtMls (validate_private_workspace_group_state M bytes)) (\<lambda>validated.
          Inr (Some (grp_group_id validated)))))"

definition local_updatable_openmls_channel_group_ids ::
  "'c RuntimeEnv \<Rightarrow> LocalRuntime \<Rightarrow> WorkspaceId \<Rightarrow> RuntimeError + ChannelId list" where
  "local_updatable_openmls_channel_group_ids E rt workspace_id =
     bind_res (materialized_state E rt workspace_id) (\<lambda>state.
       Inr (sort (map cv_channel_id (filter (\<lambda>channel. cv_is_private channel
           \<and> channel_accessible_to state (cv_channel_id channel) (own_device rt)
           \<and> contains_key (rt_files rt) (openmls_channel_group_path rt workspace_id (cv_channel_id channel)))
         (map snd (sorted_list_of_fmap (ws_channels state)))))))"

section \<open>Key packages\<close>

definition validate_device_key_package_id_reference :: "DeviceKeyPackageId \<Rightarrow> RuntimeError + unit" where
  "validate_device_key_package_id_reference key_package_id =
     validate_identifier_size (validate_device_key_package_id_str (key_package_str key_package_id))"

definition validate_openmls_key_package_for_publisher ::
  "MlsLib \<Rightarrow> DeviceId \<Rightarrow> bytes \<Rightarrow> RuntimeError + ValidatedMlsKeyPackage" where
  "validate_openmls_key_package_for_publisher M publisher_device_id key_package =
     bind_res (map_err RtMls (validate_key_package M key_package)) (\<lambda>validated.
       if val_identity validated \<noteq> device_str publisher_device_id
       then Inl (RtOpenMlsKeyPackagePublisherMismatch publisher_device_id (val_identity validated))
       else Inr validated)"

definition validate_openmls_key_package_view ::
  "MlsLib \<Rightarrow> WorkspaceId \<Rightarrow> DeviceKeyPackageId \<Rightarrow> DeviceKeyPackageView \<Rightarrow> RuntimeError + ValidatedMlsKeyPackage" where
  "validate_openmls_key_package_view M workspace_id key_package_id key_package =
     (if kp_protocol key_package \<noteq> OPENMLS_KEY_PACKAGE_PROTOCOL
      then Inl (RtOpenMlsKeyPackageProtocolMismatch workspace_id key_package_id (kp_protocol key_package))
      else validate_openmls_key_package_for_publisher M (kp_device_id key_package) (kp_key_package key_package))"

text \<open>An event with the heads of the context as parents, and a secret file saved before it is stored.\<close>

definition write_event_saving ::
  "'c RuntimeEnv \<Rightarrow> GroupInputs \<Rightarrow> LocalRuntime \<Rightarrow> WorkspaceId \<Rightarrow> ChannelId option \<Rightarrow> WorkspaceWriteContext
     \<Rightarrow> EventBody \<Rightarrow> string \<Rightarrow> string \<Rightarrow> bytes \<Rightarrow> LocalRuntime \<times> (RuntimeError + SignedEvent)" where
  "write_event_saving E inp rt workspace_id channel_id context body path secret_kind plaintext =
     sign_authorize_save_key_and_append_with_history E rt
       (local_event (in_now inp) rt workspace_id channel_id (wc_head_event_ids context) body) (wc_events context)
       (\<lambda>runtime. write_openmls_secret_file E inp runtime path secret_kind plaintext)"

definition publish_openmls_device_key_package ::
  "'c RuntimeEnv \<Rightarrow> MlsLib \<Rightarrow> GroupInputs \<Rightarrow> DeviceKeyPackageId \<Rightarrow> LocalRuntime \<Rightarrow> WorkspaceId
     \<Rightarrow> LocalRuntime \<times> (RuntimeError + PublishedOpenMlsKeyPackage)" where
  "publish_openmls_device_key_package E M inp key_package_id rt workspace_id =
     attempt rt (map_err RtMls (generate_device_key_package M (in_random inp) (device_str (own_device rt)))) (\<lambda>generated.
     let private_bundle_path = openmls_key_package_path rt workspace_id (gen_key_package_ref generated) in
     attempt rt (workspace_write_context E rt workspace_id) (\<lambda>context.
     and_then (write_event_saving E inp rt workspace_id None context
         (DeviceKeyPackagePublished key_package_id (gen_protocol generated) (gen_key_package generated))
         private_bundle_path LOCAL_SECRET_KIND_OPENMLS_KEY_PACKAGE (gen_private_bundle generated)) (\<lambda>rt event.
       (rt, Inr \<lparr>pk_workspace_id = workspace_str workspace_id, pk_device_id = device_str (own_device rt),
          pk_key_package_id = key_package_str key_package_id, pk_protocol = gen_protocol generated,
          pk_ciphersuite = gen_ciphersuite generated, pk_key_package_ref = gen_key_package_ref generated,
          pk_byte_len = length (gen_key_package generated), pk_private_bundle_path = private_bundle_path,
          pk_event_id = event_str (sg_event_id event)\<rparr>))))"

section \<open>Creating groups\<close>

definition create_openmls_workspace_group ::
  "'c RuntimeEnv \<Rightarrow> MlsLib \<Rightarrow> GroupInputs \<Rightarrow> LocalRuntime \<Rightarrow> WorkspaceId
     \<Rightarrow> LocalRuntime \<times> (RuntimeError + CreatedOpenMlsWorkspaceGroup)" where
  "create_openmls_workspace_group E M inp rt workspace_id =
     attempt rt (require_workspace_admin E rt workspace_id ''create_openmls_workspace_group'') (\<lambda>_.
     attempt rt (materialized_workspace_events E rt workspace_id) (\<lambda>events.
     if workspace_creator_device_id_from_events events \<noteq> Some (own_device rt)
     then (rt, Inl (RtOpenMlsWorkspaceGroupCreatorRequired workspace_id))
     else let private_group_state_path = openmls_workspace_group_path rt workspace_id in
     if contains_key (rt_files rt) private_group_state_path
     then (rt, Inl (RtOpenMlsWorkspaceGroupAlreadyExists workspace_id))
     else if workspace_group_has_events (provision_index_from_events events)
     then (rt, Inl (RtOpenMlsWorkspaceGroupMissing workspace_id))
     else attempt rt (map_err RtMls (create_workspace_group M (in_random inp) (device_str (own_device rt)) (workspace_str workspace_id))) (\<lambda>created.
     attempt rt (write_openmls_secret_file E inp rt private_group_state_path LOCAL_SECRET_KIND_OPENMLS_WORKSPACE_GROUP
         (new_private_group_state created)) (\<lambda>rt.
       (rt, Inr \<lparr>cg_workspace_id = workspace_str workspace_id, cg_device_id = device_str (own_device rt),
          cg_protocol = new_protocol created, cg_ciphersuite = new_ciphersuite created,
          cg_group_id = new_group_id created, cg_epoch = new_epoch created,
          cg_member_count = new_member_count created, cg_private_group_state_path = private_group_state_path\<rparr>)))))"

definition create_openmls_channel_group ::
  "'c RuntimeEnv \<Rightarrow> MlsLib \<Rightarrow> GroupInputs \<Rightarrow> LocalRuntime \<Rightarrow> WorkspaceId \<Rightarrow> ChannelId
     \<Rightarrow> LocalRuntime \<times> (RuntimeError + CreatedOpenMlsChannelGroup)" where
  "create_openmls_channel_group E M inp rt workspace_id channel_id =
     attempt rt (require_local_channel_access E rt workspace_id channel_id) (\<lambda>_.
     attempt rt (materialized_workspace_events E rt workspace_id) (\<lambda>events.
     if private_channel_creator_device_id_from_events events channel_id \<noteq> Some (own_device rt)
     then (rt, Inl (RtOpenMlsChannelGroupCreatorRequired workspace_id channel_id))
     else let private_group_state_path = openmls_channel_group_path rt workspace_id channel_id in
     if contains_key (rt_files rt) private_group_state_path
     then (rt, Inl (RtOpenMlsChannelGroupAlreadyExists workspace_id channel_id))
     else if channel_group_has_events (provision_index_from_events events) channel_id
     then (rt, Inl (RtOpenMlsChannelGroupMissing workspace_id channel_id))
     else attempt rt (map_err RtMls (create_channel_group M (in_random inp) (device_str (own_device rt)) (workspace_str workspace_id)
         (channel_str channel_id))) (\<lambda>created.
     attempt rt (write_openmls_secret_file E inp rt private_group_state_path LOCAL_SECRET_KIND_OPENMLS_CHANNEL_GROUP
         (new_private_group_state created)) (\<lambda>rt.
       (rt, Inr \<lparr>cg_workspace_id = workspace_str workspace_id, cg_device_id = device_str (own_device rt),
          cg_protocol = new_protocol created, cg_ciphersuite = new_ciphersuite created,
          cg_group_id = new_group_id created, cg_epoch = new_epoch created,
          cg_member_count = new_member_count created, cg_private_group_state_path = private_group_state_path,
          cg_channel_id = channel_str channel_id\<rparr>)))))"

section \<open>Adding members\<close>

definition add_openmls_workspace_group_member ::
  "'c RuntimeEnv \<Rightarrow> MlsLib \<Rightarrow> GroupInputs \<Rightarrow> LocalRuntime \<Rightarrow> WorkspaceId \<Rightarrow> DeviceKeyPackageId
     \<Rightarrow> LocalRuntime \<times> (RuntimeError + AddedOpenMlsWorkspaceGroupMember)" where
  "add_openmls_workspace_group_member E M inp rt workspace_id key_package_id =
     attempt rt (validate_workspace_id_reference workspace_id) (\<lambda>_.
     attempt rt (validate_device_key_package_id_reference key_package_id) (\<lambda>_.
     attempt rt (materialized_workspace_write_context E rt workspace_id) (\<lambda>context.
     attempt rt (require_workspace_admin_in_state rt (wc_state context) ''add_openmls_workspace_group_member'') (\<lambda>_.
     let private_group_state_path = openmls_workspace_group_path rt workspace_id in
     if \<not> contains_key (rt_files rt) private_group_state_path
     then (rt, Inl (RtOpenMlsWorkspaceGroupMissing workspace_id))
     else attempt rt (ok_or (fmlookup (ws_key_packages (wc_state context)) key_package_id)
         (RtDeviceKeyPackageNotFound workspace_id key_package_id)) (\<lambda>key_package.
     attempt rt (validate_openmls_key_package_view M workspace_id key_package_id key_package) (\<lambda>validated_key_package.
     attempt rt (read_openmls_secret_file E rt private_group_state_path LOCAL_SECRET_KIND_OPENMLS_WORKSPACE_GROUP)
       (\<lambda>private_group_state.
     attempt rt (map_err RtMls (add_member_to_workspace_group M (in_random inp) private_group_state (kp_key_package key_package))) (\<lambda>added.
     if add_invitee_identity added \<noteq> val_identity validated_key_package
       \<or> add_invitee_key_package_ref added \<noteq> val_key_package_ref validated_key_package
     then (rt, Inl (RtOpenMlsKeyPackageValidationMismatch key_package_id))
     else and_then (write_event_saving E inp rt workspace_id None context
         (OpenMlsWorkspaceGroupMemberAdded (kp_device_id key_package) key_package_id (add_invitee_key_package_ref added)
           (add_protocol added) (add_ciphersuite added) (add_group_id added) (add_epoch added) (add_commit added)
           (add_welcome added) (add_ratchet_tree added))
         private_group_state_path LOCAL_SECRET_KIND_OPENMLS_WORKSPACE_GROUP (add_updated_private_group_state added)) (\<lambda>rt event.
       (rt, Inr \<lparr>ag_workspace_id = workspace_str workspace_id, ag_device_id = device_str (own_device rt),
          ag_invitee_device_id = device_str (kp_device_id key_package),
          ag_invitee_key_package_id = key_package_str key_package_id,
          ag_invitee_key_package_ref = add_invitee_key_package_ref added, ag_protocol = add_protocol added,
          ag_ciphersuite = add_ciphersuite added, ag_group_id = add_group_id added, ag_epoch = add_epoch added,
          ag_member_count = add_member_count added, ag_commit_byte_len = length (add_commit added),
          ag_welcome_byte_len = length (add_welcome added), ag_ratchet_tree_byte_len = length (add_ratchet_tree added),
          ag_private_group_state_path = private_group_state_path,
          ag_event_id = event_str (sg_event_id event)\<rparr>))))))))))"

definition add_openmls_channel_group_member ::
  "'c RuntimeEnv \<Rightarrow> MlsLib \<Rightarrow> GroupInputs \<Rightarrow> LocalRuntime \<Rightarrow> WorkspaceId \<Rightarrow> ChannelId \<Rightarrow> DeviceKeyPackageId
     \<Rightarrow> LocalRuntime \<times> (RuntimeError + AddedOpenMlsChannelGroupMember)" where
  "add_openmls_channel_group_member E M inp rt workspace_id channel_id key_package_id =
     attempt rt (validate_workspace_id_reference workspace_id) (\<lambda>_.
     attempt rt (validate_channel_id_reference channel_id) (\<lambda>_.
     attempt rt (validate_device_key_package_id_reference key_package_id) (\<lambda>_.
     attempt rt (materialized_workspace_write_context E rt workspace_id) (\<lambda>context.
     let private_group_state_path = openmls_channel_group_path rt workspace_id channel_id in
     if \<not> contains_key (rt_files rt) private_group_state_path
     then (rt, Inl (RtOpenMlsChannelGroupMissing workspace_id channel_id))
     else attempt rt (ok_or (fmlookup (ws_key_packages (wc_state context)) key_package_id)
         (RtDeviceKeyPackageNotFound workspace_id key_package_id)) (\<lambda>key_package.
     attempt rt (validate_openmls_key_package_view M workspace_id key_package_id key_package) (\<lambda>validated_key_package.
     attempt rt (read_openmls_secret_file E rt private_group_state_path LOCAL_SECRET_KIND_OPENMLS_CHANNEL_GROUP)
       (\<lambda>private_group_state.
     attempt rt (map_err RtMls (add_member_to_workspace_group M (in_random inp) private_group_state (kp_key_package key_package))) (\<lambda>added.
     if add_invitee_identity added \<noteq> val_identity validated_key_package
       \<or> add_invitee_key_package_ref added \<noteq> val_key_package_ref validated_key_package
     then (rt, Inl (RtOpenMlsKeyPackageValidationMismatch key_package_id))
     else and_then (write_event_saving E inp rt workspace_id (Some channel_id) context
         (OpenMlsChannelGroupMemberAdded channel_id (kp_device_id key_package) key_package_id
           (add_invitee_key_package_ref added) (add_protocol added) (add_ciphersuite added) (add_group_id added)
           (add_epoch added) (add_commit added) (add_welcome added) (add_ratchet_tree added))
         private_group_state_path LOCAL_SECRET_KIND_OPENMLS_CHANNEL_GROUP (add_updated_private_group_state added)) (\<lambda>rt event.
       (rt, Inr \<lparr>ag_workspace_id = workspace_str workspace_id, ag_device_id = device_str (own_device rt),
          ag_invitee_device_id = device_str (kp_device_id key_package),
          ag_invitee_key_package_id = key_package_str key_package_id,
          ag_invitee_key_package_ref = add_invitee_key_package_ref added, ag_protocol = add_protocol added,
          ag_ciphersuite = add_ciphersuite added, ag_group_id = add_group_id added, ag_epoch = add_epoch added,
          ag_member_count = add_member_count added, ag_commit_byte_len = length (add_commit added),
          ag_welcome_byte_len = length (add_welcome added), ag_ratchet_tree_byte_len = length (add_ratchet_tree added),
          ag_private_group_state_path = private_group_state_path, ag_event_id = event_str (sg_event_id event),
          ag_channel_id = channel_str channel_id\<rparr>))))))))))"

section \<open>Removing members\<close>

definition remove_openmls_workspace_group_member ::
  "'c RuntimeEnv \<Rightarrow> MlsLib \<Rightarrow> GroupInputs \<Rightarrow> LocalRuntime \<Rightarrow> WorkspaceId \<Rightarrow> DeviceId
     \<Rightarrow> LocalRuntime \<times> (RuntimeError + RemovedOpenMlsWorkspaceGroupMember)" where
  "remove_openmls_workspace_group_member E M inp rt workspace_id removed_device_id =
     attempt rt (materialized_workspace_write_context E rt workspace_id) (\<lambda>context.
     attempt rt (require_workspace_admin_in_state rt (wc_state context) ''remove_openmls_workspace_group_member'') (\<lambda>_.
     let private_group_state_path = openmls_workspace_group_path rt workspace_id in
     if \<not> contains_key (rt_files rt) private_group_state_path
     then (rt, Inl (RtOpenMlsWorkspaceGroupMissing workspace_id))
     else attempt rt (read_openmls_secret_file E rt private_group_state_path LOCAL_SECRET_KIND_OPENMLS_WORKSPACE_GROUP)
       (\<lambda>private_group_state.
     attempt rt (map_err RtMls (remove_member_from_group M (in_random inp) private_group_state (device_str removed_device_id))) (\<lambda>removed.
     and_then (write_event_saving E inp rt workspace_id None context
         (OpenMlsWorkspaceGroupMemberRemoved removed_device_id (rem_protocol removed) (rem_ciphersuite removed)
           (rem_group_id removed) (rem_epoch removed) (rem_commit removed) (rem_ratchet_tree removed))
         private_group_state_path LOCAL_SECRET_KIND_OPENMLS_WORKSPACE_GROUP (rem_updated_private_group_state removed)) (\<lambda>rt event.
       (rt, Inr \<lparr>rg_workspace_id = workspace_str workspace_id, rg_device_id = device_str (own_device rt),
          rg_removed_device_id = device_str removed_device_id, rg_protocol = rem_protocol removed,
          rg_ciphersuite = rem_ciphersuite removed, rg_group_id = rem_group_id removed, rg_epoch = rem_epoch removed,
          rg_member_count = rem_member_count removed, rg_commit_byte_len = length (rem_commit removed),
          rg_ratchet_tree_byte_len = length (rem_ratchet_tree removed),
          rg_private_group_state_path = private_group_state_path,
          rg_event_id = event_str (sg_event_id event)\<rparr>))))))"

definition remove_openmls_channel_group_member ::
  "'c RuntimeEnv \<Rightarrow> MlsLib \<Rightarrow> GroupInputs \<Rightarrow> LocalRuntime \<Rightarrow> WorkspaceId \<Rightarrow> ChannelId \<Rightarrow> DeviceId
     \<Rightarrow> LocalRuntime \<times> (RuntimeError + RemovedOpenMlsChannelGroupMember)" where
  "remove_openmls_channel_group_member E M inp rt workspace_id channel_id removed_device_id =
     attempt rt (materialized_workspace_write_context E rt workspace_id) (\<lambda>context.
     attempt rt (require_local_channel_access_in_state rt (wc_state context) channel_id) (\<lambda>_.
     let private_group_state_path = openmls_channel_group_path rt workspace_id channel_id in
     if \<not> contains_key (rt_files rt) private_group_state_path
     then (rt, Inl (RtOpenMlsChannelGroupMissing workspace_id channel_id))
     else attempt rt (read_openmls_secret_file E rt private_group_state_path LOCAL_SECRET_KIND_OPENMLS_CHANNEL_GROUP)
       (\<lambda>private_group_state.
     attempt rt (map_err RtMls (remove_member_from_group M (in_random inp) private_group_state (device_str removed_device_id))) (\<lambda>removed.
     and_then (write_event_saving E inp rt workspace_id (Some channel_id) context
         (OpenMlsChannelGroupMemberRemoved channel_id removed_device_id (rem_protocol removed) (rem_ciphersuite removed)
           (rem_group_id removed) (rem_epoch removed) (rem_commit removed) (rem_ratchet_tree removed))
         private_group_state_path LOCAL_SECRET_KIND_OPENMLS_CHANNEL_GROUP (rem_updated_private_group_state removed)) (\<lambda>rt event.
       (rt, Inr \<lparr>rg_workspace_id = workspace_str workspace_id, rg_device_id = device_str (own_device rt),
          rg_removed_device_id = device_str removed_device_id, rg_protocol = rem_protocol removed,
          rg_ciphersuite = rem_ciphersuite removed, rg_group_id = rem_group_id removed, rg_epoch = rem_epoch removed,
          rg_member_count = rem_member_count removed, rg_commit_byte_len = length (rem_commit removed),
          rg_ratchet_tree_byte_len = length (rem_ratchet_tree removed),
          rg_private_group_state_path = private_group_state_path, rg_event_id = event_str (sg_event_id event),
          rg_channel_id = channel_str channel_id\<rparr>))))))"

section \<open>Joining from a welcome\<close>

text \<open>The last position at which the predicate holds.\<close>

definition rposition :: "('a \<Rightarrow> bool) \<Rightarrow> 'a list \<Rightarrow> nat option" where
  "rposition P xs = map_option fst (find (\<lambda>(_, x). P x) (rev (enumerate 0 xs)))"

text \<open>
  The invitation to join with: the last event after the last removal of the device that adds it, or the
  one that is asked for.  Both actions select it with the same code, for other events.
\<close>

definition select_invitation ::
  "(EventBody \<Rightarrow> bool) \<Rightarrow> (EventBody \<Rightarrow> (string \<times> bytes \<times> bytes) option) \<Rightarrow> EventId option \<Rightarrow> SignedEvent list
     \<Rightarrow> (EventId \<times> string \<times> bytes \<times> bytes) option" where
  "select_invitation is_self_removal invitation source_event_id events =
     (let last_self_removal_index = rposition (\<lambda>event. is_self_removal (ev_body event)) events
      in find_map (\<lambda>(index, event).
          if (case last_self_removal_index of Some removal_index \<Rightarrow> index \<le> removal_index | None \<Rightarrow> False) then None
          else if (case source_event_id of Some source \<Rightarrow> source \<noteq> sg_event_id event | None \<Rightarrow> False) then None
          else map_option (Pair (sg_event_id event)) (invitation (ev_body event)))
        (rev (enumerate 0 events)))"

definition workspace_self_removal :: "DeviceId \<Rightarrow> EventBody \<Rightarrow> bool" where
  "workspace_self_removal d body =
     (case body of OpenMlsWorkspaceGroupMemberRemoved removed _ _ _ _ _ _ \<Rightarrow> removed = d | _ \<Rightarrow> False)"

definition workspace_invitation :: "DeviceId \<Rightarrow> EventBody \<Rightarrow> (string \<times> bytes \<times> bytes) option" where
  "workspace_invitation d body =
     (case body of
        OpenMlsWorkspaceGroupMemberAdded invitee _ key_package_ref _ _ _ _ _ welcome ratchet_tree \<Rightarrow>
          if invitee = d then Some (key_package_ref, welcome, ratchet_tree) else None
      | _ \<Rightarrow> None)"

definition channel_self_removal :: "ChannelId \<Rightarrow> DeviceId \<Rightarrow> EventBody \<Rightarrow> bool" where
  "channel_self_removal c d body =
     (case body of OpenMlsChannelGroupMemberRemoved channel removed _ _ _ _ _ _ \<Rightarrow> channel = c \<and> removed = d | _ \<Rightarrow> False)"

definition channel_invitation :: "ChannelId \<Rightarrow> DeviceId \<Rightarrow> EventBody \<Rightarrow> (string \<times> bytes \<times> bytes) option" where
  "channel_invitation c d body =
     (case body of
        OpenMlsChannelGroupMemberAdded channel invitee _ key_package_ref _ _ _ _ _ welcome ratchet_tree \<Rightarrow>
          if channel = c \<and> invitee = d then Some (key_package_ref, welcome, ratchet_tree) else None
      | _ \<Rightarrow> None)"

definition join_openmls_workspace_group ::
  "'c RuntimeEnv \<Rightarrow> MlsLib \<Rightarrow> GroupInputs \<Rightarrow> LocalRuntime \<Rightarrow> WorkspaceId \<Rightarrow> EventId option
     \<Rightarrow> LocalRuntime \<times> (RuntimeError + JoinedOpenMlsWorkspaceGroup)" where
  "join_openmls_workspace_group E M inp rt workspace_id source_event_id =
     (let private_group_state_path = openmls_workspace_group_path rt workspace_id in
      if contains_key (rt_files rt) private_group_state_path
      then (rt, Inl (RtOpenMlsWorkspaceGroupAlreadyExists workspace_id))
      else attempt rt (materialized_workspace_events E rt workspace_id) (\<lambda>events.
      case select_invitation (workspace_self_removal (own_device rt)) (workspace_invitation (own_device rt))
          source_event_id events of
        None \<Rightarrow> (rt, Inl (RtOpenMlsWorkspaceGroupInviteNotFound workspace_id (own_device rt)))
      | Some (event_id, key_package_ref, welcome, ratchet_tree) \<Rightarrow>
          let private_bundle_path = openmls_key_package_path rt workspace_id key_package_ref in
          if \<not> contains_key (rt_files rt) private_bundle_path
          then (rt, Inl (RtOpenMlsPrivateKeyPackageMissing workspace_id key_package_ref))
          else attempt rt (read_openmls_secret_file E rt private_bundle_path LOCAL_SECRET_KIND_OPENMLS_KEY_PACKAGE) (\<lambda>bundle.
          attempt rt (map_err RtMls (join_workspace_group_from_welcome M bundle welcome ratchet_tree)) (\<lambda>joined.
          attempt rt (write_openmls_secret_file E inp rt private_group_state_path LOCAL_SECRET_KIND_OPENMLS_WORKSPACE_GROUP
              (join_private_group_state joined)) (\<lambda>rt.
            (rt, Inr \<lparr>jg_workspace_id = workspace_str workspace_id, jg_device_id = device_str (own_device rt),
               jg_protocol = join_protocol joined, jg_ciphersuite = join_ciphersuite joined,
               jg_group_id = join_group_id joined, jg_epoch = join_epoch joined,
               jg_member_count = join_member_count joined, jg_private_group_state_path = private_group_state_path,
               jg_source_event_id = event_str event_id\<rparr>))))))"

definition join_openmls_channel_group ::
  "'c RuntimeEnv \<Rightarrow> MlsLib \<Rightarrow> GroupInputs \<Rightarrow> LocalRuntime \<Rightarrow> WorkspaceId \<Rightarrow> ChannelId \<Rightarrow> EventId option
     \<Rightarrow> LocalRuntime \<times> (RuntimeError + JoinedOpenMlsChannelGroup)" where
  "join_openmls_channel_group E M inp rt workspace_id channel_id source_event_id =
     (let private_group_state_path = openmls_channel_group_path rt workspace_id channel_id in
      if contains_key (rt_files rt) private_group_state_path
      then (rt, Inl (RtOpenMlsChannelGroupAlreadyExists workspace_id channel_id))
      else attempt rt (materialized_workspace_events E rt workspace_id) (\<lambda>events.
      case select_invitation (channel_self_removal channel_id (own_device rt)) (channel_invitation channel_id (own_device rt))
          source_event_id events of
        None \<Rightarrow> (rt, Inl (RtOpenMlsChannelGroupInviteNotFound workspace_id channel_id (own_device rt)))
      | Some (event_id, key_package_ref, welcome, ratchet_tree) \<Rightarrow>
          let private_bundle_path = openmls_key_package_path rt workspace_id key_package_ref in
          if \<not> contains_key (rt_files rt) private_bundle_path
          then (rt, Inl (RtOpenMlsPrivateKeyPackageMissing workspace_id key_package_ref))
          else attempt rt (read_openmls_secret_file E rt private_bundle_path LOCAL_SECRET_KIND_OPENMLS_KEY_PACKAGE) (\<lambda>bundle.
          attempt rt (map_err RtMls (join_channel_group_from_welcome M bundle welcome ratchet_tree)) (\<lambda>joined.
          attempt rt (write_openmls_secret_file E inp rt private_group_state_path LOCAL_SECRET_KIND_OPENMLS_CHANNEL_GROUP
              (join_private_group_state joined)) (\<lambda>rt.
            (rt, Inr \<lparr>jg_workspace_id = workspace_str workspace_id, jg_device_id = device_str (own_device rt),
               jg_protocol = join_protocol joined, jg_ciphersuite = join_ciphersuite joined,
               jg_group_id = join_group_id joined, jg_epoch = join_epoch joined,
               jg_member_count = join_member_count joined, jg_private_group_state_path = private_group_state_path,
               jg_source_event_id = event_str event_id, jg_channel_id = channel_str channel_id\<rparr>))))))"

section \<open>Updating the own leaf\<close>

definition update_openmls_workspace_group ::
  "'c RuntimeEnv \<Rightarrow> MlsLib \<Rightarrow> GroupInputs \<Rightarrow> LocalRuntime \<Rightarrow> WorkspaceId
     \<Rightarrow> LocalRuntime \<times> (RuntimeError + UpdatedOpenMlsWorkspaceGroup)" where
  "update_openmls_workspace_group E M inp rt workspace_id =
     attempt rt (materialized_workspace_write_context E rt workspace_id) (\<lambda>context.
     let private_group_state_path = openmls_workspace_group_path rt workspace_id in
     if \<not> contains_key (rt_files rt) private_group_state_path
     then (rt, Inl (RtOpenMlsWorkspaceGroupMissing workspace_id))
     else attempt rt (read_openmls_secret_file E rt private_group_state_path LOCAL_SECRET_KIND_OPENMLS_WORKSPACE_GROUP)
       (\<lambda>private_group_state.
     attempt rt (map_err RtMls (update_own_leaf_in_group M (in_random inp) private_group_state)) (\<lambda>updated.
     and_then (write_event_saving E inp rt workspace_id None context
         (OpenMlsWorkspaceGroupSelfUpdated (upd_protocol updated) (upd_ciphersuite updated) (upd_group_id updated)
           (upd_epoch updated) (upd_commit updated) (upd_ratchet_tree updated))
         private_group_state_path LOCAL_SECRET_KIND_OPENMLS_WORKSPACE_GROUP (upd_updated_private_group_state updated)) (\<lambda>rt event.
       (rt, Inr \<lparr>ug_workspace_id = workspace_str workspace_id, ug_device_id = device_str (own_device rt),
          ug_protocol = upd_protocol updated, ug_ciphersuite = upd_ciphersuite updated,
          ug_group_id = upd_group_id updated, ug_epoch = upd_epoch updated, ug_member_count = upd_member_count updated,
          ug_commit_byte_len = length (upd_commit updated), ug_ratchet_tree_byte_len = length (upd_ratchet_tree updated),
          ug_private_group_state_path = private_group_state_path, ug_event_id = event_str (sg_event_id event)\<rparr>)))))"

definition update_openmls_channel_group ::
  "'c RuntimeEnv \<Rightarrow> MlsLib \<Rightarrow> GroupInputs \<Rightarrow> LocalRuntime \<Rightarrow> WorkspaceId \<Rightarrow> ChannelId
     \<Rightarrow> LocalRuntime \<times> (RuntimeError + UpdatedOpenMlsChannelGroup)" where
  "update_openmls_channel_group E M inp rt workspace_id channel_id =
     attempt rt (materialized_workspace_write_context E rt workspace_id) (\<lambda>context.
     attempt rt (require_local_channel_access_in_state rt (wc_state context) channel_id) (\<lambda>_.
     let private_group_state_path = openmls_channel_group_path rt workspace_id channel_id in
     if \<not> contains_key (rt_files rt) private_group_state_path
     then (rt, Inl (RtOpenMlsChannelGroupMissing workspace_id channel_id))
     else attempt rt (read_openmls_secret_file E rt private_group_state_path LOCAL_SECRET_KIND_OPENMLS_CHANNEL_GROUP)
       (\<lambda>private_group_state.
     attempt rt (map_err RtMls (update_own_leaf_in_group M (in_random inp) private_group_state)) (\<lambda>updated.
     and_then (write_event_saving E inp rt workspace_id (Some channel_id) context
         (OpenMlsChannelGroupSelfUpdated channel_id (upd_protocol updated) (upd_ciphersuite updated) (upd_group_id updated)
           (upd_epoch updated) (upd_commit updated) (upd_ratchet_tree updated))
         private_group_state_path LOCAL_SECRET_KIND_OPENMLS_CHANNEL_GROUP (upd_updated_private_group_state updated)) (\<lambda>rt event.
       (rt, Inr \<lparr>ug_workspace_id = workspace_str workspace_id, ug_device_id = device_str (own_device rt),
          ug_protocol = upd_protocol updated, ug_ciphersuite = upd_ciphersuite updated,
          ug_group_id = upd_group_id updated, ug_epoch = upd_epoch updated, ug_member_count = upd_member_count updated,
          ug_commit_byte_len = length (upd_commit updated), ug_ratchet_tree_byte_len = length (upd_ratchet_tree updated),
          ug_private_group_state_path = private_group_state_path, ug_event_id = event_str (sg_event_id event),
          ug_channel_id = channel_str channel_id\<rparr>))))))"

text \<open>\<open>inputs n\<close> gives the clock and the random numbers of the n-th update.\<close>

fun update_channel_groups ::
  "'c RuntimeEnv \<Rightarrow> MlsLib \<Rightarrow> (nat \<Rightarrow> GroupInputs) \<Rightarrow> nat \<Rightarrow> LocalRuntime \<Rightarrow> WorkspaceId \<Rightarrow> ChannelId list
     \<Rightarrow> LocalRuntime \<times> (RuntimeError + UpdatedOpenMlsChannelGroup list)" where
  "update_channel_groups E M inputs n rt workspace_id [] = (rt, Inr [])"
| "update_channel_groups E M inputs n rt workspace_id (channel_id # rest) =
     and_then (update_openmls_channel_group E M (inputs n) rt workspace_id channel_id) (\<lambda>rt update.
     and_then (update_channel_groups E M inputs (Suc n) rt workspace_id rest) (\<lambda>rt updates.
       (rt, Inr (update # updates))))"

definition update_workspace_openmls_groups ::
  "'c RuntimeEnv \<Rightarrow> MlsLib \<Rightarrow> (nat \<Rightarrow> GroupInputs) \<Rightarrow> LocalRuntime \<Rightarrow> WorkspaceId
     \<Rightarrow> LocalRuntime \<times> (RuntimeError + UpdatedWorkspaceOpenMlsGroups)" where
  "update_workspace_openmls_groups E M inputs rt workspace_id =
     (let has_workspace_group = contains_key (rt_files rt) (openmls_workspace_group_path rt workspace_id) in
      attempt rt (local_updatable_openmls_channel_group_ids E rt workspace_id) (\<lambda>channel_ids.
      if \<not> has_workspace_group \<and> channel_ids = [] then (rt, Inl (RtOpenMlsLocalGroupMissing workspace_id))
      else and_then
        (if has_workspace_group
         then and_then (update_openmls_workspace_group E M (inputs 0) rt workspace_id) (\<lambda>rt update. (rt, Inr (Some update)))
         else (rt, Inr None)) (\<lambda>rt workspace_update.
      and_then (update_channel_groups E M inputs 1 rt workspace_id channel_ids) (\<lambda>rt channel_updates.
        let updated_event_ids = (case workspace_update of Some update \<Rightarrow> [ug_event_id update] | None \<Rightarrow> [])
              @ map ug_event_id channel_updates in
        (rt, Inr \<lparr>uw_workspace_id = workspace_str workspace_id, uw_workspace_update = workspace_update,
           uw_channel_update_count = length channel_updates, uw_channel_updates = channel_updates,
           uw_updated_event_count = length updated_event_ids, uw_updated_event_ids = updated_event_ids\<rparr>)))))"

section \<open>Applying the commits of others\<close>

definition workspace_openmls_commit_event :: "SignedEvent \<Rightarrow> (string \<times> u64 \<times> bytes) option" where
  "workspace_openmls_commit_event event =
     (case ev_body event of
        OpenMlsWorkspaceGroupMemberAdded _ _ _ _ _ group_id epoch commit _ _ \<Rightarrow> Some (group_id, epoch, commit)
      | OpenMlsWorkspaceGroupMemberRemoved _ _ _ group_id epoch commit _ \<Rightarrow> Some (group_id, epoch, commit)
      | OpenMlsWorkspaceGroupSelfUpdated _ _ group_id epoch commit _ \<Rightarrow> Some (group_id, epoch, commit)
      | _ \<Rightarrow> None)"

definition channel_openmls_commit_event :: "ChannelId \<Rightarrow> SignedEvent \<Rightarrow> (string \<times> u64 \<times> bytes) option" where
  "channel_openmls_commit_event expected_channel_id event =
     (case ev_body event of
        OpenMlsChannelGroupMemberAdded channel_id _ _ _ _ _ group_id epoch commit _ _ \<Rightarrow>
          if channel_id = expected_channel_id then Some (group_id, epoch, commit) else None
      | OpenMlsChannelGroupMemberRemoved channel_id _ _ _ group_id epoch commit _ \<Rightarrow>
          if channel_id = expected_channel_id then Some (group_id, epoch, commit) else None
      | OpenMlsChannelGroupSelfUpdated channel_id _ _ group_id epoch commit _ \<Rightarrow>
          if channel_id = expected_channel_id then Some (group_id, epoch, commit) else None
      | _ \<Rightarrow> None)"

text \<open>The variables of the loop over the events.\<close>

record CommitReplay =
  cr_private_group_state :: bytes
  cr_validated :: ValidatedMlsWorkspaceGroup
  cr_protocol :: string
  cr_ciphersuite :: string
  cr_group_id :: string
  cr_epoch :: u64
  cr_member_count :: nat
  cr_applied_event_ids :: "string list"
  cr_self_removed :: bool
  cr_selected_event_found :: bool

definition note_validated :: "ValidatedMlsWorkspaceGroup \<Rightarrow> CommitReplay \<Rightarrow> CommitReplay" where
  "note_validated validated cr =
     cr\<lparr>cr_validated := validated, cr_protocol := grp_protocol validated, cr_ciphersuite := grp_ciphersuite validated,
        cr_group_id := grp_group_id validated, cr_epoch := grp_epoch validated, cr_member_count := grp_member_count validated\<rparr>"

definition note_applied :: "AppliedMlsWorkspaceGroupCommit \<Rightarrow> EventId \<Rightarrow> CommitReplay \<Rightarrow> CommitReplay" where
  "note_applied applied event_id cr =
     cr\<lparr>cr_private_group_state := app_updated_private_group_state applied,
        cr_self_removed := (cr_self_removed cr \<or> app_self_removed applied),
        cr_applied_event_ids := cr_applied_event_ids cr @ [event_str event_id],
        cr_protocol := app_protocol applied, cr_ciphersuite := app_ciphersuite applied,
        cr_group_id := app_group_id applied, cr_epoch := app_epoch applied, cr_member_count := app_member_count applied\<rparr>"

fun replay_commits ::
  "MlsLib \<Rightarrow> (SignedEvent \<Rightarrow> (string \<times> u64 \<times> bytes) option) \<Rightarrow> EventId option \<Rightarrow> SignedEvent list \<Rightarrow> CommitReplay
     \<Rightarrow> RuntimeError + CommitReplay" where
  "replay_commits M commit_event source_event_id [] cr = Inr cr"
| "replay_commits M commit_event source_event_id (event # events) cr =
     (if (case source_event_id of Some source \<Rightarrow> source \<noteq> sg_event_id event | None \<Rightarrow> False)
      then replay_commits M commit_event source_event_id events cr
      else let cr = (if source_event_id \<noteq> None then cr\<lparr>cr_selected_event_found := True\<rparr> else cr) in
        case commit_event event of
          None \<Rightarrow> replay_commits M commit_event source_event_id events cr
        | Some (event_group_id, event_epoch, commit) \<Rightarrow>
            if event_group_id \<noteq> grp_group_id (cr_validated cr) \<or> event_epoch \<le> grp_epoch (cr_validated cr)
            then replay_commits M commit_event source_event_id events cr
            else bind_res (map_err RtMls (apply_group_commit M (cr_private_group_state cr) commit)) (\<lambda>applied.
              let cr = note_applied applied (sg_event_id event) cr in
              if app_self_removed applied then Inr cr
              else bind_res (map_err RtMls (validate_private_workspace_group_state M (cr_private_group_state cr))) (\<lambda>validated.
                replay_commits M commit_event source_event_id events (note_validated validated cr))))"

definition start_replay :: "bytes \<Rightarrow> ValidatedMlsWorkspaceGroup \<Rightarrow> EventId option \<Rightarrow> CommitReplay" where
  "start_replay private_group_state validated source_event_id =
     \<lparr>cr_private_group_state = private_group_state, cr_validated = validated, cr_protocol = grp_protocol validated,
      cr_ciphersuite = grp_ciphersuite validated, cr_group_id = grp_group_id validated, cr_epoch = grp_epoch validated,
      cr_member_count = grp_member_count validated, cr_applied_event_ids = [], cr_self_removed = False,
      cr_selected_event_found = (source_event_id = None)\<rparr>"

text \<open>What the two actions share: the replay and what becomes of the file.\<close>

definition apply_group_commits ::
  "'c RuntimeEnv \<Rightarrow> MlsLib \<Rightarrow> GroupInputs \<Rightarrow> (SignedEvent \<Rightarrow> (string \<times> u64 \<times> bytes) option) \<Rightarrow> string \<Rightarrow> string
     \<Rightarrow> LocalRuntime \<Rightarrow> WorkspaceId \<Rightarrow> EventId option \<Rightarrow> LocalRuntime \<times> (RuntimeError + CommitReplay)" where
  "apply_group_commits E M inp commit_event path secret_kind rt workspace_id source_event_id =
     attempt rt (materialized_workspace_events E rt workspace_id) (\<lambda>events.
     attempt rt (read_openmls_secret_file E rt path secret_kind) (\<lambda>private_group_state.
     attempt rt (map_err RtMls (validate_private_workspace_group_state M private_group_state)) (\<lambda>validated.
     attempt rt (replay_commits M commit_event source_event_id events
         (start_replay private_group_state validated source_event_id)) (\<lambda>cr.
     case (if cr_selected_event_found cr then None else source_event_id) of
       Some source \<Rightarrow> (rt, Inl (RtEventNotFound workspace_id source))
     | None \<Rightarrow>
         if cr_self_removed cr then (rt\<lparr>rt_files := remove_secret_file (rt_files rt) path\<rparr>, Inr cr)
         else if cr_applied_event_ids cr \<noteq> []
         then attempt rt (write_openmls_secret_file E inp rt path secret_kind (cr_private_group_state cr)) (\<lambda>rt. (rt, Inr cr))
         else (rt, Inr cr)))))"

definition apply_openmls_workspace_group_commits ::
  "'c RuntimeEnv \<Rightarrow> MlsLib \<Rightarrow> GroupInputs \<Rightarrow> LocalRuntime \<Rightarrow> WorkspaceId \<Rightarrow> EventId option
     \<Rightarrow> LocalRuntime \<times> (RuntimeError + AppliedOpenMlsWorkspaceGroupCommits)" where
  "apply_openmls_workspace_group_commits E M inp rt workspace_id source_event_id =
     (let private_group_state_path = openmls_workspace_group_path rt workspace_id in
      if \<not> contains_key (rt_files rt) private_group_state_path
      then (rt, Inl (RtOpenMlsWorkspaceGroupMissing workspace_id))
      else and_then (apply_group_commits E M inp workspace_openmls_commit_event private_group_state_path
          LOCAL_SECRET_KIND_OPENMLS_WORKSPACE_GROUP rt workspace_id source_event_id) (\<lambda>rt cr.
        (rt, Inr \<lparr>ac_workspace_id = workspace_str workspace_id, ac_device_id = device_str (own_device rt),
           ac_protocol = cr_protocol cr, ac_ciphersuite = cr_ciphersuite cr, ac_group_id = cr_group_id cr,
           ac_epoch = cr_epoch cr, ac_member_count = cr_member_count cr,
           ac_applied_event_count = length (cr_applied_event_ids cr), ac_applied_event_ids = cr_applied_event_ids cr,
           ac_self_removed = cr_self_removed cr, ac_private_group_state_path = private_group_state_path\<rparr>)))"

definition apply_openmls_channel_group_commits ::
  "'c RuntimeEnv \<Rightarrow> MlsLib \<Rightarrow> GroupInputs \<Rightarrow> LocalRuntime \<Rightarrow> WorkspaceId \<Rightarrow> ChannelId \<Rightarrow> EventId option
     \<Rightarrow> LocalRuntime \<times> (RuntimeError + AppliedOpenMlsChannelGroupCommits)" where
  "apply_openmls_channel_group_commits E M inp rt workspace_id channel_id source_event_id =
     (let private_group_state_path = openmls_channel_group_path rt workspace_id channel_id in
      if \<not> contains_key (rt_files rt) private_group_state_path
      then (rt, Inl (RtOpenMlsChannelGroupMissing workspace_id channel_id))
      else and_then (apply_group_commits E M inp (channel_openmls_commit_event channel_id) private_group_state_path
          LOCAL_SECRET_KIND_OPENMLS_CHANNEL_GROUP rt workspace_id source_event_id) (\<lambda>rt cr.
        (rt, Inr \<lparr>ac_workspace_id = workspace_str workspace_id, ac_device_id = device_str (own_device rt),
           ac_protocol = cr_protocol cr, ac_ciphersuite = cr_ciphersuite cr, ac_group_id = cr_group_id cr,
           ac_epoch = cr_epoch cr, ac_member_count = cr_member_count cr,
           ac_applied_event_count = length (cr_applied_event_ids cr), ac_applied_event_ids = cr_applied_event_ids cr,
           ac_self_removed = cr_self_removed cr, ac_private_group_state_path = private_group_state_path,
           ac_channel_id = channel_str channel_id\<rparr>)))"

end
