(* ===== verification/Member_Removal.thy ===== *)
theory Member_Removal
  imports Group_Actions
begin

text \<open>
  Removing members from a workspace and from a channel, from \<^verbatim>\<open>src/runtime/src/workspace_actions.rs\<close>.  A member
  is removed only when no MLS group holds the device any more and no group is forked; to tell, the actions
  replay the materialised events and every stored commit that its own causal history authorises.
\<close>

section \<open>The events of the removal index\<close>

text \<open>
  The loop that collects the ancestors of a commit: \<open>pending\<close> is the stack, the end of the list its top.  A
  parent that is not stored ends it without a result.
\<close>

function collect_ancestors :: "(EventId, SignedEvent) fmap \<Rightarrow> EventId set \<Rightarrow> EventId list \<Rightarrow> EventId set option" where
  "collect_ancestors by_id ancestor_ids pending =
     (if pending = [] then Some ancestor_ids
      else let event_id = last pending; pending = butlast pending in
        if event_id \<in> ancestor_ids then collect_ancestors by_id ancestor_ids pending
        else case fmlookup by_id event_id of
               None \<Rightarrow> None
             | Some ancestor \<Rightarrow> collect_ancestors by_id (insert event_id ancestor_ids) (pending @ ev_parents ancestor))"
  by pat_completeness auto
termination
proof (relation "measures [\<lambda>(by_id, ancestor_ids, _). card (fmdom' by_id - ancestor_ids), \<lambda>(_, _, pending). length pending]", goal_cases)
  case (3 by_id ancestor_ids pending event_id rest ancestor)
  then have "fmdom' by_id - insert event_id ancestor_ids \<subset> fmdom' by_id - ancestor_ids"
    by (auto simp: fmdom'_iff)
  then show ?case by (simp add: psubset_card_mono)
qed auto

declare collect_ancestors.simps [simp del]

definition is_group_commit :: "EventBody \<Rightarrow> bool" where
  "is_group_commit body =
     (case body of
        OpenMlsWorkspaceGroupMemberAdded _ _ _ _ _ _ _ _ _ _ \<Rightarrow> True
      | OpenMlsWorkspaceGroupMemberRemoved _ _ _ _ _ _ _ \<Rightarrow> True
      | OpenMlsWorkspaceGroupSelfUpdated _ _ _ _ _ _ \<Rightarrow> True
      | OpenMlsChannelGroupMemberAdded _ _ _ _ _ _ _ _ _ _ _ \<Rightarrow> True
      | OpenMlsChannelGroupMemberRemoved _ _ _ _ _ _ _ _ \<Rightarrow> True
      | OpenMlsChannelGroupSelfUpdated _ _ _ _ _ _ _ \<Rightarrow> True
      | _ \<Rightarrow> False)"

text \<open>Whether a commit that was not materialised counts: its history is complete and authorises it.\<close>

definition authorized_by_own_history :: "origin_iteration \<Rightarrow> SignedEvent list \<Rightarrow> SignedEvent \<Rightarrow> bool" where
  "authorized_by_own_history ord raw_events candidate =
     (case collect_ancestors (events_by_id raw_events) {} (ev_parents candidate) of
        None \<Rightarrow> False
      | Some ancestor_ids \<Rightarrow>
          authorize_event_with_history ord (filter (\<lambda>event. sg_event_id event \<in> ancestor_ids) raw_events) candidate = Inr ())"

definition openmls_removal_events ::
  "'c RuntimeEnv \<Rightarrow> LocalRuntime \<Rightarrow> WorkspaceId \<Rightarrow> RuntimeError + SignedEvent list" where
  "openmls_removal_events E rt workspace_id =
     (let raw_events = verified_local_events_for_runtime (env_store E)
            (list_parseable_events_for_workspace (env_store E) (rt_store rt) (workspace_str workspace_id)) in
      bind_res (materialized_workspace_events E rt workspace_id) (\<lambda>indexed_events.
      let materialized_ids = set (map sg_event_id indexed_events) in
      Inr (indexed_events @ filter (\<lambda>candidate. sg_event_id candidate \<notin> materialized_ids
          \<and> is_group_commit (ev_body candidate) \<and> authorized_by_own_history (origin_order E) raw_events candidate) raw_events)))"

definition openmls_removal_index ::
  "'c RuntimeEnv \<Rightarrow> LocalRuntime \<Rightarrow> WorkspaceId \<Rightarrow> RuntimeError + OpenMlsAutoProvisionIndex" where
  "openmls_removal_index E rt workspace_id =
     bind_res (openmls_removal_events E rt workspace_id) (\<lambda>indexed_events. Inr (provision_index_from_events indexed_events))"

section \<open>Removing a member from the workspace\<close>

record RemovedMember =
  rmv_workspace_id :: string
  rmv_removed_device_id :: string
  rmv_event_id :: string

text \<open>\<open>first_forked_channel_id().or_else(|| channel_group_ids_for_device(..).into_iter().next())\<close>\<close>

definition blocking_channel_id :: "OpenMlsAutoProvisionIndex \<Rightarrow> DeviceId \<Rightarrow> ChannelId option" where
  "blocking_channel_id ix device_id =
     (case first_forked_channel_id ix of
        Some channel_id \<Rightarrow> Some channel_id
      | None \<Rightarrow> (case channel_group_ids_for_device ix device_id of [] \<Rightarrow> None | channel_id # _ \<Rightarrow> Some channel_id))"

definition remove_member ::
  "'c RuntimeEnv \<Rightarrow> HybridTimestamp \<Rightarrow> LocalRuntime \<Rightarrow> WorkspaceId \<Rightarrow> DeviceId
     \<Rightarrow> LocalRuntime \<times> (RuntimeError + RemovedMember)" where
  "remove_member E now rt workspace_id removed_device_id =
     attempt rt (validate_device_id_reference removed_device_id) (\<lambda>_.
     attempt rt (openmls_removal_index E rt workspace_id) (\<lambda>openmls_index.
     if has_forked_workspace_group openmls_index \<or> workspace_group_has_device openmls_index removed_device_id
     then (rt, Inl (RtOpenMlsWorkspaceRevocationPending workspace_id removed_device_id))
     else case blocking_channel_id openmls_index removed_device_id of
       Some channel_id \<Rightarrow> (rt, Inl (RtOpenMlsChannelRevocationPending workspace_id channel_id removed_device_id))
     | None \<Rightarrow>
         attempt rt (workspace_write_context E rt workspace_id) (\<lambda>context.
         and_then (write_event E now rt workspace_id None context (MemberRemoved removed_device_id)) (\<lambda>rt removal.
           (rt, Inr \<lparr>rmv_workspace_id = workspace_str workspace_id, rmv_removed_device_id = device_str removed_device_id,
              rmv_event_id = event_str (sg_event_id removal)\<rparr>)))))"

record RemovedMemberWithKeyRotation =
  rmk_workspace_id :: string
  rmk_removed_device_id :: string
  rmk_removal_event_id :: string
  rmk_workspace_key_rotation :: RotatedWorkspaceKey
  rmk_channel_key_rotation_count :: nat
  rmk_channel_key_rotations :: "RotatedChannelKey list"

definition remove_member_with_key_rotation ::
  "'c RuntimeEnv \<Rightarrow> (nat \<Rightarrow> HybridTimestamp \<times> bytes \<times> bytes \<times> ContentKey) \<Rightarrow> HybridTimestamp \<Rightarrow> LocalRuntime
     \<Rightarrow> WorkspaceId \<Rightarrow> DeviceId \<Rightarrow> LocalRuntime \<times> (RuntimeError + RemovedMemberWithKeyRotation)" where
  "remove_member_with_key_rotation E inputs now rt workspace_id removed_device_id =
     attempt rt (validate_device_id_reference removed_device_id) (\<lambda>_.
     and_then (rotate_workspace_manual_keys E inputs rt workspace_id) (\<lambda>rt key_rotations.
     and_then (remove_member E now rt workspace_id removed_device_id) (\<lambda>rt removal.
       (rt, Inr \<lparr>rmk_workspace_id = rmv_workspace_id removal, rmk_removed_device_id = rmv_removed_device_id removal,
          rmk_removal_event_id = rmv_event_id removal,
          rmk_workspace_key_rotation = rm_workspace_key_rotation key_rotations,
          rmk_channel_key_rotation_count = rm_channel_key_rotation_count key_rotations,
          rmk_channel_key_rotations = rm_channel_key_rotations key_rotations\<rparr>))))"

record RemovedMemberWithOpenMls =
  rmo_workspace_id :: string
  rmo_removed_device_id :: string
  rmo_openmls_event_id :: "string option"
  rmo_removal_event_id :: string
  rmo_openmls_epoch :: "u64 option"
  rmo_openmls_member_count :: "nat option"
  rmo_openmls_private_group_state_path :: "string option"
  rmo_channel_openmls_removal_count :: nat
  rmo_channel_openmls_event_ids :: "string list"
  rmo_manual_key_rotation :: "RotatedWorkspaceManualKeys option"

text \<open>The device must hold the one group from which it is to remove the member.\<close>

definition check_workspace_group ::
  "'c RuntimeEnv \<Rightarrow> MlsLib \<Rightarrow> LocalRuntime \<Rightarrow> WorkspaceId \<Rightarrow> DeviceId \<Rightarrow> string list \<Rightarrow> RuntimeError + unit" where
  "check_workspace_group E M rt workspace_id device_id group_ids =
     bind_res (local_openmls_workspace_group_id E M rt workspace_id) (\<lambda>local_group.
     bind_res (ok_or local_group (RtOpenMlsWorkspaceGroupMissing workspace_id)) (\<lambda>local_group_id.
       ensure (group_ids = [local_group_id]) (RtOpenMlsWorkspaceRevocationPending workspace_id device_id)))"

definition check_channel_group ::
  "'c RuntimeEnv \<Rightarrow> MlsLib \<Rightarrow> LocalRuntime \<Rightarrow> WorkspaceId \<Rightarrow> ChannelId \<Rightarrow> DeviceId \<Rightarrow> string list \<Rightarrow> RuntimeError + unit" where
  "check_channel_group E M rt workspace_id channel_id device_id group_ids =
     bind_res (local_openmls_channel_group_id E M rt workspace_id channel_id) (\<lambda>local_group.
     bind_res (ok_or local_group (RtOpenMlsChannelGroupMissing workspace_id channel_id)) (\<lambda>local_group_id.
       ensure (group_ids = [local_group_id]) (RtOpenMlsChannelRevocationPending workspace_id channel_id device_id)))"

fun remove_from_channel_groups ::
  "'c RuntimeEnv \<Rightarrow> MlsLib \<Rightarrow> (nat \<Rightarrow> GroupInputs) \<Rightarrow> nat \<Rightarrow> LocalRuntime \<Rightarrow> WorkspaceId \<Rightarrow> DeviceId \<Rightarrow> ChannelId list
     \<Rightarrow> LocalRuntime \<times> (RuntimeError + string list)" where
  "remove_from_channel_groups E M inputs n rt workspace_id device_id [] = (rt, Inr [])"
| "remove_from_channel_groups E M inputs n rt workspace_id device_id (channel_id # rest) =
     and_then (remove_openmls_channel_group_member E M (inputs n) rt workspace_id channel_id device_id) (\<lambda>rt removed.
     and_then (remove_from_channel_groups E M inputs (Suc n) rt workspace_id device_id rest) (\<lambda>rt event_ids.
       (rt, Inr (rg_event_id removed # event_ids))))"

text \<open>\<open>condition.then(|| action).transpose()?\<close>\<close>

definition when_true ::
  "bool \<Rightarrow> LocalRuntime \<Rightarrow> (LocalRuntime \<Rightarrow> LocalRuntime \<times> (RuntimeError + 'r)) \<Rightarrow> LocalRuntime \<times> (RuntimeError + 'r option)" where
  "when_true condition rt action =
     (if condition then and_then (action rt) (\<lambda>rt r. (rt, Inr (Some r))) else (rt, Inr None))"

definition remove_member_with_openmls ::
  "'c RuntimeEnv \<Rightarrow> MlsLib \<Rightarrow> (nat \<Rightarrow> HybridTimestamp \<times> bytes \<times> bytes \<times> ContentKey) \<Rightarrow> (nat \<Rightarrow> GroupInputs)
     \<Rightarrow> HybridTimestamp \<Rightarrow> LocalRuntime \<Rightarrow> WorkspaceId \<Rightarrow> DeviceId
     \<Rightarrow> LocalRuntime \<times> (RuntimeError + RemovedMemberWithOpenMls)" where
  "remove_member_with_openmls E M keys inputs now rt workspace_id removed_device_id =
     attempt rt (validate_device_id_reference removed_device_id) (\<lambda>_.
     attempt rt (openmls_removal_index E rt workspace_id) (\<lambda>openmls_index.
     if has_forked_workspace_group openmls_index
     then (rt, Inl (RtOpenMlsWorkspaceRevocationPending workspace_id removed_device_id))
     else case first_forked_channel_id openmls_index of
       Some channel_id \<Rightarrow> (rt, Inl (RtOpenMlsChannelRevocationPending workspace_id channel_id removed_device_id))
     | None \<Rightarrow>
         let workspace_group_ids = workspace_group_ids_for_device openmls_index removed_device_id;
             has_workspace_openmls_access = (workspace_group_ids \<noteq> []);
             channel_ids = channel_group_ids_for_device openmls_index removed_device_id in
         attempt rt (if has_workspace_openmls_access
           then check_workspace_group E M rt workspace_id removed_device_id workspace_group_ids else Inr ()) (\<lambda>_.
         attempt rt (first_err (map (\<lambda>channel_id. check_channel_group E M rt workspace_id channel_id removed_device_id
             (channel_group_ids_for_device_in_channel openmls_index channel_id removed_device_id)) channel_ids)) (\<lambda>_.
         and_then (when_true (contains_key (rt_files rt) (workspace_key_path rt workspace_id)) rt
             (\<lambda>rt. rotate_workspace_manual_keys E keys rt workspace_id)) (\<lambda>rt manual_key_rotation.
         and_then (remove_from_channel_groups E M inputs 1 rt workspace_id removed_device_id channel_ids)
           (\<lambda>rt channel_openmls_event_ids.
         and_then (when_true has_workspace_openmls_access rt
             (\<lambda>rt. remove_openmls_workspace_group_member E M (inputs 0) rt workspace_id removed_device_id)) (\<lambda>rt openmls.
         and_then (remove_member E now rt workspace_id removed_device_id) (\<lambda>rt removal.
           (rt, Inr \<lparr>rmo_workspace_id = rmv_workspace_id removal, rmo_removed_device_id = rmv_removed_device_id removal,
              rmo_openmls_event_id = map_option rg_event_id openmls, rmo_removal_event_id = rmv_event_id removal,
              rmo_openmls_epoch = map_option rg_epoch openmls, rmo_openmls_member_count = map_option rg_member_count openmls,
              rmo_openmls_private_group_state_path = map_option rg_private_group_state_path openmls,
              rmo_channel_openmls_removal_count = length channel_openmls_event_ids,
              rmo_channel_openmls_event_ids = channel_openmls_event_ids,
              rmo_manual_key_rotation = manual_key_rotation\<rparr>)))))))))"

section \<open>Removing a member from a channel\<close>

record RemovedChannelMember =
  rcm_workspace_id :: string
  rcm_channel_id :: string
  rcm_member_device_id :: string
  rcm_event_id :: string

definition remove_channel_member ::
  "'c RuntimeEnv \<Rightarrow> HybridTimestamp \<Rightarrow> LocalRuntime \<Rightarrow> WorkspaceId \<Rightarrow> ChannelId \<Rightarrow> DeviceId
     \<Rightarrow> LocalRuntime \<times> (RuntimeError + RemovedChannelMember)" where
  "remove_channel_member E now rt workspace_id channel_id member_device_id =
     attempt rt (validate_device_id_reference member_device_id) (\<lambda>_.
     attempt rt (openmls_removal_index E rt workspace_id) (\<lambda>openmls_index.
     if channel_has_forked_group openmls_index channel_id \<or> channel_group_has_device openmls_index channel_id member_device_id
     then (rt, Inl (RtOpenMlsChannelRevocationPending workspace_id channel_id member_device_id))
     else attempt rt (workspace_write_context E rt workspace_id) (\<lambda>context.
     and_then (write_event E now rt workspace_id None context (ChannelMemberRemoved channel_id member_device_id)) (\<lambda>rt removal.
       (rt, Inr \<lparr>rcm_workspace_id = workspace_str workspace_id, rcm_channel_id = channel_str channel_id,
          rcm_member_device_id = device_str member_device_id, rcm_event_id = event_str (sg_event_id removal)\<rparr>)))))"

record RemovedChannelMemberWithKeyRotation =
  rck_workspace_id :: string
  rck_channel_id :: string
  rck_member_device_id :: string
  rck_removal_event_id :: string
  rck_channel_key_rotation :: RotatedChannelKey

definition remove_channel_member_with_key_rotation ::
  "'c RuntimeEnv \<Rightarrow> HybridTimestamp \<Rightarrow> bytes \<Rightarrow> bytes \<Rightarrow> ContentKey \<Rightarrow> HybridTimestamp \<Rightarrow> LocalRuntime \<Rightarrow> WorkspaceId
     \<Rightarrow> ChannelId \<Rightarrow> DeviceId \<Rightarrow> LocalRuntime \<times> (RuntimeError + RemovedChannelMemberWithKeyRotation)" where
  "remove_channel_member_with_key_rotation E key_now salt nonce generated now rt workspace_id channel_id member_device_id =
     attempt rt (validate_device_id_reference member_device_id) (\<lambda>_.
     and_then (rotate_channel_key E key_now salt nonce generated rt workspace_id channel_id) (\<lambda>rt channel_key_rotation.
     and_then (remove_channel_member E now rt workspace_id channel_id member_device_id) (\<lambda>rt removal.
       (rt, Inr \<lparr>rck_workspace_id = rcm_workspace_id removal, rck_channel_id = rcm_channel_id removal,
          rck_member_device_id = rcm_member_device_id removal, rck_removal_event_id = rcm_event_id removal,
          rck_channel_key_rotation = channel_key_rotation\<rparr>))))"

record RemovedChannelMemberWithOpenMls =
  rco_workspace_id :: string
  rco_channel_id :: string
  rco_member_device_id :: string
  rco_openmls_event_id :: "string option"
  rco_removal_event_id :: string
  rco_openmls_epoch :: "u64 option"
  rco_openmls_member_count :: "nat option"
  rco_openmls_private_group_state_path :: "string option"
  rco_manual_key_rotation :: "RotatedChannelKey option"

definition remove_channel_member_with_openmls ::
  "'c RuntimeEnv \<Rightarrow> MlsLib \<Rightarrow> HybridTimestamp \<Rightarrow> bytes \<Rightarrow> bytes \<Rightarrow> ContentKey \<Rightarrow> GroupInputs \<Rightarrow> HybridTimestamp \<Rightarrow> LocalRuntime
     \<Rightarrow> WorkspaceId \<Rightarrow> ChannelId \<Rightarrow> DeviceId \<Rightarrow> LocalRuntime \<times> (RuntimeError + RemovedChannelMemberWithOpenMls)" where
  "remove_channel_member_with_openmls E M key_now salt nonce generated inp now rt workspace_id channel_id member_device_id =
     attempt rt (validate_device_id_reference member_device_id) (\<lambda>_.
     attempt rt (openmls_removal_index E rt workspace_id) (\<lambda>openmls_index.
     if channel_has_forked_group openmls_index channel_id
     then (rt, Inl (RtOpenMlsChannelRevocationPending workspace_id channel_id member_device_id))
     else let active_group_ids = channel_group_ids_for_device_in_channel openmls_index channel_id member_device_id in
     attempt rt (if active_group_ids \<noteq> []
       then check_channel_group E M rt workspace_id channel_id member_device_id active_group_ids else Inr ()) (\<lambda>_.
     and_then (when_true (contains_key (rt_files rt) (channel_key_path rt workspace_id channel_id)) rt
         (\<lambda>rt. rotate_channel_key E key_now salt nonce generated rt workspace_id channel_id)) (\<lambda>rt manual_key_rotation.
     and_then (when_true (active_group_ids \<noteq> []) rt
         (\<lambda>rt. remove_openmls_channel_group_member E M inp rt workspace_id channel_id member_device_id)) (\<lambda>rt openmls.
     and_then (remove_channel_member E now rt workspace_id channel_id member_device_id) (\<lambda>rt removal.
       (rt, Inr \<lparr>rco_workspace_id = rcm_workspace_id removal, rco_channel_id = rcm_channel_id removal,
          rco_member_device_id = rcm_member_device_id removal, rco_openmls_event_id = map_option rg_event_id openmls,
          rco_removal_event_id = rcm_event_id removal, rco_openmls_epoch = map_option rg_epoch openmls,
          rco_openmls_member_count = map_option rg_member_count openmls,
          rco_openmls_private_group_state_path = map_option rg_private_group_state_path openmls,
          rco_manual_key_rotation = manual_key_rotation\<rparr>)))))))"

end
