(* ===== verification/Compromise.thy ===== *)
theory Compromise
  imports Member_Removal
begin

text \<open>
  Responding to signs of a compromise, from \<^verbatim>\<open>src/runtime/src/compromise.rs\<close> and \<^verbatim>\<open>compromise_runtime.rs\<close>: stored
  events whose self-contained signature is invalid are signals, those in the name of the device itself
  make it rotate its group and content keys, and a ledger file remembers which signals were answered.  The
  JSON form of the ledger and the texts of errors, which derived code produces, are arguments.
\<close>

abbreviation COMPROMISE_SIGNAL_INVALID_SELF_CONTAINED_SIGNATURE :: string where
  "COMPROMISE_SIGNAL_INVALID_SELF_CONTAINED_SIGNATURE \<equiv> ''invalid_self_contained_signature''"
abbreviation COMPROMISE_SIGNAL_SEVERITY_SUSPECTED :: string where
  "COMPROMISE_SIGNAL_SEVERITY_SUSPECTED \<equiv> ''suspected''"
abbreviation COMPROMISE_ACTION_ROTATE_WORKSPACE_FOR_SUSPECTED_COMPROMISE :: string where
  "COMPROMISE_ACTION_ROTATE_WORKSPACE_FOR_SUSPECTED_COMPROMISE \<equiv> ''rotate_workspace_for_suspected_compromise''"
abbreviation COMPROMISE_ACTION_REVIEW_INVALID_SIGNATURES :: string where
  "COMPROMISE_ACTION_REVIEW_INVALID_SIGNATURES \<equiv> ''review_invalid_signatures''"
abbreviation COMPROMISE_RESPONSE_SKIPPED_NO_SIGNALS :: string where
  "COMPROMISE_RESPONSE_SKIPPED_NO_SIGNALS \<equiv> ''no_signals''"
abbreviation COMPROMISE_RESPONSE_SKIPPED_REMOTE_SIGNALS_REQUIRE_REVIEW :: string where
  "COMPROMISE_RESPONSE_SKIPPED_REMOTE_SIGNALS_REQUIRE_REVIEW \<equiv> ''remote_signals_require_review''"
abbreviation COMPROMISE_RESPONSE_SKIPPED_LOCAL_SIGNALS_ALREADY_HANDLED :: string where
  "COMPROMISE_RESPONSE_SKIPPED_LOCAL_SIGNALS_ALREADY_HANDLED \<equiv> ''local_signals_already_handled''"
abbreviation COMPROMISE_RESPONSE_SKIPPED_LOCAL_SECRET_STATE_MISSING :: string where
  "COMPROMISE_RESPONSE_SKIPPED_LOCAL_SECRET_STATE_MISSING \<equiv> ''local_secret_state_missing''"
abbreviation COMPROMISE_RESPONSE_LEDGER_SCHEMA_VERSION :: u32 where "COMPROMISE_RESPONSE_LEDGER_SCHEMA_VERSION \<equiv> 1"
abbreviation COMPROMISE_RESPONSE_LEDGER_MAX_ENTRIES :: nat where "COMPROMISE_RESPONSE_LEDGER_MAX_ENTRIES \<equiv> 512"
abbreviation COMPROMISE_RESPONSE_LEDGER_MAX_BYTES :: nat where "COMPROMISE_RESPONSE_LEDGER_MAX_BYTES \<equiv> 4 * 1024 * 1024"

section \<open>The ledger\<close>

record CompromiseResponseLedgerEntry =
  le_workspace_id :: string
  le_signal_event_ids :: "string list"
  le_rotated_event_ids :: "string list"
  le_responded_at_unix_ms :: u64

record CompromiseResponseLedger =
  cl_schema_version :: u32
  cl_entries :: "CompromiseResponseLedgerEntry list"

definition ledger_default :: CompromiseResponseLedger where
  "ledger_default = \<lparr>cl_schema_version = COMPROMISE_RESPONSE_LEDGER_SCHEMA_VERSION, cl_entries = []\<rparr>"

definition into_current_schema :: "CompromiseResponseLedger \<Rightarrow> CompromiseResponseLedger" where
  "into_current_schema ledger =
     (if cl_schema_version ledger = COMPROMISE_RESPONSE_LEDGER_SCHEMA_VERSION then ledger else ledger_default)"

definition handled_signal_event_ids_for_workspace :: "CompromiseResponseLedger \<Rightarrow> string \<Rightarrow> string set" where
  "handled_signal_event_ids_for_workspace ledger workspace_id =
     set (concat (map le_signal_event_ids (filter (\<lambda>entry. le_workspace_id entry = workspace_id) (cl_entries ledger))))"

definition record_response ::
  "string \<Rightarrow> string list \<Rightarrow> string list \<Rightarrow> u64 \<Rightarrow> CompromiseResponseLedger \<Rightarrow> CompromiseResponseLedger" where
  "record_response workspace_id signal_event_ids rotated_event_ids responded_at_unix_ms ledger =
     (let entries = cl_entries ledger @ [\<lparr>le_workspace_id = workspace_id, le_signal_event_ids = signal_event_ids,
            le_rotated_event_ids = rotated_event_ids, le_responded_at_unix_ms = responded_at_unix_ms\<rparr>]
      in ledger\<lparr>cl_entries :=
           if length entries > COMPROMISE_RESPONSE_LEDGER_MAX_ENTRIES
           then drop (length entries - COMPROMISE_RESPONSE_LEDGER_MAX_ENTRIES) entries else entries\<rparr>)"

section \<open>Signals\<close>

record WorkspaceCompromiseSignal =
  cs_kind :: string
  cs_severity :: string
  cs_event_id :: string
  cs_channel_id :: "string option"
  cs_author_device_id :: string
  cs_local_device :: bool
  cs_physical_ms :: i64
  cs_reason :: string

record CompromiseLib =
  identity_error_to_string :: "IdentityError \<Rightarrow> string"
  ledger_to_vec_pretty :: "CompromiseResponseLedger \<Rightarrow> bytes"
  ledger_from_slice :: "bytes \<Rightarrow> CompromiseResponseLedger option"

definition workspace_compromise_signal_from_event ::
  "'c StoreLib \<Rightarrow> CompromiseLib \<Rightarrow> SignedEvent \<Rightarrow> DeviceId \<Rightarrow> WorkspaceCompromiseSignal option" where
  "workspace_compromise_signal_from_event L C event local_device_id =
     (if sg_author_public_key event = [] then None
      else case verify_self_contained_event (ident L) event of
        Inr _ \<Rightarrow> None
      | Inl err \<Rightarrow> Some \<lparr>cs_kind = COMPROMISE_SIGNAL_INVALID_SELF_CONTAINED_SIGNATURE,
          cs_severity = COMPROMISE_SIGNAL_SEVERITY_SUSPECTED, cs_event_id = event_str (sg_event_id event),
          cs_channel_id = map_option channel_str (ev_channel event), cs_author_device_id = device_str (ev_author event),
          cs_local_device = (ev_author event = local_device_id), cs_physical_ms = ev_physical_ms event,
          cs_reason = identity_error_to_string C err\<rparr>)"

record WorkspaceCompromiseReport =
  rp_workspace_id :: string
  rp_has_signals :: bool
  rp_signal_count :: nat
  rp_invalid_signature_count :: nat
  rp_local_device_signal_count :: nat
  rp_should_rotate_local_secret_state :: bool
  rp_recommended_action :: "string option"
  rp_signals :: "WorkspaceCompromiseSignal list"

definition detect_workspace_compromise_signals ::
  "'c RuntimeEnv \<Rightarrow> CompromiseLib \<Rightarrow> LocalRuntime \<Rightarrow> WorkspaceId \<Rightarrow> WorkspaceCompromiseReport" where
  "detect_workspace_compromise_signals E C rt workspace_id =
     (let events = list_parseable_events_for_workspace (env_store E) (rt_store rt) (workspace_str workspace_id);
          signals = List.map_filter (\<lambda>event. workspace_compromise_signal_from_event (env_store E) C event (own_device rt)) events;
          local_device_signal_count = length (filter cs_local_device signals);
          invalid_signature_count =
            length (filter (\<lambda>signal. cs_kind signal = COMPROMISE_SIGNAL_INVALID_SELF_CONTAINED_SIGNATURE) signals);
          should_rotate_local_secret_state = (0 < local_device_signal_count);
          recommended_action =
            (if should_rotate_local_secret_state then Some COMPROMISE_ACTION_ROTATE_WORKSPACE_FOR_SUSPECTED_COMPROMISE
             else if signals \<noteq> [] then Some COMPROMISE_ACTION_REVIEW_INVALID_SIGNATURES else None)
      in \<lparr>rp_workspace_id = workspace_str workspace_id, rp_has_signals = (signals \<noteq> []), rp_signal_count = length signals,
          rp_invalid_signature_count = invalid_signature_count, rp_local_device_signal_count = local_device_signal_count,
          rp_should_rotate_local_secret_state = should_rotate_local_secret_state,
          rp_recommended_action = recommended_action, rp_signals = signals\<rparr>)"

section \<open>Rotation\<close>

record RotatedWorkspaceForSuspectedCompromise =
  rs_workspace_id :: string
  rs_openmls_updates :: "UpdatedWorkspaceOpenMlsGroups option"
  rs_manual_key_rotation :: "RotatedWorkspaceManualKeys option"
  rs_rotated_event_count :: nat
  rs_rotated_event_ids :: "string list"

text \<open>\<open>inputs\<close> and \<open>keys\<close> give the clock and the random numbers of the updates and of the rotations.\<close>

definition rotate_workspace_for_suspected_compromise ::
  "'c RuntimeEnv \<Rightarrow> MlsLib \<Rightarrow> (nat \<Rightarrow> GroupInputs) \<Rightarrow> (nat \<Rightarrow> HybridTimestamp \<times> bytes \<times> bytes \<times> ContentKey) \<Rightarrow> LocalRuntime
     \<Rightarrow> WorkspaceId \<Rightarrow> LocalRuntime \<times> (RuntimeError + RotatedWorkspaceForSuspectedCompromise)" where
  "rotate_workspace_for_suspected_compromise E M inputs keys rt workspace_id =
     and_then
      (case update_workspace_openmls_groups E M inputs rt workspace_id of
         (rt, Inr updated) \<Rightarrow> (rt, Inr (Some updated))
       | (rt, Inl err) \<Rightarrow> (case err of RtOpenMlsLocalGroupMissing _ \<Rightarrow> (rt, Inr None) | _ \<Rightarrow> (rt, Inl err)))
      (\<lambda>rt openmls_updates.
      and_then (when_true (contains_key (rt_files rt) (workspace_key_path rt workspace_id)) rt
          (\<lambda>rt. rotate_workspace_manual_keys E keys rt workspace_id)) (\<lambda>rt manual_key_rotation.
      if openmls_updates = None \<and> manual_key_rotation = None then (rt, Inl RtInvalidWorkspaceKey)
      else let rotated_event_ids =
          (case openmls_updates of Some updates \<Rightarrow> uw_updated_event_ids updates | None \<Rightarrow> [])
          @ (case manual_key_rotation of Some rotation \<Rightarrow> rm_rotated_event_ids rotation | None \<Rightarrow> []) in
        (rt, Inr \<lparr>rs_workspace_id = workspace_str workspace_id, rs_openmls_updates = openmls_updates,
           rs_manual_key_rotation = manual_key_rotation, rs_rotated_event_count = length rotated_event_ids,
           rs_rotated_event_ids = rotated_event_ids\<rparr>)))"

section \<open>The ledger file\<close>

definition read_compromise_response_ledger ::
  "CompromiseLib \<Rightarrow> LocalRuntime \<Rightarrow> RuntimeError + CompromiseResponseLedger" where
  "read_compromise_response_ledger C rt =
     bind_res (read_local_metadata_file_with_limit (rt_files rt) (rp_compromise_response_ledger (rt_paths rt))
         COMPROMISE_RESPONSE_LEDGER_MAX_BYTES ''compromise response ledger'') (\<lambda>found.
       case found of
         None \<Rightarrow> Inr ledger_default
       | Some bytes \<Rightarrow> bind_res (ok_or (ledger_from_slice C bytes) RtSerde) (\<lambda>ledger. Inr (into_current_schema ledger)))"

definition write_compromise_response_ledger :: "CompromiseLib \<Rightarrow> LocalRuntime \<Rightarrow> CompromiseResponseLedger \<Rightarrow> LocalRuntime" where
  "write_compromise_response_ledger C rt ledger =
     rt\<lparr>rt_files := write_secret_file (rt_files rt) (rp_compromise_response_ledger (rt_paths rt)) (ledger_to_vec_pretty C ledger)\<rparr>"

definition handled_compromise_signal_event_ids_for_workspace ::
  "CompromiseLib \<Rightarrow> LocalRuntime \<Rightarrow> WorkspaceId \<Rightarrow> RuntimeError + string set" where
  "handled_compromise_signal_event_ids_for_workspace C rt workspace_id =
     bind_res (read_compromise_response_ledger C rt) (\<lambda>ledger.
       Inr (handled_signal_event_ids_for_workspace ledger (workspace_str workspace_id)))"

definition record_compromise_response ::
  "CompromiseLib \<Rightarrow> u64 \<Rightarrow> LocalRuntime \<Rightarrow> WorkspaceId \<Rightarrow> string list \<Rightarrow> string list \<Rightarrow> RuntimeError + LocalRuntime" where
  "record_compromise_response C now_unix_ms rt workspace_id signal_event_ids rotated_event_ids =
     bind_res (read_compromise_response_ledger C rt) (\<lambda>ledger.
       Inr (write_compromise_response_ledger C rt
         (record_response (workspace_str workspace_id) signal_event_ids rotated_event_ids now_unix_ms ledger)))"

section \<open>Responses\<close>

record WorkspaceCompromiseResponse =
  cp_workspace_id :: string
  cp_report :: WorkspaceCompromiseReport
  cp_action_taken :: "string option"
  cp_rotated_local_secret_state :: bool
  cp_skipped_reason :: "string option"
  cp_responded_signal_count :: nat
  cp_responded_signal_event_ids :: "string list"
  cp_already_handled_signal_count :: nat
  cp_already_handled_signal_event_ids :: "string list"
  cp_rotation :: "RotatedWorkspaceForSuspectedCompromise option"

text \<open>The response of the parts that the branches choose.\<close>

definition compromise_response ::
  "WorkspaceId \<Rightarrow> WorkspaceCompromiseReport \<Rightarrow> string list \<Rightarrow> string list \<Rightarrow> string option \<Rightarrow> string option
     \<Rightarrow> RotatedWorkspaceForSuspectedCompromise option \<Rightarrow> WorkspaceCompromiseResponse" where
  "compromise_response workspace_id report responded already_handled action_taken skipped_reason rotation =
     \<lparr>cp_workspace_id = workspace_str workspace_id, cp_report = report, cp_action_taken = action_taken,
      cp_rotated_local_secret_state = (rotation \<noteq> None), cp_skipped_reason = skipped_reason,
      cp_responded_signal_count = length responded, cp_responded_signal_event_ids = responded,
      cp_already_handled_signal_count = length already_handled,
      cp_already_handled_signal_event_ids = already_handled, cp_rotation = rotation\<rparr>"

definition respond_to_workspace_compromise_report ::
  "'c RuntimeEnv \<Rightarrow> MlsLib \<Rightarrow> CompromiseLib \<Rightarrow> (nat \<Rightarrow> GroupInputs) \<Rightarrow> (nat \<Rightarrow> HybridTimestamp \<times> bytes \<times> bytes \<times> ContentKey)
     \<Rightarrow> u64 \<Rightarrow> LocalRuntime \<Rightarrow> WorkspaceId \<Rightarrow> WorkspaceCompromiseReport
     \<Rightarrow> LocalRuntime \<times> (RuntimeError + WorkspaceCompromiseResponse)" where
  "respond_to_workspace_compromise_report E M C inputs keys now_unix_ms rt workspace_id report =
     attempt rt (handled_compromise_signal_event_ids_for_workspace C rt workspace_id) (\<lambda>handled.
     let local_ids = map cs_event_id (filter cs_local_device (rp_signals report));
         already_handled = filter (\<lambda>i. i \<in> handled) local_ids;
         responded = filter (\<lambda>i. i \<notin> handled) local_ids in
     if responded = [] then
       let skipped_reason =
         (if \<not> rp_has_signals report then COMPROMISE_RESPONSE_SKIPPED_NO_SIGNALS
          else if rp_local_device_signal_count report = 0 then COMPROMISE_RESPONSE_SKIPPED_REMOTE_SIGNALS_REQUIRE_REVIEW
          else COMPROMISE_RESPONSE_SKIPPED_LOCAL_SIGNALS_ALREADY_HANDLED) in
       (rt, Inr (compromise_response workspace_id report [] already_handled None (Some skipped_reason) None))
     else case rotate_workspace_for_suspected_compromise E M inputs keys rt workspace_id of
       (rt, Inr rotated) \<Rightarrow>
         attempt rt (record_compromise_response C now_unix_ms rt workspace_id responded (rs_rotated_event_ids rotated)) (\<lambda>rt.
           (rt, Inr (compromise_response workspace_id report responded already_handled
              (Some COMPROMISE_ACTION_ROTATE_WORKSPACE_FOR_SUSPECTED_COMPROMISE) None (Some rotated))))
     | (rt, Inl err) \<Rightarrow>
         if err = RtInvalidWorkspaceKey
         then (rt, Inr (compromise_response workspace_id report [] already_handled None
           (Some COMPROMISE_RESPONSE_SKIPPED_LOCAL_SECRET_STATE_MISSING) None))
         else (rt, Inl err))"

definition respond_to_workspace_compromise_signals ::
  "'c RuntimeEnv \<Rightarrow> MlsLib \<Rightarrow> CompromiseLib \<Rightarrow> (nat \<Rightarrow> GroupInputs) \<Rightarrow> (nat \<Rightarrow> HybridTimestamp \<times> bytes \<times> bytes \<times> ContentKey)
     \<Rightarrow> u64 \<Rightarrow> LocalRuntime \<Rightarrow> WorkspaceId \<Rightarrow> LocalRuntime \<times> (RuntimeError + WorkspaceCompromiseResponse)" where
  "respond_to_workspace_compromise_signals E M C inputs keys now_unix_ms rt workspace_id =
     respond_to_workspace_compromise_report E M C inputs keys now_unix_ms rt workspace_id
       (detect_workspace_compromise_signals E C rt workspace_id)"

definition automatic_compromise_response_if_needed ::
  "'c RuntimeEnv \<Rightarrow> MlsLib \<Rightarrow> CompromiseLib \<Rightarrow> (nat \<Rightarrow> GroupInputs) \<Rightarrow> (nat \<Rightarrow> HybridTimestamp \<times> bytes \<times> bytes \<times> ContentKey)
     \<Rightarrow> u64 \<Rightarrow> LocalRuntime \<Rightarrow> WorkspaceId \<Rightarrow> LocalRuntime \<times> (RuntimeError + WorkspaceCompromiseResponse option)" where
  "automatic_compromise_response_if_needed E M C inputs keys now_unix_ms rt workspace_id =
     (let report = detect_workspace_compromise_signals E C rt workspace_id in
      if \<not> rp_has_signals report then (rt, Inr None)
      else and_then (respond_to_workspace_compromise_report E M C inputs keys now_unix_ms rt workspace_id report)
        (\<lambda>rt response. (rt, Inr (Some response))))"

end
