(* ===== verification/Attachments.thy ===== *)
theory Attachments
  imports Local_Messages "HOL-Library.Option_ord"
begin

text \<open>
  The rest of \<^verbatim>\<open>src/runtime/src/attachment_runtime.rs\<close>: sending a file, saving an attachment to a file and
  pruning the media store, and the publish queue of a workspace from \<^verbatim>\<open>publish_queue.rs\<close>.  The files that are
  attached and saved are files of the same map as those of the runtime.
\<close>

section \<open>Attaching a file\<close>

text \<open>\<open>Path::file_name\<close>: the last component that is not the current directory, unless it is the parent.\<close>

definition path_last_component :: "string \<Rightarrow> string option" where
  "path_last_component path =
     (let components = filter (\<lambda>component. component \<noteq> [] \<and> component \<noteq> ''.'') (split_char (CHR ''/'') path)
      in if components = [] \<or> last components = ''..'' then None else Some (last components))"

definition to_ascii_lowercase :: "string \<Rightarrow> string" where
  "to_ascii_lowercase s = map (\<lambda>c. if byte_between 65 90 c then char_of (of_char c + 32 :: nat) else c) s"

definition media_types :: "(string \<times> string) list" where
  "media_types =
     [(''txt'', ''text/plain''), (''log'', ''text/plain''), (''md'', ''text/markdown''), (''markdown'', ''text/markdown''),
      (''json'', ''application/json''), (''csv'', ''text/csv''), (''html'', ''text/html''), (''htm'', ''text/html''),
      (''css'', ''text/css''), (''js'', ''text/javascript''), (''mjs'', ''text/javascript''), (''pdf'', ''application/pdf''),
      (''png'', ''image/png''), (''jpg'', ''image/jpeg''), (''jpeg'', ''image/jpeg''), (''gif'', ''image/gif''),
      (''webp'', ''image/webp''), (''svg'', ''image/svg+xml''), (''mp3'', ''audio/mpeg''), (''wav'', ''audio/wav''),
      (''mp4'', ''video/mp4''), (''mov'', ''video/quicktime''), (''zip'', ''application/zip''), (''gz'', ''application/gzip''),
      (''wasm'', ''application/wasm'')]"

definition attachment_media_type_for_path :: "string \<Rightarrow> string \<Rightarrow> string" where
  "attachment_media_type_for_path file_path requested_media_type =
     (let requested_media_type = trim requested_media_type in
      if requested_media_type \<noteq> [] then requested_media_type
      else let extension = to_ascii_lowercase (case Option.bind (path_last_component file_path) file_extension of
             Some e \<Rightarrow> e | None \<Rightarrow> [])
        in case map_of media_types extension of Some media_type \<Rightarrow> media_type | None \<Rightarrow> ''application/octet-stream'')"

definition read_attachment_file_with_limit :: "FileSystem \<Rightarrow> string \<Rightarrow> RuntimeError + bytes" where
  "read_attachment_file_with_limit files file_path =
     then_res (validate_runtime_path file_path ''attachment file path'')
      (bind_res (ok_or (fmlookup files file_path) (RtIo IoNotFound)) (\<lambda>plaintext.
       bind_res (validate_attachment_plaintext_size (word_of_nat (length plaintext))) (\<lambda>_. Inr plaintext)))"

definition send_message_with_attachment_file_reply ::
  "'c RuntimeEnv \<Rightarrow> HybridTimestamp \<Rightarrow> bytes \<Rightarrow> (nat \<Rightarrow> bytes) \<Rightarrow> MessageId \<Rightarrow> LocalRuntime \<Rightarrow> WorkspaceId \<Rightarrow> ChannelId
     \<Rightarrow> MessageId option \<Rightarrow> string \<Rightarrow> string \<Rightarrow> string \<Rightarrow> LocalRuntime \<times> (RuntimeError + CreatedMessage)" where
  "send_message_with_attachment_file_reply E now nonce nonces message_id rt workspace_id channel_id reply_to_message_id
       markdown file_path media_type =
     attempt rt (validate_message_markdown_size markdown) (\<lambda>_.
     attempt rt (validate_runtime_path file_path ''attachment file path'') (\<lambda>_.
     let display_name = (case path_last_component file_path of
           Some name \<Rightarrow> if trim name \<noteq> [] then name else ''attachment'' | None \<Rightarrow> ''attachment'') in
     attempt rt (read_attachment_file_with_limit (rt_files rt) file_path) (\<lambda>plaintext.
       send_message_with_attachments E now nonce nonces message_id rt workspace_id channel_id markdown reply_to_message_id
         [\<lparr>pa_display_name = display_name, pa_media_type = attachment_media_type_for_path file_path media_type,
           pa_plaintext = plaintext\<rparr>])))"

definition send_message_with_attachment_file ::
  "'c RuntimeEnv \<Rightarrow> HybridTimestamp \<Rightarrow> bytes \<Rightarrow> (nat \<Rightarrow> bytes) \<Rightarrow> MessageId \<Rightarrow> LocalRuntime \<Rightarrow> WorkspaceId \<Rightarrow> ChannelId
     \<Rightarrow> string \<Rightarrow> string \<Rightarrow> string \<Rightarrow> LocalRuntime \<times> (RuntimeError + CreatedMessage)" where
  "send_message_with_attachment_file E now nonce nonces message_id rt workspace_id channel_id markdown file_path media_type =
     send_message_with_attachment_file_reply E now nonce nonces message_id rt workspace_id channel_id None
       markdown file_path media_type"

section \<open>Saving an attachment\<close>

record SavedAttachment =
  sv_workspace_id :: string
  sv_channel_id :: string
  sv_message_id :: string
  sv_blob_hash :: string
  sv_attachment_id :: string
  sv_display_name :: string
  sv_media_type :: string
  sv_byte_len :: u64
  sv_output_path :: string

definition message_attachment_from_state ::
  "WorkspaceState \<Rightarrow> DeviceId \<Rightarrow> WorkspaceId \<Rightarrow> MessageId \<Rightarrow> string \<Rightarrow> RuntimeError + (ChannelId \<times> AttachmentRef \<times> nat)" where
  "message_attachment_from_state state device_id workspace_id message_id attachment_selector =
     then_res (validate_message_id_reference message_id)
      (bind_res (ok_or (fmlookup (ws_messages state) message_id) (RtMessageNotFound workspace_id message_id)) (\<lambda>message.
       if \<not> channel_accessible_to state (mv_channel_id message) device_id
       then Inl (RtChannelAccessDenied workspace_id (mv_channel_id message) device_id)
       else let slots = enumerate 0 (mv_attachments message);
                by_id = find (\<lambda>(_, attachment). att_attachment_id attachment \<noteq> []
                  \<and> att_attachment_id attachment = attachment_selector) slots;
                found = (case by_id of Some slot \<Rightarrow> Some slot
                  | None \<Rightarrow> find (\<lambda>(_, attachment). att_blob_hash attachment = attachment_selector) slots) in
         bind_res (ok_or found (RtAttachmentNotFound workspace_id message_id attachment_selector))
           (\<lambda>(attachment_index, attachment). Inr (mv_channel_id message, attachment, attachment_index))))"

definition write_attachment_export_file :: "FileSystem \<Rightarrow> string \<Rightarrow> bytes \<Rightarrow> RuntimeError + FileSystem" where
  "write_attachment_export_file files path content =
     then_res (validate_runtime_path path ''attachment output path'') (Inr (fmupd path content files))"

definition save_attachment_to_file ::
  "'c RuntimeEnv \<Rightarrow> LocalRuntime \<Rightarrow> WorkspaceId \<Rightarrow> MessageId \<Rightarrow> string \<Rightarrow> string
     \<Rightarrow> LocalRuntime \<times> (RuntimeError + SavedAttachment)" where
  "save_attachment_to_file E rt workspace_id message_id attachment_selector output_path =
     attempt rt (validate_workspace_id_reference workspace_id) (\<lambda>_.
     attempt rt (validate_message_id_reference message_id) (\<lambda>_.
     attempt rt (validate_runtime_path output_path ''attachment output path'') (\<lambda>_.
     attempt rt (materialized_state E rt workspace_id) (\<lambda>state.
     attempt rt (message_attachment_from_state state (own_device rt) workspace_id message_id attachment_selector)
       (\<lambda>(channel_id, attachment, attachment_index).
     attempt rt (ok_or (att_encryption attachment) (RtAttachmentNotEncrypted (att_blob_hash attachment))) (\<lambda>encrypted.
     attempt rt (open_blob_store rt) (\<lambda>blobs.
     attempt rt (map_err RtMedia (get_complete_bytes (media_lib E) blobs (att_blob_hash attachment))) (\<lambda>found.
     attempt rt (ok_or found (RtAttachmentBlobMissing (att_blob_hash attachment))) (\<lambda>ciphertext.
     let sealed = sealed_payload_from_encrypted_blob_ref encrypted ciphertext in
     attempt rt (load_workspace_key (key_lib E) rt workspace_id) (\<lambda>workspace_key.
     attempt rt (content_key_for_materialized_payload E rt workspace_id channel_id state workspace_key (sp_key_id sealed))
       (\<lambda>content_key.
     attempt rt (ok_or content_key (RtContentKeyMissing workspace_id channel_id (sp_key_id sealed))) (\<lambda>content_key.
     attempt rt (map_err RtCrypto (open_attachment_blob (cipher (ident (env_store E))) (rk_content_key content_key) sealed
         workspace_id channel_id message_id (word_of_nat attachment_index))) (\<lambda>plaintext.
     attempt rt (write_attachment_export_file (rt_files rt) output_path plaintext) (\<lambda>files.
       (rt\<lparr>rt_files := files\<rparr>, Inr \<lparr>sv_workspace_id = workspace_str workspace_id, sv_channel_id = channel_str channel_id,
          sv_message_id = message_str message_id, sv_blob_hash = att_blob_hash attachment,
          sv_attachment_id = att_attachment_id attachment, sv_display_name = att_display_name attachment,
          sv_media_type = att_media_type attachment, sv_byte_len = att_byte_len attachment,
          sv_output_path = output_path\<rparr>)))))))))))))))"

section \<open>The publish queue\<close>

abbreviation MAX_PUBLISH_QUEUE_EVENT_ID_SAMPLE_ROWS :: nat where "MAX_PUBLISH_QUEUE_EVENT_ID_SAMPLE_ROWS \<equiv> 128"
abbreviation MAX_PUBLISH_QUEUE_BLOB_HASH_SAMPLE_ROWS :: nat where "MAX_PUBLISH_QUEUE_BLOB_HASH_SAMPLE_ROWS \<equiv> 64"
abbreviation MAX_PUBLISH_QUEUE_SKIPPED_GAP_SAMPLE_ROWS :: nat where "MAX_PUBLISH_QUEUE_SKIPPED_GAP_SAMPLE_ROWS \<equiv> 64"

text \<open>
  A sample list keeps the first rows.  The counts of the summary are those of the whole lists; a set that only
  collects identifiers is a set, and the map of channels is walked in the order of its keys, no channel first.
\<close>

record WorkspacePublishQueueChannelSummary =
  qc_channel_id :: "string option"
  qc_publishable_event_count :: nat
  qc_backup_event_count :: nat
  qc_queued_message_event_count :: nat
  qc_queued_attachment_blob_count :: nat
  qc_missing_blob_count :: nat

record WorkspacePublishQueueSummary =
  qs_publishable_event_count :: nat
  qs_backup_event_count :: nat
  qs_available_blob_count :: nat
  qs_missing_blob_count :: nat
  qs_skipped_gap_count :: nat
  qs_queued_message_event_count :: nat
  qs_queued_attachment_blob_count :: nat
  qs_oldest_event_physical_ms :: "i64 option"
  qs_newest_event_physical_ms :: "i64 option"
  qs_has_missing_local_blobs :: bool
  qs_has_skipped_gaps :: bool
  qs_is_complete :: bool
  qs_channels :: "WorkspacePublishQueueChannelSummary list"

record WorkspacePublishQueue =
  pq_workspace_id :: string
  pq_summary :: WorkspacePublishQueueSummary
  pq_publishable_event_ids :: "string list"
  pq_backup_event_ids :: "string list"
  pq_available_blob_hashes :: "string list"
  pq_missing_blob_hashes :: "string list"
  pq_skipped_gaps :: "PulledWorkspaceGap list"

record WorkspacePublishQueueChannelSummaryBuilder =
  qb_publishable_event_count :: nat
  qb_backup_event_count :: nat
  qb_queued_message_event_count :: nat
  qb_attachment_blob_hashes :: "string set"
  qb_missing_blob_hashes :: "string set"

definition event_attachment_blob_hashes :: "SignedEvent \<Rightarrow> string list" where
  "event_attachment_blob_hashes event =
     (case ev_body event of
        MessageCreated _ _ attachments \<Rightarrow> map att_blob_hash attachments
      | MessageCreatedEncrypted _ _ attachments \<Rightarrow> map att_blob_hash attachments
      | MessageReplyCreated _ _ _ attachments \<Rightarrow> map att_blob_hash attachments
      | MessageReplyCreatedEncrypted _ _ _ attachments \<Rightarrow> map att_blob_hash attachments
      | _ \<Rightarrow> [])"

definition attachment_blob_hashes :: "SignedEvent list \<Rightarrow> string list" where
  "attachment_blob_hashes events = sorted_list_of_set (set (concat (map event_attachment_blob_hashes events)))"

definition is_queued_message_event :: "SignedEvent \<Rightarrow> bool" where
  "is_queued_message_event event =
     (case ev_body event of
        MessageCreated _ _ _ \<Rightarrow> True
      | MessageCreatedEncrypted _ _ _ \<Rightarrow> True
      | MessageReplyCreated _ _ _ _ \<Rightarrow> True
      | MessageReplyCreatedEncrypted _ _ _ _ \<Rightarrow> True
      | MessageEdited _ _ \<Rightarrow> True
      | MessageEditedEncrypted _ _ \<Rightarrow> True
      | MessageDeleted _ \<Rightarrow> True
      | ReactionAdded _ _ \<Rightarrow> True
      | ReactionRemoved _ _ \<Rightarrow> True
      | _ \<Rightarrow> False)"

definition is_backup_slice_event :: "SignedEvent \<Rightarrow> bool" where
  "is_backup_slice_event event =
     (case ev_body event of
        MessageCreatedEncrypted _ _ _ \<Rightarrow> True
      | MessageReplyCreatedEncrypted _ _ _ _ \<Rightarrow> True
      | MessageEditedEncrypted _ _ \<Rightarrow> True
      | MessageDeleted _ \<Rightarrow> True
      | ReactionAdded _ _ \<Rightarrow> True
      | ReactionRemoved _ _ \<Rightarrow> True
      | MemberRemoved _ \<Rightarrow> True
      | ChannelMemberRemoved _ _ \<Rightarrow> True
      | DeviceProfileUpdated _ _ \<Rightarrow> True
      | DeviceKeyPackagePublished _ _ _ \<Rightarrow> True
      | OpenMlsWorkspaceGroupMemberAdded _ _ _ _ _ _ _ _ _ _ \<Rightarrow> True
      | OpenMlsWorkspaceGroupMemberRemoved _ _ _ _ _ _ _ \<Rightarrow> True
      | OpenMlsChannelGroupMemberAdded _ _ _ _ _ _ _ _ _ _ _ \<Rightarrow> True
      | OpenMlsChannelGroupMemberRemoved _ _ _ _ _ _ _ _ \<Rightarrow> True
      | OpenMlsWorkspaceGroupSelfUpdated _ _ _ _ _ _ \<Rightarrow> True
      | OpenMlsChannelGroupSelfUpdated _ _ _ _ _ _ _ \<Rightarrow> True
      | ContentKeyEpochPublished _ _ _ _ _ \<Rightarrow> True
      | ReadMarkerUpdated _ _ \<Rightarrow> True
      | _ \<Rightarrow> False)"

text \<open>The variables of the loop over the events, and its body.\<close>

record QueueScan =
  qn_channel_summaries :: "(string option, WorkspacePublishQueueChannelSummaryBuilder) fmap"
  qn_queued_message_event_count :: nat
  qn_queued_attachment_blob_hashes :: "string set"
  qn_oldest_event_physical_ms :: "i64 option"
  qn_newest_event_physical_ms :: "i64 option"

definition builder_default :: WorkspacePublishQueueChannelSummaryBuilder where
  "builder_default = \<lparr>qb_publishable_event_count = 0, qb_backup_event_count = 0, qb_queued_message_event_count = 0,
     qb_attachment_blob_hashes = {}, qb_missing_blob_hashes = {}\<rparr>"

definition summarize_event ::
  "string set \<Rightarrow> string set \<Rightarrow> SignedEvent \<Rightarrow> WorkspacePublishQueueChannelSummaryBuilder
     \<Rightarrow> WorkspacePublishQueueChannelSummaryBuilder" where
  "summarize_event backup_event_ids missing_blob_hashes event b =
     (let hashes = set (event_attachment_blob_hashes event) in
      b\<lparr>qb_publishable_event_count := qb_publishable_event_count b + 1,
        qb_backup_event_count := qb_backup_event_count b
          + (if event_str (sg_event_id event) \<in> backup_event_ids then 1 else 0),
        qb_queued_message_event_count := qb_queued_message_event_count b + (if is_queued_message_event event then 1 else 0),
        qb_attachment_blob_hashes := qb_attachment_blob_hashes b \<union> hashes,
        qb_missing_blob_hashes := qb_missing_blob_hashes b \<union> (hashes \<inter> missing_blob_hashes)\<rparr>)"

definition scan_event :: "string set \<Rightarrow> string set \<Rightarrow> QueueScan \<Rightarrow> SignedEvent \<Rightarrow> QueueScan" where
  "scan_event backup_event_ids missing_blob_hashes n event =
     (let ms = physical_ms (se_timestamp (sg_event event)); channel_id = map_option channel_str (ev_channel event);
          builder = (case fmlookup (qn_channel_summaries n) channel_id of Some b \<Rightarrow> b | None \<Rightarrow> builder_default) in
      n\<lparr>qn_oldest_event_physical_ms := Some (case qn_oldest_event_physical_ms n of Some oldest \<Rightarrow> min oldest ms | None \<Rightarrow> ms),
        qn_newest_event_physical_ms := Some (case qn_newest_event_physical_ms n of Some newest \<Rightarrow> max newest ms | None \<Rightarrow> ms),
        qn_queued_message_event_count := qn_queued_message_event_count n + (if is_queued_message_event event then 1 else 0),
        qn_channel_summaries := fmupd channel_id (summarize_event backup_event_ids missing_blob_hashes event builder)
          (qn_channel_summaries n),
        qn_queued_attachment_blob_hashes := qn_queued_attachment_blob_hashes n \<union> set (event_attachment_blob_hashes event)\<rparr>)"

definition scan_events :: "string set \<Rightarrow> string set \<Rightarrow> SignedEvent list \<Rightarrow> QueueScan" where
  "scan_events backup_event_ids missing_blob_hashes events =
     foldl (scan_event backup_event_ids missing_blob_hashes)
       \<lparr>qn_channel_summaries = fmempty, qn_queued_message_event_count = 0, qn_queued_attachment_blob_hashes = {},
        qn_oldest_event_physical_ms = None, qn_newest_event_physical_ms = None\<rparr> events"

definition channel_summary :: "string option \<times> WorkspacePublishQueueChannelSummaryBuilder \<Rightarrow> WorkspacePublishQueueChannelSummary" where
  "channel_summary entry =
     (let (channel_id, b) = entry in
      \<lparr>qc_channel_id = channel_id, qc_publishable_event_count = qb_publishable_event_count b,
       qc_backup_event_count = qb_backup_event_count b,
       qc_queued_message_event_count = qb_queued_message_event_count b,
       qc_queued_attachment_blob_count = card (qb_attachment_blob_hashes b),
       qc_missing_blob_count = card (qb_missing_blob_hashes b)\<rparr>)"

definition workspace_publish_queue_summary ::
  "SignedEvent list \<Rightarrow> string set \<Rightarrow> string list \<Rightarrow> string list \<Rightarrow> PulledWorkspaceGap list \<Rightarrow> WorkspacePublishQueueSummary" where
  "workspace_publish_queue_summary events backup_event_ids available_blob_hashes missing_blob_hashes skipped_gaps =
     (let missing = set missing_blob_hashes; n = scan_events backup_event_ids missing events in
      \<lparr>qs_publishable_event_count = length events, qs_backup_event_count = card backup_event_ids,
       qs_available_blob_count = length available_blob_hashes, qs_missing_blob_count = card missing,
       qs_skipped_gap_count = length skipped_gaps, qs_queued_message_event_count = qn_queued_message_event_count n,
       qs_queued_attachment_blob_count = card (qn_queued_attachment_blob_hashes n),
       qs_oldest_event_physical_ms = qn_oldest_event_physical_ms n,
       qs_newest_event_physical_ms = qn_newest_event_physical_ms n,
       qs_has_missing_local_blobs = (missing \<noteq> {}), qs_has_skipped_gaps = (skipped_gaps \<noteq> []),
       qs_is_complete = (missing = {} \<and> skipped_gaps = []),
       qs_channels = map channel_summary (sorted_list_of_fmap (qn_channel_summaries n))\<rparr>)"

text \<open>The loop over the hashes: those of complete blobs, and the others.\<close>

fun split_blob_hashes :: "MediaLib \<Rightarrow> BlobFiles \<Rightarrow> string list \<Rightarrow> RuntimeError + (string list \<times> string list)" where
  "split_blob_hashes M blobs [] = Inr ([], [])"
| "split_blob_hashes M blobs (h # rest) =
     bind_res (map_err RtMedia (has_complete_blob M blobs h)) (\<lambda>complete.
     bind_res (split_blob_hashes M blobs rest) (\<lambda>(available, missing).
       Inr (if complete then (h # available, missing) else (available, h # missing))))"

definition workspace_publish_queue ::
  "'c RuntimeEnv \<Rightarrow> LocalRuntime \<Rightarrow> WorkspaceId \<Rightarrow> RuntimeError + WorkspacePublishQueue" where
  "workspace_publish_queue E rt workspace_id =
     bind_res (materialized_workspace_events_with_gaps E rt workspace_id) (\<lambda>(events, skipped_gaps).
     let publishable_event_ids = map (\<lambda>event. event_str (sg_event_id event)) events;
         backup_event_ids = map (\<lambda>event. event_str (sg_event_id event)) (filter is_backup_slice_event events) in
     bind_res (open_blob_store rt) (\<lambda>blobs.
     bind_res (split_blob_hashes (media_lib E) blobs (attachment_blob_hashes events)) (\<lambda>(available, missing).
       Inr \<lparr>pq_workspace_id = workspace_str workspace_id,
         pq_summary = workspace_publish_queue_summary events (set backup_event_ids) available missing skipped_gaps,
         pq_publishable_event_ids = take MAX_PUBLISH_QUEUE_EVENT_ID_SAMPLE_ROWS publishable_event_ids,
         pq_backup_event_ids = take MAX_PUBLISH_QUEUE_EVENT_ID_SAMPLE_ROWS backup_event_ids,
         pq_available_blob_hashes = take MAX_PUBLISH_QUEUE_BLOB_HASH_SAMPLE_ROWS available,
         pq_missing_blob_hashes = take MAX_PUBLISH_QUEUE_BLOB_HASH_SAMPLE_ROWS missing,
         pq_skipped_gaps = take MAX_PUBLISH_QUEUE_SKIPPED_GAP_SAMPLE_ROWS skipped_gaps\<rparr>)))"

section \<open>Pruning the media store\<close>

record PrunedBlobCache =
  pc_workspace_count :: nat
  pc_workspace_ids :: "string list"
  pc_referenced_blob_count :: nat
  pc_referenced_blob_hashes :: "string list"
  pc_removed_blob_count :: nat
  pc_removed_blob_hashes :: "string list"
  pc_removed_manifest_count :: nat
  pc_removed_manifest_hashes :: "string list"
  pc_removed_chunk_count :: nat
  pc_removed_chunk_hashes :: "string list"
  pc_removed_temp_file_count :: nat
  pc_removed_temp_file_paths :: "string list"

definition pruned_blob_cache_from_parts :: "string list \<Rightarrow> BlobPruneReport \<Rightarrow> PrunedBlobCache" where
  "pruned_blob_cache_from_parts workspace_ids report =
     \<lparr>pc_workspace_count = length workspace_ids, pc_workspace_ids = workspace_ids,
      pc_referenced_blob_count = length (bp_referenced_blob_hashes report),
      pc_referenced_blob_hashes = bp_referenced_blob_hashes report,
      pc_removed_blob_count = length (bp_removed_blob_hashes report),
      pc_removed_blob_hashes = bp_removed_blob_hashes report,
      pc_removed_manifest_count = length (bp_removed_manifest_hashes report),
      pc_removed_manifest_hashes = bp_removed_manifest_hashes report,
      pc_removed_chunk_count = length (bp_removed_chunk_hashes report),
      pc_removed_chunk_hashes = bp_removed_chunk_hashes report,
      pc_removed_temp_file_count = length (bp_removed_temp_file_paths report),
      pc_removed_temp_file_paths = bp_removed_temp_file_paths report\<rparr>"

fun referenced_blobs :: "'c RuntimeEnv \<Rightarrow> LocalRuntime \<Rightarrow> string list \<Rightarrow> RuntimeError + string list" where
  "referenced_blobs E rt [] = Inr []"
| "referenced_blobs E rt (workspace_id # rest) =
     bind_res (materialized_workspace_events E rt (WorkspaceId workspace_id)) (\<lambda>events.
     bind_res (referenced_blobs E rt rest) (\<lambda>hashes. Inr (attachment_blob_hashes events @ hashes)))"

definition prune_unreferenced_blobs :: "'c RuntimeEnv \<Rightarrow> LocalRuntime \<Rightarrow> LocalRuntime \<times> (RuntimeError + PrunedBlobCache)" where
  "prune_unreferenced_blobs E rt =
     (let workspace_ids = list_workspace_ids (rt_store rt) in
      attempt rt (referenced_blobs E rt workspace_ids) (\<lambda>hashes.
      attempt rt (open_blob_store rt) (\<lambda>blobs.
      let (blobs, r) = prune_unreferenced (media_lib E) blobs (set hashes) in
      (rt\<lparr>rt_blobs := blobs\<rparr>, map_err RtMedia (map_sum id (pruned_blob_cache_from_parts workspace_ids) r)))))"

end
