(* ===== verification/Action_Invariant.thy ===== *)
theory Action_Invariant
  imports Write_Correct Compromise Attachments
begin

text \<open>
  Every local action that writes at most one event keeps the invariant of a device, and so do the actions
  that are made of such: whether the action succeeds or fails, the history of the device stays complete.
\<close>

section \<open>Each action keeps the invariant\<close>

lemma update_channel_details_keeps [keeps]:
  "env_laws E \<Longrightarrow> local_ok E rt \<Longrightarrow> local_ok E (fst (update_channel_details E now rt w c name topic))"
  by (auto simp: update_channel_details_def Let_def split: option.split intro!: keeps)

lemma update_channel_archive_keeps [keeps]:
  "env_laws E \<Longrightarrow> local_ok E rt \<Longrightarrow> local_ok E (fst (update_channel_archive E now rt w c archived))"
  by (auto simp: update_channel_archive_def Let_def split: option.split intro!: keeps)

lemma update_device_profile_fields_keeps [keeps]:
  "env_laws E \<Longrightarrow> local_ok E rt \<Longrightarrow> local_ok E (fst (update_device_profile_fields E now rt w name avatar))"
  by (auto simp: update_device_profile_fields_def Let_def split: option.split intro!: keeps)

lemma publish_peer_endpoint_with_replica_capability_keeps [keeps]:
  "env_laws E \<Longrightarrow> local_ok E rt \<Longrightarrow> local_ok E (fst (publish_peer_endpoint_with_replica_capability E now rt request))"
  by (auto simp: publish_peer_endpoint_with_replica_capability_def Let_def split: option.split intro!: keeps)

lemma record_workspace_join_request_with_response_route_keeps [keeps]:
  "env_laws E \<Longrightarrow> local_ok E rt \<Longrightarrow> local_ok E (fst (record_workspace_join_request_with_response_route E now rt w request_id d name note t i n p r))"
  by (auto simp: record_workspace_join_request_with_response_route_def Let_def split: option.split intro!: keeps)

lemma record_workspace_invite_keeps [keeps]:
  "env_laws E \<Longrightarrow> local_ok E rt \<Longrightarrow> local_ok E (fst (record_workspace_invite E now rt w i d name role request_id x p y))"
  by (auto simp: record_workspace_invite_def Let_def split: option.split intro!: keeps)

lemma resolve_workspace_invite_keeps [keeps]:
  "env_laws E \<Longrightarrow> local_ok E rt \<Longrightarrow> local_ok E (fst (resolve_workspace_invite E now rt w i res))"
  by (auto simp: resolve_workspace_invite_def Let_def split: option.split intro!: keeps)

lemma resolve_workspace_join_request_keeps [keeps]:
  "env_laws E \<Longrightarrow> local_ok E rt \<Longrightarrow> local_ok E (fst (resolve_workspace_join_request E now rt w i res))"
  by (auto simp: resolve_workspace_join_request_def Let_def split: option.split intro!: keeps)

lemma update_member_role_keeps [keeps]:
  "env_laws E \<Longrightarrow> local_ok E rt \<Longrightarrow> local_ok E (fst (update_member_role E now rt w d role))"
  by (auto simp: update_member_role_def Let_def split: option.split intro!: keeps)

lemma update_workspace_access_policy_keeps [keeps]:
  "env_laws E \<Longrightarrow> local_ok E rt \<Longrightarrow> local_ok E (fst (update_workspace_access_policy E now rt w policy))"
  by (auto simp: update_workspace_access_policy_def Let_def split: option.split intro!: keeps)

text \<open>Storing attachments changes the media store only, on which a write context does not depend.\<close>

definition only_blobs :: "LocalRuntime \<Rightarrow> LocalRuntime \<Rightarrow> bool" where
  "only_blobs rt rt' \<longleftrightarrow> (\<exists>b. rt' = rt\<lparr>rt_blobs := b\<rparr>)"

lemma only_blobs_refl [simp]: "only_blobs rt rt"
  unfolding only_blobs_def by (rule exI [of _ "rt_blobs rt"]) simp

lemma only_blobs_trans: "only_blobs r s \<Longrightarrow> only_blobs s t \<Longrightarrow> only_blobs r t"
  by (auto simp: only_blobs_def)

lemma attempt_only_blobs: "(\<And>x. r = Inr x \<Longrightarrow> only_blobs rt (fst (k x))) \<Longrightarrow> only_blobs rt (fst (attempt rt r k))"
  by (auto simp: attempt_def split: sum.split)

lemma and_then_only_blobs:
  assumes "only_blobs rt (fst p)" "\<And>s x. p = (s, Inr x) \<Longrightarrow> only_blobs s (fst (k s x))"
  shows "only_blobs rt (fst (and_then p k))"
  using assms by (auto simp: and_then_def split: sum.split prod.split intro: only_blobs_trans)

lemma attachment_only_blobs: "only_blobs rt (fst (seal_and_store_attachment E n rt w c m k i p))"
  unfolding seal_and_store_attachment_def Let_def
  by (intro attempt_only_blobs and_then_only_blobs) (auto simp: put_runtime_blob_def only_blobs_def split: prod.split)

lemma attachments_from_only_blobs: "only_blobs rt (fst (store_attachments_from E nonces rt w c m k i files))"
  by (induction files arbitrary: rt i) (auto intro!: and_then_only_blobs attachment_only_blobs)

lemma attachments_only_blobs: "only_blobs rt (fst (seal_and_store_attachments E nonces rt w c m k files))"
  unfolding seal_and_store_attachments_def by (auto intro!: attempt_only_blobs attachments_from_only_blobs)

lemma only_blobs_keeps:
  assumes "only_blobs rt rt'"
  shows "local_ok E rt' \<longleftrightarrow> local_ok E rt" "workspace_write_context E rt' w = workspace_write_context E rt w"
    "own_log E rt' w = own_log E rt w" "rt_files rt' = rt_files rt" "rt_paths rt' = rt_paths rt"
    "rt_identity rt' = rt_identity rt" "rt_identity_passphrase rt' = rt_identity_passphrase rt" "rt_store rt' = rt_store rt"
  using assms by (auto simp: only_blobs_def workspace_write_context_def)

lemma send_message_with_attachments_keeps [keeps]:
  assumes "env_laws E" "local_ok E rt"
  shows "local_ok E (fst (send_message_with_attachments E now nonce nonces m rt w c text reply files))"
proof -
  have written: "local_ok E (fst (write_event E now rt' w (Some c) ctx body))"
    if "workspace_write_context E rt w = Inr ctx" "seal_and_store_attachments E nonces rt w c m k files = (rt', Inr x)"
    for rt' ctx body k x
  proof -
    have "only_blobs rt rt'" using attachments_only_blobs [of rt E nonces w c m k files] that(2) by simp
    note same = only_blobs_keeps [OF this]
    show ?thesis using that(1) assms(2) by (intro write_event_keeps [OF assms(1)]) (simp_all add: same)
  qed
  have stored: "local_ok E (fst (seal_and_store_attachments E nonces rt w c m k files))" for k
    using assms(2) only_blobs_keeps(1) [OF attachments_only_blobs] by blast
  show ?thesis
    unfolding send_message_with_attachments_def Let_def using assms
    by (auto intro!: attempt_keeps and_then_keeps written stored)
qed

lemma send_message_with_attachment_file_reply_keeps [keeps]:
  "env_laws E \<Longrightarrow> local_ok E rt
    \<Longrightarrow> local_ok E (fst (send_message_with_attachment_file_reply E now nonce nonces m rt w c reply text path media))"
  by (auto simp: send_message_with_attachment_file_reply_def Let_def intro!: keeps)

lemma save_attachment_to_file_keeps [keeps]:
  "local_ok E rt \<Longrightarrow> local_ok E (fst (save_attachment_to_file E rt w m selector path))"
  by (auto simp: save_attachment_to_file_def Let_def intro!: attempt_keeps split: prod.split)

lemma prune_unreferenced_blobs_keeps [keeps]: "local_ok E rt \<Longrightarrow> local_ok E (fst (prune_unreferenced_blobs E rt))"
  by (auto simp: prune_unreferenced_blobs_def Let_def intro!: attempt_keeps split: prod.split)

lemma edit_message_keeps [keeps]:
  "env_laws E \<Longrightarrow> local_ok E rt \<Longrightarrow> local_ok E (fst (edit_message E now nonce rt w m text))"
  by (auto simp: edit_message_def Let_def split: option.split intro!: keeps)

lemma delete_message_keeps [keeps]:
  "env_laws E \<Longrightarrow> local_ok E rt \<Longrightarrow> local_ok E (fst (delete_message E now rt w m))"
  by (auto simp: delete_message_def Let_def split: option.split intro!: keeps)

lemma react_to_message_keeps [keeps]:
  "env_laws E \<Longrightarrow> local_ok E rt \<Longrightarrow> local_ok E (fst (react_to_message body E now rt w m reaction))"
  by (auto simp: react_to_message_def Let_def split: option.split intro!: keeps)

lemma mark_channel_read_keeps [keeps]:
  "env_laws E \<Longrightarrow> local_ok E rt \<Longrightarrow> local_ok E (fst (mark_channel_read E now rt w c))"
  by (auto simp: mark_channel_read_def Let_def split: option.split intro!: keeps)

lemma create_channel_keeps [keeps]:
  assumes "env_laws E" "local_ok E rt"
  shows "local_ok E (fst (create_channel E now salt nonce c g rt w name private))"
proof -
  have files: "\<exists>f. rt' = rt\<lparr>rt_files := f\<rparr>"
    if "(case if private then Some (channel_key_generate g w c) else None of
      Some key \<Rightarrow> save_channel_key (key_lib E) salt nonce rt key | None \<Rightarrow> Inr rt) = Inr rt'" for rt'
    using that by (auto simp: save_channel_key_def dest!: saved_files split: if_splits intro: exI [of _ "rt_files rt"])
  let ?ev = "\<lambda>ctx. local_event now rt w None (wc_head_event_ids ctx) (ChannelCreated c name private)"
  have ap: "local_ok E (fst (append_signed E rt' (sign_event (ident (env_store E)) (rt_identity rt) (?ev ctx))))"
    if "workspace_write_context E rt w = Inr ctx" "\<exists>f. rt' = rt\<lparr>rt_files := f\<rparr>"
      "map_err RtAuthorization (authorize_event_with_history (origin_order E) (wc_events ctx)
        (sign_event (ident (env_store E)) (rt_identity rt) (?ev ctx))) = Inr x" for ctx rt' x
    using that assms authorized_append_keeps [of E rt w ctx "?ev ctx"]
    by (auto simp: local_event_def signable_event_new_def map_err_def split: sum.splits)
  show ?thesis
    unfolding create_channel_def Let_def using assms(2)
    by (intro attempt_keeps and_then_keeps ap files) simp_all
qed

lemma rotate_workspace_key_keeps [keeps]:
  "env_laws E \<Longrightarrow> local_ok E rt \<Longrightarrow> local_ok E (fst (rotate_workspace_key E now salt nonce g rt w))"
  by (auto simp: rotate_workspace_key_def Let_def signable_event_new_def save_workspace_key_def intro!: keeps dest: saved_files)

lemma rotate_channel_key_keeps [keeps]:
  "env_laws E \<Longrightarrow> local_ok E rt \<Longrightarrow> local_ok E (fst (rotate_channel_key E now salt nonce g rt w c))"
  by (auto simp: rotate_channel_key_def Let_def signable_event_new_def save_channel_key_def intro!: keeps dest: saved_files)

lemma rotate_channel_keys_keeps [keeps]:
  "env_laws E \<Longrightarrow> local_ok E rt \<Longrightarrow> local_ok E (fst (rotate_channel_keys E inputs n rt w cs))"
  by (induction cs arbitrary: n rt) (auto simp: Let_def split: prod.split intro!: keeps)

lemma rotate_workspace_manual_keys_keeps [keeps]:
  "env_laws E \<Longrightarrow> local_ok E rt \<Longrightarrow> local_ok E (fst (rotate_workspace_manual_keys E inputs rt w))"
  by (auto simp: rotate_workspace_manual_keys_def Let_def split: prod.split intro!: keeps)

section \<open>Actions on groups and removals\<close>

lemma write_event_saving_keeps [keeps]:
  assumes "env_laws E" "local_ok E rt"
    and "workspace_write_context E rt w = Inr ctx \<or> materialized_workspace_write_context E rt w = Inr ctx"
  shows "local_ok E (fst (write_event_saving E inp rt w c ctx body path kind plain))"
proof -
  let ?ev = "local_event (in_now inp) rt w c (wc_head_event_ids ctx) body"
  have ev: "se_author_device_id ?ev = own_device rt" "se_workspace_id ?ev = w" "se_parents ?ev = wc_head_event_ids ctx"
    by (simp_all add: local_event_def signable_event_new_def)
  show ?thesis
    unfolding write_event_saving_def sign_authorize_save_key_and_append_with_history_def Let_def write_openmls_secret_file_def
    using assms(2) by (auto simp: map_err_def split: sum.splits intro!: attempt_keeps dest!: saved_files
        intro: authorized_append_keeps [OF assms _ ev])
qed

lemma group_file:
  "write_openmls_secret_file E inp rt path kind plain = Inr rt' \<Longrightarrow> \<exists>f. rt' = rt\<lparr>rt_files := f\<rparr>"
  by (simp add: write_openmls_secret_file_def saved_files)

lemma publish_openmls_device_key_package_keeps [keeps]:
  "env_laws E \<Longrightarrow> local_ok E rt \<Longrightarrow> local_ok E (fst (publish_openmls_device_key_package E M inp k rt w))"
  by (auto simp: publish_openmls_device_key_package_def Let_def intro!: keeps)

lemma create_openmls_workspace_group_keeps [keeps]:
  "local_ok E rt \<Longrightarrow> local_ok E (fst (create_openmls_workspace_group E M inp rt w))"
  by (auto simp: create_openmls_workspace_group_def Let_def intro!: attempt_keeps dest!: group_file)

lemma create_openmls_channel_group_keeps [keeps]:
  "local_ok E rt \<Longrightarrow> local_ok E (fst (create_openmls_channel_group E M inp rt w c))"
  by (auto simp: create_openmls_channel_group_def Let_def intro!: attempt_keeps dest!: group_file)

lemma add_openmls_workspace_group_member_keeps [keeps]:
  "env_laws E \<Longrightarrow> local_ok E rt \<Longrightarrow> local_ok E (fst (add_openmls_workspace_group_member E M inp rt w k))"
  by (auto simp: add_openmls_workspace_group_member_def Let_def intro!: keeps)

lemma add_openmls_channel_group_member_keeps [keeps]:
  "env_laws E \<Longrightarrow> local_ok E rt \<Longrightarrow> local_ok E (fst (add_openmls_channel_group_member E M inp rt w c k))"
  by (auto simp: add_openmls_channel_group_member_def Let_def intro!: keeps)

lemma remove_openmls_workspace_group_member_keeps [keeps]:
  "env_laws E \<Longrightarrow> local_ok E rt \<Longrightarrow> local_ok E (fst (remove_openmls_workspace_group_member E M inp rt w d))"
  by (auto simp: remove_openmls_workspace_group_member_def Let_def intro!: keeps)

lemma remove_openmls_channel_group_member_keeps [keeps]:
  "env_laws E \<Longrightarrow> local_ok E rt \<Longrightarrow> local_ok E (fst (remove_openmls_channel_group_member E M inp rt w c d))"
  by (auto simp: remove_openmls_channel_group_member_def Let_def intro!: keeps)

lemma join_openmls_workspace_group_keeps [keeps]:
  "local_ok E rt \<Longrightarrow> local_ok E (fst (join_openmls_workspace_group E M inp rt w source))"
  by (auto simp: join_openmls_workspace_group_def Let_def split: option.split intro!: attempt_keeps dest!: group_file)

lemma join_openmls_channel_group_keeps [keeps]:
  "local_ok E rt \<Longrightarrow> local_ok E (fst (join_openmls_channel_group E M inp rt w c source))"
  by (auto simp: join_openmls_channel_group_def Let_def split: option.split intro!: attempt_keeps dest!: group_file)

lemma update_openmls_workspace_group_keeps [keeps]:
  "env_laws E \<Longrightarrow> local_ok E rt \<Longrightarrow> local_ok E (fst (update_openmls_workspace_group E M inp rt w))"
  by (auto simp: update_openmls_workspace_group_def Let_def intro!: keeps)

lemma update_openmls_channel_group_keeps [keeps]:
  "env_laws E \<Longrightarrow> local_ok E rt \<Longrightarrow> local_ok E (fst (update_openmls_channel_group E M inp rt w c))"
  by (auto simp: update_openmls_channel_group_def Let_def intro!: keeps)

lemma update_channel_groups_keeps [keeps]:
  "env_laws E \<Longrightarrow> local_ok E rt \<Longrightarrow> local_ok E (fst (update_channel_groups E M inputs n rt w cs))"
  by (induction cs arbitrary: n rt) (auto intro!: keeps)

lemma update_workspace_openmls_groups_keeps [keeps]:
  "env_laws E \<Longrightarrow> local_ok E rt \<Longrightarrow> local_ok E (fst (update_workspace_openmls_groups E M inputs rt w))"
  by (auto simp: update_workspace_openmls_groups_def Let_def intro!: keeps)

lemma apply_group_commits_keeps [keeps]:
  "local_ok E rt \<Longrightarrow> local_ok E (fst (apply_group_commits E M inp commit path kind rt w source))"
  by (auto simp: apply_group_commits_def split: option.split intro!: attempt_keeps dest!: group_file)

lemma apply_openmls_workspace_group_commits_keeps [keeps]:
  "local_ok E rt \<Longrightarrow> local_ok E (fst (apply_openmls_workspace_group_commits E M inp rt w source))"
  by (auto simp: apply_openmls_workspace_group_commits_def Let_def intro!: keeps)

lemma apply_openmls_channel_group_commits_keeps [keeps]:
  "local_ok E rt \<Longrightarrow> local_ok E (fst (apply_openmls_channel_group_commits E M inp rt w c source))"
  by (auto simp: apply_openmls_channel_group_commits_def Let_def intro!: keeps)

lemma when_true_keeps [keeps]:
  "local_ok E rt \<Longrightarrow> (\<And>rt. local_ok E rt \<Longrightarrow> local_ok E (fst (action rt))) \<Longrightarrow> local_ok E (fst (when_true b rt action))"
  by (auto simp: when_true_def intro!: and_then_keeps)

lemma remove_member_keeps [keeps]:
  "env_laws E \<Longrightarrow> local_ok E rt \<Longrightarrow> local_ok E (fst (remove_member E now rt w d))"
  by (auto simp: remove_member_def split: option.split intro!: keeps)

lemma remove_member_with_key_rotation_keeps [keeps]:
  "env_laws E \<Longrightarrow> local_ok E rt \<Longrightarrow> local_ok E (fst (remove_member_with_key_rotation E inputs now rt w d))"
  by (auto simp: remove_member_with_key_rotation_def intro!: keeps)

lemma remove_from_channel_groups_keeps [keeps]:
  "env_laws E \<Longrightarrow> local_ok E rt \<Longrightarrow> local_ok E (fst (remove_from_channel_groups E M inputs n rt w d cs))"
  by (induction cs arbitrary: n rt) (auto intro!: keeps)

lemma remove_member_with_openmls_keeps [keeps]:
  "env_laws E \<Longrightarrow> local_ok E rt \<Longrightarrow> local_ok E (fst (remove_member_with_openmls E M ks inputs now rt w d))"
  by (auto simp: remove_member_with_openmls_def Let_def split: option.split intro!: keeps)

lemma remove_channel_member_keeps [keeps]:
  "env_laws E \<Longrightarrow> local_ok E rt \<Longrightarrow> local_ok E (fst (remove_channel_member E now rt w c d))"
  by (auto simp: remove_channel_member_def intro!: keeps)

lemma remove_channel_member_with_key_rotation_keeps [keeps]:
  "env_laws E \<Longrightarrow> local_ok E rt \<Longrightarrow> local_ok E (fst (remove_channel_member_with_key_rotation E t salt nonce g now rt w c d))"
  by (auto simp: remove_channel_member_with_key_rotation_def intro!: keeps)

lemma remove_channel_member_with_openmls_keeps [keeps]:
  "env_laws E \<Longrightarrow> local_ok E rt \<Longrightarrow> local_ok E (fst (remove_channel_member_with_openmls E M t salt nonce g inp now rt w c d))"
  by (auto simp: remove_channel_member_with_openmls_def Let_def intro!: keeps)

section \<open>Responses to a compromise\<close>

lemma no_group_keeps [simp]:
  "fst (case err of RtOpenMlsLocalGroupMissing _ \<Rightarrow> (rt, Inr None) | _ \<Rightarrow> (rt, Inl err)) = rt"
  by (cases err) simp_all

lemma rotate_workspace_for_suspected_compromise_keeps [keeps]:
  assumes "env_laws E" "local_ok E rt"
  shows "local_ok E (fst (rotate_workspace_for_suspected_compromise E M inputs ks rt w))"
proof -
  have "local_ok E (fst (update_workspace_openmls_groups E M inputs rt w))" using assms by (rule keeps)
  then have "local_ok E (fst (case update_workspace_openmls_groups E M inputs rt w of
      (rt, Inr updated) \<Rightarrow> (rt, Inr (Some updated))
    | (rt, Inl err) \<Rightarrow> (case err of RtOpenMlsLocalGroupMissing _ \<Rightarrow> (rt, Inr None) | _ \<Rightarrow> (rt, Inl err))))"
    by (auto split: prod.split sum.split)
  then show ?thesis
    unfolding rotate_workspace_for_suspected_compromise_def Let_def using assms(1)
    by (intro and_then_keeps) (auto intro!: keeps)
qed

lemma recorded_files: "record_compromise_response C t rt w ids rotated = Inr rt' \<Longrightarrow> \<exists>f. rt' = rt\<lparr>rt_files := f\<rparr>"
  by (auto simp: record_compromise_response_def write_compromise_response_ledger_def result_simps)

lemma respond_to_workspace_compromise_report_keeps [keeps]:
  assumes "env_laws E" "local_ok E rt"
  shows "local_ok E (fst (respond_to_workspace_compromise_report E M C inputs ks t rt w report))"
proof -
  obtain rt1 r where rot: "rotate_workspace_for_suspected_compromise E M inputs ks rt w = (rt1, r)" by fastforce
  then have ok: "local_ok E rt1"
    using rotate_workspace_for_suspected_compromise_keeps [OF assms, of M inputs ks w] by simp
  have answered: "local_ok E (fst (attempt rt1 (record_compromise_response C t rt1 w ids rotated) (\<lambda>rt. (rt, Inr (resp :: WorkspaceCompromiseResponse)))))"
    for ids rotated resp using ok by (auto intro!: attempt_keeps dest!: recorded_files)
  show ?thesis
    unfolding respond_to_workspace_compromise_report_def Let_def rot using assms(2)
    by (intro attempt_keeps) (simp_all add: ok answered split: sum.split)
qed

lemma respond_to_workspace_compromise_signals_keeps [keeps]:
  "env_laws E \<Longrightarrow> local_ok E rt \<Longrightarrow> local_ok E (fst (respond_to_workspace_compromise_signals E M C inputs ks t rt w))"
  unfolding respond_to_workspace_compromise_signals_def by (rule keeps)

lemma automatic_compromise_response_if_needed_keeps [keeps]:
  "env_laws E \<Longrightarrow> local_ok E rt \<Longrightarrow> local_ok E (fst (automatic_compromise_response_if_needed E M C inputs ks t rt w))"
  by (auto simp: automatic_compromise_response_if_needed_def Let_def intro!: keeps)

end
