(* ===== verification/Provisioning.thy ===== *)
theory Provisioning
  imports Group_Actions
begin

text \<open>
  Inviting members, opening channels to them and the automatic provisioning of MLS groups that follows, from
  \<^verbatim>\<open>src/runtime/src/lib.rs\<close>, \<^verbatim>\<open>workspace_actions.rs\<close> and \<^verbatim>\<open>openmls_provisioning.rs\<close>: keeping enough key packages
  published, adding members to the group of a workspace, and creating the groups of the private channels
  that the device created and adding their members.  A step of the provisioning that fails is reported
  and does not undo the event it follows.  \<open>inputs\<close> gives the clock and the random numbers of the groups'
  events, \<open>None\<close> for the creation of a group and \<open>Some d\<close> for the addition of a device; \<open>render\<close> is the text of
  an error.
\<close>

section \<open>Key packages\<close>

abbreviation AUTO_OPENMLS_KEY_PACKAGE_SPARE_COUNT :: nat where "AUTO_OPENMLS_KEY_PACKAGE_SPARE_COUNT \<equiv> 4"
abbreviation AUTO_OPENMLS_KEY_PACKAGE_MAX_UNUSED :: nat where "AUTO_OPENMLS_KEY_PACKAGE_MAX_UNUSED \<equiv> 32"
abbreviation DEVICE_KEY_PACKAGE_MAX_LEN :: nat where "DEVICE_KEY_PACKAGE_MAX_LEN \<equiv> 64 * 1024"

definition own_unused_key_package ::
  "DeviceId \<Rightarrow> OpenMlsAutoProvisionIndex \<Rightarrow> SignedEvent \<Rightarrow> bytes option" where
  "own_unused_key_package device_id index event =
     (case ev_body event of
        DeviceKeyPackagePublished key_package_id protocol key_package \<Rightarrow>
          if ev_author event = device_id \<and> protocol = OPENMLS_KEY_PACKAGE_PROTOCOL
            \<and> \<not> key_package_is_used index key_package_id then Some key_package else None
      | _ \<Rightarrow> None)"

definition key_package_is_usable ::
  "'c RuntimeEnv \<Rightarrow> MlsLib \<Rightarrow> LocalRuntime \<Rightarrow> WorkspaceId \<Rightarrow> bytes \<Rightarrow> bool" where
  "key_package_is_usable E M rt workspace_id key_package =
     (case validate_key_package M key_package of
        Inl _ \<Rightarrow> False
      | Inr public \<Rightarrow>
          if val_identity public \<noteq> device_str (own_device rt) then False
          else case read_openmls_secret_file E rt (openmls_key_package_path rt workspace_id (val_key_package_ref public))
              LOCAL_SECRET_KIND_OPENMLS_KEY_PACKAGE of
            Inl _ \<Rightarrow> False
          | Inr private_bundle \<Rightarrow>
              (case validate_private_key_package_bundle M private_bundle of
                 Inl _ \<Rightarrow> False | Inr private \<Rightarrow> private = public))"

definition pending_private_group_count ::
  "DeviceId \<Rightarrow> SignedEvent list \<Rightarrow> WorkspaceState \<Rightarrow> OpenMlsAutoProvisionIndex \<Rightarrow> nat" where
  "pending_private_group_count device_id events state index =
     length (filter (\<lambda>channel. cv_is_private channel
         \<and> channel_accessible_to state (cv_channel_id channel) device_id
         \<and> private_channel_creator_device_id_from_events events (cv_channel_id channel) \<noteq> Some device_id
         \<and> \<not> channel_group_has_device index (cv_channel_id channel) device_id)
       (map snd (sorted_list_of_fmap (ws_channels state))))"

fun publish_key_packages ::
  "'c RuntimeEnv \<Rightarrow> MlsLib \<Rightarrow> (nat \<Rightarrow> GroupInputs \<times> DeviceKeyPackageId) \<Rightarrow> LocalRuntime \<Rightarrow> WorkspaceId \<Rightarrow> nat list
     \<Rightarrow> LocalRuntime \<times> (RuntimeError + PublishedOpenMlsKeyPackage list)" where
  "publish_key_packages E M fresh rt workspace_id [] = (rt, Inr [])"
| "publish_key_packages E M fresh rt workspace_id (n # rest) =
     and_then (publish_openmls_device_key_package E M (fst (fresh n)) (snd (fresh n)) rt workspace_id) (\<lambda>rt published.
     and_then (publish_key_packages E M fresh rt workspace_id rest) (\<lambda>rt more. (rt, Inr (published # more))))"

definition ensure_openmls_device_key_packages ::
  "'c RuntimeEnv \<Rightarrow> MlsLib \<Rightarrow> (nat \<Rightarrow> GroupInputs \<times> DeviceKeyPackageId) \<Rightarrow> LocalRuntime \<Rightarrow> WorkspaceId
     \<Rightarrow> LocalRuntime \<times> (RuntimeError + PublishedOpenMlsKeyPackage list)" where
  "ensure_openmls_device_key_packages E M fresh rt workspace_id =
     attempt rt (materialized_workspace_events E rt workspace_id) (\<lambda>events.
     attempt rt (rematerialize E workspace_id events) (\<lambda>state.
     if fmlookup (ws_members state) (own_device rt) = None then (rt, Inr [])
     else let index = provision_index_from_events events;
         desired_unused = min (AUTO_OPENMLS_KEY_PACKAGE_SPARE_COUNT
             + pending_private_group_count (own_device rt) events state index) AUTO_OPENMLS_KEY_PACKAGE_MAX_UNUSED;
         usable_unused = length (filter (key_package_is_usable E M rt workspace_id)
             (List.map_filter (own_unused_key_package (own_device rt) index) events))
       in publish_key_packages E M fresh rt workspace_id [usable_unused..<desired_unused]))"

record PublishedDeviceKeyPackage =
  pd_workspace_id :: string
  pd_device_id :: string
  pd_key_package_id :: string
  pd_protocol :: string
  pd_byte_len :: nat
  pd_event_id :: string

definition publish_device_key_package ::
  "'c RuntimeEnv \<Rightarrow> MlsLib \<Rightarrow> HybridTimestamp \<Rightarrow> DeviceKeyPackageId \<Rightarrow> LocalRuntime \<Rightarrow> WorkspaceId \<Rightarrow> string \<Rightarrow> bytes
     \<Rightarrow> LocalRuntime \<times> (RuntimeError + PublishedDeviceKeyPackage)" where
  "publish_device_key_package E M now key_package_id rt workspace_id protocol key_package =
     (let protocol = trim protocol in
      if protocol = [] then (rt, Inl RtDeviceKeyPackageProtocolRequired)
      else attempt rt (validate_metadata_field_size ''device key package protocol'' protocol
          DEVICE_KEY_PACKAGE_PROTOCOL_MAX_BYTES) (\<lambda>_.
      if key_package = [] then (rt, Inl RtDeviceKeyPackageRequired)
      else if length key_package > DEVICE_KEY_PACKAGE_MAX_LEN then (rt, Inl RtDeviceKeyPackageTooLarge)
      else attempt rt (if protocol = OPENMLS_KEY_PACKAGE_PROTOCOL
          then map_sum id (\<lambda>_. ()) (validate_openmls_key_package_for_publisher M (own_device rt) key_package)
          else Inr ()) (\<lambda>_.
      attempt rt (workspace_write_context E rt workspace_id) (\<lambda>context.
      and_then (write_event E now rt workspace_id None context
          (DeviceKeyPackagePublished key_package_id protocol key_package)) (\<lambda>rt event.
        (rt, Inr \<lparr>pd_workspace_id = workspace_str workspace_id, pd_device_id = device_str (own_device rt),
           pd_key_package_id = key_package_str key_package_id, pd_protocol = protocol,
           pd_byte_len = (case ev_body event of DeviceKeyPackagePublished _ _ key_package \<Rightarrow> length key_package | _ \<Rightarrow> 0),
           pd_event_id = event_str (sg_event_id event)\<rparr>))))))"

section \<open>The group of the workspace\<close>

definition auto_add_openmls_workspace_member_if_ready_with_index ::
  "'c RuntimeEnv \<Rightarrow> MlsLib \<Rightarrow> GroupInputs \<Rightarrow> LocalRuntime \<Rightarrow> WorkspaceId \<Rightarrow> DeviceId \<Rightarrow> OpenMlsAutoProvisionIndex
     \<Rightarrow> LocalRuntime \<times> OpenMlsAutoProvisionIndex \<times> AddedOpenMlsWorkspaceGroupMember option" where
  "auto_add_openmls_workspace_member_if_ready_with_index E M inp rt workspace_id device_id index =
     (if device_id = own_device rt then (rt, index, None)
      else if workspace_device_is_revoked index device_id then (rt, index, None)
      else case local_openmls_workspace_group_id E M rt workspace_id of
        Inr (Some local_group_id) \<Rightarrow>
          if workspace_group_has_device_in_group index local_group_id device_id then (rt, index, None)
          else (case latest_unused_key_package_id_for_device index device_id of
              None \<Rightarrow> (rt, index, None)
            | Some key_package_id \<Rightarrow>
                (case add_openmls_workspace_group_member E M inp rt workspace_id key_package_id of
                   (rt, Inl _) \<Rightarrow> (rt, index, None)
                 | (rt, Inr added) \<Rightarrow>
                     (rt, mark_workspace_group_member_added (ag_group_id added) (ag_invitee_device_id added)
                        (ag_invitee_key_package_id added) index, Some added)))
      | _ \<Rightarrow> (rt, index, None))"

definition auto_add_openmls_workspace_member_if_ready ::
  "'c RuntimeEnv \<Rightarrow> MlsLib \<Rightarrow> GroupInputs \<Rightarrow> LocalRuntime \<Rightarrow> WorkspaceId \<Rightarrow> DeviceId
     \<Rightarrow> LocalRuntime \<times> AddedOpenMlsWorkspaceGroupMember option" where
  "auto_add_openmls_workspace_member_if_ready E M inp rt workspace_id device_id =
     (case materialized_workspace_events E rt workspace_id of
        Inl _ \<Rightarrow> (rt, None)
      | Inr events \<Rightarrow>
          (case auto_add_openmls_workspace_member_if_ready_with_index E M inp rt workspace_id device_id
              (provision_index_from_events events) of (rt, _, added) \<Rightarrow> (rt, added)))"

fun auto_add_members ::
  "'c RuntimeEnv \<Rightarrow> MlsLib \<Rightarrow> (DeviceId \<Rightarrow> GroupInputs) \<Rightarrow> LocalRuntime \<Rightarrow> WorkspaceId \<Rightarrow> OpenMlsAutoProvisionIndex
     \<Rightarrow> DeviceId list \<Rightarrow> LocalRuntime \<times> string list" where
  "auto_add_members E M inputs rt workspace_id index [] = (rt, [])"
| "auto_add_members E M inputs rt workspace_id index (device_id # rest) =
     (case auto_add_openmls_workspace_member_if_ready_with_index E M (inputs device_id) rt workspace_id device_id index of
        (rt, index, added) \<Rightarrow>
          (case auto_add_members E M inputs rt workspace_id index rest of
             (rt, event_ids) \<Rightarrow> (rt, case added of Some a \<Rightarrow> ag_event_id a # event_ids | None \<Rightarrow> event_ids)))"

definition auto_provision_openmls_workspace_members ::
  "'c RuntimeEnv \<Rightarrow> MlsLib \<Rightarrow> (DeviceId \<Rightarrow> GroupInputs) \<Rightarrow> LocalRuntime \<Rightarrow> WorkspaceId \<Rightarrow> LocalRuntime \<times> string list" where
  "auto_provision_openmls_workspace_members E M inputs rt workspace_id =
     (if \<not> contains_key (rt_files rt) (openmls_workspace_group_path rt workspace_id) then (rt, [])
      else case materialized_workspace_events E rt workspace_id of
        Inl _ \<Rightarrow> (rt, [])
      | Inr events \<Rightarrow>
          (case rematerialize E workspace_id events of
             Inl _ \<Rightarrow> (rt, [])
           | Inr state \<Rightarrow>
               if fmlookup (ws_members state) (own_device rt) = None then (rt, [])
               else if workspace_creator_device_id_from_events events \<noteq> Some (own_device rt) then (rt, [])
               else auto_add_members E M inputs rt workspace_id (provision_index_from_events events)
                 (map fst (sorted_list_of_fmap (ws_members state)))))"

section \<open>The groups of private channels\<close>

record ChannelAccessProvisioningOutcome =
  co_channel_id :: string
  co_member_device_id :: string
  co_provisioning_state :: ChannelAccessProvisioningState
  co_event_id :: "string option"
  co_openmls_epoch :: "u64 option"
  co_openmls_member_count :: "nat option"
  co_provisioning_error :: "string option"

text \<open>An outcome without an event.\<close>

definition plain_outcome ::
  "ChannelId \<Rightarrow> DeviceId \<Rightarrow> ChannelAccessProvisioningState \<Rightarrow> string option \<Rightarrow> ChannelAccessProvisioningOutcome" where
  "plain_outcome channel_id device_id state err =
     \<lparr>co_channel_id = channel_str channel_id, co_member_device_id = device_str device_id, co_provisioning_state = state,
      co_event_id = None, co_openmls_epoch = None, co_openmls_member_count = None, co_provisioning_error = err\<rparr>"

record ProvisionedOpenMlsChannelMembers =
  pm_channel_id :: string
  pm_event_ids :: "string list"
  pm_outcomes :: "ChannelAccessProvisioningOutcome list"

definition openmls_channel_member_provisioning_outcome_with_index ::
  "'c RuntimeEnv \<Rightarrow> MlsLib \<Rightarrow> (RuntimeError \<Rightarrow> string) \<Rightarrow> GroupInputs \<Rightarrow> LocalRuntime \<Rightarrow> WorkspaceId \<Rightarrow> ChannelId \<Rightarrow> DeviceId
     \<Rightarrow> OpenMlsAutoProvisionIndex \<Rightarrow> LocalRuntime \<times> OpenMlsAutoProvisionIndex \<times> ChannelAccessProvisioningOutcome" where
  "openmls_channel_member_provisioning_outcome_with_index E M render inp rt workspace_id channel_id device_id index =
     (let outcome = plain_outcome channel_id device_id in
      if device_id = own_device rt then (rt, index, outcome ProvReady None)
      else if channel_device_is_revoked index channel_id device_id then (rt, index, outcome RevocationPending None)
      else case local_openmls_channel_group_id E M rt workspace_id channel_id of
        Inl err \<Rightarrow> (rt, index, outcome ProvFailed (Some (render err)))
      | Inr None \<Rightarrow> (rt, index, outcome GroupPending None)
      | Inr (Some local_group_id) \<Rightarrow>
          if channel_group_has_device_in_group index channel_id local_group_id device_id
          then (rt, index, outcome ProvReady None)
          else if \<not> contains_key (rt_files rt) (openmls_channel_group_path rt workspace_id channel_id)
          then (rt, index, outcome GroupPending None)
          else (case latest_unused_key_package_id_for_device index device_id of
              None \<Rightarrow> (rt, index, outcome KeyPackagePending None)
            | Some key_package_id \<Rightarrow>
                (case add_openmls_channel_group_member E M inp rt workspace_id channel_id key_package_id of
                   (rt, Inl err) \<Rightarrow> (rt, index, outcome ProvFailed (Some (render err)))
                 | (rt, Inr added) \<Rightarrow>
                     (rt, mark_channel_group_member_added (ag_channel_id added) (ag_group_id added)
                        (ag_invitee_device_id added) (ag_invitee_key_package_id added) index,
                      (outcome MlsWelcomePublished None)\<lparr>co_event_id := Some (ag_event_id added),
                        co_openmls_epoch := Some (ag_epoch added), co_openmls_member_count := Some (ag_member_count added)\<rparr>))))"

fun channel_member_outcomes ::
  "'c RuntimeEnv \<Rightarrow> MlsLib \<Rightarrow> (RuntimeError \<Rightarrow> string) \<Rightarrow> (DeviceId \<Rightarrow> GroupInputs) \<Rightarrow> LocalRuntime \<Rightarrow> WorkspaceId \<Rightarrow> ChannelId
     \<Rightarrow> OpenMlsAutoProvisionIndex \<Rightarrow> DeviceId list
     \<Rightarrow> LocalRuntime \<times> OpenMlsAutoProvisionIndex \<times> ChannelAccessProvisioningOutcome list" where
  "channel_member_outcomes E M render inputs rt workspace_id channel_id index [] = (rt, index, [])"
| "channel_member_outcomes E M render inputs rt workspace_id channel_id index (device_id # rest) =
     (case openmls_channel_member_provisioning_outcome_with_index E M render (inputs device_id) rt workspace_id
         channel_id device_id index of
        (rt, index, outcome) \<Rightarrow>
          (case channel_member_outcomes E M render inputs rt workspace_id channel_id index rest of
             (rt, index, outcomes) \<Rightarrow> (rt, index, outcome # outcomes)))"

text \<open>
  The body of the loop over the channels: whether it created the group of the channel, and what it reports,
  if anything.
\<close>

definition provision_channel ::
  "'c RuntimeEnv \<Rightarrow> MlsLib \<Rightarrow> (RuntimeError \<Rightarrow> string) \<Rightarrow> (DeviceId option \<Rightarrow> GroupInputs) \<Rightarrow> SignedEvent list \<Rightarrow> LocalRuntime
     \<Rightarrow> WorkspaceId \<Rightarrow> OpenMlsAutoProvisionIndex \<Rightarrow> ChannelId
     \<Rightarrow> LocalRuntime \<times> OpenMlsAutoProvisionIndex \<times> (RuntimeError + bool \<times> ProvisionedOpenMlsChannelMembers option)" where
  "provision_channel E M render inputs events rt workspace_id index channel_id =
     (let device_ids = filter (\<lambda>device_id. device_id \<noteq> own_device rt)
            (map DeviceId (sorted_list_of_set (current_private_channel_member_ids_from_events events channel_id)));
          has_group = contains_key (rt_files rt) (openmls_channel_group_path rt workspace_id channel_id);
          report = (\<lambda>event_ids outcomes. Some \<lparr>pm_channel_id = channel_str channel_id, pm_event_ids = event_ids,
            pm_outcomes = outcomes\<rparr>);
          provision = (\<lambda>rt created.
            case channel_member_outcomes E M render (\<lambda>d. inputs (Some d)) rt workspace_id channel_id index device_ids of
              (rt, index, outcomes) \<Rightarrow> (rt, index, Inr (created, report (List.map_filter co_event_id outcomes) outcomes)))
      in
      if device_ids = [] then
        if \<not> has_group \<and> \<not> channel_group_has_events index channel_id then
          (case create_openmls_channel_group E M (inputs None) rt workspace_id channel_id of
             (rt, Inl err) \<Rightarrow> (rt, index, Inl err)
           | (rt, Inr _) \<Rightarrow> (rt, index, Inr (True, None)))
        else (rt, index, Inr (False, None))
      else if has_group then provision rt False
      else if channel_group_has_events index channel_id then
        (rt, index, Inr (False, report [] (map (\<lambda>d. plain_outcome channel_id d ProvFailed
            (Some ''local private-room MLS state is missing'')) device_ids)))
      else let missing_package_device_ids =
          filter (\<lambda>d. latest_unused_key_package_id_for_device index d = None) device_ids in
        if missing_package_device_ids \<noteq> [] then
          (rt, index, Inr (False, report [] (map (\<lambda>d. plain_outcome channel_id d KeyPackagePending None)
             missing_package_device_ids)))
        else case create_openmls_channel_group E M (inputs None) rt workspace_id channel_id of
            (rt, Inl err) \<Rightarrow> (rt, index, Inr (False, report [] (map (\<lambda>d. plain_outcome channel_id d ProvFailed
               (Some (render err))) device_ids)))
          | (rt, Inr _) \<Rightarrow> provision rt True)"

fun provision_channels ::
  "'c RuntimeEnv \<Rightarrow> MlsLib \<Rightarrow> (RuntimeError \<Rightarrow> string) \<Rightarrow> (ChannelId \<Rightarrow> DeviceId option \<Rightarrow> GroupInputs) \<Rightarrow> SignedEvent list
     \<Rightarrow> LocalRuntime \<Rightarrow> WorkspaceId \<Rightarrow> OpenMlsAutoProvisionIndex \<Rightarrow> ChannelId list
     \<Rightarrow> LocalRuntime \<times> (RuntimeError + string list \<times> ProvisionedOpenMlsChannelMembers list)" where
  "provision_channels E M render inputs events rt workspace_id index [] = (rt, Inr ([], []))"
| "provision_channels E M render inputs events rt workspace_id index (channel_id # rest) =
     (case provision_channel E M render (inputs channel_id) events rt workspace_id index channel_id of
        (rt, index, Inl err) \<Rightarrow> (rt, Inl err)
      | (rt, index, Inr (created, provisioned)) \<Rightarrow>
          and_then (provision_channels E M render inputs events rt workspace_id index rest) (\<lambda>rt (ids, more).
            (rt, Inr (if created then channel_str channel_id # ids else ids,
               case provisioned of Some p \<Rightarrow> p # more | None \<Rightarrow> more))))"

definition auto_provision_openmls_channel_members ::
  "'c RuntimeEnv \<Rightarrow> MlsLib \<Rightarrow> (RuntimeError \<Rightarrow> string) \<Rightarrow> (ChannelId \<Rightarrow> DeviceId option \<Rightarrow> GroupInputs) \<Rightarrow> LocalRuntime
     \<Rightarrow> WorkspaceId \<Rightarrow> SignedEvent list
     \<Rightarrow> LocalRuntime \<times> (RuntimeError + string list \<times> ProvisionedOpenMlsChannelMembers list)" where
  "auto_provision_openmls_channel_members E M render inputs rt workspace_id events =
     attempt rt (rematerialize E workspace_id events) (\<lambda>state.
       provision_channels E M render inputs events rt workspace_id (provision_index_from_events events)
         (sort (filter (\<lambda>channel_id.
             private_channel_creator_device_id_from_events events channel_id = Some (own_device rt)
             \<and> channel_accessible_to state channel_id (own_device rt))
           (map cv_channel_id (filter cv_is_private (map snd (sorted_list_of_fmap (ws_channels state))))))))"

definition reconcile_channel_provisioning_outcome ::
  "'c RuntimeEnv \<Rightarrow> MlsLib \<Rightarrow> (RuntimeError \<Rightarrow> string) \<Rightarrow> (ChannelId \<Rightarrow> DeviceId option \<Rightarrow> GroupInputs) \<Rightarrow> LocalRuntime
     \<Rightarrow> WorkspaceId \<Rightarrow> ChannelId \<Rightarrow> DeviceId \<Rightarrow> LocalRuntime \<times> ChannelAccessProvisioningOutcome" where
  "reconcile_channel_provisioning_outcome E M render inputs rt workspace_id channel_id member_device_id =
     (let outcome = plain_outcome channel_id member_device_id in
      if member_device_id = own_device rt then (rt, outcome ProvReady None)
      else case attempt rt (materialized_workspace_events E rt workspace_id) (\<lambda>events.
          auto_provision_openmls_channel_members E M render inputs rt workspace_id events) of
        (rt, Inr (_, provisioned)) \<Rightarrow>
          (rt, case find (\<lambda>out. co_channel_id out = channel_str channel_id
                 \<and> co_member_device_id out = device_str member_device_id) (concat (map pm_outcomes provisioned)) of
             Some found \<Rightarrow> found | None \<Rightarrow> outcome GroupPending None)
      | (rt, Inl err) \<Rightarrow> (rt, outcome ProvFailed (Some (render err))))"

section \<open>Inviting members and opening channels\<close>

record InvitedMember =
  im_workspace_id :: string
  im_invitee_device_id :: string
  im_role :: WorkspaceRole
  im_event_id :: string
  im_openmls_member_add_event_id :: "string option"
  im_openmls_epoch :: "u64 option"
  im_openmls_member_count :: "nat option"

definition invite_member ::
  "'c RuntimeEnv \<Rightarrow> MlsLib \<Rightarrow> HybridTimestamp \<Rightarrow> GroupInputs \<Rightarrow> LocalRuntime \<Rightarrow> WorkspaceId \<Rightarrow> DeviceId \<Rightarrow> WorkspaceRole
     \<Rightarrow> LocalRuntime \<times> (RuntimeError + InvitedMember)" where
  "invite_member E M now inp rt workspace_id invitee_device_id role =
     attempt rt (validate_device_id_reference invitee_device_id) (\<lambda>_.
     attempt rt (workspace_write_context E rt workspace_id) (\<lambda>context.
     and_then (write_event E now rt workspace_id None context (MemberInvited invitee_device_id role)) (\<lambda>rt invite.
       case auto_add_openmls_workspace_member_if_ready E M inp rt workspace_id invitee_device_id of
         (rt, openmls) \<Rightarrow>
           (rt, Inr \<lparr>im_workspace_id = workspace_str workspace_id, im_invitee_device_id = device_str invitee_device_id,
              im_role = role, im_event_id = event_str (sg_event_id invite),
              im_openmls_member_add_event_id = map_option ag_event_id openmls,
              im_openmls_epoch = map_option ag_epoch openmls,
              im_openmls_member_count = map_option ag_member_count openmls\<rparr>))))"

record AddedChannelMember =
  am_workspace_id :: string
  am_channel_id :: string
  am_member_device_id :: string
  am_event_id :: string
  am_openmls_member_add_event_id :: "string option"
  am_openmls_epoch :: "u64 option"
  am_openmls_member_count :: "nat option"
  am_provisioning_state :: ChannelAccessProvisioningState
  am_provisioning_error :: "string option"

definition add_channel_member ::
  "'c RuntimeEnv \<Rightarrow> MlsLib \<Rightarrow> (RuntimeError \<Rightarrow> string) \<Rightarrow> (ChannelId \<Rightarrow> DeviceId option \<Rightarrow> GroupInputs) \<Rightarrow> HybridTimestamp
     \<Rightarrow> LocalRuntime \<Rightarrow> WorkspaceId \<Rightarrow> ChannelId \<Rightarrow> DeviceId \<Rightarrow> LocalRuntime \<times> (RuntimeError + AddedChannelMember)" where
  "add_channel_member E M render inputs now rt workspace_id channel_id member_device_id =
     attempt rt (validate_device_id_reference member_device_id) (\<lambda>_.
     attempt rt (workspace_write_context E rt workspace_id) (\<lambda>context.
     and_then (write_event E now rt workspace_id None context (ChannelMemberAdded channel_id member_device_id)) (\<lambda>rt grant.
       case reconcile_channel_provisioning_outcome E M render inputs rt workspace_id channel_id member_device_id of
         (rt, provisioning) \<Rightarrow>
           (rt, Inr \<lparr>am_workspace_id = workspace_str workspace_id, am_channel_id = channel_str channel_id,
              am_member_device_id = device_str member_device_id, am_event_id = event_str (sg_event_id grant),
              am_openmls_member_add_event_id = co_event_id provisioning, am_openmls_epoch = co_openmls_epoch provisioning,
              am_openmls_member_count = co_openmls_member_count provisioning,
              am_provisioning_state = co_provisioning_state provisioning,
              am_provisioning_error = co_provisioning_error provisioning\<rparr>))))"

abbreviation PERSONAL_CHANNEL_NAME :: string where "PERSONAL_CHANNEL_NAME \<equiv> ''dm-you''"

text \<open>The signed event of a private channel, and its key saved before it is stored.\<close>

definition write_keyed_channel ::
  "'c RuntimeEnv \<Rightarrow> HybridTimestamp \<Rightarrow> bytes \<Rightarrow> bytes \<Rightarrow> ContentKey \<Rightarrow> LocalRuntime \<Rightarrow> WorkspaceId \<Rightarrow> WorkspaceWriteContext
     \<Rightarrow> ChannelId \<Rightarrow> EventBody \<Rightarrow> LocalRuntime \<times> (RuntimeError + SignedEvent)" where
  "write_keyed_channel E now salt nonce generated rt workspace_id context channel_id body =
     (let channel_key = channel_key_generate generated workspace_id channel_id;
          channel = sign_event (ident (env_store E)) (rt_identity rt)
            (local_event now rt workspace_id None (wc_head_event_ids context) body)
      in attempt rt (map_err RtAuthorization
            (authorize_event_with_history (origin_order E) (wc_events context) channel)) (\<lambda>_.
         attempt rt (save_channel_key (key_lib E) salt nonce rt channel_key) (\<lambda>rt. append_signed E rt channel)))"

definition existing_personal_channel :: "DeviceId \<Rightarrow> WorkspaceId \<Rightarrow> SignedEvent \<Rightarrow> CreatedChannel option" where
  "existing_personal_channel device_id workspace_id event =
     (if ev_author event \<noteq> device_id then None
      else case ev_body event of
        ChannelCreated channel_id name is_private \<Rightarrow>
          if is_private \<and> name = PERSONAL_CHANNEL_NAME
          then Some \<lparr>cc_workspace_id = workspace_str workspace_id, cc_channel_id = channel_str channel_id,
            cc_event_id = event_str (sg_event_id event), cc_provisioning_state = ProvReady, cc_provisioning_error = None\<rparr>
          else None
      | _ \<Rightarrow> None)"

definition create_direct_message_channel ::
  "'c RuntimeEnv \<Rightarrow> MlsLib \<Rightarrow> (RuntimeError \<Rightarrow> string) \<Rightarrow> (ChannelId \<Rightarrow> DeviceId option \<Rightarrow> GroupInputs) \<Rightarrow> HybridTimestamp
     \<Rightarrow> bytes \<Rightarrow> bytes \<Rightarrow> ChannelId \<Rightarrow> ContentKey \<Rightarrow> LocalRuntime \<Rightarrow> WorkspaceId \<Rightarrow> string \<Rightarrow> DeviceId
     \<Rightarrow> LocalRuntime \<times> (RuntimeError + CreatedChannel)" where
  "create_direct_message_channel E M render inputs now salt nonce channel_id generated rt workspace_id name
       participant_device_id =
     attempt rt (validate_metadata_field_size ''direct message name'' name CHANNEL_NAME_MAX_BYTES) (\<lambda>_.
     attempt rt (validate_device_id_reference participant_device_id) (\<lambda>_.
     attempt rt (workspace_write_context E rt workspace_id) (\<lambda>context.
     if participant_device_id = own_device rt then
       (case find_map (existing_personal_channel (own_device rt) workspace_id) (wc_events context) of
          Some existing \<Rightarrow> (rt, Inr existing)
        | None \<Rightarrow>
            and_then (write_keyed_channel E now salt nonce generated rt workspace_id context channel_id
                (ChannelCreated channel_id PERSONAL_CHANNEL_NAME True)) (\<lambda>rt channel.
              (rt, Inr \<lparr>cc_workspace_id = workspace_str workspace_id, cc_channel_id = channel_str channel_id,
                 cc_event_id = event_str (sg_event_id channel), cc_provisioning_state = ProvReady,
                 cc_provisioning_error = None\<rparr>)))
     else and_then (write_keyed_channel E now salt nonce generated rt workspace_id context channel_id
         (DirectMessageChannelCreated channel_id name
           (remdups_adj (sort [own_device rt, participant_device_id])))) (\<lambda>rt channel.
       case reconcile_channel_provisioning_outcome E M render inputs rt workspace_id channel_id participant_device_id of
         (rt, provisioning) \<Rightarrow>
           (rt, Inr \<lparr>cc_workspace_id = workspace_str workspace_id, cc_channel_id = channel_str channel_id,
              cc_event_id = event_str (sg_event_id channel),
              cc_provisioning_state = co_provisioning_state provisioning,
              cc_provisioning_error = co_provisioning_error provisioning\<rparr>)))))"

end
