(* ===== verification/Provisioning_Correct.thy ===== *)
theory Provisioning_Correct
  imports Action_Invariant Provisioning
begin

text \<open>
  Inviting members, opening channels and provisioning groups keep the invariant of a device, also when a step
  of the provisioning fails, and how many key packages the device publishes.
\<close>

section \<open>Key packages\<close>

lemma published_packages: "publish_key_packages E M fresh rt w ns = (rt', Inr ps) \<Longrightarrow> length ps = length ns"
  by (induction ns arbitrary: rt rt' ps) (auto simp: result_simps)

text \<open>
  The device publishes what is missing to four unused packages and one for every private channel that it waits
  to be added to, but never so many that more than 32 unused ones are around.
\<close>

lemma ensured_packages:
  assumes "ensure_openmls_device_key_packages E M fresh rt w = (rt', Inr ps)" "ps \<noteq> []"
    "materialized_workspace_events E rt w = Inr events"
  shows "length ps + length (filter (key_package_is_usable E M rt w)
      (List.map_filter (own_unused_key_package (own_device rt) (provision_index_from_events events)) events)) \<le> 32"
proof -
  let ?usable = "length (filter (key_package_is_usable E M rt w)
      (List.map_filter (own_unused_key_package (own_device rt) (provision_index_from_events events)) events))"
  have "\<exists>n. length ps = min n 32 - ?usable"
    using assms by (auto simp: ensure_openmls_device_key_packages_def Let_def result_simps split: if_splits dest!: published_packages)
  then show ?thesis using assms(2) by (cases ps) (auto simp: min_def split: if_splits)
qed

lemma publish_key_packages_keeps [keeps]:
  assumes "env_laws E"
  shows "local_ok E rt \<Longrightarrow> local_ok E (fst (publish_key_packages E M fresh rt w ns))"
proof (induction ns arbitrary: rt)
  case (Cons n ns)
  show ?case unfolding publish_key_packages.simps
  proof (rule and_then_keeps)
    show "local_ok E (fst (publish_openmls_device_key_package E M (fst (fresh n)) (snd (fresh n)) rt w))"
      using assms Cons.prems by (rule publish_openmls_device_key_package_keeps)
    show "local_ok E (fst (and_then (publish_key_packages E M fresh rt' w ns) (\<lambda>rt more. (rt, Inr (published # more)))))"
      if "local_ok E rt'" for rt' published
      using Cons.IH [OF that] by (auto intro!: and_then_keeps)
  qed
qed simp

lemma ensure_openmls_device_key_packages_keeps [keeps]:
  "env_laws E \<Longrightarrow> local_ok E rt \<Longrightarrow> local_ok E (fst (ensure_openmls_device_key_packages E M fresh rt w))"
  by (auto simp: ensure_openmls_device_key_packages_def Let_def intro!: keeps)

lemma publish_device_key_package_keeps [keeps]:
  "env_laws E \<Longrightarrow> local_ok E rt \<Longrightarrow> local_ok E (fst (publish_device_key_package E M now k rt w protocol package))"
  by (auto simp: publish_device_key_package_def Let_def intro!: keeps)

section \<open>Groups\<close>

lemma auto_add_with_index_keeps [keeps]:
  assumes "env_laws E" "local_ok E rt"
  shows "local_ok E (fst (auto_add_openmls_workspace_member_if_ready_with_index E M inp rt w d index))"
proof -
  have "local_ok E (fst (add_openmls_workspace_group_member E M inp rt w k))" for k using assms by (rule keeps)
  then show ?thesis using assms(2)
    by (auto simp: auto_add_openmls_workspace_member_if_ready_with_index_def case_prod_beta split: sum.split option.split)
qed

lemma auto_add_keeps [keeps]:
  assumes "env_laws E" "local_ok E rt"
  shows "local_ok E (fst (auto_add_openmls_workspace_member_if_ready E M inp rt w d))"
  using auto_add_with_index_keeps [OF assms] assms(2)
  by (simp add: auto_add_openmls_workspace_member_if_ready_def case_prod_beta split: sum.split)

lemma auto_add_members_keeps [keeps]:
  "env_laws E \<Longrightarrow> local_ok E rt \<Longrightarrow> local_ok E (fst (auto_add_members E M inputs rt w index ds))"
proof (induction ds arbitrary: rt index)
  case (Cons d ds)
  then show ?case using auto_add_with_index_keeps [OF Cons.prems] by (simp add: case_prod_beta)
qed simp

lemma auto_provision_openmls_workspace_members_keeps [keeps]:
  "env_laws E \<Longrightarrow> local_ok E rt \<Longrightarrow> local_ok E (fst (auto_provision_openmls_workspace_members E M inputs rt w))"
  by (auto simp: auto_provision_openmls_workspace_members_def split: sum.split intro: keeps)

lemma channel_member_outcome_keeps [keeps]:
  assumes "env_laws E" "local_ok E rt"
  shows "local_ok E (fst (openmls_channel_member_provisioning_outcome_with_index E M render inp rt w c d index))"
proof -
  have "local_ok E (fst (add_openmls_channel_group_member E M inp rt w c k))" for k using assms by (rule keeps)
  then show ?thesis using assms(2)
    by (auto simp: openmls_channel_member_provisioning_outcome_with_index_def Let_def case_prod_beta split: sum.split option.split)
qed

lemma channel_member_outcomes_keeps [keeps]:
  "env_laws E \<Longrightarrow> local_ok E rt \<Longrightarrow> local_ok E (fst (channel_member_outcomes E M render inputs rt w c index ds))"
proof (induction ds arbitrary: rt index)
  case (Cons d ds)
  then show ?case using channel_member_outcome_keeps [OF Cons.prems] by (simp add: case_prod_beta)
qed simp

lemma provision_channel_keeps [keeps]:
  assumes "env_laws E" "local_ok E rt"
  shows "local_ok E (fst (provision_channel E M render inputs events rt w index c))"
proof -
  have "local_ok E (fst (create_openmls_channel_group E M inp rt w c))" for inp using assms(2) by (rule keeps)
  then show ?thesis using assms
    by (simp add: provision_channel_def Let_def case_prod_beta channel_member_outcomes_keeps split: sum.split)
qed

lemma provision_channels_keeps [keeps]:
  "env_laws E \<Longrightarrow> local_ok E rt \<Longrightarrow> local_ok E (fst (provision_channels E M render inputs events rt w index cs))"
proof (induction cs arbitrary: rt index)
  case (Cons c cs)
  then show ?case using provision_channel_keeps [OF Cons.prems]
    by (auto simp: case_prod_beta split: sum.split intro!: and_then_keeps)
qed simp

lemma auto_provision_openmls_channel_members_keeps [keeps]:
  "env_laws E \<Longrightarrow> local_ok E rt \<Longrightarrow> local_ok E (fst (auto_provision_openmls_channel_members E M render inputs rt w events))"
  by (auto simp: auto_provision_openmls_channel_members_def intro!: keeps)

lemma reconcile_channel_provisioning_outcome_keeps [keeps]:
  assumes "env_laws E" "local_ok E rt"
  shows "local_ok E (fst (reconcile_channel_provisioning_outcome E M render inputs rt w c d))"
proof -
  have "local_ok E (fst (attempt rt (materialized_workspace_events E rt w) (\<lambda>events.
      auto_provision_openmls_channel_members E M render inputs rt w events)))"
    using assms by (auto intro!: keeps)
  then show ?thesis using assms(2)
    by (auto simp: reconcile_channel_provisioning_outcome_def Let_def case_prod_beta split: sum.split)
qed

section \<open>Members and channels\<close>

lemma invite_member_keeps [keeps]:
  "env_laws E \<Longrightarrow> local_ok E rt \<Longrightarrow> local_ok E (fst (invite_member E M now inp rt w d role))"
  by (auto simp: invite_member_def case_prod_beta intro!: keeps)

lemma add_channel_member_keeps [keeps]:
  "env_laws E \<Longrightarrow> local_ok E rt \<Longrightarrow> local_ok E (fst (add_channel_member E M render inputs now rt w c d))"
  by (auto simp: add_channel_member_def case_prod_beta intro!: keeps)

lemma write_keyed_channel_keeps [keeps]:
  assumes "env_laws E" "local_ok E rt" "workspace_write_context E rt w = Inr ctx"
  shows "local_ok E (fst (write_keyed_channel E now salt nonce g rt w ctx c body))"
  unfolding write_keyed_channel_def Let_def using assms authorized_append_keeps [OF assms(1,2), of w ctx]
  by (auto simp: local_event_def signable_event_new_def save_channel_key_def map_err_def split: sum.splits
      intro!: attempt_keeps dest!: saved_files)

lemma create_direct_message_channel_keeps [keeps]:
  "env_laws E \<Longrightarrow> local_ok E rt
    \<Longrightarrow> local_ok E (fst (create_direct_message_channel E M render inputs now salt nonce c g rt w name d))"
  by (auto simp: create_direct_message_channel_def case_prod_beta split: option.split intro!: keeps)

section \<open>Imported keys\<close>

lemma import_key_keeps:
  "import_workspace_key (key_lib E) salt nonce rt exported = Inr (rt', r) \<Longrightarrow> local_ok E rt' \<longleftrightarrow> local_ok E rt"
  "import_channel_key (key_lib E) salt nonce rt exported' = Inr (rt', r') \<Longrightarrow> local_ok E rt' \<longleftrightarrow> local_ok E rt"
  by (auto simp: import_workspace_key_def import_channel_key_def save_workspace_key_def save_channel_key_def Let_def result_simps
      dest!: saved_files)

end
