(* ===== verification/Local_Machine.thy ===== *)
theory Local_Machine
  imports Provisioning_Correct
begin

text \<open>
  The device as a state machine: one step per local action, with any clock, random bytes, identifiers
  and arguments.  Every step, whether the action succeeds or fails, keeps the invariant of a device
  whose store holds only what it wrote itself.
\<close>

section \<open>Actions that write several events\<close>

text \<open>The identifier that the device would give an event is not the identifier of a stored event.\<close>

definition fresh_event :: "'c RuntimeEnv \<Rightarrow> LocalRuntime \<Rightarrow> SignableEvent \<Rightarrow> bool" where
  "fresh_event E rt ev \<longleftrightarrow>
     event_str (sg_event_id (sign_event (ident (env_store E)) (rt_identity rt) ev)) \<notin> rw_event_id ` set (rt_store rt)"

lemma appended:
  assumes "append_signed E rt e = (rt', Inr e')"
  shows "e' = e" "fits (env_store E) e" "rt' = rt\<lparr>rt_store := put_row (event_row (env_store E) e) (rt_store rt)\<rparr>"
  using assms by (auto simp: append_signed_def result_simps append_event_Inr map_err_def split: sum.splits)

lemma appended_log:
  assumes "env_laws E" "local_ok E rt" "se_author_device_id ev = own_device rt" "fresh_event E rt ev"
    "append_signed E rt (sign_event (ident (env_store E)) (rt_identity rt) ev) = (rt', Inr e')"
  shows "own_log E rt' (se_workspace_id ev) = own_log E rt (se_workspace_id ev) @ [e']"
    "e' = sign_event (ident (env_store E)) (rt_identity rt) ev" "rt_identity rt' = rt_identity rt"
proof -
  let ?e = "sign_event (ident (env_store E)) (rt_identity rt) ev"
  note a = appended [OF assms(5)]
  show "e' = ?e" "rt_identity rt' = rt_identity rt" using a by simp_all
  have "is_servable_event (env_store E) ?e"
    using assms(1-3) by (auto simp: env_laws_def local_ok_def is_servable_event_def intro: signed_verifies)
  moreover have "codec (env_store E) ?e" using assms(1) a(2) by (simp add: env_laws_def)
  moreover have "\<forall>r \<in> set (rt_store rt). good_row (env_store E) r" using assms(2) by (simp add: local_ok_def)
  moreover have "rw_event_id (event_row (env_store E) ?e) \<notin> rw_event_id ` set (rt_store rt)"
    using assms(4) by (simp add: fresh_event_def event_row_def)
  ultimately show "own_log E rt' (se_workspace_id ev) = own_log E rt (se_workspace_id ev) @ [e']"
    using log_put_row [of "rt_store rt" "env_store E" ?e] a by simp
qed

lemma written_log:
  assumes "env_laws E" "local_ok E rt" "se_author_device_id ev = own_device rt" "fresh_event E rt ev"
    "sign_authorize_and_append_with_history E rt ev history = (rt', Inr e')"
  shows "own_log E rt' (se_workspace_id ev) = own_log E rt (se_workspace_id ev) @ [e']"
    "e' = sign_event (ident (env_store E)) (rt_identity rt) ev" "rt_identity rt' = rt_identity rt"
proof -
  have "append_signed E rt (sign_event (ident (env_store E)) (rt_identity rt) ev) = (rt', Inr e')"
    using assms(5) by (auto simp: sign_authorize_and_append_with_history_def Let_def result_simps)
  note a = appended_log [OF assms(1-4) this]
  show "own_log E rt' (se_workspace_id ev) = own_log E rt (se_workspace_id ev) @ [e']"
    "e' = sign_event (ident (env_store E)) (rt_identity rt) ev" "rt_identity rt' = rt_identity rt"
    by (fact a)+
qed

lemma local_event_sel [simp]:
  "se_workspace_id (local_event now rt w c ps body) = w" "se_author_device_id (local_event now rt w c ps body) = own_device rt"
  "se_parents (local_event now rt w c ps body) = ps"
  by (simp_all add: local_event_def signable_event_new_def)

lemma update_person_profile_fields_keeps:
  assumes "env_laws E" "local_ok E rt"
    and "\<And>ctx. workspace_write_context E rt w = Inr ctx \<Longrightarrow>
      fresh_event E rt (local_event (now 0) rt w None (wc_head_event_ids ctx) (PersonDeviceLinked p (own_device rt)))"
  shows "local_ok E (fst (update_person_profile_fields E now rt w p name avatar))"
proof -
  let ?link = "\<lambda>ctx. local_event (now 0) rt w None (wc_head_event_ids ctx) (PersonDeviceLinked p (own_device rt))"
  define linked where "linked ctx prior =
     (if prior then (rt, Inr (None, wc_events ctx, wc_head_event_ids ctx))
      else and_then (sign_authorize_and_append_with_history E rt (?link ctx) (wc_events ctx)) (\<lambda>rt link.
        (rt, Inr (Some (event_str (sg_event_id link)), wc_events ctx @ [link], [sg_event_id link]))))" for ctx :: WorkspaceWriteContext and prior
  have first: "local_ok E (fst (linked ctx prior))" if "workspace_write_context E rt w = Inr ctx" for ctx :: WorkspaceWriteContext and prior
    using that assms(1,2) own_context(2) [of E rt w ctx] own_heads [of E rt w ctx]
    by (auto simp: linked_def intro!: and_then_keeps write_keeps)
  have second: "h = own_log E rt' w \<and> set ps \<subseteq> sg_event_id ` set h"
    if "workspace_write_context E rt w = Inr ctx" "linked ctx prior = (rt', Inr (l, h, ps))" for ctx prior rt' l h ps
  proof (cases prior)
    case True
    then show ?thesis using that assms(2) own_context(2) [of E rt w ctx] own_heads [of E rt w ctx]
      by (auto simp: linked_def)
  next
    note run = that
    case False
    then obtain e where e: "sign_authorize_and_append_with_history E rt (?link ctx) (wc_events ctx) = (rt', Inr e)"
      "h = wc_events ctx @ [e]" "ps = [sg_event_id e]"
      using run(2) by (auto simp: linked_def result_simps)
    from written_log(1) [OF assms(1,2) _ assms(3) [OF that(1)] e(1)] show ?thesis
      using that(1) assms(2) own_context(2) [of E rt w ctx] e by simp
  qed
  have third: "local_ok E (fst (sign_authorize_and_append_with_history E rt' (local_event t rt' w None ps body) h))"
    if "workspace_write_context E rt w = Inr ctx" "linked ctx prior = (rt', Inr (l, h, ps))" "local_ok E rt'"
    for ctx prior rt' l h ps t body
    using second [OF that(1,2)] write_keeps [OF assms(1) that(3), of _ w] by auto
  show ?thesis
    unfolding update_person_profile_fields_def Let_def linked_def [symmetric]
    using assms(1,2)
    by (auto split: option.split prod.split intro!: attempt_keeps and_then_keeps first intro: third)
qed

section \<open>Creating a workspace\<close>

text \<open>The first event of a workspace is accepted by the empty state.\<close>

lemma root_accepted:
  assumes "env_laws E" "identity = from_signing_key (ident (env_store E)) key"
    "ev = \<lparr>se_schema_version = 1, se_workspace_id = w, se_channel_id = None, se_author_device_id = di_device_id identity,
      se_timestamp = t, se_parents = [], se_body = WorkspaceCreated name\<rparr>"
    "length name \<le> WORKSPACE_NAME_MAX_BYTES" "validate_workspace_id_reference w = Inr ()"
  shows "\<exists>st. apply_event vals (state_new w) (sign_event (ident (env_store E)) identity ev) = Inr st"
proof (rule authorized_applies)
  let ?L = "ident (env_store E)"
  have len: "length (verifying_key ?L key) = 32" "length (ed_sign ?L key m) = 64" "length (hash_hex ?L x) = 64" for m x
    using assms(1) by (simp_all add: env_laws_def signature_law_def)
  show "authorize (ws_access_index (state_new w)) (sign_event ?L identity ev) = Inr ()"
    using assms(2-5) len
    by (simp add: authorize_eval sign_event_def from_author_signature_def from_signing_key_def
        device_id_from_public_key_bytes_def verifying_key_bytes_def state_new_def index_new_def
        validate_workspace_id_reference_def validate_identifier_size_def validate_workspace_id_str_def
        validate_id_bytes_def map_err_def then_res_def split: if_splits)
qed (use assms(3) in \<open>simp_all add: state_new_def\<close>)

lemma metadata_size_Inr: "validate_metadata_field_size fld v n = Inr u \<longleftrightarrow> length v \<le> n"
  by (simp add: validate_metadata_field_size_def ensure_def)

text \<open>What a write leaves of the log, whether or not the identifier was new.\<close>

lemma written_ids:
  assumes "local_ok E rt" "env_laws E" "se_author_device_id ev = own_device rt" "se_workspace_id ev = w"
    "sign_authorize_and_append_with_history E rt ev history = (rt', Inr e)"
    "fresh_event E rt ev \<or> sg_event_id (sign_event (ident (env_store E)) (rt_identity rt) ev) \<in> sg_event_id ` set (own_log E rt w)"
  shows "insert (sg_event_id e) (sg_event_id ` set (own_log E rt w)) \<subseteq> sg_event_id ` set (own_log E rt' w)"
    "rt_identity rt' = rt_identity rt"
proof -
  let ?e = "sign_event (ident (env_store E)) (rt_identity rt) ev"
  have a: "append_signed E rt ?e = (rt', Inr e)"
    using assms(5) by (auto simp: sign_authorize_and_append_with_history_def Let_def result_simps)
  note b = appended [OF a]
  show "rt_identity rt' = rt_identity rt" using b by simp
  show "insert (sg_event_id e) (sg_event_id ` set (own_log E rt w)) \<subseteq> sg_event_id ` set (own_log E rt' w)"
  proof (cases "fresh_event E rt ev")
    case True
    then show ?thesis using appended_log(1) [OF assms(2,1,3) True a] assms(4) by simp
  next
    case False
    then have "put_row (event_row (env_store E) ?e) (rt_store rt) = rt_store rt"
      using assms(1) by (intro stored_row_unchanged) (auto simp: local_ok_def fresh_event_def event_row_def)
    then show ?thesis using False assms(6) b by simp
  qed
qed

lemma root_written:
  assumes "env_laws E" "local_ok E rt" "own_log E rt w = []" "validate_workspace_id_reference w = Inr ()"
    "length name \<le> WORKSPACE_NAME_MAX_BYTES" "root = local_event t rt w None [] (WorkspaceCreated name)"
  shows "local_ok E (fst (append_signed E rt (sign_event (ident (env_store E)) (rt_identity rt) root)))"
proof (rule append_signed_keeps [OF assms(1,2)])
  fix st assume "accepted_run (apply_event (invite_order E)) (state_new (se_workspace_id root)) (own_log E rt (se_workspace_id root)) st"
  then have st: "st = state_new w" using assms(3,6) by (auto elim: accepted_run.cases)
  obtain key where key: "rt_identity rt = from_signing_key (ident (env_store E)) key"
    using assms(2) by (auto simp: local_ok_def)
  have "root = \<lparr>se_schema_version = 1, se_workspace_id = w, se_channel_id = None, se_author_device_id = own_device rt,
      se_timestamp = t, se_parents = [], se_body = WorkspaceCreated name\<rparr>"
    by (simp add: assms(6) local_event_def signable_event_new_def)
  from root_accepted [OF assms(1) key this assms(5,4)]
  show "\<exists>st'. apply_event (invite_order E) st (sign_event (ident (env_store E)) (rt_identity rt) root) = Inr st'"
    unfolding st .
qed (use assms(6) in simp)

text \<open>The optional second event of a workspace, the access policy.\<close>

lemma policy_written:
  fixes E rt w policy t
  defines "setting \<equiv> \<lambda>e. local_event t rt w None [sg_event_id e] (WorkspaceAccessPolicyUpdated policy)"
  defines "configured \<equiv> \<lambda>e. if policy = InviteOnly then (rt, Inr None)
      else and_then (sign_authorize_and_append E rt (setting e)) (\<lambda>rt event. (rt, Inr (Some (sg_event_id event))))"
  assumes "env_laws E" "local_ok E rt" "e \<in> set (own_log E rt w)"
    "fresh_event E rt (setting e)
      \<or> sg_event_id (sign_event (ident (env_store E)) (rt_identity rt) (setting e)) \<in> sg_event_id ` set (own_log E rt w)"
  shows "local_ok E (fst (configured e))"
    "configured e = (rt', Inr i) \<Longrightarrow>
      (case i of Some event_id \<Rightarrow> event_id | None \<Rightarrow> sg_event_id e) \<in> sg_event_id ` set (own_log E rt' w)"
proof -
  have w: "sign_authorize_and_append E rt (setting e)
      = sign_authorize_and_append_with_history E rt (setting e) (own_log E rt w)"
    by (simp add: sign_authorize_and_append_def setting_def)
  show "local_ok E (fst (configured e))"
    using assms(3-5) unfolding configured_def w
    by (auto simp: setting_def intro!: and_then_keeps write_keeps)
  assume c: "configured e = (rt', Inr i)"
  show "(case i of Some event_id \<Rightarrow> event_id | None \<Rightarrow> sg_event_id e) \<in> sg_event_id ` set (own_log E rt' w)"
    using c assms(5) written_ids(1) [OF assms(4,3) _ _ _ assms(6)] unfolding configured_def w
    by (auto simp: setting_def result_simps split: if_splits)
qed

lemma root_log:
  fixes E rt w name t
  defines "root \<equiv> local_event t rt w None [] (WorkspaceCreated name)"
  assumes "env_laws E" "local_ok E rt" "own_log E rt w = []" "fresh_event E rt root"
    "append_signed E rt (sign_event (ident (env_store E)) (rt_identity rt) root) = (rt', Inr e)"
  shows "own_log E rt' w = [e]" "rt_identity rt' = rt_identity rt"
    "e = sign_event (ident (env_store E)) (rt_identity rt) root"
    "fresh_event E rt ev \<Longrightarrow> fresh_event E rt' ev
      \<or> sg_event_id (sign_event (ident (env_store E)) (rt_identity rt') ev) \<in> sg_event_id ` set (own_log E rt' w)"
proof -
  have "se_author_device_id root = own_device rt" by (simp add: root_def)
  note l = appended_log [OF assms(2,3) this assms(5,6)] and b = appended [OF assms(6)]
  show l': "own_log E rt' w = [e]" "rt_identity rt' = rt_identity rt"
    "e = sign_event (ident (env_store E)) (rt_identity rt) root"
    using l assms(4) by (simp_all add: root_def)
  have "rw_event_id ` set (rt_store rt') \<subseteq> insert (event_str (sg_event_id e)) (rw_event_id ` set (rt_store rt))"
    using b by (auto simp: put_row_def event_row_def)
  then show "fresh_event E rt ev \<Longrightarrow> fresh_event E rt' ev
      \<or> sg_event_id (sign_event (ident (env_store E)) (rt_identity rt') ev) \<in> sg_event_id ` set (own_log E rt' w)"
    unfolding fresh_event_def l' by (auto simp: EventId.expand)
qed

text \<open>The two events a new workspace may still get, after its first.\<close>

definition complete_workspace ::
  "'c RuntimeEnv \<Rightarrow> (nat \<Rightarrow> HybridTimestamp) \<Rightarrow> WorkspaceId \<Rightarrow> ChannelId \<Rightarrow> string \<Rightarrow> WorkspaceAccessPolicy
     \<Rightarrow> LocalRuntime \<Rightarrow> SignedEvent \<Rightarrow> (LocalRuntime \<Rightarrow> EventId option \<Rightarrow> SignedEvent \<Rightarrow> LocalRuntime \<times> (RuntimeError + 'r))
     \<Rightarrow> LocalRuntime \<times> (RuntimeError + 'r)" where
  "complete_workspace E now w c channel policy rt workspace k =
     and_then
       (if policy = InviteOnly then (rt, Inr None)
        else and_then (sign_authorize_and_append E rt (local_event (now 1) rt w None
               [sg_event_id workspace] (WorkspaceAccessPolicyUpdated policy)))
             (\<lambda>rt event. (rt, Inr (Some (sg_event_id event))))) (\<lambda>rt i.
     and_then (sign_authorize_and_append E rt (local_event (now 2) rt w None
         [case i of Some event_id \<Rightarrow> event_id | None \<Rightarrow> sg_event_id workspace] (ChannelCreated c channel False)))
       (\<lambda>rt channel. k rt i channel))"

lemma complete_workspace_keeps:
  assumes "env_laws E" "local_ok E rt" "e \<in> set (own_log E rt w)"
    "fresh_event E rt (local_event (now 1) rt w None [sg_event_id e] (WorkspaceAccessPolicyUpdated policy))
      \<or> sg_event_id (sign_event (ident (env_store E)) (rt_identity rt)
          (local_event (now 1) rt w None [sg_event_id e] (WorkspaceAccessPolicyUpdated policy))) \<in> sg_event_id ` set (own_log E rt w)"
    "\<And>rt i ch. local_ok E rt \<Longrightarrow> local_ok E (fst (k rt i ch))"
  shows "local_ok E (fst (complete_workspace E now w c channel policy rt e k))"
  using policy_written [OF assms(1-4)] assms(1-3,5)
  by (auto simp: complete_workspace_def sign_authorize_and_append_def intro!: and_then_keeps write_keeps)

lemma create_workspace_keeps:
  fixes E rt w name policy now
  defines "root \<equiv> local_event (now 0) rt w None [] (WorkspaceCreated name)"
  defines "setting \<equiv> local_event (now 1) rt w None
    [sg_event_id (sign_event (ident (env_store E)) (rt_identity rt) root)] (WorkspaceAccessPolicyUpdated policy)"
  assumes "env_laws E" "local_ok E rt" "own_log E rt w = []" "validate_workspace_id_reference w = Inr ()"
    and "fresh_event E rt root" "fresh_event E rt setting"
  shows "local_ok E (fst (create_workspace_with_access_policy E now salt nonce w c g rt name channel policy))"
proof -
  have after: "local_ok E (fst (and_then (append_signed E rt1 (sign_event (ident (env_store E)) (rt_identity rt1)
      (local_event (now 0) rt1 w None [] (WorkspaceCreated name)))) (\<lambda>rt e. complete_workspace E now w c channel policy rt e (k rt e))))"
    if saved: "save_workspace_key (key_lib E) salt nonce rt (workspace_key_generate g w) = Inr rt1"
      and name: "length name \<le> WORKSPACE_NAME_MAX_BYTES"
      and k: "\<And>rt1 e rt i ch. local_ok E rt \<Longrightarrow> local_ok E (fst (k rt1 e rt i ch))"
    for rt1 and k :: "LocalRuntime \<Rightarrow> SignedEvent \<Rightarrow> LocalRuntime \<Rightarrow> EventId option \<Rightarrow> SignedEvent
      \<Rightarrow> LocalRuntime \<times> (RuntimeError + CreatedWorkspace)"
  proof (rule and_then_keeps)
    obtain f where f: "rt1 = rt\<lparr>rt_files := f\<rparr>" using saved by (auto simp: save_workspace_key_def dest: saved_files)
    have same: "local_event t rt1 = local_event t rt" "fresh_event E rt1 = fresh_event E rt" "local_ok E rt1" for t
      using assms(4) by (auto simp: f local_event_def fresh_event_def fun_eq_iff)
    have log: "own_log E rt1 w = []" using assms(5) by (simp add: f)
    show "local_ok E (fst (append_signed E rt1 (sign_event (ident (env_store E)) (rt_identity rt1)
      (local_event (now 0) rt1 w None [] (WorkspaceCreated name)))))"
      using root_written [OF assms(3) same(3) log assms(6) name] by simp
    fix rt2 e
    assume a: "append_signed E rt1 (sign_event (ident (env_store E)) (rt_identity rt1)
      (local_event (now 0) rt1 w None [] (WorkspaceCreated name))) = (rt2, Inr e)" and ok2: "local_ok E rt2"
    have "fresh_event E rt1 (local_event (now 0) rt1 w None [] (WorkspaceCreated name))"
      using assms(7) by (simp add: same root_def)
    note r = root_log [OF assms(3) same(3) log this a]
    have "local_event (now 1) rt2 w None [sg_event_id e] (WorkspaceAccessPolicyUpdated policy) = setting"
      using r(2,3) by (simp add: setting_def root_def same local_event_def f)
    then show "local_ok E (fst (complete_workspace E now w c channel policy rt2 e (k rt2 e)))"
      using r(1,4) assms(8) ok2 k by (intro complete_workspace_keeps [OF assms(3)]) (simp_all add: same)
  qed
  show ?thesis
    unfolding create_workspace_with_access_policy_def
    using assms(4) by (intro attempt_keeps after [unfolded complete_workspace_def]) (simp_all add: metadata_size_Inr)
qed

section \<open>Steps\<close>

text \<open>
  The clock, random bytes, keys and identifiers are arbitrary.  A new workspace gets an identifier of
  the right size without events; where an action writes an event that a second one names as its parent,
  the identifier of the first does not collide with a stored one.
\<close>

inductive local_step :: "'c RuntimeEnv \<Rightarrow> LocalRuntime \<Rightarrow> LocalRuntime \<Rightarrow> bool" for E where
  step_create_workspace:
    "own_log E rt w = [] \<Longrightarrow> validate_workspace_id_reference w = Inr ()
     \<Longrightarrow> root = local_event (now 0) rt w None [] (WorkspaceCreated name)
     \<Longrightarrow> fresh_event E rt root
     \<Longrightarrow> fresh_event E rt (local_event (now 1) rt w None
           [sg_event_id (sign_event (ident (env_store E)) (rt_identity rt) root)] (WorkspaceAccessPolicyUpdated policy))
     \<Longrightarrow> local_step E rt (fst (create_workspace_with_access_policy E now salt nonce w c g rt name channel policy))"
| step_create_channel: "local_step E rt (fst (create_channel E now salt nonce c g rt w name private))"
| step_channel_details: "local_step E rt (fst (update_channel_details E now rt w c name topic))"
| step_channel_archive: "local_step E rt (fst (update_channel_archive E now rt w c archived))"
| step_device_profile: "local_step E rt (fst (update_device_profile_fields E now rt w name avatar))"
| step_person_profile:
    "(\<And>ctx. workspace_write_context E rt w = Inr ctx \<Longrightarrow> fresh_event E rt
        (local_event (now 0) rt w None (wc_head_event_ids ctx) (PersonDeviceLinked p (own_device rt))))
     \<Longrightarrow> local_step E rt (fst (update_person_profile_fields E now rt w p name avatar))"
| step_endpoint: "local_step E rt (fst (publish_peer_endpoint_with_replica_capability E now rt request))"
| step_record_join_request:
    "local_step E rt (fst (record_workspace_join_request_with_response_route E now rt w i d name note t src n pol r))"
| step_record_invite: "local_step E rt (fst (record_workspace_invite E now rt w i d name role request_id x pol y))"
| step_resolve_invite: "local_step E rt (fst (resolve_workspace_invite E now rt w i res))"
| step_resolve_join_request: "local_step E rt (fst (resolve_workspace_join_request E now rt w i resolution))"
| step_member_role: "local_step E rt (fst (update_member_role E now rt w d role))"
| step_access_policy: "local_step E rt (fst (update_workspace_access_policy E now rt w policy))"
| step_send: "local_step E rt (fst (send_message_with_attachments E now nonce nonces m rt w c markdown reply files))"
| step_send_file:
    "local_step E rt (fst (send_message_with_attachment_file_reply E now nonce nonces m rt w c reply markdown path media))"
| step_save_attachment: "local_step E rt (fst (save_attachment_to_file E rt w m selector path))"
| step_prune_blobs: "local_step E rt (fst (prune_unreferenced_blobs E rt))"
| step_edit: "local_step E rt (fst (edit_message E now nonce rt w m markdown))"
| step_delete: "local_step E rt (fst (delete_message E now rt w m))"
| step_add_reaction: "local_step E rt (fst (add_reaction_action E now rt w m reaction))"
| step_remove_reaction: "local_step E rt (fst (remove_reaction_action E now rt w m reaction))"
| step_mark_read: "local_step E rt (fst (mark_channel_read E now rt w c))"
| step_rotate_workspace_key: "local_step E rt (fst (rotate_workspace_key E now salt nonce g rt w))"
| step_rotate_channel_key: "local_step E rt (fst (rotate_channel_key E now salt nonce g rt w c))"
| step_rotate_manual_keys: "local_step E rt (fst (rotate_workspace_manual_keys E inputs rt w))"
| step_publish_key_package: "local_step E rt (fst (publish_openmls_device_key_package E M inp k rt w))"
| step_create_workspace_group: "local_step E rt (fst (create_openmls_workspace_group E M inp rt w))"
| step_create_channel_group: "local_step E rt (fst (create_openmls_channel_group E M inp rt w c))"
| step_add_to_workspace_group: "local_step E rt (fst (add_openmls_workspace_group_member E M inp rt w k))"
| step_add_to_channel_group: "local_step E rt (fst (add_openmls_channel_group_member E M inp rt w c k))"
| step_remove_from_workspace_group: "local_step E rt (fst (remove_openmls_workspace_group_member E M inp rt w d))"
| step_remove_from_channel_group: "local_step E rt (fst (remove_openmls_channel_group_member E M inp rt w c d))"
| step_join_workspace_group: "local_step E rt (fst (join_openmls_workspace_group E M inp rt w source))"
| step_join_channel_group: "local_step E rt (fst (join_openmls_channel_group E M inp rt w c source))"
| step_update_workspace_group: "local_step E rt (fst (update_openmls_workspace_group E M inp rt w))"
| step_update_channel_group: "local_step E rt (fst (update_openmls_channel_group E M inp rt w c))"
| step_update_groups: "local_step E rt (fst (update_workspace_openmls_groups E M group_inputs rt w))"
| step_apply_workspace_commits: "local_step E rt (fst (apply_openmls_workspace_group_commits E M inp rt w source))"
| step_apply_channel_commits: "local_step E rt (fst (apply_openmls_channel_group_commits E M inp rt w c source))"
| step_remove_member: "local_step E rt (fst (remove_member E now rt w d))"
| step_remove_member_rotating: "local_step E rt (fst (remove_member_with_key_rotation E inputs now rt w d))"
| step_remove_member_openmls: "local_step E rt (fst (remove_member_with_openmls E M inputs group_inputs now rt w d))"
| step_remove_channel_member: "local_step E rt (fst (remove_channel_member E now rt w c d))"
| step_remove_channel_member_rotating:
    "local_step E rt (fst (remove_channel_member_with_key_rotation E t salt nonce g now rt w c d))"
| step_remove_channel_member_openmls:
    "local_step E rt (fst (remove_channel_member_with_openmls E M t salt nonce g inp now rt w c d))"
| step_invite_member: "local_step E rt (fst (invite_member E M now inp rt w d role))"
| step_add_channel_member: "local_step E rt (fst (add_channel_member E M render channel_inputs now rt w c d))"
| step_direct_message:
    "local_step E rt (fst (create_direct_message_channel E M render channel_inputs now salt nonce c g rt w name d))"
| step_publish_device_key_package: "local_step E rt (fst (publish_device_key_package E M now k rt w protocol package))"
| step_ensure_key_packages: "local_step E rt (fst (ensure_openmls_device_key_packages E M fresh rt w))"
| step_provision_workspace: "local_step E rt (fst (auto_provision_openmls_workspace_members E M member_inputs rt w))"
| step_provision_channels: "local_step E rt (fst (auto_provision_openmls_channel_members E M render channel_inputs rt w events))"
| step_import_workspace_key: "import_workspace_key (key_lib E) salt nonce rt exported = Inr (rt', imported) \<Longrightarrow> local_step E rt rt'"
| step_import_channel_key:
    "import_channel_key (key_lib E) salt nonce rt exported_channel = Inr (rt', imported_channel) \<Longrightarrow> local_step E rt rt'"
| step_compromise_response: "local_step E rt (fst (respond_to_workspace_compromise_signals E M C group_inputs inputs ms rt w))"
| step_automatic_response: "local_step E rt (fst (automatic_compromise_response_if_needed E M C group_inputs inputs ms rt w))"

lemma step_keeps:
  assumes "local_step E rt rt'" "env_laws E" "local_ok E rt"
  shows "local_ok E rt'"
  using assms(1)
proof cases
  case step_create_workspace
  then show ?thesis using create_workspace_keeps [OF assms(2,3)] by blast
next
  case step_person_profile
  then show ?thesis using update_person_profile_fields_keeps [OF assms(2,3)] by blast
next
  case step_import_workspace_key
  then show ?thesis using import_key_keeps(1) assms(3) by blast
next
  case step_import_channel_key
  then show ?thesis using import_key_keeps(2) assms(3) by blast
qed (use keeps assms(2,3) in \<open>simp_all add: add_reaction_action_def remove_reaction_action_def\<close>)

lemma steps_keep:
  assumes "(local_step E)\<^sup>*\<^sup>* rt rt'" "env_laws E" "local_ok E rt"
  shows "local_ok E rt'"
  using assms by (induction rule: rtranclp_induct) (auto intro: step_keeps)

lemma empty_device: "rt_store rt = [] \<Longrightarrow> rt_identity rt = from_signing_key (ident (env_store E)) key \<Longrightarrow> local_ok E rt"
  by (auto simp: local_ok_def list_parseable_events_for_workspace_def List.map_filter_simps)

end
