(* ===== verification/Key_Rings.thy ===== *)
theory Key_Rings
  imports Content_Keys Crypto_Properties
begin

text \<open>
  Lemmas about content keys: what a ring of keys promises under rotation, stated once as a locale and
  proved for workspace keys and for channel keys, and the inverses of the exported, the persisted and
  the stored forms.
\<close>

section \<open>Key identifiers\<close>

lemma workspace_key_id_inject: "workspace_key_id_for_epoch w e = workspace_key_id_for_epoch w e' \<Longrightarrow> e = e'"
  by (auto simp: workspace_key_id_for_epoch_def word_unat_eq_iff dest!: show_decimal_inject)

lemma channel_key_id_inject: "channel_key_id_for_epoch w c e = channel_key_id_for_epoch w c e' \<Longrightarrow> e = e'"
  by (auto simp: channel_key_id_for_epoch_def word_unat_eq_iff dest!: show_decimal_inject)

text \<open>The last epoch has no successor: it wraps to the one before the first.\<close>

lemma last_epoch: "unat (- 1 :: u64) = 2 ^ 64 - 1"
  by (simp add: unsigned_minus_1_eq_mask mask_eq_exp_minus_1)

lemma next_epoch:
  fixes e :: u64
  assumes "e \<noteq> - 1"
  shows "unat (e + 1) = unat e + 1" "e < e + 1"
proof -
  have "e + 1 \<noteq> 0" using assms by (simp add: eq_neg_iff_add_eq_0)
  then show "unat (e + 1) = unat e + 1" by (metis Suc_eq_plus1 add.commute unatSuc)
  then show "e < e + 1" by (simp add: word_less_nat_alt)
qed

section \<open>Key rings\<close>

text \<open>
  A ring holds the current key and the keys it replaced, each under the identifier of its epoch.  The
  provider promises that a fresh ring resolves exactly its key and that a rotation adds the key of the
  next epoch and changes no other answer, as long as there is a next epoch.
\<close>

locale key_ring =
  fixes generate :: "ContentKey \<Rightarrow> 'k" and rotate :: "ContentKey \<Rightarrow> 'k \<Rightarrow> 'k"
    and resolve :: "'k \<Rightarrow> string \<Rightarrow> ResolvedContentKey option"
    and epoch :: "'k \<Rightarrow> u64" and id_of :: "u64 \<Rightarrow> string" and ring_ok :: "'k \<Rightarrow> bool"
  assumes id_inject: "id_of e = id_of e' \<Longrightarrow> e = e'"
    and generate_ok: "ring_ok (generate g)"
    and generate_epoch: "epoch (generate g) = 1"
    and generate_resolve: "resolve (generate g) i =
      (if i = id_of 1 then Some \<lparr>rk_key_id = i, rk_content_key = g\<rparr> else None)"
    and rotate_ok: "ring_ok k \<Longrightarrow> epoch k \<noteq> - 1 \<Longrightarrow> ring_ok (rotate g k)"
    and rotate_epoch: "epoch (rotate g k) = epoch k + 1"
    and rotate_resolve: "ring_ok k \<Longrightarrow> epoch k \<noteq> - 1 \<Longrightarrow> resolve (rotate g k) i =
      (if i = id_of (epoch k + 1) then Some \<lparr>rk_key_id = i, rk_content_key = g\<rparr> else resolve k i)"
begin

definition rotations :: "ContentKey \<Rightarrow> ContentKey list \<Rightarrow> 'k" where
  "rotations g gs = foldl (\<lambda>k g. rotate g k) (generate g) gs"

lemma rotations_snoc: "rotations g (gs @ [h]) = rotate h (rotations g gs)"
  by (simp add: rotations_def)

lemma rotations_epoch: "length gs < 2 ^ 64 - 1 \<Longrightarrow> unat (epoch (rotations g gs)) = length gs + 1"
proof (induction gs rule: rev_induct)
  case Nil
  then show ?case by (simp add: rotations_def generate_epoch)
next
  case (snoc h gs)
  then have "unat (epoch (rotations g gs)) = length gs + 1" by simp
  moreover from this have "epoch (rotations g gs) \<noteq> - 1" using snoc.prems by (auto simp: last_epoch)
  ultimately show ?case by (simp add: rotations_snoc rotate_epoch next_epoch(1))
qed

lemma rotations_room:
  assumes "length gs + 1 < 2 ^ 64 - 1"
  shows "epoch (rotations g gs) \<noteq> - 1"
  using rotations_epoch [of gs g] assms by (auto simp: last_epoch)

lemma rotations_ok: "length gs < 2 ^ 64 - 1 \<Longrightarrow> ring_ok (rotations g gs)"
proof (induction gs rule: rev_induct)
  case (snoc h gs)
  then show ?case using rotations_room [of gs g] by (simp add: rotations_snoc rotate_ok)
qed (simp add: rotations_def generate_ok)

text \<open>After any number of rotations every epoch resolves to the key it was given, and nothing else does.\<close>

lemma rotations_resolve:
  assumes "length gs < 2 ^ 64 - 1"
  shows "(\<forall>n \<le> length gs. resolve (rotations g gs) (id_of (of_nat (n + 1)))
      = Some \<lparr>rk_key_id = id_of (of_nat (n + 1)), rk_content_key = (g # gs) ! n\<rparr>)
    \<and> (\<forall>i. (\<forall>n \<le> length gs. i \<noteq> id_of (of_nat (n + 1))) \<longrightarrow> resolve (rotations g gs) i = None)"
  using assms
proof (induction gs rule: rev_induct)
  case Nil
  then show ?case by (simp add: rotations_def generate_resolve)
next
  case (snoc h gs)
  have len: "length gs < 2 ^ 64 - 1" "length gs + 1 < 2 ^ 64 - 1" using snoc.prems by auto
  have "epoch (rotations g gs) = of_nat (length gs + 1)"
    using rotations_epoch [OF len(1), of g] len(1) by (simp only: word_unat_eq_iff unat_of_nat) simp
  then have new: "epoch (rotations g gs) + 1 = of_nat (length gs + 2)" by simp
  have step: "resolve (rotations g (gs @ [h])) i =
      (if i = id_of (of_nat (length gs + 2)) then Some \<lparr>rk_key_id = i, rk_content_key = h\<rparr>
       else resolve (rotations g gs) i)" for i
    using rotate_resolve [OF rotations_ok [OF len(1), of g] rotations_room [OF len(2), of g], of h i]
    by (simp only: rotations_snoc new)
  have old: "id_of (of_nat (n + 1)) \<noteq> id_of (of_nat (length gs + 2))" if "n \<le> length gs" for n
  proof
    assume "id_of (of_nat (n + 1)) = id_of (of_nat (length gs + 2))"
    from id_inject [OF this] have "unat (of_nat (n + 1) :: u64) = unat (of_nat (length gs + 2) :: u64)" by simp
    moreover have "n + 1 < 2 ^ 64" "length gs + 2 < 2 ^ 64" using that len(2) by auto
    ultimately show False using that by (simp only: unat_of_nat) simp
  qed
  show ?case
  proof (intro conjI allI impI)
    fix n assume n: "n \<le> length (gs @ [h])"
    show "resolve (rotations g (gs @ [h])) (id_of (of_nat (n + 1)))
        = Some \<lparr>rk_key_id = id_of (of_nat (n + 1)), rk_content_key = (g # gs @ [h]) ! n\<rparr>"
    proof (cases "n = length gs + 1")
      case True
      then show ?thesis by (simp add: step nth_append)
    next
      case False
      then have "n \<le> length gs" using n by simp
      moreover from this have "(g # gs @ [h]) ! n = (g # gs) ! n" by (cases n) (auto simp: nth_append)
      ultimately show ?thesis using snoc.IH len(1) old [of n] by (simp only: step) simp
    qed
  next
    fix i assume i: "\<forall>n \<le> length (gs @ [h]). i \<noteq> id_of (of_nat (n + 1))"
    then have "i \<noteq> id_of (of_nat (length gs + 1 + 1))" by (metis length_append_singleton Suc_eq_plus1 le_refl)
    then show "resolve (rotations g (gs @ [h])) i = None" using snoc.IH len(1) i by (simp add: step)
  qed
qed

end


definition workspace_ring_ok :: "WorkspaceId \<Rightarrow> WorkspaceKey \<Rightarrow> bool" where
  "workspace_ring_ok w k \<longleftrightarrow> wk_workspace_id k = w \<and> wk_key_id k = workspace_key_id_for_epoch w (wk_epoch k)
     \<and> (\<forall>m \<in> set (wk_previous_keys k). \<exists>e < wk_epoch k. cm_key_id m = workspace_key_id_for_epoch w e)"

definition channel_ring_ok :: "WorkspaceId \<Rightarrow> ChannelId \<Rightarrow> ChannelKey \<Rightarrow> bool" where
  "channel_ring_ok w c k \<longleftrightarrow> ck_workspace_id k = w \<and> ck_channel_id k = c
     \<and> ck_key_id k = channel_key_id_for_epoch w c (ck_epoch k)
     \<and> (\<forall>m \<in> set (ck_previous_keys k). \<exists>e < ck_epoch k. cm_key_id m = channel_key_id_for_epoch w c e)"

lemma find_at_end: "find P (xs @ [x]) = (case find P xs of Some y \<Rightarrow> Some y | None \<Rightarrow> if P x then Some x else None)"
  by (induction xs) auto

lemma find_absent: "\<forall>x \<in> set xs. \<not> P x \<Longrightarrow> find P xs = None"
  by (simp add: find_None_iff)

interpretation workspace_ring: key_ring "\<lambda>g. workspace_key_generate g w" workspace_key_rotate
  workspace_key_resolve_content_key wk_epoch "workspace_key_id_for_epoch w" "workspace_ring_ok w" for w
proof
  fix k g i
  assume k: "workspace_ring_ok w k" "wk_epoch k \<noteq> - 1"
  show "workspace_ring_ok w (workspace_key_rotate g k)"
    using k next_epoch(2) [OF k(2)]
    by (fastforce simp: workspace_ring_ok_def workspace_key_rotate_def Let_def dest: order_less_trans)
  have "wk_epoch k + 1 \<noteq> wk_epoch k" using next_epoch(2) [OF k(2)] by auto
  moreover have "find (\<lambda>m. cm_key_id m = wk_key_id k) (wk_previous_keys k) = None"
    using k(1) by (auto simp: workspace_ring_ok_def intro!: find_absent dest!: workspace_key_id_inject bspec)
  ultimately show "workspace_key_resolve_content_key (workspace_key_rotate g k) i =
      (if i = workspace_key_id_for_epoch w (wk_epoch k + 1) then Some \<lparr>rk_key_id = i, rk_content_key = g\<rparr>
       else workspace_key_resolve_content_key k i)"
    using k(1)
    by (auto simp: workspace_ring_ok_def workspace_key_resolve_content_key_def workspace_key_rotate_def Let_def
        find_at_end material_resolved_def split: option.splits)
qed (auto simp: workspace_key_generate_def workspace_key_rotate_def workspace_key_resolve_content_key_def
    workspace_ring_ok_def Let_def dest: workspace_key_id_inject)

interpretation channel_ring: key_ring "\<lambda>g. channel_key_generate g w c" channel_key_rotate
  channel_key_resolve_content_key ck_epoch "channel_key_id_for_epoch w c" "channel_ring_ok w c" for w c
proof
  fix k g i
  assume k: "channel_ring_ok w c k" "ck_epoch k \<noteq> - 1"
  show "channel_ring_ok w c (channel_key_rotate g k)"
    using k next_epoch(2) [OF k(2)]
    by (fastforce simp: channel_ring_ok_def channel_key_rotate_def Let_def dest: order_less_trans)
  have "ck_epoch k + 1 \<noteq> ck_epoch k" using next_epoch(2) [OF k(2)] by auto
  moreover have "find (\<lambda>m. cm_key_id m = ck_key_id k) (ck_previous_keys k) = None"
    using k(1) by (auto simp: channel_ring_ok_def intro!: find_absent dest!: channel_key_id_inject bspec)
  ultimately show "channel_key_resolve_content_key (channel_key_rotate g k) i =
      (if i = channel_key_id_for_epoch w c (ck_epoch k + 1) then Some \<lparr>rk_key_id = i, rk_content_key = g\<rparr>
       else channel_key_resolve_content_key k i)"
    using k(1)
    by (auto simp: channel_ring_ok_def channel_key_resolve_content_key_def channel_key_rotate_def Let_def
        find_at_end material_resolved_def split: option.splits)
qed (auto simp: channel_key_generate_def channel_key_rotate_def channel_key_resolve_content_key_def
    channel_ring_ok_def Let_def dest: channel_key_id_inject)

section \<open>Exported and persisted forms\<close>

definition full_length :: "ContentKey \<Rightarrow> bool" where
  "full_length k \<longleftrightarrow> length (as_key_bytes k) = WORKSPACE_KEY_LEN"

definition workspace_key_ok :: "WorkspaceKey \<Rightarrow> bool" where
  "workspace_key_ok k \<longleftrightarrow> wk_key_id k = workspace_key_id_for_epoch (wk_workspace_id k) (wk_epoch k) \<and> wk_epoch k \<noteq> 0
     \<and> full_length (wk_content_key k) \<and> (\<forall>m \<in> set (wk_previous_keys k). full_length (cm_content_key m))"

definition channel_key_ok :: "ChannelKey \<Rightarrow> bool" where
  "channel_key_ok k \<longleftrightarrow> ck_key_id k = channel_key_id_for_epoch (ck_workspace_id k) (ck_channel_id k) (ck_epoch k)
     \<and> ck_epoch k \<noteq> 0 \<and> full_length (ck_content_key k)
     \<and> (\<forall>m \<in> set (ck_previous_keys k). full_length (cm_content_key m))"

definition workspace_key_exported :: "string \<Rightarrow> WorkspaceKey \<Rightarrow> WorkspaceKeyExport" where
  "workspace_key_exported device k =
     \<lparr>wx_schema_version = CONTENT_KEY_EXPORT_SCHEMA_VERSION, wx_workspace_id = workspace_str (wk_workspace_id k),
      wx_epoch = wk_epoch k, wx_key_id = wk_key_id k, wx_exporter_device_id = device,
      wx_aes_256_gcm_siv_key = as_key_bytes (wk_content_key k),
      wx_previous_keys = workspace_key_exported_previous_keys k\<rparr>"

definition channel_key_exported :: "string \<Rightarrow> ChannelKey \<Rightarrow> ChannelKeyExport" where
  "channel_key_exported device k =
     \<lparr>cx_schema_version = CONTENT_KEY_EXPORT_SCHEMA_VERSION, cx_workspace_id = workspace_str (ck_workspace_id k),
      cx_channel_id = channel_str (ck_channel_id k), cx_epoch = ck_epoch k, cx_key_id = ck_key_id k,
      cx_exporter_device_id = device, cx_aes_256_gcm_siv_key = as_key_bytes (ck_content_key k),
      cx_previous_keys = channel_key_exported_previous_keys k\<rparr>"

lemma max_epoch: "e \<noteq> 0 \<Longrightarrow> max e (1 :: u64) = e"
  by (rule max_absorb1) (simp add: word_le_nat_alt word_unat_eq_iff)

lemma collect_results_map: "\<forall>x \<in> set xs. f x = Inr (g x) \<Longrightarrow> collect_results (map f xs) = Inr (map g xs)"
  by (induction xs) (simp_all add: bind_res_def)

lemma decode_material:
  "full_length (cm_content_key m) \<Longrightarrow> decode_workspace_key_material (cm_key_id m) (as_key_bytes (cm_content_key m)) = Inr m"
  "full_length (cm_content_key m) \<Longrightarrow> decode_channel_key_material (cm_key_id m) (as_key_bytes (cm_content_key m)) = Inr m"
  "full_length k \<Longrightarrow> decode_workspace_key_material i (as_key_bytes k) = Inr \<lparr>cm_key_id = i, cm_content_key = k\<rparr>"
  "full_length k \<Longrightarrow> decode_channel_key_material i (as_key_bytes k) = Inr \<lparr>cm_key_id = i, cm_content_key = k\<rparr>"
  by (simp_all add: decode_workspace_key_material_def decode_channel_key_material_def full_length_def)

lemmas key_form_defs = workspace_key_persisted_def channel_key_persisted_def workspace_key_exported_def
  channel_key_exported_def workspace_key_exported_previous_keys_def channel_key_exported_previous_keys_def
  material_exported_def material_persisted_def content_key_schema_supported_def

lemma workspace_key_from_persisted:
  assumes "workspace_key_ok k" "workspace_key_from_slice L bytes = Some (workspace_key_persisted k)"
  shows "workspace_key_from_bytes L bytes = Inr k"
  using assms
  by (auto simp: workspace_key_from_bytes_def workspace_key_ok_def key_form_defs bind_res_def ok_or_def max_epoch
      decode_material o_def Let_def collect_results_map [where g = id])

lemma channel_key_from_persisted:
  assumes "channel_key_ok k" "channel_key_from_slice L bytes = Some (channel_key_persisted k)"
  shows "channel_key_from_bytes L bytes = Inr k"
  using assms
  by (auto simp: channel_key_from_bytes_def channel_key_ok_def key_form_defs bind_res_def ok_or_def max_epoch
      decode_material o_def Let_def collect_results_map [where g = id])

lemma workspace_key_from_exported:
  "workspace_key_ok k \<Longrightarrow> workspace_key_from_export (workspace_key_exported device k) = Inr k"
  by (auto simp: workspace_key_from_export_def workspace_key_ok_def key_form_defs bind_res_def max_epoch
      decode_material o_def Let_def collect_results_map [where g = id])

lemma channel_key_from_exported:
  "channel_key_ok k \<Longrightarrow> channel_key_from_export (channel_key_exported device k) = Inr k"
  by (auto simp: channel_key_from_export_def channel_key_ok_def key_form_defs bind_res_def max_epoch
      decode_material o_def Let_def collect_results_map [where g = id])

text \<open>What loading accepts is well formed, and so is what rotation makes of it.\<close>

lemma collected_results: "collect_results rs = Inr xs \<longleftrightarrow> rs = map Inr xs"
proof
  show "collect_results rs = Inr xs \<Longrightarrow> rs = map Inr xs"
    by (induction rs arbitrary: xs) (auto simp: result_simps)
qed (simp add: collect_results_map [where f = Inr and g = id, simplified])

lemma map_Inr_member: "map f xs = map Inr ys \<Longrightarrow> y \<in> set ys \<Longrightarrow> \<exists>x \<in> set xs. f x = Inr y"
  by (induction xs arbitrary: ys) (auto simp: Cons_eq_map_conv)

lemma decoded_full_length:
  "decode_workspace_key_material i bs = Inr m \<Longrightarrow> full_length (cm_content_key m)"
  "decode_channel_key_material i bs = Inr m \<Longrightarrow> full_length (cm_content_key m)"
  by (auto simp: decode_workspace_key_material_def decode_channel_key_material_def full_length_def split: if_splits)

lemma max_epoch_pos: "max e (1 :: u64) \<noteq> 0"
  by (auto simp: max_def)

lemma workspace_key_from_bytes_ok:
  assumes "workspace_key_from_bytes L bytes = Inr k"
  shows "workspace_key_ok k"
  using assms
  by (fastforce simp: workspace_key_from_bytes_def result_simps Let_def collected_results workspace_key_ok_def
      max_epoch_pos split: if_splits dest: decoded_full_length(1) map_Inr_member)

lemma channel_key_from_bytes_ok:
  assumes "channel_key_from_bytes L bytes = Inr k"
  shows "channel_key_ok k"
  using assms
  by (fastforce simp: channel_key_from_bytes_def result_simps Let_def collected_results channel_key_ok_def
      max_epoch_pos split: if_splits dest: decoded_full_length(2) map_Inr_member)

lemma workspace_key_rotate_ok:
  assumes "workspace_key_ok k" "full_length g" "wk_epoch k \<noteq> - 1"
  shows "workspace_key_ok (workspace_key_rotate g k)"
proof -
  have "wk_epoch k + 1 \<noteq> 0" using next_epoch(2) [OF assms(3)] by auto
  with assms show ?thesis by (auto simp: workspace_key_ok_def workspace_key_rotate_def Let_def)
qed

lemma channel_key_rotate_ok:
  assumes "channel_key_ok k" "full_length g" "ck_epoch k \<noteq> - 1"
  shows "channel_key_ok (channel_key_rotate g k)"
proof -
  have "ck_epoch k + 1 \<noteq> 0" using next_epoch(2) [OF assms(3)] by auto
  with assms show ?thesis by (auto simp: channel_key_ok_def channel_key_rotate_def Let_def)
qed

end
