(* ===== verification/Key_Properties.thy ===== *)
theory Key_Properties
  imports Key_Rings Identity_Properties
begin

text \<open>
  The properties of content keys: rotation keeps every earlier key, keys survive the key file and the
  export to another device, and what happens at the last epoch.
\<close>

section \<open>Secret files\<close>

text \<open>The encrypted form that \<open>encrypt_local_secret\<close> serialises.\<close>

definition sealed_form ::
  "'c SecretLib \<Rightarrow> bytes \<Rightarrow> bytes \<Rightarrow> string \<Rightarrow> string \<Rightarrow> string \<Rightarrow> bytes \<Rightarrow> RuntimeError + PersistedEncryptedLocalSecret"
  where
  "sealed_form L salt nonce secret_kind path_hint passphrase plaintext =
     (let kdf = \<lparr>lk_name = LOCAL_SECRET_KDF_ARGON2ID, lk_context = LOCAL_SECRET_KDF_CONTEXT, lk_salt = salt,
            lk_memory_cost_kib = LOCAL_SECRET_ARGON2_MEMORY_COST_KIB, lk_time_cost = LOCAL_SECRET_ARGON2_TIME_COST,
            lk_parallelism = LOCAL_SECRET_ARGON2_PARALLELISM, lk_output_len = LOCAL_SECRET_KDF_OUTPUT_LEN\<rparr>
      in bind_res (derive_local_secret_key L passphrase kdf) (\<lambda>wrapping_key.
         bind_res (map_err RtCrypto (seal_aes_256_gcm_siv (cipher (ident_lib L)) nonce
             (local_secret_key_id secret_kind path_hint) wrapping_key plaintext
             (local_secret_aad secret_kind path_hint kdf))) (\<lambda>sealed_payload.
         Inr \<lparr>pls_schema_version = LOCAL_SECRET_SCHEMA_VERSION, pls_storage = LOCAL_SECRET_STORAGE,
            pls_secret_kind = secret_kind, pls_path_hint = path_hint, pls_kdf = kdf,
            pls_sealed_payload = sealed_payload\<rparr>)))"

lemma encrypt_sealed_form:
  "encrypt_local_secret L salt nonce secret_kind path_hint passphrase plaintext =
     bind_res (sealed_form L salt nonce secret_kind path_hint passphrase plaintext) (\<lambda>e. Inr (secret_to_vec_pretty L e))"
  by (simp add: encrypt_local_secret_def sealed_form_def Let_def bind_res_def split: sum.split)

lemma open_sealed_form:
  assumes "sealed_form L salt nonce kind hint p plaintext = Inr e" "trim p \<noteq> []" "aead_law (cipher (ident_lib L))"
    "length nonce = 12"
  shows "open_local_secret L e kind hint (Some p) = Inr plaintext" "pls_storage e = LOCAL_SECRET_STORAGE"
proof -
  obtain wrapping payload where w: "derive_local_secret_key L p (pls_kdf e) = Inr wrapping"
    and s: "seal_aes_256_gcm_siv (cipher (ident_lib L)) nonce (local_secret_key_id kind hint) wrapping plaintext
      (local_secret_aad kind hint (pls_kdf e)) = Inr payload"
    and e: "pls_schema_version e = 1" "pls_storage e = LOCAL_SECRET_STORAGE" "pls_secret_kind e = kind"
      "pls_path_hint e = hint" "pls_sealed_payload e = payload"
    using assms(1) by (auto simp: sealed_form_def Let_def result_simps)
  have aad: "sp_aad payload = local_secret_aad kind hint (pls_kdf e)"
    using s by (auto simp: seal_aes_256_gcm_siv_def result_simps)
  have "open_aes_256_gcm_siv (cipher (ident_lib L)) wrapping payload = Inr plaintext"
    using open_sealed(1) [OF assms(3,4) s] by (simp only: open_aes_256_gcm_siv_def aad)
  then show "open_local_secret L e kind hint (Some p) = Inr plaintext"
    using w e aad assms(2) by (simp add: open_local_secret_def bind_res_def map_err_def)
  show "pls_storage e = LOCAL_SECRET_STORAGE" by (rule e(2))
qed

text \<open>
  What the libraries promise about one secret file: the cipher decrypts, the serialiser reads the
  encrypted form back past the newline at the end of the file, and text that is not an encrypted form
  is not read as one.  A runtime keeps no blank passphrase.
\<close>

definition secret_file_law ::
  "'c SecretLib \<Rightarrow> bytes \<Rightarrow> bytes \<Rightarrow> LocalRuntime \<Rightarrow> string \<Rightarrow> string \<Rightarrow> bytes \<Rightarrow> bool" where
  "secret_file_law L salt nonce rt path kind plaintext \<longleftrightarrow>
     aead_law (cipher (ident_lib L)) \<and> length nonce = 12
     \<and> (case rt_identity_passphrase rt of
          None \<Rightarrow> secret_from_slice L (plaintext @ [0x0A]) = None
        | Some p \<Rightarrow> trim p \<noteq> [] \<and>
            (\<forall>e. sealed_form L salt nonce kind (local_secret_path_hint rt path) p plaintext = Inr e \<longrightarrow>
               secret_from_slice L (secret_to_vec_pretty L e @ [0x0A]) = Some e))"

definition within_limit :: "LocalRuntime \<Rightarrow> string \<Rightarrow> bool" where
  "within_limit rt path \<longleftrightarrow> (case fmlookup (rt_files rt) path of None \<Rightarrow> True
     | Some contents \<Rightarrow> length contents \<le> LOCAL_SECRET_FILE_MAX_BYTES)"

lemma path_hint_files [simp]: "local_secret_path_hint (rt\<lparr>rt_files := f\<rparr>) path = local_secret_path_hint rt path"
  by (simp add: local_secret_path_hint_def)

lemma read_written_secret:
  assumes "write_local_secret_file L salt nonce rt path kind plaintext = Inr rt'"
    "secret_file_law L salt nonce rt path kind plaintext" "within_limit rt' path"
  shows "read_local_secret_file L rt' path kind
    = Inr (if rt_identity_passphrase rt = None then plaintext @ [0x0A] else plaintext)"
proof (cases "rt_identity_passphrase rt")
  case None
  with assms show ?thesis
    by (auto simp: write_local_secret_file_def bind_res_def read_local_secret_file_def write_secret_file_def
        read_local_metadata_file_with_limit_def within_limit_def secret_file_law_def open_serialized_local_secret_def)
next
  case (Some p)
  then obtain e where e: "sealed_form L salt nonce kind (local_secret_path_hint rt path) p plaintext = Inr e"
    "rt' = rt\<lparr>rt_files := write_secret_file (rt_files rt) path (secret_to_vec_pretty L e)\<rparr>"
    using assms(1) by (auto simp: write_local_secret_file_def encrypt_sealed_form result_simps)
  have law: "trim p \<noteq> []" "aead_law (cipher (ident_lib L))" "length nonce = 12"
    "secret_from_slice L (secret_to_vec_pretty L e @ [0x0A]) = Some e"
    using assms(2) Some e(1) by (auto simp: secret_file_law_def)
  show ?thesis
    using open_sealed_form [OF e(1) law(1-3)] law(4) assms(3) Some
    by (auto simp: e(2) read_local_secret_file_def read_local_metadata_file_with_limit_def write_secret_file_def
        within_limit_def open_serialized_local_secret_def bind_res_def)
qed

section \<open>Key files\<close>

definition workspace_key_json_law :: "'c KeyLib \<Rightarrow> WorkspaceKey \<Rightarrow> bool" where
  "workspace_key_json_law L k \<longleftrightarrow>
     (let p = workspace_key_persisted k; bytes = workspace_key_to_vec_pretty L p in
      workspace_key_from_slice L bytes = Some p \<and> workspace_key_from_slice L (bytes @ [0x0A]) = Some p)"

definition channel_key_json_law :: "'c KeyLib \<Rightarrow> ChannelKey \<Rightarrow> bool" where
  "channel_key_json_law L k \<longleftrightarrow>
     (let p = channel_key_persisted k; bytes = channel_key_to_vec_pretty L p in
      channel_key_from_slice L bytes = Some p \<and> channel_key_from_slice L (bytes @ [0x0A]) = Some p)"

abbreviation workspace_key_file_law :: "'c KeyLib \<Rightarrow> bytes \<Rightarrow> bytes \<Rightarrow> LocalRuntime \<Rightarrow> WorkspaceKey \<Rightarrow> bool" where
  "workspace_key_file_law L salt nonce rt k \<equiv>
     workspace_key_json_law L k
     \<and> secret_file_law (secret_lib L) salt nonce rt (workspace_key_path rt (wk_workspace_id k))
         LOCAL_SECRET_KIND_WORKSPACE_KEY (workspace_key_to_vec_pretty L (workspace_key_persisted k))"

abbreviation channel_key_file_law :: "'c KeyLib \<Rightarrow> bytes \<Rightarrow> bytes \<Rightarrow> LocalRuntime \<Rightarrow> ChannelKey \<Rightarrow> bool" where
  "channel_key_file_law L salt nonce rt k \<equiv>
     channel_key_json_law L k
     \<and> secret_file_law (secret_lib L) salt nonce rt (channel_key_path rt (ck_workspace_id k) (ck_channel_id k))
         LOCAL_SECRET_KIND_CHANNEL_KEY (channel_key_to_vec_pretty L (channel_key_persisted k))"

lemma written_frame:
  "write_local_secret_file L salt nonce rt path kind plaintext = Inr rt' \<Longrightarrow>
     \<exists>bytes. rt' = rt\<lparr>rt_files := fmupd path bytes (rt_files rt)\<rparr>"
  by (auto simp: write_local_secret_file_def write_secret_file_def result_simps)

lemma saved_workspace_key_read:
  assumes "save_workspace_key L salt nonce rt k = Inr rt'" "workspace_key_file_law L salt nonce rt k"
    "within_limit rt' (workspace_key_path rt (wk_workspace_id k))"
  shows "load_workspace_key L rt' (wk_workspace_id k) =
    bind_res (workspace_key_from_bytes L (workspace_key_to_vec_pretty L (workspace_key_persisted k)
       @ (if rt_identity_passphrase rt = None then [0x0A] else []))) (\<lambda>key. Inr (Some key))"
proof -
  have "workspace_key_path rt' w = workspace_key_path rt w" for w
    using written_frame [OF assms(1) [unfolded save_workspace_key_def]] by (auto simp: workspace_key_path_def)
  then show ?thesis
    using read_written_secret [OF assms(1) [unfolded save_workspace_key_def]] assms(2,3)
    by (auto simp: load_workspace_key_def)
qed

lemma saved_channel_key_read:
  assumes "save_channel_key L salt nonce rt k = Inr rt'" "channel_key_file_law L salt nonce rt k"
    "within_limit rt' (channel_key_path rt (ck_workspace_id k) (ck_channel_id k))"
  shows "load_channel_key L rt' (ck_workspace_id k) (ck_channel_id k) =
    bind_res (channel_key_from_bytes L (channel_key_to_vec_pretty L (channel_key_persisted k)
       @ (if rt_identity_passphrase rt = None then [0x0A] else []))) (\<lambda>key. Inr (Some key))"
proof -
  have "channel_key_path rt' w c = channel_key_path rt w c" for w c
    using written_frame [OF assms(1) [unfolded save_channel_key_def]] by (auto simp: channel_key_path_def)
  then show ?thesis
    using read_written_secret [OF assms(1) [unfolded save_channel_key_def]] assms(2,3)
    by (auto simp: load_channel_key_def)
qed

lemma workspace_key_file_bytes:
  "workspace_key_ok k \<Longrightarrow> workspace_key_json_law L k \<Longrightarrow>
     workspace_key_from_bytes L (workspace_key_to_vec_pretty L (workspace_key_persisted k)
       @ (if b then [0x0A] else [])) = Inr k"
  by (auto intro!: workspace_key_from_persisted simp: workspace_key_json_law_def Let_def)

lemma channel_key_file_bytes:
  "channel_key_ok k \<Longrightarrow> channel_key_json_law L k \<Longrightarrow>
     channel_key_from_bytes L (channel_key_to_vec_pretty L (channel_key_persisted k)
       @ (if b then [0x0A] else [])) = Inr k"
  by (auto intro!: channel_key_from_persisted simp: channel_key_json_law_def Let_def)

lemma save_load_workspace_key:
  assumes "workspace_key_ok k" "save_workspace_key L salt nonce rt k = Inr rt'"
    "workspace_key_file_law L salt nonce rt k" "within_limit rt' (workspace_key_path rt (wk_workspace_id k))"
  shows "load_workspace_key L rt' (wk_workspace_id k) = Inr (Some k)"
  unfolding saved_workspace_key_read [OF assms(2-4)]
  by (subst workspace_key_file_bytes [OF assms(1)]) (use assms(3) in \<open>simp_all add: bind_res_def\<close>)

lemma save_load_channel_key:
  assumes "channel_key_ok k" "save_channel_key L salt nonce rt k = Inr rt'"
    "channel_key_file_law L salt nonce rt k"
    "within_limit rt' (channel_key_path rt (ck_workspace_id k) (ck_channel_id k))"
  shows "load_channel_key L rt' (ck_workspace_id k) (ck_channel_id k) = Inr (Some k)"
  unfolding saved_channel_key_read [OF assms(2-4)]
  by (subst channel_key_file_bytes [OF assms(1)]) (use assms(3) in \<open>simp_all add: bind_res_def\<close>)

section \<open>Properties\<close>

text \<open>
  C40: after a key is generated and rotated any number of times (short of the last epoch), the
  identifier of every epoch resolves to the key that was current in that epoch, and no other identifier
  resolves, for workspace keys and for channel keys.
\<close>

theorem rotation_keeps_every_key:
  fixes g :: ContentKey and gs :: "ContentKey list" and w :: WorkspaceId and c :: ChannelId
  assumes "length gs < 2 ^ 64 - 1"
  defines "wk \<equiv> foldl (\<lambda>k g. workspace_key_rotate g k) (workspace_key_generate g w) gs"
    and "ck \<equiv> foldl (\<lambda>k g. channel_key_rotate g k) (channel_key_generate g w c) gs"
  shows "(\<forall>n \<le> length gs. workspace_key_resolve_content_key wk (workspace_key_id_for_epoch w (of_nat (n + 1)))
        = Some \<lparr>rk_key_id = workspace_key_id_for_epoch w (of_nat (n + 1)), rk_content_key = (g # gs) ! n\<rparr>)
    \<and> (\<forall>i. (\<forall>n \<le> length gs. i \<noteq> workspace_key_id_for_epoch w (of_nat (n + 1))) \<longrightarrow>
        workspace_key_resolve_content_key wk i = None)
    \<and> (\<forall>n \<le> length gs. channel_key_resolve_content_key ck (channel_key_id_for_epoch w c (of_nat (n + 1)))
        = Some \<lparr>rk_key_id = channel_key_id_for_epoch w c (of_nat (n + 1)), rk_content_key = (g # gs) ! n\<rparr>)
    \<and> (\<forall>i. (\<forall>n \<le> length gs. i \<noteq> channel_key_id_for_epoch w c (of_nat (n + 1))) \<longrightarrow>
        channel_key_resolve_content_key ck i = None)"
proof -
  have eqs: "wk = workspace_ring.rotations w g gs" "ck = channel_ring.rotations w c g gs"
    by (simp_all add: wk_def ck_def workspace_ring.rotations_def channel_ring.rotations_def)
  show ?thesis
    using conjI [OF workspace_ring.rotations_resolve [OF assms(1), of w g]
        channel_ring.rotations_resolve [OF assms(1), of w c g]]
    unfolding eqs conj_assoc .
qed

text \<open>
  A well-formed key that is saved loads back unchanged, from a plain or from an encrypted file, for
  workspace keys and for channel keys.
\<close>

theorem key_file_round_trip:
  assumes "workspace_key_ok wk" "channel_key_ok ck"
    "save_workspace_key L salt nonce rt wk = Inr rt1" "save_channel_key L salt nonce rt ck = Inr rt2"
    "workspace_key_file_law L salt nonce rt wk" "channel_key_file_law L salt nonce rt ck"
    "within_limit rt1 (workspace_key_path rt (wk_workspace_id wk))"
    "within_limit rt2 (channel_key_path rt (ck_workspace_id ck) (ck_channel_id ck))"
  shows "load_workspace_key L rt1 (wk_workspace_id wk) = Inr (Some wk)
    \<and> load_channel_key L rt2 (ck_workspace_id ck) (ck_channel_id ck) = Inr (Some ck)"
  using save_load_workspace_key [OF assms(1,3,5,7)] save_load_channel_key [OF assms(2,4,6,8)] by simp

lemma load_workspace_key_ok: "load_workspace_key L rt w = Inr (Some k) \<Longrightarrow> workspace_key_ok k"
  by (auto simp: load_workspace_key_def result_simps dest: workspace_key_from_bytes_ok
      split: sum.splits RuntimeError.splits IoErrorKind.splits)

text \<open>
  A key that one device exports and another imports is afterwards the key that the other device
  loads, with every earlier key in it, whatever key the other device held before, an older or a newer
  one.
\<close>

theorem imported_key_is_the_exported_key:
  assumes "load_workspace_key L rt w = Inr (Some k)" "export_workspace_key L rt w = Inr exported"
    "import_workspace_key L salt nonce other exported = Inr (other', imported)"
    "workspace_key_file_law L salt nonce other k"
    "within_limit other' (workspace_key_path other (wk_workspace_id k))"
  shows "load_workspace_key L other' (wk_workspace_id k) = Inr (Some k)
    \<and> iw_key_id imported = wk_key_id k \<and> rt_store other' = rt_store other"
proof -
  have k: "workspace_key_ok k" using assms(1) by (rule load_workspace_key_ok)
  have "exported = workspace_key_exported (device_str (di_device_id (rt_identity rt))) k"
    using assms(1,2) by (simp add: export_workspace_key_def bind_res_def ok_or_def workspace_key_exported_def)
  then have s: "save_workspace_key L salt nonce other k = Inr other'" "iw_key_id imported = wk_key_id k"
    using assms(3) workspace_key_from_exported [OF k] by (auto simp: import_workspace_key_def Let_def result_simps)
  then show ?thesis
    using save_load_workspace_key [OF k s(1) assms(4,5)] written_frame [OF s(1) [unfolded save_workspace_key_def]]
    by auto
qed

text \<open>
  A rotation in the last epoch wraps the epoch to zero; the key it makes is saved but never loads
  again.
\<close>

theorem last_epoch_rotation_is_lost:
  assumes "workspace_key_ok k" "wk_epoch k = - 1" "full_length g"
    and "save_workspace_key L salt nonce rt (workspace_key_rotate g k) = Inr rt'"
    "workspace_key_file_law L salt nonce rt (workspace_key_rotate g k)"
    "within_limit rt' (workspace_key_path rt (wk_workspace_id k))"
  shows "wk_epoch (workspace_key_rotate g k) = 0
    \<and> load_workspace_key L rt' (wk_workspace_id k) = Inl RtInvalidWorkspaceKey"
proof -
  let ?k = "workspace_key_rotate g k"
  have r: "wk_epoch ?k = 0" "wk_workspace_id ?k = wk_workspace_id k"
    "wk_key_id ?k = workspace_key_id_for_epoch (wk_workspace_id k) 0"
    using assms(2) by (simp_all add: workspace_key_rotate_def Let_def)
  have ne: "workspace_key_id_for_epoch (wk_workspace_id k) 0 \<noteq> workspace_key_id_for_epoch (wk_workspace_id k) 1"
    by (auto dest: workspace_key_id_inject)
  have "workspace_key_from_bytes L (workspace_key_to_vec_pretty L (workspace_key_persisted ?k)
      @ (if b then [0x0A] else [])) = Inl RtInvalidWorkspaceKey" for b
    using assms(5) ne r
    by (auto simp: workspace_key_from_bytes_def workspace_key_json_law_def Let_def workspace_key_persisted_def
        content_key_schema_supported_def bind_res_def ok_or_def max_def)
  moreover have "within_limit rt' (workspace_key_path rt (wk_workspace_id ?k))" using assms(6) r(2) by simp
  ultimately show ?thesis using saved_workspace_key_read [OF assms(4,5)] r(1,2) by (simp add: bind_res_def)
qed

section \<open>Examples\<close>

definition sample_workspace_key :: WorkspaceKey where
  "sample_workspace_key = workspace_key_generate (ContentKey (replicate 32 1)) (WorkspaceId ''w'')"

definition sample_channel_key :: ChannelKey where
  "sample_channel_key = channel_key_generate (ContentKey (replicate 32 2)) (WorkspaceId ''w'') (ChannelId ''c'')"

definition sample_secret_lib :: "bytes SecretLib" where
  "sample_secret_lib = \<lparr>store_lib = \<lparr>ident = sample_lib, event_to_vec = (\<lambda>_. []), event_from_slice = (\<lambda>_. None)\<rparr>,
     secret_to_vec_pretty = (\<lambda>_. [2]), secret_from_slice = (\<lambda>_. None)\<rparr>"

definition key_lib_of :: "WorkspaceKey \<Rightarrow> bytes KeyLib" where
  "key_lib_of k = \<lparr>secret_lib = sample_secret_lib,
     workspace_key_to_vec_pretty = (\<lambda>_. [1]), workspace_key_from_slice = (\<lambda>_. Some (workspace_key_persisted k)),
     channel_key_to_vec_pretty = (\<lambda>_. [1]),
     channel_key_from_slice = (\<lambda>_. Some (channel_key_persisted sample_channel_key))\<rparr>"

definition sample_runtime :: LocalRuntime where
  "sample_runtime = \<lparr>rt_paths = runtime_paths_new ''d'' None, rt_identity = from_signing_key sample_lib sample_key,
     rt_identity_passphrase = None, rt_store = [], rt_files = fmempty, rt_blobs = fmempty\<rparr>"

lemma sample_keys_ok: "workspace_key_ok sample_workspace_key" "channel_key_ok sample_channel_key"
  by (simp_all add: workspace_key_ok_def channel_key_ok_def sample_workspace_key_def sample_channel_key_def
      workspace_key_generate_def channel_key_generate_def Let_def full_length_def)

lemma key_lib_of_laws:
  "workspace_key_file_law (key_lib_of k) [] (replicate 12 0) sample_runtime k"
  "channel_key_file_law (key_lib_of k) [] (replicate 12 0) sample_runtime sample_channel_key"
  using shift_cipher_law
  by (simp_all add: workspace_key_json_law_def channel_key_json_law_def secret_file_law_def key_lib_of_def
      sample_secret_lib_def sample_runtime_def) (simp_all add: sample_lib_def)

abbreviation saved_as :: "string \<Rightarrow> LocalRuntime" where
  "saved_as path \<equiv> sample_runtime\<lparr>rt_files := fmupd path [1, 0x0A] fmempty\<rparr>"

lemma sample_saves:
  "save_workspace_key (key_lib_of k) [] (replicate 12 0) sample_runtime k
     = Inr (saved_as (workspace_key_path sample_runtime (wk_workspace_id k)))"
  "save_channel_key (key_lib_of k) [] (replicate 12 0) sample_runtime sample_channel_key
     = Inr (saved_as (channel_key_path sample_runtime (WorkspaceId ''w'') (ChannelId ''c'')))"
  by (simp_all add: save_workspace_key_def save_channel_key_def write_local_secret_file_def bind_res_def
      write_secret_file_def key_lib_of_def sample_runtime_def sample_channel_key_def channel_key_generate_def Let_def)

lemma sample_limit: "within_limit (saved_as path) path'"
  by (simp add: within_limit_def sample_runtime_def)

theorem rotation_keeps_every_key_witness:
  "workspace_key_resolve_content_key
     (workspace_key_rotate (ContentKey [2]) (workspace_key_generate (ContentKey [1]) (WorkspaceId ''w'')))
     (workspace_key_id_for_epoch (WorkspaceId ''w'') 1)
   = Some \<lparr>rk_key_id = workspace_key_id_for_epoch (WorkspaceId ''w'') 1, rk_content_key = ContentKey [1]\<rparr>"
  using rotation_keeps_every_key [of "[ContentKey [2]]" "ContentKey [1]" "WorkspaceId ''w''" "ChannelId ''c''"]
  by (auto dest!: spec [of _ "0 :: nat"])

theorem key_file_round_trip_witness:
  "load_workspace_key (key_lib_of sample_workspace_key) (saved_as (workspace_key_path sample_runtime (WorkspaceId ''w'')))
     (WorkspaceId ''w'') = Inr (Some sample_workspace_key)"
proof -
  have ids: "wk_workspace_id sample_workspace_key = WorkspaceId ''w''"
    "ck_workspace_id sample_channel_key = WorkspaceId ''w''" "ck_channel_id sample_channel_key = ChannelId ''c''"
    by (simp_all add: sample_workspace_key_def sample_channel_key_def workspace_key_generate_def
        channel_key_generate_def Let_def)
  from key_file_round_trip [OF sample_keys_ok sample_saves key_lib_of_laws sample_limit sample_limit]
  show ?thesis by (simp add: ids)
qed

lemma sample_load:
  "load_workspace_key (key_lib_of sample_workspace_key) (saved_as (workspace_key_path sample_runtime (WorkspaceId ''w'')))
     (WorkspaceId ''w'') = Inr (Some sample_workspace_key)"
  using save_load_workspace_key [OF sample_keys_ok(1) sample_saves(1) key_lib_of_laws(1) sample_limit]
  by (simp add: sample_workspace_key_def workspace_key_generate_def Let_def)

theorem imported_key_is_the_exported_key_witness:
  "\<exists>exported other' imported.
     export_workspace_key (key_lib_of sample_workspace_key)
       (saved_as (workspace_key_path sample_runtime (WorkspaceId ''w''))) (WorkspaceId ''w'') = Inr exported
     \<and> import_workspace_key (key_lib_of sample_workspace_key) [] (replicate 12 0) sample_runtime exported
       = Inr (other', imported)
     \<and> load_workspace_key (key_lib_of sample_workspace_key) other' (WorkspaceId ''w'') = Inr (Some sample_workspace_key)"
proof -
  let ?L = "key_lib_of sample_workspace_key"
  let ?rt = "saved_as (workspace_key_path sample_runtime (WorkspaceId ''w''))"
  have w: "wk_workspace_id sample_workspace_key = WorkspaceId ''w''"
    by (simp add: sample_workspace_key_def workspace_key_generate_def Let_def)
  obtain exported where x: "export_workspace_key ?L ?rt (WorkspaceId ''w'') = Inr exported"
    "exported = workspace_key_exported (device_str (di_device_id (rt_identity ?rt))) sample_workspace_key"
    using sample_load by (simp add: export_workspace_key_def bind_res_def ok_or_def workspace_key_exported_def)
  obtain imported where i: "import_workspace_key ?L [] (replicate 12 0) sample_runtime exported = Inr (?rt, imported)"
    using workspace_key_from_exported [OF sample_keys_ok(1)] sample_saves(1) [of sample_workspace_key]
    by (simp add: import_workspace_key_def x(2) bind_res_def w)
  have "load_workspace_key ?L ?rt (wk_workspace_id sample_workspace_key) = Inr (Some sample_workspace_key)"
    using imported_key_is_the_exported_key [OF sample_load x(1) i key_lib_of_laws(1) sample_limit] by simp
  with x(1) i w show ?thesis by auto
qed

definition last_key :: WorkspaceKey where
  "last_key = sample_workspace_key\<lparr>wk_epoch := - 1, wk_key_id := workspace_key_id_for_epoch (WorkspaceId ''w'') (- 1)\<rparr>"

theorem last_epoch_rotation_is_lost_witness:
  "wk_epoch last_key = - 1 \<and> (\<exists>rt'. save_workspace_key (key_lib_of (workspace_key_rotate (ContentKey (replicate 32 3)) last_key))
     [] (replicate 12 0) sample_runtime (workspace_key_rotate (ContentKey (replicate 32 3)) last_key) = Inr rt'
   \<and> load_workspace_key (key_lib_of (workspace_key_rotate (ContentKey (replicate 32 3)) last_key)) rt' (WorkspaceId ''w'')
     = Inl RtInvalidWorkspaceKey)"
proof -
  let ?g = "ContentKey (replicate 32 3)"
  have k: "workspace_key_ok last_key" "wk_epoch last_key = - 1" "full_length ?g"
    "wk_workspace_id last_key = WorkspaceId ''w''"
    using sample_keys_ok(1)
    by (simp_all add: last_key_def workspace_key_ok_def full_length_def)
      (simp_all add: sample_workspace_key_def workspace_key_generate_def Let_def)
  from last_epoch_rotation_is_lost [OF k(1-3) sample_saves(1) key_lib_of_laws(1) sample_limit]
  show ?thesis using k(2,4) sample_saves(1) [of "workspace_key_rotate ?g last_key"] by auto
qed

end
