(* ===== verification/Media_Correct.thy ===== *)
theory Media_Correct
  imports Media
begin

text \<open>
  Lemmas on the media store.  The locale \<open>hashed_files\<close> states what whole blobs and chunks have in common: a
  file under the name of its hash, which reading checks and writing does not replace.  It is interpreted for
  both, and its client is a device that stores one file after the other.
\<close>

section \<open>Files under the name of their hash\<close>

locale hashed_files =
  fixes hash :: "bytes \<Rightarrow> string" and limit :: nat and path :: "string \<Rightarrow> string list"
    and get :: "BlobFiles \<Rightarrow> string \<Rightarrow> MediaError + bytes option"
    and put :: "BlobFiles \<Rightarrow> string \<Rightarrow> bytes \<Rightarrow> BlobFiles \<times> (MediaError + unit)"
  assumes path_inj: "path h = path h' \<Longrightarrow> h = h'"
    and get_Some: "get st h = Inr (Some b) \<longleftrightarrow>
      validate_hash h = Inr () \<and> fmlookup st (path h) = Some b \<and> length b \<le> limit \<and> hash b = h"
    and get_None: "get st h = Inr None \<longleftrightarrow> validate_hash h = Inr () \<and> fmlookup st (path h) = None"
    and put_checks: "put st h b = (st', Inr ()) \<Longrightarrow> validate_hash h = Inr () \<and> hash b = h \<and> length b \<le> limit"
    and put_fails: "put st h b = (st', Inl err) \<Longrightarrow> st' = st"
    and put_frame: "put st h b = (st', r) \<Longrightarrow> p \<noteq> path h \<Longrightarrow> fmlookup st' p = fmlookup st p"
    and put_new: "put st h b = (st', Inr ()) \<Longrightarrow> fmlookup st (path h) = None \<Longrightarrow> fmlookup st' (path h) = Some b"
    and put_old: "put st h b = (st', Inr ()) \<Longrightarrow> fmlookup st (path h) = Some old \<Longrightarrow> length old \<le> limit \<Longrightarrow> st' = st"
begin

text \<open>The file of \<open>h\<close> is absent or can be read.\<close>

definition undamaged :: "BlobFiles \<Rightarrow> string \<Rightarrow> bool" where
  "undamaged st h \<longleftrightarrow> get st h = Inr None \<or> (\<exists>b. get st h = Inr (Some b))"

lemma get_matches: "get st h = Inr (Some b) \<Longrightarrow> hash b = h"
  by (simp add: get_Some)

lemma readable_after_put:
  assumes "put st h b = (st', Inr ())" "undamaged st h"
  shows "\<exists>b'. get st' h = Inr (Some b') \<and> (get st h = Inr None \<longrightarrow> b' = b)"
  using put_checks [OF assms(1)] put_new [OF assms(1)] put_old [OF assms(1)] assms(2)
  by (auto simp: undamaged_def get_Some get_None)

lemma put_keeps_readable:
  assumes "put st h b = (st', r)" "get st h' = Inr (Some b')"
  shows "get st' h' = Inr (Some b')"
proof (cases r)
  case (Inl err)
  then show ?thesis using assms put_fails by blast
next
  case (Inr u)
  then have ok: "put st h b = (st', Inr ())" using assms(1) by simp
  show ?thesis
  proof (cases "h' = h")
    case True
    then show ?thesis using put_old [OF ok] assms(2) by (auto simp: get_Some)
  next
    case False
    then have "path h' \<noteq> path h" using path_inj by blast
    then show ?thesis using put_frame [OF ok] assms(2) by (simp add: get_Some)
  qed
qed

lemma put_keeps_undamaged:
  assumes "put st h b = (st', r)" "undamaged st h'"
  shows "undamaged st' h'"
proof (cases "\<exists>b'. get st h' = Inr (Some b')")
  case True
  then show ?thesis using put_keeps_readable [OF assms(1)] by (auto simp: undamaged_def)
next
  case False
  then have none: "get st h' = Inr None" using assms(2) by (auto simp: undamaged_def)
  show ?thesis
  proof (cases r)
    case (Inl err)
    then show ?thesis using put_fails assms by blast
  next
    case (Inr u)
    then have ok: "put st h b = (st', Inr ())" using assms(1) by simp
    show ?thesis
    proof (cases "h' = h")
      case True
      then show ?thesis using readable_after_put [OF ok] none by (auto simp: undamaged_def)
    next
      case False
      then have "path h' \<noteq> path h" using path_inj by blast
      then show ?thesis using put_frame [OF ok] none by (simp add: get_None undamaged_def)
    qed
  qed
qed

fun puts :: "BlobFiles \<Rightarrow> (string \<times> bytes) list \<Rightarrow> BlobFiles \<times> (MediaError + unit)" where
  "puts st [] = (st, Inr ())"
| "puts st ((h, b) # rest) = and_then (put st h b) (\<lambda>st _. puts st rest)"

lemma puts_Cons:
  "puts st ((h, b) # rest) = (st', Inr ()) \<longleftrightarrow> (\<exists>st1. put st h b = (st1, Inr ()) \<and> puts st1 rest = (st', Inr ()))"
  by (auto simp: and_then_def split: prod.splits sum.splits)

lemma puts_keep_readable: "puts st hbs = (st', Inr ()) \<Longrightarrow> get st h = Inr (Some b) \<Longrightarrow> get st' h = Inr (Some b)"
  by (induction st hbs rule: puts.induct) (use put_keeps_readable in \<open>auto simp: puts_Cons simp del: puts.simps(2)\<close>)

lemma puts_frame: "puts st hbs = (st', Inr ()) \<Longrightarrow> p \<notin> path ` fst ` set hbs \<Longrightarrow> fmlookup st' p = fmlookup st p"
  by (induction st hbs rule: puts.induct) (use put_frame in \<open>fastforce simp: puts_Cons simp del: puts.simps(2)\<close>)+

text \<open>After the files are stored every one of them can be read, if none was damaged before.\<close>

lemma puts_readable:
  assumes "puts st hbs = (st', Inr ())" "\<forall>(h, b) \<in> set hbs. undamaged st h" "(h, b) \<in> set hbs"
  shows "\<exists>b'. get st' h = Inr (Some b')"
  using assms
proof (induction st hbs rule: puts.induct)
  case (2 st h0 b0 rest)
  then obtain st1 where st1: "put st h0 b0 = (st1, Inr ())" "puts st1 rest = (st', Inr ())"
    by (auto simp: puts_Cons simp del: puts.simps(2))
  show ?case
  proof (cases "(h, b) \<in> set rest")
    case True
    have "\<forall>(h, b) \<in> set rest. undamaged st1 h" using "2.prems"(2) put_keeps_undamaged [OF st1(1)] by auto
    then show ?thesis using "2.IH" [OF st1(2)] True by simp
  next
    case False
    then have "h = h0" using "2.prems"(3) by auto
    then obtain b' where "get st1 h = Inr (Some b')" using readable_after_put [OF st1(1)] "2.prems"(2) by auto
    then show ?thesis using puts_keep_readable [OF st1(2)] by blast
  qed
qed simp

text \<open>If no file is in the way of another, every one of them holds what was stored.\<close>

definition unobstructed :: "BlobFiles \<Rightarrow> (string \<times> bytes) list \<Rightarrow> bool" where
  "unobstructed st hbs \<longleftrightarrow> (\<forall>(h, b) \<in> set hbs. fmlookup st (path h) \<in> {None, Some b} \<and> (\<forall>(h', b') \<in> set hbs. h' = h \<longrightarrow> b' = b))"

lemma unobstructed_after_put:
  assumes "unobstructed st ((h, b) # rest)" "put st h b = (st1, Inr ())"
  shows "unobstructed st1 rest" "get st1 h = Inr (Some b)"
proof -
  note checks = put_checks [OF assms(2)]
  have "fmlookup st (path h) = None \<or> fmlookup st (path h) = Some b" using assms(1) by (auto simp: unobstructed_def)
  then have there: "fmlookup st1 (path h) = Some b" using put_new [OF assms(2)] put_old [OF assms(2)] checks by auto
  then show "get st1 h = Inr (Some b)" using checks by (simp add: get_Some)
  show "unobstructed st1 rest" unfolding unobstructed_def
  proof (clarify, intro conjI)
    fix h' b' assume r: "(h', b') \<in> set rest"
    have old: "fmlookup st (path h') \<in> {None, Some b'}" "h' = h \<longrightarrow> b' = b" using assms(1) r by (auto simp: unobstructed_def)
    show "fmlookup st1 (path h') \<in> {None, Some b'}"
    proof (cases "h' = h")
      case False
      then have "path h' \<noteq> path h" using path_inj by blast
      then show ?thesis using put_frame [OF assms(2)] old by simp
    qed (use there old in simp)
    show "\<forall>(h'', b'') \<in> set rest. h'' = h' \<longrightarrow> b'' = b'" using assms(1) r by (auto simp: unobstructed_def)
  qed
qed

lemma puts_stored: "puts st hbs = (st', Inr ()) \<Longrightarrow> unobstructed st hbs \<Longrightarrow> (h, b) \<in> set hbs \<Longrightarrow> get st' h = Inr (Some b)"
proof (induction hbs arbitrary: st)
  case (Cons hb rest)
  obtain h0 b0 where hb: "hb = (h0, b0)" by (cases hb)
  then obtain st1 where st1: "put st h0 b0 = (st1, Inr ())" "puts st1 rest = (st', Inr ())"
    using Cons.prems(1) by (auto simp: puts_Cons simp del: puts.simps(2))
  note after = unobstructed_after_put [OF Cons.prems(2) [unfolded hb] st1(1)]
  show ?case
  proof (cases "(h, b) \<in> set rest")
    case True
    then show ?thesis using Cons.IH [OF st1(2) after(1)] by simp
  next
    case False
    then show ?thesis using puts_keep_readable [OF st1(2) after(2)] Cons.prems(3) hb by simp
  qed
qed simp

end

section \<open>Blobs and chunks\<close>

lemma blob_path_Inr [simp]: "blob_path h = Inr p \<longleftrightarrow> validate_hash h = Inr () \<and> p = [take 2 h, h]"
  by (auto simp: blob_path_def result_simps)

lemma chunk_path_Inr [simp]: "chunk_path h = Inr p \<longleftrightarrow> validate_hash h = Inr () \<and> p = [''chunks'', take 2 h, h]"
  by (auto simp: chunk_path_def result_simps)

lemma manifest_path_Inr [simp]:
  "manifest_path h = Inr p \<longleftrightarrow> validate_hash h = Inr () \<and> p = [''manifests'', take 2 h, h @ ''.json'']"
  by (auto simp: manifest_path_def result_simps)

lemma valid_paths:
  "validate_hash h = Inr () \<Longrightarrow> blob_path h = Inr [take 2 h, h]"
  "validate_hash h = Inr () \<Longrightarrow> chunk_path h = Inr [''chunks'', take 2 h, h]"
  "validate_hash h = Inr () \<Longrightarrow> manifest_path h = Inr [''manifests'', take 2 h, h @ ''.json'']"
  by simp_all

lemma get_bytes_Some:
  "get_bytes M st h = Inr (Some b) \<longleftrightarrow>
     validate_hash h = Inr () \<and> fmlookup st [take 2 h, h] = Some b \<and> length b \<le> BLOB_FILE_MAX_BYTES \<and> blob_hash M b = h"
  by (auto simp: get_bytes_def valid_paths read_blob_file_def validate_blob_file_size_def result_simps split: option.splits)

lemma get_bytes_None:
  "get_bytes M st h = Inr None \<longleftrightarrow> validate_hash h = Inr () \<and> fmlookup st [take 2 h, h] = None"
  by (auto simp: get_bytes_def valid_paths read_blob_file_def validate_blob_file_size_def result_simps split: option.splits)

lemma get_chunk_Some:
  "get_chunk M st h = Inr (Some b) \<longleftrightarrow>
     validate_hash h = Inr () \<and> fmlookup st [''chunks'', take 2 h, h] = Some b \<and> length b \<le> BLOB_CHUNK_FILE_MAX_BYTES
     \<and> blob_hash M b = h"
  by (auto simp: get_chunk_def valid_paths read_chunk_file_def validate_chunk_file_size_def result_simps split: option.splits)

lemma get_chunk_None:
  "get_chunk M st h = Inr None \<longleftrightarrow> validate_hash h = Inr () \<and> fmlookup st [''chunks'', take 2 h, h] = None"
  by (auto simp: get_chunk_def valid_paths read_chunk_file_def validate_chunk_file_size_def result_simps split: option.splits)

lemma has_blob_Inr:
  "has_blob st h = Inr x \<longleftrightarrow> validate_hash h = Inr ()
     \<and> x = (case fmlookup st [take 2 h, h] of None \<Rightarrow> False | Some b \<Rightarrow> length b \<le> BLOB_FILE_MAX_BYTES)"
  by (auto simp: has_blob_def valid_paths result_simps)

lemma has_chunk_Inr:
  "has_chunk st h = Inr x \<longleftrightarrow> validate_hash h = Inr () \<and> x = contains_key st [''chunks'', take 2 h, h]"
  by (auto simp: has_chunk_def valid_paths result_simps)

lemma fmupd_fmdrop: "fmupd k v (fmdrop k m) = fmupd k v m"
  by (rule fmap_ext) simp

lemma put_bytes_ok:
  assumes "put_bytes_with_hash M st h b = (st', Inr ())"
  shows "validate_hash h = Inr ()" "blob_hash M b = h" "length b \<le> BLOB_FILE_MAX_BYTES"
    "st' = (if has_blob st h = Inr True then st else fmupd [take 2 h, h] b st)"
  using assms
  by (auto simp: put_bytes_with_hash_def attempt_Inr valid_paths validate_blob_file_size_def result_simps Let_def
      write_file_atomically_def has_blob_Inr fmupd_fmdrop split: if_splits option.splits)

lemma put_bytes_fails: "put_bytes_with_hash M st h b = (st', Inl err) \<Longrightarrow> st' = st"
  by (auto simp: put_bytes_with_hash_def attempt_Inl Let_def split: if_splits)

lemma put_chunk_ok:
  assumes "put_chunk_with_hash M st h b = (st', Inr ())"
  shows "validate_hash h = Inr ()" "blob_hash M b = h" "length b \<le> BLOB_CHUNK_FILE_MAX_BYTES"
    "st' = (if contains_key st [''chunks'', take 2 h, h] then st else fmupd [''chunks'', take 2 h, h] b st)"
  using assms
  by (auto simp: put_chunk_with_hash_def attempt_Inr valid_paths validate_chunk_file_size_def result_simps Let_def
      write_file_atomically_def split: if_splits)

lemma put_chunk_fails: "put_chunk_with_hash M st h b = (st', Inl err) \<Longrightarrow> st' = st"
  by (auto simp: put_chunk_with_hash_def attempt_Inl Let_def split: if_splits)

interpretation blobs: hashed_files "blob_hash M" BLOB_FILE_MAX_BYTES "\<lambda>h. [take 2 h, h]" "get_bytes M" "put_bytes_with_hash M"
proof (unfold_locales, goal_cases)
  case (6 st h b st' r p)
  then show ?case by (cases r) (auto dest: put_bytes_ok(4) put_bytes_fails)
next
  case (8 st h b st' old)
  then show ?case using put_bytes_ok [OF 8(1)] by (simp add: has_blob_Inr)
qed (auto simp: get_bytes_Some get_bytes_None has_blob_Inr dest: put_bytes_ok put_bytes_fails)

interpretation chunks: hashed_files "blob_hash M" BLOB_CHUNK_FILE_MAX_BYTES "\<lambda>h. [''chunks'', take 2 h, h]" "get_chunk M"
  "put_chunk_with_hash M"
proof (unfold_locales, goal_cases)
  case (6 st h b st' r p)
  then show ?case by (cases r) (auto dest: put_chunk_ok(4) put_chunk_fails)
qed (auto simp: get_chunk_Some get_chunk_None contains_key_def dest: put_chunk_ok put_chunk_fails)

lemma put_chunks_puts: "put_chunks M st hbs = chunks.puts M st hbs"
  by (induction M st hbs rule: put_chunks.induct) (simp_all add: and_then_def split: prod.splits sum.splits)

section \<open>Chunks of a blob\<close>

lemma byte_chunks_Nil [simp]: "byte_chunks n [] = []"
  by (simp add: byte_chunks.simps)

lemma byte_chunks_Cons: "0 < n \<Longrightarrow> xs \<noteq> [] \<Longrightarrow> byte_chunks n xs = take n xs # byte_chunks n (drop n xs)"
  by (simp add: byte_chunks.simps)

lemma concat_byte_chunks: "0 < n \<Longrightarrow> concat (byte_chunks n xs) = xs"
proof (induction n xs rule: byte_chunks.induct)
  case (1 n xs)
  then show ?case by (cases "xs = []") (simp_all add: byte_chunks_Cons)
qed

lemma count_step: "n < l \<Longrightarrow> Suc ((l - n - 1) div n) = (l - 1) div n" if "0 < n" for l n :: nat
proof -
  assume "n < l"
  then have "l - 1 = (l - n - 1) + n" by simp
  then show ?thesis using that by (metis div_add_self2 Suc_eq_plus1 not_gr_zero)
qed

lemma length_byte_chunks:
  "0 < n \<Longrightarrow> length (byte_chunks n xs) = (if xs = [] then 0 else (length xs - 1) div n + 1)"
proof (induction n xs rule: byte_chunks.induct)
  case (1 n xs)
  show ?case
  proof (cases "xs = []")
    case False
    then have "length (byte_chunks n xs) = Suc (length (byte_chunks n (drop n xs)))"
      using "1.prems" by (simp add: byte_chunks_Cons)
    also have "\<dots> = (length xs - 1) div n + 1"
    proof (cases "length xs \<le> n")
      case True
      then show ?thesis using False "1.prems" by (simp add: le_eq_less_or_eq Suc_le_lessD)
    next
      case longer: False
      then show ?thesis using "1.IH" False "1.prems" count_step [of n "length xs"] by simp
    qed
    finally show ?thesis using False by simp
  qed simp
qed

lemma nth_byte_chunks:
  "0 < n \<Longrightarrow> i < length (byte_chunks n xs) \<Longrightarrow> byte_chunks n xs ! i = take n (drop (i * n) xs)"
proof (induction n xs arbitrary: i rule: byte_chunks.induct)
  case (1 n xs)
  then have nonempty: "xs \<noteq> []" by auto
  show ?case
  proof (cases i)
    case 0
    then show ?thesis using nonempty "1.prems" by (simp add: byte_chunks_Cons)
  next
    case (Suc j)
    then have "j < length (byte_chunks n (drop n xs))" using nonempty "1.prems" by (simp add: byte_chunks_Cons)
    then show ?thesis using "1.IH" [of j] nonempty "1.prems" Suc by (simp add: byte_chunks_Cons add.commute)
  qed
qed

lemma byte_chunks_within: "0 < n \<Longrightarrow> i < length (byte_chunks n xs) \<Longrightarrow> i * n < length xs"
proof -
  assume n: "0 < n" and i: "i < length (byte_chunks n xs)"
  then have nonempty: "xs \<noteq> []" by auto
  then have "i \<le> (length xs - 1) div n" using i n by (simp add: length_byte_chunks)
  then have "i * n \<le> length xs - 1" using n by (simp add: less_eq_div_iff_mult_less_eq)
  then show ?thesis using nonempty by (cases xs) auto
qed

lemma byte_chunks_full:
  "0 < n \<Longrightarrow> Suc i < length (byte_chunks n xs) \<Longrightarrow> length (byte_chunks n xs ! i) = n"
  using byte_chunks_within [of n "Suc i" xs] by (simp add: nth_byte_chunks)

lemma byte_chunks_last:
  assumes "0 < n" "i < length (byte_chunks n xs)" "\<not> Suc i < length (byte_chunks n xs)"
  shows "length (byte_chunks n xs ! i) = length xs - i * n"
proof -
  have "length (byte_chunks n xs) = Suc i" using assms by simp
  moreover have "xs \<noteq> []" using assms(2) by auto
  ultimately have "(length xs - 1) div n = i" using assms(1) by (simp add: length_byte_chunks)
  then have "length xs - 1 < Suc i * n" using assms(1)
    by (metis dividend_less_times_div mult.commute mult_Suc add.commute mult_Suc_right)
  then have "length xs - i * n \<le> n" by simp
  then show ?thesis using assms by (simp add: nth_byte_chunks min_def)
qed

section \<open>Described blobs\<close>

lemma expected_count:
  "expected_chunk_count l n = Inr k \<longleftrightarrow> 0 < n \<and> n \<le> BLOB_CHUNK_FILE_MAX_BYTES \<and> k \<le> BLOB_DESCRIPTOR_MAX_CHUNKS
     \<and> k = (if l = 0 then 0 else (unat l - 1) div n + 1)"
  by (auto simp: expected_chunk_count_def Let_def)

lemma valid_descriptor:
  "validate_descriptor d = Inr () \<longleftrightarrow> validate_hash (bd_hash d) = Inr ()
     \<and> expected_chunk_count (bd_byte_len d) (bd_chunk_size d) = Inr (length (bd_chunk_hashes d))
     \<and> (\<forall>h \<in> set (bd_chunk_hashes d). validate_hash h = Inr ())"
  by (auto simp: validate_descriptor_def result_simps)

lemma described [simp]:
  "bd_hash (describe_blob M content n) = blob_hash M content"
  "bd_byte_len (describe_blob M content n) = of_nat (length content)"
  "bd_chunk_size (describe_blob M content n) = max n 1"
  "bd_chunk_hashes (describe_blob M content n) = map (blob_hash M) (byte_chunks (max n 1) content)"
  by (simp_all add: describe_blob_def Let_def)

lemma unat_u64: "k < 2 ^ 64 \<Longrightarrow> unat (of_nat k :: u64) = k"
  by (simp add: unat_of_nat take_bit_nat_eq_self)

lemma of_nat_u64_zero:
  assumes "k < 2 ^ 64"
  shows "(of_nat k = (0 :: u64)) \<longleftrightarrow> k = 0"
  using unat_eq_zero [of "of_nat k :: u64"] unfolding unat_u64 [OF assms] by blast

lemma plan_covers:
  assumes "validate_chunk_plan (length content) (max n 1) = Inr ()"
  shows "length content < 2 ^ 64" "max n 1 \<le> BLOB_CHUNK_FILE_MAX_BYTES"
    "expected_chunk_count (of_nat (length content)) (max n 1) = Inr (length (byte_chunks (max n 1) content))"
proof -
  obtain k where k: "length content < 2 ^ 64" "expected_chunk_count (of_nat (length content)) (max n 1) = Inr k"
    using assms by (auto simp: validate_chunk_plan_def bind_res_Inr split: if_splits)
  then show "length content < 2 ^ 64" by simp
  show "max n 1 \<le> BLOB_CHUNK_FILE_MAX_BYTES" using k(2) by (simp only: expected_count)
  have "k = (if length content = 0 then 0 else (length content - 1) div max n 1 + 1)"
    using k(2) unfolding expected_count by (simp only: of_nat_u64_zero [OF k(1)] unat_u64 [OF k(1)])
  then have "k = length (byte_chunks (max n 1) content)" by (simp add: length_byte_chunks)
  then show "expected_chunk_count (of_nat (length content)) (max n 1) = Inr (length (byte_chunks (max n 1) content))"
    using k(2) by simp
qed

text \<open>Hashes have the form that the store asks of its names.\<close>

definition hash_law :: "MediaLib \<Rightarrow> bool" where
  "hash_law M \<longleftrightarrow> (\<forall>content. validate_hash (blob_hash M content) = Inr ())"

lemma described_valid:
  assumes "validate_chunk_plan (length content) (max n 1) = Inr ()" "hash_law M"
  shows "validate_descriptor (describe_blob M content n) = Inr ()"
  using plan_covers(3) [OF assms(1)] assms(2) by (simp add: valid_descriptor hash_law_def)

lemma described_chunk_len:
  assumes "validate_chunk_plan (length content) (max n 1) = Inr ()" "hash_law M"
    and "i < length (byte_chunks (max n 1) content)"
  shows "expected_chunk_byte_len (describe_blob M content n) i = Inr (length (byte_chunks (max n 1) content ! i))"
proof (cases "Suc i < length (byte_chunks (max n 1) content)")
  case True
  then show ?thesis using assms(3) described_valid [OF assms(1,2)] byte_chunks_full [of "max n 1" i content]
    by (simp add: expected_chunk_byte_len_def)
next
  case False
  note len = plan_covers(1) [OF assms(1)]
  have within: "i * max n 1 < length content" using byte_chunks_within [OF _ assms(3)] by simp
  then have "i * max n 1 < 2 ^ 64" using len by linarith
  then show ?thesis
    using False assms(3) described_valid [OF assms(1,2)] byte_chunks_last [OF _ assms(3) False] within
    by (simp add: expected_chunk_byte_len_def Let_def unat_u64 [OF len])
qed

lemma chunk_len_bound:
  assumes "0 < n" "i < length (byte_chunks n xs)"
  shows "length (byte_chunks n xs ! i) \<le> n"
  using assms by (simp add: nth_byte_chunks)

section \<open>Reading what was stored\<close>

lemma get_manifest_Some:
  "get_manifest M st h = Inr (Some d) \<longleftrightarrow> validate_hash h = Inr ()
     \<and> (\<exists>content. fmlookup st [''manifests'', take 2 h, h @ ''.json''] = Some content
          \<and> length content \<le> BLOB_MANIFEST_MAX_BYTES \<and> manifest_from_slice M content = Some d)
     \<and> validate_descriptor d = Inr () \<and> bd_hash d = h"
  by (auto simp: get_manifest_def valid_paths read_manifest_file_def result_simps split: option.splits if_splits)

lemma put_manifest_ok:
  "put_manifest M st d = (st', Inr ()) \<longleftrightarrow> validate_descriptor d = Inr ()
     \<and> st' = fmupd [''manifests'', take 2 (bd_hash d), bd_hash d @ ''.json''] (manifest_to_vec M d) st"
  by (auto simp: put_manifest_def attempt_Inr write_file_atomically_def valid_descriptor)

lemma put_chunked_ok:
  assumes "put_bytes_chunked M st content n = (st', Inr d)"
  obtains st1 where "d = describe_blob M content n" "validate_chunk_plan (length content) (max n 1) = Inr ()"
    "put_manifest M st d = (st1, Inr ())"
    "chunks.puts M st1 (zip (bd_chunk_hashes d) (byte_chunks (bd_chunk_size d) content)) = (st', Inr ())"
proof -
  have same: "describe_blob M content (max n 1) = describe_blob M content n" by (simp add: describe_blob_def Let_def)
  from assms obtain st1 where "validate_chunk_plan (length content) (max n 1) = Inr ()"
    "put_manifest M st (describe_blob M content n) = (st1, Inr ())" "d = describe_blob M content n"
    "put_chunks M st1 (zip (bd_chunk_hashes d) (byte_chunks (bd_chunk_size d) content)) = (st', Inr ())"
    unfolding put_bytes_chunked_def Let_def same
    by (auto simp: attempt_Inr and_then_def split: prod.splits sum.splits)
  then show ?thesis using that by (simp add: put_chunks_puts)
qed

lemma collect_all_chunks:
  assumes "\<forall>j < length hs. get_chunk M st (hs ! j) = Inr (Some (cs ! j))
      \<and> validate_chunk_payload M d (i + j) (cs ! j) = Inr ()" "length cs = length hs"
  shows "collect_chunks M st d i hs acc = Inr (Some (acc @ concat cs))"
  using assms
proof (induction hs arbitrary: cs i acc)
  case (Cons h hs)
  then obtain c cs' where cs: "cs = c # cs'" by (cases cs) auto
  have "collect_chunks M st d (Suc i) hs (acc @ c) = Inr (Some ((acc @ c) @ concat cs'))"
  proof (rule Cons.IH)
    show "\<forall>j < length hs. get_chunk M st (hs ! j) = Inr (Some (cs' ! j))
        \<and> validate_chunk_payload M d (Suc i + j) (cs' ! j) = Inr ()"
    proof (intro allI impI)
      fix j assume "j < length hs"
      then show "get_chunk M st (hs ! j) = Inr (Some (cs' ! j)) \<and> validate_chunk_payload M d (Suc i + j) (cs' ! j) = Inr ()"
        using Cons.prems(1) [rule_format, of "Suc j"] cs by simp
    qed
  qed (use Cons.prems cs in simp)
  then show ?case using Cons.prems(1) [rule_format, of 0] cs by simp
qed simp

lemma collected_chunks:
  assumes "collect_chunks M st d i hs acc = Inr (Some content)" "j < length hs"
  shows "\<exists>c. get_chunk M st (hs ! j) = Inr (Some c) \<and> validate_chunk_payload M d (i + j) c = Inr ()"
  using assms
proof (induction hs arbitrary: i j acc)
  case (Cons h hs)
  from Cons.prems(1) obtain c where c: "get_chunk M st h = Inr (Some c)" "validate_chunk_payload M d i c = Inr ()"
    "collect_chunks M st d (Suc i) hs (acc @ c) = Inr (Some content)"
    by (auto simp: bind_res_Inr split: option.splits)
  show ?case
  proof (cases j)
    case 0
    then show ?thesis using c by auto
  next
    case (Suc j')
    then show ?thesis using Cons.IH [OF c(3), of j'] Cons.prems(2) by simp
  qed
qed simp

lemma split_all_present:
  assumes "\<forall>j < length hs. has_expected_chunk_len st d (i + j) = Inr True"
  shows "split_chunks st d i hs = Inr (hs, [])"
  using assms
proof (induction hs arbitrary: i)
  case (Cons h hs)
  have "\<forall>j < length hs. has_expected_chunk_len st d (Suc i + j) = Inr True"
    using Cons.prems by (metis add_Suc_shift Suc_less_eq length_Cons)
  then show ?case using Cons.IH [of "Suc i"] Cons.prems [rule_format, of 0] by simp
qed simp

lemma split_chunks_by:
  assumes "\<forall>j < length hs. has_expected_chunk_len st d (i + j) = Inr (present (i + j))"
  shows "split_chunks st d i hs = Inr (map (\<lambda>j. hs ! (j - i)) (filter present [i..<i + length hs]),
    map (\<lambda>j. hs ! (j - i)) (filter (\<lambda>j. \<not> present j) [i..<i + length hs]))"
  using assms
proof (induction hs arbitrary: i)
  case (Cons h hs)
  have "has_expected_chunk_len st d (Suc i + j) = Inr (present (Suc i + j))" if "j < length hs" for j
    using Cons.prems [rule_format, of "Suc j"] that by simp
  then have rest: "split_chunks st d (Suc i) hs = Inr (map (\<lambda>j. hs ! (j - Suc i)) (filter present [Suc i..<Suc i + length hs]),
      map (\<lambda>j. hs ! (j - Suc i)) (filter (\<lambda>j. \<not> present j) [Suc i..<Suc i + length hs]))"
    using Cons.IH by blast
  have shift: "map (\<lambda>j. hs ! (j - Suc i)) (filter P [Suc i..<n]) = map (\<lambda>j. (h # hs) ! (j - i)) (filter P [Suc i..<n])" for P n
    by (auto simp: nth_Cons split: nat.split) (metis Suc_diff_Suc Suc_inject Suc_le_lessD zero_less_diff not_less_eq_eq nat.distinct(1))+
  have "[i..<i + length (h # hs)] = i # [Suc i..<Suc i + length hs]"
    using upt_rec [of i "i + length (h # hs)"] by (simp del: upt_Suc)
  then show ?case using rest Cons.prems [rule_format, of 0] unfolding shift by simp
qed simp

lemma expected_len_defined:
  assumes "validate_descriptor d = Inr ()" "i < length (bd_chunk_hashes d)"
  shows "\<exists>n. expected_chunk_byte_len d i = Inr n"
proof (cases "Suc i < length (bd_chunk_hashes d)")
  case True
  then show ?thesis using assms by (simp add: expected_chunk_byte_len_def)
next
  case False
  let ?n = "bd_chunk_size d" and ?l = "unat (bd_byte_len d)"
  have "i = (?l - 1) div ?n" using False assms by (auto simp: valid_descriptor expected_count split: if_splits)
  then have "i * ?n \<le> ?l - 1" by (simp add: mult.commute)
  moreover have "?l < 2 ^ 64" using unsigned_less [of "bd_byte_len d", where ?'a = nat] by simp
  ultimately have "i * ?n \<le> ?l" "i * ?n < 2 ^ 64" by linarith+
  then show ?thesis using False assms by (simp add: expected_chunk_byte_len_def Let_def)
qed

lemma payload_has_len:
  assumes "get_chunk M st (bd_chunk_hashes d ! i) = Inr (Some c)" "validate_chunk_payload M d i c = Inr ()"
  shows "has_expected_chunk_len st d i = Inr True"
  using assms
  by (auto simp: validate_chunk_payload_def has_expected_chunk_len_def get_chunk_Some result_simps Let_def valid_paths split: if_splits)

end
