(* ===== verification/Media_Properties.thy ===== *)
theory Media_Properties
  imports Media_Correct
begin

text \<open>
  The properties of the media store: what is read has the hash that was asked for, what was stored in chunks is
  read back, pruning keeps what is referenced, and the chunks planned for a transfer complete a blob.
\<close>

section \<open>Integrity\<close>

lemma valid_count:
  assumes "\<forall>h \<in> set hs. validate_hash h = Inr ()"
  shows "\<exists>m. count_chunk_hashes hs = Inr m"
  using assms by (auto simp: count_chunk_hashes_def bind_res_Inr first_err_Inr)

lemma full_availability_valid:
  assumes "validate_descriptor d = Inr ()"
  shows "validate_blob_availability \<lparr>ba_hash = bd_hash d, ba_has_whole_blob = whole, ba_descriptor = Some d,
    ba_available_chunk_hashes = bd_chunk_hashes d, ba_missing_chunk_hashes = []\<rparr> = Inr ()"
proof -
  obtain m where m: "count_chunk_hashes (bd_chunk_hashes d) = Inr m"
    using valid_count assms by (auto simp: valid_descriptor)
  have none: "count_chunk_hashes [] = Inr fmempty" by (simp add: count_chunk_hashes_def)
  show ?thesis using assms m none
    by (auto simp: validate_blob_availability_def valid_descriptor count_of_def then_res_Inr first_err_Inr bind_res_Inr
        ensure_def ok_or_def result_simps set_sorted_list_of_fmap)
qed

lemma readable_chunks_are_complete:
  assumes "get_bytes_chunked M st h = Inr (Some content)" "get_bytes M st h = Inr None"
  shows "has_complete_blob M st h = Inr True"
proof -
  obtain d where d: "get_manifest M st h = Inr (Some d)"
    "collect_chunks M st d 0 (bd_chunk_hashes d) [] = Inr (Some content)"
    using assms(1) by (auto simp: get_bytes_chunked_def bind_res_Inr split: option.splits)
  have "split_chunks st d 0 (bd_chunk_hashes d) = Inr (bd_chunk_hashes d, [])"
    using collected_chunks [OF d(2)] payload_has_len by (intro split_all_present) (metis add_0)
  moreover have "has_blob st h = Inr False" using assms(2) by (simp add: has_blob_Inr get_bytes_None)
  moreover have valid: "validate_hash h = Inr ()" "validate_descriptor d = Inr ()" "bd_hash d = h"
    using d(1) by (simp_all add: get_manifest_Some)
  ultimately show ?thesis
    using d(1) full_availability_valid [OF valid(2)] valid
    by (simp add: has_complete_blob_def availability_def is_complete_def)
qed

text \<open>
  C27: whatever the files of the store hold, the bytes that are read for a hash have that hash, and a blob that
  can be read counts as complete.
\<close>

theorem read_bytes_have_their_hash:
  "(case get_complete_bytes M st h of
      Inr (Some content) \<Rightarrow> blob_hash M content = h \<and> has_complete_blob M st h = Inr True
    | _ \<Rightarrow> True)
   \<and> (case get_chunk M st h of Inr (Some content) \<Rightarrow> blob_hash M content = h | _ \<Rightarrow> True)"
proof -
  have "blob_hash M content = h \<and> has_complete_blob M st h = Inr True" if read: "get_complete_bytes M st h = Inr (Some content)" for content
  proof (cases "get_bytes M st h = Inr None")
    case True
    then have chunked: "get_bytes_chunked M st h = Inr (Some content)" using read by (simp add: get_complete_bytes_def)
    then have "blob_hash M content = h"
      by (auto simp: get_bytes_chunked_def validate_reassembled_blob_def get_manifest_Some result_simps split: option.splits if_splits)
    then show ?thesis using readable_chunks_are_complete [OF chunked True] by simp
  next
    case False
    then have "get_bytes M st h = Inr (Some content)"
      using read by (auto simp: get_complete_bytes_def bind_res_Inr split: option.splits)
    then show ?thesis by (simp add: get_bytes_Some has_complete_blob_def has_blob_def valid_paths)
  qed
  then show ?thesis using chunks.get_matches by (auto split: sum.splits option.splits)
qed

section \<open>Storing in chunks\<close>

text \<open>A file that is named by the hash of a piece of the content holds that piece, and no two pieces share a hash.\<close>

definition no_clash :: "MediaLib \<Rightarrow> BlobFiles \<Rightarrow> bytes list \<Rightarrow> bool" where
  "no_clash M st pieces \<longleftrightarrow> (\<forall>c \<in> set pieces.
     fmlookup st [''chunks'', take 2 (blob_hash M c), blob_hash M c] \<in> {None, Some c}
     \<and> (\<forall>c' \<in> set pieces. blob_hash M c' = blob_hash M c \<longrightarrow> c' = c))"

definition manifest_law :: "MediaLib \<Rightarrow> BlobDescriptor \<Rightarrow> bool" where
  "manifest_law M d \<longleftrightarrow> manifest_from_slice M (manifest_to_vec M d) = Some d"

lemma chunk_after_puts:
  assumes "chunks.puts M st (map (\<lambda>c. (blob_hash M c, c)) pieces) = (st', Inr ())" "no_clash M st pieces" "c \<in> set pieces"
  shows "get_chunk M st' (blob_hash M c) = Inr (Some c)"
  using assms(2,3) by (intro chunks.puts_stored [OF assms(1)]) (auto simp: chunks.unobstructed_def no_clash_def)

text \<open>
  C26: what is stored in chunks.  If storing a content in chunks succeeds and no file of the store clashes with
  the content or its chunks, then every chunk counts as present afterwards.  The content is read back from its
  hash, and the whole store says that the blob is complete, if its manifest is within the limit that reading a
  manifest has, or if the store had the whole blob before; otherwise reading fails with the error that the
  manifest is too large.
\<close>

theorem chunked_round_trip:
  assumes "put_bytes_chunked M st content n = (st', Inr d)" "hash_law M" "manifest_law M d"
    and "no_clash M st (byte_chunks (max n 1) content)"
    and "get_bytes M st (blob_hash M content) \<in> {Inr None, Inr (Some content)}"
  shows "missing_chunks st' d = Inr []
    \<and> (if length (manifest_to_vec M d) \<le> BLOB_MANIFEST_MAX_BYTES \<or> get_bytes M st (blob_hash M content) \<noteq> Inr None
       then get_complete_bytes M st' (blob_hash M content) = Inr (Some content)
         \<and> has_complete_blob M st' (blob_hash M content) = Inr True
       else get_complete_bytes M st' (blob_hash M content)
         = Inl (MdManifestTooLarge (length (manifest_to_vec M d)) BLOB_MANIFEST_MAX_BYTES))"
proof -
  let ?cs = "byte_chunks (max n 1) content" and ?h = "blob_hash M content"
  let ?manifest = "[''manifests'', take 2 ?h, ?h @ ''.json'']"
  obtain st1 where st1: "d = describe_blob M content n" "validate_chunk_plan (length content) (max n 1) = Inr ()"
    "put_manifest M st d = (st1, Inr ())"
    "chunks.puts M st1 (zip (bd_chunk_hashes d) (byte_chunks (bd_chunk_size d) content)) = (st', Inr ())"
    using put_chunked_ok [OF assms(1)] .
  have zips: "zip (map f xs) xs = map (\<lambda>x. (f x, x)) xs" for f :: "bytes \<Rightarrow> string" and xs by (induction xs) simp_all
  have puts: "chunks.puts M st1 (map (\<lambda>c. (blob_hash M c, c)) ?cs) = (st', Inr ())" using st1(1,4) by (simp add: zips)
  have st1_is: "st1 = fmupd ?manifest (manifest_to_vec M d) st"
    using st1(1,3) by (simp add: put_manifest_ok)
  then have clash: "no_clash M st1 ?cs" using assms(4) by (simp add: no_clash_def)
  note frame = chunks.puts_frame [OF puts]
  have files: "fmlookup st' ?manifest = Some (manifest_to_vec M d)" "fmlookup st' [take 2 ?h, ?h] = fmlookup st [take 2 ?h, ?h]"
    using st1_is frame by (simp_all add: image_iff)
  have valid: "validate_hash ?h = Inr ()" "validate_descriptor d = Inr ()" "bd_hash d = ?h"
    using described_valid [OF st1(2) assms(2)] assms(2) st1(1) by (simp_all add: hash_law_def)
  have chunk: "get_chunk M st' (blob_hash M c) = Inr (Some c)" if "c \<in> set ?cs" for c
    using chunk_after_puts [OF puts clash that] .
  have payload: "validate_chunk_payload M d i (?cs ! i) = Inr ()" if "i < length ?cs" for i
    using that valid(2) described_chunk_len [OF st1(2) assms(2) that] st1(1)
    by (simp add: validate_chunk_payload_def ensure_def)
  have "\<forall>j < length (bd_chunk_hashes d). has_expected_chunk_len st' d (0 + j) = Inr True"
    using chunk payload payload_has_len st1(1) by (auto intro!: payload_has_len)
  then have present: "missing_chunks st' d = Inr []"
    using split_all_present valid(2) st1(1) by (simp add: missing_chunks_def)
  consider (whole) "get_bytes M st ?h = Inr (Some content)" | (chunked) "get_bytes M st ?h = Inr None" using assms(5) by auto
  then show ?thesis
  proof cases
    case whole
    then have read: "get_bytes M st' ?h = Inr (Some content)" using files(2) by (simp add: get_bytes_Some)
    then have "has_complete_blob M st' ?h = Inr True"
      by (simp add: get_bytes_Some has_complete_blob_def has_blob_def valid_paths)
    then show ?thesis using present whole read by (simp add: get_complete_bytes_def)
  next
    case chunked
    then have no_blob: "get_bytes M st' ?h = Inr None" using files(2) by (simp add: get_bytes_None)
    show ?thesis
    proof (cases "length (manifest_to_vec M d) \<le> BLOB_MANIFEST_MAX_BYTES")
      case True
      then have manifest: "get_manifest M st' ?h = Inr (Some d)"
        using files(1) valid assms(3) by (simp add: get_manifest_Some manifest_law_def)
      have "collect_chunks M st' d 0 (bd_chunk_hashes d) [] = Inr (Some ([] @ concat ?cs))"
        using chunk payload st1(1) by (intro collect_all_chunks) auto
      then have read: "get_bytes_chunked M st' ?h = Inr (Some content)"
        using manifest valid(2) plan_covers(1) [OF st1(2)] st1(1)
        by (simp add: get_bytes_chunked_def concat_byte_chunks validate_reassembled_blob_def ensure_def)
      then show ?thesis
        using no_blob readable_chunks_are_complete [OF read no_blob] present True by (simp add: get_complete_bytes_def)
    next
      case False
      then have "get_manifest M st' ?h = Inl (MdManifestTooLarge (length (manifest_to_vec M d)) BLOB_MANIFEST_MAX_BYTES)"
        using files(1) valid(1) by (simp add: get_manifest_def valid_paths read_manifest_file_def bind_res_def ensure_def)
      then show ?thesis using no_blob present chunked False
        by (simp add: get_complete_bytes_def get_bytes_chunked_def bind_res_def)
    qed
  qed
qed

section \<open>Transfers\<close>

lemma counted:
  assumes "count_chunk_hashes hs = Inr m"
  shows "fmlookup m h = (if h \<in> set hs then Some (count_list hs h) else None)"
proof -
  have "fmlookup (foldl (\<lambda>counts h. fmupd h ((case fmlookup counts h of Some n \<Rightarrow> n | None \<Rightarrow> 0) + 1) counts) c hs) h
      = (if h \<in> set hs then Some (count_list hs h + (case fmlookup c h of Some n \<Rightarrow> n | None \<Rightarrow> 0)) else fmlookup c h)" for c
    by (induction hs arbitrary: c) (auto split: option.splits)
  then show ?thesis using assms by (auto simp: count_chunk_hashes_def bind_res_Inr)
qed

lemma complete_remote_has_all:
  assumes "validate_blob_availability a = Inr ()" "ba_descriptor a = Some d" "ba_missing_chunk_hashes a = []"
  shows "validate_descriptor d = Inr ()" "set (bd_chunk_hashes d) \<subseteq> set (ba_available_chunk_hashes a)"
proof -
  from assms obtain expected available missing where counts: "validate_descriptor d = Inr ()"
    "count_chunk_hashes (bd_chunk_hashes d) = Inr expected" "count_chunk_hashes (ba_available_chunk_hashes a) = Inr available"
    "count_chunk_hashes [] = Inr missing"
    "\<forall>r \<in> set (sorted_list_of_fmap expected).
      (case r of (h, n) \<Rightarrow> ensure (count_of available h + count_of missing h = n) MdInvalidDescriptor) = Inr ()"
    by (auto simp: validate_blob_availability_def result_simps split: if_splits)
  show "validate_descriptor d = Inr ()" using counts(1) .
  show "set (bd_chunk_hashes d) \<subseteq> set (ba_available_chunk_hashes a)"
  proof
    fix h assume h: "h \<in> set (bd_chunk_hashes d)"
    then have "count_of available h + count_of missing h = count_list (bd_chunk_hashes d) h"
      using bspec [OF counts(5), of "(h, count_list (bd_chunk_hashes d) h)"] counted [OF counts(2), of h]
      by (simp add: set_sorted_list_of_fmap ensure_Inr)
    moreover have "count_list (bd_chunk_hashes d) h \<noteq> 0" using h by (simp add: count_list_0_iff)
    moreover have "count_of missing h = 0" using counted [OF counts(4), of h] by (simp add: count_of_def)
    ultimately show "h \<in> set (ba_available_chunk_hashes a)"
      using counted [OF counts(3), of h] by (auto simp: count_of_def split: if_splits)
  qed
qed

lemma planned:
  "plan_needed st d seen hs = Inr needed \<Longrightarrow> h \<in> set hs \<Longrightarrow> h \<in> set (bd_chunk_hashes d) \<Longrightarrow> h \<notin> seen \<Longrightarrow>
     h \<in> set needed \<or> has_chunk st h = Inr True"
proof (induction hs arbitrary: seen needed)
  case (Cons x hs)
  show ?case
  proof (cases "x \<in> set (bd_chunk_hashes d) \<and> x \<notin> seen")
    case True
    then obtain present rest where r: "has_chunk st x = Inr present" "plan_needed st d (insert x seen) hs = Inr rest"
      "needed = (if present then rest else x # rest)" using Cons.prems(1) by (auto simp: bind_res_Inr)
    show ?thesis
    proof (cases "h = x")
      case True
      then show ?thesis using r by (cases present) auto
    next
      case False
      then show ?thesis using Cons.IH [OF r(2)] Cons.prems r(3) by auto
    qed
  next
    case False
    then have "plan_needed st d seen hs = Inr needed" "h \<noteq> x" using Cons.prems by auto
    then show ?thesis using Cons.IH Cons.prems by simp
  qed
qed simp

lemma planned_absent: "plan_needed st d seen hs = Inr needed \<Longrightarrow> h \<in> set needed \<Longrightarrow> has_chunk st h = Inr False"
  by (induction hs arbitrary: seen needed) (auto simp: bind_res_Inr split: if_splits)

text \<open>The chunk at a place of the blob is there, but its length is not the one that this place asks for.\<close>

definition wrong_length :: "BlobDescriptor \<Rightarrow> (string \<Rightarrow> bytes option) \<Rightarrow> nat \<Rightarrow> bool" where
  "wrong_length d content_of i \<longleftrightarrow>
     (case content_of (bd_chunk_hashes d ! i) of
        None \<Rightarrow> False
      | Some content \<Rightarrow> expected_chunk_byte_len d i \<noteq> Inr (length content))"

text \<open>
  C25: a planned transfer brings everything that was missing.  If a peer has every chunk of its descriptor and the
  chunks that are planned are fetched and stored, then afterwards exactly those chunks are missing, in their
  order, whose content, fetched now or stored before, does not have the length that its place in the blob
  asks for; without such a chunk none is missing.
\<close>

theorem planned_transfer_completes:
  assumes "plan_missing_chunks st remote = Inr needed" "ba_descriptor remote = Some d" "ba_missing_chunk_hashes remote = []"
    and "put_chunks M st (map (\<lambda>h. (h, fetched h)) needed) = (st', Inr ())"
  shows "missing_chunks st' d = Inr (map ((!) (bd_chunk_hashes d))
    (filter (wrong_length d (\<lambda>h. if h \<in> set needed then Some (fetched h) else fmlookup st [''chunks'', take 2 h, h]))
      [0..<length (bd_chunk_hashes d)]))"
proof -
  let ?path = "\<lambda>h. [''chunks'', take 2 h, h]" and ?hs = "bd_chunk_hashes d"
  let ?content = "\<lambda>h. if h \<in> set needed then Some (fetched h) else fmlookup st (?path h)"
  have valid: "validate_blob_availability remote = Inr ()"
    and plan: "plan_needed st d {} (ba_available_chunk_hashes remote) = Inr needed"
    using assms(1,2) by (auto simp: plan_missing_chunks_def bind_res_Inr)
  note remote = complete_remote_has_all [OF valid assms(2,3)]
  have puts: "chunks.puts M st (map (\<lambda>h. (h, fetched h)) needed) = (st', Inr ())" using assms(4) by (simp add: put_chunks_puts)
  have absent: "fmlookup st (?path h) = None" if "h \<in> set needed" for h
    using planned_absent [OF plan that] by (simp add: has_chunk_Inr contains_key_def)
  have len: "has_expected_chunk_len st' d (0 + i) = Inr (\<not> wrong_length d ?content (0 + i))" if i: "i < length ?hs" for i
  proof -
    let ?h = "?hs ! i"
    have "fmlookup st' (?path ?h) = ?content ?h"
    proof (cases "?h \<in> set needed")
      case True
      have "get_chunk M st' ?h = Inr (Some (fetched ?h))"
        using True absent by (intro chunks.puts_stored [OF puts]) (auto simp: chunks.unobstructed_def)
      then show ?thesis using True by (simp add: get_chunk_Some)
    next
      case False
      then show ?thesis using chunks.puts_frame [OF puts, of "?path ?h"] by (auto simp: image_iff)
    qed
    moreover obtain c where c: "?content ?h = Some c"
      using planned [OF plan, of ?h] subsetD [OF remote(2) nth_mem [OF i]] nth_mem [OF i]
      by (cases "?h \<in> set needed") (auto simp: has_chunk_Inr contains_key_def)
    moreover have "validate_hash ?h = Inr ()" using remote(1) i by (simp add: valid_descriptor)
    moreover obtain n where "expected_chunk_byte_len d i = Inr n" using expected_len_defined [OF remote(1) i] by blast
    moreover have "wrong_length d ?content i \<longleftrightarrow> expected_chunk_byte_len d i \<noteq> Inr (length c)"
      unfolding wrong_length_def c by simp
    ultimately show ?thesis using i by (auto simp: has_expected_chunk_len_def valid_paths)
  qed
  have "split_chunks st' d 0 ?hs = Inr (map (\<lambda>j. ?hs ! (j - 0)) (filter (\<lambda>i. \<not> wrong_length d ?content i) [0..<0 + length ?hs]),
      map (\<lambda>j. ?hs ! (j - 0)) (filter (\<lambda>i. \<not> \<not> wrong_length d ?content i) [0..<0 + length ?hs]))"
    using len by (intro split_chunks_by) blast
  then show ?thesis using remote(1) by (simp add: missing_chunks_def)
qed

section \<open>Pruning\<close>

lemma no_separator: "split_once_str [c] s = None \<longleftrightarrow> c \<notin> set s"
  by (induction s) auto

lemma hash_has_no_dot:
  assumes "validate_hash h = Inr ()"
  shows "CHR ''.'' \<notin> set h"
proof
  assume "CHR ''.'' \<in> set h"
  then have "is_ascii_digit CHR ''.'' \<or> byte_between 97 102 CHR ''.''"
    using assms by (auto simp: validate_hash_def ensure_Inr list_all_iff)
  then show False by (simp add: is_ascii_digit_def byte_between_def)
qed

lemma hash_names:
  assumes "validate_hash h = Inr ()"
  shows "hash_of_file_name None h = Some h" "hash_of_file_name (Some ''json'') (h @ ''.json'') = Some h"
proof -
  have none: "split_once_str ''.'' (rev h) = None" using hash_has_no_dot [OF assms] by (simp add: no_separator)
  then have "rsplit_once CHR ''.'' h = None" by (simp add: rsplit_once_def split_once_def)
  then show "hash_of_file_name None h = Some h" using assms by (simp add: hash_of_file_name_def file_extension_def)
  have "h \<noteq> []" using assms by (auto simp: validate_hash_def ensure_Inr)
  moreover have "rsplit_once CHR ''.'' (h @ ''.json'') = Some (h, ''json'')"
    by (simp add: rsplit_once_def split_once_def)
  ultimately show "hash_of_file_name (Some ''json'') (h @ ''.json'') = Some h"
    using assms by (simp add: hash_of_file_name_def file_extension_def file_stem_def)
qed

lemma hash_names_are_not_temporary:
  assumes "validate_hash h = Inr ()"
  shows "\<not> is_stale_blob_temp_artifact M h" "\<not> is_stale_blob_temp_artifact M (h @ s)"
proof -
  obtain c h' where h: "h = c # h'" using assms by (cases h) (auto simp: validate_hash_def ensure_Inr)
  then have "c \<noteq> CHR ''.''" using hash_has_no_dot [OF assms] by auto
  then show "\<not> is_stale_blob_temp_artifact M h" "\<not> is_stale_blob_temp_artifact M (h @ s)"
    using h by (auto simp: is_stale_blob_temp_artifact_def blob_temp_artifact_process_id_def)
qed

lemma stored_path [simp]: "p \<in> set (stored_paths st) \<longleftrightarrow> fmlookup st p \<noteq> None"
  by (auto simp: stored_paths_def fmlookup_dom_iff fmlookup_dom'_iff)

lemma collected: "(h, p) \<in> set (collect_hash_files ps e) \<longleftrightarrow> p \<in> set ps \<and> hash_of_file_name e (last p) = Some h"
  by (fastforce simp: collect_hash_files_def List.map_filter_def image_iff)

lemma stored_files:
  "(h, p) \<in> set (stored_blob_files st) \<longleftrightarrow> fmlookup st p \<noteq> None \<and> 2 \<le> length p \<and> hd p \<noteq> ''chunks'' \<and> hd p \<noteq> ''manifests''
     \<and> hash_of_file_name None (last p) = Some h"
  "(h, p) \<in> set (stored_chunk_files st) \<longleftrightarrow> fmlookup st p \<noteq> None \<and> 2 \<le> length p \<and> hd p = ''chunks''
     \<and> hash_of_file_name None (last p) = Some h"
  "(h, p) \<in> set (stored_manifest_files st) \<longleftrightarrow> fmlookup st p \<noteq> None \<and> 2 \<le> length p \<and> hd p = ''manifests''
     \<and> hash_of_file_name (Some ''json'') (last p) = Some h"
  by (auto simp: stored_blob_files_def stored_chunk_files_def stored_manifest_files_def collected)

lemma removed_files: "fmlookup (remove_files st files) p = (if p \<in> snd ` set files then None else fmlookup st p)"
  by (induction files arbitrary: st) (auto simp: remove_files_def)

lemma chunks_referenced:
  "referenced_chunks M st hs acc = Inr R \<Longrightarrow>
     R = acc \<union> {c. \<exists>h \<in> set hs. \<exists>d. get_manifest M st h = Inr (Some d) \<and> c \<in> set (bd_chunk_hashes d)}"
proof (induction hs arbitrary: acc)
  case (Cons h hs)
  then obtain m where m: "get_manifest M st h = Inr m"
    "referenced_chunks M st hs (case m of Some d \<Rightarrow> acc \<union> set (bd_chunk_hashes d) | None \<Rightarrow> acc) = Inr R"
    by (auto simp: bind_res_Inr)
  show ?case using Cons.IH [OF m(2)] m(1) by (cases m) auto
qed simp

definition live_chunks :: "MediaLib \<Rightarrow> BlobFiles \<Rightarrow> string set \<Rightarrow> string set" where
  "live_chunks M st refs = {c. \<exists>h \<in> refs. \<exists>d. get_manifest M st h = Inr (Some d) \<and> c \<in> set (bd_chunk_hashes d)}"

lemma dropped_files:
  "fmlookup (remove_files s (filter (\<lambda>(h, _). h \<notin> A) (stored_blob_files s))) p =
     (if 2 \<le> length p \<and> hd p \<noteq> ''chunks'' \<and> hd p \<noteq> ''manifests''
        \<and> (\<exists>h. hash_of_file_name None (last p) = Some h \<and> h \<notin> A) then None else fmlookup s p)"
  "fmlookup (remove_files s (filter (\<lambda>(h, _). h \<notin> A) (stored_manifest_files s))) p =
     (if 2 \<le> length p \<and> hd p = ''manifests''
        \<and> (\<exists>h. hash_of_file_name (Some ''json'') (last p) = Some h \<and> h \<notin> A) then None else fmlookup s p)"
  "fmlookup (remove_files s (filter (\<lambda>(h, _). h \<notin> A) (stored_chunk_files s))) p =
     (if 2 \<le> length p \<and> hd p = ''chunks''
        \<and> (\<exists>h. hash_of_file_name None (last p) = Some h \<and> h \<notin> A) then None else fmlookup s p)"
  "fmlookup (remove_files s (stale_temp_artifact_files M s)) p =
     (if is_stale_blob_temp_artifact M (last p) then None else fmlookup s p)"
  by (cases "fmlookup s p"; force simp: removed_files stored_files stale_temp_artifact_files_def image_iff)+

lemma map_prod_Inr [simp]:
  "map_prod id Inr p = (a, Inr b) \<longleftrightarrow> p = (a, b)" "map_prod id Inr p \<noteq> (a, Inl e)"
  by (cases p, simp)+

lemma prune_succeeds:
  assumes "prune_unreferenced M st refs = (st', Inr report)"
  shows "\<exists>R. referenced_chunks M st (sorted_list_of_set refs) {} = Inr R \<and> remove_unreferenced M st refs R = (st', report)"
  using assms by (auto simp: prune_unreferenced_def Let_def attempt_Inr)

lemma prune_fails: "prune_unreferenced M st refs = (st', Inl err) \<Longrightarrow> st' = st"
  by (auto simp: prune_unreferenced_def Let_def attempt_Inl)

text \<open>What becomes of the files of blobs, manifests and chunks.\<close>

lemma pruned_files:
  assumes "prune_unreferenced M st (set refs) = (st', Inr report)" "validate_hash h = Inr ()"
  shows "fmlookup st' [take 2 h, h] = (if h \<in> set refs then fmlookup st [take 2 h, h] else None)"
    and "fmlookup st' [''manifests'', take 2 h, h @ ''.json'']
      = (if h \<in> set refs then fmlookup st [''manifests'', take 2 h, h @ ''.json''] else None)"
    and "fmlookup st' [''chunks'', take 2 h, h]
      = (if h \<in> live_chunks M st (set refs) then fmlookup st [''chunks'', take 2 h, h] else None)"
proof -
  obtain R where R: "referenced_chunks M st (sorted_list_of_set (set refs)) {} = Inr R"
    and st': "fst (remove_unreferenced M st (set refs) R) = st'"
    using prune_succeeds [OF assms(1)] by fastforce
  have live: "R = live_chunks M st (set refs)" using chunks_referenced [OF R] by (simp add: live_chunks_def)
  have "take 2 h \<noteq> x" if "2 < length x" for x using that by (metis length_take min.cobounded2 not_le)
  then have short: "take 2 h \<noteq> ''chunks''" "take 2 h \<noteq> ''manifests''" by simp_all
  note names = hash_names [OF assms(2)] hash_names_are_not_temporary [OF assms(2)]
  show "fmlookup st' [take 2 h, h] = (if h \<in> set refs then fmlookup st [take 2 h, h] else None)"
    "fmlookup st' [''manifests'', take 2 h, h @ ''.json'']
      = (if h \<in> set refs then fmlookup st [''manifests'', take 2 h, h @ ''.json''] else None)"
    "fmlookup st' [''chunks'', take 2 h, h]
      = (if h \<in> live_chunks M st (set refs) then fmlookup st [''chunks'', take 2 h, h] else None)"
    unfolding st' [symmetric] live [symmetric] using short names
    by (simp_all add: remove_unreferenced_def Let_def dropped_files)
qed

text \<open>The blob of \<open>h\<close> is what it was: its bytes, whole or in chunks, and what is available of it.\<close>

definition same_blob :: "MediaLib \<Rightarrow> BlobFiles \<Rightarrow> BlobFiles \<Rightarrow> string \<Rightarrow> bool" where
  "same_blob M st st' h \<longleftrightarrow> get_complete_bytes M st' h = get_complete_bytes M st h
     \<and> availability M st' h = availability M st h \<and> has_complete_blob M st' h = has_complete_blob M st h"

lemma same_chunks:
  assumes "\<forall>h \<in> set (bd_chunk_hashes d). fmlookup st' [''chunks'', take 2 h, h] = fmlookup st [''chunks'', take 2 h, h]"
  shows "set hs \<subseteq> set (bd_chunk_hashes d) \<Longrightarrow> collect_chunks M st' d i hs acc = collect_chunks M st d i hs acc"
    and "has_expected_chunk_len st' d i = has_expected_chunk_len st d i"
    and "split_chunks st' d i hs = split_chunks st d i hs"
proof -
  have get: "get_chunk M st' h = get_chunk M st h" if "h \<in> set (bd_chunk_hashes d)" for h
    using assms that by (simp add: get_chunk_def chunk_path_def bind_res_def split: sum.splits)
  show "set hs \<subseteq> set (bd_chunk_hashes d) \<Longrightarrow> collect_chunks M st' d i hs acc = collect_chunks M st d i hs acc"
    by (induction hs arbitrary: i acc) (auto simp: get bind_res_def split: sum.splits option.splits)
  show len: "has_expected_chunk_len st' d i = has_expected_chunk_len st d i" for i
    using assms by (simp add: has_expected_chunk_len_def chunk_path_def bind_res_def split: sum.splits)
  show "split_chunks st' d i hs = split_chunks st d i hs"
    by (induction hs arbitrary: i) (simp_all add: len)
qed

text \<open>The blob of \<open>h\<close> has no file left, and no manifest.\<close>

definition forgotten_blob :: "MediaLib \<Rightarrow> BlobFiles \<Rightarrow> string \<Rightarrow> bool" where
  "forgotten_blob M st h \<longleftrightarrow> get_bytes M st h = Inr None \<and> get_manifest M st h = Inr None"

definition pruned_to :: "MediaLib \<Rightarrow> BlobFiles \<Rightarrow> string list \<Rightarrow> BlobFiles \<Rightarrow> bool" where
  "pruned_to M st refs st' \<longleftrightarrow> (\<forall>h. validate_hash h = Inr () \<longrightarrow>
     (if h \<in> set refs then same_blob M st st' h else forgotten_blob M st' h)
     \<and> (h \<notin> live_chunks M st (set refs) \<longrightarrow> get_chunk M st' h = Inr None))"

text \<open>A referenced blob stays what it was.\<close>

lemma pruned_same_blob:
  assumes ok: "prune_unreferenced M st (set refs) = (st', Inr report)" and h: "h \<in> set refs"
  shows "same_blob M st st' h"
proof (cases "validate_hash h")
  case (Inl err)
  then show ?thesis
    by (simp add: same_blob_def get_complete_bytes_def get_bytes_def blob_path_def availability_def has_complete_blob_def
        has_blob_def)
next
  case (Inr u)
  then have h: "validate_hash h = Inr ()" "h \<in> set refs" using h by simp_all
  note files = pruned_files [OF ok h(1)]
  have manifest: "get_manifest M st' h = get_manifest M st h" using files h by (simp add: get_manifest_def valid_paths)
  have "collect_chunks M st' d 0 (bd_chunk_hashes d) [] = collect_chunks M st d 0 (bd_chunk_hashes d) []
      \<and> split_chunks st' d 0 (bd_chunk_hashes d) = split_chunks st d 0 (bd_chunk_hashes d)"
    if d: "get_manifest M st h = Inr (Some d)" for d
  proof -
    have "\<forall>c \<in> set (bd_chunk_hashes d). fmlookup st' [''chunks'', take 2 c, c] = fmlookup st [''chunks'', take 2 c, c]"
    proof
      fix c assume c: "c \<in> set (bd_chunk_hashes d)"
      then have "validate_hash c = Inr ()" "c \<in> live_chunks M st (set refs)"
        using d h(2) by (auto simp: get_manifest_Some valid_descriptor live_chunks_def)
      then show "fmlookup st' [''chunks'', take 2 c, c] = fmlookup st [''chunks'', take 2 c, c]"
        using pruned_files(3) [OF ok] by simp
    qed
    then show ?thesis using same_chunks by blast
  qed
  note same = this
  have whole: "has_blob st' h = has_blob st h" "get_bytes M st' h = get_bytes M st h"
    using files h by (simp_all add: has_blob_def get_bytes_def valid_paths)
  have "availability M st' h = availability M st h \<and> get_bytes_chunked M st' h = get_bytes_chunked M st h"
  proof (cases "\<exists>d. get_manifest M st h = Inr (Some d)")
    case True
    then obtain d where d: "get_manifest M st h = Inr (Some d)" ..
    then show ?thesis using same [OF d] by (simp add: availability_def get_bytes_chunked_def manifest whole)
  next
    case False
    then have "get_manifest M st h = Inr None \<or> (\<exists>err. get_manifest M st h = Inl err)"
      by (metis sum.exhaust option.exhaust)
    then show ?thesis by (auto simp: availability_def get_bytes_chunked_def manifest whole cong: if_cong)
  qed
  then show ?thesis using whole by (simp add: same_blob_def get_complete_bytes_def has_complete_blob_def cong: if_cong option.case_cong)
qed

text \<open>
  C28: pruning removes what is not referenced and nothing else.  When it succeeds, every referenced blob can be
  read, is available and complete just as before, no other blob has a file or a manifest left, and no chunk
  is left that no manifest of a referenced blob lists.  When it fails, nothing has been removed.
\<close>

theorem prune_keeps_what_is_referenced:
  "(case prune_unreferenced M st (set refs) of
      (st', Inl _) \<Rightarrow> st' = st
    | (st', Inr report) \<Rightarrow> pruned_to M st refs st' \<and> bp_referenced_blob_hashes report = sorted_list_of_set (set refs))"
proof -
  obtain st' r where res: "prune_unreferenced M st (set refs) = (st', r)" by fastforce
  show ?thesis
  proof (cases r)
    case (Inl err)
    then have "prune_unreferenced M st (set refs) = (st', Inl err)" using res by simp
    then have "st' = st" by (rule prune_fails)
    then show ?thesis using res Inl by simp
  next
    case (Inr report)
    then have ok: "prune_unreferenced M st (set refs) = (st', Inr report)" using res by simp
    have "same_blob M st st' h" if "validate_hash h = Inr ()" "h \<in> set refs" for h
      using pruned_same_blob [OF ok that(2)] .
    moreover have "forgotten_blob M st' h" if "validate_hash h = Inr ()" "h \<notin> set refs" for h
      using pruned_files [OF ok that(1)] that
      by (simp add: forgotten_blob_def get_bytes_None get_manifest_def valid_paths)
    moreover have "get_chunk M st' h = Inr None" if "validate_hash h = Inr ()" "h \<notin> live_chunks M st (set refs)" for h
      using pruned_files [OF ok that(1)] that by (simp add: get_chunk_None)
    moreover have "bp_referenced_blob_hashes report = sorted_list_of_set (set refs)"
      using prune_succeeds [OF ok] by (auto simp: remove_unreferenced_def Let_def)
    ultimately show ?thesis using res Inr by (simp add: pruned_to_def)
  qed
qed

section \<open>Damaged and oversized files\<close>

text \<open>
  A chunk file of the wrong length is never replaced: the chunk counts as missing for the descriptor, storing
  the right bytes succeeds and leaves the damaged file, and a plan never asks for it.
\<close>

theorem damaged_chunk_is_never_replaced:
  assumes "validate_descriptor d = Inr ()" "i < length (bd_chunk_hashes d)"
    and "fmlookup st [''chunks'', take 2 (bd_chunk_hashes d ! i), bd_chunk_hashes d ! i] = Some damaged"
    and "expected_chunk_byte_len d i = Inr (length content)" "length damaged \<noteq> length content"
    and "blob_hash M content = bd_chunk_hashes d ! i" "length content \<le> BLOB_CHUNK_FILE_MAX_BYTES"
    and "plan_missing_chunks st remote = Inr needed"
  shows "has_expected_chunk_len st d i = Inr False \<and> put_chunk_with_hash M st (bd_chunk_hashes d ! i) content = (st, Inr ())
    \<and> bd_chunk_hashes d ! i \<notin> set needed"
proof -
  let ?h = "bd_chunk_hashes d ! i"
  have valid: "validate_hash ?h = Inr ()" using assms(1,2) by (simp add: valid_descriptor)
  have "?h \<notin> set needed"
  proof
    assume needed: "?h \<in> set needed"
    then obtain d' where "plan_needed st d' {} (ba_available_chunk_hashes remote) = Inr needed"
      using assms(8) by (auto simp: plan_missing_chunks_def bind_res_Inr split: option.splits)
    then have "has_chunk st ?h = Inr False" using planned_absent needed by blast
    then show False using assms(3) by (simp add: has_chunk_Inr contains_key_def)
  qed
  then show ?thesis using assms valid
    by (simp add: has_expected_chunk_len_def valid_paths put_chunk_with_hash_def attempt_def validate_chunk_file_size_def
        ensure_def contains_key_def)
qed

text \<open>
  A manifest can be larger than what is read back: every hash takes 64 digits, two quotes and a comma, so that
  the manifest of a valid descriptor of more than 15651 chunks is written and can never be read.
\<close>

theorem large_manifest_is_lost:
  assumes "put_manifest M st d = (st', Inr ())" "15651 < length (bd_chunk_hashes d)"
    and "67 * length (bd_chunk_hashes d) \<le> length (manifest_to_vec M d)"
  shows "get_manifest M st' (bd_hash d) = Inl (MdManifestTooLarge (length (manifest_to_vec M d)) BLOB_MANIFEST_MAX_BYTES)"
  using assms by (auto simp: put_manifest_ok get_manifest_def valid_paths valid_descriptor read_manifest_file_def)

section \<open>Examples\<close>

definition sample_media :: MediaLib where
  "sample_media = \<lparr>blob_hash = (\<lambda>content. replicate 64 (if length content = 1 then CHR ''a'' else if length content = 2 then CHR ''b''
      else CHR ''c'')), manifest_to_vec = (\<lambda>_. [0x7B]),
    manifest_from_slice = (\<lambda>_. Some \<lparr>bd_hash = replicate 64 CHR ''c'', bd_byte_len = 3, bd_chunk_size = 2,
      bd_chunk_hashes = [replicate 64 CHR ''b'', replicate 64 CHR ''a'']\<rparr>), process_id = 1\<rparr>"

lemma sample_hash_law: "hash_law sample_media"
  by (simp add: hash_law_def sample_media_def validate_hash_def ensure_def list_all_iff byte_between_def)

lemma sample_chunks:
  "byte_chunks 2 [1, 2, 3 :: u8] = [[1, 2], [3]]" "byte_chunks (Suc (Suc 0)) [1, 2, 3 :: u8] = [[1, 2], [3]]"
  by (simp_all add: byte_chunks_Cons)

lemma sample_descriptor:
  "describe_blob sample_media [1, 2, 3] 2 = \<lparr>bd_hash = replicate 64 CHR ''c'', bd_byte_len = 3, bd_chunk_size = 2,
      bd_chunk_hashes = [replicate 64 CHR ''b'', replicate 64 CHR ''a'']\<rparr>"
  by (simp add: describe_blob_def sample_chunks sample_media_def)

definition sample_files :: BlobFiles where
  "sample_files = fst (put_bytes_chunked sample_media fmempty [1, 2, 3] 2)"

lemma sample_put: "put_bytes_chunked sample_media fmempty [1, 2, 3] 2
  = (sample_files, Inr (describe_blob sample_media [1, 2, 3] 2))"
proof -
  have plan: "validate_chunk_plan (length [1, 2, 3 :: u8]) 2 = Inr ()"
    by (simp add: validate_chunk_plan_def expected_chunk_count_def)
  have "validate_descriptor (describe_blob sample_media [1, 2, 3] 2) = Inr ()"
    by (rule described_valid [OF _ sample_hash_law])
      (simp add: validate_chunk_plan_def expected_chunk_count_def del: One_nat_def)
  note checks = plan this plan [unfolded numeral_2_eq_2] this [unfolded numeral_2_eq_2]
  show ?thesis
    unfolding sample_files_def using checks
    by (simp add: put_bytes_chunked_def attempt_def and_then_def put_manifest_def valid_paths sample_chunks Let_def
        put_chunk_with_hash_def validate_chunk_file_size_def ensure_def sample_hash_law [unfolded hash_law_def, rule_format]
        split: prod.splits sum.splits)
qed

theorem chunked_round_trip_witness:
  "get_complete_bytes sample_media sample_files (replicate 64 CHR ''c'') = Inr (Some [1, 2, 3])
   \<and> missing_chunks sample_files (describe_blob sample_media [1, 2, 3] 2) = Inr []
   \<and> has_complete_blob sample_media sample_files (replicate 64 CHR ''c'') = Inr True"
proof -
  have "manifest_law sample_media (describe_blob sample_media [1, 2, 3] 2)"
    unfolding manifest_law_def sample_descriptor by (simp add: sample_media_def)
  moreover have "no_clash sample_media fmempty (byte_chunks (max 2 1) [1, 2, 3])"
    by (simp add: no_clash_def sample_chunks) (simp add: sample_media_def)
  moreover have "get_bytes sample_media fmempty (blob_hash sample_media [1, 2, 3]) = Inr None"
    using sample_hash_law by (simp add: get_bytes_None hash_law_def)
  ultimately show ?thesis
    using chunked_round_trip [OF sample_put sample_hash_law] by (simp add: sample_media_def)
qed

definition sample_remote :: BlobAvailability where
  "sample_remote = \<lparr>ba_hash = bd_hash (describe_blob sample_media [1, 2, 3] 2), ba_has_whole_blob = False,
     ba_descriptor = Some (describe_blob sample_media [1, 2, 3] 2),
     ba_available_chunk_hashes = bd_chunk_hashes (describe_blob sample_media [1, 2, 3] 2), ba_missing_chunk_hashes = []\<rparr>"

definition sample_fetched :: "string \<Rightarrow> bytes" where
  "sample_fetched h = (if hd h = CHR ''b'' then [1, 2] else [3])"

theorem planned_transfer_completes_witness:
  "missing_chunks (fst (put_chunks sample_media fmempty
     [(replicate 64 CHR ''b'', [1, 2]), (replicate 64 CHR ''a'', [3])])) (describe_blob sample_media [1, 2, 3] 2) = Inr []"
proof -
  let ?d = "describe_blob sample_media [1, 2, 3] 2" and ?b = "replicate 64 CHR ''b''" and ?a = "replicate 64 CHR ''a''"
  have d: "validate_descriptor ?d = Inr ()"
    by (rule described_valid [OF _ sample_hash_law])
      (simp add: validate_chunk_plan_def expected_chunk_count_def del: One_nat_def)
  have hashes: "bd_chunk_hashes ?d = [?b, ?a]" by (simp only: sample_descriptor BlobDescriptor.select_convs)
  have valid: "validate_hash ?b = Inr ()" "validate_hash ?a = Inr ()"
    by (simp_all add: validate_hash_def ensure_def list_all_iff byte_between_def)
  have plan: "plan_missing_chunks fmempty sample_remote = Inr [?b, ?a]"
  proof -
    have "validate_blob_availability sample_remote = Inr ()"
      unfolding sample_remote_def by (rule full_availability_valid [OF d])
    moreover have "?b \<noteq> ?a" by simp
    ultimately show ?thesis using valid
      by (simp add: plan_missing_chunks_def sample_remote_def hashes has_chunk_def valid_paths contains_key_def del: replicate.simps described)
  qed
  have fetched: "map (\<lambda>h. (h, sample_fetched h)) [?b, ?a] = [(?b, [1, 2]), (?a, [3])]" by (simp add: sample_fetched_def)
  obtain st' where put: "put_chunks sample_media fmempty (map (\<lambda>h. (h, sample_fetched h)) [?b, ?a]) = (st', Inr ())"
    unfolding fetched using valid
    by (simp add: put_chunk_with_hash_def attempt_def and_then_def validate_chunk_file_size_def ensure_def valid_paths
        sample_media_def Let_def contains_key_def write_file_atomically_def)
  have "\<not> wrong_length ?d (\<lambda>h. if h \<in> set [?b, ?a] then Some (sample_fetched h)
      else fmlookup fmempty [''chunks'', take 2 h, h]) i" if "i \<in> set [0..<length (bd_chunk_hashes ?d)]" for i
    unfolding wrong_length_def using d that
    by (auto simp: hashes less_Suc_eq sample_fetched_def expected_chunk_byte_len_def sample_descriptor)
  then have "filter (wrong_length ?d (\<lambda>h. if h \<in> set [?b, ?a] then Some (sample_fetched h)
      else fmlookup fmempty [''chunks'', take 2 h, h])) [0..<length (bd_chunk_hashes ?d)] = []"
    by (simp only: filter_empty_conv) blast
  then show ?thesis
    using planned_transfer_completes [OF plan _ _ put, of ?d] put fetched by (simp add: sample_remote_def)
qed

end
