(* ===== verification/Device_Scenario.thy ===== *)
theory Device_Scenario
  imports Local_Machine Key_Properties Media_Properties
begin

text \<open>
  An example device on which the properties of local writes are instantiated.
\<close>

section \<open>An example device\<close>

text \<open>
  A device with the key \<open>sample_key\<close> on which four events can be serialised: the creation of a workspace
  and of a channel in it, the rotation of its key and the invitation of a second device.
\<close>

definition device_lib :: "bytes IdentityLib" where
  "device_lib = sample_lib\<lparr>hash_hex := (\<lambda>bs. replicate 64 (if hd bs = 1 then CHR ''b'' else CHR ''a'')),
     event_bytes := (\<lambda>ev. case se_body ev of WorkspaceCreated _ \<Rightarrow> [] | _ \<Rightarrow> [1])\<rparr>"

definition device_clock :: HybridTimestamp where
  "device_clock = \<lparr>physical_ms = 0, logical = 0\<rparr>"

definition root_event :: SignedEvent where
  "root_event = sign_event device_lib (from_signing_key device_lib sample_key)
     (local_event device_clock sample_runtime (WorkspaceId ''w'') None [] (WorkspaceCreated ''W''))"

definition channel_event :: SignedEvent where
  "channel_event = sign_event device_lib (from_signing_key device_lib sample_key)
     (local_event device_clock sample_runtime (WorkspaceId ''w'') None [sg_event_id root_event]
       (ChannelCreated (ChannelId ''c'') ''general'' False))"

definition rotated_key :: WorkspaceKey where
  "rotated_key = workspace_key_rotate (ContentKey (replicate 32 2)) sample_workspace_key"

definition rotation_event :: SignedEvent where
  "rotation_event = sign_event device_lib (from_signing_key device_lib sample_key)
     (local_event device_clock sample_runtime (WorkspaceId ''w'') None [sg_event_id root_event]
       (ContentKeyEpochPublished ScopeWorkspace (wk_epoch rotated_key) (wk_key_id rotated_key)
         (Some (wk_key_id sample_workspace_key)) CONTENT_KEY_ALGORITHM_AES_256_GCM_SIV))"

definition invite_event :: SignedEvent where
  "invite_event = sign_event device_lib (from_signing_key device_lib sample_key)
     (local_event device_clock sample_runtime (WorkspaceId ''w'') None [sg_event_id root_event]
       (MemberInvited (DeviceId ''bob'') Member))"

definition oversized :: bytes where
  "oversized = replicate (Suc EVENT_JSON_MAX_BYTES) 0"

definition device_store_lib :: "bytes StoreLib" where
  "device_store_lib = \<lparr>ident = device_lib,
     event_to_vec = (\<lambda>e. if e = root_event then [0] else if e = channel_event then [1]
       else if e = rotation_event then [2] else if e = invite_event then [3] else oversized),
     event_from_slice = (\<lambda>bs. if bs = [0] then Some root_event else if bs = [1] then Some channel_event
       else if bs = [2] then Some rotation_event else if bs = [3] then Some invite_event else None)\<rparr>"

definition device_env :: "bytes RuntimeEnv" where
  "device_env = \<lparr>key_lib = (key_lib_of sample_workspace_key)\<lparr>secret_lib := sample_secret_lib\<lparr>store_lib := device_store_lib\<rparr>,
       workspace_key_to_vec_pretty := (\<lambda>p. if p = workspace_key_persisted sample_workspace_key then [1] else [3]),
       workspace_key_from_slice := (\<lambda>bs. Some (workspace_key_persisted (if hd bs = 1 then sample_workspace_key else rotated_key)))\<rparr>,
     invite_order = (\<lambda>m. map snd (sorted_list_of_fmap m)), origin_order = sorted_keys,
     export_group_content_key = (\<lambda>_. Inl []), export_group_content_key_for_key_id = (\<lambda>_ _. Inl []),
     media_lib = sample_media\<rparr>"

lemma device_env_sel [simp]:
  "env_store device_env = device_store_lib" "ident device_store_lib = device_lib" "origin_order device_env = sorted_keys"
  by (simp_all add: device_env_def device_store_lib_def)

lemma device_identity: "rt_identity sample_runtime = from_signing_key device_lib sample_key"
  by (simp add: sample_runtime_def from_signing_key_def device_lib_def sample_lib_def
      device_id_from_public_key_bytes_def sample_key_def)

lemma device_signature_law: "signature_law device_lib"
  using sample_signature_law by (simp add: signature_law_def device_lib_def)

lemma event_bodies:
  "ev_body root_event = WorkspaceCreated ''W''" "ev_body channel_event = ChannelCreated (ChannelId ''c'') ''general'' False"
  "ev_body rotation_event = ContentKeyEpochPublished ScopeWorkspace (wk_epoch rotated_key) (wk_key_id rotated_key)
     (Some (wk_key_id sample_workspace_key)) CONTENT_KEY_ALGORITHM_AES_256_GCM_SIV"
  "ev_body invite_event = MemberInvited (DeviceId ''bob'') Member"
  by (simp_all add: root_event_def channel_event_def rotation_event_def invite_event_def local_event_def signable_event_new_def)

lemma events_differ: "root_event \<noteq> channel_event" "root_event \<noteq> rotation_event" "channel_event \<noteq> rotation_event"
  "root_event \<noteq> invite_event" "channel_event \<noteq> invite_event" "rotation_event \<noteq> invite_event"
  using event_bodies by auto

lemma oversized_length: "\<not> length oversized \<le> EVENT_JSON_MAX_BYTES"
  unfolding oversized_def length_replicate by simp

lemma device_codec: "fits device_store_lib e \<Longrightarrow> codec device_store_lib e"
  using oversized_length events_differ
  by (auto simp: fits_def codec_def device_store_lib_def split: if_splits)

lemma device_laws: "env_laws device_env"
  using device_signature_law device_codec sorted_origins.origin_enumeration_axioms
  by (simp add: env_laws_def device_lib_def)

text \<open>The device after the creation of the workspace.\<close>

definition device_rooted :: LocalRuntime where
  "device_rooted = sample_runtime\<lparr>rt_store := [event_row device_store_lib root_event]\<rparr>"

lemma device_fits: "fits device_store_lib root_event" "fits device_store_lib channel_event" "fits device_store_lib rotation_event"
  "fits device_store_lib invite_event"
  by (simp_all add: fits_def device_store_lib_def)

lemma device_ids:
  "sg_event_id root_event = EventId (''evt_'' @ replicate 64 CHR ''a'')"
  "sg_event_id channel_event = EventId (''evt_'' @ replicate 64 CHR ''b'')"
  "sg_event_id rotation_event = EventId (''evt_'' @ replicate 64 CHR ''b'')"
  "sg_event_id invite_event = EventId (''evt_'' @ replicate 64 CHR ''b'')"
  by (simp_all add: root_event_def channel_event_def rotation_event_def invite_event_def sign_event_def from_author_signature_def device_lib_def
      local_event_def signable_event_new_def)
    (simp add: sample_lib_def from_signing_key_def sample_key_def)

lemma device_rooted_store:
  "readable device_store_lib (rt_store device_rooted)" "distinct (map rw_event_id (rt_store device_rooted))"
  "own_log device_env device_rooted (WorkspaceId ''w'') = [root_event]"
proof -
  show r: "readable device_store_lib (rt_store device_rooted)"
    using device_fits device_codec by (auto simp: readable_def device_rooted_def)
  have "codec device_store_lib root_event" using device_fits device_codec by blast
  then have "row_event device_store_lib (event_row device_store_lib root_event) = root_event"
    by (simp add: row_event_def codec_def event_row_def)
  then show "own_log device_env device_rooted (WorkspaceId ''w'') = [root_event]"
    using readable_log_alt [OF r] by (simp add: device_rooted_def in_workspace_def event_row_def root_event_def)
qed (simp add: device_rooted_def)

lemma device_verified: "is_servable_event device_store_lib root_event"
  using signed_verifies [OF device_signature_law, of _ sample_key]
  by (simp add: is_servable_event_def root_event_def device_identity)

lemma device_context:
  "\<exists>ctx. workspace_write_context device_env device_rooted (WorkspaceId ''w'') = Inr ctx
     \<and> wc_events ctx = [root_event] \<and> wc_head_event_ids ctx = [sg_event_id root_event]"
proof -
  let ?w = "WorkspaceId ''w''"
  have w: "validate_workspace_id_reference ?w = Inr ()"
    by (simp add: validate_workspace_id_reference_def validate_identifier_size_def validate_workspace_id_str_def
        validate_id_bytes_def ensure_def map_err_def)
  obtain st where "apply_event (invite_order device_env) (state_new ?w) root_event = Inr st"
    using root_accepted [OF device_laws, of "from_signing_key device_lib sample_key" sample_key _ ?w device_clock "''W''"] w
    by (auto simp: root_event_def local_event_def signable_event_new_def device_identity)
  then have "accepted_run (apply_event (invite_order device_env)) (state_new ?w) [root_event] st" by simp
  then have b: "apply_batch (invite_order device_env) (state_new ?w) [root_event]
      = Inr (st, \<lparr>rep_applied_events = map sg_event_id [root_event], rep_gaps = []\<rparr>)"
    by (intro ordered_batch) (simp add: ordered_run_def state_new_def access_inv_new)
  have v: "verified_local_events_for_runtime device_store_lib [root_event] = [root_event]"
    using device_verified by (simp add: verified_local_events verified_sync_events_def is_servable_event_def)
  have h: "workspace_head_event_ids_from_materialization [root_event]
      \<lparr>rep_applied_events = [sg_event_id root_event], rep_gaps = []\<rparr> = [sg_event_id root_event]"
    by (simp add: workspace_head_event_ids_from_materialization_def referenced_parents root_event_def)
  have t: "fmlookup (events_by_id [root_event]) (sg_event_id root_event) = Some root_event"
    by (simp add: events_by_id_def)
  show ?thesis
    by (simp add: workspace_write_context_def workspace_write_context_from_materialized_events_def
        then_res_def Let_def w device_rooted_store(3) [simplified] v b [simplified] h t)
qed

lemma device_event_fields:
  "ev_workspace invite_event = WorkspaceId ''w''" "ev_channel invite_event = None"
  "ev_author invite_event = own_device sample_runtime" "ev_parents invite_event = [sg_event_id root_event]"
  "length (sg_author_public_key invite_event) = 32" "length (sg_signature invite_event) = 64"
  "ev_workspace root_event = WorkspaceId ''w''" "ev_workspace channel_event = WorkspaceId ''w''"
  "ev_workspace rotation_event = WorkspaceId ''w''"
  "ev_channel root_event = None" "ev_channel channel_event = None" "ev_channel rotation_event = None"
  "ev_author root_event = own_device sample_runtime" "ev_author channel_event = own_device sample_runtime"
  "ev_author rotation_event = own_device sample_runtime"
  "ev_parents root_event = []" "ev_parents channel_event = [sg_event_id root_event]"
  "ev_parents rotation_event = [sg_event_id root_event]"
  "length (sg_author_public_key root_event) = 32" "length (sg_author_public_key channel_event) = 32"
  "length (sg_author_public_key rotation_event) = 32"
  "length (sg_signature root_event) = 64" "length (sg_signature channel_event) = 64"
  "length (sg_signature rotation_event) = 64"
  "length (device_str (own_device sample_runtime)) = 68"
  using device_signature_law
  by (simp_all add: root_event_def channel_event_def rotation_event_def invite_event_def local_event_def signable_event_new_def
      device_identity)
    (simp_all add: sign_event_def from_author_signature_def signature_law_def verifying_key_bytes_def
      from_signing_key_def device_id_from_public_key_bytes_def device_lib_def)

lemma root_authorized:
  "authorize (index_new (WorkspaceId ''w'')) root_event = Inr ()"
  by (simp add: authorize_eval event_bodies device_event_fields device_ids index_new_def)

section \<open>The key of the device\<close>

lemma load_key_store [simp]:
  "load_workspace_key L (rt\<lparr>rt_store := s\<rparr>) w = load_workspace_key L rt w"
  "within_limit (rt\<lparr>rt_store := s\<rparr>) path = within_limit rt path"
proof -
  have "local_secret_path_hint (rt\<lparr>rt_store := s\<rparr>) path = local_secret_path_hint rt path" for path
    by (simp add: local_secret_path_hint_def)
  then have "read_local_secret_file (secret_lib L) (rt\<lparr>rt_store := s\<rparr>) path kind
      = read_local_secret_file (secret_lib L) rt path kind" for path kind
    by (simp add: read_local_secret_file_def cong: option.case_cong)
  moreover have "workspace_key_path (rt\<lparr>rt_store := s\<rparr>) w = workspace_key_path rt w"
    by (simp add: workspace_key_path_def)
  ultimately show "load_workspace_key L (rt\<lparr>rt_store := s\<rparr>) w = load_workspace_key L rt w"
    by (simp only: load_workspace_key_def)
qed (simp add: within_limit_def)

definition device_keyed :: LocalRuntime where
  "device_keyed = device_rooted\<lparr>rt_files := fmupd (workspace_key_path sample_runtime (WorkspaceId ''w'')) [1, 0x0A] fmempty\<rparr>"

lemma device_key_ids:
  "wk_workspace_id sample_workspace_key = WorkspaceId ''w''" "wk_workspace_id rotated_key = WorkspaceId ''w''"
  "wk_epoch sample_workspace_key = 1" "wk_epoch rotated_key = 2"
  "wk_key_id rotated_key = workspace_key_id_for_epoch (WorkspaceId ''w'') 2"
  "wk_key_id sample_workspace_key = workspace_key_id_for_epoch (WorkspaceId ''w'') 1"
  by (simp_all add: rotated_key_def sample_workspace_key_def workspace_key_rotate_def workspace_key_generate_def Let_def)

lemma device_keys_ok: "workspace_key_ok sample_workspace_key" "workspace_key_ok rotated_key"
  using sample_keys_ok workspace_key_rotate_ok [OF sample_keys_ok(1), of "ContentKey (replicate 32 2)"]
  by (simp_all add: device_key_ids rotated_key_def full_length_def)

lemma device_key_law: "workspace_key_file_law (key_lib device_env) [] (replicate 12 0) sample_runtime sample_workspace_key"
  "workspace_key_file_law (key_lib device_env) [] (replicate 12 0) device_keyed rotated_key"
proof -
  have "workspace_key_persisted rotated_key \<noteq> workspace_key_persisted sample_workspace_key"
    by (simp add: workspace_key_persisted_def device_key_ids)
  then show "workspace_key_file_law (key_lib device_env) [] (replicate 12 0) sample_runtime sample_workspace_key"
    "workspace_key_file_law (key_lib device_env) [] (replicate 12 0) device_keyed rotated_key"
    using shift_cipher_law
    by (simp_all add: workspace_key_json_law_def secret_file_law_def device_env_def Let_def device_store_lib_def
        sample_secret_lib_def device_keyed_def device_rooted_def sample_runtime_def key_lib_of_def)
      (simp_all add: device_lib_def sample_lib_def)
qed

lemma device_load: "load_workspace_key (key_lib device_env) device_keyed (WorkspaceId ''w'') = Inr (Some sample_workspace_key)"
proof -
  let ?rt = "saved_as (workspace_key_path sample_runtime (WorkspaceId ''w''))"
  have "save_workspace_key (key_lib device_env) [] (replicate 12 0) sample_runtime sample_workspace_key = Inr ?rt"
    by (simp add: save_workspace_key_def write_local_secret_file_def bind_res_def write_secret_file_def
        device_env_def sample_runtime_def device_key_ids)
  from save_load_workspace_key [OF device_keys_ok(1) this device_key_law(1) sample_limit]
  have l: "load_workspace_key (key_lib device_env) ?rt (WorkspaceId ''w'') = Inr (Some sample_workspace_key)"
    by (simp add: device_key_ids)
  have eq: "device_keyed = ?rt\<lparr>rt_store := [event_row device_store_lib root_event]\<rparr>"
    by (simp add: device_keyed_def device_rooted_def)
  show ?thesis unfolding eq load_key_store by (rule l)
qed

lemma device_appends:
  "append_event device_store_lib store channel_event = Inr (put_row (event_row device_store_lib channel_event) store)"
  "append_event device_store_lib store rotation_event = Inr (put_row (event_row device_store_lib rotation_event) store)"
  "append_event device_store_lib store root_event = Inr (put_row (event_row device_store_lib root_event) store)"
  "append_event device_store_lib store invite_event = Inr (put_row (event_row device_store_lib invite_event) store)"
  using device_fits by (simp_all add: append_event_Inr)

lemma after_root:
  assumes "ev_workspace e = WorkspaceId ''w''"
  shows "authorize_event_with_history sorted_keys [root_event] e
    = authorize (apply_authorized (index_new (WorkspaceId ''w'')) root_event) e"
proof -
  let ?ix = "apply_authorized (index_new (WorkspaceId ''w'')) root_event"
  have "accepted_run authorize_and_apply (index_new (WorkspaceId ''w'')) [root_event] ?ix"
    using root_authorized by (simp add: authorize_and_apply_Inr)
  moreover have "causally_ordered [root_event]" by (simp add: causally_ordered_def root_event_def)
  ultimately show ?thesis
    using history_agrees_with_run [OF sorted_origins.origin_enumeration_axioms, of e] assms by simp
qed

lemma device_authorized:
  "authorize_event_with_history sorted_keys [root_event] channel_event = Inr ()"
  "authorize_event_with_history sorted_keys [root_event] rotation_event = Inr ()"
  "authorize_event_with_history sorted_keys [root_event] invite_event = Inr ()"
  by (simp_all add: after_root authorize_eval apply_eval event_bodies device_event_fields device_ids index_new_def
      device_key_ids validate_content_key_scope_ids_def check_content_key_epoch_def workspace_key_id_for_epoch_def
      show_decimal.simps)

lemma run_steps:
  "attempt rt (Inr x) k = k x" "and_then (rt, Inr x) k' = k' rt x" "fst (and_then p (\<lambda>rt x. (rt, f rt x))) = fst p"
  by (simp_all add: attempt_def and_then_def split: prod.split sum.split)

section \<open>A rotation of the device\<close>

definition device_rotation :: RotatedWorkspaceKey where
  "device_rotation = \<lparr>rw_rotated_workspace_id = ''w'', rw_previous_key_id = wk_key_id sample_workspace_key,
     rw_key_id = wk_key_id rotated_key, rw_epoch = wk_epoch rotated_key,
     rw_rotation_event_id = event_str (sg_event_id rotation_event)\<rparr>"

lemma device_keyed_context:
  "\<exists>ctx. materialized_workspace_write_context device_env device_keyed (WorkspaceId ''w'') = Inr ctx
     \<and> wc_events ctx = [root_event] \<and> wc_head_event_ids ctx = [sg_event_id root_event]"
proof -
  obtain ctx where "workspace_write_context device_env device_keyed (WorkspaceId ''w'') = Inr ctx"
    "wc_events ctx = [root_event]" "wc_head_event_ids ctx = [sg_event_id root_event]"
    using device_context by (auto simp: device_keyed_def workspace_write_context_def)
  then show ?thesis
    by (auto simp: workspace_write_context_def materialized_workspace_write_context_def result_simps Let_def split: if_splits)
qed

lemma device_rotates:
  "\<exists>rt1 content. rt1 = device_keyed\<lparr>rt_files := fmupd (workspace_key_path sample_runtime (WorkspaceId ''w'')) content
        (rt_files device_keyed)\<rparr>
     \<and> within_limit rt1 (workspace_key_path device_keyed (WorkspaceId ''w''))
     \<and> rotate_workspace_key device_env device_clock [] (replicate 12 0) (ContentKey (replicate 32 2)) device_keyed
         (WorkspaceId ''w'') = (rt1\<lparr>rt_store := put_row (event_row device_store_lib rotation_event) (rt_store rt1)\<rparr>,
           Inr device_rotation)"
proof -
  let ?w = "WorkspaceId ''w''" and ?g = "ContentKey (replicate 32 2)"
  let ?path = "workspace_key_path sample_runtime ?w"
  obtain ctx where m: "materialized_workspace_write_context device_env device_keyed ?w = Inr ctx"
    and c: "wc_events ctx = [root_event]" "wc_head_event_ids ctx = [sg_event_id root_event]"
    using device_keyed_context by blast
  have i: "rt_identity device_keyed = from_signing_key device_lib sample_key" "own_device device_keyed = own_device sample_runtime"
    by (simp_all add: device_keyed_def device_rooted_def device_identity)
  have e: "sign_event device_lib (rt_identity device_keyed) ((signable_event_new device_clock ?w None (own_device device_keyed)
      (ContentKeyEpochPublished ScopeWorkspace (wk_epoch rotated_key) (wk_key_id rotated_key)
        (Some (wk_key_id sample_workspace_key)) CONTENT_KEY_ALGORITHM_AES_256_GCM_SIV))\<lparr>se_parents := wc_head_event_ids ctx\<rparr>)
      = rotation_event"
    by (simp add: rotation_event_def local_event_def i(1) c(2)) (simp add: i(2) [unfolded i(1)])
  have path: "workspace_key_path device_keyed ?w = ?path"
    by (simp add: workspace_key_path_def device_keyed_def device_rooted_def)
  obtain content where s: "save_workspace_key (key_lib device_env) [] (replicate 12 0) device_keyed rotated_key
      = Inr (device_keyed\<lparr>rt_files := fmupd ?path content (rt_files device_keyed)\<rparr>)"
    "within_limit (device_keyed\<lparr>rt_files := fmupd ?path content (rt_files device_keyed)\<rparr>) ?path"
    by (simp add: save_workspace_key_def write_local_secret_file_def bind_res_def write_secret_file_def within_limit_def
        device_env_def device_keyed_def device_rooted_def sample_runtime_def device_key_ids workspace_key_path_def)
  let ?rt1 = "device_keyed\<lparr>rt_files := fmupd ?path content (rt_files device_keyed)\<rparr>"
  have "rotate_workspace_key device_env device_clock [] (replicate 12 0) ?g device_keyed ?w
      = (?rt1\<lparr>rt_store := put_row (event_row device_store_lib rotation_event) (rt_store ?rt1)\<rparr>, Inr device_rotation)"
    by (simp add: rotate_workspace_key_def m device_load ok_or_def run_steps Let_def rotated_key_def [symmetric]
        sign_authorize_save_key_and_append_with_history_def e c(1) device_authorized(2) map_err_def s(1)
        append_signed_def device_appends device_rotation_def)
  then show ?thesis using s(2) path by auto
qed

end
