(* ===== verification/Write_Properties.thy ===== *)
theory Write_Properties
  imports Device_Scenario
begin

text \<open>
  What a device may rely on when it writes: its own history always materialises completely, a write names
  the heads of the history as its parents and extends the state, and the key it encrypts with is the
  current one.
\<close>

section \<open>Own events\<close>

lemma ok_materializes:
  assumes "local_ok E rt" "validate_workspace_id_reference w = Inr ()"
  shows "materialized_workspace_events_with_gaps E rt w = Inr (own_log E rt w, [])"
proof -
  have rows: "\<forall>r \<in> set (rt_store rt). good_row (env_store E) r" "distinct (map rw_event_id (rt_store rt))"
    using assms(1) by (simp_all add: local_ok_def)
  note d = log_ids [OF rows, of "workspace_str w"]
  obtain st where "accepted_run (apply_event (invite_order E)) (state_new w) (own_log E rt w) st"
    using assms(1) by (auto simp: local_ok_def)
  then have "apply_batch (invite_order E) (state_new w) (own_log E rt w)
      = Inr (st, \<lparr>rep_applied_events = map sg_event_id (own_log E rt w), rep_gaps = []\<rparr>)"
    using d by (intro ordered_batch) (simp add: ordered_run_def state_new_def access_inv_new)
  then show ?thesis
    using take_events_run [OF d] events_by_id_member [OF d] assms(2)
    by (simp add: materialized_workspace_events_with_gaps_def log_verified [OF rows(1)] then_res_def)
qed


section \<open>Heads and writes\<close>

lemma context_of_store:
  assumes "readable (env_store E) (rt_store rt)" "distinct (map rw_event_id (rt_store rt))"
    "workspace_write_context E rt w = Inr ctx"
  shows "context_of E w ctx"
proof -
  have "distinct (map sg_event_id (verified_local_events_for_runtime (env_store E) (own_log E rt w)))"
    using readable_log_ids [OF assms(1,2)]
    by (simp add: verified_local_events verified_sync_events_def distinct_map_filter)
  with assms(3) show ?thesis
    by (auto simp: workspace_write_context_def result_simps Let_def split: if_splits dest: context_from_events)
qed

text \<open>
  C10: the parents of a local write.  They are sorted and distinct, there is at least one, each is the
  identifier of an applied event that no applied event names as a parent, and every applied event has
  one of them among its descendants, so that a write leaves no branch of the history behind.
\<close>

theorem write_parents_are_the_heads:
  assumes "readable (env_store E) (rt_store rt)" "distinct (map rw_event_id (rt_store rt))"
    "workspace_write_context E rt w = Inr ctx"
  shows "sorted (wc_head_event_ids ctx) \<and> distinct (wc_head_event_ids ctx) \<and> wc_head_event_ids ctx \<noteq> []
    \<and> (\<forall>h \<in> set (wc_head_event_ids ctx). h \<in> sg_event_id ` set (wc_events ctx) \<and> (\<forall>c. \<not> parent_of (wc_events ctx) h c))
    \<and> (\<forall>e \<in> set (wc_events ctx). \<exists>h \<in> set (wc_head_event_ids ctx).
         (parent_of (wc_events ctx))\<^sup>*\<^sup>* (sg_event_id e) h)"
proof -
  note c = context_of_store [OF assms]
  then have h: "wc_head_event_ids ctx = sorted_list_of_set (head_ids (wc_events ctx))" "wc_events ctx \<noteq> []"
    by (simp_all add: context_of_def)
  have "\<exists>h \<in> head_ids (wc_events ctx). (parent_of (wc_events ctx))\<^sup>*\<^sup>* (sg_event_id e) h" if "e \<in> set (wc_events ctx)" for e
    using reaches_head [OF context_causal [OF c]] that by (metis in_set_conv_nth)
  then show ?thesis
    using h heads_of_run(2) [OF context_causal [OF c] h(2)] head_ids_finite [of "wc_events ctx"]
    by (auto simp: head_ids_def)
qed

text \<open>
  C11: a local write either fails and leaves the runtime as it was, or stores one event: signed by the
  device, verifiable, with the heads as parents, and accepted by the state that the context holds.
\<close>

theorem local_write_extends_the_state:
  assumes "readable (env_store E) (rt_store rt)" "distinct (map rw_event_id (rt_store rt))"
    "workspace_write_context E rt w = Inr ctx" "origin_enumeration (origin_order E)"
    "signature_law (ident (env_store E))" "rt_identity rt = from_signing_key (ident (env_store E)) key"
    "write_event E now rt w c ctx body = (rt', result)"
  shows "case result of
      Inl _ \<Rightarrow> rt' = rt
    | Inr e \<Rightarrow> rt' = rt\<lparr>rt_store := put_row (event_row (env_store E) e) (rt_store rt)\<rparr>
        \<and> is_servable_event (env_store E) e \<and> ev_body e = body \<and> ev_parents e = wc_head_event_ids ctx
        \<and> (\<exists>st. apply_event (invite_order E) (wc_state ctx) e = Inr st)"
proof (cases result)
  case (Inl err)
  then show ?thesis using assms(7)
    by (auto simp: write_event_def sign_authorize_and_append_with_history_def append_signed_def attempt_def Let_def
        split: sum.splits)
next
  case (Inr e)
  let ?ev = "local_event now rt w c (wc_head_event_ids ctx) body"
  have a: "authorize_event_with_history (origin_order E) (wc_events ctx) (sign_event (ident (env_store E)) (rt_identity rt) ?ev) = Inr ()"
    "append_signed E rt (sign_event (ident (env_store E)) (rt_identity rt) ?ev) = (rt', Inr e)"
    using assms(7) Inr
    by (auto simp: write_event_def sign_authorize_and_append_with_history_def Let_def result_simps)
  note b = appended [OF a(2)] and ctx = context_of_store [OF assms(1-3)]
  have w: "ws_workspace_id (wc_state ctx) = w"
    using ctx workspace_of_run by (fastforce simp: context_of_def state_new_def)
  have "\<exists>st. apply_event (invite_order E) (wc_state ctx) e = Inr st"
    using context_authorizes [OF ctx assms(4)] context_heads_applied [OF ctx] a(1) b(1) w
    by (intro authorized_applies) simp_all
  moreover have "is_servable_event (env_store E) e"
    using signed_verifies [OF assms(5,6), of ?ev] b(1) by (simp add: is_servable_event_def)
  moreover have "se_body ?ev = body" by (simp add: local_event_def signable_event_new_def)
  ultimately show ?thesis using Inr b by simp
qed

section \<open>The key of a write\<close>

lemma last_max_fold:
  "foldl last_max (Some b) xs = Some r \<Longrightarrow> r \<in> set (b # xs) \<and> (\<forall>x \<in> set (b # xs). fst x \<le> fst r)"
  by (induction xs arbitrary: b) (fastforce simp: last_max_def split: if_splits)+

lemma last_max_Some: "\<exists>r. foldl last_max (Some b) xs = Some r"
  by (induction xs arbitrary: b) (auto simp: last_max_def)

lemma latest_key:
  assumes "e \<in> set events" "announced_key scope e = Some (epoch, key_id)"
  shows "\<exists>latest. latest_manual_content_key_id events scope = Some latest
    \<and> (\<exists>e' \<in> set events. \<exists>epoch'. announced_key scope e' = Some (epoch', latest) \<and> epoch \<le> epoch')"
proof -
  let ?xs = "List.map_filter (announced_key scope) events"
  have x: "set ?xs = {x. \<exists>e \<in> set events. announced_key scope e = Some x}"
    by (auto simp: List.map_filter_def) force
  then have "(epoch, key_id) \<in> set ?xs" using assms by blast
  then obtain b xs where xs: "?xs = b # xs" by (cases ?xs) auto
  obtain r where r: "foldl last_max (Some b) xs = Some r" using last_max_Some by blast
  have "latest_manual_content_key_id events scope = Some (snd r)"
    by (simp add: latest_manual_content_key_id_def xs r last_max_def)
  moreover have "r \<in> set ?xs" "epoch \<le> fst r" using last_max_fold [OF r] \<open>(epoch, key_id) \<in> set ?xs\<close> xs by auto
  ultimately show ?thesis using x by (cases r) auto
qed

definition superseded :: "SignedEvent list \<Rightarrow> ChannelId option \<Rightarrow> string \<Rightarrow> bool" where
  "superseded events scope key_id \<longleftrightarrow>
     (\<exists>e \<in> set events. \<exists>epoch other. announced_key scope e = Some (epoch, other)
        \<and> (\<forall>e' \<in> set events. \<forall>epoch'. announced_key scope e' = Some (epoch', key_id) \<longrightarrow> epoch' < epoch))"

lemma latest_not_superseded:
  assumes "\<And>latest. latest_manual_content_key_id events scope = Some latest \<Longrightarrow> latest = key_id"
  shows "\<not> superseded events scope key_id"
proof
  assume "superseded events scope key_id"
  then obtain e epoch other where e: "e \<in> set events" "announced_key scope e = Some (epoch, other)"
    "\<forall>e' \<in> set events. \<forall>epoch'. announced_key scope e' = Some (epoch', key_id) \<longrightarrow> epoch' < epoch"
    by (auto simp: superseded_def)
  from latest_key [OF e(1,2)] obtain e' epoch' where
    "e' \<in> set events" "announced_key scope e' = Some (epoch', key_id)" "epoch \<le> epoch'"
    using assms by blast
  with e(3) show False by fastforce
qed

lemma private_write_key:
  assumes "content_key_for_local_write_in_state E rt w c st events = Inr k" "fmlookup (ws_channels st) c = Some channel"
    "cv_is_private channel"
  shows "channel_accessible_to st c (own_device rt)"
    "openmls_channel_content_key E rt w c = Inr (Some k) \<or> openmls_channel_content_key E rt w c = Inr None
      \<and> (\<exists>held. load_channel_key (key_lib E) rt w c = Inr (Some held) \<and> k = resolved_of_channel_key held
           \<and> \<not> superseded events (Some c) (rk_key_id k))"
proof -
  show "channel_accessible_to st c (own_device rt)" using assms
    by (auto simp: content_key_for_local_write_in_state_def result_simps split: if_splits)
  show "openmls_channel_content_key E rt w c = Inr (Some k) \<or> openmls_channel_content_key E rt w c = Inr None
      \<and> (\<exists>held. load_channel_key (key_lib E) rt w c = Inr (Some held) \<and> k = resolved_of_channel_key held
           \<and> \<not> superseded events (Some c) (rk_key_id k))"
  proof (cases "openmls_channel_content_key E rt w c")
    case (Inr found)
    then show ?thesis using assms
      by (cases found) (auto simp: content_key_for_local_write_in_state_def bind_res_def ok_or_def resolved_of_channel_key_def
          split: option.splits if_splits sum.splits intro!: latest_not_superseded)
  qed (use assms in \<open>simp add: content_key_for_local_write_in_state_def bind_res_def ok_or_def split: if_splits\<close>)
qed

lemma public_write_key:
  assumes "content_key_for_local_write_in_state E rt w c st events = Inr k" "fmlookup (ws_channels st) c = Some channel"
    "\<not> cv_is_private channel"
  shows "openmls_workspace_content_key E rt w = Inr (Some k) \<or> openmls_workspace_content_key E rt w = Inr None
      \<and> (\<exists>held. load_workspace_key (key_lib E) rt w = Inr (Some held) \<and> k = resolved_of_workspace_key held
           \<and> \<not> superseded events None (rk_key_id k))"
proof -
  show ?thesis
  proof (cases "openmls_workspace_content_key E rt w")
    case (Inr found)
    then show ?thesis using assms
      by (cases found) (auto simp: content_key_for_local_write_in_state_def bind_res_def ok_or_def resolved_of_workspace_key_def
          split: option.splits if_splits sum.splits intro!: latest_not_superseded)
  qed (use assms in \<open>simp add: content_key_for_local_write_in_state_def bind_res_def ok_or_def split: if_splits\<close>)
qed

text \<open>
  The key of a local write.  The channel exists, and a private channel is accessible to the device.
  The key is that of the MLS group of the scope when the device has the group; otherwise it is the key
  the device holds in its file, and it is not superseded: no announced epoch of the scope is later than
  every epoch that announced this key.
\<close>

theorem local_write_uses_the_current_key:
  assumes "content_key_for_local_write_in_state E rt w c st events = Inr k"
  shows "\<exists>channel. fmlookup (ws_channels st) c = Some channel
    \<and> (if cv_is_private channel
       then channel_accessible_to st c (own_device rt)
         \<and> (openmls_channel_content_key E rt w c = Inr (Some k) \<or> openmls_channel_content_key E rt w c = Inr None
            \<and> (\<exists>held. load_channel_key (key_lib E) rt w c = Inr (Some held) \<and> k = resolved_of_channel_key held
                 \<and> \<not> superseded events (Some c) (rk_key_id k)))
       else openmls_workspace_content_key E rt w = Inr (Some k) \<or> openmls_workspace_content_key E rt w = Inr None
            \<and> (\<exists>held. load_workspace_key (key_lib E) rt w = Inr (Some held) \<and> k = resolved_of_workspace_key held
                 \<and> \<not> superseded events None (rk_key_id k)))"
proof -
  obtain channel where "fmlookup (ws_channels st) c = Some channel"
    using assms by (auto simp: content_key_for_local_write_in_state_def result_simps)
  with private_write_key [OF assms this] public_write_key [OF assms this] show ?thesis by auto
qed

lemma save_key_write:
  assumes "sign_authorize_save_key_and_append_with_history E rt ev history save = (rt', result)"
    "\<And>rt1. save rt = Inr rt1 \<Longrightarrow> rt_identity rt1 = rt_identity rt \<and> rt_store rt1 = rt_store rt"
  shows "case result of
      Inl err \<Rightarrow> rt_store rt' = rt_store rt \<and> ((\<forall>e. err \<noteq> RtStore e) \<longrightarrow> rt' = rt)
    | Inr e \<Rightarrow> e = sign_event (ident (env_store E)) (rt_identity rt) ev
        \<and> (\<exists>rt1. save rt = Inr rt1 \<and> rt' = rt1\<lparr>rt_store := put_row (event_row (env_store E) e) (rt_store rt)\<rparr>)"
  using assms
  by (auto simp: sign_authorize_save_key_and_append_with_history_def attempt_def append_signed_def map_err_def Let_def
      append_event_Inr split: sum.splits)

text \<open>
  C39: rotation.  A rotation that fails adds no event, and unless it fails at the store it does not touch
  the key either; one that succeeds stores the announcement of the next epoch and of the rotated key, and
  leaves the device with that key, in the next epoch and with the old key still in it.  Only in the last
  epoch, which wraps to zero, the key that is left does not load any more.
\<close>

theorem rotation_is_announced:
  assumes "rotate_workspace_key E now salt nonce g rt w = (rt', result)"
    "load_workspace_key (key_lib E) rt w = Inr (Some k)" "wk_workspace_id k = w" "full_length g"
    "workspace_key_file_law (key_lib E) salt nonce rt (workspace_key_rotate g k)"
    "within_limit rt' (workspace_key_path rt w)"
  shows "case result of
      Inl err \<Rightarrow> rt_store rt' = rt_store rt \<and> ((\<forall>e. err \<noteq> RtStore e) \<longrightarrow> rt' = rt)
    | Inr rotated \<Rightarrow> load_workspace_key (key_lib E) rt' w
          = (if wk_epoch k = - 1 then Inl RtInvalidWorkspaceKey else Inr (Some (workspace_key_rotate g k)))
        \<and> rw_key_id rotated = wk_key_id (workspace_key_rotate g k)
        \<and> (\<exists>e. rt_store rt' = put_row (event_row (env_store E) e) (rt_store rt)
             \<and> announced_key None e = Some (wk_epoch k + 1, rw_key_id rotated))"
proof (cases "materialized_workspace_write_context E rt w")
  case (Inl err)
  then show ?thesis using assms(1) by (auto simp: rotate_workspace_key_def attempt_def)
next
  case (Inr ctx)
  let ?k = "workspace_key_rotate g k"
  define ev where "ev = (signable_event_new now w None (own_device rt)
      (ContentKeyEpochPublished ScopeWorkspace (wk_epoch ?k) (wk_key_id ?k) (Some (wk_key_id k))
        CONTENT_KEY_ALGORITHM_AES_256_GCM_SIV))\<lparr>se_parents := wc_head_event_ids ctx\<rparr>"
  obtain r where r: "sign_authorize_save_key_and_append_with_history E rt ev (wc_events ctx)
      (\<lambda>runtime. save_workspace_key (key_lib E) salt nonce runtime ?k) = (rt', r)"
    "r = Inl err \<Longrightarrow> result = Inl err" "r = Inr e \<Longrightarrow> \<exists>x. result = Inr x \<and> rw_key_id x = wk_key_id ?k" for err e
    using assms(1,2) Inr unfolding rotate_workspace_key_def
    by (cases "sign_authorize_save_key_and_append_with_history E rt ev (wc_events ctx)
      (\<lambda>runtime. save_workspace_key (key_lib E) salt nonce runtime ?k)")
      (auto simp: attempt_def and_then_def ok_or_def ev_def Let_def split: sum.splits)
  note out = save_key_write [OF r(1)]
  have path: "workspace_key_path rt (wk_workspace_id ?k) = workspace_key_path rt w"
    using assms(3) by (simp add: workspace_key_rotate_def Let_def)
  have ok: "workspace_key_ok k" using assms(2) by (rule load_workspace_key_ok)
  have same: "wk_workspace_id ?k = w" using assms(3) by (simp add: workspace_key_rotate_def Let_def)
  have saved: "load_workspace_key (key_lib E) rt1 w = (if wk_epoch k = - 1 then Inl RtInvalidWorkspaceKey else Inr (Some ?k))"
    if "save_workspace_key (key_lib E) salt nonce rt ?k = Inr rt1" "within_limit rt1 (workspace_key_path rt w)" for rt1
    using last_epoch_rotation_is_lost [OF ok _ assms(4) that(1) assms(5)] assms(3)
      save_load_workspace_key [OF workspace_key_rotate_ok [OF ok assms(4)] that(1) assms(5)] that(2) path same
    by simp
  have "announced_key None (sign_event (ident (env_store E)) (rt_identity rt) ev) = Some (wk_epoch k + 1, wk_key_id ?k)"
    by (simp add: announced_key_def ev_def signable_event_new_def workspace_key_rotate_def Let_def)
  moreover have "rt_identity rt1 = rt_identity rt \<and> rt_store rt1 = rt_store rt"
    if "save_workspace_key (key_lib E) salt nonce rt ?k = Inr rt1" for rt1
    using that by (auto simp: save_workspace_key_def dest: saved_files)
  ultimately show ?thesis
    using out r(2,3) saved assms(6) by (cases r) fastforce+
qed

section \<open>Examples\<close>

theorem write_parents_are_the_heads_witness:
  "\<exists>ctx. workspace_write_context device_env device_rooted (WorkspaceId ''w'') = Inr ctx
     \<and> (\<forall>c. \<not> parent_of (wc_events ctx) (sg_event_id root_event) c)"
proof -
  obtain ctx where c: "workspace_write_context device_env device_rooted (WorkspaceId ''w'') = Inr ctx"
    "wc_head_event_ids ctx = [sg_event_id root_event]" using device_context by blast
  then show ?thesis
    using write_parents_are_the_heads [of device_env device_rooted, simplified device_env_sel, OF device_rooted_store(1,2) c(1)]
    by simp
qed

theorem local_write_extends_the_state_witness:
  "\<exists>ctx rt'. workspace_write_context device_env device_rooted (WorkspaceId ''w'') = Inr ctx
     \<and> write_event device_env device_clock device_rooted (WorkspaceId ''w'') None ctx
         (ChannelCreated (ChannelId ''c'') ''general'' False) = (rt', Inr channel_event)
     \<and> (\<exists>st. apply_event (invite_order device_env) (wc_state ctx) channel_event = Inr st)"
proof -
  obtain ctx where c: "workspace_write_context device_env device_rooted (WorkspaceId ''w'') = Inr ctx"
    "wc_events ctx = [root_event]" "wc_head_event_ids ctx = [sg_event_id root_event]" using device_context by blast
  have i: "rt_identity device_rooted = from_signing_key device_lib sample_key" by (simp add: device_rooted_def device_identity)
  have e: "sign_event device_lib (rt_identity device_rooted) (local_event device_clock device_rooted (WorkspaceId ''w'') None
      (wc_head_event_ids ctx) (ChannelCreated (ChannelId ''c'') ''general'' False)) = channel_event"
    by (simp add: channel_event_def c(3) i local_event_def device_rooted_def device_identity)
  obtain rt' where w: "write_event device_env device_clock device_rooted (WorkspaceId ''w'') None ctx
      (ChannelCreated (ChannelId ''c'') ''general'' False) = (rt', Inr channel_event)"
    using device_authorized(1) c(2) e
    by (auto simp: write_event_def sign_authorize_and_append_with_history_def append_signed_def attempt_def map_err_def
        device_appends)
  from local_write_extends_the_state [of device_env device_rooted, simplified device_env_sel, OF device_rooted_store(1,2) c(1)
      sorted_origins.origin_enumeration_axioms device_signature_law i w]
  show ?thesis using c(1) w by auto
qed

text \<open>Any other event is too large to be stored on the example device.\<close>

lemma oversized_write:
  assumes "sign_event device_lib (rt_identity rt) ev \<notin> {root_event, channel_event, rotation_event, invite_event}"
  shows "fst (sign_authorize_and_append device_env rt ev) = rt"
proof -
  have "append_event device_store_lib store (sign_event device_lib (rt_identity rt) ev) \<noteq> Inr store'" for store store'
    using assms oversized_length by (simp add: append_event_Inr fits_def device_store_lib_def)
  then show ?thesis
    by (auto simp: sign_authorize_and_append_def sign_authorize_and_append_with_history_def append_signed_def attempt_def
        map_err_def Let_def split: sum.split)
qed

text \<open>
  The device creates a workspace, which fails at the event of its channel, and then invites a second device.
\<close>

lemma device_creates:
  "\<exists>content. fst (create_workspace_with_access_policy device_env (\<lambda>_. device_clock) [] (replicate 12 0) (WorkspaceId ''w'')
      (ChannelId ''c'') (ContentKey (replicate 32 1)) sample_runtime ''W'' ''other'' InviteOnly)
    = device_rooted\<lparr>rt_files := fmupd (workspace_key_path sample_runtime (WorkspaceId ''w'')) content fmempty\<rparr>"
proof -
  let ?w = "WorkspaceId ''w''"
  obtain content where s: "save_workspace_key (key_lib device_env) [] (replicate 12 0) sample_runtime
      (workspace_key_generate (ContentKey (replicate 32 1)) ?w)
      = Inr (sample_runtime\<lparr>rt_files := fmupd (workspace_key_path sample_runtime ?w) content fmempty\<rparr>)"
    by (simp add: save_workspace_key_def write_local_secret_file_def bind_res_def write_secret_file_def sample_runtime_def
        workspace_key_generate_def Let_def)
  let ?rt1 = "sample_runtime\<lparr>rt_files := fmupd (workspace_key_path sample_runtime ?w) content fmempty\<rparr>"
  let ?rt2 = "device_rooted\<lparr>rt_files := fmupd (workspace_key_path sample_runtime ?w) content fmempty\<rparr>"
  have "sign_event device_lib (rt_identity sample_runtime) (local_event device_clock ?rt1 ?w None [] (WorkspaceCreated ''W'')) = root_event"
    by (simp add: root_event_def device_identity local_event_def)
  then have r: "append_signed device_env ?rt1 (sign_event device_lib (rt_identity sample_runtime)
      (local_event device_clock ?rt1 ?w None [] (WorkspaceCreated ''W''))) = (?rt2, Inr root_event)"
    by (simp add: append_signed_def device_appends map_err_def run_steps device_rooted_def)
      (simp add: sample_runtime_def put_row_def)
  have "ev_body (sign_event device_lib (rt_identity ?rt2) (local_event device_clock ?rt2 ?w None ps
      (ChannelCreated (ChannelId ''c'') ''other'' False))) = ChannelCreated (ChannelId ''c'') ''other'' False" for ps
    by (simp add: local_event_def signable_event_new_def)
  moreover have "e \<notin> {root_event, channel_event, rotation_event, invite_event}"
    if "ev_body e = ChannelCreated (ChannelId ''c'') ''other'' False" for e
    using that by (auto simp: event_bodies)
  ultimately have "sign_event device_lib (rt_identity ?rt2) (local_event device_clock ?rt2 ?w None ps
      (ChannelCreated (ChannelId ''c'') ''other'' False)) \<notin> {root_event, channel_event, rotation_event, invite_event}" for ps
    by blast
  from oversized_write [OF this] show ?thesis
    by (intro exI [of _ content])
      (simp add: create_workspace_with_access_policy_def validate_metadata_field_size_def ensure_def run_steps s r)
qed

lemma device_invites:
  assumes "rt = device_rooted\<lparr>rt_files := fmupd (workspace_key_path sample_runtime (WorkspaceId ''w'')) content fmempty\<rparr>"
    "local_ok device_env rt"
  shows "own_log device_env (fst (invite_member device_env M device_clock inp rt (WorkspaceId ''w'') (DeviceId ''bob'') Member))
      (WorkspaceId ''w'') = [root_event, invite_event]"
proof -
  let ?w = "WorkspaceId ''w''" and ?ev = "local_event device_clock rt (WorkspaceId ''w'') None [sg_event_id root_event]
    (MemberInvited (DeviceId ''bob'') Member)"
  define rt' where "rt' = rt\<lparr>rt_store := put_row (event_row device_store_lib invite_event) (rt_store rt)\<rparr>"
  obtain ctx where c: "workspace_write_context device_env rt ?w = Inr ctx"
    "wc_events ctx = [root_event]" "wc_head_event_ids ctx = [sg_event_id root_event]"
    using device_context by (auto simp: assms(1) workspace_write_context_def)
  have i: "rt_identity rt = from_signing_key device_lib sample_key" by (simp add: assms(1) device_rooted_def device_identity)
  have named: "sign_event device_lib (rt_identity rt) ?ev = invite_event"
    by (simp add: invite_event_def local_event_def i device_identity)
  have w: "write_event device_env device_clock rt ?w None ctx (MemberInvited (DeviceId ''bob'') Member) = (rt', Inr invite_event)"
    using device_authorized(3) c(2) named
    by (auto simp: write_event_def c(3) sign_authorize_and_append_with_history_def append_signed_def attempt_def map_err_def
        device_appends rt'_def)
  have "openmls_workspace_group_path rt' ?w \<noteq> workspace_key_path sample_runtime ?w"
    by (simp add: openmls_workspace_group_path_def workspace_key_path_def rt'_def assms(1) device_rooted_def
        sample_runtime_def runtime_paths_new_def path_join_def)
  then have "local_openmls_workspace_group_id device_env M rt' ?w = Inr None"
    by (simp add: local_openmls_workspace_group_id_def contains_key_def rt'_def assms(1))
  then have "auto_add_openmls_workspace_member_if_ready device_env M inp rt' ?w (DeviceId ''bob'') = (rt', None)"
    by (simp add: auto_add_openmls_workspace_member_if_ready_def auto_add_openmls_workspace_member_if_ready_with_index_def
        split: sum.split)
  then have "fst (invite_member device_env M device_clock inp rt ?w (DeviceId ''bob'') Member) = rt'"
    by (simp add: invite_member_def validate_device_id_reference_def validate_metadata_field_size_def ensure_def run_steps c(1) w)
  moreover have "own_log device_env rt' (se_workspace_id ?ev) = own_log device_env rt (se_workspace_id ?ev) @ [invite_event]"
  proof (rule written_log(1) [where ev = ?ev and history = "[root_event]", OF device_laws assms(2)])
    show "fresh_event device_env rt ?ev"
      by (simp add: fresh_event_def named) (simp add: assms(1) device_rooted_def event_row_def device_ids)
    show "sign_authorize_and_append_with_history device_env rt ?ev [root_event] = (rt', Inr invite_event)"
      using w by (simp add: write_event_def c)
  qed simp
  moreover have "own_log device_env rt ?w = [root_event]" using device_rooted_store(3) by (simp add: assms(1))
  ultimately show ?thesis by simp
qed


theorem local_write_uses_the_current_key_witness:
  "content_key_for_local_write_in_state device_env device_keyed (WorkspaceId ''w'') (ChannelId ''c'')
     ((state_new (WorkspaceId ''w''))\<lparr>ws_channels := fmupd (ChannelId ''c'')
        \<lparr>cv_channel_id = ChannelId ''c'', cv_name = ''general'', cv_topic = [], cv_archived = False, cv_is_private = False,
         cv_member_device_ids = [], cv_direct_message = False, cv_direct_message_participant_device_ids = []\<rparr> fmempty\<rparr>)
     [root_event] = Inr (resolved_of_workspace_key sample_workspace_key)
   \<and> \<not> superseded [root_event] None (wk_key_id sample_workspace_key)"
proof -
  let ?w = "WorkspaceId ''w''"
  let ?st = "(state_new ?w)\<lparr>ws_channels := fmupd (ChannelId ''c'')
        \<lparr>cv_channel_id = ChannelId ''c'', cv_name = ''general'', cv_topic = [], cv_archived = False, cv_is_private = False,
         cv_member_device_ids = [], cv_direct_message = False, cv_direct_message_participant_device_ids = []\<rparr> fmempty\<rparr>"
  have "openmls_workspace_group_path device_keyed ?w \<noteq> workspace_key_path sample_runtime ?w"
    by (simp add: openmls_workspace_group_path_def workspace_key_path_def device_keyed_def device_rooted_def
        sample_runtime_def runtime_paths_new_def path_join_def)
  then have m: "openmls_workspace_content_key device_env device_keyed ?w = Inr None"
    by (simp add: openmls_workspace_content_key_def openmls_group_content_key_def read_optional_openmls_secret_file_def
        read_local_secret_file_def read_local_metadata_file_with_limit_def device_keyed_def bind_res_def)
  have l: "latest_manual_content_key_id [root_event] None = None"
    by (simp add: latest_manual_content_key_id_def List.map_filter_simps announced_key_def event_bodies)
  have k: "content_key_for_local_write_in_state device_env device_keyed ?w (ChannelId ''c'') ?st [root_event]
      = Inr (resolved_of_workspace_key sample_workspace_key)"
    by (simp add: content_key_for_local_write_in_state_def m l device_load bind_res_def ok_or_def)
  from local_write_uses_the_current_key [OF k] show ?thesis using k m by (auto simp: resolved_of_workspace_key_def)
qed

theorem rotation_is_announced_witness:
  "\<exists>rt' rotated. rotate_workspace_key device_env device_clock [] (replicate 12 0) (ContentKey (replicate 32 2)) device_keyed
       (WorkspaceId ''w'') = (rt', Inr rotated)
     \<and> load_workspace_key (key_lib device_env) rt' (WorkspaceId ''w'') = Inr (Some rotated_key)"
proof -
  obtain rt1 where s: "within_limit rt1 (workspace_key_path device_keyed (WorkspaceId ''w''))"
    and r: "rotate_workspace_key device_env device_clock [] (replicate 12 0) (ContentKey (replicate 32 2)) device_keyed
      (WorkspaceId ''w'') = (rt1\<lparr>rt_store := put_row (event_row device_store_lib rotation_event) (rt_store rt1)\<rparr>,
        Inr device_rotation)"
    using device_rotates by blast
  have "workspace_key_file_law (key_lib device_env) [] (replicate 12 0) device_keyed
      (workspace_key_rotate (ContentKey (replicate 32 2)) sample_workspace_key)"
    using device_key_law(2) by (simp add: rotated_key_def)
  from rotation_is_announced [OF r device_load _ _ this] s r show ?thesis
    by (simp add: device_key_ids full_length_def rotated_key_def)
qed

end
