(* ===== verification/Group_Correct.thy ===== *)
theory Group_Correct
  imports Group_Index Access_Invariant
begin

text \<open>
  What the index of MLS groups means.  A group log has members, the commits of its epochs and a set of
  forked groups; from its laws follow who is a member after a sequence of events and which groups are
  forked.  The index is such a log twice, for the groups of the workspace and for those of the channels.
\<close>

section \<open>Group logs\<close>

text \<open>An event of the list does it, and no later one undoes it.\<close>

definition lasting :: "('e \<Rightarrow> bool) \<Rightarrow> ('e \<Rightarrow> bool) \<Rightarrow> 'e list \<Rightarrow> bool" where
  "lasting does undoes es \<longleftrightarrow> (\<exists>i < length es. does (es ! i) \<and> (\<forall>j < length es. i < j \<longrightarrow> \<not> undoes (es ! j)))"

lemma lasting_Nil [simp]: "\<not> lasting does undoes []"
  by (simp add: lasting_def)

lemma lasting_snoc [simp]: "lasting does undoes (es @ [e]) \<longleftrightarrow> does e \<or> lasting does undoes es \<and> \<not> undoes e"
proof
  assume "lasting does undoes (es @ [e])"
  then obtain i where i: "i < length es + 1" "does ((es @ [e]) ! i)"
    "\<forall>j < length es + 1. i < j \<longrightarrow> \<not> undoes ((es @ [e]) ! j)" by (auto simp: lasting_def)
  show "does e \<or> lasting does undoes es \<and> \<not> undoes e"
  proof (cases "i = length es")
    case False
    then have "i < length es" using i(1) by simp
    moreover have "\<not> undoes (es ! j)" if "j < length es" "i < j" for j
      using i(3) [rule_format, of j] that by (simp add: nth_append)
    ultimately have "lasting does undoes es" using i(2) by (auto simp: lasting_def nth_append intro!: exI [of _ i])
    moreover have "\<not> undoes e" using i(3) [rule_format, of "length es"] False i(1) by simp
    ultimately show ?thesis by simp
  qed (use i(2) in simp)
next
  assume "does e \<or> lasting does undoes es \<and> \<not> undoes e"
  then show "lasting does undoes (es @ [e])"
  proof
    assume "does e"
    then show ?thesis by (auto simp: lasting_def intro!: exI [of _ "length es"])
  next
    assume "lasting does undoes es \<and> \<not> undoes e"
    then obtain i where "i < length es" "does (es ! i)" "\<forall>j < length es. i < j \<longrightarrow> \<not> undoes (es ! j)" "\<not> undoes e"
      by (auto simp: lasting_def)
    then show ?thesis by (auto simp: lasting_def nth_append less_Suc_eq intro!: exI [of _ i])
  qed
qed

text \<open>Two different events of the list are commits of one epoch of the group.\<close>

definition forked_by :: "(SignedEvent \<Rightarrow> ('g \<times> u64) option) \<Rightarrow> SignedEvent list \<Rightarrow> 'g \<Rightarrow> bool" where
  "forked_by commit es g \<longleftrightarrow> (\<exists>e \<in> set es. \<exists>e' \<in> set es. \<exists>epoch. commit e = Some (g, epoch)
     \<and> commit e' = Some (g, epoch) \<and> sg_event_id e \<noteq> sg_event_id e')"

lemma forked_by_mono: "set es \<subseteq> set es' \<Longrightarrow> forked_by commit es g \<Longrightarrow> forked_by commit es' g"
  unfolding forked_by_def by blast

lemma forked_byI:
  "e \<in> set es \<Longrightarrow> e' \<in> set es \<Longrightarrow> commit e = Some (g, epoch) \<Longrightarrow> commit e' = Some (g, epoch)
     \<Longrightarrow> sg_event_id e \<noteq> sg_event_id e' \<Longrightarrow> forked_by commit es g"
  unfolding forked_by_def by blast

locale group_log =
  fixes init :: 'x and step :: "'x \<Rightarrow> SignedEvent \<Rightarrow> 'x"
    and members :: "'x \<Rightarrow> 'g \<Rightarrow> string set" and commits :: "'x \<Rightarrow> 'g \<times> u64 \<Rightarrow> string option" and forks :: "'x \<Rightarrow> 'g set"
    and commit :: "SignedEvent \<Rightarrow> ('g \<times> u64) option"
    and adds :: "SignedEvent \<Rightarrow> 'g \<Rightarrow> string set" and removes :: "SignedEvent \<Rightarrow> 'g \<Rightarrow> string set"
  assumes init_empty: "members init g = {}" "commits init k = None" "forks init = {}"
    and members_step: "members (step x e) g = members x g - removes e g \<union> adds e g"
    and commits_step: "commits (step x e) k = (if commit e = Some k then Some (event_str (sg_event_id e)) else commits x k)"
    and forks_step: "forks (step x e) = forks x \<union>
      {g. \<exists>epoch i. commit e = Some (g, epoch) \<and> commits x (g, epoch) = Some i \<and> i \<noteq> event_str (sg_event_id e)}"
begin

definition run :: "SignedEvent list \<Rightarrow> 'x" where
  "run es = foldl step init es"

lemma run_simps [simp]: "run [] = init" "run (es @ [e]) = step (run es) e"
  by (simp_all add: run_def)

lemma members_run: "d \<in> members (run es) g \<longleftrightarrow> lasting (\<lambda>e. d \<in> adds e g) (\<lambda>e. d \<in> removes e g) es"
  by (induction es rule: rev_induct) (auto simp: init_empty members_step)

lemma commits_run:
  "case commits (run es) k of
     None \<Rightarrow> \<forall>e \<in> set es. commit e \<noteq> Some k
   | Some i \<Rightarrow> \<exists>e \<in> set es. commit e = Some k \<and> i = event_str (sg_event_id e)"
  by (induction es rule: rev_induct) (auto simp: init_empty commits_step split: option.splits)

lemma forks_run: "g \<in> forks (run es) \<longleftrightarrow> forked_by commit es g"
proof (induction es rule: rev_induct)
  case Nil
  then show ?case by (simp add: init_empty forked_by_def)
next
  case (snoc e es)
  show ?case
  proof
    assume "g \<in> forks (run (es @ [e]))"
    then show "forked_by commit (es @ [e]) g"
    proof (cases "g \<in> forks (run es)")
      case True
      show ?thesis by (rule forked_by_mono [of es]) (use True snoc.IH in auto)
    next
      case False
      with \<open>g \<in> forks (run (es @ [e]))\<close> obtain epoch i where n: "commit e = Some (g, epoch)"
        "commits (run es) (g, epoch) = Some i" "i \<noteq> event_str (sg_event_id e)" by (auto simp: forks_step)
      then obtain e' where "e' \<in> set es" "commit e' = Some (g, epoch)" "i = event_str (sg_event_id e')"
        using commits_run [of es "(g, epoch)"] by auto
      with n have "e' \<in> set (es @ [e])" "e \<in> set (es @ [e])" "sg_event_id e' \<noteq> sg_event_id e" by auto
      with n(1) \<open>commit e' = Some (g, epoch)\<close> show ?thesis by (intro forked_byI [of e' _ e]) auto
    qed
  next
    assume "forked_by commit (es @ [e]) g"
    then consider "forked_by commit es g" | e' epoch where "e' \<in> set es" "commit e' = Some (g, epoch)"
      "commit e = Some (g, epoch)" "sg_event_id e' \<noteq> sg_event_id e" by (auto simp: forked_by_def)
    then show "g \<in> forks (run (es @ [e]))"
    proof cases
      case 1
      then show ?thesis using snoc.IH by (simp add: forks_step)
    next
      case 2
      obtain i where i: "commits (run es) (g, epoch) = Some i"
        using commits_run [of es "(g, epoch)"] 2(1,2) by (cases "commits (run es) (g, epoch)") auto
      then obtain l where l: "l \<in> set es" "commit l = Some (g, epoch)" "i = event_str (sg_event_id l)"
        using commits_run [of es "(g, epoch)"] by auto
      show ?thesis
      proof (cases "sg_event_id l = sg_event_id e")
        case True
        then have "forked_by commit es g" using 2(1,2,4) l(1,2) by (intro forked_byI [of e' es l]) auto
        then show ?thesis using snoc.IH by (simp add: forks_step)
      next
        case False
        then show ?thesis using i l(3) 2(3) by (auto simp: forks_step EventId.expand)
      qed
    qed
  qed
qed

end

section \<open>The groups of the workspace and of the channels\<close>

definition workspace_commit :: "SignedEvent \<Rightarrow> (string \<times> u64) option" where
  "workspace_commit e =
     (case ev_body e of
        OpenMlsWorkspaceGroupMemberAdded _ _ _ _ _ g epoch _ _ _ \<Rightarrow> Some (g, epoch)
      | OpenMlsWorkspaceGroupMemberRemoved _ _ _ g epoch _ _ \<Rightarrow> Some (g, epoch)
      | OpenMlsWorkspaceGroupSelfUpdated _ _ g epoch _ _ \<Rightarrow> Some (g, epoch)
      | _ \<Rightarrow> None)"

definition channel_commit :: "SignedEvent \<Rightarrow> ((string \<times> string) \<times> u64) option" where
  "channel_commit e =
     (case ev_body e of
        OpenMlsChannelGroupMemberAdded c _ _ _ _ _ g epoch _ _ _ \<Rightarrow> Some ((channel_str c, g), epoch)
      | OpenMlsChannelGroupMemberRemoved c _ _ _ g epoch _ _ \<Rightarrow> Some ((channel_str c, g), epoch)
      | OpenMlsChannelGroupSelfUpdated c _ _ g epoch _ _ \<Rightarrow> Some ((channel_str c, g), epoch)
      | _ \<Rightarrow> None)"

definition workspace_adds :: "SignedEvent \<Rightarrow> string \<Rightarrow> string set" where
  "workspace_adds e g =
     (case ev_body e of
        OpenMlsWorkspaceGroupMemberAdded d _ _ _ _ g' _ _ _ _ \<Rightarrow>
          if g' = g then {device_str (ev_author e), device_str d} else {}
      | _ \<Rightarrow> {})"

definition workspace_removes :: "SignedEvent \<Rightarrow> string \<Rightarrow> string set" where
  "workspace_removes e g =
     (case ev_body e of
        OpenMlsWorkspaceGroupMemberRemoved d _ _ g' _ _ _ \<Rightarrow> if g' = g then {device_str d} else {}
      | _ \<Rightarrow> {})"

definition channel_adds :: "SignedEvent \<Rightarrow> string \<times> string \<Rightarrow> string set" where
  "channel_adds e k =
     (case ev_body e of
        OpenMlsChannelGroupMemberAdded c d _ _ _ _ g _ _ _ _ \<Rightarrow>
          if (channel_str c, g) = k then {device_str (ev_author e), device_str d} else {}
      | _ \<Rightarrow> {})"

definition channel_removes :: "SignedEvent \<Rightarrow> string \<times> string \<Rightarrow> string set" where
  "channel_removes e k =
     (case ev_body e of
        OpenMlsChannelGroupMemberRemoved c d _ _ g _ _ _ \<Rightarrow> if (channel_str c, g) = k then {device_str d} else {}
      | _ \<Rightarrow> {})"

definition workspace_group :: "OpenMlsAutoProvisionIndex \<Rightarrow> string \<Rightarrow> string set" where
  "workspace_group ix g = (case fmlookup (px_workspace_group_members ix) g of Some ms \<Rightarrow> ms | None \<Rightarrow> {})"

definition channel_group :: "OpenMlsAutoProvisionIndex \<Rightarrow> string \<times> string \<Rightarrow> string set" where
  "channel_group ix k =
     (case Option.bind (fmlookup (px_channel_group_members ix) (fst k)) (\<lambda>gs. fmlookup gs (snd k)) of
        Some ms \<Rightarrow> ms | None \<Rightarrow> {})"

abbreviation index_step :: "OpenMlsAutoProvisionIndex \<Rightarrow> SignedEvent \<Rightarrow> OpenMlsAutoProvisionIndex" where
  "index_step ix e \<equiv> index_effect e (index_commit e ix)"

lemmas group_step_defs =
  index_effect_def index_commit_def record_workspace_commit_def record_channel_commit_def entry_or_default_def
  workspace_commit_def channel_commit_def Let_def

interpretation workspace_groups: group_log provision_index_default index_step workspace_group
  "\<lambda>ix. fmlookup (px_workspace_commits ix)" px_forked_workspace_group_ids workspace_commit workspace_adds workspace_removes
proof
  fix x e g
  show "workspace_group (index_step x e) g = workspace_group x g - workspace_removes e g \<union> workspace_adds e g"
    by (cases "ev_body e") (auto simp: group_step_defs workspace_group_def workspace_adds_def workspace_removes_def
        split: option.splits)
  show "px_forked_workspace_group_ids (index_step x e) = px_forked_workspace_group_ids x \<union>
      {g. \<exists>epoch i. workspace_commit e = Some (g, epoch) \<and> fmlookup (px_workspace_commits x) (g, epoch) = Some i
        \<and> i \<noteq> event_str (sg_event_id e)}"
    by (cases "ev_body e") (auto simp: group_step_defs split: option.splits)
next
  fix x e k
  show "fmlookup (px_workspace_commits (index_step x e)) k =
      (if workspace_commit e = Some k then Some (event_str (sg_event_id e)) else fmlookup (px_workspace_commits x) k)"
    by (cases "ev_body e") (auto simp: group_step_defs split: option.splits)
qed (simp_all add: provision_index_default_def workspace_group_def)

lemma channel_group_commit [simp]: "channel_group (index_commit e x) k = channel_group x k"
  by (cases "ev_body e") (simp_all add: index_commit_def record_workspace_commit_def record_channel_commit_def
      channel_group_def Let_def split: option.split)

lemma channel_group_effect: "channel_group (index_effect e x) k = channel_group x k - channel_removes e k \<union> channel_adds e k"
proof -
  obtain c g where k: "k = (c, g)" by fastforce
  consider (add) c' d i1 i2 i3 i4 g' epoch b1 b2 b3
      where "ev_body e = OpenMlsChannelGroupMemberAdded c' d i1 i2 i3 i4 g' epoch b1 b2 b3"
    | (remove) c' d i1 i2 g' epoch b1 b2 where "ev_body e = OpenMlsChannelGroupMemberRemoved c' d i1 i2 g' epoch b1 b2"
    | (other) "channel_removes e k = {}" "channel_adds e k = {}"
      "px_channel_group_members (index_effect e x) = px_channel_group_members x"
    by (cases "ev_body e") (simp_all add: channel_removes_def channel_adds_def index_effect_def Let_def)
  then show ?thesis
  proof cases
    case add
    then show ?thesis
      by (auto simp: k index_effect_def Let_def channel_group_def channel_adds_def channel_removes_def entry_or_default_def
          split: option.split)
  next
    case remove
    then show ?thesis
      by (auto simp: k index_effect_def Let_def channel_group_def channel_adds_def channel_removes_def fm_modify_def
          split: option.split)
  qed (simp add: channel_group_def)
qed

interpretation channel_groups: group_log provision_index_default index_step channel_group
  "\<lambda>ix k. fmlookup (px_channel_commits ix) (fst (fst k), snd (fst k), snd k)" px_forked_channel_group_ids
  channel_commit channel_adds channel_removes
proof
  fix x e and k :: "string \<times> string"
  show "channel_group (index_step x e) k = channel_group x k - channel_removes e k \<union> channel_adds e k"
    by (simp add: channel_group_effect)
  show "px_forked_channel_group_ids (index_step x e) = px_forked_channel_group_ids x \<union>
      {k. \<exists>epoch i. channel_commit e = Some (k, epoch)
        \<and> fmlookup (px_channel_commits x) (fst (fst (k, epoch)), snd (fst (k, epoch)), snd (k, epoch)) = Some i
        \<and> i \<noteq> event_str (sg_event_id e)}"
    by (cases "ev_body e") (auto simp: group_step_defs split: option.splits)
next
  fix x e and k :: "(string \<times> string) \<times> u64"
  show "fmlookup (px_channel_commits (index_step x e)) (fst (fst k), snd (fst k), snd k) =
      (if channel_commit e = Some k then Some (event_str (sg_event_id e))
       else fmlookup (px_channel_commits x) (fst (fst k), snd (fst k), snd k))"
    by (cases k; cases "ev_body e") (auto simp: group_step_defs split: option.splits)
qed (simp_all add: provision_index_default_def channel_group_def)

lemma provision_index_run:
  "provision_index_from_events es = workspace_groups.run es" "provision_index_from_events es = channel_groups.run es"
  by (simp_all add: provision_index_from_events_def workspace_groups.run_def channel_groups.run_def)

section \<open>Queries\<close>

abbreviation in_workspace_group :: "SignedEvent list \<Rightarrow> string \<Rightarrow> DeviceId \<Rightarrow> bool" where
  "in_workspace_group es g d \<equiv>
     lasting (\<lambda>e. device_str d \<in> workspace_adds e g) (\<lambda>e. device_str d \<in> workspace_removes e g) es"

abbreviation in_channel_group :: "SignedEvent list \<Rightarrow> ChannelId \<Rightarrow> string \<Rightarrow> DeviceId \<Rightarrow> bool" where
  "in_channel_group es c g d \<equiv> lasting (\<lambda>e. device_str d \<in> channel_adds e (channel_str c, g))
     (\<lambda>e. device_str d \<in> channel_removes e (channel_str c, g)) es"

lemma workspace_group_member:
  "workspace_group_has_device_in_group (provision_index_from_events es) g d \<longleftrightarrow> in_workspace_group es g d"
  using workspace_groups.members_run [of "device_str d" es g]
  by (simp add: workspace_group_has_device_in_group_def provision_index_run(1) workspace_group_def split: option.splits)

lemma channel_group_member:
  "channel_group_has_device_in_group (provision_index_from_events es) c g d \<longleftrightarrow> in_channel_group es c g d"
  using channel_groups.members_run [of "device_str d" es "(channel_str c, g)"]
  by (simp add: channel_group_has_device_in_group_def provision_index_run(2) channel_group_def split: option.splits)

lemma workspace_group_has_device_iff:
  "workspace_group_has_device ix d \<longleftrightarrow> (\<exists>g. workspace_group_has_device_in_group ix g d)"
  by (auto simp: workspace_group_has_device_def workspace_group_ids_for_device_def filter_empty_conv
      workspace_group_has_device_in_group_def set_sorted_list_of_fmap split: option.splits)

lemma channel_group_has_device_iff:
  "channel_group_has_device ix c d \<longleftrightarrow> (\<exists>g. channel_group_has_device_in_group ix c g d)"
  by (auto simp: channel_group_has_device_def channel_group_has_device_in_group_def any_group_has_def
      set_sorted_list_of_fmap split: option.splits bind_splits)

lemma channel_group_ids_iff: "c \<in> set (channel_group_ids_for_device ix d) \<longleftrightarrow> channel_group_has_device ix c d"
  by (cases c) (auto simp: channel_group_ids_for_device_def channel_group_has_device_def set_sorted_list_of_fmap image_iff
      split: option.splits)

lemma forked_workspace_iff: "has_forked_workspace_group (provision_index_from_events es) \<longleftrightarrow> (\<exists>g. forked_by workspace_commit es g)"
  using workspace_groups.forks_run [of _ es] by (auto simp: has_forked_workspace_group_def provision_index_run(1))

lemma forked_channel_iff:
  "channel_has_forked_group (provision_index_from_events es) c \<longleftrightarrow> (\<exists>g. forked_by channel_commit es (channel_str c, g))"
  using channel_groups.forks_run [of _ es] by (auto simp: channel_has_forked_group_def provision_index_run(2))

lemma first_forked_None: "first_forked_channel_id ix = None \<longleftrightarrow> (\<forall>c. \<not> channel_has_forked_group ix c)"
proof -
  have "px_forked_channel_group_ids ix = {} \<longleftrightarrow> (\<forall>c. \<not> channel_has_forked_group ix c)"
    by (auto simp: channel_has_forked_group_def split: prod.splits) (metis ChannelId.sel)
  then show ?thesis by (simp add: first_forked_channel_id_def)
qed

section \<open>Members of private channels\<close>

lemma find_map_snoc: "find_map f (xs @ [x]) = (case find_map f xs of Some y \<Rightarrow> Some y | None \<Rightarrow> f x)"
  by (induction xs) (auto split: option.splits)

definition creates_private :: "ChannelId \<Rightarrow> SignedEvent \<Rightarrow> DeviceId option" where
  "creates_private c event = (case ev_body event of
         ChannelCreated channel_id _ is_private \<Rightarrow>
           if is_private \<and> channel_id = c then Some (ev_author event) else None
       | DirectMessageChannelCreated channel_id _ _ \<Rightarrow>
           if channel_id = c then Some (ev_author event) else None
       | _ \<Rightarrow> None)"

text \<open>What the two replays know about a channel agrees with its entry in the access index.\<close>

definition channel_known :: "ChannelAccess option \<Rightarrow> string set \<Rightarrow> DeviceId option \<Rightarrow> bool" where
  "channel_known entry members creator \<longleftrightarrow>
     (case entry of
        None \<Rightarrow> members = {} \<and> creator = None
      | Some ca \<Rightarrow> ca_is_private ca \<longrightarrow> members = device_str ` ca_members ca \<and> creator = Some (ca_creator_device_id ca))"

lemma device_str_image_diff: "device_str ` (A - {d}) = device_str ` A - {device_str d}"
  by (auto simp: image_iff DeviceId.expand)

definition about_members :: "EventBody \<Rightarrow> bool" where
  "about_members body =
     (case body of ChannelCreated _ _ _ \<Rightarrow> True | DirectMessageChannelCreated _ _ _ \<Rightarrow> True | ChannelMemberAdded _ _ \<Rightarrow> True
      | ChannelMemberRemoved _ _ \<Rightarrow> True | MemberRemoved _ \<Rightarrow> True | _ \<Rightarrow> False)"

lemma not_about_members:
  assumes "\<not> about_members (ev_body e)"
  shows "ix_channels (apply_authorized_body ix e) = ix_channels ix" "channel_member_step c ms e = ms" "creates_private c e = None"
  using assms
  by (cases "ev_body e", auto simp: about_members_def apply_authorized_body_def index_update_defs channel_member_step_def
      creates_private_def split: option.splits ContentKeyScope.splits)+

lemma channel_known_step:
  assumes "authorize_and_apply ix e = Inr ix'"
    "channel_known (fmlookup (ix_channels ix) c) members creator"
  shows "channel_known (fmlookup (ix_channels ix') c) (channel_member_step c members e)
    (case creator of Some y \<Rightarrow> Some y | None \<Rightarrow> creates_private c e)"
proof (cases "about_members (ev_body e)")
  case False
  with assms show ?thesis
    by (auto simp: authorize_and_apply_Inr apply_authorized_def not_about_members split: option.splits)
next
  case True
  from assms(1) have ok: "authorize_body ix e = Inr ()"
    and ix': "ix_channels ix' = ix_channels (apply_authorized_body ix e)"
    by (auto simp: authorize_and_apply_Inr authorize_Inr apply_authorized_def)
  from True ok assms(2) show ?thesis
    unfolding ix'
    by (cases "ev_body e")
      (auto simp: about_members_def apply_authorized_body_def index_update_defs authorize_body_def authorize_arm_defs
        require_new_channel_id_def contains_key_def result_simps channel_known_def channel_member_step_def
        creates_private_def device_str_image_diff split: option.splits if_splits)
qed

end
