(* ===== verification/Removal_Correct.thy ===== *)
theory Removal_Correct
  imports Group_Correct Member_Removal Write_Correct
begin

text \<open>
  What the removal of a member relies on: the ancestors that the removal index collects are the causal
  history of a commit, every stored commit with an authorised history counts, and a removal goes through
  only when no group holds the device and none is forked.
\<close>

section \<open>The causal history of a commit\<close>

definition parent_step :: "(EventId, SignedEvent) fmap \<Rightarrow> EventId \<Rightarrow> EventId \<Rightarrow> bool" where
  "parent_step m x y \<longleftrightarrow> (\<exists>e. fmlookup m x = Some e \<and> y \<in> set (ev_parents e))"

definition ancestry :: "(EventId, SignedEvent) fmap \<Rightarrow> EventId list \<Rightarrow> EventId set" where
  "ancestry m ps = {x. \<exists>p \<in> set ps. (parent_step m)\<^sup>*\<^sup>* p x}"

lemma ancestry_simps [simp]: "ancestry m [] = {}" "ancestry m (ps @ qs) = ancestry m ps \<union> ancestry m qs"
  by (auto simp: ancestry_def)

lemma ancestry_parent:
  assumes "fmlookup m i = Some e"
  shows "ancestry m [i] = insert i (ancestry m (ev_parents e))"
proof -
  have "(parent_step m)\<^sup>*\<^sup>* i x \<longleftrightarrow> x = i \<or> (\<exists>p \<in> set (ev_parents e). (parent_step m)\<^sup>*\<^sup>* p x)" for x
    using assms converse_rtranclpE [of "parent_step m" i x]
    by (auto simp: parent_step_def) (auto simp: parent_step_def intro: converse_rtranclp_into_rtranclp)
  then show ?thesis by (auto simp: ancestry_def)
qed

lemma collect_simps:
  "collect_ancestors m A [] = Some A"
  "collect_ancestors m A (ps @ [i]) =
     (if i \<in> A then collect_ancestors m A ps
      else case fmlookup m i of None \<Rightarrow> None | Some e \<Rightarrow> collect_ancestors m (insert i A) (ps @ ev_parents e))"
  by (simp_all add: collect_ancestors.simps [of m A "[]"] collect_ancestors.simps [of m A "ps @ [i]"])

lemma collect_induct [case_names Nil seen unknown known]:
  assumes "\<And>A. P A []"
    and "\<And>A ps i. i \<in> A \<Longrightarrow> P A ps \<Longrightarrow> P A (ps @ [i])"
    and "\<And>A ps i. i \<notin> A \<Longrightarrow> fmlookup m i = None \<Longrightarrow> P A (ps @ [i])"
    and "\<And>A ps i e. i \<notin> A \<Longrightarrow> fmlookup m i = Some e \<Longrightarrow> P (insert i A) (ps @ ev_parents e) \<Longrightarrow> P A (ps @ [i])"
  shows "P A ps"
  using assms
proof (induction m A ps rule: collect_ancestors.induct)
  case (1 m A ps)
  show ?case
  proof (cases ps rule: rev_cases)
    case (snoc rest i)
    then have ps: "ps \<noteq> []" "i = last ps" "rest = butlast ps" by simp_all
    show ?thesis
    proof (cases "i \<in> A")
      case True
      then have "P A rest" using 1(1) [OF ps] 1(3-6) by blast
      then show ?thesis unfolding snoc by (rule 1(4) [OF True])
    next
      case False
      show ?thesis
      proof (cases "fmlookup m i")
        case (Some e)
        then have "P (insert i A) (rest @ ev_parents e)" using 1(2) [OF ps False Some] 1(3-6) by blast
        then show ?thesis unfolding snoc by (rule 1(6) [OF False Some])
      qed (use 1(5) [OF False] snoc in blast)
    qed
  qed (use 1(3) in blast)
qed

text \<open>What is collected so far is stored, and its parents are collected or still on the stack.\<close>

definition explored :: "(EventId, SignedEvent) fmap \<Rightarrow> EventId set \<Rightarrow> EventId set \<Rightarrow> bool" where
  "explored m A frontier \<longleftrightarrow> A \<subseteq> fmdom' m \<and> (\<forall>x \<in> A. \<forall>y. parent_step m x y \<longrightarrow> y \<in> A \<union> frontier)"

lemma collect_Some:
  "collect_ancestors m A ps = Some B \<Longrightarrow> explored m A (set ps)
     \<Longrightarrow> explored m B {} \<and> A \<union> set ps \<subseteq> B \<and> B \<subseteq> A \<union> ancestry m ps"
proof (induction A ps rule: collect_induct [of _ m])
  case (seen A ps i)
  from seen(1,4) have "explored m A (set ps)" by (auto simp: explored_def)
  with seen show ?case by (auto simp: collect_simps)
next
  case (known A ps i e)
  have "explored m (insert i A) (set (ps @ ev_parents e))"
    using known(1,2,5) by (auto simp: explored_def parent_step_def fmdom'_iff)
  then show ?case using known(1-4) by (auto simp: collect_simps ancestry_parent)
qed (simp_all add: collect_simps)

lemma collect_None: "collect_ancestors m A ps = None \<Longrightarrow> \<exists>x \<in> ancestry m ps. x \<notin> fmdom' m"
proof (induction A ps rule: collect_induct [of _ m])
  case (unknown A ps i)
  then show ?case by (auto simp: ancestry_def fmdom'_iff)
next
  case (known A ps i e)
  then show ?case by (auto simp: collect_simps ancestry_parent)
qed (auto simp: collect_simps)

lemma ancestry_closed:
  assumes "explored m B {}" "set ps \<subseteq> B"
  shows "ancestry m ps \<subseteq> B"
proof
  fix x assume "x \<in> ancestry m ps"
  then obtain p where p: "p \<in> set ps" "(parent_step m)\<^sup>*\<^sup>* p x" by (auto simp: ancestry_def)
  from p(2,1) assms show "x \<in> B"
    by (induction rule: rtranclp_induct) (auto simp: explored_def)
qed

lemma collect_ancestors_ancestry:
  "collect_ancestors m {} ps = (if ancestry m ps \<subseteq> fmdom' m then Some (ancestry m ps) else None)"
proof (cases "collect_ancestors m {} ps")
  case None
  then show ?thesis using collect_None [OF None] by auto
next
  case (Some B)
  then have "explored m B {}" "set ps \<subseteq> B" "B \<subseteq> ancestry m ps"
    using collect_Some [OF Some] by (auto simp: explored_def)
  moreover from this have "ancestry m ps \<subseteq> B" by (intro ancestry_closed)
  ultimately show ?thesis using Some by (auto simp: explored_def)
qed

section \<open>Which events count\<close>

abbreviation stored_events :: "'c RuntimeEnv \<Rightarrow> LocalRuntime \<Rightarrow> WorkspaceId \<Rightarrow> SignedEvent list" where
  "stored_events E rt w \<equiv> verified_local_events_for_runtime (env_store E)
     (list_parseable_events_for_workspace (env_store E) (rt_store rt) (workspace_str w))"

text \<open>The events are stored ones, and all the commits with an authorised history are among them.\<close>

lemma events_by_id_in: "fmlookup (events_by_id es) i = Some e \<Longrightarrow> e \<in> set es"
  by (induction es rule: rev_induct) (auto simp: events_by_id_def split: if_splits)

lemma taken_events: "e \<in> set (take_events m ids) \<Longrightarrow> \<exists>i. fmlookup m i = Some e"
proof (induction m ids rule: take_events.induct)
  case (2 m i rest)
  then show ?case by (cases "fmlookup m i") (auto split: if_splits)
qed simp

lemma materialized_stored:
  assumes "materialized_workspace_events E rt w = Inr es"
  shows "set es \<subseteq> set (stored_events E rt w)"
proof -
  from assms have "\<exists>ids. es = take_events (events_by_id (stored_events E rt w)) ids"
    by (auto simp: materialized_workspace_events_def materialized_workspace_events_with_gaps_def Let_def result_simps
        split: sum.splits prod.splits)
  then show ?thesis using taken_events [of _ "events_by_id (stored_events E rt w)"] by (auto dest!: events_by_id_in)
qed

lemma removal_events:
  assumes "openmls_removal_events E rt w = Inr es" "distinct (map sg_event_id (stored_events E rt w))"
  obtains ms where "materialized_workspace_events E rt w = Inr ms" "set ms \<subseteq> set es" "set es \<subseteq> set (stored_events E rt w)"
    "\<And>e. e \<in> set (stored_events E rt w) \<Longrightarrow> is_group_commit (ev_body e)
      \<Longrightarrow> authorized_by_own_history (origin_order E) (stored_events E rt w) e \<Longrightarrow> e \<in> set es"
proof -
  from assms(1) obtain ms where ms: "materialized_workspace_events E rt w = Inr ms"
    and es: "es = ms @ filter (\<lambda>e. sg_event_id e \<notin> sg_event_id ` set ms \<and> is_group_commit (ev_body e)
      \<and> authorized_by_own_history (origin_order E) (stored_events E rt w) e) (stored_events E rt w)"
    by (auto simp: openmls_removal_events_def Let_def result_simps)
  note sub = materialized_stored [OF ms]
  have "e \<in> set es" if e: "e \<in> set (stored_events E rt w)" "is_group_commit (ev_body e)"
    "authorized_by_own_history (origin_order E) (stored_events E rt w) e" for e
  proof (cases "sg_event_id e \<in> sg_event_id ` set ms")
    case True
    then obtain e' where "e' \<in> set ms" "sg_event_id e' = sg_event_id e" by auto
    moreover from this have "e' = e" using sub e(1) assms(2) by (auto simp: distinct_map dest: inj_onD)
    ultimately show ?thesis by (simp add: es)
  qed (use e es in auto)
  with ms sub es show thesis by (intro that [of ms]) auto
qed

section \<open>When a removal goes through\<close>

lemma blocking_None:
  "blocking_channel_id ix d = None \<longleftrightarrow> (\<forall>c. \<not> channel_has_forked_group ix c \<and> \<not> channel_group_has_device ix c d)"
proof -
  have "channel_group_ids_for_device ix d = [] \<longleftrightarrow> (\<forall>c. \<not> channel_group_has_device ix c d)"
    using channel_group_ids_iff [of _ ix d] by (cases "channel_group_ids_for_device ix d") auto
  then show ?thesis using first_forked_None [of ix]
    by (cases "first_forked_channel_id ix") (auto simp: blocking_channel_id_def split: list.splits)
qed

text \<open>No group of the workspace or of its channels holds the device, and none is forked.\<close>

definition clear_of_groups :: "SignedEvent list \<Rightarrow> DeviceId \<Rightarrow> bool" where
  "clear_of_groups es d \<longleftrightarrow>
     (\<forall>g. \<not> in_workspace_group es g d \<and> \<not> forked_by workspace_commit es g)
     \<and> (\<forall>c g. \<not> in_channel_group es c g d \<and> \<not> forked_by channel_commit es (channel_str c, g))"

definition clear_of_channel_groups :: "SignedEvent list \<Rightarrow> ChannelId \<Rightarrow> DeviceId \<Rightarrow> bool" where
  "clear_of_channel_groups es c d \<longleftrightarrow> (\<forall>g. \<not> in_channel_group es c g d \<and> \<not> forked_by channel_commit es (channel_str c, g))"

lemma clear_iff:
  "clear_of_groups es d \<longleftrightarrow> (let ix = provision_index_from_events es in \<not> has_forked_workspace_group ix
     \<and> \<not> workspace_group_has_device ix d \<and> blocking_channel_id ix d = None)"
  by (auto simp: clear_of_groups_def Let_def blocking_None forked_workspace_iff forked_channel_iff
      workspace_group_has_device_iff channel_group_has_device_iff workspace_group_member channel_group_member)

lemma clear_channel_iff:
  "clear_of_channel_groups es c d \<longleftrightarrow> (let ix = provision_index_from_events es in
     \<not> channel_has_forked_group ix c \<and> \<not> channel_group_has_device ix c d)"
  by (auto simp: clear_of_channel_groups_def Let_def forked_channel_iff channel_group_has_device_iff channel_group_member)

lemma remove_member_done:
  assumes "remove_member E now rt w d = (rt', Inr r)"
  obtains es ctx e where "openmls_removal_events E rt w = Inr es" "clear_of_groups es d"
    "workspace_write_context E rt w = Inr ctx" "write_event E now rt w None ctx (MemberRemoved d) = (rt', Inr e)"
    "rmv_event_id r = event_str (sg_event_id e)"
  using assms
  by (auto simp: remove_member_def openmls_removal_index_def result_simps clear_iff Let_def split: if_splits option.splits)

lemma remove_channel_member_done:
  assumes "remove_channel_member E now rt w c d = (rt', Inr r)"
  obtains es ctx e where "openmls_removal_events E rt w = Inr es" "clear_of_channel_groups es c d"
    "workspace_write_context E rt w = Inr ctx" "write_event E now rt w None ctx (ChannelMemberRemoved c d) = (rt', Inr e)"
    "rcm_event_id r = event_str (sg_event_id e)"
  using assms
  by (auto simp: remove_channel_member_def openmls_removal_index_def result_simps clear_channel_iff Let_def split: if_splits)

end
