(* ===== verification/Group_Properties.thy ===== *)
theory Group_Properties
  imports Removal_Correct Scenario State_Properties "HOL-Library.Sublist"
begin

text \<open>
  The properties of MLS groups: what the index says about members and forks, when members may be removed,
  with which key packages they are added, from which invitation a device joins and what its own removal
  leaves behind.
\<close>

section \<open>The index\<close>

text \<open>
  C17: what the index of a list of events says about groups.  A device is in a group of the workspace, or of a
  channel, just when an event of the list adds it, as author or invitee, and no later one removes it; a
  group is forked just when two different events of the list are commits of one of its epochs.
\<close>

theorem group_index_is_exact:
  "(workspace_group_has_device_in_group (provision_index_from_events es) g d \<longleftrightarrow> in_workspace_group es g d)
   \<and> (channel_group_has_device_in_group (provision_index_from_events es) c g d \<longleftrightarrow> in_channel_group es c g d)
   \<and> (has_forked_workspace_group (provision_index_from_events es) \<longleftrightarrow> (\<exists>g. forked_by workspace_commit es g))
   \<and> (channel_has_forked_group (provision_index_from_events es) c \<longleftrightarrow> (\<exists>g. forked_by channel_commit es (channel_str c, g)))"
  by (intro conjI workspace_group_member channel_group_member forked_workspace_iff forked_channel_iff)

lemma creator_replay:
  "private_channel_creator_device_id_from_events es c = find_map (creates_private c) es"
  unfolding private_channel_creator_device_id_from_events_def creates_private_def [abs_def] ..

lemma channel_known_run:
  assumes "accepted_run authorize_and_apply (index_new w) es ix"
  shows "channel_known (fmlookup (ix_channels ix) c) (current_private_channel_member_ids_from_events es c)
    (private_channel_creator_device_id_from_events es c)"
  using assms
proof (induction es arbitrary: ix rule: rev_induct)
  case Nil
  then show ?case
    by (simp add: channel_known_def index_new_def current_private_channel_member_ids_from_events_def creator_replay)
next
  case (snoc e es)
  then obtain ix1 where "accepted_run authorize_and_apply (index_new w) es ix1" "authorize_and_apply ix1 e = Inr ix"
    by (auto simp: accepted_run_append)
  with snoc.IH show ?case
    using channel_known_step [of ix1 e ix c]
    by (simp add: current_private_channel_member_ids_from_events_def creator_replay find_map_snoc)
qed

text \<open>
  C21: two replays of one history agree.  The members and the creator of a private channel that the group
  provisioning reads off the accepted events are those of the access index.
\<close>

theorem channel_replay_agrees:
  assumes "accepted_run authorize_and_apply (index_new w) es ix" "fmlookup (ix_channels ix) c = Some ca" "ca_is_private ca"
  shows "current_private_channel_member_ids_from_events es c = device_str ` ca_members ca
    \<and> private_channel_creator_device_id_from_events es c = Some (ca_creator_device_id ca)"
  using channel_known_run [OF assms(1), of c] assms(2,3) by (simp add: channel_known_def)

section \<open>Removals\<close>

text \<open>The event that ends a removal is written on a runtime where no group holds the device.\<close>

definition removed_cleanly :: "'c RuntimeEnv \<Rightarrow> HybridTimestamp \<Rightarrow> LocalRuntime \<Rightarrow> WorkspaceId \<Rightarrow> DeviceId \<Rightarrow> LocalRuntime \<Rightarrow> bool" where
  "removed_cleanly E now rt w d rt' \<longleftrightarrow>
     (\<exists>es ctx e. openmls_removal_events E rt w = Inr es \<and> clear_of_groups es d
        \<and> workspace_write_context E rt w = Inr ctx \<and> write_event E now rt w None ctx (MemberRemoved d) = (rt', Inr e))"

definition removed_cleanly_from_channel ::
  "'c RuntimeEnv \<Rightarrow> HybridTimestamp \<Rightarrow> LocalRuntime \<Rightarrow> WorkspaceId \<Rightarrow> ChannelId \<Rightarrow> DeviceId \<Rightarrow> LocalRuntime \<Rightarrow> bool" where
  "removed_cleanly_from_channel E now rt w c d rt' \<longleftrightarrow>
     (\<exists>es ctx e. openmls_removal_events E rt w = Inr es \<and> clear_of_channel_groups es c d
        \<and> workspace_write_context E rt w = Inr ctx
        \<and> write_event E now rt w None ctx (ChannelMemberRemoved c d) = (rt', Inr e))"

lemma removed_cleanly_from_channel:
  "remove_channel_member E now rt w c d = (rt', Inr r) \<Longrightarrow> removed_cleanly_from_channel E now rt w c d rt'"
  by (erule remove_channel_member_done) (auto simp: removed_cleanly_from_channel_def)

lemma removed_cleanly: "remove_member E now rt w d = (rt', Inr r) \<Longrightarrow> removed_cleanly E now rt w d rt'"
  by (erule remove_member_done) (auto simp: removed_cleanly_def)

lemma failed_write: "write_event E now rt w c ctx body = (rt', Inl err) \<Longrightarrow> rt' = rt"
  by (auto simp: write_event_def sign_authorize_and_append_with_history_def append_signed_def attempt_def Let_def
      split: sum.splits)

lemma failed_removal: "remove_member E now rt w d = (rt', Inl err) \<Longrightarrow> rt' = rt"
  by (auto simp: remove_member_def attempt_def and_then_def split: sum.splits if_splits option.splits prod.splits dest: failed_write)

lemma failed_channel_removal: "remove_channel_member E now rt w c d = (rt', Inl err) \<Longrightarrow> rt' = rt"
  by (auto simp: remove_channel_member_def attempt_def and_then_def split: sum.splits if_splits prod.splits dest: failed_write)

text \<open>
  C15: a member is removed only when no MLS group holds the device.  When the plain removal succeeds, no group
  of the workspace or of a channel holds the device and no group is forked, among the events that the
  removal index counts, and the one event it stores removes the member; when it fails, nothing has
  changed.  The removals that first rotate keys or take the device out of its groups end with such a
  removal when they succeed.  Removing a member from a channel is alike, for the groups of that channel.
\<close>

theorem removal_needs_clear_groups:
  "(case remove_member E now rt w d of
      (rt', Inl _) \<Rightarrow> rt' = rt
    | (rt', Inr _) \<Rightarrow> removed_cleanly E now rt w d rt')
   \<and> (case remove_member_with_key_rotation E ks now rt w d of
        (_, Inl _) \<Rightarrow> True
      | (rt', Inr _) \<Rightarrow> \<exists>rt1. removed_cleanly E now rt1 w d rt')
   \<and> (case remove_member_with_openmls E M ks inputs now rt w d of
        (_, Inl _) \<Rightarrow> True
      | (rt', Inr _) \<Rightarrow> \<exists>rt1. removed_cleanly E now rt1 w d rt')
   \<and> (case remove_channel_member E now rt w c d of
        (rt', Inl _) \<Rightarrow> rt' = rt
      | (rt', Inr _) \<Rightarrow> removed_cleanly_from_channel E now rt w c d rt')
   \<and> (case remove_channel_member_with_key_rotation E key_now salt nonce key now rt w c d of
        (_, Inl _) \<Rightarrow> True
      | (rt', Inr _) \<Rightarrow> \<exists>rt1. removed_cleanly_from_channel E now rt1 w c d rt')
   \<and> (case remove_channel_member_with_openmls E M key_now salt nonce key inp now rt w c d of
        (_, Inl _) \<Rightarrow> True
      | (rt', Inr _) \<Rightarrow> \<exists>rt1. removed_cleanly_from_channel E now rt1 w c d rt')"
proof (intro conjI)
  show "case remove_member E now rt w d of (rt', Inl _) \<Rightarrow> rt' = rt | (rt', Inr _) \<Rightarrow> removed_cleanly E now rt w d rt'"
    by (auto split: prod.split sum.split dest: removed_cleanly failed_removal)
  show "case remove_member_with_key_rotation E ks now rt w d of
      (_, Inl _) \<Rightarrow> True | (rt', Inr _) \<Rightarrow> \<exists>rt1. removed_cleanly E now rt1 w d rt'"
    by (auto simp: remove_member_with_key_rotation_def result_simps split: prod.split sum.split dest!: removed_cleanly)
  show "case remove_member_with_openmls E M ks inputs now rt w d of
      (_, Inl _) \<Rightarrow> True | (rt', Inr _) \<Rightarrow> \<exists>rt1. removed_cleanly E now rt1 w d rt'"
    by (auto simp: remove_member_with_openmls_def Let_def result_simps split: prod.split sum.split if_splits option.splits
        dest!: removed_cleanly)
  show "case remove_channel_member E now rt w c d of
      (rt', Inl _) \<Rightarrow> rt' = rt | (rt', Inr _) \<Rightarrow> removed_cleanly_from_channel E now rt w c d rt'"
    by (auto split: prod.split sum.split dest: removed_cleanly_from_channel failed_channel_removal)
  show "case remove_channel_member_with_key_rotation E key_now salt nonce key now rt w c d of
      (_, Inl _) \<Rightarrow> True | (rt', Inr _) \<Rightarrow> \<exists>rt1. removed_cleanly_from_channel E now rt1 w c d rt'"
    by (auto simp: remove_channel_member_with_key_rotation_def result_simps split: prod.split sum.split
        dest!: removed_cleanly_from_channel)
  show "case remove_channel_member_with_openmls E M key_now salt nonce key inp now rt w c d of
      (_, Inl _) \<Rightarrow> True | (rt', Inr _) \<Rightarrow> \<exists>rt1. removed_cleanly_from_channel E now rt1 w c d rt'"
    by (auto simp: remove_channel_member_with_openmls_def Let_def result_simps split: prod.split sum.split if_splits
        dest!: removed_cleanly_from_channel)
qed

lemma removal_files: "remove_member E now rt w d = (rt', Inr r) \<Longrightarrow> rt_files rt' = rt_files rt"
  by (erule remove_member_done)
    (auto simp: write_event_def sign_authorize_and_append_with_history_def append_signed_def Let_def result_simps)

text \<open>
  The removal with groups rotates the content keys only when the device keeps a key of the workspace: without
  one, a device that is in no group is removed and every key of a private channel stays as it was.
\<close>

theorem removal_without_workspace_key_rotates_nothing:
  assumes "remove_member_with_openmls E M ks inputs now rt w d = (rt', Inr r)"
    "\<not> contains_key (rt_files rt) (workspace_key_path rt w)"
    "rmo_openmls_event_id r = None" "rmo_channel_openmls_event_ids r = []"
  shows "rmo_manual_key_rotation r = None \<and> rt_files rt' = rt_files rt"
proof -
  have loop: "rt2 = rt1" if "remove_from_channel_groups E M inputs n rt1 w d cs = (rt2, Inr [])" for n rt1 rt2 cs
    using that by (cases cs) (auto simp: result_simps)
  from assms show ?thesis
    by (auto simp: remove_member_with_openmls_def when_true_def Let_def result_simps split: if_splits option.splits
        dest!: loop dest: removal_files)
qed

text \<open>
  C16: which events the removal index counts.  They are stored events, and every stored group commit is
  among them whose causal history is stored completely and authorises it, even when the workspace itself
  does not accept it; only an event whose identifier another stored event shares may be missing.
\<close>

theorem every_authorized_commit_counts:
  "case openmls_removal_events E rt w of
     Inl err \<Rightarrow> materialized_workspace_events E rt w = Inl err
   | Inr es \<Rightarrow> set es \<subseteq> set (stored_events E rt w)
       \<and> {e \<in> set (stored_events E rt w). is_group_commit (ev_body e)
            \<and> ancestry (events_by_id (stored_events E rt w)) (ev_parents e) \<subseteq> fmdom' (events_by_id (stored_events E rt w))
            \<and> authorize_event_with_history (origin_order E) (filter (\<lambda>a. sg_event_id a
                \<in> ancestry (events_by_id (stored_events E rt w)) (ev_parents e)) (stored_events E rt w)) e = Inr ()}
         \<subseteq> set es \<union> {e. \<exists>e' \<in> set (stored_events E rt w). sg_event_id e' = sg_event_id e \<and> e' \<noteq> e}"
proof (cases "materialized_workspace_events E rt w")
  case (Inl err)
  then show ?thesis by (simp add: openmls_removal_events_def Let_def bind_res_def)
next
  case (Inr ms)
  let ?raw = "stored_events E rt w" and ?anc = "\<lambda>e. ancestry (events_by_id (stored_events E rt w)) (ev_parents e)"
  have es: "openmls_removal_events E rt w = Inr (ms @ filter (\<lambda>e. sg_event_id e \<notin> sg_event_id ` set ms
      \<and> is_group_commit (ev_body e) \<and> authorized_by_own_history (origin_order E) ?raw e) ?raw)"
    by (simp add: openmls_removal_events_def Let_def Inr)
  have own: "authorized_by_own_history (origin_order E) ?raw e \<longleftrightarrow> ?anc e \<subseteq> fmdom' (events_by_id ?raw)
      \<and> authorize_event_with_history (origin_order E) (filter (\<lambda>a. sg_event_id a \<in> ?anc e) ?raw) e = Inr ()" for e
    by (simp add: authorized_by_own_history_def collect_ancestors_ancestry)
  have "\<exists>e' \<in> set ?raw. sg_event_id e' = sg_event_id e \<and> e' \<noteq> e" if "sg_event_id e \<in> sg_event_id ` set ms" "e \<notin> set ms" for e
    using that materialized_stored [OF Inr] by fastforce
  then show ?thesis using materialized_stored [OF Inr] unfolding es by (auto simp: own)
qed

section \<open>Adding members\<close>

lemma key_package_step:
  assumes "apply_event vals st e = Inr st'" "fmlookup (ws_key_packages st') k = Some p"
  shows "fmlookup (ws_key_packages st) k = Some p
    \<or> ev_author e = kp_device_id p \<and> ev_body e = DeviceKeyPackagePublished k (kp_protocol p) (kp_key_package p)"
proof -
  obtain ix st1 where m: "materialize vals (mark_invites_accepted_by_event (st\<lparr>ws_access_index := ix\<rparr>) e) e = Inr st1"
    "st' = record_applied e st1"
    using assms(1) by (auto simp: apply_event_def apply_ready_event_def result_simps split: if_splits)
  have "ws_key_packages (mark_invites_accepted_by_event s e) = ws_key_packages s" for s
    by (simp add: mark_invites_accepted_by_event_def Let_def)
  then show ?thesis using m(1) assms(2) unfolding m(2)
    by (cases "ev_body e")
      (auto simp: materialize_def materialize_arm_defs record_applied_def Let_def result_simps
        split: option.splits ContentKeyScope.splits if_splits)
qed

lemma key_package_published:
  assumes "accepted_run (apply_event vals) st es st'" "ws_key_packages st = fmempty" "fmlookup (ws_key_packages st') k = Some p"
  shows "\<exists>e \<in> set es. ev_author e = kp_device_id p \<and> ev_body e = DeviceKeyPackagePublished k (kp_protocol p) (kp_key_package p)"
  using assms(1,3)
proof (induction es arbitrary: st' rule: rev_induct)
  case Nil
  then show ?case using assms(2) by (auto elim: accepted_run.cases)
next
  case (snoc e es)
  then obtain s where "accepted_run (apply_event vals) st es s" "apply_event vals s e = Inr st'"
    by (auto simp: accepted_run_append)
  with snoc.IH [of s] key_package_step [of vals s e st' k p] snoc.prems show ?case by auto
qed

text \<open>The device published the package in a stored event, and the library confirms that it is the device's.\<close>

definition own_package :: "'c RuntimeEnv \<Rightarrow> MlsLib \<Rightarrow> LocalRuntime \<Rightarrow> WorkspaceId \<Rightarrow> DeviceKeyPackageId \<Rightarrow> DeviceId \<Rightarrow> string \<Rightarrow> bool" where
  "own_package E M rt w k d ref \<longleftrightarrow>
     (\<exists>p \<in> set (stored_events E rt w). \<exists>package v. ev_author p = d
        \<and> ev_body p = DeviceKeyPackagePublished k OPENMLS_KEY_PACKAGE_PROTOCOL package
        \<and> validate_key_package M package = Inr v \<and> val_identity v = device_str d \<and> val_key_package_ref v = ref)"

lemma package_of_context:
  assumes "materialized_workspace_write_context E rt w = Inr ctx" "fmlookup (ws_key_packages (wc_state ctx)) k = Some p"
    "validate_openmls_key_package_view M w k p = Inr v"
  shows "own_package E M rt w k (kp_device_id p) (val_key_package_ref v)"
proof -
  obtain rep where rep: "apply_batch (invite_order E) (state_new w) (stored_events E rt w) = Inr (wc_state ctx, rep)"
    using assms(1) by (auto simp: materialized_workspace_write_context_def workspace_write_context_from_materialized_events_def
        Let_def result_simps split: sum.splits prod.splits if_splits)
  obtain es where "accepted_run (apply_event (invite_order E)) (state_new w) es (wc_state ctx)"
    "set es \<subseteq> set (stored_events E rt w)"
    by (rule apply_batch_run [OF rep]) auto
  with key_package_published [of "invite_order E" "state_new w" es "wc_state ctx" k p] assms(2)
  obtain e where "e \<in> set (stored_events E rt w)" "ev_author e = kp_device_id p"
    "ev_body e = DeviceKeyPackagePublished k (kp_protocol p) (kp_key_package p)"
    by (auto simp: state_new_def)
  with assms(3) show ?thesis
    by (auto simp: own_package_def validate_openmls_key_package_view_def validate_openmls_key_package_for_publisher_def
        result_simps map_err_def split: if_splits sum.splits)
qed

lemma saving_write:
  "write_event_saving E inp rt w c ctx body path kind plain = (rt', Inl err) \<Longrightarrow> rt_store rt' = rt_store rt"
  "write_event_saving E inp rt w c ctx body path kind plain = (rt', Inr e) \<Longrightarrow>
     rt_store rt' = put_row (event_row (env_store E) e) (rt_store rt) \<and> ev_body e = body \<and> ev_author e = own_device rt"
  by (auto simp: write_event_saving_def sign_authorize_save_key_and_append_with_history_def append_signed_def attempt_def Let_def
      map_err_def append_event_Inr write_openmls_secret_file_def local_event_def signable_event_new_def
      split: sum.splits dest!: saved_files)

text \<open>
  C19: a device is added to a group only with a key package of its own.  When the action succeeds, one event is
  stored that adds the device and names the package, a stored event of that very device published the
  package under the MLS protocol, and the library validated it with the device as its identity; when the
  action fails, no event is stored.
\<close>

theorem members_are_added_with_their_own_package:
  "(case add_openmls_workspace_group_member E M inp rt w k of
      (rt', Inl _) \<Rightarrow> rt_store rt' = rt_store rt
    | (rt', Inr _) \<Rightarrow> \<exists>e d ref protocol suite g epoch commit welcome tree.
        rt_store rt' = put_row (event_row (env_store E) e) (rt_store rt) \<and> own_package E M rt w k d ref
        \<and> ev_body e = OpenMlsWorkspaceGroupMemberAdded d k ref protocol suite g epoch commit welcome tree)
   \<and> (case add_openmls_channel_group_member E M inp rt w c k of
        (rt', Inl _) \<Rightarrow> rt_store rt' = rt_store rt
      | (rt', Inr _) \<Rightarrow> \<exists>e d ref protocol suite g epoch commit welcome tree.
          rt_store rt' = put_row (event_row (env_store E) e) (rt_store rt) \<and> own_package E M rt w k d ref
          \<and> ev_body e = OpenMlsChannelGroupMemberAdded c d k ref protocol suite g epoch commit welcome tree)"
proof
  show "case add_openmls_workspace_group_member E M inp rt w k of
      (rt', Inl _) \<Rightarrow> rt_store rt' = rt_store rt
    | (rt', Inr _) \<Rightarrow> \<exists>e d ref protocol suite g epoch commit welcome tree.
        rt_store rt' = put_row (event_row (env_store E) e) (rt_store rt) \<and> own_package E M rt w k d ref
        \<and> ev_body e = OpenMlsWorkspaceGroupMemberAdded d k ref protocol suite g epoch commit welcome tree"
    unfolding add_openmls_workspace_group_member_def Let_def
    by (auto simp: attempt_def and_then_def ok_or_def split: prod.split sum.split if_splits option.splits
        dest!: saving_write) (blast dest: package_of_context)+
  show "case add_openmls_channel_group_member E M inp rt w c k of
        (rt', Inl _) \<Rightarrow> rt_store rt' = rt_store rt
      | (rt', Inr _) \<Rightarrow> \<exists>e d ref protocol suite g epoch commit welcome tree.
          rt_store rt' = put_row (event_row (env_store E) e) (rt_store rt) \<and> own_package E M rt w k d ref
          \<and> ev_body e = OpenMlsChannelGroupMemberAdded c d k ref protocol suite g epoch commit welcome tree"
    unfolding add_openmls_channel_group_member_def Let_def
    by (auto simp: attempt_def and_then_def ok_or_def split: prod.split sum.split if_splits option.splits
        dest!: saving_write) (blast dest: package_of_context)+
qed

section \<open>Joining and leaving\<close>

lemma rposition_cases:
  "case rposition P xs of
     None \<Rightarrow> \<forall>n < length xs. \<not> P (xs ! n)
   | Some n \<Rightarrow> n < length xs \<and> P (xs ! n) \<and> (\<forall>m < length xs. P (xs ! m) \<longrightarrow> m \<le> n)"
  by (induction xs rule: rev_induct)
    (auto simp: rposition_def enumerate_append_eq nth_append less_Suc_eq split: option.splits)

lemma find_map_last:
  "case find_map f (rev (enumerate 0 xs)) of
     None \<Rightarrow> \<forall>n < length xs. f (n, xs ! n) = None
   | Some y \<Rightarrow> \<exists>n < length xs. f (n, xs ! n) = Some y \<and> (\<forall>m < length xs. f (m, xs ! m) \<noteq> None \<longrightarrow> m \<le> n)"
proof (induction xs rule: rev_induct)
  case (snoc x xs)
  show ?case
  proof (cases "f (length xs, x)")
    case None
    then show ?thesis using snoc
      by (auto simp: enumerate_append_eq nth_append less_Suc_eq split: option.splits)
  qed (auto simp: enumerate_append_eq nth_append intro!: exI [of _ "length xs"])
qed simp

text \<open>An event of the list invites the device, is the one asked for, and comes after every removal of the device.\<close>

definition invitation_at ::
  "(EventBody \<Rightarrow> bool) \<Rightarrow> (EventBody \<Rightarrow> 'i option) \<Rightarrow> EventId option \<Rightarrow> SignedEvent list \<Rightarrow> nat \<Rightarrow> bool" where
  "invitation_at removal invitation source es n \<longleftrightarrow> n < length es \<and> invitation (ev_body (es ! n)) \<noteq> None
     \<and> (source = None \<or> source = Some (sg_event_id (es ! n))) \<and> (\<forall>m < length es. removal (ev_body (es ! m)) \<longrightarrow> m < n)"

definition latest_invitation ::
  "(EventBody \<Rightarrow> bool) \<Rightarrow> (EventBody \<Rightarrow> 'i option) \<Rightarrow> EventId option \<Rightarrow> SignedEvent list \<Rightarrow> nat \<Rightarrow> bool" where
  "latest_invitation removal invitation source es n \<longleftrightarrow> invitation_at removal invitation source es n
     \<and> (\<forall>m. invitation_at removal invitation source es m \<longrightarrow> m \<le> n)"

lemma select_invitation_cases:
  "case select_invitation removal invitation source es of
     None \<Rightarrow> \<forall>n. \<not> invitation_at removal invitation source es n
   | Some (i, x) \<Rightarrow> \<exists>n. latest_invitation removal invitation source es n \<and> i = sg_event_id (es ! n)
       \<and> invitation (ev_body (es ! n)) = Some x"
proof -
  define f where "f = (\<lambda>(index, event).
          if (case rposition (\<lambda>event. removal (ev_body event)) es of Some removal_index \<Rightarrow> index \<le> removal_index | None \<Rightarrow> False) then None
          else if (case source of Some source \<Rightarrow> source \<noteq> sg_event_id event | None \<Rightarrow> False) then None
          else map_option (Pair (sg_event_id event)) (invitation (ev_body event)))"
  have after: "(case rposition (\<lambda>event. removal (ev_body event)) es of Some r \<Rightarrow> n \<le> r | None \<Rightarrow> False)
      \<longleftrightarrow> (\<exists>m < length es. removal (ev_body (es ! m)) \<and> n \<le> m)" for n
    using rposition_cases [of es "\<lambda>event. removal (ev_body event)"] by (auto split: option.splits)
  have f: "f (n, es ! n) = (if invitation_at removal invitation source es n
      then map_option (Pair (sg_event_id (es ! n))) (invitation (ev_body (es ! n))) else None)" if "n < length es" for n
    using that unfolding f_def by (cases source; cases "invitation (ev_body (es ! n))") (auto simp: after invitation_at_def not_le)
  have "select_invitation removal invitation source es = find_map f (rev (enumerate 0 es))"
    by (simp add: select_invitation_def f_def Let_def)
  then have sel: "select_invitation removal invitation source es = find_map f (rev (enumerate 0 es))" .
  have at: "f (n, es ! n) \<noteq> None \<longleftrightarrow> invitation_at removal invitation source es n" if "n < length es" for n
    using f [OF that] by (auto simp: invitation_at_def)
  have within: "invitation_at removal invitation source es n \<Longrightarrow> n < length es" for n
    by (simp add: invitation_at_def)
  show ?thesis
  proof (cases "find_map f (rev (enumerate 0 es))")
    case None
    then have "\<forall>n < length es. f (n, es ! n) = None" using find_map_last [of es f] by simp
    then show ?thesis using None sel at within by auto
  next
    case (Some y)
    then obtain n where n: "n < length es" "f (n, es ! n) = Some y" "\<forall>m < length es. f (m, es ! m) \<noteq> None \<longrightarrow> m \<le> n"
      using find_map_last [of es f] by auto
    have "latest_invitation removal invitation source es n"
      using n(2,3) at [OF n(1)] at within by (auto simp: latest_invitation_def)
    moreover obtain x where "y = (sg_event_id (es ! n), x)" "invitation (ev_body (es ! n)) = Some x"
      using f [OF n(1)] n(2) by (cases "invitation (ev_body (es ! n))") (auto split: if_splits)
    ultimately show ?thesis using Some sel by auto
  qed
qed

lemma select_invitation_Some:
  assumes "select_invitation removal invitation source es = Some (i, x)"
  obtains n where "latest_invitation removal invitation source es n" "i = sg_event_id (es ! n)" "invitation (ev_body (es ! n)) = Some x"
  using select_invitation_cases [of removal invitation source es] assms by auto

lemma map_err_Inr_iff [simp]: "map_err f r = Inr x \<longleftrightarrow> r = Inr x"
  by (simp add: map_err_def split: sum.splits)

text \<open>The join used the latest invitation, and stored what the library made of its welcome.\<close>

definition joined_by_latest ::
  "'c RuntimeEnv \<Rightarrow> GroupInputs \<Rightarrow> (EventBody \<Rightarrow> bool) \<Rightarrow> (EventBody \<Rightarrow> (string \<times> bytes \<times> bytes) option)
     \<Rightarrow> (bytes \<Rightarrow> bytes \<Rightarrow> bytes \<Rightarrow> string + JoinedMlsWorkspaceGroup) \<Rightarrow> string \<Rightarrow> string \<Rightarrow> LocalRuntime \<Rightarrow> WorkspaceId
     \<Rightarrow> EventId option \<Rightarrow> string \<Rightarrow> LocalRuntime \<Rightarrow> bool" where
  "joined_by_latest E inp removal invitation join path kind rt w source used rt' \<longleftrightarrow>
     (\<exists>es n ref welcome tree bundle joined. materialized_workspace_events E rt w = Inr es
        \<and> latest_invitation removal invitation source es n \<and> used = event_str (sg_event_id (es ! n))
        \<and> invitation (ev_body (es ! n)) = Some (ref, welcome, tree) \<and> join bundle welcome tree = Inr joined
        \<and> \<not> contains_key (rt_files rt) path
        \<and> write_openmls_secret_file E inp rt path kind (join_private_group_state joined) = Inr rt')"

lemma joined_by_latestI:
  assumes "materialized_workspace_events E rt w = Inr es"
    "select_invitation removal invitation source es = Some (i, ref, message, tree)" "join package message tree = Inr joined"
    "\<not> contains_key (rt_files rt) path"
    "write_openmls_secret_file E inp rt path kind (join_private_group_state joined) = Inr rt'"
  shows "joined_by_latest E inp removal invitation join path kind rt w source (event_str i) rt'"
  using assms(2) by (rule select_invitation_Some) (use assms in \<open>unfold joined_by_latest_def, blast\<close>)

text \<open>
  C18: a device joins a group only by its latest invitation.  A join that succeeds used the event that comes
  last among those that add the device, after every event that removes it from the group, or the one
  asked for if it is such; the device had no state of the group, and the state that the library made of
  the welcome in that event is what is stored.  A join that fails changes nothing.
\<close>

theorem join_uses_the_latest_invitation:
  "(case join_openmls_workspace_group E M inp rt w source of
      (rt', Inl _) \<Rightarrow> rt' = rt
    | (rt', Inr j) \<Rightarrow> joined_by_latest E inp (workspace_self_removal (own_device rt)) (workspace_invitation (own_device rt))
        (join_workspace_group_from_welcome M) (openmls_workspace_group_path rt w) LOCAL_SECRET_KIND_OPENMLS_WORKSPACE_GROUP
        rt w source (jg_source_event_id j) rt')
   \<and> (case join_openmls_channel_group E M inp rt w c source of
        (rt', Inl _) \<Rightarrow> rt' = rt
      | (rt', Inr j) \<Rightarrow> joined_by_latest E inp (channel_self_removal c (own_device rt)) (channel_invitation c (own_device rt))
          (join_channel_group_from_welcome M) (openmls_channel_group_path rt w c) LOCAL_SECRET_KIND_OPENMLS_CHANNEL_GROUP
          rt w source (jg_source_event_id j) rt')"
proof
  show "case join_openmls_workspace_group E M inp rt w source of
      (rt', Inl _) \<Rightarrow> rt' = rt
    | (rt', Inr j) \<Rightarrow> joined_by_latest E inp (workspace_self_removal (own_device rt)) (workspace_invitation (own_device rt))
        (join_workspace_group_from_welcome M) (openmls_workspace_group_path rt w) LOCAL_SECRET_KIND_OPENMLS_WORKSPACE_GROUP
        rt w source (jg_source_event_id j) rt'"
    unfolding join_openmls_workspace_group_def Let_def
    by (auto simp: attempt_def split: prod.split sum.split option.split intro: joined_by_latestI)
  show "case join_openmls_channel_group E M inp rt w c source of
      (rt', Inl _) \<Rightarrow> rt' = rt
    | (rt', Inr j) \<Rightarrow> joined_by_latest E inp (channel_self_removal c (own_device rt)) (channel_invitation c (own_device rt))
        (join_channel_group_from_welcome M) (openmls_channel_group_path rt w c) LOCAL_SECRET_KIND_OPENMLS_CHANNEL_GROUP
        rt w source (jg_source_event_id j) rt'"
    unfolding join_openmls_channel_group_def Let_def
    by (auto simp: attempt_def split: prod.split sum.split option.split intro: joined_by_latestI)
qed

text \<open>
  What the commits of the events make of the state of a group, one after the other, and whether the last
  of them removes the device.  Every commit is one of the group that the library validates the state as,
  of a later epoch, and none follows the removal of the device.
\<close>

fun commits_result ::
  "MlsLib \<Rightarrow> (SignedEvent \<Rightarrow> (string \<times> u64 \<times> bytes) option) \<Rightarrow> bytes \<Rightarrow> SignedEvent list \<Rightarrow> (bytes \<times> bool) option" where
  "commits_result M commit_of state [] = Some (state, False)"
| "commits_result M commit_of state (e # es) =
     (case (commit_of e, validate_private_workspace_group_state M state) of
        (Some (g, epoch, commit), Inr v) \<Rightarrow>
          if g = grp_group_id v \<and> grp_epoch v < epoch
          then case apply_group_commit M state commit of
              Inl _ \<Rightarrow> None
            | Inr applied \<Rightarrow>
                if app_self_removed applied
                then if es = [] then Some (app_updated_private_group_state applied, True) else None
                else commits_result M commit_of (app_updated_private_group_state applied) es
          else None
      | _ \<Rightarrow> None)"

lemma replay_commits_result:
  assumes "replay_commits M commit_of source es cr = Inr cr'"
    "validate_private_workspace_group_state M (cr_private_group_state cr) = Inr (cr_validated cr)" "\<not> cr_self_removed cr"
  shows "\<exists>evs. subseq evs es \<and> (\<forall>e \<in> set evs. source \<in> {None, Some (sg_event_id e)})
    \<and> cr_applied_event_ids cr' = cr_applied_event_ids cr @ map (event_str \<circ> sg_event_id) evs
    \<and> commits_result M commit_of (cr_private_group_state cr) evs = Some (cr_private_group_state cr', cr_self_removed cr')"
  using assms
proof (induction es arbitrary: cr)
  case (Cons e es)
  let ?cr = "if source \<noteq> None then cr\<lparr>cr_selected_event_found := True\<rparr> else cr"
  let ?next = "\<lambda>a. note_applied a (sg_event_id e) ?cr"
  have cr: "cr_applied_event_ids ?cr = cr_applied_event_ids cr" "cr_private_group_state ?cr = cr_private_group_state cr"
    "cr_validated ?cr = cr_validated cr" "\<not> cr_self_removed ?cr"
    using Cons.prems(3) by auto
  have noted: "cr_private_group_state (note_applied a i c) = app_updated_private_group_state a" for a i c
    by (simp add: note_applied_def)
  from Cons.prems(1) consider (skip) "replay_commits M commit_of source es cr = Inr cr'"
    | (other) "replay_commits M commit_of source es ?cr = Inr cr'"
    | (removed) epoch commit a where "source \<in> {None, Some (sg_event_id e)}"
        "commit_of e = Some (grp_group_id (cr_validated cr), epoch, commit)" "\<not> epoch \<le> grp_epoch (cr_validated cr)"
        "apply_group_commit M (cr_private_group_state cr) commit = Inr a" "app_self_removed a" "cr' = ?next a"
    | (on) epoch commit a v where "source \<in> {None, Some (sg_event_id e)}"
        "commit_of e = Some (grp_group_id (cr_validated cr), epoch, commit)" "\<not> epoch \<le> grp_epoch (cr_validated cr)"
        "apply_group_commit M (cr_private_group_state cr) commit = Inr a" "\<not> app_self_removed a"
        "validate_private_workspace_group_state M (app_updated_private_group_state a) = Inr v"
        "replay_commits M commit_of source es (note_validated v (?next a)) = Inr cr'"
    using noted by (auto simp: Let_def result_simps split: if_splits option.splits prod.splits)
  then show ?case
  proof cases
    case skip
    from Cons.IH [OF this Cons.prems(2,3)] show ?thesis by (blast intro: subseq_Cons')
  next
    case other
    from Cons.IH [OF this] show ?thesis using cr Cons.prems(2) by (auto intro: subseq_Cons')
  next
    case removed
    then show ?thesis using cr Cons.prems(2) by (intro exI [of _ "[e]"]) (auto simp: note_applied_def not_le)
  next
    case on
    from Cons.IH [OF on(7)] on(5,6) cr obtain evs where evs: "subseq evs es"
      "\<forall>e \<in> set evs. source \<in> {None, Some (sg_event_id e)}"
      "cr_applied_event_ids cr' = cr_applied_event_ids cr @ event_str (sg_event_id e) # map (event_str \<circ> sg_event_id) evs"
      "commits_result M commit_of (app_updated_private_group_state a) evs = Some (cr_private_group_state cr', cr_self_removed cr')"
      by (auto simp: note_applied_def note_validated_def)
    then show ?thesis using on cr Cons.prems(2) by (intro exI [of _ "e # evs"]) (auto simp: not_le)
  qed
qed auto

lemma removed_file_unreadable:
  "fmlookup (rt_files rt) path = None \<Longrightarrow> openmls_group_content_key E rt path = Inr None"
  by (simp add: openmls_group_content_key_def read_optional_openmls_secret_file_def read_local_secret_file_def
      read_local_metadata_file_with_limit_def bind_res_def)

text \<open>What becomes of the state of a group whose commits are applied.\<close>

definition commits_applied ::
  "'c RuntimeEnv \<Rightarrow> MlsLib \<Rightarrow> GroupInputs \<Rightarrow> (SignedEvent \<Rightarrow> (string \<times> u64 \<times> bytes) option) \<Rightarrow> string \<Rightarrow> string
     \<Rightarrow> LocalRuntime \<Rightarrow> WorkspaceId \<Rightarrow> EventId option \<Rightarrow> string list \<Rightarrow> bool \<Rightarrow> LocalRuntime \<Rightarrow> bool" where
  "commits_applied E M inp commit_of path kind rt w source applied self_removed rt' \<longleftrightarrow>
     (\<exists>es old evs new. materialized_workspace_events E rt w = Inr es \<and> read_openmls_secret_file E rt path kind = Inr old
        \<and> subseq evs es \<and> (\<forall>e \<in> set evs. source \<in> {None, Some (sg_event_id e)})
        \<and> applied = map (event_str \<circ> sg_event_id) evs \<and> commits_result M commit_of old evs = Some (new, self_removed)
        \<and> (if self_removed then rt' = rt\<lparr>rt_files := fmdrop path (rt_files rt)\<rparr>
           else if evs = [] then rt' = rt
           else write_openmls_secret_file E inp rt path kind new = Inr rt'))"

lemma apply_group_commits_done:
  assumes "apply_group_commits E M inp commit_of path kind rt w source = (rt', Inr cr)"
  shows "commits_applied E M inp commit_of path kind rt w source (cr_applied_event_ids cr) (cr_self_removed cr) rt'"
proof -
  from assms obtain es old v where r: "materialized_workspace_events E rt w = Inr es"
    "read_openmls_secret_file E rt path kind = Inr old" "validate_private_workspace_group_state M old = Inr v"
    "replay_commits M commit_of source es (start_replay old v source) = Inr cr"
    and f: "if cr_self_removed cr then rt' = rt\<lparr>rt_files := remove_secret_file (rt_files rt) path\<rparr>
      else if cr_applied_event_ids cr \<noteq> [] then write_openmls_secret_file E inp rt path kind (cr_private_group_state cr) = Inr rt'
      else rt' = rt"
    by (auto simp: apply_group_commits_def result_simps split: if_splits option.splits)
  from replay_commits_result [OF r(4)] r(3) obtain evs where "subseq evs es"
    "\<forall>e \<in> set evs. source \<in> {None, Some (sg_event_id e)}"
    "cr_applied_event_ids cr = map (event_str \<circ> sg_event_id) evs"
    "commits_result M commit_of old evs = Some (cr_private_group_state cr, cr_self_removed cr)"
    by (auto simp: start_replay_def)
  with r(1,2) f show ?thesis unfolding commits_applied_def
    by (intro exI [of _ es] exI [of _ old] exI [of _ evs] exI [of _ "cr_private_group_state cr"])
      (auto simp: remove_secret_file_def)
qed

lemma apply_group_commits_failed:
  "apply_group_commits E M inp commit path kind rt w source = (rt', Inl err) \<Longrightarrow> rt' = rt"
  by (auto simp: apply_group_commits_def attempt_def split: sum.splits option.splits if_splits)

lemma self_removed_keys:
  "commits_applied E M inp f (openmls_workspace_group_path rt w) kind rt w source ids True rt' \<Longrightarrow>
     openmls_workspace_content_key E rt' w = Inr None \<and> \<not> contains_key (rt_files rt') (openmls_workspace_group_path rt' w)"
  "commits_applied E M inp f (openmls_channel_group_path rt w c) kind rt w source ids True rt' \<Longrightarrow>
     openmls_channel_content_key E rt' w c = Inr None \<and> \<not> contains_key (rt_files rt') (openmls_channel_group_path rt' w c)"
  by (auto simp: commits_applied_def openmls_workspace_content_key_def openmls_channel_content_key_def contains_key_iff
      openmls_workspace_group_path_def openmls_channel_group_path_def openmls_channel_groups_dir_def removed_file_unreadable)

text \<open>
  C20: applying the commits of others.  When the action fails, nothing has changed.  When it succeeds, the
  events whose commits it applied are materialised events in their order, the one asked for only if one
  was; each commit is one of the device's group and of a later epoch than the state it is applied to.  Only the file
  of the group has changed: it holds the state that the library makes of the stored one by these commits, one after the
  other.  If the last of them removes the device, and only then, the file is gone instead, so that the
  device finds no key of the group any more and may join again.
\<close>

theorem self_removal_deletes_the_group_state:
  "(case apply_openmls_workspace_group_commits E M inp rt w source of
      (rt', Inl _) \<Rightarrow> rt' = rt
    | (rt', Inr a) \<Rightarrow> commits_applied E M inp workspace_openmls_commit_event (openmls_workspace_group_path rt w)
          LOCAL_SECRET_KIND_OPENMLS_WORKSPACE_GROUP rt w source (ac_applied_event_ids a) (ac_self_removed a) rt'
        \<and> (if ac_self_removed a
           then openmls_workspace_content_key E rt' w = Inr None
             \<and> \<not> contains_key (rt_files rt') (openmls_workspace_group_path rt' w)
           else True))
   \<and> (case apply_openmls_channel_group_commits E M inp rt w c source of
        (rt', Inl _) \<Rightarrow> rt' = rt
      | (rt', Inr a) \<Rightarrow> commits_applied E M inp (channel_openmls_commit_event c) (openmls_channel_group_path rt w c)
            LOCAL_SECRET_KIND_OPENMLS_CHANNEL_GROUP rt w source (ac_applied_event_ids a) (ac_self_removed a) rt'
          \<and> (if ac_self_removed a
             then openmls_channel_content_key E rt' w c = Inr None
               \<and> \<not> contains_key (rt_files rt') (openmls_channel_group_path rt' w c)
             else True))"
  unfolding apply_openmls_workspace_group_commits_def apply_openmls_channel_group_commits_def Let_def
  by (auto simp: and_then_def split: prod.split sum.split
      dest: apply_group_commits_failed dest!: apply_group_commits_done dest: self_removed_keys)

theorem channel_replay_agrees_witness:
  "current_private_channel_member_ids_from_events team_history secret = {device_str carol}
   \<and> private_channel_creator_device_id_from_events team_history secret = Some carol"
  using channel_replay_agrees [OF team_run team_channel] by simp

end
