(* ===== verification/Compromise_Properties.thy ===== *)
theory Compromise_Properties
  imports Compromise Write_Properties
begin

text \<open>
  The properties of responses to a suspected compromise: only invalid events in the name of the device make it
  rotate its keys, and what the ledger remembers is not answered again.
\<close>

section \<open>The ledger\<close>

lemma trimmed:
  assumes "0 < n"
  shows "(if n < length (xs @ [x]) then drop (length (xs @ [x]) - n) (xs @ [x]) else xs @ [x])
    = drop (length xs - (n - 1)) xs @ [x]"
  using assms by (cases n) auto

lemma recorded:
  "cl_entries (record_response w ids rotated t ledger)
     = drop (length (cl_entries ledger) - (COMPROMISE_RESPONSE_LEDGER_MAX_ENTRIES - 1)) (cl_entries ledger)
       @ [\<lparr>le_workspace_id = w, le_signal_event_ids = ids, le_rotated_event_ids = rotated, le_responded_at_unix_ms = t\<rparr>]"
  "cl_schema_version (record_response w ids rotated t ledger) = cl_schema_version ledger"
  unfolding record_response_def Let_def using trimmed [of COMPROMISE_RESPONSE_LEDGER_MAX_ENTRIES] by simp_all

text \<open>
  What the ledger remembers.  It never holds more than its 512 entries, and after a response is recorded
  the answered signals of a workspace are those of the response, if it was about that workspace, and those
  of the last 511 entries before it.
\<close>

theorem ledger_remembers_recent_responses:
  "length (cl_entries (record_response w ids rotated t ledger)) \<le> COMPROMISE_RESPONSE_LEDGER_MAX_ENTRIES
   \<and> handled_signal_event_ids_for_workspace (record_response w ids rotated t ledger) w'
     = (if w' = w then set ids else {}) \<union> handled_signal_event_ids_for_workspace
         (ledger\<lparr>cl_entries := drop (length (cl_entries ledger) - (COMPROMISE_RESPONSE_LEDGER_MAX_ENTRIES - 1)) (cl_entries ledger)\<rparr>) w'"
  by (auto simp: recorded handled_signal_event_ids_for_workspace_def)

text \<open>A full ledger forgets: the oldest answer makes room, and its signals count as new again.\<close>

theorem full_ledger_forgets:
  assumes "cl_entries ledger = oldest # newer" "length (cl_entries ledger) = COMPROMISE_RESPONSE_LEDGER_MAX_ENTRIES"
    "i \<in> set (le_signal_event_ids oldest)" "i \<notin> set ids"
    "\<forall>entry \<in> set newer. i \<notin> set (le_signal_event_ids entry)"
  shows "i \<in> handled_signal_event_ids_for_workspace ledger (le_workspace_id oldest)
    \<and> i \<notin> handled_signal_event_ids_for_workspace (record_response w ids rotated t ledger) (le_workspace_id oldest)"
  using assms by (auto simp: recorded handled_signal_event_ids_for_workspace_def)

lemma recorded_entries:
  assumes "length (cl_entries ledger) < COMPROMISE_RESPONSE_LEDGER_MAX_ENTRIES"
  shows "handled_signal_event_ids_for_workspace (record_response w ids rotated t ledger) w
    = set ids \<union> handled_signal_event_ids_for_workspace ledger w"
  using assms by (auto simp: recorded handled_signal_event_ids_for_workspace_def)

text \<open>The JSON form of a ledger can be read back, with the newline that ends the file, and fits the limit.\<close>

definition ledger_law :: "CompromiseLib \<Rightarrow> CompromiseResponseLedger \<Rightarrow> bool" where
  "ledger_law C ledger \<longleftrightarrow> ledger_from_slice C (ledger_to_vec_pretty C ledger @ [0x0A]) = Some ledger
     \<and> length (ledger_to_vec_pretty C ledger) < COMPROMISE_RESPONSE_LEDGER_MAX_BYTES"

lemma read_within_limit:
  "fmlookup files path = Some b \<Longrightarrow> length b \<le> n \<Longrightarrow> read_local_metadata_file_with_limit files path n fld = Inr (Some b)"
  by (simp add: read_local_metadata_file_with_limit_def)

lemma ledger_round_trip:
  assumes "ledger_law C ledger" "cl_schema_version ledger = COMPROMISE_RESPONSE_LEDGER_SCHEMA_VERSION"
  shows "read_compromise_response_ledger C (write_compromise_response_ledger C rt ledger) = Inr ledger"
proof -
  let ?b = "ledger_to_vec_pretty C ledger @ [0x0A]"
  have "length ?b \<le> COMPROMISE_RESPONSE_LEDGER_MAX_BYTES" using assms(1) by (simp add: ledger_law_def)
  from read_within_limit [OF _ this] show ?thesis
    using assms by (simp add: read_compromise_response_ledger_def write_compromise_response_ledger_def write_secret_file_def
        ledger_law_def into_current_schema_def bind_res_def ok_or_def)
qed

lemma read_ledger_version:
  "read_compromise_response_ledger C rt = Inr ledger \<Longrightarrow> cl_schema_version ledger = COMPROMISE_RESPONSE_LEDGER_SCHEMA_VERSION"
  by (auto simp: read_compromise_response_ledger_def into_current_schema_def ledger_default_def result_simps
      split: option.splits if_splits)

section \<open>Responses\<close>

lemma nothing_to_respond:
  assumes "handled_compromise_signal_event_ids_for_workspace C rt w = Inr handled"
    "set (map cs_event_id (filter cs_local_device (rp_signals report))) \<subseteq> handled"
  shows "\<exists>resp. respond_to_workspace_compromise_report E M C inputs keys t rt w report = (rt, Inr resp)
    \<and> cp_rotation resp = None \<and> cp_responded_signal_event_ids resp = []"
  using assms
  by (auto simp: respond_to_workspace_compromise_report_def attempt_def Let_def compromise_response_def filter_empty_conv)

lemma answers_are_new:
  assumes "handled_compromise_signal_event_ids_for_workspace C rt w = Inr handled"
    "respond_to_workspace_compromise_report E M C inputs keys t rt w report = (rt', Inr resp)"
  shows "set (cp_responded_signal_event_ids resp) \<inter> handled = {}"
  using assms
  by (auto simp: respond_to_workspace_compromise_report_def attempt_def Let_def compromise_response_def
      split: if_splits sum.splits prod.splits)

lemma rotated_response:
  assumes "respond_to_workspace_compromise_report E M C inputs keys t rt w report = (rt', Inr resp)" "cp_rotation resp \<noteq> None"
  obtains handled rt1 rotated where "handled_compromise_signal_event_ids_for_workspace C rt w = Inr handled"
    "cp_responded_signal_event_ids resp = filter (\<lambda>i. i \<notin> handled) (map cs_event_id (filter cs_local_device (rp_signals report)))"
    "cp_already_handled_signal_event_ids resp
      = filter (\<lambda>i. i \<in> handled) (map cs_event_id (filter cs_local_device (rp_signals report)))"
    "rotate_workspace_for_suspected_compromise E M inputs keys rt w = (rt1, Inr rotated)"
    "record_compromise_response C t rt1 w (cp_responded_signal_event_ids resp) (rs_rotated_event_ids rotated) = Inr rt'"
proof -
  obtain handled where h: "handled_compromise_signal_event_ids_for_workspace C rt w = Inr handled"
    using assms(1) by (auto simp: respond_to_workspace_compromise_report_def attempt_def split: sum.splits)
  define ids where "ids = filter (\<lambda>i. i \<notin> handled) (map cs_event_id (filter cs_local_device (rp_signals report)))"
  obtain rt1 res where rot: "rotate_workspace_for_suspected_compromise E M inputs keys rt w = (rt1, res)" by fastforce
  note run = assms(1) [unfolded respond_to_workspace_compromise_report_def attempt_def Let_def, unfolded h, simplified,
      folded ids_def]
  have some: "ids \<noteq> []" using run assms(2) by (auto simp: compromise_response_def)
  note run = run [simplified some rot, simplified]
  obtain rotated where res: "res = Inr rotated"
    using run assms(2) by (cases res) (auto simp: compromise_response_def split: if_splits)
  obtain rt2 where rec: "record_compromise_response C t rt1 w ids (rs_rotated_event_ids rotated) = Inr rt2"
    using run res by (auto split: sum.splits)
  show thesis
    using that [OF h, of rt1 rotated] run [unfolded res, simplified, unfolded rec, simplified] rot res rec ids_def
    by (auto simp: compromise_response_def)
qed

lemma group_missing_case:
  "(case err of RtOpenMlsLocalGroupMissing _ \<Rightarrow> a | _ \<Rightarrow> b) = (if \<exists>w. err = RtOpenMlsLocalGroupMissing w then a else b)"
  by (cases err) simp_all

text \<open>
  Responding to a report either changes nothing, or answers the signals in the name of the device that the
  ledger does not know: it rotates, and records the answer if the rotation succeeds.
\<close>

lemma response_cases:
  assumes "respond_to_workspace_compromise_report E M C inputs keys t rt w report = (rt', r)"
  obtains (unchanged) "rt' = rt" "\<And>resp. r = Inr resp \<Longrightarrow> cp_rotation resp = None"
  | (rotated) handled rt1 rotated ids where
      "handled_compromise_signal_event_ids_for_workspace C rt w = Inr handled"
      "ids = filter (\<lambda>i. i \<notin> handled) (map cs_event_id (filter cs_local_device (rp_signals report)))" "ids \<noteq> []"
      "rotate_workspace_for_suspected_compromise E M inputs keys rt w = (rt1, Inr rotated)"
      "record_compromise_response C t rt1 w ids (rs_rotated_event_ids rotated) = Inr rt'"
  | (failed) handled err ids where
      "handled_compromise_signal_event_ids_for_workspace C rt w = Inr handled"
      "ids = filter (\<lambda>i. i \<notin> handled) (map cs_event_id (filter cs_local_device (rp_signals report)))" "ids \<noteq> []"
      "rotate_workspace_for_suspected_compromise E M inputs keys rt w = (rt', Inl err)"
      "\<And>resp. r = Inr resp \<Longrightarrow> cp_rotation resp = None"
  | (unrecorded) handled rotated ids where
      "handled_compromise_signal_event_ids_for_workspace C rt w = Inr handled"
      "ids = filter (\<lambda>i. i \<notin> handled) (map cs_event_id (filter cs_local_device (rp_signals report)))" "ids \<noteq> []"
      "rotate_workspace_for_suspected_compromise E M inputs keys rt w = (rt', Inr rotated)" "\<And>resp. r \<noteq> Inr resp"
proof (cases "handled_compromise_signal_event_ids_for_workspace C rt w")
  case (Inl err)
  then show thesis using assms by (intro unchanged) (auto simp: respond_to_workspace_compromise_report_def attempt_def)
next
  case (Inr handled)
  define ids where "ids = filter (\<lambda>i. i \<notin> handled) (map cs_event_id (filter cs_local_device (rp_signals report)))"
  show thesis
  proof (cases "ids = []")
    case True
    then show thesis using assms Inr ids_def unchanged
      by (auto simp: respond_to_workspace_compromise_report_def attempt_def Let_def compromise_response_def)
  next
    case False
    obtain rt1 res where rot: "rotate_workspace_for_suspected_compromise E M inputs keys rt w = (rt1, res)" by fastforce
    note run = assms [unfolded respond_to_workspace_compromise_report_def attempt_def Let_def, unfolded Inr, simplified,
        folded ids_def, simplified False rot, simplified]
    show thesis
    proof (cases res)
      case (Inl err)
      then show thesis using run False ids_def rot failed [OF Inr ids_def False, of err]
        by (auto simp: compromise_response_def split: if_splits)
    next
      case res: (Inr rotation)
      show thesis
      proof (cases "record_compromise_response C t rt1 w ids (rs_rotated_event_ids rotation)")
        case (Inl err)
        then have "rt' = rt1" "r = Inl err" using run res by simp_all
        then show thesis using res rot by (intro unrecorded [OF Inr ids_def False, of rotation]) simp_all
      next
        case recorded: (Inr rt2)
        then show thesis using run res rot rotated [OF Inr ids_def False, of rt1 rotation] by simp
      qed
    qed
  qed
qed

lemma local_signal:
  assumes "rp_signals report = rp_signals (detect_workspace_compromise_signals E C rt w)"
    "filter P (map cs_event_id (filter cs_local_device (rp_signals report))) \<noteq> []"
  shows "\<exists>e \<in> set (own_log E rt w). ev_author e = own_device rt \<and> sg_author_public_key e \<noteq> []
    \<and> verify_self_contained_event (ident (env_store E)) e \<noteq> Inr ()"
proof -
  obtain signal where s: "signal \<in> set (rp_signals (detect_workspace_compromise_signals E C rt w))" "cs_local_device signal"
    using assms by (auto simp: filter_empty_conv)
  then obtain e where "e \<in> set (own_log E rt w)"
    "workspace_compromise_signal_from_event (env_store E) C e (own_device rt) = Some signal"
    by (auto simp: detect_workspace_compromise_signals_def Let_def List.map_filter_def)
  with s(2) show ?thesis
    by (auto simp: workspace_compromise_signal_from_event_def split: if_splits sum.splits)
qed

text \<open>
  Only an invalid event in the name of the device makes it rotate.  Responding to the signals of a
  workspace leaves the device as it was unless a stored event names the device as its author, carries a
  public key and does not verify.
\<close>

theorem only_own_signals_rotate:
  "fst (respond_to_workspace_compromise_signals E M C inputs keys t rt w) = rt
   \<or> (\<exists>e \<in> set (own_log E rt w). ev_author e = own_device rt \<and> sg_author_public_key e \<noteq> []
        \<and> verify_self_contained_event (ident (env_store E)) e \<noteq> Inr ())"
proof -
  obtain rt' r where "respond_to_workspace_compromise_report E M C inputs keys t rt w (detect_workspace_compromise_signals E C rt w)
      = (rt', r)" by fastforce
  then show ?thesis
  proof (cases rule: response_cases)
    case unchanged
    then show ?thesis using \<open>_ = (rt', r)\<close> by (simp add: respond_to_workspace_compromise_signals_def)
  next
    case rotated
    then show ?thesis using local_signal [OF refl] by (metis (no_types, lifting))
  next
    case failed
    then show ?thesis using local_signal [OF refl] by (metis (no_types, lifting))
  next
    case unrecorded
    then show ?thesis using local_signal [OF refl] by (metis (no_types, lifting))
  qed
qed

text \<open>The ledger that the file was written from can be read back from it.\<close>

definition ledger_file_law :: "CompromiseLib \<Rightarrow> LocalRuntime \<Rightarrow> bool" where
  "ledger_file_law C rt \<longleftrightarrow> (\<forall>ledger. fmlookup (rt_files rt) (rp_compromise_response_ledger (rt_paths rt))
     = Some (ledger_to_vec_pretty C ledger @ [0x0A]) \<longrightarrow> ledger_law C ledger)"

definition room_in_ledger :: "CompromiseLib \<Rightarrow> LocalRuntime \<Rightarrow> bool" where
  "room_in_ledger C rt \<longleftrightarrow>
     (case read_compromise_response_ledger C rt of
        Inr ledger \<Rightarrow> length (cl_entries ledger) < COMPROMISE_RESPONSE_LEDGER_MAX_ENTRIES | Inl _ \<Rightarrow> False)"

lemma recorded_response:
  assumes "record_compromise_response C t rt w ids rotated = Inr rt'" "ledger_file_law C rt'"
  obtains handled where "handled_compromise_signal_event_ids_for_workspace C rt' w = Inr handled" "set ids \<subseteq> handled"
    "room_in_ledger C rt \<Longrightarrow> handled_compromise_signal_event_ids_for_workspace C rt w = Inr before \<Longrightarrow> before \<subseteq> handled"
proof -
  obtain ledger where ledger: "read_compromise_response_ledger C rt = Inr ledger"
    "rt' = write_compromise_response_ledger C rt (record_response (workspace_str w) ids rotated t ledger)"
    using assms(1) by (auto simp: record_compromise_response_def result_simps)
  let ?new = "record_response (workspace_str w) ids rotated t ledger"
  have "ledger_law C ?new"
    using assms(2) by (simp add: ledger_file_law_def ledger(2) write_compromise_response_ledger_def write_secret_file_def)
  then have "read_compromise_response_ledger C rt' = Inr ?new"
    using ledger_round_trip read_ledger_version [OF ledger(1)] by (simp add: recorded ledger(2))
  then have h: "handled_compromise_signal_event_ids_for_workspace C rt' w
      = Inr (handled_signal_event_ids_for_workspace ?new (workspace_str w))"
    by (simp add: handled_compromise_signal_event_ids_for_workspace_def)
  show thesis
  proof (rule that [OF h])
    show "set ids \<subseteq> handled_signal_event_ids_for_workspace ?new (workspace_str w)"
      by (auto simp: recorded handled_signal_event_ids_for_workspace_def)
    assume "room_in_ledger C rt" "handled_compromise_signal_event_ids_for_workspace C rt w = Inr before"
    then show "before \<subseteq> handled_signal_event_ids_for_workspace ?new (workspace_str w)"
      using recorded_entries [of ledger "workspace_str w" ids rotated t] ledger(1)
      by (auto simp: room_in_ledger_def handled_compromise_signal_event_ids_for_workspace_def)
  qed
qed

text \<open>
  C22: what was answered is not answered again.  After a response that rotated, and if its ledger can be read back
  from the file, the next response for the workspace, to whatever report, answers none of the signals that
  this one answered.  The same report leads to no rotation and changes nothing, if every signal in it was new
  to this response, or else if the rotation left the ledger file alone and the ledger had room for a
  further entry.
\<close>

theorem answered_signals_are_not_answered_again:
  assumes "respond_to_workspace_compromise_report E M C inputs keys t rt w report = (rt', Inr resp)" "cp_rotation resp \<noteq> None"
    and "ledger_file_law C rt'"
  shows "(case respond_to_workspace_compromise_report E M C inputs' keys' t' rt' w report' of
      (_, Inr resp') \<Rightarrow> set (cp_responded_signal_event_ids resp') \<inter> set (cp_responded_signal_event_ids resp) = {}
    | (_, Inl _) \<Rightarrow> True)
   \<and> (if cp_already_handled_signal_event_ids resp = []
        \<or> (let rt1 = fst (rotate_workspace_for_suspected_compromise E M inputs keys rt w) in
             read_compromise_response_ledger C rt1 = read_compromise_response_ledger C rt \<and> room_in_ledger C rt)
      then \<exists>resp'. respond_to_workspace_compromise_report E M C inputs' keys' t' rt' w report = (rt', Inr resp')
        \<and> cp_rotation resp' = None \<and> cp_responded_signal_event_ids resp' = []
      else True)"
proof -
  let ?local = "set (map cs_event_id (filter cs_local_device (rp_signals report)))"
  obtain before rt1 rotated where r: "handled_compromise_signal_event_ids_for_workspace C rt w = Inr before"
    "cp_responded_signal_event_ids resp = filter (\<lambda>i. i \<notin> before) (map cs_event_id (filter cs_local_device (rp_signals report)))"
    "cp_already_handled_signal_event_ids resp
      = filter (\<lambda>i. i \<in> before) (map cs_event_id (filter cs_local_device (rp_signals report)))"
    "rotate_workspace_for_suspected_compromise E M inputs keys rt w = (rt1, Inr rotated)"
    "record_compromise_response C t rt1 w (cp_responded_signal_event_ids resp) (rs_rotated_event_ids rotated) = Inr rt'"
    using rotated_response [OF assms(1,2)] .
  obtain handled where h: "handled_compromise_signal_event_ids_for_workspace C rt' w = Inr handled"
    "set (cp_responded_signal_event_ids resp) \<subseteq> handled"
    "room_in_ledger C rt1 \<Longrightarrow> handled_compromise_signal_event_ids_for_workspace C rt1 w = Inr before \<Longrightarrow> before \<subseteq> handled"
    using recorded_response [OF r(5) assms(3)] by blast
  have "case respond_to_workspace_compromise_report E M C inputs' keys' t' rt' w report' of
      (_, Inr resp') \<Rightarrow> set (cp_responded_signal_event_ids resp') \<inter> set (cp_responded_signal_event_ids resp) = {}
    | (_, Inl _) \<Rightarrow> True"
    using h(2) by (auto split: prod.split sum.split dest: answers_are_new [OF h(1)])
  moreover have "?local \<subseteq> handled"
    if "cp_already_handled_signal_event_ids resp = [] \<or> read_compromise_response_ledger C rt1 = read_compromise_response_ledger C rt
      \<and> room_in_ledger C rt"
  proof -
    have all: "?local = set (cp_responded_signal_event_ids resp) \<union> set (cp_already_handled_signal_event_ids resp)"
      unfolding r(2,3) by auto
    show ?thesis
    proof (cases "cp_already_handled_signal_event_ids resp = []")
      case True
      then show ?thesis unfolding all using h(2) by simp
    next
      case False
      then have "before \<subseteq> handled"
        using that h(3) r(1) by (simp add: room_in_ledger_def handled_compromise_signal_event_ids_for_workspace_def)
      moreover have "set (cp_already_handled_signal_event_ids resp) \<subseteq> before" unfolding r(3) by auto
      ultimately show ?thesis unfolding all using h(2) by blast
    qed
  qed
  ultimately show ?thesis using nothing_to_respond [OF h(1), of report E M inputs' keys' t'] by (auto simp: r(4) Let_def)
qed

definition sample_answer :: CompromiseResponseLedger where
  "sample_answer = record_response ''w'' [''e1''] [event_str (sg_event_id rotation_event)] 0 ledger_default"

definition sample_compromise_lib :: CompromiseLib where
  "sample_compromise_lib = \<lparr>identity_error_to_string = (\<lambda>_. []),
     ledger_to_vec_pretty = (\<lambda>ledger. if ledger = sample_answer then [0] else [1]),
     ledger_from_slice = (\<lambda>bs. if bs = [0, 0x0A] then Some sample_answer else None)\<rparr>"

definition sample_report :: WorkspaceCompromiseReport where
  "sample_report = \<lparr>rp_workspace_id = ''w'', rp_has_signals = True, rp_signal_count = 1, rp_invalid_signature_count = 1,
     rp_local_device_signal_count = 1, rp_should_rotate_local_secret_state = True, rp_recommended_action = None,
     rp_signals = [\<lparr>cs_kind = COMPROMISE_SIGNAL_INVALID_SELF_CONTAINED_SIGNATURE,
       cs_severity = COMPROMISE_SIGNAL_SEVERITY_SUSPECTED, cs_event_id = ''e1'', cs_channel_id = None,
       cs_author_device_id = ''d'', cs_local_device = True, cs_physical_ms = 0, cs_reason = []\<rparr>]\<rparr>"

lemma channels_unchanged:
  assumes "apply_event vals st e = Inr st'" "ev_body e = WorkspaceCreated n \<or> ev_body e = ContentKeyEpochPublished s k i p a"
  shows "ws_channels st' = ws_channels st"
proof -
  have "ws_channels (mark_invites_accepted_by_event s e) = ws_channels s" for s
    by (simp add: mark_invites_accepted_by_event_def Let_def)
  with assms show ?thesis
    by (auto simp: apply_event_def apply_ready_event_def materialize_def materialize_arm_defs record_applied_def Let_def
        result_simps split: if_splits option.splits ContentKeyScope.splits)
qed

text \<open>A device that holds only its first event, or that and a rotation, has no channels.\<close>

lemma device_state:
  assumes "local_ok device_env rt" "own_log device_env rt (WorkspaceId ''w'') = root_event # es" "set es \<subseteq> {rotation_event}"
  shows "\<exists>st. materialized_state device_env rt (WorkspaceId ''w'') = Inr st \<and> ws_channels st = fmempty"
proof -
  let ?w = "WorkspaceId ''w''"
  have w: "validate_workspace_id_reference ?w = Inr ()"
    by (simp add: validate_workspace_id_reference_def validate_identifier_size_def validate_workspace_id_str_def
        validate_id_bytes_def ensure_def map_err_def)
  obtain st where run: "accepted_run (apply_event (invite_order device_env)) (state_new ?w) (own_log device_env rt ?w) st"
    using assms(1) unfolding local_ok_def by blast
  have "distinct (map sg_event_id (own_log device_env rt ?w))"
    using assms(1) log_ids(1) by (auto simp: local_ok_def)
  with run have "apply_batch (invite_order device_env) (state_new ?w) (own_log device_env rt ?w)
      = Inr (st, \<lparr>rep_applied_events = map sg_event_id (own_log device_env rt ?w), rep_gaps = []\<rparr>)"
    by (intro ordered_batch) (simp add: ordered_run_def state_new_def access_inv_new)
  then have "materialized_state device_env rt ?w = Inr st"
    using ok_materializes [OF assms(1) w] by (simp add: materialized_state_def materialized_workspace_events_def bind_res_def)
  moreover have none: "ws_channels st' = fmempty"
    if "accepted_run (apply_event (invite_order device_env)) (state_new ?w) es' st'" "set es' \<subseteq> {root_event, rotation_event}" for es' st'
    using that
  proof (induction es' arbitrary: st' rule: rev_induct)
    case Nil
    then show ?case by (simp add: state_new_def)
  next
    case (snoc e es')
    then obtain s where "accepted_run (apply_event (invite_order device_env)) (state_new ?w) es' s"
      "apply_event (invite_order device_env) s e = Inr st'" "ws_channels s = fmempty"
      by (auto simp: accepted_run_append)
    then show ?case using channels_unchanged [of _ s e st'] snoc.prems(2) event_bodies by auto
  qed
  moreover have "set (own_log device_env rt ?w) \<subseteq> {root_event, rotation_event}" using assms(2,3) by auto
  ultimately show ?thesis using none [OF run] by blast
qed

lemma device_keyed_ok:
  "local_ok device_env device_keyed" "own_log device_env device_keyed (WorkspaceId ''w'') = [root_event]"
proof -
  have w: "validate_workspace_id_reference (WorkspaceId ''w'') = Inr ()"
    by (simp add: validate_workspace_id_reference_def validate_identifier_size_def validate_workspace_id_str_def
        validate_id_bytes_def ensure_def map_err_def)
  have empty: "local_ok device_env sample_runtime" "own_log device_env sample_runtime (WorkspaceId ''w'') = []"
    using device_identity by (auto intro!: empty_device [of _ _ sample_key])
      (simp_all add: sample_runtime_def list_parseable_events_for_workspace_def List.map_filter_simps)
  have "fst (append_signed device_env sample_runtime root_event) = device_rooted"
    by (simp add: append_signed_def device_appends map_err_def run_steps device_rooted_def)
      (simp add: sample_runtime_def put_row_def)
  then have "local_ok device_env device_rooted"
    using root_written [OF device_laws empty w _ refl, where name = "''W''" and t = device_clock] by (simp add: root_event_def device_identity)
  then show "local_ok device_env device_keyed" by (simp add: device_keyed_def)
  show "own_log device_env device_keyed (WorkspaceId ''w'') = [root_event]"
    using device_rooted_store(3) by (simp add: device_keyed_def)
qed

lemma device_responds:
  "\<exists>rt' resp. respond_to_workspace_compromise_report device_env M sample_compromise_lib inputs
      (\<lambda>_. (device_clock, [], replicate 12 0, ContentKey (replicate 32 2))) 0 device_keyed (WorkspaceId ''w'') sample_report
      = (rt', Inr resp)
    \<and> cp_rotation resp \<noteq> None \<and> cp_already_handled_signal_event_ids resp = [] \<and> ledger_file_law sample_compromise_lib rt'"
proof -
  let ?w = "WorkspaceId ''w''" and ?keys = "\<lambda>_ :: nat. (device_clock, [] :: bytes, replicate 12 (0 :: u8), ContentKey (replicate 32 2))"
  let ?path = "workspace_key_path sample_runtime ?w" and ?ledger = "rp_compromise_response_ledger (rt_paths sample_runtime)"
  have paths: "?ledger \<noteq> ?path" "openmls_workspace_group_path device_keyed ?w \<noteq> ?path"
    by (simp_all add: workspace_key_path_def openmls_workspace_group_path_def device_keyed_def device_rooted_def
        sample_runtime_def runtime_paths_new_def path_join_def)
  have same: "rt_paths device_keyed = rt_paths sample_runtime" "workspace_key_path device_keyed ?w = ?path"
    by (simp_all add: device_keyed_def device_rooted_def workspace_key_path_def)
  obtain rt1 content where rt1: "rt1 = device_keyed\<lparr>rt_files := fmupd ?path content (rt_files device_keyed)\<rparr>"
    and rot: "rotate_workspace_key device_env device_clock [] (replicate 12 0) (ContentKey (replicate 32 2)) device_keyed ?w
      = (rt1\<lparr>rt_store := put_row (event_row device_store_lib rotation_event) (rt_store rt1)\<rparr>, Inr device_rotation)"
    using device_rotates by blast
  define rt2 where "rt2 = rt1\<lparr>rt_store := put_row (event_row device_store_lib rotation_event) (rt_store rt1)\<rparr>"
  let ?ev = "local_event device_clock sample_runtime ?w None [sg_event_id root_event]
    (ContentKeyEpochPublished ScopeWorkspace (wk_epoch rotated_key) (wk_key_id rotated_key)
      (Some (wk_key_id sample_workspace_key)) CONTENT_KEY_ALGORITHM_AES_256_GCM_SIV)"
  have ok2: "local_ok device_env rt2"
    using rotate_workspace_key_keeps [OF device_laws device_keyed_ok(1)] rot by (metis fst_conv rt2_def)
  have id: "rt_identity rt1 = from_signing_key device_lib sample_key" "own_device rt1 = own_device sample_runtime"
    "rt_store rt1 = rt_store device_rooted"
    by (simp_all add: rt1 device_keyed_def device_rooted_def device_identity)
  have "own_log device_env rt2 (se_workspace_id ?ev) = own_log device_env rt1 (se_workspace_id ?ev) @ [rotation_event]"
  proof (rule appended_log(1))
    show "env_laws device_env" by (rule device_laws)
    show "local_ok device_env rt1" using device_keyed_ok(1) by (simp add: rt1)
    show "se_author_device_id ?ev = own_device rt1" by (simp only: id(2) local_event_sel)
    have named: "sign_event (ident (env_store device_env)) (rt_identity rt1) ?ev = rotation_event"
      by (simp add: id(1) rotation_event_def)
    show "fresh_event device_env rt1 ?ev"
      unfolding fresh_event_def named id(3) by (simp add: device_rooted_def event_row_def device_ids)
    show "append_signed device_env rt1 (sign_event (ident (env_store device_env)) (rt_identity rt1) ?ev) = (rt2, Inr rotation_event)"
      unfolding named by (simp add: append_signed_def device_appends map_err_def run_steps rt2_def)
  qed
  then have log2: "own_log device_env rt2 ?w = [root_event, rotation_event]" using device_keyed_ok(2) by (simp add: rt1)
  obtain st where st: "materialized_state device_env device_keyed ?w = Inr st" "ws_channels st = fmempty"
    using device_state [OF device_keyed_ok] by auto
  obtain st2 where st2: "materialized_state device_env rt2 ?w = Inr st2" "ws_channels st2 = fmempty"
    using device_state [OF ok2 log2] by auto
  have none: "sorted_list_of_fmap (ws_channels st) = []" "sorted_list_of_fmap (ws_channels st2) = []"
    by (simp_all add: st(2) st2(2) sorted_list_of_fmap_def sorted_list_of_fset.rep_eq)
  have files: "rt_files device_keyed = fmupd ?path [1, 0x0A] fmempty" by (simp add: device_keyed_def)
  have groups: "update_workspace_openmls_groups device_env M inputs device_keyed ?w
      = (device_keyed, Inl (RtOpenMlsLocalGroupMissing ?w))"
    using paths(2) st(1) none(1) by (simp add: update_workspace_openmls_groups_def local_updatable_openmls_channel_group_ids_def
        contains_key_def files bind_res_def run_steps Let_def)
  have keys: "rotate_workspace_manual_keys device_env ?keys device_keyed ?w
      = (rt2, Inr \<lparr>rm_workspace_id = ''w'', rm_workspace_key_rotation = device_rotation,
          rm_channel_key_rotation_count = 0, rm_channel_key_rotations = [], rm_rotated_event_count = 1,
          rm_rotated_event_ids = [event_str (sg_event_id rotation_event)]\<rparr>)"
    using rot [folded rt2_def] st2(1) none(2)
    by (simp add: rotate_workspace_manual_keys_def local_private_channel_key_ids_def bind_res_def run_steps Let_def device_rotation_def)
  have "contains_key (rt_files device_keyed) (workspace_key_path device_keyed ?w)"
    by (simp add: contains_key_def files same(2))
  then have "rotate_workspace_for_suspected_compromise device_env M inputs ?keys device_keyed ?w
      = (rt2, Inr \<lparr>rs_workspace_id = ''w'', rs_openmls_updates = None,
          rs_manual_key_rotation = Some \<lparr>rm_workspace_id = ''w'', rm_workspace_key_rotation = device_rotation,
            rm_channel_key_rotation_count = 0, rm_channel_key_rotations = [], rm_rotated_event_count = 1,
            rm_rotated_event_ids = [event_str (sg_event_id rotation_event)]\<rparr>,
          rs_rotated_event_count = 1, rs_rotated_event_ids = [event_str (sg_event_id rotation_event)]\<rparr>)"
    by (simp add: rotate_workspace_for_suspected_compromise_def groups keys when_true_def run_steps Let_def)
  moreover have "read_compromise_response_ledger sample_compromise_lib rt = Inr ledger_default"
    if "fmlookup (rt_files rt) ?ledger = None" "rt_paths rt = rt_paths sample_runtime" for rt
    using that by (simp add: read_compromise_response_ledger_def read_local_metadata_file_with_limit_def bind_res_def)
  moreover have "fmlookup (rt_files device_keyed) ?ledger = None" "fmlookup (rt_files rt2) ?ledger = None"
    "rt_paths rt2 = rt_paths sample_runtime"
    using paths(1) same(1) by (simp_all add: rt2_def rt1 device_keyed_def)
  ultimately show ?thesis
    by (simp add: respond_to_workspace_compromise_report_def handled_compromise_signal_event_ids_for_workspace_def same(1)
        bind_res_def run_steps handled_signal_event_ids_for_workspace_def ledger_default_def sample_report_def Let_def
        record_compromise_response_def compromise_response_def)
      (auto simp: ledger_file_law_def ledger_law_def write_compromise_response_ledger_def write_secret_file_def
        sample_compromise_lib_def sample_answer_def ledger_default_def)
qed

theorem answered_signals_are_not_answered_again_witness:
  "\<forall>M inputs. \<exists>rt' resp resp'. respond_to_workspace_compromise_report device_env M sample_compromise_lib inputs
      (\<lambda>_. (device_clock, [], replicate 12 0, ContentKey (replicate 32 2))) 0 device_keyed (WorkspaceId ''w'') sample_report
      = (rt', Inr resp) \<and> cp_rotation resp \<noteq> None
    \<and> respond_to_workspace_compromise_report device_env M sample_compromise_lib inputs
      (\<lambda>_. (device_clock, [], replicate 12 0, ContentKey (replicate 32 2))) 1 rt' (WorkspaceId ''w'') sample_report
      = (rt', Inr resp') \<and> cp_rotation resp' = None"
proof (intro allI)
  fix M inputs
  obtain rt' resp where r: "respond_to_workspace_compromise_report device_env M sample_compromise_lib inputs
      (\<lambda>_. (device_clock, [], replicate 12 0, ContentKey (replicate 32 2))) 0 device_keyed (WorkspaceId ''w'') sample_report
      = (rt', Inr resp)" "cp_rotation resp \<noteq> None" "cp_already_handled_signal_event_ids resp = []"
    "ledger_file_law sample_compromise_lib rt'"
    using device_responds by blast
  from answered_signals_are_not_answered_again [OF r(1,2,4), of inputs
      "\<lambda>_. (device_clock, [], replicate 12 0, ContentKey (replicate 32 2))" 1 sample_report] r
  show "\<exists>rt' resp resp'. respond_to_workspace_compromise_report device_env M sample_compromise_lib inputs
      (\<lambda>_. (device_clock, [], replicate 12 0, ContentKey (replicate 32 2))) 0 device_keyed (WorkspaceId ''w'') sample_report
      = (rt', Inr resp) \<and> cp_rotation resp \<noteq> None
    \<and> respond_to_workspace_compromise_report device_env M sample_compromise_lib inputs
      (\<lambda>_. (device_clock, [], replicate 12 0, ContentKey (replicate 32 2))) 1 rt' (WorkspaceId ''w'') sample_report
      = (rt', Inr resp') \<and> cp_rotation resp' = None" by auto
qed

text \<open>
  Group updates that a response hides: when the groups were updated but the key file does not give the key of the workspace, the
  response says that there was no secret state and answers no signal, although events were written.
\<close>

theorem response_hides_group_updates:
  assumes "handled_compromise_signal_event_ids_for_workspace C rt w = Inr handled"
    "signal \<in> set (rp_signals report)" "cs_local_device signal" "cs_event_id signal \<notin> handled"
    "update_workspace_openmls_groups E M inputs rt w = (rt1, Inr updates)"
    "contains_key (rt_files rt1) (workspace_key_path rt1 w)"
    "rotate_workspace_manual_keys E keys rt1 w = (rt2, Inl RtInvalidWorkspaceKey)"
  shows "\<exists>resp. respond_to_workspace_compromise_report E M C inputs keys t rt w report = (rt2, Inr resp)
    \<and> cp_rotation resp = None \<and> cp_responded_signal_event_ids resp = []
    \<and> cp_skipped_reason resp = Some COMPROMISE_RESPONSE_SKIPPED_LOCAL_SECRET_STATE_MISSING"
proof -
  have "rotate_workspace_for_suspected_compromise E M inputs keys rt w = (rt2, Inl RtInvalidWorkspaceKey)"
    using assms(5-7) by (simp add: rotate_workspace_for_suspected_compromise_def and_then_def when_true_def)
  moreover have "filter (\<lambda>i. i \<notin> handled) (map cs_event_id (filter cs_local_device (rp_signals report))) \<noteq> []"
    using assms(2-4) by (auto simp: filter_empty_conv)
  ultimately show ?thesis
    using assms(1) by (simp add: respond_to_workspace_compromise_report_def attempt_def Let_def compromise_response_def)
qed

end
