(* ===== verification/Attachment_Properties.thy ===== *)
theory Attachment_Properties
  imports Action_Invariant Media_Properties
begin

text \<open>
  What the publish queue of a workspace promises: it describes exactly the history that would be published, and
  it is complete when a peer could be given all of it.  Pruning the media store changes neither the queue nor
  the attachments that can be saved.
\<close>

section \<open>The history of the queue\<close>

lemma take_events_distinct:
  assumes "\<And>i e. fmlookup m i = Some e \<Longrightarrow> sg_event_id e = i"
  shows "distinct (map sg_event_id (take_events m ids)) \<and> sg_event_id ` set (take_events m ids) \<subseteq> fmdom' m"
  using assms
proof (induction ids arbitrary: m)
  case (Cons i ids)
  show ?case
  proof (cases "fmlookup m i")
    case (Some e)
    then have "sg_event_id e = i" using Cons.prems by blast
    moreover have "distinct (map sg_event_id (take_events (fmdrop i m) ids))
        \<and> sg_event_id ` set (take_events (fmdrop i m) ids) \<subseteq> fmdom' (fmdrop i m)"
      using Cons.prems by (intro Cons.IH) (simp split: if_splits)
    ultimately show ?thesis using Some by (auto intro: fmdom'I)
  qed (use Cons in auto)
qed simp

lemma events_by_id_ids: "fmlookup (events_by_id events) i = Some e \<Longrightarrow> sg_event_id e = i"
proof (induction events rule: rev_induct)
  case (snoc x xs)
  then show ?case by (auto simp: events_by_id_def split: if_splits)
qed (simp add: events_by_id_def)

lemma materialized_distinct:
  assumes "materialized_workspace_events_with_gaps E rt w = Inr (events, gaps)"
  shows "distinct (map sg_event_id events)"
  using assms take_events_distinct [OF events_by_id_ids]
  by (auto simp: materialized_workspace_events_with_gaps_def then_res_Inr Let_def split: sum.splits prod.splits)

section \<open>What the queue should be\<close>

abbreviation channel_key_of :: "SignedEvent \<Rightarrow> string option" where
  "channel_key_of e \<equiv> map_option channel_str (ev_channel e)"

abbreviation attached :: "SignedEvent list \<Rightarrow> string set" where
  "attached events \<equiv> \<Union> (set ` event_attachment_blob_hashes ` set events)"

text \<open>The line of a channel, counted from the events of that channel alone.\<close>

definition channel_line :: "SignedEvent list \<Rightarrow> string set \<Rightarrow> string option \<Rightarrow> WorkspacePublishQueueChannelSummary" where
  "channel_line events missing channel =
     (let own = filter (\<lambda>e. channel_key_of e = channel) events in
      \<lparr>qc_channel_id = channel, qc_publishable_event_count = length own,
       qc_backup_event_count = length (filter is_backup_slice_event own),
       qc_queued_message_event_count = length (filter is_queued_message_event own),
       qc_queued_attachment_blob_count = card (attached own),
       qc_missing_blob_count = card (attached own \<inter> missing)\<rparr>)"

definition queue_describes ::
  "MediaLib \<Rightarrow> BlobFiles \<Rightarrow> SignedEvent list \<Rightarrow> PulledWorkspaceGap list \<Rightarrow> WorkspacePublishQueue \<Rightarrow> bool" where
  "queue_describes M blobs events gaps q \<longleftrightarrow>
     (let s = pq_summary q; times = ev_physical_ms ` set events;
          missing = {h \<in> attached events. has_complete_blob M blobs h = Inr False} in
      (\<forall>h \<in> attached events. \<exists>complete. has_complete_blob M blobs h = Inr complete)
      \<and> qs_channels s = map (channel_line events missing) (sorted_list_of_set (channel_key_of ` set events))
      \<and> qs_publishable_event_count s = length events
      \<and> qs_publishable_event_count s = sum_list (map qc_publishable_event_count (qs_channels s))
      \<and> qs_backup_event_count s = sum_list (map qc_backup_event_count (qs_channels s))
      \<and> qs_queued_message_event_count s = sum_list (map qc_queued_message_event_count (qs_channels s))
      \<and> qs_queued_attachment_blob_count s = card (attached events)
      \<and> qs_available_blob_count s + qs_missing_blob_count s = card (attached events)
      \<and> qs_missing_blob_count s = card missing \<and> qs_skipped_gap_count s = length gaps
      \<and> qs_oldest_event_physical_ms s = (if events = [] then None else Some (Min times))
      \<and> qs_newest_event_physical_ms s = (if events = [] then None else Some (Max times))
      \<and> (qs_is_complete s \<longleftrightarrow> (\<forall>h \<in> attached events. has_complete_blob M blobs h = Inr True) \<and> gaps = [])
      \<and> pq_publishable_event_ids q = take 128 (map (\<lambda>e. event_str (sg_event_id e)) events)
      \<and> pq_missing_blob_hashes q = take 64 (sorted_list_of_set missing)
      \<and> pq_available_blob_hashes q = take 64 (sorted_list_of_set (attached events - missing)))"

section \<open>The loop over the events\<close>

lemma attached_set: "set (concat (map event_attachment_blob_hashes events)) = attached events"
  by auto

lemma scan_Nil [simp]:
  "scan_events B M [] = \<lparr>qn_channel_summaries = fmempty, qn_queued_message_event_count = 0,
     qn_queued_attachment_blob_hashes = {}, qn_oldest_event_physical_ms = None, qn_newest_event_physical_ms = None\<rparr>"
  by (simp add: scan_events_def)

lemma filter_sorted_set: "finite A \<Longrightarrow> filter P (sorted_list_of_set A) = sorted_list_of_set {x \<in> A. P x}"
  by (rule sorted_distinct_set_unique) (auto simp: sorted_filter [where f = id, simplified])

lemma card_split: "finite A \<Longrightarrow> B \<subseteq> A \<Longrightarrow> card (A - B) + card B = card A"
  by (metis card_Diff_subset card_mono finite_subset le_add_diff_inverse2)

lemma none_missing:
  "(\<And>h. h \<in> A \<Longrightarrow> complete h = Inr True \<longleftrightarrow> h \<notin> {h \<in> A. complete h = Inr False}) \<Longrightarrow>
     {h \<in> A. complete h = Inr False} = {} \<longleftrightarrow> (\<forall>h \<in> A. complete h = Inr True)"
  by auto

lemma scan_snoc: "scan_events B M (es @ [e]) = scan_event B M (scan_events B M es) e"
  by (simp add: scan_events_def)

lemma scanned_channel:
  "fmlookup (qn_channel_summaries (scan_events B M es)) c =
     (let own = filter (\<lambda>e. channel_key_of e = c) es in
      if own = [] then None
      else Some \<lparr>qb_publishable_event_count = length own,
        qb_backup_event_count = length (filter (\<lambda>e. event_str (sg_event_id e) \<in> B) own),
        qb_queued_message_event_count = length (filter is_queued_message_event own),
        qb_attachment_blob_hashes = attached own, qb_missing_blob_hashes = attached own \<inter> M\<rparr>)"
proof (induction es rule: rev_induct)
  case (snoc e es)
  then show ?case
    by (cases "filter (\<lambda>e. channel_key_of e = c) es = []")
      (auto simp: scan_snoc scan_event_def summarize_event_def builder_default_def Let_def simp del: filter_filter)
qed simp

lemma scanned_totals:
  "qn_queued_message_event_count (scan_events B M es) = length (filter is_queued_message_event es)
   \<and> qn_queued_attachment_blob_hashes (scan_events B M es) = attached es"
  by (induction es rule: rev_induct) (auto simp: scan_snoc scan_event_def Let_def)

lemma scanned_times:
  "qn_oldest_event_physical_ms (scan_events B M es)
     = (if es = [] then None else Some (Min (ev_physical_ms ` set es)))
   \<and> qn_newest_event_physical_ms (scan_events B M es)
     = (if es = [] then None else Some (Max (ev_physical_ms ` set es)))"
proof (induction es rule: rev_induct)
  case (snoc e es)
  then show ?case using scan_snoc [of B M "[]" e]
    by (cases "es = []") (auto simp: scan_snoc scan_event_def Let_def min.commute max.commute)
qed simp

lemma partition_by_key:
  assumes "distinct ks" "f ` set xs \<subseteq> set ks"
  shows "sum_list (map (\<lambda>k. length (filter P (filter (\<lambda>x. f x = k) xs))) ks) = length (filter P xs)"
  using assms(2)
proof (induction xs)
  case (Cons x xs)
  have one: "sum_list (map (\<lambda>k. if f x = k then n else 0) ks) = (if f x \<in> set ks then n else 0)" for n :: nat
    using assms(1) by (induction ks) auto
  have "(\<lambda>k. length (filter P (filter (\<lambda>y. f y = k) (x # xs))))
      = (\<lambda>k. (if f x = k then if P x then 1 else 0 else 0) + length (filter P (filter (\<lambda>y. f y = k) xs)))"
    by auto
  then show ?case using Cons by (simp add: sum_list_addf one)
qed simp

lemma split_hashes:
  "split_blob_hashes M blobs hs = Inr (available, missing) \<Longrightarrow>
     (\<forall>h \<in> set hs. \<exists>complete. has_complete_blob M blobs h = Inr complete)
     \<and> available = filter (\<lambda>h. has_complete_blob M blobs h = Inr True) hs
     \<and> missing = filter (\<lambda>h. has_complete_blob M blobs h = Inr False) hs"
  by (induction hs arbitrary: available missing) (auto simp: bind_res_Inr result_simps split: if_splits)

section \<open>The queue\<close>

lemma queue_of_history:
  assumes "split_blob_hashes M blobs (attachment_blob_hashes events) = Inr (available, missing)"
    and "distinct (map sg_event_id events)"
    and "backup = map (\<lambda>event. event_str (sg_event_id event)) (filter is_backup_slice_event events)"
  shows "queue_describes M blobs events gaps \<lparr>pq_workspace_id = w,
     pq_summary = workspace_publish_queue_summary events (set backup) available missing gaps,
     pq_publishable_event_ids = take 128 (map (\<lambda>event. event_str (sg_event_id event)) events),
     pq_backup_event_ids = take 128 backup, pq_available_blob_hashes = take 64 available,
     pq_missing_blob_hashes = take 64 missing, pq_skipped_gaps = take 64 gaps\<rparr>"
proof -
  let ?s = "workspace_publish_queue_summary events (set backup) available missing gaps"
  let ?keys = "sorted_list_of_set (channel_key_of ` set events)"
  let ?missing = "{h \<in> attached events. has_complete_blob M blobs h = Inr False}"
  note split = split_hashes [OF assms(1)]
  have hashes: "attachment_blob_hashes events = sorted_list_of_set (attached events)"
    by (simp only: attachment_blob_hashes_def attached_set)
  have fin: "finite (attached events)" by simp
  have all: "\<forall>h \<in> attached events. \<exists>complete. has_complete_blob M blobs h = Inr complete"
    using split set_sorted_list_of_set [OF fin] by (simp only: hashes) blast
  have decided: "has_complete_blob M blobs h = Inr True \<longleftrightarrow> h \<notin> ?missing" if "h \<in> attached events" for h
  proof -
    obtain complete where "has_complete_blob M blobs h = Inr complete" using bspec [OF all \<open>h \<in> attached events\<close>] by blast
    then show ?thesis using \<open>h \<in> attached events\<close> by (cases complete) auto
  qed
  have missing: "missing = sorted_list_of_set ?missing"
    using split fin by (simp only: hashes filter_sorted_set)
  have "{h \<in> attached events. has_complete_blob M blobs h = Inr True} = attached events - ?missing" using decided by blast
  then have available: "available = sorted_list_of_set (attached events - ?missing)"
    using split fin by (simp only: hashes filter_sorted_set)
  have fin_missing: "finite ?missing" by simp
  have sets: "set missing = ?missing" by (simp only: missing set_sorted_list_of_set [OF fin_missing])
  have str: "event_str (sg_event_id e) = event_str (sg_event_id e') \<longleftrightarrow> e = e'" if "e \<in> set events" "e' \<in> set events" for e e'
    using that assms(2) by (auto simp: distinct_map dest: inj_onD EventId.expand)
  then have backup: "event_str (sg_event_id e) \<in> set backup \<longleftrightarrow> is_backup_slice_event e" if "e \<in> set events" for e
    using that by (auto simp: assms(3))
  have keys: "fmdom' (qn_channel_summaries (scan_events (set backup) (set missing) events)) = channel_key_of ` set events"
    by (auto simp: fmlookup_dom'_iff scanned_channel Let_def filter_empty_conv split: if_splits)
  have lines: "qs_channels ?s = map (channel_line events ?missing) ?keys"
  proof -
    have "sorted_list_of_fset (fmdom (qn_channel_summaries (scan_events (set backup) (set missing) events))) = ?keys"
      using keys by (simp add: sorted_list_of_fset.rep_eq fmdom'_alt_def)
    moreover have "channel_summary (c, the (fmlookup (qn_channel_summaries (scan_events (set backup) (set missing) events)) c))
        = channel_line events ?missing c" if "c \<in> channel_key_of ` set events" for c
    proof -
      have own: "filter (\<lambda>e. event_str (sg_event_id e) \<in> set backup) (filter (\<lambda>e. channel_key_of e = c) events)
          = filter is_backup_slice_event (filter (\<lambda>e. channel_key_of e = c) events)"
        by (rule filter_cong) (auto simp: backup)
      have "filter (\<lambda>e. channel_key_of e = c) events \<noteq> []" using that by (auto simp: filter_empty_conv)
      then show ?thesis
        by (simp add: channel_summary_def scanned_channel Let_def channel_line_def own sets del: filter_filter)
    qed
    ultimately show ?thesis
      by (simp add: workspace_publish_queue_summary_def Let_def sorted_list_of_fmap_def)
  qed
  have sums: "sum_list (map (\<lambda>c. length (filter P (filter (\<lambda>e. channel_key_of e = c) events))) ?keys) = length (filter P events)" for P
    by (rule partition_by_key) auto
  have "distinct backup"
    using assms(2) str by (auto simp: assms(3) distinct_map inj_on_def)
  then have card_backup: "card (set backup) = length (filter is_backup_slice_event events)"
    using distinct_card assms(3) by (metis length_map)
  have card_missing: "length missing = card ?missing" "card (set missing) = card ?missing"
    by (simp_all only: missing length_sorted_list_of_set set_sorted_list_of_set [OF fin_missing])
  have "length available + length missing = card (attached events)"
    by (simp only: available card_missing length_sorted_list_of_set) (rule card_split [OF fin Collect_subset])
  moreover have "set missing = {} \<longleftrightarrow> (\<forall>h \<in> attached events. has_complete_blob M blobs h = Inr True)"
    unfolding sets using decided by (intro none_missing) blast
  ultimately show ?thesis
    using all lines scanned_totals [of "set backup" "set missing" events]
      scanned_times [of "set backup" "set missing" events] sums [of "\<lambda>_. True"] sums [of is_backup_slice_event]
      sums [of is_queued_message_event] card_backup card_missing
    unfolding queue_describes_def Let_def WorkspacePublishQueue.select_convs lines
    by (intro conjI, simp_all only: workspace_publish_queue_summary_def Let_def WorkspacePublishQueueSummary.select_convs
          map_map o_def, simp_all add: channel_line_def Let_def available missing del: filter_filter)
qed

text \<open>
  C23: the publish queue describes exactly the history that would be published.  Its channels are those of the
  events, each counted from its own events only, and they add up to the totals; every attachment is either
  available or missing; and the queue is complete just when no event was skipped and the media store can
  give every attachment.
\<close>

theorem publish_queue_is_exact:
  "(case workspace_publish_queue E rt w of
      Inl _ \<Rightarrow> True
    | Inr q \<Rightarrow> (case materialized_workspace_events_with_gaps E rt w of
        Inl _ \<Rightarrow> False
      | Inr (events, gaps) \<Rightarrow> queue_describes (media_lib E) (rt_blobs rt) events gaps q))"
proof (cases "materialized_workspace_events_with_gaps E rt w")
  case (Inr r)
  then obtain events gaps where r: "materialized_workspace_events_with_gaps E rt w = Inr (events, gaps)"
    by (cases r) simp
  then show ?thesis using queue_of_history [OF _ materialized_distinct [OF r] refl]
    by (auto simp: workspace_publish_queue_def open_blob_store_def Let_def bind_res_Inr split: sum.split prod.splits)
qed (simp add: workspace_publish_queue_def)

section \<open>Pruning\<close>

text \<open>The attachments of the messages of a state are those of the events that led to it.\<close>

lemma view_attachments:
  "mv_attachments (message_view_new m c i reply text sealed attachments) = attachments"
  "mv_attachments (add_reaction v reaction d) = mv_attachments v"
  "mv_attachments (remove_reaction v reaction d) = mv_attachments v"
  by (auto simp: message_view_new_def add_reaction_def remove_reaction_def Let_def split: option.split)

lemma attachments_step:
  assumes "apply_ready_event vals st ev = Inr st'" "fmlookup (ws_messages st') m = Some v"
  shows "att_blob_hash ` set (mv_attachments v) \<subseteq> set (event_attachment_blob_hashes ev)
    \<or> (\<exists>v0. fmlookup (ws_messages st) m = Some v0 \<and> mv_attachments v = mv_attachments v0)"
  using assms
  by (cases "ev_body ev")
    (auto simp: apply_ready_event_Inr record_applied_def materialize_def event_attachment_blob_hashes_def
      materialize_arm_defs Let_def result_simps view_attachments split: option.splits if_splits)

lemma attachments_of_run:
  "accepted_run (apply_event vals) st es st' \<Longrightarrow> fmlookup (ws_messages st') m = Some v \<Longrightarrow>
     att_blob_hash ` set (mv_attachments v) \<subseteq> attached es
     \<or> (\<exists>v0. fmlookup (ws_messages st) m = Some v0 \<and> mv_attachments v = mv_attachments v0)"
proof (induction arbitrary: m v rule: accepted_run.induct)
  case (run_cons s e t es u)
  have "apply_ready_event vals s e = Inr t" using run_cons.hyps(1) by (auto simp: apply_event_Inr)
  note step = attachments_step [OF this]
  show ?case
  proof (cases "att_blob_hash ` set (mv_attachments v) \<subseteq> attached es")
    case False
    then obtain v1 where v1: "fmlookup (ws_messages t) m = Some v1" "mv_attachments v = mv_attachments v1"
      using run_cons.IH [OF run_cons.prems] by blast
    show ?thesis using step [OF v1(1)] by (simp add: v1(2)) blast
  qed auto
qed auto

lemma saved_is_attached:
  assumes "materialized_workspace_events E rt w = Inr events" "materialized_state E rt w = Inr state"
    and "message_attachment_from_state state device w m selector = Inr (c, attachment, i)"
  shows "att_blob_hash attachment \<in> attached events"
proof -
  obtain rep where "apply_batch (invite_order E) (state_new w) events = Inr (state, rep)"
    using assms(1,2) by (auto simp: materialized_state_def split: sum.splits)
  then obtain es where es: "accepted_run (apply_event (invite_order E)) (state_new w) es state" "set es \<subseteq> set events"
    by (rule apply_batch_run) auto
  obtain v where v: "fmlookup (ws_messages state) m = Some v" "attachment \<in> set (mv_attachments v)"
    using assms(3)
    by (auto simp: message_attachment_from_state_def result_simps Let_def enumerate_eq_zip in_set_zip
        dest!: find_SomeD split: if_splits option.splits)
  have "att_blob_hash ` set (mv_attachments v) \<subseteq> attached es"
    using attachments_of_run [OF es(1) v(1)] by (simp add: state_new_def)
  then show ?thesis using v(2) es(2) by blast
qed

lemma pruned_runtime:
  assumes "prune_unreferenced_blobs E rt = (rt', Inr report)"
  obtains hashes blobs mr where "rt' = rt\<lparr>rt_blobs := blobs\<rparr>"
    "referenced_blobs E rt (list_workspace_ids (rt_store rt)) = Inr hashes"
    "prune_unreferenced (media_lib E) (rt_blobs rt) (set hashes) = (blobs, Inr mr)"
proof -
  obtain hashes where r: "referenced_blobs E rt (list_workspace_ids (rt_store rt)) = Inr hashes"
    "rt' = rt\<lparr>rt_blobs := fst (prune_unreferenced (media_lib E) (rt_blobs rt) (set hashes))\<rparr>"
    "map_err RtMedia (map_sum id (pruned_blob_cache_from_parts (list_workspace_ids (rt_store rt)))
       (snd (prune_unreferenced (media_lib E) (rt_blobs rt) (set hashes)))) = Inr report"
    using assms by (auto simp: prune_unreferenced_blobs_def Let_def attempt_Inr open_blob_store_def bind_res_Inr case_prod_beta)
  obtain blobs result where p: "prune_unreferenced (media_lib E) (rt_blobs rt) (set hashes) = (blobs, result)" by fastforce
  then obtain mr where "result = Inr mr" using r(3) by (cases result) (auto simp: map_err_def)
  then show thesis using r p that by simp
qed

lemma prune_blobs_fails:
  assumes "prune_unreferenced_blobs E rt = (rt', Inl err)"
  shows "rt' = rt"
proof (cases "\<exists>hashes. referenced_blobs E rt (list_workspace_ids (rt_store rt)) = Inr hashes \<and> open_blob_store rt = Inr (rt_blobs rt)")
  case True
  then obtain hashes where h: "referenced_blobs E rt (list_workspace_ids (rt_store rt)) = Inr hashes"
    "open_blob_store rt = Inr (rt_blobs rt)" by blast
  obtain blobs result where p: "prune_unreferenced (media_lib E) (rt_blobs rt) (set hashes) = (blobs, result)" by fastforce
  have r: "rt' = rt\<lparr>rt_blobs := blobs\<rparr>" "\<exists>e. result = Inl e"
    using assms h p by (cases result; auto simp: prune_unreferenced_blobs_def attempt_def map_err_def)+
  then have "blobs = rt_blobs rt" using prune_fails p by blast
  then show ?thesis using r(1) by simp
next
  case False
  then show ?thesis using assms
    by (auto simp: prune_unreferenced_blobs_def Let_def attempt_def open_blob_store_def bind_res_def split: sum.splits)
qed

lemma referenced_attached:
  "referenced_blobs E rt ws = Inr hashes \<Longrightarrow> w \<in> set ws \<Longrightarrow>
     materialized_workspace_events E rt (WorkspaceId w) = Inr events \<Longrightarrow> attached events \<subseteq> set hashes"
proof (induction ws arbitrary: hashes)
  case (Cons x ws)
  then obtain es rest where es: "materialized_workspace_events E rt (WorkspaceId x) = Inr es"
    "referenced_blobs E rt ws = Inr rest" "hashes = attachment_blob_hashes es @ rest"
    by (auto simp: bind_res_Inr)
  then show ?case using Cons by (cases "w = x") (auto simp: attachment_blob_hashes_def)
qed simp

lemma no_rows_no_events:
  assumes "workspace_str w \<notin> set (list_workspace_ids (rt_store rt))" "materialized_workspace_events E rt w = Inr events"
  shows "events = []"
proof -
  have "filter (\<lambda>r. in_workspace (workspace_str w) r \<and> length (rw_event_json r) \<le> EVENT_JSON_MAX_BYTES) (rt_store rt) = []"
    using assms(1) by (auto simp: list_workspace_ids_def filter_empty_conv in_workspace_def image_iff)
  then have "list_parseable_events_for_workspace (env_store E) (rt_store rt) (workspace_str w) = []"
    by (simp add: list_parseable_events_for_workspace_def List.map_filter_def)
  moreover have "take_events fmempty ids = []" for ids by (induction ids) simp_all
  ultimately show ?thesis using assms(2)
    by (auto simp: materialized_workspace_events_def materialized_workspace_events_with_gaps_def then_res_Inr bind_res_Inr
        verified_local_events_for_runtime_def events_by_id_def Let_def split: sum.splits prod.splits)
qed

lemma attached_survives:
  assumes "prune_unreferenced (media_lib E) (rt_blobs rt) (set hashes) = (blobs, Inr mr)"
    and "referenced_blobs E rt (list_workspace_ids (rt_store rt)) = Inr hashes"
    and "materialized_workspace_events E rt w = Inr events" "h \<in> attached events"
  shows "same_blob (media_lib E) (rt_blobs rt) blobs h"
proof (cases "workspace_str w \<in> set (list_workspace_ids (rt_store rt))")
  case True
  then have "h \<in> set hashes" using referenced_attached [OF assms(2) True] assms(3,4) by (cases w) auto
  then show ?thesis by (rule pruned_same_blob [OF assms(1)])
next
  case False
  then show ?thesis using no_rows_no_events [OF False assms(3)] assms(4) by simp
qed

lemma attempt_moves:
  "r' = r \<Longrightarrow> (\<And>x. r = Inr x \<Longrightarrow> k' x = map_prod (rt_blobs_update (\<lambda>_. b)) id (k x)) \<Longrightarrow>
     attempt (rt\<lparr>rt_blobs := b\<rparr>) r' k' = map_prod (rt_blobs_update (\<lambda>_. b)) id (attempt rt r k)"
  by (auto simp: attempt_def split: sum.split)

text \<open>What is read from the store and the secrets of the device does not depend on the media store.\<close>

lemma fields_need_no_blobs:
  "rt_files (rt\<lparr>rt_blobs := b\<rparr>) = rt_files rt" "rt_store (rt\<lparr>rt_blobs := b\<rparr>) = rt_store rt"
  "rt_paths (rt\<lparr>rt_blobs := b\<rparr>) = rt_paths rt"
  "rt_identity_passphrase (rt\<lparr>rt_blobs := b\<rparr>) = rt_identity_passphrase rt"
  by simp_all

lemma paths_need_no_blobs:
  "workspace_key_path (rt\<lparr>rt_blobs := b\<rparr>) w = workspace_key_path rt w"
  "channel_key_path (rt\<lparr>rt_blobs := b\<rparr>) w c = channel_key_path rt w c"
  "openmls_workspace_group_path (rt\<lparr>rt_blobs := b\<rparr>) w = openmls_workspace_group_path rt w"
  "openmls_channel_group_path (rt\<lparr>rt_blobs := b\<rparr>) w c = openmls_channel_group_path rt w c"
  "own_device (rt\<lparr>rt_blobs := b\<rparr>) = own_device rt"
  by (simp_all add: workspace_key_path_def channel_key_path_def
      openmls_workspace_group_path_def openmls_channel_group_path_def openmls_channel_groups_dir_def)

lemma secrets_need_no_blobs:
  "read_local_secret_file S (rt\<lparr>rt_blobs := b\<rparr>) p k = read_local_secret_file S rt p k"
  unfolding read_local_secret_file_def local_secret_path_hint_def fields_need_no_blobs by (rule refl)

lemma keys_need_no_blobs:
  "load_workspace_key K (rt\<lparr>rt_blobs := b\<rparr>) w = load_workspace_key K rt w"
  "load_channel_key K (rt\<lparr>rt_blobs := b\<rparr>) w c = load_channel_key K rt w c"
  "openmls_group_content_key_for_key_id E (rt\<lparr>rt_blobs := b\<rparr>) p i = openmls_group_content_key_for_key_id E rt p i"
  unfolding load_workspace_key_def load_channel_key_def openmls_group_content_key_for_key_id_def
    read_optional_openmls_secret_file_def secrets_need_no_blobs paths_need_no_blobs by (rule refl)+

lemma reads_need_no_blobs:
  "materialized_workspace_events_with_gaps E (rt\<lparr>rt_blobs := b\<rparr>) w = materialized_workspace_events_with_gaps E rt w"
  "materialized_workspace_events E (rt\<lparr>rt_blobs := b\<rparr>) w = materialized_workspace_events E rt w"
  "materialized_state E (rt\<lparr>rt_blobs := b\<rparr>) w = materialized_state E rt w"
  "content_key_for_materialized_payload E (rt\<lparr>rt_blobs := b\<rparr>) w c st k i = content_key_for_materialized_payload E rt w c st k i"
  unfolding materialized_state_def materialized_workspace_events_def materialized_workspace_events_with_gaps_def
    content_key_for_materialized_payload_def openmls_workspace_content_key_for_key_id_def
    openmls_channel_content_key_for_key_id_def keys_need_no_blobs paths_need_no_blobs fields_need_no_blobs
  by (rule refl)+

lemma attempt_moves_triple:
  "r' = r \<Longrightarrow> (\<And>x y z. r = Inr (x, y, z) \<Longrightarrow> k' x y z = map_prod (rt_blobs_update (\<lambda>_. b)) id (k x y z)) \<Longrightarrow>
     attempt (rt\<lparr>rt_blobs := b\<rparr>) r' (\<lambda>(x, y, z). k' x y z)
       = map_prod (rt_blobs_update (\<lambda>_. b)) id (attempt rt r (\<lambda>(x, y, z). k x y z))"
  by (auto simp: attempt_def split: sum.split)

lemma attempt_open:
  "attempt rt (open_blob_store rt) k = attempt rt (map_err RtMedia (blob_store_open (rp_blob_store (rt_paths rt)))) (\<lambda>_. k (rt_blobs rt))"
  by (auto simp: open_blob_store_def attempt_def bind_res_def split: sum.split)

lemma save_moves:
  assumes "\<And>events h. materialized_workspace_events E rt w = Inr events \<Longrightarrow> h \<in> attached events \<Longrightarrow>
      get_complete_bytes (media_lib E) b h = get_complete_bytes (media_lib E) (rt_blobs rt) h"
  shows "save_attachment_to_file E (rt\<lparr>rt_blobs := b\<rparr>) w m selector path
    = map_prod (rt_blobs_update (\<lambda>_. b)) id (save_attachment_to_file E rt w m selector path)"
proof -
  have found: "get_complete_bytes (media_lib E) b (att_blob_hash attachment)
      = get_complete_bytes (media_lib E) (rt_blobs rt) (att_blob_hash attachment)"
    if state: "materialized_state E rt w = Inr state"
      "message_attachment_from_state state (own_device rt) w m selector = Inr (c, attachment, i)" for state c attachment i
  proof -
    obtain events where events: "materialized_workspace_events E rt w = Inr events"
      using state(1) by (auto simp: materialized_state_def bind_res_Inr)
    show ?thesis by (rule assms [OF events saved_is_attached [OF events state]])
  qed
  have blobs: "rt_blobs (rt\<lparr>rt_blobs := b\<rparr>) = b" by simp
  show ?thesis
    unfolding save_attachment_to_file_def Let_def attempt_open reads_need_no_blobs keys_need_no_blobs paths_need_no_blobs
      fields_need_no_blobs blobs
    by (rule refl attempt_moves_triple attempt_moves | simp only: found | simp)+
qed

lemma queue_moves:
  assumes "\<And>events h. materialized_workspace_events E rt w = Inr events \<Longrightarrow> h \<in> attached events \<Longrightarrow>
      has_complete_blob (media_lib E) b h = has_complete_blob (media_lib E) (rt_blobs rt) h"
  shows "workspace_publish_queue E (rt\<lparr>rt_blobs := b\<rparr>) w = workspace_publish_queue E rt w"
proof (cases "materialized_workspace_events_with_gaps E rt w")
  case (Inr r)
  then obtain events gaps where r: "materialized_workspace_events_with_gaps E rt w = Inr (events, gaps)"
    by (cases r) simp
  then have "materialized_workspace_events E rt w = Inr events" by (simp add: materialized_workspace_events_def)
  note same = assms [OF this]
  have "split_blob_hashes (media_lib E) b hs = split_blob_hashes (media_lib E) (rt_blobs rt) hs"
    if "set hs \<subseteq> attached events" for hs
    using that by (induction hs) (simp_all add: same)
  then have "split_blob_hashes (media_lib E) b (attachment_blob_hashes events)
      = split_blob_hashes (media_lib E) (rt_blobs rt) (attachment_blob_hashes events)"
    by (simp add: attachment_blob_hashes_def)
  then show ?thesis
    by (simp add: workspace_publish_queue_def reads_need_no_blobs r open_blob_store_def bind_res_def split: sum.split)
qed (simp add: workspace_publish_queue_def reads_need_no_blobs)

text \<open>
  C24: pruning loses no attachment.  When the runtime prunes its media store, every attachment of every message of
  every workspace can be saved afterwards exactly when it could be before, and gives the same file, and the
  publish queue of every workspace is what it was; when pruning fails, nothing has changed.
\<close>

theorem pruning_loses_no_attachment:
  "(case prune_unreferenced_blobs E rt of
      (rt', Inl _) \<Rightarrow> rt' = rt
    | (rt', Inr _) \<Rightarrow>
        workspace_publish_queue E rt' w = workspace_publish_queue E rt w
        \<and> (\<forall>m selector path. save_attachment_to_file E rt' w m selector path
            = map_prod (rt_blobs_update (\<lambda>_. rt_blobs rt')) id (save_attachment_to_file E rt w m selector path)))"
proof -
  obtain rt' r where p: "prune_unreferenced_blobs E rt = (rt', r)" by fastforce
  show ?thesis
  proof (cases r)
    case (Inl err)
    then show ?thesis using p prune_blobs_fails by simp
  next
    case (Inr report)
    then obtain hashes blobs mr where rt': "rt' = rt\<lparr>rt_blobs := blobs\<rparr>"
      "referenced_blobs E rt (list_workspace_ids (rt_store rt)) = Inr hashes"
      "prune_unreferenced (media_lib E) (rt_blobs rt) (set hashes) = (blobs, Inr mr)"
      using p pruned_runtime by blast
    have "same_blob (media_lib E) (rt_blobs rt) blobs h"
      if "materialized_workspace_events E rt w = Inr events" "h \<in> attached events" for events h
      using attached_survives [OF rt'(3,2) that] .
    note same = this [unfolded same_blob_def]
    have "workspace_publish_queue E rt' w = workspace_publish_queue E rt w"
      unfolding rt'(1) using same by (intro queue_moves) blast
    moreover have "save_attachment_to_file E rt' w m selector path
        = map_prod (rt_blobs_update (\<lambda>_. blobs)) id (save_attachment_to_file E rt w m selector path)" for m selector path
      unfolding rt'(1) using same by (intro save_moves) blast
    ultimately show ?thesis using p Inr rt'(1) by simp
  qed
qed

end
