(* ===== verification/Spec2Isabelle.thy ===== *)
theory Spec2Isabelle
  imports Trust_Properties Domain_Properties Sync_Properties Write_Properties Group_Properties Compromise_Properties
    Attachment_Properties
begin

text \<open>
  Verification of chaft, a peer-to-peer team chat whose replicas exchange signed events.

  \<^bold>\<open>The program.\<close>  A workspace is a set of signed events (\<^verbatim>\<open>src/domain/types\<close>).  Each replica decides which
  events it accepts and shows the result (\<^verbatim>\<open>src/domain/core\<close>): an access index authorises an event, a
  workspace state materialises it into views, a batch applies events in causal order.  A replica
  without a materialised state decides by replaying a history, and a replica without the history
  decides by a trust snapshot that the workspace owner signed.  Events are signed and verified by
  device identities (\<^verbatim>\<open>src/security/identity\<close>), their content is sealed with content keys
  (\<^verbatim>\<open>src/security/crypto\<close>), they are kept in a table (\<^verbatim>\<open>src/storage/store\<close>) and pulled from other peers
  (\<^verbatim>\<open>src/network/sync\<close>).  Attachments are blobs of a media store (\<^verbatim>\<open>src/storage/media\<close>), whole or in chunks.  A device writes (\<^verbatim>\<open>src/runtime\<close>) by materialising its store, choosing the content
  key it encrypts with, and signing, authorising and appending an event whose parents are the heads
  of the history.  The commits of MLS groups travel as events of the workspace; a device reads the members
  of its groups off them, removes members only from groups it is clear about, and rotates its keys when an
  event in its name does not verify.

  \<^bold>\<open>The theories.\<close>  Definitions keep the names of the source; a method of a struct carries the name of
  the struct where two would clash (\<open>index_new\<close>, \<open>state_new\<close>, \<open>inventory_has\<close>).
  \<^item> \<open>Prelude\<close>: results (\<open>bind_res\<close> is the \<open>?\<close> operator), machine integers, hash maps as finite maps, the
    string functions and address parsers of the Rust library.
  \<^item> \<open>Domain_Types\<close>, \<open>Domain_Checks\<close>: identifiers, event bodies and records, and their validation and
    encodings; \<open>Domain_Properties\<close> has the round trips of avatars and storage classes.
  \<^item> \<open>Event_Validation\<close>: the checks of identifiers and payload sizes of events and snapshots.
  \<^item> \<open>Event_Machine\<close>: accepted runs of a machine, with locales for invariants and orders of its states.
  \<^item> \<open>Access_Index\<close>: the record \<open>WorkspaceAccessIndex\<close> with \<open>authorize\<close> and \<open>apply_authorized\<close>.
    \<open>Access_Invariant\<close> shows that accepted events keep it well formed, \<open>Access_Policy\<close> what the policy
    guarantees (private channels, roles, removal, invites, message edits) and two places where it
    gives less than it seems to; \<open>Scenario\<close> is a small workspace for closed examples.
  \<^item> \<open>Workspace_State\<close>: the views and every arm of \<open>apply_ready_event\<close>.  \<open>State_Refinement\<close> shows that the
    views refine the index; \<open>State_Properties\<close> draws the consequences.
  \<^item> \<open>Batch\<close>: \<open>apply_batch\<close> with its ready heaps and waiting lists.  \<open>Batch_Correct\<close> has the invariant of
    the scheduler, \<open>Batch_Properties\<close> soundness, saturation, conflicts and failures, \<open>Batch_Ordered\<close>
    the equivalence with applying one by one.
  \<^item> \<open>History\<close>: \<open>authorize_event_with_history\<close>, the worklist that isolates conflicting channel definitions
    and the replay; \<open>History_Correct\<close> and \<open>History_Properties\<close>.
  \<^item> \<open>Trust_Snapshot\<close>: loading, producing and narrowing snapshots; \<open>Trust_Correct\<close>, \<open>Trust_Scope\<close> and
    \<open>Trust_Properties\<close> show what loads, the round trip and which decisions narrowing preserves.
  \<^item> \<open>Crypto\<close>, \<open>Identity\<close>: sealed payloads, device identities, signatures, verification and identity
    files; \<open>Crypto_Properties\<close> and \<open>Identity_Properties\<close>.
  \<^item> \<open>Store\<close>: the table of events as the list of its rows in the order of row identifiers, every
    operation as its SQL statement with the code around it.  \<open>Store_Correct\<close> has the invariant and the locale
    \<open>servable_log\<close> of what a log of events promises to its clients, \<open>Store_Metadata\<close> the bookkeeping of
    the repair and of the chunked filter, \<open>Store_Properties\<close> the refinement of a map and atomicity.
  \<^item> \<open>Sync\<close>: inventories, plans and the pull.  \<open>Sync_Correct\<close> and \<open>Sync_Properties\<close> use the contract
    \<open>servable_log\<close> of the store and the guarantees of the batch.
  \<^item> \<open>Media\<close>: the media store as a map from paths below its root to contents, with blobs, manifests, chunks, the
    plan of a transfer and pruning.  \<open>Media_Correct\<close> has the locale \<open>hashed_files\<close> of files that are named by
    their hash, interpreted for blobs and for chunks, and \<open>Media_Properties\<close> integrity, the round trip and
    two ways to lose a blob.
  \<^item> \<open>Local_Secret\<close>: the encrypted files in which a device keeps its secrets, the file system as a map, and
    the record \<open>LocalRuntime\<close>.  \<open>Content_Keys\<close>: the keys of workspaces and channels, their epochs, files,
    exports and imports.  \<open>Key_Rings\<close> has the locale \<open>key_ring\<close> of a key that is rotated, interpreted for
    both kinds of keys, and \<open>Key_Properties\<close> the round trips and the bound of the epoch.
  \<^item> \<open>Local_Write\<close>: the write context and its heads, the content key of a write, the authorised append and
    key rotation.  \<open>Local_Actions\<close>, \<open>Local_Admin\<close>, \<open>Local_Messages\<close>: the actions of a device, with an
    operation returning the runtime next to its result.  \<open>Write_Correct\<close> has the invariant of a device on
    which only local actions happen, \<open>Action_Invariant\<close> shows that every action keeps it, \<open>Local_Machine\<close>
    is the step relation with one rule per action, \<open>Device_Scenario\<close> an example device and
    \<open>Write_Properties\<close> what a writer may rely on.
  \<^item> \<open>Attachments\<close>: sending a file, saving an attachment, pruning the media store of a device, and the publish
    queue; \<open>Attachment_Properties\<close> shows that the queue is exact and that pruning loses no attachment.
  \<^item> \<open>Group_Index\<close>: what the events of a workspace say about its MLS groups; \<open>Group_Correct\<close> has the locale
    \<open>group_log\<close> of a log that adds and removes members of groups, interpreted for the groups of the workspace
    and of the channels.  \<open>Mls_Types\<close>, \<open>Group_Actions\<close>: key packages, groups, invitations and commits.
    \<open>Member_Removal\<close>: removing members from the workspace and from channels, \<open>Removal_Correct\<close> the commits
    that count for it, \<open>Group_Properties\<close> what groups guarantee.
  \<^item> \<open>Provisioning\<close>: inviting members, opening channels to them, direct messages, and the automatic provisioning
    of groups that follows; \<open>Provisioning_Correct\<close> shows that they keep the invariant of a device also when a
    step of the provisioning fails, and how many key packages are published.
  \<^item> \<open>Compromise\<close>: signals of a compromise, the response to them and its ledger; \<open>Compromise_Properties\<close>.
  \<^item> This theory: the three authorities of a workspace agree.

  \<^bold>\<open>Parameters.\<close>  Code outside the repository is an argument of the definitions that call it: the
  iteration order of hash maps (\<open>invite_iteration\<close>, \<open>origin_iteration\<close>), blake3, Ed25519, Argon2id,
  AES-256-GCM-SIV, the JSON serialiser, the transport, the functions of the MLS crate,
  random bytes, the clock and the results of file system calls.  What the code relies on are hypotheses of the theorems (\<open>aead_law\<close>, \<open>hash_law\<close>,
  \<open>manifest_law\<close>, \<open>signature_law\<close>, \<open>codec\<close>, \<open>origin_enumeration\<close>, \<open>ledger_file_law\<close>, the file laws of the keys, \<open>env_laws\<close>), and the witnesses instantiate them.

  \<^bold>\<open>Termination and bounds.\<close>  Every definition is total and no fuel is used.  The rounds of a batch
  decrease the number of pending events, the replay the number of deferred events, the conflict
  worklist a measure of ranks of origins, the collection of ancestors the number of unseen events.  Counters are \<open>u32\<close> words with saturation where the code
  saturates (reaction counts, invite claims), key epochs are \<open>u64\<close> words that wrap around; sizes are compared as natural numbers.

  \<^bold>\<open>Not modelled.\<close>  Of the runtime, invitations over the network, recovery, export and the asynchronous
  synchronisation; the applications and the bindings that orchestrate it; the transports and the
  wire codec, which are sockets and generated protobuf code; the protocol of MLS groups, which are calls into OpenMLS;
  the search index, which is SQLite full text search; the view model,
  which formats the modelled views.  Within the modelled crates, failures of SQL statements and of the
  file system other than a missing file, the temporary files behind files that are written, empty
  directories, random generation,
  the zeroing of memory and \<open>Display\<close> implementations are left out.

  \<^bold>\<open>Plan.\<close>  Next are the other pure parts of the runtime (blob transfer planning,
  materialisation health) and the validation of wire messages.
\<close>

section \<open>The three authorities\<close>

text \<open>
  C5: a peer decides about an event by the access index of its state, by a history it replays, or
  by a trust snapshot of that history. For a history that \<open>apply\<close> accepted event by event and whose
  root is still an owner, the three give the same decision, errors included, about every event of
  the workspace that does not refer to invites or join requests, which snapshots do not carry.
\<close>

theorem authorities_agree:
  assumes "accepted_run (apply_event vals) (state_new w) events st" "distinct (map sg_event_id events)"
    "ix_root_device_id (ws_access_index st) = Some root" "role_for (ws_access_index st) root = Some Owner"
    "origin_enumeration keys" "ev_workspace ev = w" "\<not> reads_invites (ev_body ev)"
  shows "\<exists>snapshot root_event. trust_snapshot_from_events vals w events = Inr (snapshot, root_event)
    \<and> authorize_event_with_trust_snapshot snapshot ev = authorize (ws_access_index st) ev
    \<and> authorize_event_with_history keys events ev = authorize (ws_access_index st) ev"
proof -
  have "accepted_run authorize_and_apply (index_new w) events (ws_access_index st)"
    using index_of_run [OF assms(1)] by (simp add: state_new_def)
  then have "authorize_event_with_history keys events ev = authorize (ws_access_index st) ev"
    using history_agrees_with_run [OF assms(5) _ run_is_causal [OF assms(1,2)]] assms(6) by blast
  moreover obtain snapshot root_event where
    "trust_snapshot_from_events vals w events = Inr (snapshot, root_event)"
    "from_trust_snapshot snapshot = Inr (snapshot_view (ws_access_index st))"
    using history_snapshot [OF assms(1-4)] by blast
  ultimately show ?thesis
    by (auto simp: authorize_event_with_trust_snapshot_def bind_res_def authorize_snapshot_view assms(7))
qed

theorem authorities_agree_witness:
  "\<exists>snapshot root_event. trust_snapshot_from_events sorted_values team team_history = Inr (snapshot, root_event)
    \<and> authorize_event_with_trust_snapshot snapshot grant_bob = authorize (ws_access_index team_state) grant_bob
    \<and> authorize_event_with_history sorted_keys team_history grant_bob
      = authorize (ws_access_index team_state) grant_bob"
  by (rule authorities_agree [OF team_state_run team_ids team_state_root sorted_origins.origin_enumeration_axioms])
    (simp_all add: grant_bob_def reads_invites_def)

end
